(* ===== verification/Prelude.thy ===== *)
theory Prelude
  imports "HOL-Library.Word"
begin

text \<open>
  Shared vocabulary of the development: machine-integer and byte types, the exceptions of the
  library, the two effect shapes its code has (a decoder that moves a cursor or throws, and an
  operation on a connection that may also never return), and the generic rules about them.
\<close>

unbundle bit_operations_syntax

named_theorems eff_simps "unfolding of the sequencing operators on a given state"
named_theorems safe_intros "composition rules for cursor safety of decoders"
named_theorems rel_intros "composition rules for relational invariants of operations"

subsection \<open>Types\<close>

type_synonym byte = "8 word"
type_synonym u16 = "16 word"
type_synonym u32 = "32 word"
type_synonym u64 = "64 word"

text \<open>A \<open>std::string\<close> is a sequence of bytes; a literal of the source is \<open>bytes_of ''...''\<close>.\<close>

type_synonym cstring = "byte list"

definition bytes_of :: "string \<Rightarrow> cstring" where
  "bytes_of s = map of_char s"

text \<open>\<open>std::to_string\<close> on unsigned values: decimal digits, most significant first.\<close>

fun to_string :: "nat \<Rightarrow> string" where
  "to_string n =
     (if n < 10 then [char_of (48 + n)]
      else to_string (n div 10) @ [char_of (48 + n mod 10)])"

declare to_string.simps [simp del]

text \<open>A sequence of statements, each of which updates the same object.\<close>

fun steps :: "('a \<Rightarrow> 'a) list \<Rightarrow> 'a \<Rightarrow> 'a" where
  "steps [] x = x"
| "steps (f # fs) x = steps fs (f x)"

subsection \<open>Exceptions\<close>

text \<open>
  \<open>std::runtime_error\<close> with its message, and the two subclasses that carry a status word and the
  procedure's name (\<open>NfsError\<close>, \<open>Nfs4Error\<close>), and the failed check of a compliance test
  (\<open>ComplianceFailure\<close>, and its namesakes for NFSv4; no program has more than one of the three).
\<close>

datatype error =
    RuntimeError string
  | NfsError u32 string
  | Nfs4Error u32 string
  | ComplianceFailure string

subsection \<open>Decoders: a cursor and an exception\<close>

type_synonym ('s, 'a) parser = "'s \<Rightarrow> error + 'a \<times> 's"

definition dreturn :: "'a \<Rightarrow> ('s, 'a) parser" where
  "dreturn x s = Inr (x, s)"

definition dbind :: "('s, 'a) parser \<Rightarrow> ('a \<Rightarrow> ('s, 'b) parser) \<Rightarrow> ('s, 'b) parser" where
  "dbind p f s = (case p s of Inl e \<Rightarrow> Inl e | Inr (x, s') \<Rightarrow> f x s')"

definition throw_if :: "bool \<Rightarrow> error \<Rightarrow> ('s, unit) parser" where
  "throw_if c e s = (if c then Inl e else Inr ((), s))"

lemmas [eff_simps] = dreturn_def dbind_def throw_if_def

lemma dbind_Inr_iff:
  "dbind p f s = Inr r \<longleftrightarrow> (\<exists>x s'. p s = Inr (x, s') \<and> f x s' = Inr r)"
  by (auto simp: dbind_def split: sum.splits prod.splits)

text \<open>Repeating a decoder a fixed number of times (\<open>for (i = 0; i < n; ++i) x = dec.get();\<close>).\<close>

primrec dtimes :: "nat \<Rightarrow> ('s, 'a) parser \<Rightarrow> ('s, 'a list) parser" where
  "dtimes 0 p = dreturn []"
| "dtimes (Suc n) p = dbind p (\<lambda>x. dbind (dtimes n p) (\<lambda>xs. dreturn (x # xs)))"

subsection \<open>Operations: a state, an exception, and divergence\<close>

text \<open>
  \<open>None\<close> is an operation that never returns. Otherwise the outcome is an exception or a value,
  and the state it leaves behind in either case (an exception does not undo its effects).
\<close>

type_synonym ('s, 'a) io = "'s \<Rightarrow> ((error + 'a) \<times> 's) option"

definition io_return :: "'a \<Rightarrow> ('s, 'a) io" where
  "io_return x s = Some (Inr x, s)"

definition io_throw :: "error \<Rightarrow> ('s, 'a) io" where
  "io_throw e s = Some (Inl e, s)"

definition io_lift :: "error + 'a \<Rightarrow> ('s, 'a) io" where
  "io_lift r s = Some (r, s)"

definition io_bind :: "('s, 'a) io \<Rightarrow> ('a \<Rightarrow> ('s, 'b) io) \<Rightarrow> ('s, 'b) io" where
  "io_bind m f s =
     Option.bind (m s) (\<lambda>(r, s'). case r of Inl e \<Rightarrow> Some (Inl e, s') | Inr x \<Rightarrow> f x s')"

definition io_get :: "('s \<Rightarrow> 'a) \<Rightarrow> ('s, 'a) io" where
  "io_get g s = Some (Inr (g s), s)"

definition io_modify :: "('s \<Rightarrow> 's) \<Rightarrow> ('s, unit) io" where
  "io_modify g s = Some (Inr (), g s)"

text \<open>A step of the environment that always returns, and a branch that throws.\<close>

definition io_call :: "('s \<Rightarrow> 'a \<times> 's) \<Rightarrow> ('s, 'a) io" where
  "io_call g s = (case g s of (x, s') \<Rightarrow> Some (Inr x, s'))"

definition io_throw_if :: "bool \<Rightarrow> error \<Rightarrow> ('s, unit) io" where
  "io_throw_if c e s = (if c then Some (Inl e, s) else Some (Inr (), s))"

lemmas [eff_simps] =
  io_return_def io_throw_def io_lift_def io_bind_def io_get_def io_modify_def io_call_def
  io_throw_if_def

text \<open>\<open>try { ... } catch (const std::exception& e) { ... }\<close>: the outcome as a value.\<close>

definition io_try :: "('s, 'a) io \<Rightarrow> ('s, error + 'a) io" where
  "io_try m s = map_option (\<lambda>(r, s'). (Inr r, s')) (m s)"

text \<open>
  A component that holds another one as a member runs it on that part of its own state.
\<close>

definition io_zoom :: "('s \<Rightarrow> 't) \<Rightarrow> ('t \<Rightarrow> 's \<Rightarrow> 's) \<Rightarrow> ('t, 'a) io \<Rightarrow> ('s, 'a) io" where
  "io_zoom g u m s = map_option (\<lambda>(r, t). (r, u t s)) (m (g s))"

text \<open>The monotonicity that \<^theory_text>\<open>partial_function\<close> needs to recurse under a sequence.\<close>

lemma io_bind_mono [partial_function_mono]:
  assumes "mono_option (\<lambda>f. B f s)" and "\<And>x s'. mono_option (\<lambda>f. C x f s')"
  shows "mono_option (\<lambda>f. io_bind (B f) (\<lambda>x. C x f) s)"
  unfolding io_bind_def
proof (rule bind_mono, goal_cases)
  case 1
  show ?case by (rule assms(1))
next
  case (2 y)
  show ?case
    by (cases y; cases "fst y") (auto intro: assms option.const_mono)
qed

lemma io_try_mono [partial_function_mono]:
  "mono_option (\<lambda>f. B f s) \<Longrightarrow> mono_option (\<lambda>f. io_try (B f) s)"
  unfolding io_try_def map_conv_bind_option by (rule bind_mono) (auto intro: option.const_mono)

lemma io_bind_Some_iff:
  "io_bind m f s = Some (r, s') \<longleftrightarrow>
     (\<exists>e. m s = Some (Inl e, s') \<and> r = Inl e) \<or>
     (\<exists>x s1. m s = Some (Inr x, s1) \<and> f x s1 = Some (r, s'))"
proof (cases "m s")
  case None
  then show ?thesis by (simp add: io_bind_def)
next
  case (Some o1)
  then obtain q s1 where o1: "m s = Some (q, s1)" by (cases o1) auto
  show ?thesis by (cases q) (auto simp: io_bind_def o1)
qed

lemma io_bind_Inr_iff:
  "io_bind m f s = Some (Inr y, s') \<longleftrightarrow>
     (\<exists>x s1. m s = Some (Inr x, s1) \<and> f x s1 = Some (Inr y, s'))"
  by (auto simp: io_bind_Some_iff)

lemma io_zoom_Some_iff:
  "io_zoom g u m s = Some (r, s') \<longleftrightarrow> (\<exists>t. m (g s) = Some (r, t) \<and> s' = u t s)"
  by (auto simp: io_zoom_def)

subsection \<open>Relational invariants of operations\<close>

text \<open>
  \<open>io_rel R m\<close>: whenever \<open>m\<close> returns (with a value or an exception), the state before and the
  state after are related by \<open>R\<close>.
\<close>

definition io_rel :: "('s \<Rightarrow> 's \<Rightarrow> bool) \<Rightarrow> ('s, 'a) io \<Rightarrow> bool" where
  "io_rel R m \<longleftrightarrow> (\<forall>s r s'. m s = Some (r, s') \<longrightarrow> R s s')"

lemma io_relI: "(\<And>s r s'. m s = Some (r, s') \<Longrightarrow> R s s') \<Longrightarrow> io_rel R m"
  by (simp add: io_rel_def)

lemma io_relD: "io_rel R m \<Longrightarrow> m s = Some (r, s') \<Longrightarrow> R s s'"
  by (auto simp: io_rel_def)

lemma io_rel_bind:
  assumes m: "io_rel R m" and f: "\<And>x. io_rel Q (f x)"
    and RP: "\<And>s s'. R s s' \<Longrightarrow> P s s'" and RQ: "\<And>s t u. R s t \<Longrightarrow> Q t u \<Longrightarrow> P s u"
  shows "io_rel P (io_bind m f)"
proof (rule io_relI)
  fix s r s' assume "io_bind m f s = Some (r, s')"
  then consider e where "m s = Some (Inl e, s')"
    | x s1 where "m s = Some (Inr x, s1)" "f x s1 = Some (r, s')"
    by (auto simp: io_bind_Some_iff)
  then show "P s s'"
  proof cases
    case 1
    then show ?thesis by (rule RP [OF io_relD [OF m]])
  next
    case 2
    then show ?thesis by (rule RQ [OF io_relD [OF m] io_relD [OF f]])
  qed
qed

text \<open>The pure steps leave the state alone.\<close>

definition io_pure :: "('s, 'a) io \<Rightarrow> bool" where
  "io_pure m \<longleftrightarrow> io_rel (=) m"

lemma io_pure_intros [rel_intros]:
  "io_pure (io_return x)" "io_pure (io_throw e)" "io_pure (io_lift v)" "io_pure (io_get g)"
  "io_pure (io_throw_if c e)"
  by (auto simp: io_pure_def io_rel_def eff_simps)

lemma io_pure_bind [rel_intros]:
  assumes "io_pure m" and "\<And>x. io_pure (f x)"
  shows "io_pure (io_bind m f)"
  using assms unfolding io_pure_def by (rule io_rel_bind) auto

lemma io_rel_pure_bind:
  assumes "io_rel R m" and "\<And>x. io_pure (f x)"
  shows "io_rel R (io_bind m f)"
  using assms unfolding io_pure_def by (rule io_rel_bind) auto

lemma io_pure_rel_bind:
  assumes "io_pure m" and "\<And>x. io_rel R (f x)" and "\<And>s. R s s"
  shows "io_rel R (io_bind m f)"
  using assms(1,2) unfolding io_pure_def by (rule io_rel_bind) (auto simp: assms(3))

subsection \<open>The value of an operation, renamed\<close>

definition io_map :: "('a \<Rightarrow> 'b) \<Rightarrow> ('s, 'a) io \<Rightarrow> ('s, 'b) io" where
  "io_map f m s = map_option (\<lambda>(r, s'). (map_sum id f r, s')) (m s)"

lemma io_map_bind_lift:
  "io_map f (io_bind m (\<lambda>x. io_lift (g x))) = io_bind m (\<lambda>x. io_lift (map_sum id f (g x)))"
proof
  fix s
  show "io_map f (io_bind m (\<lambda>x. io_lift (g x))) s = io_bind m (\<lambda>x. io_lift (map_sum id f (g x))) s"
  proof (cases "m s")
    case (Some o1)
    then show ?thesis by (cases "fst o1"; cases o1) (auto simp: io_map_def eff_simps)
  qed (simp add: io_map_def eff_simps)
qed

lemma io_map_lift: "io_map f (io_lift r) = io_lift (map_sum id f r)"
  by (rule ext) (simp add: io_map_def eff_simps)

lemma io_map_bind: "io_map f (io_bind m g) = io_bind m (\<lambda>x. io_map f (g x))"
proof
  fix s
  show "io_map f (io_bind m g) s = io_bind m (\<lambda>x. io_map f (g x)) s"
    by (cases "m s") (auto simp: io_map_def eff_simps split: sum.splits prod.splits)
qed

lemma io_map_Some: "io_map f m s = Some (q, s') \<longleftrightarrow> (\<exists>r. m s = Some (r, s') \<and> q = map_sum id f r)"
  by (auto simp: io_map_def)

lemma io_bind_assoc: "io_bind (io_bind m f) g = io_bind m (\<lambda>x. io_bind (f x) g)"
proof
  fix s
  show "io_bind (io_bind m f) g s = io_bind m (\<lambda>x. io_bind (f x) g) s"
    by (cases "m s") (auto simp: io_bind_def split: sum.splits prod.splits)
qed

text \<open>Sequencing of decoders is associative and has a unit.\<close>

lemma dbind_dreturn: "dbind (dreturn x) f = f x"
  by (rule ext) (simp add: eff_simps)

lemma dbind_assoc: "dbind (dbind p f) g = dbind p (\<lambda>x. dbind (f x) g)"
  by (rule ext) (auto simp: dbind_def split: sum.splits prod.splits)

subsection \<open>Words and strings\<close>

lemma unat_u32_u64: "unat (ucast (x :: u32) :: u64) = unat x"
  using unsigned_less [of x, where 'a = nat] by (simp add: unsigned_ucast_eq take_bit_nat_eq_self)

lemma unat_u64_u32: "unat (x :: u64) < 2 ^ 32 \<Longrightarrow> unat (ucast x :: u32) = unat x"
  by (simp add: unsigned_ucast_eq take_bit_nat_eq_self)

lemma length_bytes_of: "length (bytes_of a) = length a"
  by (simp add: bytes_of_def)

lemma unat_of_char: "unat (of_char c :: byte) = of_char c"
proof -
  have "(of_char c :: byte) = word_of_nat (of_char c)" by (simp add: of_nat_of_char)
  then show ?thesis by (simp add: unat_of_nat)
qed

lemma bytes_of_eq: "bytes_of a = bytes_of b \<longleftrightarrow> a = b"
proof -
  have "inj (of_char :: char \<Rightarrow> byte)" by (rule injI) (metis unat_of_char of_char_eq_iff)
  then show ?thesis by (simp add: bytes_of_def inj_map_eq_map)
qed

end
