(* ===== verification/Xdr.thy ===== *)
theory Xdr
  imports Prelude
begin

text \<open>
  \<open>src/xdr/xdr.hpp\<close>, \<open>src/xdr/xdr.cpp\<close>: the XDR encoder (a byte buffer that only grows) and
  decoder (a byte buffer with a cursor, throwing on underflow). The encoder's \<open>buf_\<close> is a list of
  bytes; the decoder's \<open>data_\<close>, \<open>size_\<close> are a list and its length, \<open>offset_\<close> a natural number
  (\<open>require_size_t\<close> has the 64-bit arithmetic of the check). A pointer and a size is the list of
  the bytes they span. The locale \<open>wire_codec\<close> is the contract every data type of the protocol
  keeps: what was encoded is decoded again, and the cursor stops right behind it.
\<close>

subsection \<open>XdrEncoder\<close>

type_synonym xdr_encoder = "byte list"

definition put_uint32 :: "u32 \<Rightarrow> xdr_encoder \<Rightarrow> xdr_encoder" where
  "put_uint32 v buf = buf @
     [ucast (drop_bit 24 v AND 0xFF),
      ucast (drop_bit 16 v AND 0xFF),
      ucast (drop_bit 8 v AND 0xFF),
      ucast (v AND 0xFF)]"

definition put_uint64 :: "u64 \<Rightarrow> xdr_encoder \<Rightarrow> xdr_encoder" where
  "put_uint64 v =
     steps [
     put_uint32 (ucast (drop_bit 32 v)),
     put_uint32 (ucast (v AND 0xFFFFFFFF))]"

definition xdr_pad :: "nat \<Rightarrow> nat" where
  "xdr_pad n = (4 - n mod 4) mod 4"

definition put_opaque :: "byte list \<Rightarrow> xdr_encoder \<Rightarrow> xdr_encoder" where
  "put_opaque data =
     steps [
     put_uint32 (word_of_nat (length data)),
     (\<lambda>buf. buf @ data),
     (\<lambda>buf. buf @ replicate (xdr_pad (length data)) 0)]"

definition put_string :: "cstring \<Rightarrow> xdr_encoder \<Rightarrow> xdr_encoder" where
  "put_string s = put_opaque s"

definition put_fixed_opaque :: "byte list \<Rightarrow> xdr_encoder \<Rightarrow> xdr_encoder" where
  "put_fixed_opaque data =
     steps [
     (\<lambda>buf. buf @ data),
     (\<lambda>buf. buf @ replicate (xdr_pad (length data)) 0)]"

text \<open>A fresh encoder, the calls made on it, and \<open>release()\<close>.\<close>

definition encode :: "(xdr_encoder \<Rightarrow> xdr_encoder) \<Rightarrow> byte list" where
  "encode f = f []"

subsection \<open>XdrDecoder\<close>

record xdr_decoder =
  xd_data :: "byte list"
  xd_offset :: nat

type_synonym 'a decoder = "(xdr_decoder, 'a) parser"

definition XdrDecoder :: "byte list \<Rightarrow> xdr_decoder" where
  "XdrDecoder v = \<lparr>xd_data = v, xd_offset = 0\<rparr>"

definition xd_size :: "xdr_decoder \<Rightarrow> nat" where
  "xd_size d = length (xd_data d)"

definition remaining :: "xdr_decoder \<Rightarrow> nat" where
  "remaining d = xd_size d - xd_offset d"

definition underflow :: error where
  "underflow = RuntimeError ''XdrDecoder: buffer underflow''"

definition require :: "nat \<Rightarrow> unit decoder" where
  "require n d = (if xd_offset d + n > xd_size d then Inl underflow else Inr ((), d))"

text \<open>The same check in the 64-bit arithmetic of \<open>size_t\<close>.\<close>

definition require_size_t :: "u64 \<Rightarrow> u64 \<Rightarrow> u64 \<Rightarrow> bool" where
  "require_size_t off n sz = (\<not> off + n > sz)"

definition advance :: "nat \<Rightarrow> unit decoder" where
  "advance n d = Inr ((), d\<lparr>xd_offset := xd_offset d + n\<rparr>)"

definition peek :: "nat \<Rightarrow> byte list decoder" where
  "peek n d = Inr (take n (drop (xd_offset d) (xd_data d)), d)"

definition get_uint32 :: "u32 decoder" where
  "get_uint32 = dbind (require 4) (\<lambda>_ d.
     let byte_at = (\<lambda>i. ucast (xd_data d ! (xd_offset d + i)) :: u32);
         v = push_bit 24 (byte_at 0) OR push_bit 16 (byte_at 1) OR
             push_bit 8 (byte_at 2) OR byte_at 3
     in Inr (v, d\<lparr>xd_offset := xd_offset d + 4\<rparr>))"

definition get_uint64 :: "u64 decoder" where
  "get_uint64 =
     dbind get_uint32 (\<lambda>hi.
     dbind get_uint32 (\<lambda>lo.
     dreturn (push_bit 32 (ucast hi) OR ucast lo)))"

definition get_fixed_opaque :: "nat \<Rightarrow> byte list decoder" where
  "get_fixed_opaque n =
     dbind (require n) (\<lambda>_.
     dbind (peek n) (\<lambda>result.
     dbind (advance n) (\<lambda>_.
     dbind (require (xdr_pad n)) (\<lambda>_.
     dbind (advance (xdr_pad n)) (\<lambda>_.
     dreturn result)))))"

definition get_opaque :: "byte list decoder" where
  "get_opaque =
     dbind get_uint32 (\<lambda>len.
     dbind (require (unat len)) (\<lambda>_.
     dbind (peek (unat len)) (\<lambda>result.
     dbind (advance (unat len)) (\<lambda>_.
     dbind (require (xdr_pad (unat len))) (\<lambda>_.
     dbind (advance (xdr_pad (unat len))) (\<lambda>_.
     dreturn result))))))"

definition get_string :: "cstring decoder" where
  "get_string = get_opaque"

definition get_remaining :: "byte list decoder" where
  "get_remaining d = Inr (drop (xd_offset d) (xd_data d), d\<lparr>xd_offset := xd_size d\<rparr>)"

text \<open>A decoder run on a whole buffer, its final cursor dropped.\<close>

definition decode :: "'a decoder \<Rightarrow> byte list \<Rightarrow> error + 'a" where
  "decode p v = map_sum id fst (p (XdrDecoder v))"

subsection \<open>What the encoder appends\<close>

text \<open>\<open>be32\<close>, \<open>be64\<close>, \<open>wire_opaque\<close>, \<open>wire_fixed\<close>: the bytes each call adds to any buffer.\<close>

definition be32 :: "u32 \<Rightarrow> byte list" where
  "be32 v = put_uint32 v []"

definition be64 :: "u64 \<Rightarrow> byte list" where
  "be64 v = put_uint64 v []"

definition wire_opaque :: "byte list \<Rightarrow> byte list" where
  "wire_opaque bs = be32 (word_of_nat (length bs)) @ bs @ replicate (xdr_pad (length bs)) 0"

definition wire_fixed :: "byte list \<Rightarrow> byte list" where
  "wire_fixed bs = bs @ replicate (xdr_pad (length bs)) 0"

named_theorems put_simps "what an encoding step appends to the buffer"

lemma put_uint32_append [put_simps]: "put_uint32 v buf = buf @ be32 v"
  by (simp add: be32_def put_uint32_def)

lemma put_uint64_append [put_simps]: "put_uint64 v buf = buf @ be64 v"
  by (simp add: be64_def put_uint64_def put_uint32_append)

lemma put_opaque_append [put_simps]: "put_opaque bs buf = buf @ wire_opaque bs"
  by (simp add: put_opaque_def wire_opaque_def put_uint32_append)

lemma put_fixed_opaque_append [put_simps]: "put_fixed_opaque bs buf = buf @ wire_fixed bs"
  by (simp add: put_fixed_opaque_def wire_fixed_def)

lemma put_string_append [put_simps]: "put_string s buf = buf @ wire_opaque s"
  by (simp add: put_string_def put_opaque_append)

declare encode_def [put_simps]

lemma length_be32 [simp]: "length (be32 v) = 4"
  by (simp add: be32_def put_uint32_def)

lemma length_be64 [simp]: "length (be64 v) = 8"
  by (simp add: be64_def put_uint64_def put_uint32_append)

lemma xdr_pad_lt: "xdr_pad n < 4"
  by (simp add: xdr_pad_def)

lemma xdr_pad_aligns: "4 dvd n + xdr_pad n"
proof -
  have "n mod 4 = 0 \<or> n mod 4 = 1 \<or> n mod 4 = 2 \<or> n mod 4 = 3" by linarith
  then have "(n mod 4 + xdr_pad n) mod 4 = 0" by (auto simp: xdr_pad_def)
  then have "(n + xdr_pad n) mod 4 = 0" by (simp add: mod_add_left_eq)
  then show ?thesis by (simp add: dvd_eq_mod_eq_0)
qed

lemma xdr_pad_8 [simp]: "xdr_pad 8 = 0" "xdr_pad 12 = 0" "xdr_pad 16 = 0"
  by (simp_all add: xdr_pad_def)

lemma length_wire_fixed: "length (wire_fixed bs) = length bs + xdr_pad (length bs)"
  by (simp add: wire_fixed_def)

lemma length_wire_opaque: "length (wire_opaque bs) = 4 + length bs + xdr_pad (length bs)"
  by (simp add: wire_opaque_def)

lemma wire_opaque_aligned: "4 dvd length (wire_opaque bs)"
  using xdr_pad_aligns [of "length bs"] by (simp add: length_wire_opaque add.assoc)

subsection \<open>Decoding at a position\<close>

text \<open>
  \<open>at pre rest\<close> is the decoder whose cursor stands between \<open>pre\<close> and \<open>rest\<close>; the lemmas say
  what each call returns there and where the cursor is afterwards.
\<close>

definition at :: "byte list \<Rightarrow> byte list \<Rightarrow> xdr_decoder" where
  "at pre rest = \<lparr>xd_data = pre @ rest, xd_offset = length pre\<rparr>"

named_theorems at_simps "evaluation of decoding steps at a position"

lemma XdrDecoder_at: "XdrDecoder v = at [] v"
  by (simp add: XdrDecoder_def at_def)

lemma require_at: "require n (at pre rest) = (if length rest < n then Inl underflow else Inr ((), at pre rest))"
  by (auto simp: require_def at_def xd_size_def)

lemma peek_at: "peek n (at pre rest) = Inr (take n rest, at pre rest)"
  by (simp add: peek_def at_def)

lemma advance_at: "advance (length bs) (at pre (bs @ rest)) = Inr ((), at (pre @ bs) rest)"
  by (simp add: advance_def at_def)

lemma get_uint32_bytes:
  "get_uint32 (at pre (a # b # c # e # rest)) =
     Inr (push_bit 24 (ucast a) OR push_bit 16 (ucast b) OR push_bit 8 (ucast c) OR ucast e,
          at (pre @ [a, b, c, e]) rest)"
  by (simp add: get_uint32_def dbind_def require_at)
     (simp add: at_def Let_def nth_append)

lemma word32_of_bytes:
  "push_bit 24 (ucast (ucast (drop_bit 24 v AND 0xFF) :: byte)) OR
   push_bit 16 (ucast (ucast (drop_bit 16 v AND 0xFF) :: byte)) OR
   push_bit 8 (ucast (ucast (drop_bit 8 v AND 0xFF) :: byte)) OR
   ucast (ucast (v AND 0xFF) :: byte) = (v :: u32)"
proof -
  have m: "(0xFF :: u32) = mask 8" by (simp add: mask_eq_exp_minus_1)
  show ?thesis
  proof (rule bit_word_eqI)
    fix n assume n: "n < LENGTH(32)"
    then consider "n < 8" | "8 \<le> n" "n < 16" | "16 \<le> n" "n < 24" | "24 \<le> n" "n < 32"
      by fastforce
    then show "bit (push_bit 24 (ucast (ucast (drop_bit 24 v AND 0xFF) :: byte)) OR
        push_bit 16 (ucast (ucast (drop_bit 16 v AND 0xFF) :: byte)) OR
        push_bit 8 (ucast (ucast (drop_bit 8 v AND 0xFF) :: byte)) OR
        ucast (ucast (v AND 0xFF) :: byte) :: u32) n = bit v n"
      unfolding m by cases (simp_all add: bit_simps, arith+)
  qed
qed

lemma get_uint32_at [at_simps]: "get_uint32 (at pre (be32 v @ rest)) = Inr (v, at (pre @ be32 v) rest)"
  unfolding be32_def put_uint32_def by (simp add: get_uint32_bytes word32_of_bytes)

lemma word64_of_halves:
  "push_bit 32 (ucast (ucast (drop_bit 32 v) :: u32)) OR
   ucast (ucast (v AND 0xFFFFFFFF) :: u32) = (v :: u64)"
proof -
  have m: "(0xFFFFFFFF :: u64) = mask 32" by (simp add: mask_eq_exp_minus_1)
  show ?thesis
  proof (rule bit_word_eqI)
    fix n assume n: "n < LENGTH(64)"
    then consider "n < 32" | "32 \<le> n" "n < 64" by fastforce
    then show "bit (push_bit 32 (ucast (ucast (drop_bit 32 v) :: u32)) OR
        ucast (ucast (v AND 0xFFFFFFFF) :: u32) :: u64) n = bit v n"
      unfolding m by cases (simp_all add: bit_simps, arith+)
  qed
qed

lemma be64_be32: "be64 v = be32 (ucast (drop_bit 32 v)) @ be32 (ucast (v AND 0xFFFFFFFF))"
  by (simp add: be64_def put_uint64_def put_uint32_append)

lemma get_uint64_at [at_simps]: "get_uint64 (at pre (be64 v @ rest)) = Inr (v, at (pre @ be64 v) rest)"
  by (simp add: get_uint64_def be64_be32 eff_simps get_uint32_at word64_of_halves)

lemma length_word_of_nat: "length bs < 2 ^ 32 \<Longrightarrow> unat (word_of_nat (length bs) :: u32) = length bs"
  by (simp add: unat_of_nat)

lemma advance_pad_at:
  "advance (xdr_pad n) (at pre (replicate (xdr_pad n) 0 @ rest)) =
     Inr ((), at (pre @ replicate (xdr_pad n) 0) rest)"
  using advance_at [of "replicate (xdr_pad n) 0"] by simp

lemma get_fixed_opaque_at [at_simps]:
  "length bs = n \<Longrightarrow>
   get_fixed_opaque n (at pre (wire_fixed bs @ rest)) = Inr (bs, at (pre @ wire_fixed bs) rest)"
  by (auto simp: get_fixed_opaque_def wire_fixed_def eff_simps require_at peek_at advance_at
      advance_pad_at)

lemma get_opaque_unfold: "get_opaque = dbind get_uint32 (\<lambda>len. get_fixed_opaque (unat len))"
  by (simp add: get_opaque_def get_fixed_opaque_def)

lemma get_opaque_at [at_simps]:
  assumes "length bs < 2 ^ 32"
  shows "get_opaque (at pre (wire_opaque bs @ rest)) = Inr (bs, at (pre @ wire_opaque bs) rest)"
  using get_fixed_opaque_at [OF length_word_of_nat [OF assms, symmetric],
      of "pre @ be32 (word_of_nat (length bs))" rest]
  by (simp add: get_opaque_unfold eff_simps wire_opaque_def wire_fixed_def get_uint32_at)

lemma get_string_at [at_simps]:
  "length s < 2 ^ 32 \<Longrightarrow> get_string (at pre (wire_opaque s @ rest)) = Inr (s, at (pre @ wire_opaque s) rest)"
  by (simp add: get_string_def get_opaque_at)

lemma get_remaining_at [at_simps]: "get_remaining (at pre rest) = Inr (rest, at (pre @ rest) [])"
  by (simp add: get_remaining_def at_def xd_size_def)

lemma decode_at: "decode p v = map_sum id fst (p (at [] v))"
  by (simp add: decode_def XdrDecoder_at)

subsection \<open>The contract of a wire type\<close>

text \<open>
  \<open>enc\<close> is what the sender puts on the wire for a value, \<open>dec\<close> the decoder that reads it, \<open>wf\<close>
  the values the wire type can carry. The law: the decoder returns the value and leaves the
  cursor right behind it, whatever stands before and after.
\<close>

locale wire_codec =
  fixes wf :: "'a \<Rightarrow> bool" and enc :: "'a \<Rightarrow> byte list" and dec :: "'a decoder"
  assumes dec_enc: "wf x \<Longrightarrow> dec (at pre (enc x @ rest)) = Inr (x, at (pre @ enc x) rest)"
begin

lemma dec_enc_end: "wf x \<Longrightarrow> dec (at pre (enc x)) = Inr (x, at (pre @ enc x) [])"
  using dec_enc [of x pre "[]"] by simp

lemma decode_enc: "wf x \<Longrightarrow> decode dec (enc x @ rest) = Inr x"
  by (simp add: decode_at dec_enc [where pre = "[]", simplified])

lemma prefix_free: "wf x \<Longrightarrow> wf y \<Longrightarrow> enc x @ r = enc y @ r' \<Longrightarrow> x = y \<and> r = r'"
  using decode_enc [of x r] decode_enc [of y r'] by (metis append_same_eq same_append_eq sum.inject(2))

lemma enc_inj: "wf x \<Longrightarrow> wf y \<Longrightarrow> enc x = enc y \<Longrightarrow> x = y"
  using prefix_free [of x y "[]" "[]"] by simp

lemma dtimes_enc:
  "list_all wf xs \<Longrightarrow> n = length xs \<Longrightarrow>
   dtimes n dec (at pre (concat (map enc xs) @ rest)) = Inr (xs, at (pre @ concat (map enc xs)) rest)"
proof (induction xs arbitrary: n pre)
  case Nil
  then show ?case by (simp add: eff_simps)
next
  case (Cons x xs)
  then show ?case by (simp add: eff_simps dec_enc)
qed

end

interpretation u32c: wire_codec "\<lambda>_. True" be32 get_uint32
  by unfold_locales (rule get_uint32_at)

interpretation u64c: wire_codec "\<lambda>_. True" be64 get_uint64
  by unfold_locales (rule get_uint64_at)

interpretation opaquec: wire_codec "\<lambda>bs. length bs < 2 ^ 32" wire_opaque get_opaque
  by unfold_locales (rule get_opaque_at)

interpretation stringc: wire_codec "\<lambda>bs. length bs < 2 ^ 32" wire_opaque get_string
  by unfold_locales (rule get_string_at)

interpretation fixedc: wire_codec "\<lambda>bs. length bs = n" wire_fixed "get_fixed_opaque n" for n
  by unfold_locales (rule get_fixed_opaque_at)

subsection \<open>Cursor safety\<close>

text \<open>
  No decoder moves its cursor backwards or past the end of the buffer, and none changes the
  buffer. Loops over a decoder terminate because of it.
\<close>

definition cursor_ok :: "xdr_decoder \<Rightarrow> bool" where
  "cursor_ok d \<longleftrightarrow> xd_offset d \<le> xd_size d"

definition dec_safe :: "'a decoder \<Rightarrow> bool" where
  "dec_safe p \<longleftrightarrow> (\<forall>d x d'. p d = Inr (x, d') \<longrightarrow>
     xd_data d' = xd_data d \<and> xd_offset d \<le> xd_offset d' \<and> (cursor_ok d \<longrightarrow> cursor_ok d'))"

lemma dec_safeD: "dec_safe p \<Longrightarrow> p d = Inr (x, d') \<Longrightarrow> remaining d' \<le> remaining d"
  by (fastforce simp: dec_safe_def remaining_def xd_size_def)

lemma dec_safe_return [safe_intros]: "dec_safe (dreturn x)"
  by (simp add: dec_safe_def dreturn_def)

lemma dec_safe_throw_if [safe_intros]: "dec_safe (throw_if c e)"
  by (simp add: dec_safe_def throw_if_def)

lemma dec_safe_bind [safe_intros]:
  assumes p: "dec_safe p" and f: "\<And>x. dec_safe (f x)"
  shows "dec_safe (dbind p f)"
  unfolding dec_safe_def
proof (intro allI impI)
  fix d x d' assume "dbind p f d = Inr (x, d')"
  then obtain y d1 where 1: "p d = Inr (y, d1)" and 2: "f y d1 = Inr (x, d')"
    by (auto simp: dbind_Inr_iff)
  from p 1 have a: "xd_data d1 = xd_data d \<and> xd_offset d \<le> xd_offset d1 \<and> (cursor_ok d \<longrightarrow> cursor_ok d1)"
    unfolding dec_safe_def by blast
  from f [of y] 2 have b: "xd_data d' = xd_data d1 \<and> xd_offset d1 \<le> xd_offset d' \<and> (cursor_ok d1 \<longrightarrow> cursor_ok d')"
    unfolding dec_safe_def by blast
  from a b show "xd_data d' = xd_data d \<and> xd_offset d \<le> xd_offset d' \<and> (cursor_ok d \<longrightarrow> cursor_ok d')"
    by auto
qed

lemma dec_safe_dtimes [safe_intros]: "dec_safe p \<Longrightarrow> dec_safe (dtimes n p)"
  by (induction n) (auto intro!: safe_intros)

lemma dec_safe_if [safe_intros]: "dec_safe p \<Longrightarrow> dec_safe q \<Longrightarrow> dec_safe (if c then p else q)"
  by simp

lemma get_uint32_consumes:
  "get_uint32 d = Inr (v, d') \<Longrightarrow> xd_data d' = xd_data d \<and> xd_offset d' = xd_offset d + 4 \<and> xd_offset d + 4 \<le> xd_size d"
  by (auto simp: get_uint32_def eff_simps require_def Let_def split: if_splits)

lemma loop_turn_shrinks:
  assumes "get_uint32 d = Inr (v, d1)" and "dec_safe p" and "p d1 = Inr (x, d2)"
  shows "remaining d2 < remaining d"
  using get_uint32_consumes [OF assms(1)] dec_safeD [OF assms(2,3)]
  by (auto simp: remaining_def xd_size_def)

lemma get_uint32_remaining: "get_uint32 d = Inr (v, d') \<Longrightarrow> remaining d' < remaining d"
  by (drule get_uint32_consumes) (auto simp: remaining_def xd_size_def)

lemma dec_safe_get_uint32 [safe_intros]: "dec_safe get_uint32"
  using get_uint32_consumes by (fastforce simp: dec_safe_def cursor_ok_def xd_size_def)

lemma dec_safe_get_uint64 [safe_intros]: "dec_safe get_uint64"
  by (simp add: get_uint64_def safe_intros)

lemma get_fixed_opaque_consumes:
  "get_fixed_opaque n d = Inr (bs, d') \<Longrightarrow>
   xd_data d' = xd_data d \<and> xd_offset d' = xd_offset d + n + xdr_pad n \<and>
   xd_offset d' \<le> xd_size d \<and> length bs = n"
  by (auto simp: get_fixed_opaque_def eff_simps require_def peek_def advance_def xd_size_def
      split: if_splits)

lemma dec_safe_get_fixed_opaque [safe_intros]: "dec_safe (get_fixed_opaque n)"
  using get_fixed_opaque_consumes by (fastforce simp: dec_safe_def cursor_ok_def xd_size_def)

lemma dec_safe_get_opaque [safe_intros]: "dec_safe get_opaque"
  unfolding get_opaque_unfold by (intro safe_intros)

lemma dec_safe_get_string [safe_intros]: "dec_safe get_string"
  unfolding get_string_def by (rule dec_safe_get_opaque)

subsection \<open>Exceptions of decoders\<close>

text \<open>\<open>dec_throws E p\<close>: whatever the bytes, \<open>p\<close> throws nothing but what \<open>E\<close> allows.\<close>

named_theorems throws_intros "composition rules for the exceptions of decoders"

definition dec_throws :: "(error \<Rightarrow> bool) \<Rightarrow> 'a decoder \<Rightarrow> bool" where
  "dec_throws E p \<longleftrightarrow> (\<forall>d e. p d = Inl e \<longrightarrow> E e)"

lemma dec_throws_return [throws_intros]: "dec_throws E (dreturn x)"
  by (simp add: dec_throws_def dreturn_def)

lemma dec_throws_throw_if [throws_intros]: "(c \<Longrightarrow> E e) \<Longrightarrow> dec_throws E (throw_if c e)"
  by (simp add: dec_throws_def throw_if_def)

lemma dec_throws_bind [throws_intros]:
  "dec_throws E p \<Longrightarrow> (\<And>x. dec_throws E (f x)) \<Longrightarrow> dec_throws E (dbind p f)"
  by (auto simp: dec_throws_def dbind_def split: sum.splits prod.splits)

lemma dec_throws_if [throws_intros]:
  "dec_throws E p \<Longrightarrow> dec_throws E q \<Longrightarrow> dec_throws E (if c then p else q)"
  by simp

lemma dec_throws_dtimes [throws_intros]: "dec_throws E p \<Longrightarrow> dec_throws E (dtimes n p)"
  by (induction n) (auto intro!: throws_intros)

lemma dec_throws_require: "E underflow \<Longrightarrow> dec_throws E (require n)"
  by (auto simp: dec_throws_def require_def)

lemma dec_throws_xdr [throws_intros]:
  assumes "E underflow"
  shows "dec_throws E get_uint32" and "dec_throws E get_uint64" and "dec_throws E (get_fixed_opaque n)"
    and "dec_throws E get_opaque" and "dec_throws E get_string"
proof -
  show u: "dec_throws E get_uint32"
    using dec_throws_require [of E 4] assms
    by (auto simp: dec_throws_def get_uint32_def dbind_def Let_def split: sum.splits prod.splits)
  show "dec_throws E get_uint64" unfolding get_uint64_def by (intro throws_intros u)
  have f: "dec_throws E (get_fixed_opaque n)" for n
    unfolding get_fixed_opaque_def
    by (intro throws_intros dec_throws_require assms) (auto simp: dec_throws_def peek_def advance_def)
  then show "dec_throws E (get_fixed_opaque n)" .
  show o: "dec_throws E get_opaque" unfolding get_opaque_unfold by (intro throws_intros u f)
  then show "dec_throws E get_string" by (simp add: get_string_def)
qed

lemma dec_throws_decode: "dec_throws E p \<Longrightarrow> decode p v = Inl e \<Longrightarrow> E e"
  by (auto simp: dec_throws_def decode_def map_sum_def split: sum.splits)

subsection \<open>Linked lists\<close>

text \<open>
  XDR's linked list: every element is preceded by a \<open>value_follows\<close> word 1, the list ends with a
  0. The decoders of the library read it with a \<open>while (dec.get_uint32() != 0)\<close> loop each.
  \<open>decode_loop\<close> is the contract of such a loop over an element decoder, \<open>follows_loop\<close> the one over
  an element's codec.
\<close>

definition wire_follows :: "('a \<Rightarrow> byte list) \<Rightarrow> 'a list \<Rightarrow> byte list" where
  "wire_follows enc xs = concat (map (\<lambda>x. be32 1 @ enc x) xs) @ be32 0"

locale decode_loop =
  fixes dec :: "'a decoder" and loop :: "'a list \<Rightarrow> 'a list decoder"
  assumes item_safe: "dec_safe dec"
    and loop_unfold: "loop acc d =
    (case get_uint32 d of
       Inl e \<Rightarrow> Inl e
     | Inr (v, d1) \<Rightarrow>
         if v \<noteq> 0 then (case dec d1 of Inl e \<Rightarrow> Inl e | Inr (x, d2) \<Rightarrow> loop (acc @ [x]) d2)
         else Inr (acc, d1))"
begin

lemma loop_safe: "dec_safe (loop acc)"
proof -
  have "xd_data d' = xd_data d \<and> xd_offset d \<le> xd_offset d' \<and> (cursor_ok d \<longrightarrow> cursor_ok d')"
    if "loop acc d = Inr (x, d')" for d x d'
    using that
  proof (induction "remaining d" arbitrary: acc d rule: less_induct)
    case less
    from less.prems obtain v d1 where g: "get_uint32 d = Inr (v, d1)"
      by (auto simp: loop_unfold [of acc] split: sum.splits)
    note g' = dec_safe_get_uint32 [unfolded dec_safe_def, rule_format, OF g]
    show ?case
    proof (cases "v = 0")
      case True
      with less.prems g g' show ?thesis by (auto simp: loop_unfold [of acc])
    next
      case False
      with less.prems g obtain y d2 where i: "dec d1 = Inr (y, d2)"
        and l: "loop (acc @ [y]) d2 = Inr (x, d')"
        by (auto simp: loop_unfold [of acc d] split: sum.splits)
      note i' = item_safe [unfolded dec_safe_def, rule_format, OF i]
      have "remaining d2 < remaining d"
        using get_uint32_remaining [OF g] dec_safeD [OF item_safe i] by simp
      from less.hyps [OF this l] g' i' show ?thesis by auto
    qed
  qed
  then show ?thesis unfolding dec_safe_def by blast
qed

lemma loop_throws:
  assumes item: "dec_throws E dec" and E: "E underflow"
  shows "dec_throws E (loop acc)"
proof -
  have "E e" if "loop acc d = Inl e" for d e
    using that
  proof (induction "remaining d" arbitrary: acc d rule: less_induct)
    case less
    show ?case
    proof (cases "get_uint32 d")
      case (Inl e')
      with less.prems dec_throws_xdr(1) [of E, OF E] show ?thesis
        by (auto simp: loop_unfold [of acc] dec_throws_def)
    next
      case (Inr vd)
      then obtain v d1 where g: "get_uint32 d = Inr (v, d1)" by (cases vd) simp
      show ?thesis
      proof (cases "dec d1")
        case (Inl e')
        with less.prems g item show ?thesis
          by (auto simp: loop_unfold [of acc] dec_throws_def split: if_splits)
      next
        case (Inr yd)
        then obtain y d2 where i: "dec d1 = Inr (y, d2)" by (cases yd) simp
        with less.prems g have "loop (acc @ [y]) d2 = Inl e"
          by (auto simp: loop_unfold [of acc d] split: if_splits)
        moreover have "remaining d2 < remaining d"
          using get_uint32_remaining [OF g] dec_safeD [OF item_safe i] by simp
        ultimately show ?thesis using less.hyps by blast
      qed
    qed
  qed
  then show ?thesis unfolding dec_throws_def by blast
qed

end

locale follows_loop = decode_loop dec loop + wire_codec wf enc dec
  for wf :: "'a \<Rightarrow> bool" and enc :: "'a \<Rightarrow> byte list" and dec :: "'a decoder"
    and loop :: "'a list \<Rightarrow> 'a list decoder"
begin

lemma loop_at:
  "list_all wf xs \<Longrightarrow>
   loop acc (at pre (wire_follows enc xs @ rest)) = Inr (acc @ xs, at (pre @ wire_follows enc xs) rest)"
proof (induction xs arbitrary: acc pre)
  case Nil
  then show ?case by (simp add: loop_unfold [of acc] wire_follows_def get_uint32_at)
next
  case (Cons x xs)
  then show ?case
    using Cons.IH [of "acc @ [x]" "pre @ be32 1 @ enc x"]
    by (subst loop_unfold) (simp add: wire_follows_def get_uint32_at dec_enc)
qed

sublocale list: wire_codec "list_all wf" "wire_follows enc" "loop []"
  by unfold_locales (simp add: loop_at)

end

subsection \<open>Sequences of items\<close>

text \<open>
  The calls a caller can make on an encoder, and those that read the same thing back. A fixed
  opaque's length is known to both sides.
\<close>

datatype xdr_item = U32 u32 | U64 u64 | Opaque "byte list" | String cstring | Fixed "byte list"

datatype xdr_shape = U32_shape | U64_shape | Opaque_shape | String_shape | Fixed_shape nat

fun shape_of :: "xdr_item \<Rightarrow> xdr_shape" where
  "shape_of (U32 v) = U32_shape"
| "shape_of (U64 v) = U64_shape"
| "shape_of (Opaque bs) = Opaque_shape"
| "shape_of (String s) = String_shape"
| "shape_of (Fixed bs) = Fixed_shape (length bs)"

fun put_item :: "xdr_item \<Rightarrow> xdr_encoder \<Rightarrow> xdr_encoder" where
  "put_item (U32 v) = put_uint32 v"
| "put_item (U64 v) = put_uint64 v"
| "put_item (Opaque bs) = put_opaque bs"
| "put_item (String s) = put_string s"
| "put_item (Fixed bs) = put_fixed_opaque bs"

fun get_item :: "xdr_shape \<Rightarrow> xdr_item decoder" where
  "get_item U32_shape = dbind get_uint32 (\<lambda>v. dreturn (U32 v))"
| "get_item U64_shape = dbind get_uint64 (\<lambda>v. dreturn (U64 v))"
| "get_item Opaque_shape = dbind get_opaque (\<lambda>bs. dreturn (Opaque bs))"
| "get_item String_shape = dbind get_string (\<lambda>s. dreturn (String s))"
| "get_item (Fixed_shape n) = dbind (get_fixed_opaque n) (\<lambda>bs. dreturn (Fixed bs))"

fun get_items :: "xdr_shape list \<Rightarrow> xdr_item list decoder" where
  "get_items [] = dreturn []"
| "get_items (s # ss) = dbind (get_item s) (\<lambda>x. dbind (get_items ss) (\<lambda>xs. dreturn (x # xs)))"

text \<open>The 32-bit length word can carry the length.\<close>

fun item_fits :: "xdr_item \<Rightarrow> bool" where
  "item_fits (Opaque bs) = (length bs < 2 ^ 32)"
| "item_fits (String s) = (length s < 2 ^ 32)"
| "item_fits _ = True"

lemma put_item_append: "put_item x buf = buf @ put_item x []"
  by (cases x) (simp_all add: put_simps)

lemma fold_put_item [put_simps]: "fold put_item xs buf = buf @ concat (map (\<lambda>x. put_item x []) xs)"
proof (induction xs arbitrary: buf)
  case (Cons x xs)
  then show ?case by (simp add: put_item_append [of x buf])
qed simp

lemma get_item_at: "item_fits x \<Longrightarrow>
  get_item (shape_of x) (at pre (put_item x [] @ rest)) = Inr (x, at (pre @ put_item x []) rest)"
  by (cases x) (simp_all add: put_simps eff_simps at_simps)

lemma get_items_at: "list_all item_fits xs \<Longrightarrow>
  get_items (map shape_of xs) (at pre (concat (map (\<lambda>x. put_item x []) xs) @ rest)) =
    Inr (xs, at (pre @ concat (map (\<lambda>x. put_item x []) xs)) rest)"
  by (induction xs arbitrary: pre) (simp_all add: eff_simps get_item_at)

lemma dec_safe_get_items [safe_intros]: "dec_safe (get_items ss)"
proof (induction ss)
  case (Cons s ss)
  have "dec_safe (get_item s)" by (cases s) (auto intro!: safe_intros)
  with Cons show ?case by (auto intro!: safe_intros)
qed (simp add: safe_intros)

subsection \<open>What a reader takes from the rest of the buffer\<close>

text \<open>
  RFC 4506, sections 4.2, 4.5 and 4.9 to 4.11: numbers most significant byte first, opaques filled up to whole
  words, those of variable length after their length. \<open>None\<close>: the buffer ends before the item does.
\<close>

definition big_endian :: "byte list \<Rightarrow> nat" where
  "big_endian = foldl (\<lambda>n b. 256 * n + unat b) 0"

definition whole_words :: "nat \<Rightarrow> nat" where
  "whole_words n = (n + 3) div 4 * 4"

fun wire_item :: "xdr_shape \<Rightarrow> byte list \<Rightarrow> (xdr_item \<times> byte list) option" where
  "wire_item U32_shape bs =
     (if length bs < 4 then None else Some (U32 (word_of_nat (big_endian (take 4 bs))), drop 4 bs))"
| "wire_item U64_shape bs =
     (if length bs < 8 then None else Some (U64 (word_of_nat (big_endian (take 8 bs))), drop 8 bs))"
| "wire_item (Fixed_shape n) bs =
     (if length bs < whole_words n then None else Some (Fixed (take n bs), drop (whole_words n) bs))"
| "wire_item Opaque_shape bs =
     (if length bs < 4 then None
      else let n = big_endian (take 4 bs) in
        if length bs < 4 + whole_words n then None
        else Some (Opaque (take n (drop 4 bs)), drop (4 + whole_words n) bs))"
| "wire_item String_shape bs =
     (if length bs < 4 then None
      else let n = big_endian (take 4 bs) in
        if length bs < 4 + whole_words n then None
        else Some (String (take n (drop 4 bs)), drop (4 + whole_words n) bs))"

fun wire_items :: "xdr_shape list \<Rightarrow> byte list \<Rightarrow> (xdr_item list \<times> byte list) option" where
  "wire_items [] bs = Some ([], bs)"
| "wire_items (s # ss) bs =
     (case wire_item s bs of
        None \<Rightarrow> None
      | Some (x, rest) \<Rightarrow> map_option (\<lambda>(xs, rest'). (x # xs, rest')) (wire_items ss rest))"

lemma bytes_or_add:
  "push_bit 24 (ucast a) OR push_bit 16 (ucast b) OR push_bit 8 (ucast c) OR ucast (e :: byte) =
   (word_of_nat (big_endian [a, b, c, e]) :: u32)"
proof -
  have d: "x OR y = x + y" if "\<And>n. \<not> bit x n \<or> \<not> bit y n" for x y :: u32
    using disjunctive_add [of x y] that by simp
  have "push_bit 24 (ucast a) OR push_bit 16 (ucast b) OR push_bit 8 (ucast c) OR ucast e =
      (push_bit 24 (ucast a) + (push_bit 16 (ucast b) + (push_bit 8 (ucast c) + ucast e)) :: u32)"
    by (subst d, force simp: bit_simps dest: bit_imp_le_length, subst d, force simp: bit_simps dest: bit_imp_le_length,
        subst d, force simp: bit_simps dest: bit_imp_le_length) (rule refl)
  then show ?thesis by (simp add: big_endian_def push_bit_eq_mult algebra_simps)
qed

lemma big_endian_bound: "big_endian [a, b, c, e] < 2 ^ 32"
  using unsigned_less [of a, where 'a = nat] unsigned_less [of b, where 'a = nat] unsigned_less [of c, where 'a = nat]
    unsigned_less [of e, where 'a = nat] by (simp add: big_endian_def)

lemma take4: "\<not> length bs < 4 \<Longrightarrow> \<exists>a b c e r. bs = a # b # c # e # r"
  by (auto simp: not_less Suc_le_length_iff numeral_eq_Suc)

lemma get_uint32_exact:
  "get_uint32 (at pre bs) =
     (if length bs < 4 then Inl underflow
      else Inr (word_of_nat (big_endian (take 4 bs)), at (pre @ take 4 bs) (drop 4 bs)))"
proof (cases "length bs < 4")
  case True
  then show ?thesis by (simp add: get_uint32_def dbind_def require_at)
next
  case False
  then obtain a b c e r where "bs = a # b # c # e # r" using take4 by blast
  with False show ?thesis by (simp add: get_uint32_bytes bytes_or_add)
qed

lemma get_uint64_exact:
  "get_uint64 (at pre bs) =
     (if length bs < 8 then Inl underflow
      else Inr (word_of_nat (big_endian (take 8 bs)), at (pre @ take 8 bs) (drop 8 bs)))"
proof (cases "length bs < 8")
  case True
  then show ?thesis by (auto simp: get_uint64_def dbind_def get_uint32_exact)
next
  case False
  then obtain a b c e r where 1: "bs = a # b # c # e # r" using take4 [of bs] by auto
  with False obtain a' b' c' e' r' where 2: "r = a' # b' # c' # e' # r'" using take4 [of r] by auto
  have d: "push_bit 32 (ucast hi) OR ucast lo = (push_bit 32 (ucast hi) + ucast lo :: u64)" for hi lo :: u32
    by (rule disjunctive_add [symmetric]) (force simp: bit_simps dest: bit_imp_le_length)
  have u: "(ucast (word_of_nat (big_endian [a, b, c, e]) :: u32) :: u64) = word_of_nat (big_endian [a, b, c, e])" for a b c e
    using big_endian_bound [of a b c e]
    by (intro word_unat_eq_iff [THEN iffD2]) (simp add: unsigned_ucast_eq unsigned_of_nat take_bit_nat_eq_self)
  have "(push_bit 32 (ucast (word_of_nat (big_endian [a, b, c, e]) :: u32)) OR
      ucast (word_of_nat (big_endian [a', b', c', e']) :: u32) :: u64) =
      word_of_nat (2 ^ 32 * big_endian [a, b, c, e] + big_endian [a', b', c', e'])"
    by (simp only: d) (simp only: u push_bit_eq_mult, simp)
  moreover have "big_endian [a, b, c, e, a', b', c', e'] = 2 ^ 32 * big_endian [a, b, c, e] + big_endian [a', b', c', e']"
    by (simp add: big_endian_def algebra_simps)
  ultimately show ?thesis using False by (simp add: get_uint64_def eff_simps get_uint32_exact 1 2)
qed

lemma padded: "n + xdr_pad n = whole_words n"
proof -
  define q r where "q = n div 4" and "r = n mod 4"
  have n: "n = 4 * q + r" and r: "r < 4" by (simp_all add: q_def r_def)
  then consider "r = 0" | "r = 1" | "r = 2" | "r = 3" by linarith
  then have "(4 - r) mod 4 + r = (r + 3) div 4 * 4" by cases simp_all
  moreover have "n mod 4 = r" "(n + 3) div 4 = q + (r + 3) div 4" using r by (simp_all add: n)
  ultimately show ?thesis by (simp add: xdr_pad_def whole_words_def n)
qed

lemma take_padded:
  "dbind (require n) (\<lambda>_. dbind (peek n) (\<lambda>result. dbind (advance n) (\<lambda>_. dbind (require (xdr_pad n)) (\<lambda>_.
     dbind (advance (xdr_pad n)) (\<lambda>_. dreturn result))))) (at pre bs) =
   (if length bs < whole_words n then Inl underflow
    else Inr (take n bs, at (pre @ take (whole_words n) bs) (drop (whole_words n) bs)))"
proof -
  have adv: "k \<le> length r \<Longrightarrow> advance k (at p r) = Inr ((), at (p @ take k r) (drop k r))" for k p r
    by (simp add: advance_def at_def)
  have t: "take n bs @ take (xdr_pad n) (drop n bs) = take (whole_words n) bs"
    "drop (xdr_pad n) (drop n bs) = drop (whole_words n) bs"
    by (simp_all add: take_add [symmetric] padded [symmetric] add.commute)
  show ?thesis
    using padded [of n] t by (auto simp: dbind_def require_at peek_at adv dreturn_def not_less)
qed

lemma get_fixed_exact:
  "get_fixed_opaque n (at pre bs) =
   (if length bs < whole_words n then Inl underflow
    else Inr (take n bs, at (pre @ take (whole_words n) bs) (drop (whole_words n) bs)))"
  unfolding get_fixed_opaque_def by (rule take_padded)

lemma get_opaque_exact:
  "get_opaque (at pre bs) =
     (if length bs < 4 then Inl underflow
      else let n = big_endian (take 4 bs) in
        if length bs < 4 + whole_words n then Inl underflow
        else Inr (take n (drop 4 bs), at (pre @ take (4 + whole_words n) bs) (drop (4 + whole_words n) bs)))"
proof (cases "length bs < 4")
  case True
  then show ?thesis by (simp add: get_opaque_def dbind_def get_uint32_exact)
next
  case False
  let ?n = "big_endian (take 4 bs)"
  obtain a b c e r where "bs = a # b # c # e # r" using take4 [OF False] by blast
  then have u: "unat (word_of_nat ?n :: u32) = ?n"
    using big_endian_bound [of a b c e] by (simp add: unsigned_of_nat take_bit_nat_eq_self)
  have "get_opaque (at pre bs) = dbind (require ?n) (\<lambda>_. dbind (peek ?n) (\<lambda>result. dbind (advance ?n) (\<lambda>_.
      dbind (require (xdr_pad ?n)) (\<lambda>_. dbind (advance (xdr_pad ?n)) (\<lambda>_. dreturn result))))) (at (pre @ take 4 bs) (drop 4 bs))"
    using False by (simp add: get_opaque_def dbind_def [of get_uint32] get_uint32_exact u)
  with False show ?thesis
    unfolding take_padded Let_def by (auto simp: take_add add.commute)
qed

lemma get_item_exact:
  "get_item s (at pre bs) =
     (case wire_item s bs of
        None \<Rightarrow> Inl underflow
      | Some (x, rest) \<Rightarrow> Inr (x, at (pre @ take (length bs - length rest) bs) rest))"
  by (cases s)
     (simp_all add: dbind_def dreturn_def get_uint32_exact get_uint64_exact get_opaque_exact get_string_def
        get_fixed_exact Let_def)

lemma wire_item_suffix: "wire_item s bs = Some (x, rest) \<Longrightarrow> \<exists>used. bs = used @ rest"
  by (cases s) (auto simp: Let_def split: if_splits intro: append_take_drop_id [symmetric])

lemma get_items_exact:
  "get_items ss (at pre bs) =
     (case wire_items ss bs of
        None \<Rightarrow> Inl underflow
      | Some (xs, rest) \<Rightarrow> Inr (xs, \<lparr>xd_data = pre @ bs, xd_offset = length (pre @ bs) - length rest\<rparr>))"
proof (induction ss arbitrary: pre bs)
  case Nil
  then show ?case by (simp add: dreturn_def at_def)
next
  case (Cons s ss)
  show ?case
  proof (cases "wire_item s bs")
    case None
    then show ?thesis by (simp add: dbind_def get_item_exact)
  next
    case (Some y)
    obtain x rest where y: "y = (x, rest)" by fastforce
    with Some obtain used where bs: "bs = used @ rest" using wire_item_suffix by blast
    have "get_item s (at pre bs) = Inr (x, at (pre @ used) rest)"
      using Some y by (simp add: get_item_exact bs)
    with Some y Cons.IH [of "pre @ used" rest] bs show ?thesis
      by (auto simp: dbind_def dreturn_def split: option.splits)
  qed
qed

subsection \<open>Properties\<close>

text \<open>C27: Whatever sequence of unsigned integers, opaques, strings and fixed opaques is put into an
  encoder, reading the same sequence from the bytes returns the same values, and the cursor is left
  exactly behind them, whatever follows.\<close>

theorem xdr_roundtrip:
  assumes "list_all item_fits xs"
  shows "get_items (map shape_of xs) (XdrDecoder (encode (fold put_item xs) @ rest)) =
    Inr (xs, \<lparr>xd_data = encode (fold put_item xs) @ rest, xd_offset = length (encode (fold put_item xs))\<rparr>)"
  using get_items_at [OF assms, of "[]" rest]
  by (simp add: XdrDecoder_at encode_def put_simps) (simp add: at_def)

lemma xdr_roundtrip_witness:
  "get_items [String_shape, U64_shape, Fixed_shape (length [7, 8, 9 :: byte])]
     (XdrDecoder (encode (fold put_item [String [1, 2], U64 5, Fixed [7, 8, 9]]) @ [42])) =
   Inr ([String [1, 2], U64 5, Fixed [7, 8, 9]],
     \<lparr>xd_data = encode (fold put_item [String [1, 2], U64 5, Fixed [7, 8, 9]]) @ [42],
      xd_offset = length (encode (fold put_item [String [1, 2], U64 5, Fixed [7, 8, 9]]))\<rparr>)"
proof -
  have "list_all item_fits [String [1, 2], U64 5, Fixed [7, 8, 9]]" by simp
  from xdr_roundtrip [OF this, of "[42]"] show ?thesis
    by (simp only: list.map shape_of.simps)
qed

text \<open>C28: Whatever is in the buffer, a sequence of reads does exactly what RFC 4506 says: if the buffer begins with items
  of the asked kinds, each read returns the value that its bytes stand for (numbers most significant byte first;
  of an opaque or a string the bytes its length announces) and leaves the cursor behind its padding, whatever bytes that has, so that after
  the last one the cursor has moved over just the items; if the buffer ends inside an item, its length word, its
  bytes or its padding, the read throws the underflow error and nothing is made up. The buffer is not changed.\<close>

theorem xdr_reads_exactly:
  "get_items ss (XdrDecoder v) =
     (case wire_items ss v of
        None \<Rightarrow> Inl (RuntimeError ''XdrDecoder: buffer underflow'')
      | Some (xs, rest) \<Rightarrow> Inr (xs, \<lparr>xd_data = v, xd_offset = length v - length rest\<rparr>))"
  using get_items_exact [of ss "[]" v] by (simp add: XdrDecoder_at underflow_def split: option.splits)

text \<open>The bounds check of the decoder, computed in the 64-bit arithmetic of \<open>size_t\<close>, agrees
  with the mathematical one for every cursor inside a buffer of less than 2^63 bytes and every length
  the decoder can ask for; its sum cannot wrap.\<close>

theorem require_size_t_exact:
  assumes "off \<le> sz" and "unat sz < 2 ^ 63" and "unat n < 2 ^ 63"
    and "length v = unat sz"
  shows "require_size_t off n sz \<longleftrightarrow>
    require (unat n) \<lparr>xd_data = v, xd_offset = unat off\<rparr> \<noteq> Inl underflow"
proof -
  have "unat off \<le> unat sz" using assms(1) by (simp add: word_le_nat_alt)
  with assms(2,3) have "unat (off + n) = unat off + unat n"
    by (subst unat_add_lem [THEN iffD1]) auto
  then show ?thesis
    using assms(4) by (auto simp: require_size_t_def require_def xd_size_def word_less_nat_alt)
qed

lemma require_size_t_exact_witness:
  "require_size_t 2 3 4 \<longleftrightarrow> require 3 \<lparr>xd_data = [0, 0, 0, 0], xd_offset = 2\<rparr> \<noteq> Inl underflow"
  using require_size_t_exact [of 2 4 3 "[0, 0, 0, 0]"] by simp

text \<open>An opaque of 2^32 bytes or more is written with a length word that has lost its high
  bits: the reader gets only the rest modulo 2^32, without an error.\<close>

theorem opaque_length_truncated:
  assumes "length bs = 2 ^ 32 + k" and "k < 2 ^ 32"
  shows "decode get_opaque (encode (put_opaque bs)) = Inr (take k bs)"
proof -
  have l: "unat (word_of_nat (length bs) :: u32) = k"
    unfolding unat_of_nat using assms by simp
  have "decode get_opaque (encode (put_opaque bs)) =
      map_sum id fst (get_fixed_opaque k (at (be32 (word_of_nat (length bs)))
         (bs @ replicate (xdr_pad (length bs)) 0)))"
    by (simp add: decode_at encode_def put_simps wire_opaque_def get_opaque_unfold eff_simps l
        get_uint32_at [where pre = "[]", simplified])
  also have "\<dots> = Inr (take k bs)"
  proof -
    have p: "xdr_pad k < 4" by (simp add: xdr_pad_def)
    have "xdr_pad k \<le> length bs - k" using p assms by simp
    then show ?thesis
      using assms p
      by (simp add: get_fixed_opaque_def eff_simps require_at peek_at)
         (simp add: eff_simps advance_def at_def require_def xd_size_def)
  qed
  finally show ?thesis .
qed

lemma opaque_length_truncated_witness:
  "decode get_opaque (encode (put_opaque (replicate (2 ^ 32 + 2) 7))) = Inr [7, 7]"
proof -
  have r: "replicate 2 x = [x, x]" for x :: byte by (simp add: numeral_2_eq_2)
  show ?thesis
    using opaque_length_truncated [of "replicate (2 ^ 32 + 2) 7" 2] by (simp add: take_replicate r)
qed

end
