(* ===== verification/Rpc.thy ===== *)
theory Rpc
  imports Xdr
begin

text \<open>
  \<open>src/rpc\<close>: ONC RPC over TCP. The CALL message, record marking, the REPLY header, the socket
  loops and \<open>TcpRpcClient::call\<close>. The operating system is a parameter: a record of the calls the
  code makes, over an abstract world. Its documented behaviour is stated by \<open>tcp_delivers\<close> (\<open>recv\<close>) and
  \<open>tcp_accepts\<close> (\<open>send\<close>), used as hypotheses.
\<close>

subsection \<open>rpc_types.hpp\<close>

definition RPC_VERSION :: u32 where "RPC_VERSION = 2"
definition AUTH_NONE :: u32 where "AUTH_NONE = 0"
definition AUTH_SYS_FLAV :: u32 where "AUTH_SYS_FLAV = 1"

datatype MsgType = CALL | REPLY

fun MsgType_value :: "MsgType \<Rightarrow> u32" where
  "MsgType_value CALL = 0"
| "MsgType_value REPLY = 1"

datatype ReplyStat = MSG_ACCEPTED | MSG_DENIED

fun ReplyStat_value :: "ReplyStat \<Rightarrow> u32" where
  "ReplyStat_value MSG_ACCEPTED = 0"
| "ReplyStat_value MSG_DENIED = 1"

datatype AcceptStat =
  SUCCESS | PROG_UNAVAIL | PROG_MISMATCH | PROC_UNAVAIL | GARBAGE_ARGS | SYSTEM_ERR

fun AcceptStat_value :: "AcceptStat \<Rightarrow> u32" where
  "AcceptStat_value SUCCESS = 0"
| "AcceptStat_value PROG_UNAVAIL = 1"
| "AcceptStat_value PROG_MISMATCH = 2"
| "AcceptStat_value PROC_UNAVAIL = 3"
| "AcceptStat_value GARBAGE_ARGS = 4"
| "AcceptStat_value SYSTEM_ERR = 5"

record AuthSys =
  au_stamp :: u32
  au_machinename :: cstring
  au_uid :: u32
  au_gid :: u32
  au_gids :: "u32 list"

definition AuthSys_default :: AuthSys where
  "AuthSys_default =
     \<lparr>au_stamp = 0, au_machinename = bytes_of ''localhost'', au_uid = 0, au_gid = 0, au_gids = []\<rparr>"

subsection \<open>Messages\<close>

definition encode_cred_body :: "AuthSys \<Rightarrow> byte list" where
  "encode_cred_body auth = encode (steps [
     put_uint32 (au_stamp auth),
     put_string (au_machinename auth),
     put_uint32 (au_uid auth),
     put_uint32 (au_gid auth),
     put_uint32 (word_of_nat (length (au_gids auth))),
     fold put_uint32 (au_gids auth)])"

definition buildCallMessage ::
  "u32 \<Rightarrow> u32 \<Rightarrow> u32 \<Rightarrow> u32 \<Rightarrow> byte list \<Rightarrow> AuthSys option \<Rightarrow> byte list" where
  "buildCallMessage xid prog vers proc args auth = encode (steps [
     put_uint32 xid,
     put_uint32 (MsgType_value CALL),
     put_uint32 RPC_VERSION,
     put_uint32 prog,
     put_uint32 vers,
     put_uint32 proc,
     (case auth of
        Some a \<Rightarrow> steps [put_uint32 AUTH_SYS_FLAV, put_opaque (encode_cred_body a)]
      | None \<Rightarrow> steps [put_uint32 AUTH_NONE, put_uint32 0]),
     put_uint32 AUTH_NONE,
     put_uint32 0]) @ args"

definition addRecordMark :: "byte list \<Rightarrow> byte list" where
  "addRecordMark payload =
     (let len = word_of_nat (length payload) :: u32;
          mark = push_bit 31 1 OR len
      in [ucast (drop_bit 24 mark AND 0xFF), ucast (drop_bit 16 mark AND 0xFF),
          ucast (drop_bit 8 mark AND 0xFF), ucast (mark AND 0xFF)] @ payload)"

definition decode_reply_header :: "byte list decoder" where
  "decode_reply_header =
     dbind get_uint32 (\<lambda>xid.
     dbind get_uint32 (\<lambda>msg_type.
     dbind (throw_if (msg_type \<noteq> MsgType_value REPLY)
              (RuntimeError ''RPC: expected REPLY message type'')) (\<lambda>_.
     dbind get_uint32 (\<lambda>reply_stat.
     dbind (throw_if (reply_stat \<noteq> ReplyStat_value MSG_ACCEPTED)
              (RuntimeError (''RPC: message denied (reply_stat='' @ to_string (unat reply_stat) @ '')''))) (\<lambda>_.
     dbind get_uint32 (\<lambda>verf_flavor.
     dbind get_opaque (\<lambda>verf_body.
     dbind get_uint32 (\<lambda>accept_stat.
     dbind (throw_if (accept_stat \<noteq> AcceptStat_value SUCCESS)
              (RuntimeError (''RPC: not accepted (accept_stat='' @ to_string (unat accept_stat) @ '')''))) (\<lambda>_.
     get_remaining)))))))))"

definition parseReply :: "byte list \<Rightarrow> error + byte list" where
  "parseReply rec = decode decode_reply_header rec"

subsection \<open>The operating system\<close>

text \<open>
  \<open>getaddrinfo\<close> gives an address (\<open>None\<close>: a non-zero return), \<open>recv\<close> the bytes it stored
  (\<open>None\<close>: a negative return, \<open>Some []\<close>: 0), \<open>steady_clock::now()\<close> its count, \<open>sleep\<close> nothing.
\<close>

record 'w os =
  os_getaddrinfo :: "string \<Rightarrow> string \<Rightarrow> 'w \<Rightarrow> int option \<times> 'w"
  os_socket :: "'w \<Rightarrow> int \<times> 'w"
  os_connect :: "int \<Rightarrow> int \<Rightarrow> 'w \<Rightarrow> int \<times> 'w"
  os_send :: "int \<Rightarrow> byte list \<Rightarrow> 'w \<Rightarrow> int \<times> 'w"
  os_recv :: "int \<Rightarrow> nat \<Rightarrow> 'w \<Rightarrow> byte list option \<times> 'w"
  os_close :: "int \<Rightarrow> 'w \<Rightarrow> 'w"
  os_now :: "'w \<Rightarrow> u64 \<times> 'w"
  os_sleep :: "nat \<Rightarrow> 'w \<Rightarrow> 'w"

record rpc_client =
  rc_sock :: int
  rc_xid :: u32
  rc_auth :: "AuthSys option"

type_synonym 'w rpc_state = "rpc_client \<times> 'w"

subsection \<open>Construction, destruction, credentials\<close>

definition TcpRpcClient :: "'w os \<Rightarrow> string \<Rightarrow> u16 \<Rightarrow> ('w, rpc_client) io" where
  "TcpRpcClient os host port =
     (let port_str = to_string (unat port) in
     io_bind (io_call (os_getaddrinfo os host port_str)) (\<lambda>res.
     case res of
       None \<Rightarrow> io_throw (RuntimeError (''getaddrinfo failed for '' @ host))
     | Some addr \<Rightarrow>
         io_bind (io_call (os_socket os)) (\<lambda>fd.
         io_bind (io_throw_if (fd < 0) (RuntimeError ''socket() failed'')) (\<lambda>_.
         io_bind (io_call (os_connect os fd addr)) (\<lambda>rc.
         io_bind (io_throw_if (rc \<noteq> 0)
           (RuntimeError (''connect() to '' @ host @ '':'' @ port_str @ '' failed''))) (\<lambda>_.
         io_return \<lparr>rc_sock = fd, rc_xid = 1, rc_auth = None\<rparr>))))))"

definition rpc_destroy :: "'w os \<Rightarrow> rpc_client \<Rightarrow> 'w \<Rightarrow> 'w" where
  "rpc_destroy os c w = (if rc_sock c \<ge> 0 then os_close os (rc_sock c) w else w)"

definition rpc_set_auth_sys :: "AuthSys \<Rightarrow> rpc_client \<Rightarrow> rpc_client" where
  "rpc_set_auth_sys auth c = c\<lparr>rc_auth := Some auth\<rparr>"

definition rpc_clear_auth :: "rpc_client \<Rightarrow> rpc_client" where
  "rpc_clear_auth c = c\<lparr>rc_auth := None\<rparr>"

subsection \<open>Network I/O\<close>

function sendAll_loop :: "'w os \<Rightarrow> int \<Rightarrow> byte list \<Rightarrow> nat \<Rightarrow> 'w \<Rightarrow> (error + unit) \<times> 'w" where
  "sendAll_loop os fd data tot w =
     (if tot < length data then
        (case os_send os fd (drop tot data) w of
           (n, w') \<Rightarrow>
             if n \<le> 0 then (Inl (RuntimeError ''send() failed''), w')
             else sendAll_loop os fd data (tot + nat n) w')
      else (Inr (), w))"
  by pat_completeness auto
termination
  by (relation "measure (\<lambda>(os, fd, data, tot, w). length data - tot)") auto

declare sendAll_loop.simps [simp del]

definition sendAll :: "'w os \<Rightarrow> int \<Rightarrow> byte list \<Rightarrow> ('w, unit) io" where
  "sendAll os fd data w = Some (sendAll_loop os fd data 0 w)"

text \<open>
  The inner loops of \<open>recvRecord\<close>: call \<open>recv\<close> for what is still missing until \<open>want\<close> bytes are in
  the buffer.
\<close>

function recv_loop :: "'w os \<Rightarrow> int \<Rightarrow> nat \<Rightarrow> string \<Rightarrow> byte list \<Rightarrow> 'w \<Rightarrow> (error + byte list) \<times> 'w" where
  "recv_loop os fd want msg buf w =
     (if length buf < want then
        (case os_recv os fd (want - length buf) w of
           (None, w') \<Rightarrow> (Inl (RuntimeError msg), w')
         | (Some [], w') \<Rightarrow> (Inl (RuntimeError msg), w')
         | (Some (b # bs), w') \<Rightarrow> recv_loop os fd want msg (buf @ b # bs) w')
      else (Inr buf, w))"
  by pat_completeness auto
termination
  by (relation "measure (\<lambda>(os, fd, want, msg, buf, w). want - length buf)") auto

declare recv_loop.simps [simp del]

definition recv_exact :: "'w os \<Rightarrow> int \<Rightarrow> nat \<Rightarrow> string \<Rightarrow> ('w, byte list) io" where
  "recv_exact os fd want msg w = Some (recv_loop os fd want msg [] w)"

definition mark_of :: "byte list \<Rightarrow> u32" where
  "mark_of b = push_bit 24 (ucast (b ! 0)) OR push_bit 16 (ucast (b ! 1)) OR
               push_bit 8 (ucast (b ! 2)) OR ucast (b ! 3)"

text \<open>A peer may send fragments that are not the last one for ever: the loop may not return.\<close>

partial_function (option) recvRecord_loop ::
  "'w os \<Rightarrow> int \<Rightarrow> byte list \<Rightarrow> 'w \<Rightarrow> ((error + byte list) \<times> 'w) option" where
  "recvRecord_loop os fd record w =
     io_bind (recv_exact os fd 4 ''recv() record mark failed'') (\<lambda>mark_buf.
     io_bind (recv_exact os fd (unat (mark_of mark_buf AND 0x7FFFFFFF))
                ''recv() record data failed'') (\<lambda>frag w'.
     if mark_of mark_buf AND 0x80000000 \<noteq> 0 then io_return (record @ frag) w'
     else recvRecord_loop os fd (record @ frag) w')) w"

definition recvRecord :: "'w os \<Rightarrow> int \<Rightarrow> ('w, byte list) io" where
  "recvRecord os fd = recvRecord_loop os fd []"

subsection \<open>TcpRpcClient::call\<close>

definition on_world :: "('w, 'a) io \<Rightarrow> ('w rpc_state, 'a) io" where
  "on_world = io_zoom snd (\<lambda>w (c, _). (c, w))"

definition on_client :: "(rpc_client \<Rightarrow> rpc_client) \<Rightarrow> ('w rpc_state, unit) io" where
  "on_client f = io_modify (\<lambda>(c, w). (f c, w))"

definition call :: "'w os \<Rightarrow> u32 \<Rightarrow> u32 \<Rightarrow> u32 \<Rightarrow> byte list \<Rightarrow> ('w rpc_state, byte list) io" where
  "call os prog vers proc args =
     io_bind (io_get fst) (\<lambda>c. let my_xid = rc_xid c in
     io_bind (on_client (\<lambda>c. c\<lparr>rc_xid := rc_xid c + 1\<rparr>)) (\<lambda>_.
     let msg = buildCallMessage my_xid prog vers proc args (rc_auth c);
         framed = addRecordMark msg in
     io_bind (on_world (sendAll os (rc_sock c) framed)) (\<lambda>_.
     io_bind (on_world (recvRecord os (rc_sock c))) (\<lambda>record.
     io_lift (parseReply record)))))"

text \<open>
  A local \<open>TcpRpcClient\<close>: connected at its declaration, destroyed when the scope is left, by a
  value or by an exception.
\<close>

definition with_rpc :: "'w os \<Rightarrow> string \<Rightarrow> u16 \<Rightarrow> ('w rpc_state, 'a) io \<Rightarrow> ('w, 'a) io" where
  "with_rpc os host port body =
     io_bind (TcpRpcClient os host port) (\<lambda>c w.
     map_option (\<lambda>(r, (c', w')). (r, rpc_destroy os c' w')) (body (c, w)))"

text \<open>
  A constructor that has stored its \<open>TcpRpcClient\<close> in a member and then runs \<open>body\<close>: if it throws,
  the member is destroyed; if not, the object lives on with it.
\<close>

definition construct_rpc ::
  "'w os \<Rightarrow> string \<Rightarrow> u16 \<Rightarrow> ('w rpc_state, 'a) io \<Rightarrow> ('w, rpc_client \<times> 'a) io" where
  "construct_rpc os host port body =
     io_bind (TcpRpcClient os host port) (\<lambda>c w.
     map_option (\<lambda>(r, (c', w')).
       case r of
         Inl e \<Rightarrow> (Inl e, rpc_destroy os c' w')
       | Inr x \<Rightarrow> (Inr (c', x), w')) (body (c, w)))"

subsection \<open>sendAll\<close>

text \<open>
  What \<open>send\<close> promises: it takes at most what it was given, and what it took is the next part
  of the outgoing stream \<open>sent\<close>.
\<close>

definition tcp_accepts :: "'w os \<Rightarrow> int \<Rightarrow> ('w \<Rightarrow> byte list) \<Rightarrow> bool" where
  "tcp_accepts os fd sent \<longleftrightarrow>
     (\<forall>d w n w'. os_send os fd d w = (n, w') \<longrightarrow>
        n \<le> int (length d) \<and> sent w' = sent w @ take (nat n) d)"

lemma sendAll_loop_done: "\<not> tot < length data \<Longrightarrow> sendAll_loop os fd data tot w = (Inr (), w)"
  by (subst sendAll_loop.simps) simp

lemma sendAll_loop_step:
  "tot < length data \<Longrightarrow> os_send os fd (drop tot data) w = (n, w') \<Longrightarrow>
   sendAll_loop os fd data tot w =
     (if n \<le> 0 then (Inl (RuntimeError ''send() failed''), w')
      else sendAll_loop os fd data (tot + nat n) w')"
  by (subst sendAll_loop.simps) simp

lemma sendAll_loop_sent:
  assumes acc: "tcp_accepts os fd sent" and le: "tot \<le> length data"
    and run: "sendAll_loop os fd data tot w = (r, w')"
  shows "\<exists>k. tot \<le> k \<and> k \<le> length data \<and> sent w' = sent w @ take (k - tot) (drop tot data) \<and>
             (r = Inr () \<longleftrightarrow> k = length data)"
  using acc le run
proof (induction os fd data tot w rule: sendAll_loop.induct)
  case (1 os fd data tot w)
  obtain n w1 where snd: "os_send os fd (drop tot data) w = (n, w1)" by fastforce
  from "1.prems"(1) snd have "n \<le> int (length (drop tot data))"
    and s1: "sent w1 = sent w @ take (nat n) (drop tot data)"
    unfolding tcp_accepts_def by blast+
  then have n: "n \<le> int (length data) - int tot" using "1.prems"(2) by auto
  consider "\<not> tot < length data" | "tot < length data" "n \<le> 0" | "tot < length data" "0 < n" by linarith
  then show ?case
  proof cases
    case 1
    with "1.prems" show ?thesis by (auto simp: sendAll_loop_done)
  next
    case 2
    with "1.prems" snd s1 show ?thesis
      by (intro exI [of _ tot]) (auto simp: sendAll_loop_step)
  next
    case 3
    with "1.prems" snd have "sendAll_loop os fd data (tot + nat n) w1 = (r, w')"
      by (simp add: sendAll_loop_step)
    then have "\<exists>k. tot + nat n \<le> k \<and> k \<le> length data \<and>
        sent w' = sent w1 @ take (k - (tot + nat n)) (drop (tot + nat n) data) \<and>
        (r = Inr () \<longleftrightarrow> k = length data)"
      using "1.IH" [OF 3(1) snd [symmetric]] 3 n "1.prems"(1) by simp
    then obtain k where
      k: "tot + nat n \<le> k" "k \<le> length data" "r = Inr () \<longleftrightarrow> k = length data"
      and w': "sent w' = sent w1 @ take (k - (tot + nat n)) (drop (tot + nat n) data)"
      by blast
    have "take (k - tot) (drop tot data) =
        take (nat n) (drop tot data) @ take (k - (tot + nat n)) (drop (nat n) (drop tot data))"
      using k(1) by (subst take_add [symmetric]) simp
    with k w' s1 show ?thesis by (intro exI [of _ k]) (auto simp: add.commute)
  qed
qed

subsection \<open>recvRecord\<close>

text \<open>
  What a blocking \<open>recv\<close> promises while the peer's bytes \<open>pending\<close> are not exhausted: it stores at
  least one and at most as many as asked for, and they are the next ones of the stream. How many is
  up to the network.
\<close>

definition tcp_delivers :: "'w os \<Rightarrow> int \<Rightarrow> ('w \<Rightarrow> byte list) \<Rightarrow> bool" where
  "tcp_delivers os fd pending \<longleftrightarrow>
     (\<forall>want w. 0 < want \<longrightarrow> pending w \<noteq> [] \<longrightarrow>
        (\<exists>c w'. os_recv os fd want w = (Some c, w') \<and> c \<noteq> [] \<and> length c \<le> want \<and>
                pending w = c @ pending w'))"

lemma recv_loop_done: "want \<le> length buf \<Longrightarrow> recv_loop os fd want msg buf w = (Inr buf, w)"
  by (subst recv_loop.simps) simp

lemma recv_loop_step:
  "length buf < want \<Longrightarrow> os_recv os fd (want - length buf) w = (Some c, w') \<Longrightarrow> c \<noteq> [] \<Longrightarrow>
   recv_loop os fd want msg buf w = recv_loop os fd want msg (buf @ c) w'"
  by (subst recv_loop.simps) (auto split: list.splits)

lemma tcp_deliversD:
  "tcp_delivers os fd pending \<Longrightarrow> 0 < want \<Longrightarrow> pending w \<noteq> [] \<Longrightarrow>
   \<exists>c w'. os_recv os fd want w = (Some c, w') \<and> c \<noteq> [] \<and> length c \<le> want \<and> pending w = c @ pending w'"
  by (simp add: tcp_delivers_def)

lemma recv_loop_delivers:
  assumes del: "tcp_delivers os fd pending" and "length buf \<le> want"
    and "want - length buf \<le> length (pending w)"
  shows "\<exists>w'. recv_loop os fd want msg buf w = (Inr (buf @ take (want - length buf) (pending w)), w') \<and>
              pending w' = drop (want - length buf) (pending w)"
  using assms
proof (induction os fd want msg buf w rule: recv_loop.induct)
  case (1 os fd want msg buf w)
  show ?case
  proof (cases "length buf < want")
    case False
    with "1.prems" show ?thesis by (simp add: recv_loop_done)
  next
    case True
    with "1.prems"(3) have "0 < want - length buf" and "pending w \<noteq> []" by auto
    with tcp_deliversD [OF "1.prems"(1)] obtain c w1
      where rc: "os_recv os fd (want - length buf) w = (Some c, w1)"
      and c: "c \<noteq> []" "length c \<le> want - length buf" and p: "pending w = c @ pending w1"
      by blast
    from c(1) obtain b bs where cb: "c = b # bs" by (cases c) auto
    have "\<exists>w'. recv_loop os fd want msg (buf @ c) w1 =
        (Inr ((buf @ c) @ take (want - length (buf @ c)) (pending w1)), w') \<and>
        pending w' = drop (want - length (buf @ c)) (pending w1)"
      unfolding cb
      by (rule "1.IH" [OF True rc [symmetric] refl cb]) (use "1.prems" c p cb in auto)
    with p c(2) show ?thesis by (simp add: recv_loop_step [OF True rc c(1)])
  qed
qed

lemma recv_exact_delivers:
  assumes "tcp_delivers os fd pending" and "pending w = bs @ rest" and "length bs = want"
  shows "\<exists>w'. recv_exact os fd want msg w = Some (Inr bs, w') \<and> pending w' = rest"
  using recv_loop_delivers [OF assms(1), of "[]" want w msg] assms(2,3)
  by (auto simp: recv_exact_def)

text \<open>
  A record on the wire (RFC 5531, section 11): any number of fragments, each behind its mark, the
  top bit set in the mark of the last one.
\<close>

definition last_bit :: u32 where
  "last_bit = push_bit 31 1"

fun wire_fragments :: "byte list list \<Rightarrow> byte list" where
  "wire_fragments [] = []"
| "wire_fragments [f] = be32 (last_bit OR word_of_nat (length f)) @ f"
| "wire_fragments (f # g # fs) = be32 (word_of_nat (length f)) @ f @ wire_fragments (g # fs)"

lemma addRecordMark_fragment: "addRecordMark p = wire_fragments [p]"
  by (simp add: addRecordMark_def be32_def put_uint32_def Let_def last_bit_def)

lemma mark_of_be32: "mark_of (be32 v) = v"
  by (simp add: mark_of_def be32_def put_uint32_def word32_of_bytes)

lemma bit_last_bit: "bit last_bit i \<longleftrightarrow> i = 31"
  unfolding last_bit_def by (auto simp del: push_bit_of_1 push_bit_numeral simp: bit_push_bit_iff bit_1_iff)

lemma bit_len31:
  assumes "n < 2 ^ 31" and "bit (word_of_nat n :: u32) i" shows "i < 31"
proof -
  have "word_of_nat n = (take_bit 31 (word_of_nat n) :: u32)"
    using assms(1) by (simp add: take_bit_of_nat take_bit_nat_eq_self)
  then show ?thesis using assms(2) by (metis bit_take_bit_iff)
qed

lemma mark_fields:
  assumes "n < 2 ^ 31"
  shows "(last_bit OR word_of_nat n) AND 0x7FFFFFFF = word_of_nat n"
    and "(word_of_nat n :: u32) AND 0x7FFFFFFF = word_of_nat n"
    and "(last_bit OR word_of_nat n) AND 0x80000000 \<noteq> 0"
    and "(word_of_nat n :: u32) AND 0x80000000 = 0"
proof -
  have m: "(0x7FFFFFFF :: u32) = mask 31" and t: "(0x80000000 :: u32) = last_bit"
    by (simp_all add: mask_eq_exp_minus_1 last_bit_def)
  note n = bit_len31 [OF assms]
  note bits = bit_or_iff bit_and_iff bit_mask_iff bit_last_bit
  show "(last_bit OR word_of_nat n) AND 0x7FFFFFFF = word_of_nat n"
    unfolding m by (rule bit_word_eqI) (auto simp: bits dest: n)
  show "(word_of_nat n :: u32) AND 0x7FFFFFFF = word_of_nat n"
    unfolding m by (rule bit_word_eqI) (auto simp: bits dest: n)
  show "(word_of_nat n :: u32) AND 0x80000000 = 0"
    unfolding t by (rule bit_word_eqI) (auto simp: bits dest: n)
  have "bit ((last_bit OR word_of_nat n) AND 0x80000000) 31"
    unfolding t by (simp add: bits)
  then show "(last_bit OR word_of_nat n) AND 0x80000000 \<noteq> 0" by auto
qed

lemma unat_len31: "n < 2 ^ 31 \<Longrightarrow> unat (word_of_nat n :: u32) = n"
  by (simp add: unat_of_nat)

text \<open>One turn of the loop over a fragment that is the last one or not.\<close>

lemma recvRecord_turn:
  assumes del: "tcp_delivers os fd pending" and len: "length f < 2 ^ 31"
    and mark: "mark = (if lst then last_bit OR word_of_nat (length f) else word_of_nat (length f))"
    and p: "pending w = be32 mark @ f @ rest"
  shows "\<exists>w'. pending w' = rest \<and> recvRecord_loop os fd acc w =
    (if lst then Some (Inr (acc @ f), w') else recvRecord_loop os fd (acc @ f) w')"
proof -
  obtain w1 where w1: "recv_exact os fd 4 ''recv() record mark failed'' w = Some (Inr (be32 mark), w1)"
    and p1: "pending w1 = f @ rest"
    using recv_exact_delivers [OF del p, of 4] by auto
  have a: "unat (mark AND 0x7FFFFFFF) = length f" and b: "mark AND 0x80000000 \<noteq> 0 \<longleftrightarrow> lst"
    using len by (auto simp: mark mark_fields [OF len] unat_len31)
  obtain w2 where w2: "recv_exact os fd (length f) ''recv() record data failed'' w1 = Some (Inr f, w2)"
    and p2: "pending w2 = rest"
    using recv_exact_delivers [OF del p1 refl] by auto
  show ?thesis
    using w1 w2 a b p2 by (subst recvRecord_loop.simps) (auto simp: eff_simps mark_of_be32)
qed

lemma recvRecord_loop_reassembles:
  assumes del: "tcp_delivers os fd pending" and "fs \<noteq> []" and "\<forall>f \<in> set fs. length f < 2 ^ 31"
    and "pending w = wire_fragments fs @ rest"
  shows "\<exists>w'. recvRecord_loop os fd acc w = Some (Inr (acc @ concat fs), w') \<and> pending w' = rest"
  using assms(2-4)
proof (induction fs arbitrary: acc w rule: wire_fragments.induct)
  case 1
  then show ?case by simp
next
  case (2 f)
  then show ?case
    using recvRecord_turn [OF del, of f _ True w rest acc] by auto
next
  case (3 f g fs)
  from "3.prems" obtain w1 where p1: "pending w1 = wire_fragments (g # fs) @ rest"
    and turn: "recvRecord_loop os fd acc w = recvRecord_loop os fd (acc @ f) w1"
    using recvRecord_turn [OF del, of f _ False w "wire_fragments (g # fs) @ rest" acc] by auto
  from "3.IH" [of w1 "acc @ f"] "3.prems" p1 turn show ?case by simp
qed

text \<open>A peer that never sends the last fragment keeps the loop going for ever.\<close>

lemma recvRecord_loop_diverges:
  assumes idle: "\<And>want w. 0 < want \<Longrightarrow> \<exists>w'. os_recv os fd want w = (Some (replicate want 0), w')"
  shows "recvRecord_loop os fd acc w = None"
proof (rule ccontr)
  have ex: "\<exists>w'. recv_exact os fd want msg w = Some (Inr (replicate want 0), w')" for want msg w
  proof (cases want)
    case 0
    then show ?thesis by (simp add: recv_exact_def recv_loop_done)
  next
    case (Suc m)
    with idle [of want w] obtain w' where "os_recv os fd (want - length []) w = (Some (replicate want 0), w')"
      by auto
    with Suc show ?thesis
      using recv_loop_step [of "[]" want os fd w "replicate want 0" w' msg]
      by (auto simp: recv_exact_def recv_loop_done)
  qed
  have m0: "mark_of (replicate 4 0) = 0" by (simp add: mark_of_def numeral_eq_Suc)
  assume "recvRecord_loop os fd acc w \<noteq> None"
  then obtain y where y: "recvRecord_loop os fd acc w = Some y" by auto
  show False
  proof (rule recvRecord_loop.raw_induct
      [where P = "\<lambda>os' fd' _ _ _. os' = os \<and> fd' = fd \<longrightarrow> False", OF _ y, simplified])
    fix f os' fd' acc w y
    assume IH: "\<And>fd' acc w b y. f fd' acc w b = Some y \<Longrightarrow> fd' = os \<longrightarrow> acc \<noteq> fd"
      and run: "io_bind (recv_exact os' fd' 4 ''recv() record mark failed'') (\<lambda>mark_buf.
        io_bind (recv_exact os' fd' (unat (mark_of mark_buf AND 0x7FFFFFFF)) ''recv() record data failed'')
          (\<lambda>frag w'. if mark_of mark_buf AND 0x80000000 \<noteq> 0 then io_return (acc @ frag) w'
             else f os' fd' (acc @ frag) w')) w = Some y"
    show "os' = os \<longrightarrow> fd' \<noteq> fd"
    proof (rule ccontr)
      assume "\<not> (os' = os \<longrightarrow> fd' \<noteq> fd)"
      then have e: "os' = os" "fd' = fd" by auto
      obtain w1 where 1: "recv_exact os fd 4 ''recv() record mark failed'' w = Some (Inr (replicate 4 0), w1)"
        using ex by blast
      obtain w2 where 2: "recv_exact os fd 0 ''recv() record data failed'' w1 = Some (Inr (replicate 0 0), w2)"
        using ex by blast
      from run 1 2 have "f os fd (acc @ []) w2 = Some y"
        by (simp add: e eff_simps m0)
      then show False using IH by blast
    qed
  qed
qed

subsection \<open>What a server reads from a CALL\<close>

text \<open>
  The receiving side of RFC 5531: header, credential (an AUTH_SYS body is parsed, any other flavor
  is skipped), verifier, arguments.
\<close>

lemma fold_put_uint32 [put_simps]: "fold put_uint32 gs buf = buf @ concat (map be32 gs)"
  by (induction gs arbitrary: buf) (simp_all add: put_uint32_append)

definition server_auth_sys :: "AuthSys decoder" where
  "server_auth_sys =
     dbind get_uint32 (\<lambda>stamp.
     dbind get_string (\<lambda>name.
     dbind get_uint32 (\<lambda>uid.
     dbind get_uint32 (\<lambda>gid.
     dbind get_uint32 (\<lambda>n.
     dbind (dtimes (unat n) get_uint32) (\<lambda>gids.
     dreturn \<lparr>au_stamp = stamp, au_machinename = name, au_uid = uid, au_gid = gid, au_gids = gids\<rparr>))))))"

record rpc_call_header =
  ch_xid :: u32
  ch_type :: u32
  ch_rpcvers :: u32
  ch_prog :: u32
  ch_vers :: u32
  ch_proc :: u32
  ch_cred :: "u32 \<times> byte list"
  ch_verf :: "u32 \<times> byte list"

definition server_call :: "(rpc_call_header \<times> byte list) decoder" where
  "server_call =
     dbind get_uint32 (\<lambda>x. dbind get_uint32 (\<lambda>t. dbind get_uint32 (\<lambda>rv.
     dbind get_uint32 (\<lambda>prog. dbind get_uint32 (\<lambda>vers. dbind get_uint32 (\<lambda>proc.
     dbind get_uint32 (\<lambda>cf. dbind get_opaque (\<lambda>cb.
     dbind get_uint32 (\<lambda>vf. dbind get_opaque (\<lambda>vb.
     dbind get_remaining (\<lambda>args.
     dreturn (\<lparr>ch_xid = x, ch_type = t, ch_rpcvers = rv, ch_prog = prog, ch_vers = vers,
               ch_proc = proc, ch_cred = (cf, cb), ch_verf = (vf, vb)\<rparr>, args))))))))))))"

lemma encode_cred_body_eq:
  "encode_cred_body a = be32 (au_stamp a) @ wire_opaque (au_machinename a) @ be32 (au_uid a) @
     be32 (au_gid a) @ be32 (word_of_nat (length (au_gids a))) @ concat (map be32 (au_gids a))"
  by (simp add: encode_cred_body_def put_simps)

definition auth_wf :: "AuthSys \<Rightarrow> bool" where
  "auth_wf a \<longleftrightarrow> length (au_machinename a) < 2 ^ 32 \<and> length (au_gids a) < 2 ^ 32 \<and>
     length (encode_cred_body a) < 2 ^ 32"

interpretation authc: wire_codec auth_wf encode_cred_body server_auth_sys
proof
  fix a pre rest assume "auth_wf a"
  then have n: "length (au_machinename a) < 2 ^ 32"
    and g: "unat (word_of_nat (length (au_gids a)) :: u32) = length (au_gids a)"
    by (auto simp: auth_wf_def length_word_of_nat)
  have gs: "dtimes (length (au_gids a)) get_uint32 (at q (concat (map be32 (au_gids a)) @ rest)) =
      Inr (au_gids a, at (q @ concat (map be32 (au_gids a))) rest)" for q
    by (rule u32c.dtimes_enc) (simp_all add: list_all_def)
  show "server_auth_sys (at pre (encode_cred_body a @ rest)) = Inr (a, at (pre @ encode_cred_body a) rest)"
    using n by (simp add: server_auth_sys_def encode_cred_body_eq eff_simps at_simps g gs)
qed

definition wire_cred :: "AuthSys option \<Rightarrow> byte list" where
  "wire_cred auth = (case auth of
     None \<Rightarrow> be32 AUTH_NONE @ wire_opaque []
   | Some a \<Rightarrow> be32 AUTH_SYS_FLAV @ wire_opaque (encode_cred_body a))"

lemma wire_opaque_Nil: "wire_opaque [] = be32 0"
  by (simp add: wire_opaque_def xdr_pad_def)

lemma buildCallMessage_eq:
  "buildCallMessage x prog vers proc args auth =
     be32 x @ be32 0 @ be32 2 @ be32 prog @ be32 vers @ be32 proc @ wire_cred auth @
     be32 AUTH_NONE @ wire_opaque [] @ args"
  by (simp add: buildCallMessage_def put_simps RPC_VERSION_def wire_cred_def wire_opaque_Nil
      split: option.split)

subsection \<open>The REPLY header\<close>

definition wire_reply ::
  "u32 \<Rightarrow> u32 \<Rightarrow> u32 \<Rightarrow> u32 \<Rightarrow> byte list \<Rightarrow> u32 \<Rightarrow> byte list \<Rightarrow> byte list" where
  "wire_reply x mtype rstat flavor verf astat body =
     be32 x @ be32 mtype @ be32 rstat @ be32 flavor @ wire_opaque verf @ be32 astat @ body"

lemma parseReply_wire:
  assumes "length verf < 2 ^ 32"
  shows "parseReply (wire_reply x mtype rstat flavor verf astat body) =
    (if mtype \<noteq> 1 then Inl (RuntimeError ''RPC: expected REPLY message type'')
     else if rstat \<noteq> 0 then
       Inl (RuntimeError (''RPC: message denied (reply_stat='' @ to_string (unat rstat) @ '')''))
     else if astat \<noteq> 0 then
       Inl (RuntimeError (''RPC: not accepted (accept_stat='' @ to_string (unat astat) @ '')''))
     else Inr body)"
  using assms
  by (simp add: parseReply_def decode_at decode_reply_header_def wire_reply_def eff_simps
      get_uint32_at [where pre = "[]", simplified] at_simps)

subsection \<open>call\<close>

lemma sendAll_ret: "\<exists>r w'. sendAll os fd data w = Some (r, w')"
  by (auto simp: sendAll_def)

lemma call_unfold:
  "call os prog vers proc args (c, w) =
     (case sendAll os (rc_sock c) (addRecordMark (buildCallMessage (rc_xid c) prog vers proc args (rc_auth c))) w of
        None \<Rightarrow> None
      | Some (Inl e, w1) \<Rightarrow> Some (Inl e, (c\<lparr>rc_xid := rc_xid c + 1\<rparr>, w1))
      | Some (Inr _, w1) \<Rightarrow>
          (case recvRecord os (rc_sock c) w1 of
             None \<Rightarrow> None
           | Some (Inl e, w2) \<Rightarrow> Some (Inl e, (c\<lparr>rc_xid := rc_xid c + 1\<rparr>, w2))
           | Some (Inr rec, w2) \<Rightarrow> Some (parseReply rec, (c\<lparr>rc_xid := rc_xid c + 1\<rparr>, w2))))"
  by (auto simp: call_def eff_simps Let_def on_world_def on_client_def io_zoom_def
      split: option.split prod.split sum.split)

text \<open>
  Whatever happens during a call (a reply, a send or receive failure, a denied or garbled reply),
  the connection has used up exactly one transaction id and is otherwise unchanged.
\<close>

definition one_call :: "'w rpc_state \<Rightarrow> 'w rpc_state \<Rightarrow> bool" where
  "one_call s s' \<longleftrightarrow> fst s' = (fst s)\<lparr>rc_xid := rc_xid (fst s) + 1\<rparr>"

lemma call_one_call [rel_intros]: "io_rel one_call (call os prog vers proc args)"
  by (rule io_relI)
     (auto simp: one_call_def call_unfold split: option.splits prod.splits sum.splits)

text \<open>The exchange as a whole, over any way the network cuts the two streams into pieces.\<close>

lemma call_exchange:
  assumes del: "tcp_delivers os (rc_sock c) pending"
    and req: "sendAll os (rc_sock c)
       (addRecordMark (buildCallMessage (rc_xid c) prog vers proc args (rc_auth c))) w = Some (Inr (), w1)"
    and p: "pending w1 = wire_fragments fs @ rest" and fs: "fs \<noteq> []" "\<forall>f \<in> set fs. length f < 2 ^ 31"
  shows "\<exists>w2. call os prog vers proc args (c, w) =
           Some (parseReply (concat fs), (c\<lparr>rc_xid := rc_xid c + 1\<rparr>, w2)) \<and> pending w2 = rest"
  using recvRecord_loop_reassembles [OF del fs p, of "[]"]
  by (auto simp: call_unfold req recvRecord_def)

subsection \<open>Scoped connections\<close>

lemma with_rpc_closes:
  assumes "TcpRpcClient os host port w = Some (Inr c, w1)" and "rc_sock c \<ge> 0"
    and "body (c, w1) = Some (r, (c', w2))" and "rc_sock c' = rc_sock c"
  shows "with_rpc os host port body w = Some (r, os_close os (rc_sock c) w2)"
  using assms by (simp add: with_rpc_def eff_simps rpc_destroy_def)

subsection \<open>What the network loops do to the world\<close>

text \<open>Every relation that \<open>recv\<close> (\<open>send\<close>) steps are in, the loops are in.\<close>

definition recv_rel :: "'w os \<Rightarrow> int \<Rightarrow> ('w \<Rightarrow> 'w \<Rightarrow> bool) \<Rightarrow> bool" where
  "recv_rel os fd R \<longleftrightarrow> (\<forall>w. R w w) \<and> (\<forall>t u v. R t u \<longrightarrow> R u v \<longrightarrow> R t v) \<and>
     (\<forall>want w c w'. os_recv os fd want w = (c, w') \<longrightarrow> R w w')"

lemma recv_relD:
  assumes "recv_rel os fd R"
  shows "R w w" and "R t u \<Longrightarrow> R u v \<Longrightarrow> R t v" and "os_recv os fd want w = (c, w') \<Longrightarrow> R w w'"
  using assms unfolding recv_rel_def by blast+

lemma recv_loop_rel:
  assumes "recv_loop os fd want msg buf w = (r, w')" and "recv_rel os fd R"
  shows "R w w'"
  using assms
proof (induction os fd want msg buf w rule: recv_loop.induct)
  case (1 os fd want msg buf w)
  show ?case
  proof (cases "length buf < want")
    case False
    with "1.prems" show ?thesis by (auto simp: recv_loop_done dest: recv_relD(1))
  next
    case True
    obtain c w1 where rc: "os_recv os fd (want - length buf) w = (c, w1)" by fastforce
    note k = recv_relD(3) [OF "1.prems"(2) rc]
    show ?thesis
    proof (cases "c = None \<or> c = Some []")
      case True
      with "1.prems"(1) rc \<open>length buf < want\<close> k show ?thesis
        by (subst (asm) recv_loop.simps) auto
    next
      case False
      then obtain b bs where c: "c = Some (b # bs)" by (cases c; cases "the c") auto
      with "1.prems"(1) rc True have "recv_loop os fd want msg (buf @ b # bs) w1 = (r, w')"
        by (simp add: recv_loop_step)
      from recv_relD(2) [OF "1.prems"(2) k "1.IH" [OF True rc [symmetric] c refl this "1.prems"(2)]]
      show ?thesis .
    qed
  qed
qed

lemma recv_exact_rel:
  "recv_exact os fd want msg w = Some (r, w') \<Longrightarrow> recv_rel os fd R \<Longrightarrow> R w w'"
  unfolding recv_exact_def by (auto intro: recv_loop_rel)

lemma recvRecord_loop_rel:
  assumes run: "recvRecord_loop os fd acc w = Some (r, w')" and "recv_rel os fd R"
  shows "R w w'"
proof -
  have "R w (snd (r, w'))"
  proof (rule recvRecord_loop.raw_induct
      [where P = "\<lambda>os fd acc w y. recv_rel os fd R \<longrightarrow> R w (snd y)", OF _ run, rule_format, OF _ assms(2)])
    fix f os fd acc w y
    assume IH: "\<And>os fd acc w y. f os fd acc w = Some y \<Longrightarrow> recv_rel os fd R \<Longrightarrow> R w (snd y)"
      and turn: "io_bind (recv_exact os fd 4 ''recv() record mark failed'') (\<lambda>mark_buf.
          io_bind (recv_exact os fd (unat (mark_of mark_buf AND 0x7FFFFFFF)) ''recv() record data failed'')
            (\<lambda>frag w'. if mark_of mark_buf AND 0x80000000 \<noteq> 0 then io_return (acc @ frag) w'
               else f os fd (acc @ frag) w')) w = Some y"
      and R: "recv_rel os fd R"
    obtain r w9 where y: "y = (r, w9)" by fastforce
    note one = recv_exact_rel [OF _ R] and more = IH [OF _ R]
    have more': "f os fd a s = Some (q, s') \<Longrightarrow> R s s'" for a s q s'
      by (drule more) simp
    have two: "R s s1 \<Longrightarrow> R s1 s2 \<Longrightarrow> R s s2" for s s1 s2
      using recv_relD(2) [OF R] by blast
    from turn y show "R w (snd y)"
      by (auto simp: io_bind_Some_iff io_return_def split: if_splits
          dest!: one more' intro: two [OF _ two] two)
  qed
  then show ?thesis by simp
qed

lemma sendAll_loop_rel:
  assumes "sendAll_loop os fd data tot w = (r, w')"
    and "\<And>w. R w w" and "\<And>t u v. R t u \<Longrightarrow> R u v \<Longrightarrow> R t v"
    and "\<And>d w n w'. os_send os fd d w = (n, w') \<Longrightarrow> R w w'"
  shows "R w w'"
  using assms
proof (induction os fd data tot w rule: sendAll_loop.induct)
  case (1 os fd data tot w)
  obtain n w1 where s: "os_send os fd (drop tot data) w = (n, w1)" by fastforce
  consider "\<not> tot < length data" | "tot < length data" "n \<le> 0" | "tot < length data" "0 < n" by linarith
  then show ?case
  proof cases
    case 1
    with "1.prems" show ?thesis by (auto simp: sendAll_loop_done)
  next
    case 2
    with "1.prems"(1,4) s show ?thesis by (auto simp: sendAll_loop_step)
  next
    case 3
    with "1.prems"(1) s have "sendAll_loop os fd data (tot + nat n) w1 = (r, w')"
      by (simp add: sendAll_loop_step)
    then have "R w1 w'" using 3 "1.IH" [OF 3(1) s [symmetric]] "1.prems"(2-4) by simp
    with "1.prems"(3,4) s show ?thesis by blast
  qed
qed

text \<open>So is a call.\<close>

lemma call_rel:
  assumes "call os prog vers proc args (c, w) = Some (r, (c', w'))"
    and recv: "recv_rel os (rc_sock c) R"
    and send: "\<And>d w n w'. os_send os (rc_sock c) d w = (n, w') \<Longrightarrow> R w w'"
  shows "R w w'"
proof -
  note R = recv_relD [OF recv]
  have s: "sendAll os (rc_sock c) d w = Some (q, w1) \<Longrightarrow> R w w1" for d q w1
    unfolding sendAll_def by (auto intro: sendAll_loop_rel [where R = R] R(1,2) send)
  have r: "recvRecord os (rc_sock c) w1 = Some (q, w2) \<Longrightarrow> R w1 w2" for q w1 w2
    unfolding recvRecord_def by (rule recvRecord_loop_rel [OF _ recv])
  from assms(1) show ?thesis
    by (auto simp: call_unfold split: option.splits prod.splits sum.splits
        intro: s R(2) [OF s r])
qed

end
