(* ===== verification/Nfs3_Types.thy ===== *)
theory Nfs3_Types
  imports Rpc
begin

text \<open>
  \<open>src/nfs/nfs3_types.hpp\<close> and \<open>src/nfs/nfs_error.hpp\<close>: the NFSv3 data types, their XDR helpers and
  the status codes. An \<open>enum class : uint32_t\<close> that is read from the wire by a \<open>static_cast\<close> holds
  any 32-bit value, so it is a word with named values; one that is only an argument is a datatype.
  The server's side of the wire format (\<open>wire_...\<close>) follows RFC 1813.
\<close>

subsection \<open>Types\<close>

record Fh3 =
  fh3_data :: "byte list"

definition Fh3_eq :: "Fh3 \<Rightarrow> Fh3 \<Rightarrow> bool" where
  "Fh3_eq a b = (fh3_data a = fh3_data b)"

type_synonym Stable3 = u32

definition UNSTABLE :: Stable3 where "UNSTABLE = 0"
definition DATA_SYNC :: Stable3 where "DATA_SYNC = 1"
definition FILE_SYNC :: Stable3 where "FILE_SYNC = 2"

record WriteResult =
  wr_count :: u32
  wr_committed :: Stable3
  wr_verf :: "byte list"

type_synonym Ftype3 = u32

definition NF3REG :: Ftype3 where "NF3REG = 1"
definition NF3DIR :: Ftype3 where "NF3DIR = 2"
definition NF3BLK :: Ftype3 where "NF3BLK = 3"
definition NF3CHR :: Ftype3 where "NF3CHR = 4"
definition NF3LNK :: Ftype3 where "NF3LNK = 5"
definition NF3SOCK :: Ftype3 where "NF3SOCK = 6"
definition NF3FIFO :: Ftype3 where "NF3FIFO = 7"

record Nfstime3 =
  nt_seconds :: u32
  nt_nseconds :: u32

record Specdata3 =
  specdata1 :: u32
  specdata2 :: u32

record Fattr3 =
  fa_type :: Ftype3
  fa_mode :: u32
  fa_nlink :: u32
  fa_uid :: u32
  fa_gid :: u32
  fa_size :: u64
  fa_used :: u64
  fa_rdev :: Specdata3
  fa_fsid :: u64
  fa_fileid :: u64
  fa_atime :: Nfstime3
  fa_mtime :: Nfstime3
  fa_ctime :: Nfstime3

datatype SetTimeHow = DONT_CHANGE | SET_TO_SERVER_TIME | SET_TO_CLIENT_TIME

fun SetTimeHow_value :: "SetTimeHow \<Rightarrow> u32" where
  "SetTimeHow_value DONT_CHANGE = 0"
| "SetTimeHow_value SET_TO_SERVER_TIME = 1"
| "SetTimeHow_value SET_TO_CLIENT_TIME = 2"

record Sattr3 =
  sa_set_mode :: bool
  sa_mode :: u32
  sa_set_uid :: bool
  sa_uid :: u32
  sa_set_gid :: bool
  sa_gid :: u32
  sa_set_size :: bool
  sa_size :: u64
  sa_set_atime :: SetTimeHow
  sa_atime_sec :: u32
  sa_atime_nsec :: u32
  sa_set_mtime :: SetTimeHow
  sa_mtime_sec :: u32
  sa_mtime_nsec :: u32

definition Sattr3_default :: Sattr3 where
  "Sattr3_default =
     \<lparr>sa_set_mode = False, sa_mode = 0x1A4, sa_set_uid = False, sa_uid = 0,
      sa_set_gid = False, sa_gid = 0, sa_set_size = False, sa_size = 0,
      sa_set_atime = DONT_CHANGE, sa_atime_sec = 0, sa_atime_nsec = 0,
      sa_set_mtime = DONT_CHANGE, sa_mtime_sec = 0, sa_mtime_nsec = 0\<rparr>"

subsection \<open>XDR helpers\<close>

definition encode_fh3 :: "Fh3 \<Rightarrow> xdr_encoder \<Rightarrow> xdr_encoder" where
  "encode_fh3 fh = put_opaque (fh3_data fh)"

definition decode_fh3 :: "Fh3 decoder" where
  "decode_fh3 = dbind get_opaque (\<lambda>d. dreturn \<lparr>fh3_data = d\<rparr>)"

definition decode_fattr3 :: "Fattr3 decoder" where
  "decode_fattr3 =
     dbind get_uint32 (\<lambda>type.
     dbind get_uint32 (\<lambda>mode.
     dbind get_uint32 (\<lambda>nlink.
     dbind get_uint32 (\<lambda>uid.
     dbind get_uint32 (\<lambda>gid.
     dbind get_uint64 (\<lambda>size.
     dbind get_uint64 (\<lambda>used.
     dbind get_uint32 (\<lambda>spec1.
     dbind get_uint32 (\<lambda>spec2.
     dbind get_uint64 (\<lambda>fsid.
     dbind get_uint64 (\<lambda>fileid.
     dbind get_uint32 (\<lambda>asec.
     dbind get_uint32 (\<lambda>ansec.
     dbind get_uint32 (\<lambda>msec.
     dbind get_uint32 (\<lambda>mnsec.
     dbind get_uint32 (\<lambda>csec.
     dbind get_uint32 (\<lambda>cnsec.
     dreturn
       \<lparr>fa_type = type, fa_mode = mode, fa_nlink = nlink, fa_uid = uid, fa_gid = gid,
        fa_size = size, fa_used = used, fa_rdev = \<lparr>specdata1 = spec1, specdata2 = spec2\<rparr>,
        fa_fsid = fsid, fa_fileid = fileid,
        fa_atime = \<lparr>nt_seconds = asec, nt_nseconds = ansec\<rparr>,
        fa_mtime = \<lparr>nt_seconds = msec, nt_nseconds = mnsec\<rparr>,
        fa_ctime = \<lparr>nt_seconds = csec, nt_nseconds = cnsec\<rparr>\<rparr>)))))))))))))))))"

definition encode_sattr3 :: "Sattr3 \<Rightarrow> xdr_encoder \<Rightarrow> xdr_encoder" where
  "encode_sattr3 s =
     steps [
     put_uint32 (if sa_set_mode s then 1 else 0),
     (if sa_set_mode s then put_uint32 (sa_mode s) else id),
     put_uint32 (if sa_set_uid s then 1 else 0),
     (if sa_set_uid s then put_uint32 (sa_uid s) else id),
     put_uint32 (if sa_set_gid s then 1 else 0),
     (if sa_set_gid s then put_uint32 (sa_gid s) else id),
     put_uint32 (if sa_set_size s then 1 else 0),
     (if sa_set_size s then put_uint64 (sa_size s) else id),
     put_uint32 (SetTimeHow_value (sa_set_atime s)),
     (if sa_set_atime s = SET_TO_CLIENT_TIME
      then steps [put_uint32 (sa_atime_sec s), put_uint32 (sa_atime_nsec s)] else id),
     put_uint32 (SetTimeHow_value (sa_set_mtime s)),
     (if sa_set_mtime s = SET_TO_CLIENT_TIME
      then steps [put_uint32 (sa_mtime_sec s), put_uint32 (sa_mtime_nsec s)] else id)]"

definition skip_post_op_attr :: "unit decoder" where
  "skip_post_op_attr =
     dbind get_uint32 (\<lambda>present.
     if present \<noteq> 0 then dbind decode_fattr3 (\<lambda>_. dreturn ()) else dreturn ())"

definition skip_pre_op_attr :: "unit decoder" where
  "skip_pre_op_attr =
     dbind get_uint32 (\<lambda>present.
     if present \<noteq> 0 then dbind (dtimes 6 get_uint32) (\<lambda>_. dreturn ()) else dreturn ())"

definition skip_wcc_data :: "unit decoder" where
  "skip_wcc_data = dbind skip_pre_op_attr (\<lambda>_. skip_post_op_attr)"

subsection \<open>Status codes\<close>

datatype Nfsstat3 =
    NFS3_OK | NFS3ERR_PERM | NFS3ERR_NOENT | NFS3ERR_IO | NFS3ERR_NXIO | NFS3ERR_ACCES
  | NFS3ERR_EXIST | NFS3ERR_XDEV | NFS3ERR_NODEV | NFS3ERR_NOTDIR | NFS3ERR_ISDIR
  | NFS3ERR_INVAL | NFS3ERR_FBIG | NFS3ERR_NOSPC | NFS3ERR_ROFS | NFS3ERR_MLINK
  | NFS3ERR_NAMETOOLONG | NFS3ERR_NOTEMPTY | NFS3ERR_DQUOT | NFS3ERR_STALE | NFS3ERR_REMOTE
  | NFS3ERR_BADHANDLE | NFS3ERR_NOT_SYNC | NFS3ERR_BAD_COOKIE | NFS3ERR_NOTSUPP
  | NFS3ERR_TOOSMALL | NFS3ERR_SERVERFAULT | NFS3ERR_BADTYPE | NFS3ERR_JUKEBOX

fun Nfsstat3_value :: "Nfsstat3 \<Rightarrow> u32" where
  "Nfsstat3_value NFS3_OK = 0"
| "Nfsstat3_value NFS3ERR_PERM = 1"
| "Nfsstat3_value NFS3ERR_NOENT = 2"
| "Nfsstat3_value NFS3ERR_IO = 5"
| "Nfsstat3_value NFS3ERR_NXIO = 6"
| "Nfsstat3_value NFS3ERR_ACCES = 13"
| "Nfsstat3_value NFS3ERR_EXIST = 17"
| "Nfsstat3_value NFS3ERR_XDEV = 18"
| "Nfsstat3_value NFS3ERR_NODEV = 19"
| "Nfsstat3_value NFS3ERR_NOTDIR = 20"
| "Nfsstat3_value NFS3ERR_ISDIR = 21"
| "Nfsstat3_value NFS3ERR_INVAL = 22"
| "Nfsstat3_value NFS3ERR_FBIG = 27"
| "Nfsstat3_value NFS3ERR_NOSPC = 28"
| "Nfsstat3_value NFS3ERR_ROFS = 30"
| "Nfsstat3_value NFS3ERR_MLINK = 31"
| "Nfsstat3_value NFS3ERR_NAMETOOLONG = 63"
| "Nfsstat3_value NFS3ERR_NOTEMPTY = 66"
| "Nfsstat3_value NFS3ERR_DQUOT = 69"
| "Nfsstat3_value NFS3ERR_STALE = 70"
| "Nfsstat3_value NFS3ERR_REMOTE = 71"
| "Nfsstat3_value NFS3ERR_BADHANDLE = 10001"
| "Nfsstat3_value NFS3ERR_NOT_SYNC = 10002"
| "Nfsstat3_value NFS3ERR_BAD_COOKIE = 10003"
| "Nfsstat3_value NFS3ERR_NOTSUPP = 10004"
| "Nfsstat3_value NFS3ERR_TOOSMALL = 10005"
| "Nfsstat3_value NFS3ERR_SERVERFAULT = 10006"
| "Nfsstat3_value NFS3ERR_BADTYPE = 10007"
| "Nfsstat3_value NFS3ERR_JUKEBOX = 10008"

text \<open>\<open>NfsError::what()\<close> and \<open>NfsError::is\<close>.\<close>

definition NfsError_what :: "u32 \<Rightarrow> string \<Rightarrow> string" where
  "NfsError_what s proc = proc @ '' failed, nfsstat3='' @ to_string (unat s)"

fun NfsError_is :: "error \<Rightarrow> Nfsstat3 \<Rightarrow> bool" where
  "NfsError_is (NfsError s proc) code = (s = Nfsstat3_value code)"
| "NfsError_is _ code = False"

subsection \<open>The server's side of the wire format\<close>

definition fh3_wf :: "Fh3 \<Rightarrow> bool" where
  "fh3_wf fh \<longleftrightarrow> length (fh3_data fh) < 2 ^ 32"

definition wire_fh3 :: "Fh3 \<Rightarrow> byte list" where
  "wire_fh3 fh = wire_opaque (fh3_data fh)"

definition wire_time3 :: "Nfstime3 \<Rightarrow> byte list" where
  "wire_time3 t = be32 (nt_seconds t) @ be32 (nt_nseconds t)"

definition wire_fattr3 :: "Fattr3 \<Rightarrow> byte list" where
  "wire_fattr3 a =
     be32 (fa_type a) @ be32 (fa_mode a) @ be32 (fa_nlink a) @ be32 (fa_uid a) @ be32 (fa_gid a) @
     be64 (fa_size a) @ be64 (fa_used a) @
     be32 (specdata1 (fa_rdev a)) @ be32 (specdata2 (fa_rdev a)) @
     be64 (fa_fsid a) @ be64 (fa_fileid a) @
     wire_time3 (fa_atime a) @ wire_time3 (fa_mtime a) @ wire_time3 (fa_ctime a)"

definition wire_optional :: "('a \<Rightarrow> byte list) \<Rightarrow> 'a option \<Rightarrow> byte list" where
  "wire_optional enc x = (case x of None \<Rightarrow> be32 0 | Some v \<Rightarrow> be32 1 @ enc v)"

definition wire_post_op_attr :: "Fattr3 option \<Rightarrow> byte list" where
  "wire_post_op_attr = wire_optional wire_fattr3"

record Wcc_attr =
  wcc_size :: u64
  wcc_mtime :: Nfstime3
  wcc_ctime :: Nfstime3

definition wire_wcc_attr :: "Wcc_attr \<Rightarrow> byte list" where
  "wire_wcc_attr a = be64 (wcc_size a) @ wire_time3 (wcc_mtime a) @ wire_time3 (wcc_ctime a)"

type_synonym wcc_data = "Wcc_attr option \<times> Fattr3 option"

definition wire_wcc_data :: "wcc_data \<Rightarrow> byte list" where
  "wire_wcc_data w = wire_optional wire_wcc_attr (fst w) @ wire_post_op_attr (snd w)"

interpretation fh3c: wire_codec fh3_wf wire_fh3 decode_fh3
  by unfold_locales
     (simp add: decode_fh3_def wire_fh3_def fh3_wf_def eff_simps at_simps)

interpretation fattr3c: wire_codec "\<lambda>_. True" wire_fattr3 decode_fattr3
  by unfold_locales
     (simp add: decode_fattr3_def wire_fattr3_def wire_time3_def eff_simps at_simps)

lemmas [at_simps] = fh3c.dec_enc fattr3c.dec_enc

lemma encode_fh3_append [put_simps]: "encode_fh3 fh buf = buf @ wire_fh3 fh"
  by (simp add: encode_fh3_def wire_fh3_def put_simps)

lemma skip_post_op_attr_at [at_simps]:
  "skip_post_op_attr (at pre (wire_post_op_attr a @ rest)) = Inr ((), at (pre @ wire_post_op_attr a) rest)"
  by (cases a) (simp_all add: skip_post_op_attr_def wire_post_op_attr_def wire_optional_def eff_simps at_simps)

text \<open>The six words the client skips are exactly a \<open>wcc_attr\<close>.\<close>

lemma wire_wcc_attr_words: "wire_wcc_attr a = concat (map be32
    [ucast (drop_bit 32 (wcc_size a)), ucast (wcc_size a AND 0xFFFFFFFF),
     nt_seconds (wcc_mtime a), nt_nseconds (wcc_mtime a),
     nt_seconds (wcc_ctime a), nt_nseconds (wcc_ctime a)])"
  by (simp add: wire_wcc_attr_def wire_time3_def be64_be32)

lemma skip_wcc_data_at [at_simps]:
  "skip_wcc_data (at pre (wire_wcc_data w @ rest)) = Inr ((), at (pre @ wire_wcc_data w) rest)"
proof -
  have "skip_pre_op_attr (at p (wire_optional wire_wcc_attr a @ r)) =
      Inr ((), at (p @ wire_optional wire_wcc_attr a) r)" for a p r
  proof (cases a)
    case None
    then show ?thesis by (simp add: skip_pre_op_attr_def wire_optional_def eff_simps at_simps)
  next
    case (Some x)
    have "dtimes 6 get_uint32 (at q (wire_wcc_attr x @ r)) = Inr
        ([ucast (drop_bit 32 (wcc_size x)), ucast (wcc_size x AND 0xFFFFFFFF),
          nt_seconds (wcc_mtime x), nt_nseconds (wcc_mtime x),
          nt_seconds (wcc_ctime x), nt_nseconds (wcc_ctime x)], at (q @ wire_wcc_attr x) r)" for q
      unfolding wire_wcc_attr_words by (rule u32c.dtimes_enc) simp_all
    with Some show ?thesis by (simp add: skip_pre_op_attr_def wire_optional_def eff_simps at_simps)
  qed
  then show ?thesis by (simp add: skip_wcc_data_def wire_wcc_data_def eff_simps at_simps)
qed

subsection \<open>Cursor safety of the helpers\<close>

lemma dec_safe_nfs3_helpers [safe_intros]:
  "dec_safe decode_fh3" "dec_safe decode_fattr3" "dec_safe skip_post_op_attr"
  "dec_safe skip_wcc_data"
proof -
  show "dec_safe decode_fh3" unfolding decode_fh3_def by (intro safe_intros)
  show f: "dec_safe decode_fattr3" unfolding decode_fattr3_def by (intro safe_intros)
  show p: "dec_safe skip_post_op_attr" unfolding skip_post_op_attr_def by (intro safe_intros f)
  show "dec_safe skip_wcc_data"
    unfolding skip_wcc_data_def skip_pre_op_attr_def by (intro safe_intros p)
qed

lemma dec_throws_nfs3_helpers [throws_intros]:
  assumes "E underflow"
  shows "dec_throws E decode_fh3" and "dec_throws E decode_fattr3" and "dec_throws E skip_post_op_attr"
    and "dec_throws E skip_wcc_data"
proof -
  show "dec_throws E decode_fh3" unfolding decode_fh3_def by (intro throws_intros assms)
  show f: "dec_throws E decode_fattr3" unfolding decode_fattr3_def by (intro throws_intros assms)
  show p: "dec_throws E skip_post_op_attr" unfolding skip_post_op_attr_def by (intro throws_intros assms f)
  show "dec_throws E skip_wcc_data"
    unfolding skip_wcc_data_def skip_pre_op_attr_def by (intro throws_intros assms p)
qed

end
