(* ===== verification/Nfs3_Name.thy ===== *)
theory Nfs3_Name
  imports Nfs3_File
begin

text \<open>
  \<open>src/nfs\<close>: the NFSv3 procedures on names in a directory: LOOKUP, CREATE, MKDIR, SYMLINK, MKNOD,
  REMOVE, RMDIR, RENAME, LINK. The five that make an object share the shape of their reply: a file
  handle the server may leave out (the client then throws), attributes, and the directory's
  \<open>wcc_data\<close>.
\<close>

subsection \<open>LOOKUP\<close>

definition NFSPROC3_LOOKUP :: u32 where "NFSPROC3_LOOKUP = 3"

definition encode_lookup_args :: "Fh3 \<Rightarrow> cstring \<Rightarrow> byte list" where
  "encode_lookup_args dir name = encode (steps [
     encode_fh3 dir,
     put_string name])"

definition decode_lookup_reply :: "byte list \<Rightarrow> error + Fh3" where
  "decode_lookup_reply data = decode (
     dbind get_uint32 (\<lambda>status.
     dbind (throw_if (status \<noteq> 0) (NfsError status ''LOOKUP'')) (\<lambda>_.
     dbind decode_fh3 (\<lambda>fh.
     dbind skip_post_op_attr (\<lambda>_.
     dbind skip_post_op_attr (\<lambda>_.
     dreturn fh)))))) data"

definition nfs3_lookup ::
  "'w os \<Rightarrow> Fh3 \<Rightarrow> cstring \<Rightarrow> ('w rpc_state, Fh3) io" where
  "nfs3_lookup os dir name =
     (let args = encode_lookup_args dir name in
     io_bind (call os NFS_PROG NFS_VERS NFSPROC3_LOOKUP args) (\<lambda>reply.
     io_lift (decode_lookup_reply reply)))"

subsection \<open>CREATE\<close>

definition NFSPROC3_CREATE :: u32 where "NFSPROC3_CREATE = 8"

datatype CreateMode3 = UNCHECKED | GUARDED | EXCLUSIVE

fun CreateMode3_value :: "CreateMode3 \<Rightarrow> u32" where
  "CreateMode3_value UNCHECKED = 0"
| "CreateMode3_value GUARDED = 1"
| "CreateMode3_value EXCLUSIVE = 2"

text \<open>\<open>CreateVerf3\<close> is an array of eight bytes.\<close>

type_synonym CreateVerf3 = "byte list"

definition encode_create_args :: "Fh3 \<Rightarrow> cstring \<Rightarrow> CreateMode3 \<Rightarrow> Sattr3 \<Rightarrow> byte list" where
  "encode_create_args dir name mode attrs = encode (steps [
     encode_fh3 dir,
     put_string name,
     put_uint32 (CreateMode3_value mode),
     encode_sattr3 attrs])"

definition encode_create_args_exclusive :: "Fh3 \<Rightarrow> cstring \<Rightarrow> CreateVerf3 \<Rightarrow> byte list" where
  "encode_create_args_exclusive dir name verf = encode (steps [
     encode_fh3 dir,
     put_string name,
     put_uint32 (CreateMode3_value EXCLUSIVE),
     put_fixed_opaque verf])"

definition decode_create_reply :: "byte list \<Rightarrow> error + Fh3" where
  "decode_create_reply data = decode (
     dbind get_uint32 (\<lambda>status.
     dbind (throw_if (status \<noteq> 0) (NfsError status ''CREATE'')) (\<lambda>_.
     dbind get_uint32 (\<lambda>fh_present.
     dbind (throw_if (fh_present = 0)
              (RuntimeError ''CREATE: server returned no file handle'')) (\<lambda>_.
     dbind decode_fh3 (\<lambda>fh.
     dbind skip_post_op_attr (\<lambda>_.
     dbind skip_wcc_data (\<lambda>_.
     dreturn fh)))))))) data"

definition nfs3_create ::
  "'w os \<Rightarrow> Fh3 \<Rightarrow> cstring \<Rightarrow> CreateMode3 \<Rightarrow> Sattr3 \<Rightarrow> ('w rpc_state, Fh3) io" where
  "nfs3_create os dir name mode attrs =
     (let args = encode_create_args dir name mode attrs in
     io_bind (call os NFS_PROG NFS_VERS NFSPROC3_CREATE args) (\<lambda>reply.
     io_lift (decode_create_reply reply)))"

definition nfs3_create_exclusive ::
  "'w os \<Rightarrow> Fh3 \<Rightarrow> cstring \<Rightarrow> CreateVerf3 \<Rightarrow> ('w rpc_state, Fh3) io" where
  "nfs3_create_exclusive os dir name verf =
     (let args = encode_create_args_exclusive dir name verf in
     io_bind (call os NFS_PROG NFS_VERS NFSPROC3_CREATE args) (\<lambda>reply.
     io_lift (decode_create_reply reply)))"

subsection \<open>MKDIR\<close>

definition NFSPROC3_MKDIR :: u32 where "NFSPROC3_MKDIR = 9"

definition encode_mkdir_args :: "Fh3 \<Rightarrow> cstring \<Rightarrow> Sattr3 \<Rightarrow> byte list" where
  "encode_mkdir_args dir name attrs = encode (steps [
     encode_fh3 dir,
     put_string name,
     encode_sattr3 attrs])"

definition decode_mkdir_reply :: "byte list \<Rightarrow> error + Fh3" where
  "decode_mkdir_reply data = decode (
     dbind get_uint32 (\<lambda>status.
     dbind (throw_if (status \<noteq> 0) (NfsError status ''MKDIR'')) (\<lambda>_.
     dbind get_uint32 (\<lambda>fh_present.
     dbind (throw_if (fh_present = 0)
              (RuntimeError ''MKDIR: server returned no file handle'')) (\<lambda>_.
     dbind decode_fh3 (\<lambda>fh.
     dbind skip_post_op_attr (\<lambda>_.
     dbind skip_wcc_data (\<lambda>_.
     dreturn fh)))))))) data"

definition nfs3_mkdir ::
  "'w os \<Rightarrow> Fh3 \<Rightarrow> cstring \<Rightarrow> Sattr3 \<Rightarrow> ('w rpc_state, Fh3) io" where
  "nfs3_mkdir os dir name attrs =
     (let args = encode_mkdir_args dir name attrs in
     io_bind (call os NFS_PROG NFS_VERS NFSPROC3_MKDIR args) (\<lambda>reply.
     io_lift (decode_mkdir_reply reply)))"

subsection \<open>SYMLINK\<close>

definition NFSPROC3_SYMLINK :: u32 where "NFSPROC3_SYMLINK = 10"

definition encode_symlink_args :: "Fh3 \<Rightarrow> cstring \<Rightarrow> cstring \<Rightarrow> Sattr3 \<Rightarrow> byte list" where
  "encode_symlink_args dir name target attrs = encode (steps [
     encode_fh3 dir,
     put_string name,
     encode_sattr3 attrs,
     put_string target])"

definition decode_symlink_reply :: "byte list \<Rightarrow> error + Fh3" where
  "decode_symlink_reply data = decode (
     dbind get_uint32 (\<lambda>status.
     dbind (throw_if (status \<noteq> 0) (NfsError status ''SYMLINK'')) (\<lambda>_.
     dbind get_uint32 (\<lambda>fh_present.
     dbind (throw_if (fh_present = 0)
              (RuntimeError ''SYMLINK: server returned no file handle'')) (\<lambda>_.
     dbind decode_fh3 (\<lambda>fh.
     dbind skip_post_op_attr (\<lambda>_.
     dbind skip_wcc_data (\<lambda>_.
     dreturn fh)))))))) data"

definition nfs3_symlink ::
  "'w os \<Rightarrow> Fh3 \<Rightarrow> cstring \<Rightarrow> cstring \<Rightarrow> Sattr3 \<Rightarrow> ('w rpc_state, Fh3) io" where
  "nfs3_symlink os dir name target attrs =
     (let args = encode_symlink_args dir name target attrs in
     io_bind (call os NFS_PROG NFS_VERS NFSPROC3_SYMLINK args) (\<lambda>reply.
     io_lift (decode_symlink_reply reply)))"

subsection \<open>MKNOD\<close>

definition NFSPROC3_MKNOD :: u32 where "NFSPROC3_MKNOD = 11"

record DeviceSpec3 =
  ds_major_num :: u32
  ds_minor_num :: u32

definition encode_mknod_args :: "Fh3 \<Rightarrow> cstring \<Rightarrow> Ftype3 \<Rightarrow> Sattr3 \<Rightarrow> byte list" where
  "encode_mknod_args dir name type attrs = encode (steps [
     encode_fh3 dir,
     put_string name,
     put_uint32 type,
     encode_sattr3 attrs])"

definition encode_mknod_device_args ::
  "Fh3 \<Rightarrow> cstring \<Rightarrow> Ftype3 \<Rightarrow> Sattr3 \<Rightarrow> DeviceSpec3 \<Rightarrow> byte list" where
  "encode_mknod_device_args dir name type attrs spec = encode (steps [
     encode_fh3 dir,
     put_string name,
     put_uint32 type,
     encode_sattr3 attrs,
     put_uint32 (ds_major_num spec),
     put_uint32 (ds_minor_num spec)])"

definition decode_mknod_reply :: "byte list \<Rightarrow> error + Fh3" where
  "decode_mknod_reply data = decode (
     dbind get_uint32 (\<lambda>status.
     dbind (throw_if (status \<noteq> 0) (NfsError status ''MKNOD'')) (\<lambda>_.
     dbind get_uint32 (\<lambda>fh_present.
     dbind (throw_if (fh_present = 0)
              (RuntimeError ''MKNOD: server returned no file handle'')) (\<lambda>_.
     dbind decode_fh3 (\<lambda>fh.
     dbind skip_post_op_attr (\<lambda>_.
     dbind skip_wcc_data (\<lambda>_.
     dreturn fh)))))))) data"

definition nfs3_mknod_simple ::
  "'w os \<Rightarrow> Fh3 \<Rightarrow> cstring \<Rightarrow> Ftype3 \<Rightarrow> Sattr3 \<Rightarrow> ('w rpc_state, Fh3) io" where
  "nfs3_mknod_simple os dir name type attrs =
     (let args = encode_mknod_args dir name type attrs in
     io_bind (call os NFS_PROG NFS_VERS NFSPROC3_MKNOD args) (\<lambda>reply.
     io_lift (decode_mknod_reply reply)))"

definition nfs3_mknod_device ::
  "'w os \<Rightarrow> Fh3 \<Rightarrow> cstring \<Rightarrow> Ftype3 \<Rightarrow> Sattr3 \<Rightarrow> DeviceSpec3 \<Rightarrow> ('w rpc_state, Fh3) io" where
  "nfs3_mknod_device os dir name type attrs spec =
     (let args = encode_mknod_device_args dir name type attrs spec in
     io_bind (call os NFS_PROG NFS_VERS NFSPROC3_MKNOD args) (\<lambda>reply.
     io_lift (decode_mknod_reply reply)))"

definition nfs3_mknod_fifo :: "'w os \<Rightarrow> Fh3 \<Rightarrow> cstring \<Rightarrow> Sattr3 \<Rightarrow> ('w rpc_state, Fh3) io" where
  "nfs3_mknod_fifo os dir name attrs = nfs3_mknod_simple os dir name NF3FIFO attrs"

definition nfs3_mknod_socket :: "'w os \<Rightarrow> Fh3 \<Rightarrow> cstring \<Rightarrow> Sattr3 \<Rightarrow> ('w rpc_state, Fh3) io" where
  "nfs3_mknod_socket os dir name attrs = nfs3_mknod_simple os dir name NF3SOCK attrs"

definition nfs3_mknod_chr ::
  "'w os \<Rightarrow> Fh3 \<Rightarrow> cstring \<Rightarrow> Sattr3 \<Rightarrow> DeviceSpec3 \<Rightarrow> ('w rpc_state, Fh3) io" where
  "nfs3_mknod_chr os dir name attrs spec = nfs3_mknod_device os dir name NF3CHR attrs spec"

definition nfs3_mknod_blk ::
  "'w os \<Rightarrow> Fh3 \<Rightarrow> cstring \<Rightarrow> Sattr3 \<Rightarrow> DeviceSpec3 \<Rightarrow> ('w rpc_state, Fh3) io" where
  "nfs3_mknod_blk os dir name attrs spec = nfs3_mknod_device os dir name NF3BLK attrs spec"

subsection \<open>REMOVE, RMDIR\<close>

definition NFSPROC3_REMOVE :: u32 where "NFSPROC3_REMOVE = 12"

definition encode_remove_args :: "Fh3 \<Rightarrow> cstring \<Rightarrow> byte list" where
  "encode_remove_args dir name = encode (steps [
     encode_fh3 dir,
     put_string name])"

definition decode_remove_reply :: "byte list \<Rightarrow> error + unit" where
  "decode_remove_reply data = decode (
     dbind get_uint32 (\<lambda>status.
     dbind (throw_if (status \<noteq> 0) (NfsError status ''REMOVE'')) (\<lambda>_.
     dbind skip_wcc_data (\<lambda>_.
     dreturn ())))) data"

definition nfs3_remove ::
  "'w os \<Rightarrow> Fh3 \<Rightarrow> cstring \<Rightarrow> ('w rpc_state, unit) io" where
  "nfs3_remove os dir name =
     (let args = encode_remove_args dir name in
     io_bind (call os NFS_PROG NFS_VERS NFSPROC3_REMOVE args) (\<lambda>reply.
     io_lift (decode_remove_reply reply)))"

definition NFSPROC3_RMDIR :: u32 where "NFSPROC3_RMDIR = 13"

definition encode_rmdir_args :: "Fh3 \<Rightarrow> cstring \<Rightarrow> byte list" where
  "encode_rmdir_args dir name = encode (steps [
     encode_fh3 dir,
     put_string name])"

definition decode_rmdir_reply :: "byte list \<Rightarrow> error + unit" where
  "decode_rmdir_reply data = decode (
     dbind get_uint32 (\<lambda>status.
     dbind (throw_if (status \<noteq> 0) (NfsError status ''RMDIR'')) (\<lambda>_.
     dbind skip_wcc_data (\<lambda>_.
     dreturn ())))) data"

definition nfs3_rmdir ::
  "'w os \<Rightarrow> Fh3 \<Rightarrow> cstring \<Rightarrow> ('w rpc_state, unit) io" where
  "nfs3_rmdir os dir name =
     (let args = encode_rmdir_args dir name in
     io_bind (call os NFS_PROG NFS_VERS NFSPROC3_RMDIR args) (\<lambda>reply.
     io_lift (decode_rmdir_reply reply)))"

subsection \<open>RENAME, LINK\<close>

definition NFSPROC3_RENAME :: u32 where "NFSPROC3_RENAME = 14"

definition NFSPROC3_LINK :: u32 where "NFSPROC3_LINK = 15"

definition encode_rename_args :: "Fh3 \<Rightarrow> cstring \<Rightarrow> Fh3 \<Rightarrow> cstring \<Rightarrow> byte list" where
  "encode_rename_args from_dir from_name to_dir to_name = encode (steps [
     encode_fh3 from_dir,
     put_string from_name,
     encode_fh3 to_dir,
     put_string to_name])"

definition decode_rename_reply :: "byte list \<Rightarrow> error + unit" where
  "decode_rename_reply data = decode (
     dbind get_uint32 (\<lambda>status.
     dbind skip_wcc_data (\<lambda>_.
     dbind skip_wcc_data (\<lambda>_.
     dbind (throw_if (status \<noteq> 0) (NfsError status ''RENAME'')) (\<lambda>_.
     dreturn ()))))) data"

definition nfs3_rename ::
  "'w os \<Rightarrow> Fh3 \<Rightarrow> cstring \<Rightarrow> Fh3 \<Rightarrow> cstring \<Rightarrow> ('w rpc_state, unit) io" where
  "nfs3_rename os from_dir from_name to_dir to_name =
     (let args = encode_rename_args from_dir from_name to_dir to_name in
     io_bind (call os NFS_PROG NFS_VERS NFSPROC3_RENAME args) (\<lambda>reply.
     io_lift (decode_rename_reply reply)))"

definition encode_link_args :: "Fh3 \<Rightarrow> Fh3 \<Rightarrow> cstring \<Rightarrow> byte list" where
  "encode_link_args file link_dir link_name = encode (steps [
     encode_fh3 file,
     encode_fh3 link_dir,
     put_string link_name])"

definition decode_link_reply :: "byte list \<Rightarrow> error + unit" where
  "decode_link_reply data = decode (
     dbind get_uint32 (\<lambda>status.
     dbind skip_post_op_attr (\<lambda>_.
     dbind skip_wcc_data (\<lambda>_.
     dbind (throw_if (status \<noteq> 0) (NfsError status ''LINK'')) (\<lambda>_.
     dreturn ()))))) data"

definition nfs3_link ::
  "'w os \<Rightarrow> Fh3 \<Rightarrow> Fh3 \<Rightarrow> cstring \<Rightarrow> ('w rpc_state, unit) io" where
  "nfs3_link os file link_dir link_name =
     (let args = encode_link_args file link_dir link_name in
     io_bind (call os NFS_PROG NFS_VERS NFSPROC3_LINK args) (\<lambda>reply.
     io_lift (decode_link_reply reply)))"

end
