(* ===== verification/Paging.thy ===== *)
theory Paging
  imports Prelude
begin

text \<open>
  The contract shared by the directory listings of the three clients: each fetches page after page,
  the cookie of the last entry and the verifier of the last page going into the next request, until
  a page says it is the last. \<open>paged\<close> is that protocol as a relation, \<open>serves_listing\<close> what a
  server has to do for it, and the locale \<open>pager\<close> a loop that implements it.
\<close>

text \<open>\<open>for (auto& e : page.entries) { cookie = e.cookie; all.push_back(e); }\<close>\<close>

fun collect :: "('e \<Rightarrow> u64) \<Rightarrow> 'e list \<Rightarrow> u64 \<times> 'e list \<Rightarrow> u64 \<times> 'e list" where
  "collect cookie_of [] st = st"
| "collect cookie_of (e # es) (cookie, acc) = collect cookie_of es (cookie_of e, acc @ [e])"

definition last_cookie :: "('e \<Rightarrow> u64) \<Rightarrow> u64 \<Rightarrow> 'e list \<Rightarrow> u64" where
  "last_cookie cookie_of cookie es = (if es = [] then cookie else cookie_of (last es))"

lemma collect_eq: "collect cookie_of es (cookie, acc) = (last_cookie cookie_of cookie es, acc @ es)"
  by (induction es arbitrary: cookie acc) (auto simp: last_cookie_def)

text \<open>The listing protocol: what a run that returns has done.\<close>

inductive paged ::
  "(u64 \<Rightarrow> byte list \<Rightarrow> ('s, 'p) io) \<Rightarrow> ('p \<Rightarrow> 'e list) \<Rightarrow> ('p \<Rightarrow> bool) \<Rightarrow> ('p \<Rightarrow> byte list) \<Rightarrow>
   ('e \<Rightarrow> u64) \<Rightarrow> 'e list \<Rightarrow> u64 \<Rightarrow> byte list \<Rightarrow> 's \<Rightarrow> (error + 'e list) \<times> 's \<Rightarrow> bool"
  for fetch entries is_eof verf cookie_of where
  failed: "fetch cookie cv s = Some (Inl e, s') \<Longrightarrow>
    paged fetch entries is_eof verf cookie_of acc cookie cv s (Inl e, s')"
| last_page: "fetch cookie cv s = Some (Inr page, s') \<Longrightarrow> is_eof page \<Longrightarrow>
    paged fetch entries is_eof verf cookie_of acc cookie cv s (Inr (acc @ entries page), s')"
| next_page: "fetch cookie cv s = Some (Inr page, s') \<Longrightarrow> \<not> is_eof page \<Longrightarrow>
    paged fetch entries is_eof verf cookie_of (acc @ entries page)
      (last_cookie cookie_of cookie (entries page)) (verf page) s' r \<Longrightarrow>
    paged fetch entries is_eof verf cookie_of acc cookie cv s r"

text \<open>One turn of such a loop, around whatever goes on with the rest.\<close>

lemma paged_turn:
  assumes run: "io_bind (fetch cookie cv) (\<lambda>page s'.
      let st = collect cookie_of (entries page) (cookie, acc) in
      if is_eof page then io_return (snd st) s' else more (snd st) (fst st) (verf page) s') s = Some r"
    and more: "\<And>acc cookie cv s r. more acc cookie cv s = Some r \<Longrightarrow>
      paged fetch entries is_eof verf cookie_of acc cookie cv s r"
  shows "paged fetch entries is_eof verf cookie_of acc cookie cv s r"
proof -
  obtain q t where r: "r = (q, t)" by (cases r)
  from run show ?thesis
    unfolding r
    by (auto simp: io_bind_Some_iff collect_eq io_return_def Let_def split: if_splits
        intro: paged.failed paged.last_page paged.next_page dest!: more)
qed

text \<open>
  A server that has \<open>todo\<close> left to list for this cookie and verifier (\<open>J\<close> relates the four to its
  state) answers with a first part of it: all of it on the last page, otherwise at least one entry,
  and it then has the rest left for the cookie and verifier the client will send next.
\<close>

definition serves_listing ::
  "(u64 \<Rightarrow> byte list \<Rightarrow> ('s, 'p) io) \<Rightarrow> ('p \<Rightarrow> 'e list) \<Rightarrow> ('p \<Rightarrow> bool) \<Rightarrow> ('p \<Rightarrow> byte list) \<Rightarrow>
   ('e \<Rightarrow> u64) \<Rightarrow> (u64 \<Rightarrow> byte list \<Rightarrow> 'e list \<Rightarrow> 's \<Rightarrow> bool) \<Rightarrow> bool" where
  "serves_listing fetch entries is_eof verf cookie_of J \<longleftrightarrow>
     (\<forall>cookie cv todo s. J cookie cv todo s \<longrightarrow>
        (\<exists>page s' rest. fetch cookie cv s = Some (Inr page, s') \<and> todo = entries page @ rest \<and>
           (if is_eof page then rest = []
            else entries page \<noteq> [] \<and>
                 J (last_cookie cookie_of cookie (entries page)) (verf page) rest s')))"

locale pager =
  fixes loop :: "'e list \<Rightarrow> u64 \<Rightarrow> byte list \<Rightarrow> ('s, 'e list) io"
    and fetch :: "u64 \<Rightarrow> byte list \<Rightarrow> ('s, 'p) io"
    and entries :: "'p \<Rightarrow> 'e list" and is_eof :: "'p \<Rightarrow> bool" and verf :: "'p \<Rightarrow> byte list"
    and cookie_of :: "'e \<Rightarrow> u64"
  assumes loop_unfold: "loop acc cookie cv s =
      io_bind (fetch cookie cv) (\<lambda>page s'.
        let st = collect cookie_of (entries page) (cookie, acc) in
        if is_eof page then io_return (snd st) s' else loop (snd st) (fst st) (verf page) s') s"
    and loop_sound: "loop acc cookie cv s = Some r \<Longrightarrow>
      paged fetch entries is_eof verf cookie_of acc cookie cv s r"
begin

lemma loop_complete:
  "paged fetch entries is_eof verf cookie_of acc cookie cv s r \<Longrightarrow> loop acc cookie cv s = Some r"
proof (induction rule: paged.induct)
  case (failed cookie cv s e s' acc)
  then show ?case by (subst loop_unfold) (simp add: eff_simps)
next
  case (last_page cookie cv s page s' acc)
  then show ?case by (subst loop_unfold) (simp add: eff_simps collect_eq)
next
  case (next_page cookie cv s page s' acc r)
  then show ?case by (subst loop_unfold) (simp add: eff_simps collect_eq)
qed

lemma loop_iff_paged:
  "loop acc cookie cv s = Some r \<longleftrightarrow> paged fetch entries is_eof verf cookie_of acc cookie cv s r"
  by (blast intro: loop_sound loop_complete)

text \<open>
  Against such a server the loop returns, with the whole listing, in order, once; and in a state with
  every property \<open>E\<close> that each page leaves behind.
\<close>

lemma loop_lists_all_in:
  assumes srv: "\<And>cookie cv todo s. J cookie cv todo s \<Longrightarrow>
      \<exists>page s' rest. fetch cookie cv s = Some (Inr page, s') \<and> E s' \<and> todo = entries page @ rest \<and>
        (if is_eof page then rest = []
         else entries page \<noteq> [] \<and> J (last_cookie cookie_of cookie (entries page)) (verf page) rest s')"
  shows "J cookie cv todo s \<Longrightarrow> \<exists>s'. loop acc cookie cv s = Some (Inr (acc @ todo), s') \<and> E s'"
proof (induction "length todo" arbitrary: todo acc cookie cv s rule: less_induct)
  case less
  from srv [OF less.prems] obtain page s' rest
    where f: "fetch cookie cv s = Some (Inr page, s')" and E: "E s'" and t: "todo = entries page @ rest"
      and c: "if is_eof page then rest = [] else entries page \<noteq> [] \<and>
                J (last_cookie cookie_of cookie (entries page)) (verf page) rest s'"
    by blast
  show ?case
  proof (cases "is_eof page")
    case True
    then have "loop acc cookie cv s = Some (Inr (acc @ entries page), s')"
      by (intro loop_complete paged.last_page f)
    with True t c E show ?thesis by simp
  next
    case False
    with c t have "length rest < length todo"
      and "J (last_cookie cookie_of cookie (entries page)) (verf page) rest s'" by auto
    with less.hyps obtain s'' where r:
      "loop (acc @ entries page) (last_cookie cookie_of cookie (entries page)) (verf page) s' =
        Some (Inr ((acc @ entries page) @ rest), s'')" and "E s''" by blast
    moreover have "loop acc cookie cv s = Some (Inr ((acc @ entries page) @ rest), s'')"
      by (rule loop_complete [OF paged.next_page [OF f False loop_sound [OF r]]])
    ultimately show ?thesis using t by simp
  qed
qed

lemma loop_lists_all:
  assumes "serves_listing fetch entries is_eof verf cookie_of J" and "J cookie cv todo s"
  shows "\<exists>s'. loop acc cookie cv s = Some (Inr (acc @ todo), s')"
  using loop_lists_all_in [of J "\<lambda>_. True", OF _ assms(2)] assms(1) unfolding serves_listing_def by blast

text \<open>A server none of whose pages is the last keeps the client asking for ever.\<close>

lemma loop_diverges:
  assumes inv: "I cookie cv s"
    and never: "\<And>cookie cv s. I cookie cv s \<Longrightarrow>
      \<exists>page s'. fetch cookie cv s = Some (Inr page, s') \<and> \<not> is_eof page \<and>
        I (last_cookie cookie_of cookie (entries page)) (verf page) s'"
  shows "loop acc cookie cv s = None"
proof (rule ccontr)
  assume "loop acc cookie cv s \<noteq> None"
  then obtain r where "paged fetch entries is_eof verf cookie_of acc cookie cv s r"
    using loop_sound by blast
  then show False using inv
  proof (induction rule: paged.induct)
    case (failed cookie cv s e s' acc)
    with never [OF failed.prems] show ?case by auto
  next
    case (last_page cookie cv s page s' acc)
    with never [OF last_page.prems] show ?case by auto
  next
    case (next_page cookie cv s page s' acc r)
    with never [OF next_page.prems] show ?case by auto
  qed
qed

text \<open>An exception while fetching any page ends the listing with that exception.\<close>

lemma loop_fails:
  "fetch cookie cv s = Some (Inl e, s') \<Longrightarrow> loop acc cookie cv s = Some (Inl e, s')"
  by (simp add: loop_iff_paged paged.failed)

end

end
