(* ===== verification/Nfs3_Readdir.thy ===== *)
theory Nfs3_Readdir
  imports Nfs3_File Paging
begin

text \<open>
  \<open>src/nfs/readdir.cpp\<close>, \<open>src/nfs/readdirplus.cpp\<close>: READDIR and READDIRPLUS, one page per call, and
  the two loops that ask for page after page.
\<close>

subsection \<open>READDIR\<close>

definition NFSPROC3_READDIR :: u32 where "NFSPROC3_READDIR = 16"
definition COOKIEVERF_SIZE :: nat where "COOKIEVERF_SIZE = 8"

text \<open>\<open>std::array<uint8_t, 8> cookieverf{}\<close>\<close>

definition cookieverf0 :: "byte list" where
  "cookieverf0 = replicate COOKIEVERF_SIZE 0"

record DirEntry3 =
  de_fileid :: u64
  de_name :: cstring
  de_cookie :: u64

record ReaddirPage =
  rp_entries :: "DirEntry3 list"
  rp_eof :: bool
  rp_cookieverf :: "byte list"

definition encode_readdir_args :: "Fh3 \<Rightarrow> u64 \<Rightarrow> byte list \<Rightarrow> u32 \<Rightarrow> byte list" where
  "encode_readdir_args dir cookie cookieverf count = encode (steps [
     encode_fh3 dir,
     put_uint64 cookie,
     put_fixed_opaque cookieverf,
     put_uint32 count])"

text \<open>The body of the \<open>while (dec.get_uint32() != 0)\<close> loop, and the loop.\<close>

definition decode_entry3 :: "DirEntry3 decoder" where
  "decode_entry3 =
     dbind get_uint64 (\<lambda>fileid.
     dbind get_string (\<lambda>name.
     dbind get_uint64 (\<lambda>cookie.
     dreturn \<lparr>de_fileid = fileid, de_name = name, de_cookie = cookie\<rparr>)))"

lemma dec_safe_decode_entry3 [safe_intros]: "dec_safe decode_entry3"
  unfolding decode_entry3_def by (intro safe_intros)

function decode_entries3 :: "DirEntry3 list \<Rightarrow> DirEntry3 list decoder" where
  "decode_entries3 acc d =
     (case get_uint32 d of
        Inl e \<Rightarrow> Inl e
      | Inr (v, d1) \<Rightarrow>
          if v \<noteq> 0 then
            (case decode_entry3 d1 of
               Inl e \<Rightarrow> Inl e
             | Inr (entry, d2) \<Rightarrow> decode_entries3 (acc @ [entry]) d2)
          else Inr (acc, d1))"
  by pat_completeness auto
termination
  by (relation "measure (\<lambda>(acc, d). remaining d)")
     (auto dest: loop_turn_shrinks [OF _ dec_safe_decode_entry3])

declare decode_entries3.simps [simp del]

definition decode_readdir_reply :: "byte list \<Rightarrow> error + ReaddirPage" where
  "decode_readdir_reply data = decode (
     dbind get_uint32 (\<lambda>status.
     dbind skip_post_op_attr (\<lambda>_.
     dbind (throw_if (status \<noteq> 0) (NfsError status ''READDIR'')) (\<lambda>_.
     dbind (get_fixed_opaque COOKIEVERF_SIZE) (\<lambda>cv.
     dbind (decode_entries3 []) (\<lambda>entries.
     dbind get_uint32 (\<lambda>eof.
     dreturn \<lparr>rp_entries = entries, rp_eof = (eof \<noteq> 0), rp_cookieverf = cv\<rparr>)))))) ) data"

definition nfs3_readdir_page ::
  "'w os \<Rightarrow> Fh3 \<Rightarrow> u64 \<Rightarrow> byte list \<Rightarrow> u32 \<Rightarrow> ('w rpc_state, ReaddirPage) io" where
  "nfs3_readdir_page os dir cookie cookieverf count =
     (let args = encode_readdir_args dir cookie cookieverf count in
     io_bind (call os NFS_PROG NFS_VERS NFSPROC3_READDIR args) (\<lambda>reply.
     io_lift (decode_readdir_reply reply)))"

text \<open>The loop over pages. Whether it ends is up to the server.\<close>

partial_function (option) readdir_loop ::
  "'w os \<Rightarrow> Fh3 \<Rightarrow> u32 \<Rightarrow> DirEntry3 list \<Rightarrow> u64 \<Rightarrow> byte list \<Rightarrow> 'w rpc_state \<Rightarrow>
   ((error + DirEntry3 list) \<times> 'w rpc_state) option" where
  "readdir_loop os dir count acc cookie cookieverf s =
     io_bind (nfs3_readdir_page os dir cookie cookieverf count) (\<lambda>page s'.
     let st = collect de_cookie (rp_entries page) (cookie, acc) in
     if rp_eof page then io_return (snd st) s'
     else readdir_loop os dir count (snd st) (fst st) (rp_cookieverf page) s') s"

definition nfs3_readdir :: "'w os \<Rightarrow> Fh3 \<Rightarrow> u32 \<Rightarrow> ('w rpc_state, DirEntry3 list) io" where
  "nfs3_readdir os dir count = readdir_loop os dir count [] 0 cookieverf0"

subsection \<open>READDIRPLUS\<close>

definition NFSPROC3_READDIRPLUS :: u32 where "NFSPROC3_READDIRPLUS = 17"

record DirEntryPlus3 =
  dp_fileid :: u64
  dp_name :: cstring
  dp_cookie :: u64
  dp_has_attrs :: bool
  dp_attrs :: Fattr3
  dp_has_fh :: bool
  dp_fh :: Fh3

record ReaddirplusPage =
  rpp_entries :: "DirEntryPlus3 list"
  rpp_eof :: bool
  rpp_cookieverf :: "byte list"

text \<open>\<open>DirEntryPlus3 entry{}\<close> zeroes the members that are not read.\<close>

definition Fattr3_zero :: Fattr3 where
  "Fattr3_zero =
     \<lparr>fa_type = 0, fa_mode = 0, fa_nlink = 0, fa_uid = 0, fa_gid = 0, fa_size = 0, fa_used = 0,
      fa_rdev = \<lparr>specdata1 = 0, specdata2 = 0\<rparr>, fa_fsid = 0, fa_fileid = 0,
      fa_atime = \<lparr>nt_seconds = 0, nt_nseconds = 0\<rparr>, fa_mtime = \<lparr>nt_seconds = 0, nt_nseconds = 0\<rparr>,
      fa_ctime = \<lparr>nt_seconds = 0, nt_nseconds = 0\<rparr>\<rparr>"

definition encode_readdirplus_args ::
  "Fh3 \<Rightarrow> u64 \<Rightarrow> byte list \<Rightarrow> u32 \<Rightarrow> u32 \<Rightarrow> byte list" where
  "encode_readdirplus_args dir cookie cookieverf dircount maxcount = encode (steps [
     encode_fh3 dir,
     put_uint64 cookie,
     put_fixed_opaque cookieverf,
     put_uint32 dircount,
     put_uint32 maxcount])"

definition decode_entryplus3 :: "DirEntryPlus3 decoder" where
  "decode_entryplus3 =
     dbind get_uint64 (\<lambda>fileid.
     dbind get_string (\<lambda>name.
     dbind get_uint64 (\<lambda>cookie.
     dbind get_uint32 (\<lambda>has_attrs.
     dbind (if has_attrs \<noteq> 0 then decode_fattr3 else dreturn Fattr3_zero) (\<lambda>attrs.
     dbind get_uint32 (\<lambda>has_fh.
     dbind (if has_fh \<noteq> 0 then decode_fh3 else dreturn \<lparr>fh3_data = []\<rparr>) (\<lambda>fh.
     dreturn \<lparr>dp_fileid = fileid, dp_name = name, dp_cookie = cookie,
              dp_has_attrs = (has_attrs \<noteq> 0), dp_attrs = attrs,
              dp_has_fh = (has_fh \<noteq> 0), dp_fh = fh\<rparr>)))))))"

lemma dec_safe_decode_entryplus3 [safe_intros]: "dec_safe decode_entryplus3"
  unfolding decode_entryplus3_def by (intro safe_intros)

function decode_entriesplus3 :: "DirEntryPlus3 list \<Rightarrow> DirEntryPlus3 list decoder" where
  "decode_entriesplus3 acc d =
     (case get_uint32 d of
        Inl e \<Rightarrow> Inl e
      | Inr (v, d1) \<Rightarrow>
          if v \<noteq> 0 then
            (case decode_entryplus3 d1 of
               Inl e \<Rightarrow> Inl e
             | Inr (entry, d2) \<Rightarrow> decode_entriesplus3 (acc @ [entry]) d2)
          else Inr (acc, d1))"
  by pat_completeness auto
termination
  by (relation "measure (\<lambda>(acc, d). remaining d)")
     (auto dest: loop_turn_shrinks [OF _ dec_safe_decode_entryplus3])

declare decode_entriesplus3.simps [simp del]

definition decode_readdirplus_reply :: "byte list \<Rightarrow> error + ReaddirplusPage" where
  "decode_readdirplus_reply data = decode (
     dbind get_uint32 (\<lambda>status.
     dbind skip_post_op_attr (\<lambda>_.
     dbind (throw_if (status \<noteq> 0) (NfsError status ''READDIRPLUS'')) (\<lambda>_.
     dbind (get_fixed_opaque COOKIEVERF_SIZE) (\<lambda>cv.
     dbind (decode_entriesplus3 []) (\<lambda>entries.
     dbind get_uint32 (\<lambda>eof.
     dreturn \<lparr>rpp_entries = entries, rpp_eof = (eof \<noteq> 0), rpp_cookieverf = cv\<rparr>)))))) ) data"

definition nfs3_readdirplus_page ::
  "'w os \<Rightarrow> Fh3 \<Rightarrow> u64 \<Rightarrow> byte list \<Rightarrow> u32 \<Rightarrow> u32 \<Rightarrow> ('w rpc_state, ReaddirplusPage) io" where
  "nfs3_readdirplus_page os dir cookie cookieverf dircount maxcount =
     (let args = encode_readdirplus_args dir cookie cookieverf dircount maxcount in
     io_bind (call os NFS_PROG NFS_VERS NFSPROC3_READDIRPLUS args) (\<lambda>reply.
     io_lift (decode_readdirplus_reply reply)))"

partial_function (option) readdirplus_loop ::
  "'w os \<Rightarrow> Fh3 \<Rightarrow> u32 \<Rightarrow> u32 \<Rightarrow> DirEntryPlus3 list \<Rightarrow> u64 \<Rightarrow> byte list \<Rightarrow> 'w rpc_state \<Rightarrow>
   ((error + DirEntryPlus3 list) \<times> 'w rpc_state) option" where
  "readdirplus_loop os dir dircount maxcount acc cookie cookieverf s =
     io_bind (nfs3_readdirplus_page os dir cookie cookieverf dircount maxcount) (\<lambda>page s'.
     let st = collect dp_cookie (rpp_entries page) (cookie, acc) in
     if rpp_eof page then io_return (snd st) s'
     else readdirplus_loop os dir dircount maxcount (snd st) (fst st) (rpp_cookieverf page) s') s"

definition nfs3_readdirplus ::
  "'w os \<Rightarrow> Fh3 \<Rightarrow> u32 \<Rightarrow> u32 \<Rightarrow> ('w rpc_state, DirEntryPlus3 list) io" where
  "nfs3_readdirplus os dir dircount maxcount =
     readdirplus_loop os dir dircount maxcount [] 0 cookieverf0"

subsection \<open>Entries on the wire\<close>

definition wire_entry3 :: "DirEntry3 \<Rightarrow> byte list" where
  "wire_entry3 e = be64 (de_fileid e) @ wire_opaque (de_name e) @ be64 (de_cookie e)"

definition entry3_ok :: "DirEntry3 \<Rightarrow> bool" where
  "entry3_ok e \<longleftrightarrow> length (de_name e) < 2 ^ 32"

interpretation entries3: follows_loop entry3_ok wire_entry3 decode_entry3 decode_entries3
proof
  show "dec_safe decode_entry3" by (rule dec_safe_decode_entry3)
  show "entry3_ok x \<Longrightarrow> decode_entry3 (at pre (wire_entry3 x @ rest)) = Inr (x, at (pre @ wire_entry3 x) rest)"
    for x pre rest
    by (simp add: decode_entry3_def wire_entry3_def entry3_ok_def eff_simps at_simps)
qed (rule decode_entries3.simps)

definition wire_entryplus3 :: "DirEntryPlus3 \<Rightarrow> byte list" where
  "wire_entryplus3 e =
     be64 (dp_fileid e) @ wire_opaque (dp_name e) @ be64 (dp_cookie e) @
     wire_post_op_attr (if dp_has_attrs e then Some (dp_attrs e) else None) @
     wire_optional wire_fh3 (if dp_has_fh e then Some (dp_fh e) else None)"

text \<open>What is not present has the value the structure is initialised with.\<close>

definition entryplus3_ok :: "DirEntryPlus3 \<Rightarrow> bool" where
  "entryplus3_ok e \<longleftrightarrow> length (dp_name e) < 2 ^ 32 \<and>
     (if dp_has_fh e then fh3_wf (dp_fh e) else dp_fh e = \<lparr>fh3_data = []\<rparr>) \<and>
     (\<not> dp_has_attrs e \<longrightarrow> dp_attrs e = Fattr3_zero)"

interpretation entriesplus3: follows_loop entryplus3_ok wire_entryplus3 decode_entryplus3 decode_entriesplus3
proof
  show "dec_safe decode_entryplus3" by (rule dec_safe_decode_entryplus3)
  fix x pre rest assume ok: "entryplus3_ok x"
  then show "decode_entryplus3 (at pre (wire_entryplus3 x @ rest)) = Inr (x, at (pre @ wire_entryplus3 x) rest)"
    by (cases "dp_has_attrs x"; cases "dp_has_fh x"; cases x)
       (simp_all add: decode_entryplus3_def wire_entryplus3_def entryplus3_ok_def wire_post_op_attr_def
         wire_optional_def eff_simps at_simps)
qed (rule decode_entriesplus3.simps)

lemmas [at_simps] = entries3.list.dec_enc entriesplus3.list.dec_enc

lemmas [safe_intros] = entries3.loop_safe entriesplus3.loop_safe

lemma dec_throws_entries3 [throws_intros]:
  assumes "E underflow"
  shows "dec_throws E (decode_entries3 acc)" and "dec_throws E (decode_entriesplus3 acc')"
proof -
  show "dec_throws E (decode_entries3 acc)"
    by (rule entries3.loop_throws [of E, OF _ assms]) (unfold decode_entry3_def, intro throws_intros assms)
  show "dec_throws E (decode_entriesplus3 acc')"
    by (rule entriesplus3.loop_throws [of E, OF _ assms]) (unfold decode_entryplus3_def, intro throws_intros assms)
qed

subsection \<open>The loops over pages\<close>

lemma readdir_loop_sound:
  assumes "readdir_loop os dir count acc cookie cv s = Some r"
  shows "paged (\<lambda>cookie cv. nfs3_readdir_page os dir cookie cv count) rp_entries rp_eof rp_cookieverf de_cookie
    acc cookie cv s r"
  by (rule readdir_loop.raw_induct
      [where P = "\<lambda>os dir count acc cookie cv s r. paged (\<lambda>cookie cv. nfs3_readdir_page os dir cookie cv count)
         rp_entries rp_eof rp_cookieverf de_cookie acc cookie cv s r", OF _ assms])
     (rule paged_turn)

interpretation readdirp: pager "readdir_loop os dir count" "\<lambda>cookie cv. nfs3_readdir_page os dir cookie cv count"
  rp_entries rp_eof rp_cookieverf de_cookie for os dir count
  by unfold_locales (rule readdir_loop.simps, rule readdir_loop_sound)

lemma readdirplus_loop_sound:
  assumes "readdirplus_loop os dir dc mc acc cookie cv s = Some r"
  shows "paged (\<lambda>cookie cv. nfs3_readdirplus_page os dir cookie cv dc mc) rpp_entries rpp_eof rpp_cookieverf
    dp_cookie acc cookie cv s r"
  by (rule readdirplus_loop.raw_induct
      [where P = "\<lambda>os dir dc mc acc cookie cv s r. paged (\<lambda>cookie cv. nfs3_readdirplus_page os dir cookie cv dc mc)
         rpp_entries rpp_eof rpp_cookieverf dp_cookie acc cookie cv s r", OF _ assms])
     (rule paged_turn)

interpretation readdirplusp: pager "readdirplus_loop os dir dc mc"
  "\<lambda>cookie cv. nfs3_readdirplus_page os dir cookie cv dc mc" rpp_entries rpp_eof rpp_cookieverf dp_cookie
  for os dir dc mc
  by unfold_locales (rule readdirplus_loop.simps, rule readdirplus_loop_sound)

end
