(* ===== verification/Mount.thy ===== *)
theory Mount
  imports Nfs3_Types
begin

text \<open>
  \<open>src/nfs/portmap.cpp\<close>, \<open>src/nfs/mount.cpp\<close>: GETPORT and the MOUNT protocol. Every operation opens
  a connection of its own and closes it when it is left.
\<close>

subsection \<open>portmap.cpp\<close>

definition PMAP_PROG :: u32 where "PMAP_PROG = 100000"
definition PMAP_VERS :: u32 where "PMAP_VERS = 2"
definition PMAPPROC_GETPORT :: u32 where "PMAPPROC_GETPORT = 3"
definition PMAP_PORT :: u16 where "PMAP_PORT = 111"
definition IPPROTO_TCP_XDR :: u32 where "IPPROTO_TCP_XDR = 6"

definition encode_getport_args :: "u32 \<Rightarrow> u32 \<Rightarrow> byte list" where
  "encode_getport_args prog vers = encode (steps [
     put_uint32 prog,
     put_uint32 vers,
     put_uint32 IPPROTO_TCP_XDR,
     put_uint32 0])"

definition decode_getport_reply :: "u32 \<Rightarrow> u32 \<Rightarrow> byte list \<Rightarrow> error + u16" where
  "decode_getport_reply prog vers data = decode (
     dbind get_uint32 (\<lambda>port.
     dbind (throw_if (port = 0)
              (RuntimeError (''portmap: program '' @ to_string (unat prog) @ '' version '' @
                             to_string (unat vers) @ '' is not registered''))) (\<lambda>_.
     dreturn (ucast port)))) data"

definition getport :: "'w os \<Rightarrow> string \<Rightarrow> u32 \<Rightarrow> u32 \<Rightarrow> ('w, u16) io" where
  "getport os host prog vers =
     with_rpc os host PMAP_PORT (
       let args = encode_getport_args prog vers in
       io_bind (call os PMAP_PROG PMAP_VERS PMAPPROC_GETPORT args) (\<lambda>reply.
       io_lift (decode_getport_reply prog vers reply)))"

subsection \<open>mount.cpp\<close>

definition MOUNT_PROG :: u32 where "MOUNT_PROG = 100005"
definition MOUNT_VERS :: u32 where "MOUNT_VERS = 3"
definition MOUNTPROC3_MNT :: u32 where "MOUNTPROC3_MNT = 1"
definition MOUNTPROC3_UMNT :: u32 where "MOUNTPROC3_UMNT = 3"
definition MOUNTPROC3_EXPORT :: u32 where "MOUNTPROC3_EXPORT = 5"

record ExportEntry =
  ex_path :: cstring
  ex_groups :: "cstring list"

definition decode_mnt_reply :: "byte list \<Rightarrow> error + Fh3" where
  "decode_mnt_reply data = decode (
     dbind get_uint32 (\<lambda>status.
     dbind (throw_if (status \<noteq> 0) (NfsError status ''MOUNT MNT3 mountstat3'')) (\<lambda>_.
     dbind get_opaque (\<lambda>d.
     dreturn \<lparr>fh3_data = d\<rparr>)))) data"

definition mnt :: "'w os \<Rightarrow> string \<Rightarrow> cstring \<Rightarrow> ('w, Fh3) io" where
  "mnt os host export_path =
     io_bind (getport os host MOUNT_PROG MOUNT_VERS) (\<lambda>port.
     with_rpc os host port (
       let args = encode (put_string export_path) in
       io_bind (call os MOUNT_PROG MOUNT_VERS MOUNTPROC3_MNT args) (\<lambda>reply.
       io_lift (decode_mnt_reply reply))))"

definition umnt :: "'w os \<Rightarrow> string \<Rightarrow> cstring \<Rightarrow> ('w, unit) io" where
  "umnt os host export_path =
     io_bind (getport os host MOUNT_PROG MOUNT_VERS) (\<lambda>port.
     with_rpc os host port (
       let args = encode (put_string export_path) in
       io_bind (call os MOUNT_PROG MOUNT_VERS MOUNTPROC3_UMNT args) (\<lambda>reply.
       io_return ())))"

text \<open>The two nested \<open>while\<close> loops over XDR linked lists.\<close>

function decode_groups :: "cstring list \<Rightarrow> cstring list decoder" where
  "decode_groups acc d =
     (case get_uint32 d of
        Inl e \<Rightarrow> Inl e
      | Inr (v, d1) \<Rightarrow>
          if v \<noteq> 0 then
            (case get_string d1 of
               Inl e \<Rightarrow> Inl e
             | Inr (g, d2) \<Rightarrow> decode_groups (acc @ [g]) d2)
          else Inr (acc, d1))"
  by pat_completeness auto
termination
  by (relation "measure (\<lambda>(acc, d). remaining d)")
     (auto dest: loop_turn_shrinks [OF _ dec_safe_get_string])

declare decode_groups.simps [simp del]

interpretation groupsl: follows_loop "\<lambda>s. length s < 2 ^ 32" wire_opaque get_string decode_groups
  by unfold_locales (rule dec_safe_get_string, rule decode_groups.simps)

lemmas [safe_intros] = groupsl.loop_safe

definition decode_export_entry :: "ExportEntry decoder" where
  "decode_export_entry =
     dbind get_string (\<lambda>path.
     dbind (decode_groups []) (\<lambda>groups.
     dreturn \<lparr>ex_path = path, ex_groups = groups\<rparr>))"

lemma dec_safe_decode_export_entry [safe_intros]: "dec_safe decode_export_entry"
  unfolding decode_export_entry_def by (intro safe_intros)

function decode_exports :: "ExportEntry list \<Rightarrow> ExportEntry list decoder" where
  "decode_exports acc d =
     (case get_uint32 d of
        Inl e \<Rightarrow> Inl e
      | Inr (v, d1) \<Rightarrow>
          if v \<noteq> 0 then
            (case decode_export_entry d1 of
               Inl e \<Rightarrow> Inl e
             | Inr (entry, d2) \<Rightarrow> decode_exports (acc @ [entry]) d2)
          else Inr (acc, d1))"
  by pat_completeness auto
termination
  by (relation "measure (\<lambda>(acc, d). remaining d)")
     (auto dest: loop_turn_shrinks [OF _ dec_safe_decode_export_entry])

declare decode_exports.simps [simp del]

definition decode_export_reply :: "byte list \<Rightarrow> error + ExportEntry list" where
  "decode_export_reply data = decode (decode_exports []) data"

definition export_list :: "'w os \<Rightarrow> string \<Rightarrow> ('w, ExportEntry list) io" where
  "export_list os host =
     io_bind (getport os host MOUNT_PROG MOUNT_VERS) (\<lambda>port.
     with_rpc os host port (
       io_bind (call os MOUNT_PROG MOUNT_VERS MOUNTPROC3_EXPORT []) (\<lambda>reply.
       io_lift (decode_export_reply reply))))"

subsection \<open>The server's side of the export list\<close>

definition wire_export_entry :: "ExportEntry \<Rightarrow> byte list" where
  "wire_export_entry e = wire_opaque (ex_path e) @ wire_follows wire_opaque (ex_groups e)"

definition export_entry_ok :: "ExportEntry \<Rightarrow> bool" where
  "export_entry_ok e \<longleftrightarrow> length (ex_path e) < 2 ^ 32 \<and> list_all (\<lambda>g. length g < 2 ^ 32) (ex_groups e)"

interpretation exportsl: follows_loop export_entry_ok wire_export_entry decode_export_entry decode_exports
proof
  show "dec_safe decode_export_entry" by (rule dec_safe_decode_export_entry)
  show "export_entry_ok e \<Longrightarrow> decode_export_entry (at pre (wire_export_entry e @ rest)) =
      Inr (e, at (pre @ wire_export_entry e) rest)" for e pre rest
    by (simp add: decode_export_entry_def wire_export_entry_def export_entry_ok_def eff_simps at_simps
        groupsl.list.dec_enc)
qed (rule decode_exports.simps)

end
