(* ===== verification/Nfs3_Client.thy ===== *)
theory Nfs3_Client
  imports Nfs3_Name Nfs3_Readdir Mount
begin

text \<open>
  \<open>src/nfs_client.cpp\<close>: the \<open>NFSClient\<close> facade. It holds the host and one connection to the NFS
  daemon; every NFS procedure runs on that connection, the MOUNT operations on connections of their
  own.
\<close>

record NFSClient =
  c3_host :: string
  c3_conn :: rpc_client

type_synonym 'w nfs3_state = "NFSClient \<times> 'w"

definition on_conn :: "('w rpc_state, 'a) io \<Rightarrow> ('w nfs3_state, 'a) io" where
  "on_conn = io_zoom (\<lambda>(c, w). (c3_conn c, w)) (\<lambda>(r, w) (c, _). (c\<lparr>c3_conn := r\<rparr>, w))"

text \<open>An operation of its own on the client's host.\<close>

definition on_host :: "(string \<Rightarrow> ('w, 'a) io) \<Rightarrow> ('w nfs3_state, 'a) io" where
  "on_host m = (\<lambda>(c, w). map_option (\<lambda>(r, w'). (r, (c, w'))) (m (c3_host c) w))"

definition NFSClient_ctor :: "'w os \<Rightarrow> string \<Rightarrow> ('w, NFSClient) io" where
  "NFSClient_ctor os host =
     io_bind (getport os host NFS_PROG NFS_VERS) (\<lambda>port.
     io_bind (TcpRpcClient os host port) (\<lambda>conn.
     io_return \<lparr>c3_host = host, c3_conn = conn\<rparr>))"

definition NFSClient_set_auth_sys :: "AuthSys \<Rightarrow> NFSClient \<Rightarrow> NFSClient" where
  "NFSClient_set_auth_sys auth c = c\<lparr>c3_conn := rpc_set_auth_sys auth (c3_conn c)\<rparr>"

definition NFSClient_clear_auth :: "NFSClient \<Rightarrow> NFSClient" where
  "NFSClient_clear_auth c = c\<lparr>c3_conn := rpc_clear_auth (c3_conn c)\<rparr>"

subsection \<open>MOUNT protocol\<close>

definition NFSClient_mount :: "'w os \<Rightarrow> cstring \<Rightarrow> ('w nfs3_state, Fh3) io" where
  "NFSClient_mount os export_path = on_host (\<lambda>host. mnt os host export_path)"

definition NFSClient_umnt :: "'w os \<Rightarrow> cstring \<Rightarrow> ('w nfs3_state, unit) io" where
  "NFSClient_umnt os export_path = on_host (\<lambda>host. umnt os host export_path)"

definition NFSClient_export_list :: "'w os \<Rightarrow> ('w nfs3_state, ExportEntry list) io" where
  "NFSClient_export_list os = on_host (\<lambda>host. export_list os host)"

subsection \<open>NFS procedures\<close>

definition NFSClient_getattr ::
  "'w os \<Rightarrow> Fh3 \<Rightarrow> ('w nfs3_state, Fattr3) io" where
  "NFSClient_getattr os fh = on_conn (nfs3_getattr os fh)"

definition NFSClient_lookup ::
  "'w os \<Rightarrow> Fh3 \<Rightarrow> cstring \<Rightarrow> ('w nfs3_state, Fh3) io" where
  "NFSClient_lookup os dir name = on_conn (nfs3_lookup os dir name)"

definition NFSClient_read ::
  "'w os \<Rightarrow> Fh3 \<Rightarrow> u64 \<Rightarrow> u32 \<Rightarrow> ('w nfs3_state, byte list) io" where
  "NFSClient_read os fh off count = on_conn (nfs3_read os fh off count)"

definition NFSClient_write ::
  "'w os \<Rightarrow> Fh3 \<Rightarrow> u64 \<Rightarrow> Stable3 \<Rightarrow> byte list \<Rightarrow> ('w nfs3_state, WriteResult) io" where
  "NFSClient_write os fh off how data = on_conn (nfs3_write os fh off how data)"

definition NFSClient_create ::
  "'w os \<Rightarrow> Fh3 \<Rightarrow> cstring \<Rightarrow> CreateMode3 \<Rightarrow> Sattr3 \<Rightarrow> ('w nfs3_state, Fh3) io" where
  "NFSClient_create os dir name mode attrs = on_conn (nfs3_create os dir name mode attrs)"

definition NFSClient_create_exclusive ::
  "'w os \<Rightarrow> Fh3 \<Rightarrow> cstring \<Rightarrow> CreateVerf3 \<Rightarrow> ('w nfs3_state, Fh3) io" where
  "NFSClient_create_exclusive os dir name verf = on_conn (nfs3_create_exclusive os dir name verf)"

definition NFSClient_mkdir ::
  "'w os \<Rightarrow> Fh3 \<Rightarrow> cstring \<Rightarrow> Sattr3 \<Rightarrow> ('w nfs3_state, Fh3) io" where
  "NFSClient_mkdir os dir name attrs = on_conn (nfs3_mkdir os dir name attrs)"

definition NFSClient_remove ::
  "'w os \<Rightarrow> Fh3 \<Rightarrow> cstring \<Rightarrow> ('w nfs3_state, unit) io" where
  "NFSClient_remove os dir name = on_conn (nfs3_remove os dir name)"

definition NFSClient_rmdir ::
  "'w os \<Rightarrow> Fh3 \<Rightarrow> cstring \<Rightarrow> ('w nfs3_state, unit) io" where
  "NFSClient_rmdir os dir name = on_conn (nfs3_rmdir os dir name)"

definition NFSClient_setattr ::
  "'w os \<Rightarrow> Fh3 \<Rightarrow> Sattr3 \<Rightarrow> SattrGuard3 \<Rightarrow> ('w nfs3_state, unit) io" where
  "NFSClient_setattr os fh attrs guard = on_conn (nfs3_setattr os fh attrs guard)"

definition NFSClient_readdir_page ::
  "'w os \<Rightarrow> Fh3 \<Rightarrow> u64 \<Rightarrow> byte list \<Rightarrow> u32 \<Rightarrow> ('w nfs3_state, ReaddirPage) io" where
  "NFSClient_readdir_page os dir cookie cookieverf count = on_conn (nfs3_readdir_page os dir cookie cookieverf count)"

definition NFSClient_readdir ::
  "'w os \<Rightarrow> Fh3 \<Rightarrow> u32 \<Rightarrow> ('w nfs3_state, DirEntry3 list) io" where
  "NFSClient_readdir os dir count = on_conn (nfs3_readdir os dir count)"

definition NFSClient_rename ::
  "'w os \<Rightarrow> Fh3 \<Rightarrow> cstring \<Rightarrow> Fh3 \<Rightarrow> cstring \<Rightarrow> ('w nfs3_state, unit) io" where
  "NFSClient_rename os from_dir from_name to_dir to_name = on_conn (nfs3_rename os from_dir from_name to_dir to_name)"

definition NFSClient_commit ::
  "'w os \<Rightarrow> Fh3 \<Rightarrow> u64 \<Rightarrow> u32 \<Rightarrow> ('w nfs3_state, byte list) io" where
  "NFSClient_commit os fh off count = on_conn (nfs3_commit os fh off count)"

definition NFSClient_access ::
  "'w os \<Rightarrow> Fh3 \<Rightarrow> u32 \<Rightarrow> ('w nfs3_state, u32) io" where
  "NFSClient_access os fh access_mask = on_conn (nfs3_access os fh access_mask)"

definition NFSClient_fsstat ::
  "'w os \<Rightarrow> Fh3 \<Rightarrow> ('w nfs3_state, FsstatResult) io" where
  "NFSClient_fsstat os root = on_conn (nfs3_fsstat os root)"

definition NFSClient_fsinfo ::
  "'w os \<Rightarrow> Fh3 \<Rightarrow> ('w nfs3_state, FsinfoResult) io" where
  "NFSClient_fsinfo os root = on_conn (nfs3_fsinfo os root)"

definition NFSClient_pathconf ::
  "'w os \<Rightarrow> Fh3 \<Rightarrow> ('w nfs3_state, PathconfResult) io" where
  "NFSClient_pathconf os fh = on_conn (nfs3_pathconf os fh)"

definition NFSClient_readlink ::
  "'w os \<Rightarrow> Fh3 \<Rightarrow> ('w nfs3_state, cstring) io" where
  "NFSClient_readlink os symlink_fh = on_conn (nfs3_readlink os symlink_fh)"

definition NFSClient_symlink ::
  "'w os \<Rightarrow> Fh3 \<Rightarrow> cstring \<Rightarrow> cstring \<Rightarrow> Sattr3 \<Rightarrow> ('w nfs3_state, Fh3) io" where
  "NFSClient_symlink os dir name target attrs = on_conn (nfs3_symlink os dir name target attrs)"

definition NFSClient_link ::
  "'w os \<Rightarrow> Fh3 \<Rightarrow> Fh3 \<Rightarrow> cstring \<Rightarrow> ('w nfs3_state, unit) io" where
  "NFSClient_link os file link_dir link_name = on_conn (nfs3_link os file link_dir link_name)"

definition NFSClient_mknod_fifo ::
  "'w os \<Rightarrow> Fh3 \<Rightarrow> cstring \<Rightarrow> Sattr3 \<Rightarrow> ('w nfs3_state, Fh3) io" where
  "NFSClient_mknod_fifo os dir name attrs = on_conn (nfs3_mknod_fifo os dir name attrs)"

definition NFSClient_mknod_socket ::
  "'w os \<Rightarrow> Fh3 \<Rightarrow> cstring \<Rightarrow> Sattr3 \<Rightarrow> ('w nfs3_state, Fh3) io" where
  "NFSClient_mknod_socket os dir name attrs = on_conn (nfs3_mknod_socket os dir name attrs)"

definition NFSClient_mknod_chr ::
  "'w os \<Rightarrow> Fh3 \<Rightarrow> cstring \<Rightarrow> Sattr3 \<Rightarrow> DeviceSpec3 \<Rightarrow> ('w nfs3_state, Fh3) io" where
  "NFSClient_mknod_chr os dir name attrs spec = on_conn (nfs3_mknod_chr os dir name attrs spec)"

definition NFSClient_mknod_blk ::
  "'w os \<Rightarrow> Fh3 \<Rightarrow> cstring \<Rightarrow> Sattr3 \<Rightarrow> DeviceSpec3 \<Rightarrow> ('w nfs3_state, Fh3) io" where
  "NFSClient_mknod_blk os dir name attrs spec = on_conn (nfs3_mknod_blk os dir name attrs spec)"

definition NFSClient_readdirplus_page ::
  "'w os \<Rightarrow> Fh3 \<Rightarrow> u64 \<Rightarrow> byte list \<Rightarrow> u32 \<Rightarrow> u32 \<Rightarrow> ('w nfs3_state, ReaddirplusPage) io" where
  "NFSClient_readdirplus_page os dir cookie cookieverf dircount maxcount = on_conn (nfs3_readdirplus_page os dir cookie cookieverf dircount maxcount)"

definition NFSClient_readdirplus ::
  "'w os \<Rightarrow> Fh3 \<Rightarrow> u32 \<Rightarrow> u32 \<Rightarrow> ('w nfs3_state, DirEntryPlus3 list) io" where
  "NFSClient_readdirplus os dir dircount maxcount = on_conn (nfs3_readdirplus os dir dircount maxcount)"

end
