(* ===== verification/Peer.thy ===== *)
theory Peer
  imports Rpc
begin

text \<open>
  The other end of a connection. \<open>tcp_peer\<close> states what a TCP connection to an RPC server does: it
  takes any non-empty part of what \<open>send\<close> is given, hands out its answer in pieces of any size, and
  answers each complete record with one record, cut into fragments as it likes. \<open>rpc_server\<close> is such
  a server over a handler for the procedures, \<open>rpc_conn\<close> the state of a client that is connected to
  it and idle. \<open>sim_net\<close> is a concrete operating system and network with these properties, one server
  per port.
\<close>

subsection \<open>A server at the other end of a connection\<close>

text \<open>
  A connection of the process: the port of the host it leads to, the part of a record the host has got on
  it, and the bytes that are on their way back. What can be observed of a world is the connections, by
  descriptor, and the host's own state.
\<close>

record tcp_conn =
  cn_port :: u16
  cn_inbuf :: "byte list"
  cn_pending :: "byte list"

record ('w, 'f) view =
  vw_conn :: "'w \<Rightarrow> int \<Rightarrow> tcp_conn option"
  vw_state :: "'w \<Rightarrow> 'f"

definition idle_conn :: "u16 \<Rightarrow> tcp_conn" where
  "idle_conn port = \<lparr>cn_port = port, cn_inbuf = [], cn_pending = []\<rparr>"

definition pending_of :: "('w, 'f) view \<Rightarrow> int \<Rightarrow> u16 \<Rightarrow> 'w \<Rightarrow> byte list" where
  "pending_of v fd port w =
     (case vw_conn v w fd of None \<Rightarrow> [] | Some k \<Rightarrow> if cn_port k = port then cn_pending k else [])"

definition others_kept :: "('w, 'f) view \<Rightarrow> int \<Rightarrow> 'w \<Rightarrow> 'w \<Rightarrow> bool" where
  "others_kept v fd w w' \<longleftrightarrow> (\<forall>fd'. fd' \<noteq> fd \<longrightarrow> vw_conn v w' fd' = vw_conn v w fd')"

definition complete_record :: "byte list \<Rightarrow> byte list option" where
  "complete_record got =
     (if 4 \<le> length got \<and> length got = 4 + unat (mark_of (take 4 got) AND 0x7FFFFFFF)
      then Some (drop 4 got) else None)"

definition answers_with :: "('w, 'f) view \<Rightarrow> int \<Rightarrow> tcp_conn \<Rightarrow> byte list \<times> 'f \<Rightarrow> 'w \<Rightarrow> bool" where
  "answers_with v fd k answer w' \<longleftrightarrow> vw_state v w' = snd answer \<and>
     (\<exists>fs. fs \<noteq> [] \<and> (\<forall>f \<in> set fs. length f < 2 ^ 31) \<and> concat fs = fst answer \<and>
           vw_conn v w' fd = Some (k\<lparr>cn_inbuf := [], cn_pending := wire_fragments fs\<rparr>))"

definition takes_bytes ::
  "('w, 'f) view \<Rightarrow> int \<Rightarrow> (byte list \<Rightarrow> 'f \<Rightarrow> byte list \<times> 'f) \<Rightarrow> tcp_conn \<Rightarrow> byte list \<Rightarrow> 'w \<Rightarrow> 'w \<Rightarrow> bool" where
  "takes_bytes v fd server k bs w w' \<longleftrightarrow>
     (case complete_record (cn_inbuf k @ bs) of
        None \<Rightarrow> vw_conn v w' fd = Some (k\<lparr>cn_inbuf := cn_inbuf k @ bs\<rparr>) \<and> vw_state v w' = vw_state v w
      | Some msg \<Rightarrow> answers_with v fd k (server msg (vw_state v w)) w')"

text \<open>While the descriptor is connected to the port, this server is what it talks to.\<close>

definition tcp_peer ::
  "'w os \<Rightarrow> int \<Rightarrow> u16 \<Rightarrow> ('w, 'f) view \<Rightarrow> (byte list \<Rightarrow> 'f \<Rightarrow> byte list \<times> 'f) \<Rightarrow> bool" where
  "tcp_peer os fd port v server \<longleftrightarrow>
     tcp_delivers os fd (pending_of v fd port) \<and>
     (\<forall>want w c w' k. os_recv os fd want w = (c, w') \<longrightarrow> vw_conn v w fd = Some k \<longrightarrow> cn_port k = port \<longrightarrow>
        (\<exists>pd. vw_conn v w' fd = Some (k\<lparr>cn_pending := pd\<rparr>)) \<and> others_kept v fd w w' \<and>
        vw_state v w' = vw_state v w) \<and>
     (\<forall>d w n w' k. os_send os fd d w = (n, w') \<longrightarrow> d \<noteq> [] \<longrightarrow> vw_conn v w fd = Some k \<longrightarrow> cn_port k = port \<longrightarrow>
        cn_pending k = [] \<longrightarrow>
        0 < n \<and> n \<le> int (length d) \<and> others_kept v fd w w' \<and> takes_bytes v fd server k (take (nat n) d) w w')"

lemma tcp_peer_send:
  assumes "tcp_peer os fd (cn_port k) v server" and "d \<noteq> []" and "vw_conn v w fd = Some k" and "cn_pending k = []"
  obtains n w' where "os_send os fd d w = (n, w')" and "0 < n" and "n \<le> int (length d)"
    and "others_kept v fd w w'" and "takes_bytes v fd server k (take (nat n) d) w w'"
proof -
  obtain n w' where s: "os_send os fd d w = (n, w')" by fastforce
  with assms have "0 < n \<and> n \<le> int (length d) \<and> others_kept v fd w w' \<and>
      takes_bytes v fd server k (take (nat n) d) w w'"
    unfolding tcp_peer_def by blast
  with s show thesis by (blast intro: that)
qed

lemma tcp_peer_delivers: "tcp_peer os fd port v server \<Longrightarrow> tcp_delivers os fd (pending_of v fd port)"
  by (simp add: tcp_peer_def)

lemma others_kept_trans: "others_kept v fd w w' \<Longrightarrow> others_kept v fd w' w'' \<Longrightarrow> others_kept v fd w w''"
  by (simp add: others_kept_def)

lemma others_kept_conns:
  "others_kept v fd w w' \<Longrightarrow> vw_conn v w' fd = vw_conn v w fd \<Longrightarrow> vw_conn v w' = vw_conn v w"
  by (rule ext) (metis others_kept_def)

text \<open>A proper part of a record is not a record.\<close>

lemma length_addRecordMark: "length (addRecordMark msg) = 4 + length msg"
  by (simp add: addRecordMark_def Let_def)

lemma take4_addRecordMark: "take 4 (addRecordMark msg) = be32 (last_bit OR word_of_nat (length msg))"
  by (simp add: addRecordMark_fragment)

lemma complete_record_mark:
  assumes "length msg < 2 ^ 31" and "got @ suf = addRecordMark msg"
  shows "complete_record got = (if suf = [] then Some msg else None)"
proof (cases "4 \<le> length got")
  case True
  with assms(2) have t: "take 4 got = be32 (last_bit OR word_of_nat (length msg))"
    by (metis take4_addRecordMark take_append diff_is_0_eq take0 append_Nil2 take_eq_Nil2 diff_is_0_eq')
  from assms(2) have l: "length got + length suf = 4 + length msg"
    by (metis length_append length_addRecordMark)
  have "drop 4 (addRecordMark msg) = msg" by (simp add: addRecordMark_def Let_def)
  with assms(2) have d: "suf = [] \<Longrightarrow> drop 4 got = msg" by simp
  from t have "unat (mark_of (take 4 got) AND 0x7FFFFFFF) = length msg"
    using assms(1) by (simp add: mark_of_be32 mark_fields unat_len31)
  with l d True show ?thesis by (auto simp: complete_record_def)
next
  case False
  moreover have "suf \<noteq> []"
    using False assms(2) length_addRecordMark [of msg] by (metis append_Nil2 le_add1)
  ultimately show ?thesis by (simp add: complete_record_def)
qed


subsection \<open>Sending a call, receiving its answer\<close>

text \<open>Receiving changes nothing but the bytes on their way on this connection.\<close>

definition only_received :: "('w, 'f) view \<Rightarrow> int \<Rightarrow> u16 \<Rightarrow> 'w \<Rightarrow> 'w \<Rightarrow> bool" where
  "only_received v fd port w w' \<longleftrightarrow>
     (\<forall>k. vw_conn v w fd = Some k \<longrightarrow> cn_port k = port \<longrightarrow>
       (\<exists>pd. vw_conn v w' fd = Some (k\<lparr>cn_pending := pd\<rparr>)) \<and> others_kept v fd w w' \<and> vw_state v w' = vw_state v w)"

lemma only_received_trans:
  "only_received v fd port w w' \<Longrightarrow> only_received v fd port w' w'' \<Longrightarrow> only_received v fd port w w''"
  unfolding only_received_def by (fastforce intro: others_kept_trans)

lemma only_received_refl: "only_received v fd port w w"
proof -
  have "k\<lparr>cn_pending := cn_pending k\<rparr> = k" for k by simp
  then show ?thesis unfolding only_received_def others_kept_def by metis
qed

lemma tcp_peer_recv: "tcp_peer os fd port v server \<Longrightarrow> os_recv os fd want w = (c, w') \<Longrightarrow> only_received v fd port w w'"
  unfolding tcp_peer_def only_received_def by blast

lemma recvRecord_loop_keeps:
  assumes "recvRecord_loop os fd acc w = Some (r, w')" and peer: "tcp_peer os fd port v server"
  shows "only_received v fd port w w'"
  using assms(1)
  by (rule recvRecord_loop_rel [where R = "only_received v fd port"])
     (auto simp: recv_rel_def only_received_refl dest: tcp_peer_recv [OF peer] intro: only_received_trans)

lemma sendAll_loop_peer:
  assumes peer: "tcp_peer os fd port v server" and len: "length msg < 2 ^ 31"
  shows "tot < length (addRecordMark msg) \<Longrightarrow>
    vw_conn v w fd = Some ((idle_conn port)\<lparr>cn_inbuf := take tot (addRecordMark msg)\<rparr>) \<Longrightarrow>
    \<exists>w'. sendAll_loop os fd (addRecordMark msg) tot w = (Inr (), w') \<and> others_kept v fd w w' \<and>
         answers_with v fd (idle_conn port) (server msg (vw_state v w)) w'"
proof (induction "length (addRecordMark msg) - tot" arbitrary: tot w rule: less_induct)
  case less
  let ?data = "addRecordMark msg" and ?k = "(idle_conn port)\<lparr>cn_inbuf := take tot (addRecordMark msg)\<rparr>"
  have "drop tot ?data \<noteq> []" using less.prems(1) by simp
  moreover have "tcp_peer os fd (cn_port ?k) v server" "cn_pending ?k = []" using peer by (simp_all add: idle_conn_def)
  ultimately obtain n w1 where s: "os_send os fd (drop tot ?data) w = (n, w1)" and n: "0 < n"
      "n \<le> int (length (drop tot ?data))" and kept: "others_kept v fd w w1"
    and t: "takes_bytes v fd server ?k (take (nat n) (drop tot ?data)) w w1"
    using tcp_peer_send [of os fd ?k v server, OF _ _ less.prems(2)] by metis
  have step: "sendAll_loop os fd ?data tot w = sendAll_loop os fd ?data (tot + nat n) w1"
    using sendAll_loop_step [OF less.prems(1) s] n(1) by simp
  have got: "cn_inbuf ?k @ take (nat n) (drop tot ?data) = take (tot + nat n) ?data"
    by (simp add: take_add)
  have "complete_record (take (tot + nat n) ?data) =
      (if drop (tot + nat n) ?data = [] then Some msg else None)"
    by (rule complete_record_mark [OF len]) simp
  then have c: "complete_record (take (tot + nat n) ?data) =
      (if length ?data \<le> tot + nat n then Some msg else None)" by simp
  show ?case
  proof (cases "length ?data \<le> tot + nat n")
    case True
    with t c got have "answers_with v fd (idle_conn port) (server msg (vw_state v w)) w1"
      by (simp add: takes_bytes_def answers_with_def)
    with step True kept show ?thesis by (simp add: sendAll_loop_done)
  next
    case False
    with t c got have t': "vw_conn v w1 fd = Some ((idle_conn port)\<lparr>cn_inbuf := take (tot + nat n) ?data\<rparr>)"
        "vw_state v w1 = vw_state v w"
      by (simp_all add: takes_bytes_def)
    have "\<exists>w'. sendAll_loop os fd ?data (tot + nat n) w1 = (Inr (), w') \<and> others_kept v fd w1 w' \<and>
        answers_with v fd (idle_conn port) (server msg (vw_state v w1)) w'"
      by (rule less.hyps [OF _ _ t'(1)]) (use False n in auto)
    with kept t'(2) show ?thesis unfolding step by (auto intro: others_kept_trans)
  qed
qed

lemma exchange_peer:
  assumes peer: "tcp_peer os (rc_sock c) port v server"
    and idle: "vw_conn v w (rc_sock c) = Some (idle_conn port)"
    and msg: "msg = buildCallMessage (rc_xid c) prog vers proc args (rc_auth c)" "length msg < 2 ^ 31"
  shows "\<exists>w'. call os prog vers proc args (c, w) =
      Some (parseReply (fst (server msg (vw_state v w))), (c\<lparr>rc_xid := rc_xid c + 1\<rparr>, w')) \<and>
    vw_conn v w' = vw_conn v w \<and> vw_state v w' = snd (server msg (vw_state v w))"
proof -
  have "vw_conn v w (rc_sock c) = Some ((idle_conn port)\<lparr>cn_inbuf := take 0 (addRecordMark msg)\<rparr>)"
    using idle by (simp add: idle_conn_def)
  from sendAll_loop_peer [OF peer msg(2) _ this]
  obtain w1 where s: "sendAll os (rc_sock c) (addRecordMark msg) w = Some (Inr (), w1)"
    and k1: "others_kept v (rc_sock c) w w1"
    and a: "answers_with v (rc_sock c) (idle_conn port) (server msg (vw_state v w)) w1"
    by (auto simp: sendAll_def length_addRecordMark)
  from a obtain fs where fs: "fs \<noteq> []" "\<forall>f \<in> set fs. length f < 2 ^ 31"
    and cat: "concat fs = fst (server msg (vw_state v w))"
    and c1: "vw_conn v w1 (rc_sock c) = Some ((idle_conn port)\<lparr>cn_pending := wire_fragments fs\<rparr>)"
    and st: "vw_state v w1 = snd (server msg (vw_state v w))"
    by (auto simp: answers_with_def idle_conn_def)
  have p: "pending_of v (rc_sock c) port w1 = wire_fragments fs @ []"
    using c1 by (simp add: pending_of_def idle_conn_def)
  from recvRecord_loop_reassembles [OF tcp_peer_delivers [OF peer] fs p, of "[]"]
  obtain w2 where r: "recvRecord_loop os (rc_sock c) [] w1 = Some (Inr (concat fs), w2)"
    and p2: "pending_of v (rc_sock c) port w2 = []" by auto
  from recvRecord_loop_keeps [OF r peer] c1 obtain pd
    where c2: "vw_conn v w2 (rc_sock c) = Some ((idle_conn port)\<lparr>cn_pending := pd\<rparr>)"
      and k2: "others_kept v (rc_sock c) w1 w2" and st2: "vw_state v w2 = vw_state v w1"
    by (fastforce simp: only_received_def idle_conn_def)
  with p2 idle have "vw_conn v w2 (rc_sock c) = vw_conn v w (rc_sock c)"
    by (simp add: pending_of_def idle_conn_def)
  with others_kept_trans [OF k1 k2] have "vw_conn v w2 = vw_conn v w" by (rule others_kept_conns)
  with st st2 show ?thesis
    by (auto simp: call_unfold msg(1) [symmetric] s recvRecord_def r cat)
qed

subsection \<open>An RPC server\<close>

text \<open>A handler gets the header of the call, its arguments and the server's state.\<close>

type_synonym 'f handler = "rpc_call_header \<Rightarrow> byte list \<Rightarrow> 'f \<Rightarrow> byte list \<times> 'f"

definition rpc_server :: "'f handler \<Rightarrow> byte list \<Rightarrow> 'f \<Rightarrow> byte list \<times> 'f" where
  "rpc_server h msg f =
     (case decode server_call msg of
        Inl _ \<Rightarrow> (wire_reply 0 (MsgType_value REPLY) 0 AUTH_NONE [] (AcceptStat_value GARBAGE_ARGS) [], f)
      | Inr (hdr, args) \<Rightarrow>
          (case h hdr args f of (body, f') \<Rightarrow>
             (wire_reply (ch_xid hdr) (MsgType_value REPLY) 0 AUTH_NONE [] 0 body, f')))"

definition cred_of :: "AuthSys option \<Rightarrow> u32 \<times> byte list" where
  "cred_of auth = (case auth of None \<Rightarrow> (AUTH_NONE, []) | Some a \<Rightarrow> (AUTH_SYS_FLAV, encode_cred_body a))"

definition call_header :: "rpc_client \<Rightarrow> u32 \<Rightarrow> u32 \<Rightarrow> u32 \<Rightarrow> rpc_call_header" where
  "call_header c prog vers proc =
     \<lparr>ch_xid = rc_xid c, ch_type = MsgType_value CALL, ch_rpcvers = RPC_VERSION, ch_prog = prog,
      ch_vers = vers, ch_proc = proc, ch_cred = cred_of (rc_auth c), ch_verf = (AUTH_NONE, [])\<rparr>"

text \<open>RFC 5531, section 8.2: a credential body has at most 400 bytes.\<close>

definition auth_ok :: "AuthSys option \<Rightarrow> bool" where
  "auth_ok auth = (case auth of None \<Rightarrow> True | Some a \<Rightarrow> length (encode_cred_body a) \<le> 400)"

lemma auth_ok_wf: "auth_ok auth \<Longrightarrow> pred_option auth_wf auth"
proof (cases auth)
  case (Some a)
  moreover assume "auth_ok auth"
  ultimately have ok: "auth_ok (Some a)" by simp
  have "length (concat (map be32 gs)) = 4 * length gs" for gs by (induction gs) simp_all
  then have "length (au_gids a) \<le> 400" and "length (au_machinename a) \<le> 400"
    using ok by (auto simp: auth_ok_def encode_cred_body_eq length_wire_opaque)
  with ok Some show "pred_option auth_wf auth" by (simp add: auth_wf_def auth_ok_def)
qed simp

lemma decode_server_call:
  assumes "pred_option auth_wf (rc_auth c)"
  shows "decode server_call (buildCallMessage (rc_xid c) prog vers proc args (rc_auth c)) =
    Inr (call_header c prog vers proc, args)"
proof -
  have n: "get_opaque (at p (wire_opaque [] @ r)) = Inr ([], at (p @ wire_opaque []) r)" for p r
    by (rule get_opaque_at) simp
  show ?thesis
  proof (cases "rc_auth c")
    case None
    then show ?thesis
      by (simp add: decode_at buildCallMessage_eq server_call_def wire_cred_def cred_of_def
          call_header_def RPC_VERSION_def eff_simps at_simps n get_uint32_at [where pre = "[]", simplified])
  next
    case (Some a)
    with assms have "length (encode_cred_body a) < 2 ^ 32" by (simp add: auth_wf_def)
    with Some show ?thesis
      by (simp add: decode_at buildCallMessage_eq server_call_def wire_cred_def cred_of_def
          call_header_def RPC_VERSION_def eff_simps at_simps n get_uint32_at [where pre = "[]", simplified])
  qed
qed

text \<open>A client whose connection leads to such a server, between two calls.\<close>

definition rpc_conn :: "'w os \<Rightarrow> ('w, 'f) view \<Rightarrow> 'f handler \<Rightarrow> 'w rpc_state \<Rightarrow> bool" where
  "rpc_conn os v h s \<longleftrightarrow> auth_ok (rc_auth (fst s)) \<and>
     (\<exists>port. tcp_peer os (rc_sock (fst s)) port v (rpc_server h) \<and>
        vw_conn v (snd s) (rc_sock (fst s)) = Some (idle_conn port))"

lemma length_buildCallMessage:
  assumes "auth_ok auth" and "length args < 2 ^ 30"
  shows "length (buildCallMessage x prog vers proc args auth) < 2 ^ 31"
proof -
  have "xdr_pad n \<le> 3" for n by (simp add: xdr_pad_def)
  then have "length (wire_cred auth) \<le> 411"
    using assms(1) by (auto simp: wire_cred_def auth_ok_def length_wire_opaque xdr_pad_def split: option.splits)
  with assms(2) show ?thesis by (simp add: buildCallMessage_eq length_wire_opaque xdr_pad_def)
qed

lemma call_served:
  assumes conn: "rpc_conn os v h (c, w)" and len: "length args < 2 ^ 30"
    and srv: "h (call_header c prog vers proc) args (vw_state v w) = (body, f')"
  shows "\<exists>w'. call os prog vers proc args (c, w) = Some (Inr body, (c\<lparr>rc_xid := rc_xid c + 1\<rparr>, w')) \<and>
    rpc_conn os v h (c\<lparr>rc_xid := rc_xid c + 1\<rparr>, w') \<and> vw_conn v w' = vw_conn v w \<and> vw_state v w' = f'"
proof -
  define msg where "msg = buildCallMessage (rc_xid c) prog vers proc args (rc_auth c)"
  from conn obtain port where auth: "auth_ok (rc_auth c)" and peer: "tcp_peer os (rc_sock c) port v (rpc_server h)"
    and idle: "vw_conn v w (rc_sock c) = Some (idle_conn port)" by (auto simp: rpc_conn_def)
  have "rpc_server h msg (vw_state v w) =
      (wire_reply (rc_xid c) (MsgType_value REPLY) 0 AUTH_NONE [] 0 body, f')"
    using srv decode_server_call [OF auth_ok_wf [OF auth]] by (simp add: rpc_server_def msg_def call_header_def)
  moreover have "length msg < 2 ^ 31" unfolding msg_def by (rule length_buildCallMessage [OF auth len])
  ultimately show ?thesis
    using exchange_peer [OF peer idle msg_def] peer auth idle
    by (fastforce simp: rpc_conn_def parseReply_wire)
qed

lemma rpc_conn_kept: "rpc_conn os v h (c, w) \<Longrightarrow> vw_conn v w' = vw_conn v w \<Longrightarrow> rpc_conn os v h (c, w')"
  by (simp add: rpc_conn_def)

subsection \<open>A simulated network\<close>

text \<open>
  One host whose ports are served as \<open>net\<close> says; it has any name but the empty one, which does not
  resolve. \<open>mtu + 1\<close> bytes at most are sent, received or put into a fragment at a time. An address is
  the number of the port.
\<close>

record 'f sim =
  sm_conn :: "int \<Rightarrow> tcp_conn option"
  sm_state :: 'f
  sm_open :: "int list"
  sm_clock :: u64
  sm_slept :: nat

text \<open>The next descriptor is above the three standard ones and all open ones.\<close>

definition fresh_fd :: "int list \<Rightarrow> int" where
  "fresh_fd fds = 1 + fold max fds 2"

lemma fresh_fd: "fresh_fd fds \<notin> set fds" "3 \<le> fresh_fd fds"
proof -
  have le: "x \<le> fold max fds x" for x :: int and fds
  proof (induction fds arbitrary: x)
    case (Cons f fds)
    show ?case using Cons [of "max f x"] by simp
  qed simp
  have in_le: "fd \<in> set fds \<Longrightarrow> fd \<le> fold max fds x" for fd x :: int
  proof (induction fds arbitrary: x)
    case (Cons f fds)
    show ?case using Cons.IH [of "max f x"] Cons.prems le [of "max f x" fds] by auto
  qed simp
  show "fresh_fd fds \<notin> set fds"
    using in_le [of "fresh_fd fds" 2] by (auto simp: fresh_fd_def)
  show "3 \<le> fresh_fd fds" using le [of 2 fds] by (simp add: fresh_fd_def)
qed

lemma fresh_fd_nonneg [simp]: "0 \<le> fresh_fd fds"
  using fresh_fd(2) [of fds] by simp

function sim_cut :: "nat \<Rightarrow> byte list \<Rightarrow> byte list list" where
  "sim_cut mtu bs =
     (if length bs \<le> Suc mtu then [bs] else take (Suc mtu) bs # sim_cut mtu (drop (Suc mtu) bs))"
  by pat_completeness auto
termination by (relation "measure (\<lambda>(mtu, bs). length bs)") auto

declare sim_cut.simps [simp del]

definition port_number :: "string \<Rightarrow> nat" where
  "port_number = foldl (\<lambda>n c. 10 * n + (of_char c - 48)) 0"

lemma port_number_to_string [simp]: "port_number (to_string n) = n"
proof (induction n rule: to_string.induct)
  case (1 n)
  have "of_char (char_of (48 + n mod 10) :: char) = 48 + n mod 10" by simp
  with 1 show ?case by (cases "n < 10") (simp_all add: port_number_def to_string.simps [of n])
qed

definition sim_conn_of :: "'f sim \<Rightarrow> int \<Rightarrow> tcp_conn option" where
  "sim_conn_of w fd = (if fd \<in> set (sm_open w) then sm_conn w fd else None)"

type_synonym 'f net = "u16 \<Rightarrow> (byte list \<Rightarrow> 'f \<Rightarrow> byte list \<times> 'f) option"

definition sim_send :: "nat \<Rightarrow> 'f net \<Rightarrow> int \<Rightarrow> byte list \<Rightarrow> 'f sim \<Rightarrow> int \<times> 'f sim" where
  "sim_send mtu net fd d w =
     (case sim_conn_of w fd of
        None \<Rightarrow> (- 1, w)
      | Some k \<Rightarrow>
          (case net (cn_port k) of
             None \<Rightarrow> (- 1, w)
           | Some server \<Rightarrow>
               let bs = take (Suc mtu) d; got = cn_inbuf k @ bs in
               (int (length bs),
                case complete_record got of
                  None \<Rightarrow> w\<lparr>sm_conn := (sm_conn w)(fd \<mapsto> k\<lparr>cn_inbuf := got\<rparr>)\<rparr>
                | Some msg \<Rightarrow>
                    (case server msg (sm_state w) of (answer, f') \<Rightarrow>
                       w\<lparr>sm_conn := (sm_conn w)(fd \<mapsto> k\<lparr>cn_inbuf := [],
                           cn_pending := cn_pending k @ wire_fragments (sim_cut mtu answer)\<rparr>),
                         sm_state := f'\<rparr>))))"

definition sim_recv :: "nat \<Rightarrow> int \<Rightarrow> nat \<Rightarrow> 'f sim \<Rightarrow> byte list option \<times> 'f sim" where
  "sim_recv mtu fd want w =
     (case sim_conn_of w fd of
        None \<Rightarrow> (None, w)
      | Some k \<Rightarrow>
          (let n = min want (Suc mtu) in
           (Some (take n (cn_pending k)),
            w\<lparr>sm_conn := (sm_conn w)(fd \<mapsto> k\<lparr>cn_pending := drop n (cn_pending k)\<rparr>)\<rparr>)))"

definition sim_net :: "nat \<Rightarrow> 'f net \<Rightarrow> ('f sim) os" where
  "sim_net mtu net =
     \<lparr>os_getaddrinfo = (\<lambda>host port w. (if host = [] then None else Some (int (port_number port)), w)),
      os_socket = (\<lambda>w. (fresh_fd (sm_open w), w\<lparr>sm_open := fresh_fd (sm_open w) # sm_open w\<rparr>)),
      os_connect = (\<lambda>fd addr w.
        if net (word_of_int addr) = None then (- 1, w)
        else (0, w\<lparr>sm_conn := (sm_conn w)(fd \<mapsto> idle_conn (word_of_int addr))\<rparr>)),
      os_send = sim_send mtu net,
      os_recv = sim_recv mtu,
      os_close = (\<lambda>fd w. w\<lparr>sm_open := removeAll fd (sm_open w)\<rparr>),
      os_now = (\<lambda>w. (sm_clock w, w)),
      os_sleep = (\<lambda>n w. w\<lparr>sm_slept := sm_slept w + n, sm_clock := sm_clock w + word_of_nat n\<rparr>)\<rparr>"

definition sim_view :: "('f sim, 'f) view" where
  "sim_view = \<lparr>vw_conn = sim_conn_of, vw_state = sm_state\<rparr>"

text \<open>A world in which descriptor 3 is connected to port 2049, and a network in which that is the only port.\<close>

definition sim_start :: "'f \<Rightarrow> 'f sim" where
  "sim_start f =
     \<lparr>sm_conn = [3 \<mapsto> idle_conn 2049], sm_state = f, sm_open = [3], sm_clock = 0x0102030405060708,
      sm_slept = 0\<rparr>"

definition sim_os :: "nat \<Rightarrow> (byte list \<Rightarrow> 'f \<Rightarrow> byte list \<times> 'f) \<Rightarrow> ('f sim) os" where
  "sim_os mtu server = sim_net mtu [2049 \<mapsto> server]"

lemma sim_cut_fragments:
  "sim_cut mtu bs \<noteq> [] \<and> concat (sim_cut mtu bs) = bs \<and> (\<forall>f \<in> set (sim_cut mtu bs). length f \<le> Suc mtu)"
proof (induction mtu bs rule: sim_cut.induct)
  case (1 mtu bs)
  then show ?case by (cases "length bs \<le> Suc mtu") (simp_all add: sim_cut.simps [of mtu bs])
qed

lemma sim_delivers: "tcp_delivers (sim_net mtu net) fd (pending_of sim_view fd port)"
  unfolding tcp_delivers_def
proof (intro allI impI)
  fix want :: nat and w :: "'a sim" assume want: "0 < want" and p: "pending_of sim_view fd port w \<noteq> []"
  then obtain k where k: "fd \<in> set (sm_open w)" "sm_conn w fd = Some k" "cn_port k = port"
    by (auto simp: pending_of_def sim_view_def sim_conn_of_def split: option.splits if_splits)
  with want p show "\<exists>c w'. os_recv (sim_net mtu net) fd want w = (Some c, w') \<and> c \<noteq> [] \<and>
      length c \<le> want \<and> pending_of sim_view fd port w = c @ pending_of sim_view fd port w'"
    by (simp add: sim_net_def sim_recv_def sim_view_def pending_of_def sim_conn_of_def Let_def)
qed

lemma sim_recv_only:
  assumes "os_recv (sim_net mtu net) fd want w = (c, w')"
  shows "only_received sim_view fd port w w'"
  using assms
  by (auto simp: sim_net_def sim_recv_def sim_view_def only_received_def others_kept_def sim_conn_of_def Let_def
      split: option.splits if_splits)

lemma sim_peer:
  assumes "mtu < 2 ^ 30" and net: "net port = Some server"
  shows "tcp_peer (sim_net mtu net) fd port sim_view server"
  unfolding tcp_peer_def
proof (intro conjI allI impI)
  show "tcp_delivers (sim_net mtu net) fd (pending_of sim_view fd port)" by (rule sim_delivers)
next
  fix want w c w' k assume "os_recv (sim_net mtu net) fd want w = (c, w')" and k: "vw_conn sim_view w fd = Some k"
    and p: "cn_port k = port"
  from sim_recv_only [OF this(1), of port] k p
  show "\<exists>pd. vw_conn sim_view w' fd = Some (k\<lparr>cn_pending := pd\<rparr>)" "others_kept sim_view fd w w'"
    "vw_state sim_view w' = vw_state sim_view w" by (simp_all add: only_received_def)
next
  fix d w n w' k assume s: "os_send (sim_net mtu net) fd d w = (n, w')" and "d \<noteq> []"
    and k: "vw_conn sim_view w fd = Some k" and p: "cn_port k = port" "cn_pending k = []"
  have o: "fd \<in> set (sm_open w)" and k': "sm_conn w fd = Some k"
    using k by (simp_all add: sim_view_def sim_conn_of_def split: if_splits)
  note s' = s [unfolded sim_net_def sim_send_def os.simps sim_conn_of_def if_P [OF o] k' p(1) net option.case Let_def]
  show "0 < n" "n \<le> int (length d)" using s' \<open>d \<noteq> []\<close> by auto
  show "others_kept sim_view fd w w'"
    using s' by (auto simp: others_kept_def sim_view_def sim_conn_of_def split: option.splits prod.splits)
  have n: "take (nat n) d = take (Suc mtu) d" using s' by (auto simp: min_def)
  have "answers_with sim_view fd k (answer, f') (w\<lparr>sm_conn := (sm_conn w)(fd \<mapsto> k\<lparr>cn_inbuf := [],
      cn_pending := wire_fragments (sim_cut mtu answer)\<rparr>), sm_state := f'\<rparr>)" for answer f'
    unfolding answers_with_def
    using sim_cut_fragments [of mtu answer] assms o
    by (intro conjI exI [of _ "sim_cut mtu answer"]) (force simp: sim_view_def sim_conn_of_def)+
  with s' p o k' show "takes_bytes sim_view fd server k (take (nat n) d) w w'"
    unfolding n takes_bytes_def
    by (auto simp: sim_view_def sim_conn_of_def split: option.splits prod.splits)
qed

lemma sim_view_start: "vw_state sim_view (sim_start f) = f" "vw_conn sim_view (sim_start f) 3 = Some (idle_conn 2049)"
  by (simp_all add: sim_view_def sim_start_def sim_conn_of_def)

lemma sim_os_peer: "mtu < 2 ^ 30 \<Longrightarrow> tcp_peer (sim_os mtu server) fd 2049 sim_view server"
  unfolding sim_os_def by (rule sim_peer) simp_all

lemma sim_conn:
  "mtu < 2 ^ 30 \<Longrightarrow> auth_ok (rc_auth c) \<Longrightarrow> rc_sock c = 3 \<Longrightarrow>
   rpc_conn (sim_os mtu (rpc_server h)) sim_view h (c, sim_start f)"
  using sim_os_peer [of mtu "rpc_server h" 3] by (auto simp: rpc_conn_def sim_view_start)

end
