(* ===== verification/Transport.thy ===== *)
theory Transport
  imports Peer
begin

text \<open>
  Properties of the RPC transport (\<open>src/rpc/rpc_client.cpp\<close>), over every network that behaves as
  \<open>tcp_peer\<close>, \<open>tcp_accepts\<close> say, with \<open>sim_net\<close> and \<open>pipe_os\<close> as instances.
\<close>

subsection \<open>A network without a server\<close>

text \<open>
  Takes three bytes at a time until it has six, then fails; delivers zeros for ever; does not connect.
  Its world is what was sent and the descriptors that are open.
\<close>

definition pipe_os :: "(byte list \<times> int list) os" where
  "pipe_os =
     \<lparr>os_getaddrinfo = (\<lambda>host port w. (Some 1, w)),
      os_socket = (\<lambda>(b, fds). (fresh_fd fds, (b, fresh_fd fds # fds))),
      os_connect = (\<lambda>fd addr w. (- 1, w)),
      os_send = (\<lambda>fd d (b, fds). if 6 \<le> length b then (- 1, (b, fds))
                   else (int (min 3 (length d)), (b @ take 3 d, fds))),
      os_recv = (\<lambda>fd want w. (Some (replicate want 0), w)),
      os_close = (\<lambda>fd (b, fds). (b, removeAll fd fds)),
      os_now = (\<lambda>w. (0, w)),
      os_sleep = (\<lambda>n w. w)\<rparr>"

subsection \<open>Sessions\<close>

text \<open>Calls made one after the other on a connection, and what a handler answers to them.\<close>

type_synonym rpc_request = "u32 \<times> u32 \<times> u32 \<times> byte list"

fun run_calls ::
  "'w os \<Rightarrow> rpc_request list \<Rightarrow> 'w rpc_state \<Rightarrow> ((error + byte list) list \<times> 'w rpc_state) option" where
  "run_calls os [] s = Some ([], s)"
| "run_calls os ((prog, vers, proc, args) # cs) s =
     (case call os prog vers proc args s of
        None \<Rightarrow> None
      | Some (r, s') \<Rightarrow> map_option (\<lambda>(rs, s''). (r # rs, s'')) (run_calls os cs s'))"

fun serve_calls ::
  "'f handler \<Rightarrow> rpc_client \<Rightarrow> rpc_request list \<Rightarrow> 'f \<Rightarrow> (error + byte list) list \<times> 'f" where
  "serve_calls h c [] f = ([], f)"
| "serve_calls h c ((prog, vers, proc, args) # cs) f =
     (case h (call_header c prog vers proc) args f of
        (body, f') \<Rightarrow>
          (case serve_calls h (c\<lparr>rc_xid := rc_xid c + 1\<rparr>) cs f' of
             (rs, f'') \<Rightarrow> (Inr body # rs, f'')))"

definition calls_fit :: "rpc_request list \<Rightarrow> bool" where
  "calls_fit cs \<longleftrightarrow> (\<forall>(prog, vers, proc, args) \<in> set cs. length args < 2 ^ 30)"

lemma run_calls_served:
  assumes "rpc_conn os v h (c, w)" and "calls_fit cs"
  shows "\<exists>w'. run_calls os cs (c, w) =
      Some (fst (serve_calls h c cs (vw_state v w)), (c\<lparr>rc_xid := rc_xid c + word_of_nat (length cs)\<rparr>, w')) \<and>
    vw_state v w' = snd (serve_calls h c cs (vw_state v w))"
  using assms
proof (induction cs arbitrary: c w)
  case Nil
  then show ?case by simp
next
  case (Cons r cs)
  obtain prog vers proc args where r: "r = (prog, vers, proc, args)" by (cases r)
  obtain body f' where h: "h (call_header c prog vers proc) args (vw_state v w) = (body, f')" by fastforce
  from Cons.prems(2) have len: "length args < 2 ^ 30" and fit: "calls_fit cs"
    by (simp_all add: calls_fit_def r)
  from call_served [OF Cons.prems(1) len h] obtain w1
    where c1: "call os prog vers proc args (c, w) = Some (Inr body, (c\<lparr>rc_xid := rc_xid c + 1\<rparr>, w1))"
      and conn: "rpc_conn os v h (c\<lparr>rc_xid := rc_xid c + 1\<rparr>, w1)" and st: "vw_state v w1 = f'"
    by blast
  from Cons.IH [OF conn fit] show ?case
    by (auto simp: r h c1 st add.commute add.left_commute split: prod.splits)
qed

subsection \<open>Properties\<close>

text \<open>C7: A sequence of calls over one connection, however the network cuts the two byte streams into
  pieces and the server its records into fragments, returns what the server's procedures return,
  called on the same arguments in the same order; transaction ids are consecutive, and the server's
  state advances once per call.\<close>

theorem rpc_session_refines:
  assumes "rpc_conn os v h (c, w)" and "calls_fit cs"
  shows "\<exists>w'. run_calls os cs (c, w) =
      Some (fst (serve_calls h c cs (vw_state v w)), (c\<lparr>rc_xid := rc_xid c + word_of_nat (length cs)\<rparr>, w')) \<and>
    vw_state v w' = snd (serve_calls h c cs (vw_state v w))"
  using assms by (rule run_calls_served)

definition echo :: "nat handler" where
  "echo hdr args n = (args @ [word_of_nat n], n + 1)"

definition conn0 :: rpc_client where
  "conn0 = \<lparr>rc_sock = 3, rc_xid = 7, rc_auth = None\<rparr>"

lemma conn0_conn: "rpc_conn (sim_os 2 (rpc_server h)) sim_view h (conn0, sim_start f)"
  by (rule sim_conn) (simp_all add: conn0_def auth_ok_def)

lemma conn0_idle: "vw_conn sim_view (sim_start f) (rc_sock conn0) = Some (idle_conn 2049)"
  by (simp add: conn0_def sim_view_start)

lemma rpc_session_refines_witness:
  "\<exists>w'. run_calls (sim_os 2 (rpc_server echo)) [(1, 2, 3, [10, 20]), (1, 2, 4, [])] (conn0, sim_start 5) =
      Some ([Inr [10, 20, 5], Inr [6]], (conn0\<lparr>rc_xid := 9\<rparr>, w')) \<and> sm_state w' = 7"
  using rpc_session_refines [OF conn0_conn [of echo 5], of "[(1, 2, 3, [10, 20]), (1, 2, 4, [])]"]
  by (simp add: calls_fit_def echo_def) (simp add: sim_view_def sim_start_def conn0_def)

text \<open>Over any way the network cuts the two streams, a call sends its message completely, receives
  exactly the one record the server answers, and returns what \<open>parseReply\<close> makes of it, an exception
  for a denied or rejected call included; no byte is left on the connection.\<close>

theorem call_exchanges_records:
  assumes "tcp_peer os (rc_sock c) port v server" and "vw_conn v w (rc_sock c) = Some (idle_conn port)"
    and "msg = buildCallMessage (rc_xid c) prog vers proc args (rc_auth c)" and "length msg < 2 ^ 31"
  shows "\<exists>w'. call os prog vers proc args (c, w) =
      Some (parseReply (fst (server msg (vw_state v w))), (c\<lparr>rc_xid := rc_xid c + 1\<rparr>, w')) \<and>
    vw_conn v w' = vw_conn v w \<and> vw_state v w' = snd (server msg (vw_state v w))"
  using assms by (rule exchange_peer)

definition denying :: "byte list \<Rightarrow> nat \<Rightarrow> byte list \<times> nat" where
  "denying msg n = (wire_reply 7 1 1 0 [] 0 [], Suc n)"

lemma length_call0: "length (buildCallMessage 7 1 2 3 [] None) < 2 ^ 31"
  by (rule length_buildCallMessage) (simp_all add: auth_ok_def)

lemma call_exchanges_records_witness:
  "\<exists>w'. call (sim_os 4 denying) 1 2 3 [] (conn0, sim_start 0) =
      Some (Inl (RuntimeError (''RPC: message denied (reply_stat='' @ to_string 1 @ '')'')),
            (conn0\<lparr>rc_xid := 8\<rparr>, w')) \<and> sim_conn_of w' 3 = Some (idle_conn 2049) \<and> sm_state w' = 1"
proof -
  have p: "parseReply (wire_reply 7 1 1 0 [] 0 []) =
      Inl (RuntimeError (''RPC: message denied (reply_stat='' @ to_string 1 @ '')''))"
    by (simp add: parseReply_wire)
  have "length (buildCallMessage (rc_xid conn0) 1 2 3 [] (rc_auth conn0)) < 2 ^ 31"
    using length_call0 by (simp add: conn0_def)
  from call_exchanges_records [OF sim_os_peer conn0_idle refl this, of 4 denying 0]
  show ?thesis
    by (auto simp: denying_def p sim_view_start) (auto simp: sim_view_def sim_start_def sim_conn_of_def conn0_def)
qed

text \<open>C40: The transaction id of a reply is never compared with that of the call: a reply that answers
  another call is returned as the answer to this one.\<close>

theorem reply_xid_ignored:
  assumes "tcp_peer os (rc_sock c) port v server" and "vw_conn v w (rc_sock c) = Some (idle_conn port)"
    and "msg = buildCallMessage (rc_xid c) prog vers proc args (rc_auth c)" and "length msg < 2 ^ 31"
    and "server msg (vw_state v w) =
      (wire_reply other_xid (MsgType_value REPLY) (ReplyStat_value MSG_ACCEPTED) flavor verf
         (AcceptStat_value SUCCESS) body, f')"
    and "length verf < 2 ^ 32" and "other_xid \<noteq> rc_xid c"
  shows "\<exists>s'. call os prog vers proc args (c, w) = Some (Inr body, s')"
  using exchange_peer [OF assms(1-4)] assms(5,6) by (auto simp: parseReply_wire)

lemma reply_xid_ignored_witness:
  "\<exists>s'. call (sim_os 4 (\<lambda>msg n. (wire_reply 99 1 0 0 [] 0 [42], Suc n))) 1 2 3 [] (conn0, sim_start (0 :: nat)) =
     Some (Inr [42], s')"
proof -
  have "length (buildCallMessage (rc_xid conn0) 1 2 3 [] (rc_auth conn0)) < 2 ^ 31"
    using length_call0 by (simp add: conn0_def)
  from reply_xid_ignored [OF sim_os_peer conn0_idle refl this, of 4
      "\<lambda>msg n. (wire_reply 99 1 0 0 [] 0 [42], Suc n)" "0 :: nat" 99 0 "[]" "[42]" 1]
  show ?thesis by (simp add: sim_view_start conn0_def)
qed

text \<open>However a call ends, with a value, with an exception of the send, the receive or the reply's
  header, the client has used up exactly one transaction id, and its socket and credential are
  unchanged.\<close>

theorem call_uses_one_xid:
  assumes "call os prog vers proc args (c, w) = Some (r, (c', w'))"
  shows "c' = c\<lparr>rc_xid := rc_xid c + 1\<rparr>"
  using io_relD [OF call_one_call assms] by (simp add: one_call_def)

lemma call_uses_one_xid_witness:
  "\<exists>w'. call (sim_os 4 denying) 1 2 3 [] (conn0, sim_start 0) =
     Some (parseReply (wire_reply 7 1 1 0 [] 0 []), (\<lparr>rc_sock = 3, rc_xid = 8, rc_auth = None\<rparr>, w'))"
proof -
  have "length (buildCallMessage (rc_xid conn0) 1 2 3 [] (rc_auth conn0)) < 2 ^ 31"
    using length_call0 by (simp add: conn0_def)
  from exchange_peer [OF sim_os_peer conn0_idle refl this, of 4 denying 0]
  obtain c' w' where "call (sim_os 4 denying) 1 2 3 [] (conn0, sim_start 0) =
      Some (parseReply (wire_reply 7 1 1 0 [] 0 []), (c', w'))"
    by (auto simp: denying_def sim_view_start)
  with call_uses_one_xid [OF this] show ?thesis by (simp add: conn0_def)
qed

text \<open>\<open>sendAll\<close> hands the kernel a prefix of the data, in order and without gaps or repetitions,
  however small the portions are that \<open>send\<close> takes; it returns normally exactly when that prefix is
  the whole of it.\<close>

theorem sendAll_sends_prefix:
  assumes "tcp_accepts os fd sent" and "sendAll os fd data w = Some (r, w')"
  shows "\<exists>k \<le> length data. sent w' = sent w @ take k data \<and> (r = Inr () \<longleftrightarrow> k = length data)"
  using sendAll_loop_sent [OF assms(1), of 0] assms(2) by (auto simp: sendAll_def)

lemma pipe_send_steps:
  "sendAll pipe_os 0 [1, 2, 3, 4, 5] ([9], []) = Some (Inr (), ([9, 1, 2, 3, 4, 5], []))"
proof -
  have 1: "os_send pipe_os 0 (drop 0 [1, 2, 3, 4, 5]) ([9], []) = (3, ([9, 1, 2, 3], []))"
    and 2: "os_send pipe_os 0 (drop 3 [1, 2, 3, 4, 5]) ([9, 1, 2, 3], []) = (2, ([9, 1, 2, 3, 4, 5], []))"
    by (simp_all add: pipe_os_def numeral_eq_Suc)
  show ?thesis
    using sendAll_loop_step [OF _ 1] sendAll_loop_step [OF _ 2] by (simp add: sendAll_def sendAll_loop_done)
qed

lemma sendAll_sends_prefix_witness:
  "\<exists>k \<le> 5. [9, 1, 2, 3, 4, 5] = [9 :: byte] @ take k [1, 2, 3, 4, 5] \<and> k = 5"
proof -
  have "tcp_accepts pipe_os 0 fst" by (auto simp: tcp_accepts_def pipe_os_def min_def split: if_splits)
  from sendAll_sends_prefix [OF this pipe_send_steps] show ?thesis by auto
qed

text \<open>Against a peer that keeps sending fragments without the last-fragment bit (here: zeros for
  ever), receiving a record never returns and never throws: there is no bound on a record.\<close>

theorem recvRecord_never_returns:
  assumes "\<And>want w. 0 < want \<Longrightarrow> \<exists>w'. os_recv os fd want w = (Some (replicate want 0), w')"
  shows "recvRecord os fd w = None"
  unfolding recvRecord_def by (rule recvRecord_loop_diverges [OF assms])

lemma recvRecord_never_returns_witness: "recvRecord pipe_os 3 ([], []) = None"
  by (rule recvRecord_never_returns) (simp add: pipe_os_def)

text \<open>An RFC 5531 server reads back from a CALL message exactly the transaction id, program,
  version, procedure, credential and arguments the client was given, with a null verifier; the body of
  an \<open>AUTH_SYS\<close> credential parses to the client's credential.\<close>

theorem call_message_parsed:
  assumes "pred_option auth_wf auth"
  shows "decode server_call (buildCallMessage x prog vers proc args auth) =
      Inr (\<lparr>ch_xid = x, ch_type = MsgType_value CALL, ch_rpcvers = RPC_VERSION, ch_prog = prog,
            ch_vers = vers, ch_proc = proc,
            ch_cred = (case auth of None \<Rightarrow> (AUTH_NONE, []) | Some a \<Rightarrow> (AUTH_SYS_FLAV, encode_cred_body a)),
            ch_verf = (AUTH_NONE, [])\<rparr>, args) \<and>
    (case auth of None \<Rightarrow> True | Some a \<Rightarrow> decode server_auth_sys (encode_cred_body a) = Inr a)"
proof
  show "decode server_call (buildCallMessage x prog vers proc args auth) =
      Inr (\<lparr>ch_xid = x, ch_type = MsgType_value CALL, ch_rpcvers = RPC_VERSION, ch_prog = prog,
            ch_vers = vers, ch_proc = proc,
            ch_cred = (case auth of None \<Rightarrow> (AUTH_NONE, []) | Some a \<Rightarrow> (AUTH_SYS_FLAV, encode_cred_body a)),
            ch_verf = (AUTH_NONE, [])\<rparr>, args)"
    using decode_server_call [of "\<lparr>rc_sock = 0, rc_xid = x, rc_auth = auth\<rparr>"] assms
    by (simp add: call_header_def cred_of_def)
  show "case auth of None \<Rightarrow> True | Some a \<Rightarrow> decode server_auth_sys (encode_cred_body a) = Inr a"
    using authc.decode_enc [of _ "[]"] assms by (cases auth) simp_all
qed

lemma call_message_parsed_witness:
  "decode server_auth_sys (encode_cred_body (AuthSys_default\<lparr>au_uid := 1000, au_gids := [10, 20]\<rparr>)) =
     Inr (AuthSys_default\<lparr>au_uid := 1000, au_gids := [10, 20]\<rparr>)"
proof -
  have "pred_option auth_wf (Some (AuthSys_default\<lparr>au_uid := 1000, au_gids := [10, 20]\<rparr>))"
    by (simp add: auth_wf_def AuthSys_default_def encode_cred_body_eq length_wire_opaque bytes_of_def
        xdr_pad_def)
  from call_message_parsed [OF this] show ?thesis by simp
qed

text \<open>\<open>parseReply\<close> on every reply header: a message that is not a REPLY, a denied one, one that was
  accepted with an error status, and a success, whose verifier is skipped and whose remaining bytes
  are returned; the text of the exception names the failing field.\<close>

theorem parseReply_cases:
  assumes "length verf < 2 ^ 32"
  shows "parseReply (wire_reply x mtype rstat flavor verf astat body) =
    (if mtype \<noteq> MsgType_value REPLY then Inl (RuntimeError ''RPC: expected REPLY message type'')
     else if rstat \<noteq> ReplyStat_value MSG_ACCEPTED then
       Inl (RuntimeError (''RPC: message denied (reply_stat='' @ to_string (unat rstat) @ '')''))
     else if astat \<noteq> AcceptStat_value SUCCESS then
       Inl (RuntimeError (''RPC: not accepted (accept_stat='' @ to_string (unat astat) @ '')''))
     else Inr body)"
  using parseReply_wire [OF assms] by simp

lemma parseReply_cases_witness:
  "parseReply (wire_reply 5 1 0 0 [1, 2, 3] 3 [7]) =
     Inl (RuntimeError (''RPC: not accepted (accept_stat='' @ to_string 3 @ '')''))"
  using parseReply_cases [of "[1, 2, 3]" 5 1 0 0 3 "[7]"] by simp

text \<open>What the calls of the operating system do to the set of open descriptors.\<close>

definition tracks_open :: "'w os \<Rightarrow> ('w \<Rightarrow> int set) \<Rightarrow> bool" where
  "tracks_open os opened \<longleftrightarrow>
     (\<forall>host port w r w'. os_getaddrinfo os host port w = (r, w') \<longrightarrow> opened w' = opened w) \<and>
     (\<forall>w fd w'. os_socket os w = (fd, w') \<longrightarrow>
        fd \<notin> opened w \<and> opened w' = (if 0 \<le> fd then insert fd (opened w) else opened w)) \<and>
     (\<forall>fd addr w r w'. os_connect os fd addr w = (r, w') \<longrightarrow> opened w' = opened w) \<and>
     (\<forall>fd d w r w'. os_send os fd d w = (r, w') \<longrightarrow> opened w' = opened w) \<and>
     (\<forall>fd want w r w'. os_recv os fd want w = (r, w') \<longrightarrow> opened w' = opened w) \<and>
     (\<forall>fd w. opened (os_close os fd w) = opened w - {fd})"

lemma pipe_tracks_open: "tracks_open pipe_os (set \<circ> snd)"
  unfolding tracks_open_def by (auto simp: pipe_os_def fresh_fd split: if_splits)

lemma sim_tracks_open: "tracks_open (sim_net mtu net) (set \<circ> sm_open)"
  unfolding tracks_open_def
  by (auto simp: sim_net_def sim_send_def sim_recv_def Let_def fresh_fd split: option.splits prod.splits if_splits)

text \<open>When \<open>connect()\<close> fails, the constructor throws and leaves the descriptor it got from
  \<open>socket()\<close> open: no destructor runs for the half-made client, and nothing else closes it.\<close>

theorem failed_connect_leaks:
  assumes "tracks_open os opened"
    and "os_getaddrinfo os host (to_string (unat port)) w = (Some addr, w1)"
    and "os_socket os w1 = (fd, w2)" and "0 \<le> fd"
    and "os_connect os fd addr w2 = (rc, w3)" and "rc \<noteq> 0"
  shows "\<exists>e w'. TcpRpcClient os host port w = Some (Inl e, w') \<and> opened w' = insert fd (opened w)"
proof -
  have "opened w1 = opened w" "opened w2 = insert fd (opened w1)" "opened w3 = opened w2"
    using assms unfolding tracks_open_def by metis+
  with assms(2-) show ?thesis by (simp add: TcpRpcClient_def Let_def eff_simps)
qed

lemma failed_connect_leaks_witness:
  "\<exists>e w'. TcpRpcClient pipe_os ''server'' 2049 ([], [5]) = Some (Inl e, w') \<and> set (snd w') = {6, 5}"
proof -
  have f: "fresh_fd [5] = 6" by (simp add: fresh_fd_def)
  show ?thesis
    using failed_connect_leaks [OF pipe_tracks_open, of "''server''" 2049 "([], [5])" 1 "([], [5])" 6
        "([], [6, 5])" "-1" "([], [6, 5])"]
    by (simp add: pipe_os_def f)
qed

end
