(* ===== verification/Nfs3_Requests.thy ===== *)
theory Nfs3_Requests
  imports Nfs3_Client Transport
begin

text \<open>
  What an NFSv3 server reads from the arguments of a call (RFC 1813): a request over the attributes
  the client's structures mean. \<open>server_request3\<close> is the server's parser, \<open>args3\<close> the client's encoders.
\<close>

subsection \<open>Setting attributes\<close>

datatype set_time3 = Keep | Server_time | Client_time Nfstime3

record sattr3 =
  st3_mode :: "u32 option"
  st3_uid :: "u32 option"
  st3_gid :: "u32 option"
  st3_size :: "u64 option"
  st3_atime :: set_time3
  st3_mtime :: set_time3

definition set_time_meaning :: "SetTimeHow \<Rightarrow> u32 \<Rightarrow> u32 \<Rightarrow> set_time3" where
  "set_time_meaning how s ns =
     (case how of DONT_CHANGE \<Rightarrow> Keep | SET_TO_SERVER_TIME \<Rightarrow> Server_time
      | SET_TO_CLIENT_TIME \<Rightarrow> Client_time \<lparr>nt_seconds = s, nt_nseconds = ns\<rparr>)"

definition when_set :: "bool \<Rightarrow> 'a \<Rightarrow> 'a option" where
  "when_set b x = (if b then Some x else None)"

definition sattr3_meaning :: "Sattr3 \<Rightarrow> sattr3" where
  "sattr3_meaning s =
     \<lparr>st3_mode = when_set (sa_set_mode s) (sa_mode s), st3_uid = when_set (sa_set_uid s) (sa_uid s),
      st3_gid = when_set (sa_set_gid s) (sa_gid s), st3_size = when_set (sa_set_size s) (sa_size s),
      st3_atime = set_time_meaning (sa_set_atime s) (sa_atime_sec s) (sa_atime_nsec s),
      st3_mtime = set_time_meaning (sa_set_mtime s) (sa_mtime_sec s) (sa_mtime_nsec s)\<rparr>"

definition server_optional :: "'a decoder \<Rightarrow> 'a option decoder" where
  "server_optional p =
     dbind get_uint32 (\<lambda>b. if b \<noteq> 0 then dbind p (\<lambda>x. dreturn (Some x)) else dreturn None)"

definition server_time3 :: "Nfstime3 decoder" where
  "server_time3 =
     dbind get_uint32 (\<lambda>s. dbind get_uint32 (\<lambda>ns. dreturn \<lparr>nt_seconds = s, nt_nseconds = ns\<rparr>))"

definition garbage :: error where
  "garbage = RuntimeError ''garbage arguments''"

definition server_set_time :: "set_time3 decoder" where
  "server_set_time =
     dbind get_uint32 (\<lambda>how.
     if how = 0 then dreturn Keep else if how = 1 then dreturn Server_time
     else if how = 2 then dbind server_time3 (\<lambda>t. dreturn (Client_time t)) else (\<lambda>_. Inl garbage))"

definition server_sattr3 :: "sattr3 decoder" where
  "server_sattr3 =
     dbind (server_optional get_uint32) (\<lambda>mode.
     dbind (server_optional get_uint32) (\<lambda>uid.
     dbind (server_optional get_uint32) (\<lambda>gid.
     dbind (server_optional get_uint64) (\<lambda>sz.
     dbind server_set_time (\<lambda>at.
     dbind server_set_time (\<lambda>mt.
     dreturn \<lparr>st3_mode = mode, st3_uid = uid, st3_gid = gid, st3_size = sz, st3_atime = at,
              st3_mtime = mt\<rparr>))))))"

definition wire_set_time :: "set_time3 \<Rightarrow> byte list" where
  "wire_set_time t = (case t of Keep \<Rightarrow> be32 0 | Server_time \<Rightarrow> be32 1 | Client_time x \<Rightarrow> be32 2 @ wire_time3 x)"

definition wire_sattr3 :: "sattr3 \<Rightarrow> byte list" where
  "wire_sattr3 s =
     wire_optional be32 (st3_mode s) @ wire_optional be32 (st3_uid s) @ wire_optional be32 (st3_gid s) @
     wire_optional be64 (st3_size s) @ wire_set_time (st3_atime s) @ wire_set_time (st3_mtime s)"

lemma server_optional_at [at_simps]:
  assumes "\<And>q x r. p (at q (enc x @ r)) = Inr (x, at (q @ enc x) r)"
  shows "server_optional p (at pre (wire_optional enc v @ rest)) = Inr (v, at (pre @ wire_optional enc v) rest)"
  by (cases v) (simp_all add: server_optional_def wire_optional_def eff_simps at_simps assms)

lemma server_set_time_at [at_simps]:
  "server_set_time (at pre (wire_set_time t @ rest)) = Inr (t, at (pre @ wire_set_time t) rest)"
  by (cases t)
     (simp_all add: server_set_time_def wire_set_time_def server_time3_def wire_time3_def eff_simps at_simps)

interpretation sattr3c: wire_codec "\<lambda>_. True" wire_sattr3 server_sattr3
  by unfold_locales
     (simp add: server_sattr3_def wire_sattr3_def eff_simps at_simps
       server_optional_at [OF get_uint32_at] server_optional_at [OF get_uint64_at])

lemmas [at_simps] = sattr3c.dec_enc

lemma encode_sattr3_append [put_simps]:
  "encode_sattr3 s buf = buf @ wire_sattr3 (sattr3_meaning s)"
  by (cases "sa_set_atime s"; cases "sa_set_mtime s")
     (simp_all add: encode_sattr3_def wire_sattr3_def sattr3_meaning_def when_set_def set_time_meaning_def
       wire_optional_def wire_set_time_def wire_time3_def put_simps)

subsection \<open>Requests\<close>

text \<open>
  A call of the client, over its own attribute structures; the server sees the same request over the
  attributes they mean. \<open>MKNOD\<close> appears by the type of the object it makes.
\<close>

datatype ('s, 'g) req3 =
    Getattr3 Fh3
  | Setattr3 Fh3 's 'g
  | Lookup3 Fh3 cstring
  | Access3 Fh3 u32
  | Readlink3 Fh3
  | Read3 Fh3 u64 u32
  | Write3 Fh3 u64 u32 "byte list"
  | Create3 Fh3 cstring bool 's
  | Create_exclusive3 Fh3 cstring "byte list"
  | Mkdir3 Fh3 cstring 's
  | Symlink3 Fh3 cstring 's cstring
  | Mknod_fifo3 Fh3 cstring 's
  | Mknod_socket3 Fh3 cstring 's
  | Mknod_chr3 Fh3 cstring 's DeviceSpec3
  | Mknod_blk3 Fh3 cstring 's DeviceSpec3
  | Remove3 Fh3 cstring
  | Rmdir3 Fh3 cstring
  | Rename3 Fh3 cstring Fh3 cstring
  | Link3 Fh3 Fh3 cstring
  | Readdir3 Fh3 u64 "byte list" u32
  | Readdirplus3 Fh3 u64 "byte list" u32 u32
  | Fsstat3 Fh3
  | Fsinfo3 Fh3
  | Pathconf3 Fh3
  | Commit3 Fh3 u64 u32

type_synonym call3 = "(Sattr3, SattrGuard3) req3"

definition guard3_meaning :: "SattrGuard3 \<Rightarrow> Nfstime3 option" where
  "guard3_meaning g = when_set (sg_check g) \<lparr>nt_seconds = sg_ctime_sec g, nt_nseconds = sg_ctime_nsec g\<rparr>"

text \<open>The request as RFC 1813 defines it: the flag of \<open>Create3\<close> is \<open>GUARDED\<close>.\<close>

type_synonym request3 = "(sattr3, Nfstime3 option) req3"

definition meaning3 :: "call3 \<Rightarrow> request3" where
  "meaning3 = map_req3 sattr3_meaning guard3_meaning"

definition create_mode :: "bool \<Rightarrow> CreateMode3" where
  "create_mode guarded = (if guarded then GUARDED else UNCHECKED)"

primrec proc3 :: "('s, 'g) req3 \<Rightarrow> u32" where
  "proc3 (Getattr3 fh) = NFSPROC3_GETATTR"
| "proc3 (Setattr3 fh s g) = NFSPROC3_SETATTR"
| "proc3 (Lookup3 dir name) = NFSPROC3_LOOKUP"
| "proc3 (Access3 fh m) = NFSPROC3_ACCESS"
| "proc3 (Readlink3 fh) = NFSPROC3_READLINK"
| "proc3 (Read3 fh off count) = NFSPROC3_READ"
| "proc3 (Write3 fh off how data) = NFSPROC3_WRITE"
| "proc3 (Create3 dir name guarded s) = NFSPROC3_CREATE"
| "proc3 (Create_exclusive3 dir name verf) = NFSPROC3_CREATE"
| "proc3 (Mkdir3 dir name s) = NFSPROC3_MKDIR"
| "proc3 (Symlink3 dir name s target) = NFSPROC3_SYMLINK"
| "proc3 (Mknod_fifo3 dir name s) = NFSPROC3_MKNOD"
| "proc3 (Mknod_socket3 dir name s) = NFSPROC3_MKNOD"
| "proc3 (Mknod_chr3 dir name s dev) = NFSPROC3_MKNOD"
| "proc3 (Mknod_blk3 dir name s dev) = NFSPROC3_MKNOD"
| "proc3 (Remove3 dir name) = NFSPROC3_REMOVE"
| "proc3 (Rmdir3 dir name) = NFSPROC3_RMDIR"
| "proc3 (Rename3 dir name dir2 name2) = NFSPROC3_RENAME"
| "proc3 (Link3 fh dir name) = NFSPROC3_LINK"
| "proc3 (Readdir3 dir cookie cv count) = NFSPROC3_READDIR"
| "proc3 (Readdirplus3 dir cookie cv dircount maxcount) = NFSPROC3_READDIRPLUS"
| "proc3 (Fsstat3 fh) = NFSPROC3_FSSTAT"
| "proc3 (Fsinfo3 fh) = NFSPROC3_FSINFO"
| "proc3 (Pathconf3 fh) = NFSPROC3_PATHCONF"
| "proc3 (Commit3 fh off count) = NFSPROC3_COMMIT"

primrec args3 :: "call3 \<Rightarrow> byte list" where
  "args3 (Getattr3 fh) = encode_getattr_args fh"
| "args3 (Setattr3 fh s g) = encode_setattr_args fh s g"
| "args3 (Lookup3 dir name) = encode_lookup_args dir name"
| "args3 (Access3 fh m) = encode_access_args fh m"
| "args3 (Readlink3 fh) = encode_readlink_args fh"
| "args3 (Read3 fh off count) = encode_read_args fh off count"
| "args3 (Write3 fh off how data) = encode_write_args fh off how data"
| "args3 (Create3 dir name guarded s) = encode_create_args dir name (create_mode guarded) s"
| "args3 (Create_exclusive3 dir name verf) = encode_create_args_exclusive dir name verf"
| "args3 (Mkdir3 dir name s) = encode_mkdir_args dir name s"
| "args3 (Symlink3 dir name s target) = encode_symlink_args dir name target s"
| "args3 (Mknod_fifo3 dir name s) = encode_mknod_args dir name NF3FIFO s"
| "args3 (Mknod_socket3 dir name s) = encode_mknod_args dir name NF3SOCK s"
| "args3 (Mknod_chr3 dir name s dev) = encode_mknod_device_args dir name NF3CHR s dev"
| "args3 (Mknod_blk3 dir name s dev) = encode_mknod_device_args dir name NF3BLK s dev"
| "args3 (Remove3 dir name) = encode_remove_args dir name"
| "args3 (Rmdir3 dir name) = encode_rmdir_args dir name"
| "args3 (Rename3 dir name dir2 name2) = encode_rename_args dir name dir2 name2"
| "args3 (Link3 fh dir name) = encode_link_args fh dir name"
| "args3 (Readdir3 dir cookie cv count) = encode_readdir_args dir cookie cv count"
| "args3 (Readdirplus3 dir cookie cv dircount maxcount) =
     encode_readdirplus_args dir cookie cv dircount maxcount"
| "args3 (Fsstat3 fh) = encode_fsstat_args fh"
| "args3 (Fsinfo3 fh) = encode_fsinfo_args fh"
| "args3 (Pathconf3 fh) = encode_pathconf_args fh"
| "args3 (Commit3 fh off count) = encode_commit_args fh off count"

text \<open>What fits: variable-length fields have a 32-bit length, verifiers eight bytes.\<close>

definition name_ok :: "cstring \<Rightarrow> bool" where
  "name_ok s \<longleftrightarrow> length s < 2 ^ 32"

primrec call3_ok :: "('s, 'g) req3 \<Rightarrow> bool" where
  "call3_ok (Getattr3 fh) = fh3_wf fh"
| "call3_ok (Setattr3 fh s g) = fh3_wf fh"
| "call3_ok (Lookup3 dir name) = (fh3_wf dir \<and> name_ok name)"
| "call3_ok (Access3 fh m) = fh3_wf fh"
| "call3_ok (Readlink3 fh) = fh3_wf fh"
| "call3_ok (Read3 fh off count) = fh3_wf fh"
| "call3_ok (Write3 fh off how data) = (fh3_wf fh \<and> length data < 2 ^ 32)"
| "call3_ok (Create3 dir name guarded s) = (fh3_wf dir \<and> name_ok name)"
| "call3_ok (Create_exclusive3 dir name verf) = (fh3_wf dir \<and> name_ok name \<and> length verf = 8)"
| "call3_ok (Mkdir3 dir name s) = (fh3_wf dir \<and> name_ok name)"
| "call3_ok (Symlink3 dir name s target) = (fh3_wf dir \<and> name_ok name \<and> name_ok target)"
| "call3_ok (Mknod_fifo3 dir name s) = (fh3_wf dir \<and> name_ok name)"
| "call3_ok (Mknod_socket3 dir name s) = (fh3_wf dir \<and> name_ok name)"
| "call3_ok (Mknod_chr3 dir name s dev) = (fh3_wf dir \<and> name_ok name)"
| "call3_ok (Mknod_blk3 dir name s dev) = (fh3_wf dir \<and> name_ok name)"
| "call3_ok (Remove3 dir name) = (fh3_wf dir \<and> name_ok name)"
| "call3_ok (Rmdir3 dir name) = (fh3_wf dir \<and> name_ok name)"
| "call3_ok (Rename3 dir name dir2 name2) = (fh3_wf dir \<and> name_ok name \<and> fh3_wf dir2 \<and> name_ok name2)"
| "call3_ok (Link3 fh dir name) = (fh3_wf fh \<and> fh3_wf dir \<and> name_ok name)"
| "call3_ok (Readdir3 dir cookie cv count) = (fh3_wf dir \<and> length cv = 8)"
| "call3_ok (Readdirplus3 dir cookie cv dircount maxcount) = (fh3_wf dir \<and> length cv = 8)"
| "call3_ok (Fsstat3 fh) = fh3_wf fh"
| "call3_ok (Fsinfo3 fh) = fh3_wf fh"
| "call3_ok (Pathconf3 fh) = fh3_wf fh"
| "call3_ok (Commit3 fh off count) = fh3_wf fh"

subsection \<open>What the server reads\<close>

definition server_device3 :: "DeviceSpec3 decoder" where
  "server_device3 =
     dbind get_uint32 (\<lambda>ma. dbind get_uint32 (\<lambda>mi. dreturn \<lparr>ds_major_num = ma, ds_minor_num = mi\<rparr>))"

text \<open>\<open>count\<close> has to be the length of the data (RFC 1813, section 3.3.7).\<close>

definition server_write3 :: "request3 decoder" where
  "server_write3 =
     dbind decode_fh3 (\<lambda>fh. dbind get_uint64 (\<lambda>off. dbind get_uint32 (\<lambda>count. dbind get_uint32 (\<lambda>how.
     dbind get_opaque (\<lambda>data.
     dbind (throw_if (unat count \<noteq> length data) garbage) (\<lambda>_.
     dreturn (Write3 fh off how data)))))))"

definition server_create3 :: "request3 decoder" where
  "server_create3 =
     dbind decode_fh3 (\<lambda>dir. dbind get_string (\<lambda>name. dbind get_uint32 (\<lambda>mode.
     if mode = 0 \<or> mode = 1 then dbind server_sattr3 (\<lambda>s. dreturn (Create3 dir name (mode = 1) s))
     else if mode = 2 then dbind (get_fixed_opaque 8) (\<lambda>verf. dreturn (Create_exclusive3 dir name verf))
     else (\<lambda>_. Inl garbage))))"

definition server_mknod3 :: "request3 decoder" where
  "server_mknod3 =
     dbind decode_fh3 (\<lambda>dir. dbind get_string (\<lambda>name. dbind get_uint32 (\<lambda>type.
     if type = NF3CHR \<or> type = NF3BLK then
       dbind server_sattr3 (\<lambda>s. dbind server_device3 (\<lambda>dev.
       dreturn (if type = NF3CHR then Mknod_chr3 dir name s dev else Mknod_blk3 dir name s dev)))
     else if type = NF3SOCK \<or> type = NF3FIFO then
       dbind server_sattr3 (\<lambda>s.
       dreturn (if type = NF3SOCK then Mknod_socket3 dir name s else Mknod_fifo3 dir name s))
     else (\<lambda>_. Inl garbage))))"

definition server_body3 :: "u32 \<Rightarrow> request3 decoder" where
  "server_body3 p =
    (if p = 1 then dbind decode_fh3 (\<lambda>fh. dreturn (Getattr3 fh))
     else if p = 2 then
       dbind decode_fh3 (\<lambda>fh. dbind server_sattr3 (\<lambda>s. dbind (server_optional server_time3) (\<lambda>g.
       dreturn (Setattr3 fh s g))))
     else if p = 3 then dbind decode_fh3 (\<lambda>dir. dbind get_string (\<lambda>name. dreturn (Lookup3 dir name)))
     else if p = 4 then dbind decode_fh3 (\<lambda>fh. dbind get_uint32 (\<lambda>m. dreturn (Access3 fh m)))
     else if p = 5 then dbind decode_fh3 (\<lambda>fh. dreturn (Readlink3 fh))
     else if p = 6 then
       dbind decode_fh3 (\<lambda>fh. dbind get_uint64 (\<lambda>off. dbind get_uint32 (\<lambda>count. dreturn (Read3 fh off count))))
     else if p = 7 then server_write3
     else if p = 8 then server_create3
     else if p = 9 then
       dbind decode_fh3 (\<lambda>dir. dbind get_string (\<lambda>name. dbind server_sattr3 (\<lambda>s. dreturn (Mkdir3 dir name s))))
     else if p = 10 then
       dbind decode_fh3 (\<lambda>dir. dbind get_string (\<lambda>name. dbind server_sattr3 (\<lambda>s. dbind get_string (\<lambda>target.
       dreturn (Symlink3 dir name s target)))))
     else if p = 11 then server_mknod3
     else if p = 12 then dbind decode_fh3 (\<lambda>dir. dbind get_string (\<lambda>name. dreturn (Remove3 dir name)))
     else if p = 13 then dbind decode_fh3 (\<lambda>dir. dbind get_string (\<lambda>name. dreturn (Rmdir3 dir name)))
     else if p = 14 then
       dbind decode_fh3 (\<lambda>dir. dbind get_string (\<lambda>name. dbind decode_fh3 (\<lambda>dir2. dbind get_string (\<lambda>name2.
       dreturn (Rename3 dir name dir2 name2)))))
     else if p = 15 then
       dbind decode_fh3 (\<lambda>fh. dbind decode_fh3 (\<lambda>dir. dbind get_string (\<lambda>name. dreturn (Link3 fh dir name))))
     else if p = 16 then
       dbind decode_fh3 (\<lambda>dir. dbind get_uint64 (\<lambda>cookie. dbind (get_fixed_opaque 8) (\<lambda>cv.
       dbind get_uint32 (\<lambda>count. dreturn (Readdir3 dir cookie cv count)))))
     else if p = 17 then
       dbind decode_fh3 (\<lambda>dir. dbind get_uint64 (\<lambda>cookie. dbind (get_fixed_opaque 8) (\<lambda>cv.
       dbind get_uint32 (\<lambda>dircount. dbind get_uint32 (\<lambda>maxcount.
       dreturn (Readdirplus3 dir cookie cv dircount maxcount))))))
     else if p = 18 then dbind decode_fh3 (\<lambda>fh. dreturn (Fsstat3 fh))
     else if p = 19 then dbind decode_fh3 (\<lambda>fh. dreturn (Fsinfo3 fh))
     else if p = 20 then dbind decode_fh3 (\<lambda>fh. dreturn (Pathconf3 fh))
     else if p = 21 then
       dbind decode_fh3 (\<lambda>fh. dbind get_uint64 (\<lambda>off. dbind get_uint32 (\<lambda>count. dreturn (Commit3 fh off count))))
     else (\<lambda>_. Inl garbage))"

text \<open>Nothing may follow the arguments.\<close>

definition server_request3 :: "u32 \<Rightarrow> byte list \<Rightarrow> error + request3" where
  "server_request3 p args = decode (
     dbind (server_body3 p) (\<lambda>req.
     dbind get_remaining (\<lambda>rest.
     dbind (throw_if (rest \<noteq> []) garbage) (\<lambda>_.
     dreturn req)))) args"

lemmas proc3_values =
  NFSPROC3_GETATTR_def NFSPROC3_SETATTR_def NFSPROC3_LOOKUP_def NFSPROC3_ACCESS_def
  NFSPROC3_READLINK_def NFSPROC3_READ_def NFSPROC3_WRITE_def NFSPROC3_CREATE_def
  NFSPROC3_MKDIR_def NFSPROC3_SYMLINK_def NFSPROC3_MKNOD_def NFSPROC3_REMOVE_def
  NFSPROC3_RMDIR_def NFSPROC3_RENAME_def NFSPROC3_LINK_def NFSPROC3_READDIR_def
  NFSPROC3_READDIRPLUS_def NFSPROC3_FSSTAT_def NFSPROC3_FSINFO_def NFSPROC3_PATHCONF_def
  NFSPROC3_COMMIT_def

lemmas args3_defs =
  encode_getattr_args_def encode_setattr_args_def encode_lookup_args_def encode_access_args_def
  encode_readlink_args_def encode_read_args_def encode_write_args_def encode_create_args_def
  encode_create_args_exclusive_def encode_mkdir_args_def encode_symlink_args_def
  encode_mknod_args_def encode_mknod_device_args_def encode_remove_args_def encode_rmdir_args_def
  encode_rename_args_def encode_link_args_def encode_readdir_args_def encode_readdirplus_args_def
  encode_fsstat_args_def encode_fsinfo_args_def encode_pathconf_args_def encode_commit_args_def

lemma server_time3_at [at_simps]:
  "server_time3 (at pre (wire_time3 t @ rest)) = Inr (t, at (pre @ wire_time3 t) rest)"
  by (simp add: server_time3_def wire_time3_def eff_simps at_simps)

lemma server_device3_at [at_simps]:
  "server_device3 (at pre (be32 (ds_major_num d) @ be32 (ds_minor_num d) @ rest)) =
     Inr (d, at (pre @ be32 (ds_major_num d) @ be32 (ds_minor_num d)) rest)"
  by (simp add: server_device3_def eff_simps at_simps)

lemma encode_setattr_args_eq:
  "encode_setattr_args fh s g =
     wire_fh3 fh @ wire_sattr3 (sattr3_meaning s) @ wire_optional wire_time3 (guard3_meaning g)"
  by (simp add: encode_setattr_args_def guard3_meaning_def when_set_def wire_optional_def wire_time3_def put_simps)

lemma server_body3_at:
  "call3_ok c \<Longrightarrow>
   server_body3 (proc3 c) (at pre (args3 c @ rest)) = Inr (meaning3 c, at (pre @ args3 c) rest)"
proof (cases c)
  case (Setattr3 fh s g)
  assume "call3_ok c"
  with Setattr3 show ?thesis
    by (simp add: server_body3_def proc3_values encode_setattr_args_eq meaning3_def eff_simps at_simps
        server_optional_at [OF server_time3_at])
next
  case (Write3 fh off how data)
  assume "call3_ok c"
  with Write3 show ?thesis
    by (simp add: server_body3_def server_write3_def proc3_values encode_write_args_def meaning3_def
        put_simps eff_simps at_simps length_word_of_nat)
next
  case (Create3 dir name guarded s)
  assume "call3_ok c"
  with Create3 show ?thesis
    by (simp add: server_body3_def server_create3_def proc3_values encode_create_args_def meaning3_def
        create_mode_def name_ok_def put_simps eff_simps at_simps)
next
  case (Create_exclusive3 dir name verf)
  assume "call3_ok c"
  with Create_exclusive3 show ?thesis
    by (simp add: server_body3_def server_create3_def proc3_values encode_create_args_exclusive_def
        meaning3_def name_ok_def put_simps eff_simps at_simps)
qed (simp_all add: server_body3_def server_mknod3_def proc3_values args3_defs meaning3_def name_ok_def
      put_simps eff_simps at_simps NF3CHR_def NF3BLK_def NF3SOCK_def NF3FIFO_def)

lemma server_request3_args3:
  "call3_ok c \<Longrightarrow> server_request3 (proc3 c) (args3 c) = Inr (meaning3 c)"
  using server_body3_at [of c "[]" "[]"]
  by (simp add: server_request3_def decode_at eff_simps get_remaining_at)

end
