(* ===== verification/Nfs3_Replies.thy ===== *)
theory Nfs3_Replies
  imports Nfs3_Requests
begin

text \<open>
  The results an NFSv3 server can send (RFC 1813), successful and failed, as they stand on the wire
  (\<open>wire_resp3\<close>), and what the client's decoders (\<open>reply3\<close>) make of them (\<open>outcome3\<close>).
\<close>

subsection \<open>Results\<close>

text \<open>
  A failure carries the attributes its procedure's \<open>resfail\<close> has, as does \<open>Done3\<close>, the success of a
  procedure that returns nothing else. The server may leave out the handle of an object it made.
\<close>

datatype resp3 =
    Fail3 u32 "Fattr3 option" wcc_data wcc_data
  | Done3 "Fattr3 option" wcc_data wcc_data
  | Attr3 Fattr3
  | Found3 Fh3 "Fattr3 option" "Fattr3 option"
  | Allowed3 "Fattr3 option" u32
  | Target3 "Fattr3 option" cstring
  | Data3 "Fattr3 option" bool "byte list"
  | Written3 wcc_data WriteResult
  | Made3 "Fh3 option" "Fattr3 option" wcc_data
  | Committed3 wcc_data "byte list"
  | Page3 "Fattr3 option" ReaddirPage
  | Pageplus3 "Fattr3 option" ReaddirplusPage
  | Stat3 "Fattr3 option" FsstatResult
  | Info3 "Fattr3 option" FsinfoResult
  | Conf3 "Fattr3 option" PathconfResult

text \<open>The attributes of a failure: none, the object's, the directory's before and after, both.\<close>

definition attrs_body :: "u32 \<Rightarrow> Fattr3 option \<Rightarrow> wcc_data \<Rightarrow> wcc_data \<Rightarrow> byte list" where
  "attrs_body p a w1 w2 =
    (if p = 1 then []
     else if p \<in> {2, 7, 8, 9, 10, 11, 12, 13, 21} then wire_wcc_data w1
     else if p = 14 then wire_wcc_data w1 @ wire_wcc_data w2
     else if p = 15 then wire_post_op_attr a @ wire_wcc_data w1
     else wire_post_op_attr a)"

definition wire_bool :: "bool \<Rightarrow> byte list" where
  "wire_bool b = be32 (if b then 1 else 0)"

definition wire_fsstat :: "FsstatResult \<Rightarrow> byte list" where
  "wire_fsstat r =
     be64 (fss_tbytes r) @ be64 (fss_fbytes r) @ be64 (fss_abytes r) @ be64 (fss_tfiles r) @
     be64 (fss_ffiles r) @ be64 (fss_afiles r) @ be32 (fss_invarsec r)"

definition wire_fsinfo :: "FsinfoResult \<Rightarrow> byte list" where
  "wire_fsinfo r =
     be32 (fsi_rtmax r) @ be32 (fsi_rtpref r) @ be32 (fsi_rtmult r) @ be32 (fsi_wtmax r) @
     be32 (fsi_wtpref r) @ be32 (fsi_wtmult r) @ be32 (fsi_dtpref r) @ be64 (fsi_maxfilesize r) @
     wire_time3 (fsi_time_delta r) @ be32 (fsi_properties r)"

definition wire_pathconf :: "PathconfResult \<Rightarrow> byte list" where
  "wire_pathconf r =
     be32 (pc_linkmax r) @ be32 (pc_name_max r) @ wire_bool (pc_no_trunc r) @
     wire_bool (pc_chown_restricted r) @ wire_bool (pc_case_insensitive r) @
     wire_bool (pc_case_preserving r)"

definition wire_resp3 :: "u32 \<Rightarrow> resp3 \<Rightarrow> byte list" where
  "wire_resp3 p resp =
    (case resp of
       Fail3 st a w1 w2 \<Rightarrow> be32 st @ attrs_body p a w1 w2
     | Done3 a w1 w2 \<Rightarrow> be32 0 @ attrs_body p a w1 w2
     | Attr3 a \<Rightarrow> be32 0 @ wire_fattr3 a
     | Found3 fh a b \<Rightarrow> be32 0 @ wire_fh3 fh @ wire_post_op_attr a @ wire_post_op_attr b
     | Allowed3 a m \<Rightarrow> be32 0 @ wire_post_op_attr a @ be32 m
     | Target3 a s \<Rightarrow> be32 0 @ wire_post_op_attr a @ wire_opaque s
     | Data3 a eof data \<Rightarrow>
         be32 0 @ wire_post_op_attr a @ be32 (word_of_nat (length data)) @ wire_bool eof @ wire_opaque data
     | Written3 w r \<Rightarrow>
         be32 0 @ wire_wcc_data w @ be32 (wr_count r) @ be32 (wr_committed r) @ wire_fixed (wr_verf r)
     | Made3 fh a w \<Rightarrow> be32 0 @ wire_optional wire_fh3 fh @ wire_post_op_attr a @ wire_wcc_data w
     | Committed3 w verf \<Rightarrow> be32 0 @ wire_wcc_data w @ wire_fixed verf
     | Page3 a r \<Rightarrow>
         be32 0 @ wire_post_op_attr a @ wire_fixed (rp_cookieverf r) @
         wire_follows wire_entry3 (rp_entries r) @ wire_bool (rp_eof r)
     | Pageplus3 a r \<Rightarrow>
         be32 0 @ wire_post_op_attr a @ wire_fixed (rpp_cookieverf r) @
         wire_follows wire_entryplus3 (rpp_entries r) @ wire_bool (rpp_eof r)
     | Stat3 a r \<Rightarrow> be32 0 @ wire_post_op_attr a @ wire_fsstat r
     | Info3 a r \<Rightarrow> be32 0 @ wire_post_op_attr a @ wire_fsinfo r
     | Conf3 a r \<Rightarrow> be32 0 @ wire_post_op_attr a @ wire_pathconf r)"

text \<open>Which results a procedure can have.\<close>

definition fits3 :: "u32 \<Rightarrow> resp3 \<Rightarrow> bool" where
  "fits3 p resp \<longleftrightarrow>
    (case resp of
       Fail3 st a w1 w2 \<Rightarrow> st \<noteq> 0
     | Done3 a w1 w2 \<Rightarrow> p \<in> {2, 12, 13, 14, 15}
     | Attr3 a \<Rightarrow> p = 1
     | Found3 fh a b \<Rightarrow> p = 3 \<and> fh3_wf fh
     | Allowed3 a m \<Rightarrow> p = 4
     | Target3 a s \<Rightarrow> p = 5 \<and> length s < 2 ^ 32
     | Data3 a eof data \<Rightarrow> p = 6 \<and> length data < 2 ^ 32
     | Written3 w r \<Rightarrow> p = 7 \<and> length (wr_verf r) = 8
     | Made3 fh a w \<Rightarrow> p \<in> {8, 9, 10, 11} \<and> pred_option fh3_wf fh
     | Committed3 w verf \<Rightarrow> p = 21 \<and> length verf = 8
     | Page3 a r \<Rightarrow> p = 16 \<and> length (rp_cookieverf r) = 8 \<and> list_all entry3_ok (rp_entries r)
     | Pageplus3 a r \<Rightarrow> p = 17 \<and> length (rpp_cookieverf r) = 8 \<and> list_all entryplus3_ok (rpp_entries r)
     | Stat3 a r \<Rightarrow> p = 18
     | Info3 a r \<Rightarrow> p = 19
     | Conf3 a r \<Rightarrow> p = 20)"

subsection \<open>What the client makes of a result\<close>

datatype val3 =
    Unit_v | Attr_v Fattr3 | Fh_v Fh3 | Mask_v u32 | Path_v cstring | Data_v "byte list"
  | Written_v WriteResult | Verf_v "byte list" | Page_v ReaddirPage | Pageplus_v ReaddirplusPage
  | Stat_v FsstatResult | Info_v FsinfoResult | Conf_v PathconfResult

definition proc_name :: "u32 \<Rightarrow> string" where
  "proc_name p =
    (if p = 1 then ''GETATTR'' else if p = 2 then ''SETATTR'' else if p = 3 then ''LOOKUP''
     else if p = 4 then ''ACCESS'' else if p = 5 then ''READLINK'' else if p = 6 then ''READ''
     else if p = 7 then ''WRITE'' else if p = 8 then ''CREATE'' else if p = 9 then ''MKDIR''
     else if p = 10 then ''SYMLINK'' else if p = 11 then ''MKNOD'' else if p = 12 then ''REMOVE''
     else if p = 13 then ''RMDIR'' else if p = 14 then ''RENAME'' else if p = 15 then ''LINK''
     else if p = 16 then ''READDIR'' else if p = 17 then ''READDIRPLUS'' else if p = 18 then ''FSSTAT''
     else if p = 19 then ''FSINFO'' else if p = 20 then ''PATHCONF'' else ''COMMIT'')"

definition outcome3 :: "u32 \<Rightarrow> resp3 \<Rightarrow> error + val3" where
  "outcome3 p resp =
    (case resp of
       Fail3 st a w1 w2 \<Rightarrow> Inl (NfsError st (proc_name p))
     | Done3 a w1 w2 \<Rightarrow> Inr Unit_v
     | Attr3 a \<Rightarrow> Inr (Attr_v a)
     | Found3 fh a b \<Rightarrow> Inr (Fh_v fh)
     | Allowed3 a m \<Rightarrow> Inr (Mask_v m)
     | Target3 a s \<Rightarrow> Inr (Path_v s)
     | Data3 a eof data \<Rightarrow> Inr (Data_v data)
     | Written3 w r \<Rightarrow> Inr (Written_v r)
     | Made3 fh a w \<Rightarrow>
         (case fh of
            None \<Rightarrow> Inl (RuntimeError (proc_name p @ '': server returned no file handle''))
          | Some x \<Rightarrow> Inr (Fh_v x))
     | Committed3 w verf \<Rightarrow> Inr (Verf_v verf)
     | Page3 a r \<Rightarrow> Inr (Page_v r)
     | Pageplus3 a r \<Rightarrow> Inr (Pageplus_v r)
     | Stat3 a r \<Rightarrow> Inr (Stat_v r)
     | Info3 a r \<Rightarrow> Inr (Info_v r)
     | Conf3 a r \<Rightarrow> Inr (Conf_v r))"

text \<open>The client's decoder for the reply of each procedure.\<close>

definition reply3 :: "u32 \<Rightarrow> byte list \<Rightarrow> error + val3" where
  "reply3 p d =
    (if p = 1 then map_sum id Attr_v (decode_getattr_reply d)
     else if p = 2 then map_sum id (\<lambda>_. Unit_v) (decode_setattr_reply d)
     else if p = 3 then map_sum id Fh_v (decode_lookup_reply d)
     else if p = 4 then map_sum id Mask_v (decode_access_reply d)
     else if p = 5 then map_sum id Path_v (decode_readlink_reply d)
     else if p = 6 then map_sum id Data_v (decode_read_reply d)
     else if p = 7 then map_sum id Written_v (decode_write_reply d)
     else if p = 8 then map_sum id Fh_v (decode_create_reply d)
     else if p = 9 then map_sum id Fh_v (decode_mkdir_reply d)
     else if p = 10 then map_sum id Fh_v (decode_symlink_reply d)
     else if p = 11 then map_sum id Fh_v (decode_mknod_reply d)
     else if p = 12 then map_sum id (\<lambda>_. Unit_v) (decode_remove_reply d)
     else if p = 13 then map_sum id (\<lambda>_. Unit_v) (decode_rmdir_reply d)
     else if p = 14 then map_sum id (\<lambda>_. Unit_v) (decode_rename_reply d)
     else if p = 15 then map_sum id (\<lambda>_. Unit_v) (decode_link_reply d)
     else if p = 16 then map_sum id Page_v (decode_readdir_reply d)
     else if p = 17 then map_sum id Pageplus_v (decode_readdirplus_reply d)
     else if p = 18 then map_sum id Stat_v (decode_fsstat_reply d)
     else if p = 19 then map_sum id Info_v (decode_fsinfo_reply d)
     else if p = 20 then map_sum id Conf_v (decode_pathconf_reply d)
     else map_sum id Verf_v (decode_commit_reply d))"

lemmas reply3_defs =
  decode_getattr_reply_def decode_setattr_reply_def decode_lookup_reply_def decode_access_reply_def
  decode_readlink_reply_def decode_read_reply_def decode_write_reply_def decode_create_reply_def
  decode_mkdir_reply_def decode_symlink_reply_def decode_mknod_reply_def decode_remove_reply_def
  decode_rmdir_reply_def decode_rename_reply_def decode_link_reply_def decode_readdir_reply_def
  decode_readdirplus_reply_def decode_fsstat_reply_def decode_fsinfo_reply_def
  decode_pathconf_reply_def decode_commit_reply_def WRITE_VERF_SIZE_def VERF_SIZE_def
  COOKIEVERF_SIZE_def

definition proc3_valid :: "u32 \<Rightarrow> bool" where
  "proc3_valid p \<longleftrightarrow> p \<in> {1, 2, 3, 4, 5, 6, 7, 8, 9, 10, 11, 12, 13, 14, 15, 16, 17, 18, 19, 20, 21}"

lemma proc3_valid: "proc3_valid (proc3 c)"
  by (cases c) (simp_all add: proc3_valid_def proc3_values)

lemmas no_rest [at_simps] =
  u32c.dec_enc_end [OF TrueI] u64c.dec_enc_end [OF TrueI] opaquec.dec_enc_end stringc.dec_enc_end
  fixedc.dec_enc_end fattr3c.dec_enc_end [OF TrueI]

lemma skip_post_op_attr_end [at_simps]:
  "skip_post_op_attr (at pre (wire_post_op_attr a)) = Inr ((), at (pre @ wire_post_op_attr a) [])"
  using skip_post_op_attr_at [of pre a "[]"] by simp

lemma skip_wcc_data_end [at_simps]:
  "skip_wcc_data (at pre (wire_wcc_data w)) = Inr ((), at (pre @ wire_wcc_data w) [])"
  using skip_wcc_data_at [of pre w "[]"] by simp

lemma reply3_fail:
  assumes "proc3_valid p" and "st \<noteq> 0"
  shows "reply3 p (be32 st @ attrs_body p a w1 w2) = Inl (NfsError st (proc_name p))"
  using assms
  by (auto simp: proc3_valid_def reply3_def attrs_body_def reply3_defs decode_at proc_name_def
      eff_simps at_simps)

lemma reply3_done:
  assumes "p \<in> {2, 12, 13, 14, 15}"
  shows "reply3 p (be32 0 @ attrs_body p a w1 w2) = Inr Unit_v"
  using assms
  by (auto simp: reply3_def attrs_body_def reply3_defs decode_at eff_simps at_simps)

lemma reply3_made:
  assumes "p \<in> {8, 9, 10, 11}" and "pred_option fh3_wf fh"
  shows "reply3 p (be32 0 @ wire_optional wire_fh3 fh @ wire_post_op_attr a @ wire_wcc_data w) =
    (case fh of
       None \<Rightarrow> Inl (RuntimeError (proc_name p @ '': server returned no file handle''))
     | Some x \<Rightarrow> Inr (Fh_v x))"
  using assms
  by (cases fh) (auto simp: reply3_def reply3_defs decode_at proc_name_def wire_optional_def eff_simps at_simps)

lemma reply3_wire:
  assumes "proc3_valid p" and "fits3 p resp"
  shows "reply3 p (wire_resp3 p resp) = outcome3 p resp"
  using assms
  by (cases resp)
     (simp_all add: fits3_def wire_resp3_def outcome3_def reply3_fail reply3_done reply3_made,
      simp_all add: reply3_def reply3_defs decode_at wire_bool_def wire_fsstat_def wire_fsinfo_def
        wire_pathconf_def wire_time3_def eff_simps at_simps)

end
