(* ===== verification/Nfs3_Server.thy ===== *)
theory Nfs3_Server
  imports Nfs3_Replies
begin

text \<open>
  The NFSv3 client as a whole against a server. A server is a function from a request and its state to
  a result and its new state; \<open>nfs3_handler\<close> puts it behind the wire format of the earlier theories, and
  \<open>conn3\<close> is a client that is connected to it. A session of the client returns what the server function
  answers to the same requests.
\<close>

subsection \<open>Running a request\<close>

lemma io_map_on_conn: "io_map f (on_conn m) = on_conn (io_map f m)"
  by (rule ext) (auto simp: io_map_def on_conn_def io_zoom_def option.map_comp o_def split_beta
      intro!: option.map_cong)

primrec run3 :: "'w os \<Rightarrow> call3 \<Rightarrow> ('w nfs3_state, val3) io" where
  "run3 os (Getattr3 fh) = io_map Attr_v (NFSClient_getattr os fh)"
| "run3 os (Setattr3 fh s g) = io_map (\<lambda>_. Unit_v) (NFSClient_setattr os fh s g)"
| "run3 os (Lookup3 dir name) = io_map Fh_v (NFSClient_lookup os dir name)"
| "run3 os (Access3 fh m) = io_map Mask_v (NFSClient_access os fh m)"
| "run3 os (Readlink3 fh) = io_map Path_v (NFSClient_readlink os fh)"
| "run3 os (Read3 fh off count) = io_map Data_v (NFSClient_read os fh off count)"
| "run3 os (Write3 fh off how data) = io_map Written_v (NFSClient_write os fh off how data)"
| "run3 os (Create3 dir name guarded s) = io_map Fh_v (NFSClient_create os dir name (create_mode guarded) s)"
| "run3 os (Create_exclusive3 dir name verf) = io_map Fh_v (NFSClient_create_exclusive os dir name verf)"
| "run3 os (Mkdir3 dir name s) = io_map Fh_v (NFSClient_mkdir os dir name s)"
| "run3 os (Symlink3 dir name s target) = io_map Fh_v (NFSClient_symlink os dir name target s)"
| "run3 os (Mknod_fifo3 dir name s) = io_map Fh_v (NFSClient_mknod_fifo os dir name s)"
| "run3 os (Mknod_socket3 dir name s) = io_map Fh_v (NFSClient_mknod_socket os dir name s)"
| "run3 os (Mknod_chr3 dir name s dev) = io_map Fh_v (NFSClient_mknod_chr os dir name s dev)"
| "run3 os (Mknod_blk3 dir name s dev) = io_map Fh_v (NFSClient_mknod_blk os dir name s dev)"
| "run3 os (Remove3 dir name) = io_map (\<lambda>_. Unit_v) (NFSClient_remove os dir name)"
| "run3 os (Rmdir3 dir name) = io_map (\<lambda>_. Unit_v) (NFSClient_rmdir os dir name)"
| "run3 os (Rename3 dir name dir2 name2) = io_map (\<lambda>_. Unit_v) (NFSClient_rename os dir name dir2 name2)"
| "run3 os (Link3 fh dir name) = io_map (\<lambda>_. Unit_v) (NFSClient_link os fh dir name)"
| "run3 os (Readdir3 dir cookie cv count) = io_map Page_v (NFSClient_readdir_page os dir cookie cv count)"
| "run3 os (Readdirplus3 dir cookie cv dircount maxcount) =
     io_map Pageplus_v (NFSClient_readdirplus_page os dir cookie cv dircount maxcount)"
| "run3 os (Fsstat3 fh) = io_map Stat_v (NFSClient_fsstat os fh)"
| "run3 os (Fsinfo3 fh) = io_map Info_v (NFSClient_fsinfo os fh)"
| "run3 os (Pathconf3 fh) = io_map Conf_v (NFSClient_pathconf os fh)"
| "run3 os (Commit3 fh off count) = io_map Verf_v (NFSClient_commit os fh off count)"

lemmas nfs3_proc_defs =
  nfs3_getattr_def nfs3_setattr_def nfs3_lookup_def nfs3_access_def nfs3_readlink_def nfs3_read_def
  nfs3_write_def nfs3_create_def nfs3_create_exclusive_def nfs3_mkdir_def nfs3_symlink_def
  nfs3_mknod_fifo_def nfs3_mknod_socket_def nfs3_mknod_chr_def nfs3_mknod_blk_def
  nfs3_mknod_simple_def nfs3_mknod_device_def nfs3_remove_def nfs3_rmdir_def nfs3_rename_def
  nfs3_link_def nfs3_readdir_page_def nfs3_readdirplus_page_def nfs3_fsstat_def nfs3_fsinfo_def
  nfs3_pathconf_def nfs3_commit_def

lemmas client3_defs =
  NFSClient_getattr_def NFSClient_setattr_def NFSClient_lookup_def NFSClient_access_def
  NFSClient_readlink_def NFSClient_read_def NFSClient_write_def NFSClient_create_def
  NFSClient_create_exclusive_def NFSClient_mkdir_def NFSClient_symlink_def NFSClient_mknod_fifo_def
  NFSClient_mknod_socket_def NFSClient_mknod_chr_def NFSClient_mknod_blk_def NFSClient_remove_def
  NFSClient_rmdir_def NFSClient_rename_def NFSClient_link_def NFSClient_readdir_page_def
  NFSClient_readdirplus_page_def NFSClient_fsstat_def NFSClient_fsinfo_def NFSClient_pathconf_def
  NFSClient_commit_def

text \<open>Every operation is one call of its procedure, its arguments and its reply decoder.\<close>

lemma run3_eq:
  "run3 os c = on_conn (io_bind (call os NFS_PROG NFS_VERS (proc3 c) (args3 c))
     (\<lambda>reply. io_lift (reply3 (proc3 c) reply)))"
  by (cases c)
     (simp_all add: client3_defs io_map_on_conn nfs3_proc_defs Let_def io_map_bind_lift reply3_def proc3_values)

subsection \<open>A server\<close>

type_synonym 'f server3 = "request3 \<Rightarrow> 'f \<Rightarrow> resp3 \<times> 'f"

definition nfs3_handler :: "'f server3 \<Rightarrow> 'f handler" where
  "nfs3_handler srv hdr args f =
    (if ch_prog hdr = NFS_PROG \<and> ch_vers hdr = NFS_VERS then
       (case server_request3 (ch_proc hdr) args of
          Inl _ \<Rightarrow> ([], f)
        | Inr req \<Rightarrow> (case srv req f of (resp, f') \<Rightarrow> (wire_resp3 (ch_proc hdr) resp, f')))
     else ([], f))"

text \<open>A server whose results are of the kind their procedure has.\<close>

definition server3_ok :: "'f server3 \<Rightarrow> bool" where
  "server3_ok srv \<longleftrightarrow> (\<forall>req f. fits3 (proc3 req) (fst (srv req f)))"

text \<open>The host may run other programs as well.\<close>

definition serves3 :: "'f handler \<Rightarrow> 'f server3 \<Rightarrow> bool" where
  "serves3 h srv \<longleftrightarrow> (\<forall>hdr args f. ch_prog hdr = NFS_PROG \<longrightarrow> ch_vers hdr = NFS_VERS \<longrightarrow>
     h hdr args f = nfs3_handler srv hdr args f)"

lemma serves3_itself: "serves3 (nfs3_handler srv) srv"
  by (simp add: serves3_def)

definition conn3 :: "'w os \<Rightarrow> ('w, 'f) view \<Rightarrow> 'f server3 \<Rightarrow> 'w nfs3_state \<Rightarrow> bool" where
  "conn3 os v srv s \<longleftrightarrow> (\<exists>h. serves3 h srv \<and> rpc_conn os v h (c3_conn (fst s), snd s))"

definition next_call3 :: "NFSClient \<Rightarrow> NFSClient" where
  "next_call3 c = c\<lparr>c3_conn := (c3_conn c)\<lparr>rc_xid := rc_xid (c3_conn c) + 1\<rparr>\<rparr>"

lemma proc3_meaning [simp]: "proc3 (meaning3 c) = proc3 c"
  by (cases c) (simp_all add: meaning3_def)

lemma call_served3:
  assumes h: "serves3 h srv" and conn: "rpc_conn os v h (c, w)"
    and ok: "call3_ok req" "length (args3 req) < 2 ^ 30"
    and srv: "srv (meaning3 req) (vw_state v w) = (resp, f')"
  shows "\<exists>w'. call os NFS_PROG NFS_VERS (proc3 req) (args3 req) (c, w) =
      Some (Inr (wire_resp3 (proc3 req) resp), (c\<lparr>rc_xid := rc_xid c + 1\<rparr>, w')) \<and>
    rpc_conn os v h (c\<lparr>rc_xid := rc_xid c + 1\<rparr>, w') \<and> vw_state v w' = f'"
proof -
  have "h (call_header c NFS_PROG NFS_VERS (proc3 req)) (args3 req) (vw_state v w) =
      (wire_resp3 (proc3 req) resp, f')"
    using srv h by (simp add: serves3_def nfs3_handler_def call_header_def server_request3_args3 [OF ok(1)])
  from call_served [OF conn ok(2) this] show ?thesis by blast
qed

lemma run3_served:
  assumes conn: "conn3 os v srv (c, w)" and ok: "call3_ok req" "length (args3 req) < 2 ^ 30"
    and srv: "srv (meaning3 req) (vw_state v w) = (resp, f')" and fits: "fits3 (proc3 req) resp"
  shows "\<exists>w'. run3 os req (c, w) = Some (outcome3 (proc3 req) resp, (next_call3 c, w')) \<and>
    conn3 os v srv (next_call3 c, w') \<and> vw_state v w' = f'"
proof -
  obtain h where h: "serves3 h srv" and rc: "rpc_conn os v h (c3_conn c, w)"
    using conn by (auto simp: conn3_def)
  obtain w' where "call os NFS_PROG NFS_VERS (proc3 req) (args3 req) (c3_conn c, w) =
      Some (Inr (wire_resp3 (proc3 req) resp), ((c3_conn c)\<lparr>rc_xid := rc_xid (c3_conn c) + 1\<rparr>, w'))"
    and "rpc_conn os v h ((c3_conn c)\<lparr>rc_xid := rc_xid (c3_conn c) + 1\<rparr>, w')" and "vw_state v w' = f'"
    using call_served3 [where resp = resp, OF h rc ok srv] by blast
  with h reply3_wire [OF proc3_valid fits] show ?thesis
    by (auto simp: run3_eq on_conn_def io_zoom_def conn3_def next_call3_def eff_simps)
qed

text \<open>Sessions.\<close>

fun run3_all :: "'w os \<Rightarrow> call3 list \<Rightarrow> 'w nfs3_state \<Rightarrow> ((error + val3) list \<times> 'w nfs3_state) option" where
  "run3_all os [] s = Some ([], s)"
| "run3_all os (c # cs) s =
     (case run3 os c s of
        None \<Rightarrow> None
      | Some (r, s') \<Rightarrow> map_option (\<lambda>(rs, s''). (r # rs, s'')) (run3_all os cs s'))"

fun serve3_all :: "'f server3 \<Rightarrow> request3 list \<Rightarrow> 'f \<Rightarrow> (error + val3) list \<times> 'f" where
  "serve3_all srv [] f = ([], f)"
| "serve3_all srv (req # reqs) f =
     (case srv req f of
        (resp, f') \<Rightarrow>
          (case serve3_all srv reqs f' of (rs, f'') \<Rightarrow> (outcome3 (proc3 req) resp # rs, f'')))"

definition calls3_ok :: "call3 list \<Rightarrow> bool" where
  "calls3_ok cs \<longleftrightarrow> list_all (\<lambda>c. call3_ok c \<and> length (args3 c) < 2 ^ 30) cs"

lemma run3_all_served:
  assumes "conn3 os v srv (c, w)" and "server3_ok srv" and "calls3_ok cs"
  shows "\<exists>w'. run3_all os cs (c, w) =
      Some (fst (serve3_all srv (map meaning3 cs) (vw_state v w)), ((next_call3 ^^ length cs) c, w')) \<and>
    conn3 os v srv ((next_call3 ^^ length cs) c, w') \<and>
    vw_state v w' = snd (serve3_all srv (map meaning3 cs) (vw_state v w))"
  using assms(1,3)
proof (induction cs arbitrary: c w)
  case Nil
  then show ?case by simp
next
  case (Cons req cs)
  obtain resp f' where s: "srv (meaning3 req) (vw_state v w) = (resp, f')" by fastforce
  with assms(2) have "fits3 (proc3 req) resp"
    unfolding server3_ok_def by (metis fst_conv proc3_meaning)
  with run3_served [OF Cons.prems(1) _ _ s] Cons.prems(2) obtain w1
    where r: "run3 os req (c, w) = Some (outcome3 (proc3 req) resp, (next_call3 c, w1))"
      and conn: "conn3 os v srv (next_call3 c, w1)" and st: "vw_state v w1 = f'"
    by (auto simp: calls3_ok_def)
  have "calls3_ok cs" using Cons.prems(2) by (simp add: calls3_ok_def)
  from Cons.IH [OF conn this] show ?case
    by (auto simp: r s st funpow_swap1 split: prod.splits)
qed

subsection \<open>Directory listings\<close>

text \<open>
  A server that has \<open>todo\<close> left to list for a cookie and a verifier (\<open>J\<close> relates them to its state)
  answers with a first part of it: all of it on the page with \<open>eof\<close>, otherwise at least one entry, and
  it then has the rest left for the last entry's cookie and the page's verifier.
\<close>

definition lists3 ::
  "'f server3 \<Rightarrow> Fh3 \<Rightarrow> u32 \<Rightarrow> (u64 \<Rightarrow> byte list \<Rightarrow> DirEntry3 list \<Rightarrow> 'f \<Rightarrow> bool) \<Rightarrow> bool" where
  "lists3 srv dir count J \<longleftrightarrow>
     (\<forall>cookie cv todo f. J cookie cv todo f \<longrightarrow> length cv = 8 \<and>
        (\<exists>a page f' rest. srv (Readdir3 dir cookie cv count) f = (Page3 a page, f') \<and>
           fits3 NFSPROC3_READDIR (Page3 a page) \<and> todo = rp_entries page @ rest \<and>
           (if rp_eof page then rest = []
            else rp_entries page \<noteq> [] \<and>
                 J (last_cookie de_cookie cookie (rp_entries page)) (rp_cookieverf page) rest f')))"

definition listsplus3 ::
  "'f server3 \<Rightarrow> Fh3 \<Rightarrow> u32 \<Rightarrow> u32 \<Rightarrow> (u64 \<Rightarrow> byte list \<Rightarrow> DirEntryPlus3 list \<Rightarrow> 'f \<Rightarrow> bool) \<Rightarrow> bool" where
  "listsplus3 srv dir dc mc J \<longleftrightarrow>
     (\<forall>cookie cv todo f. J cookie cv todo f \<longrightarrow> length cv = 8 \<and>
        (\<exists>a page f' rest. srv (Readdirplus3 dir cookie cv dc mc) f = (Pageplus3 a page, f') \<and>
           fits3 NFSPROC3_READDIRPLUS (Pageplus3 a page) \<and> todo = rpp_entries page @ rest \<and>
           (if rpp_eof page then rest = []
            else rpp_entries page \<noteq> [] \<and>
                 J (last_cookie dp_cookie cookie (rpp_entries page)) (rpp_cookieverf page) rest f')))"

definition dir_ok :: "Fh3 \<Rightarrow> bool" where
  "dir_ok dir \<longleftrightarrow> length (fh3_data dir) \<le> 64"

lemma dir_ok_wf: "dir_ok dir \<Longrightarrow> fh3_wf dir"
  by (simp add: dir_ok_def fh3_wf_def)

lemma length_readdir_args:
  assumes "dir_ok dir" and "length cv = 8"
  shows "length (encode_readdir_args dir cookie cv count) < 2 ^ 30"
    and "length (encode_readdirplus_args dir cookie cv dc mc) < 2 ^ 30"
proof -
  have "length (wire_fh3 dir) \<le> 71"
    using assms(1) by (simp add: dir_ok_def wire_fh3_def length_wire_opaque xdr_pad_def)
  with assms(2) show "length (encode_readdir_args dir cookie cv count) < 2 ^ 30"
    "length (encode_readdirplus_args dir cookie cv dc mc) < 2 ^ 30"
    by (simp_all add: encode_readdir_args_def encode_readdirplus_args_def put_simps length_wire_fixed)
qed

lemma page_served:
  assumes h: "serves3 h srv" and conn: "rpc_conn os v h (c, w)" and ok: "call3_ok req" "length (args3 req) < 2 ^ 30"
    and srv: "srv (meaning3 req) (vw_state v w) = (resp, f')" and fits: "fits3 (proc3 req) resp"
    and dec: "\<And>d. reply3 (proc3 req) d = map_sum id V (D d)" and V: "inj V"
    and val: "outcome3 (proc3 req) resp = Inr (V page)"
  shows "\<exists>s'. io_bind (call os NFS_PROG NFS_VERS (proc3 req) (args3 req)) (\<lambda>reply. io_lift (D reply)) (c, w) =
      Some (Inr page, s') \<and> rpc_conn os v h s' \<and> vw_state v (snd s') = f'"
proof -
  obtain c' w' where call: "call os NFS_PROG NFS_VERS (proc3 req) (args3 req) (c, w) =
      Some (Inr (wire_resp3 (proc3 req) resp), (c', w'))"
    and conn': "rpc_conn os v h (c', w')" and st: "vw_state v w' = f'"
    using call_served3 [where srv = srv and resp = resp, OF h conn ok srv] by blast
  have "map_sum id V (D (wire_resp3 (proc3 req) resp)) = Inr (V page)"
    using reply3_wire [OF proc3_valid fits] val by (simp add: dec)
  then have "D (wire_resp3 (proc3 req) resp) = Inr page"
    using V by (auto simp: map_sum_def inj_eq split: sum.splits)
  with call conn' st show ?thesis by (simp add: eff_simps)
qed

lemma serves_readdir:
  assumes h: "serves3 h srv" and lists: "lists3 srv dir count J" and dir: "dir_ok dir"
  shows "serves_listing (\<lambda>cookie cv. nfs3_readdir_page os dir cookie cv count) rp_entries rp_eof rp_cookieverf
    de_cookie (\<lambda>cookie cv todo s. rpc_conn os v h s \<and> J cookie cv todo (vw_state v (snd s)))"
  unfolding serves_listing_def
proof (intro allI impI, elim conjE)
  fix cookie cv todo s
  assume conn: "rpc_conn os v h s" and J: "J cookie cv todo (vw_state v (snd s))"
  obtain c w where s: "s = (c, w)" by (cases s)
  from lists J obtain a page f' rest where cv: "length cv = 8"
    and srv: "srv (Readdir3 dir cookie cv count) (vw_state v w) = (Page3 a page, f')"
    and fits: "fits3 NFSPROC3_READDIR (Page3 a page)"
    and rest: "todo = rp_entries page @ rest" "if rp_eof page then rest = [] else rp_entries page \<noteq> [] \<and>
      J (last_cookie de_cookie cookie (rp_entries page)) (rp_cookieverf page) rest f'"
    unfolding lists3_def s snd_conv by blast
  have "\<exists>s'. nfs3_readdir_page os dir cookie cv count s = Some (Inr page, s') \<and>
      rpc_conn os v h s' \<and> vw_state v (snd s') = f'"
    using page_served [OF h, of os v c w "Readdir3 dir cookie cv count" "Page3 a page" f' Page_v decode_readdir_reply page]
      conn srv fits dir_ok_wf [OF dir] cv length_readdir_args(1) [OF dir cv]
    by (auto simp: s nfs3_readdir_page_def meaning3_def reply3_def proc3_values outcome3_def inj_def)
  with rest show "\<exists>page s' rest. nfs3_readdir_page os dir cookie cv count s = Some (Inr page, s') \<and>
      todo = rp_entries page @ rest \<and>
      (if rp_eof page then rest = [] else rp_entries page \<noteq> [] \<and>
         rpc_conn os v h s' \<and>
         J (last_cookie de_cookie cookie (rp_entries page)) (rp_cookieverf page) rest (vw_state v (snd s')))"
    by fastforce
qed

lemma readdirplus_page_served:
  assumes h: "serves3 h srv" and lists: "listsplus3 srv dir dc mc J" and dir: "dir_ok dir"
    and conn: "rpc_conn os v h s" and J: "J cookie cv todo (vw_state v (snd s))"
  shows "\<exists>page s' rest. nfs3_readdirplus_page os dir cookie cv dc mc s = Some (Inr page, s') \<and>
      rpc_conn os v h s' \<and> vw_state v (snd s') = snd (srv (Readdirplus3 dir cookie cv dc mc) (vw_state v (snd s))) \<and>
      todo = rpp_entries page @ rest \<and>
      (if rpp_eof page then rest = [] else rpp_entries page \<noteq> [] \<and>
         J (last_cookie dp_cookie cookie (rpp_entries page)) (rpp_cookieverf page) rest (vw_state v (snd s')))"
proof -
  obtain c w where s: "s = (c, w)" by (cases s)
  from lists J obtain a page f' rest where cv: "length cv = 8"
    and srv: "srv (Readdirplus3 dir cookie cv dc mc) (vw_state v w) = (Pageplus3 a page, f')"
    and fits: "fits3 NFSPROC3_READDIRPLUS (Pageplus3 a page)"
    and rest: "todo = rpp_entries page @ rest" "if rpp_eof page then rest = [] else rpp_entries page \<noteq> [] \<and>
      J (last_cookie dp_cookie cookie (rpp_entries page)) (rpp_cookieverf page) rest f'"
    unfolding listsplus3_def s snd_conv by blast
  have "\<exists>s'. nfs3_readdirplus_page os dir cookie cv dc mc s = Some (Inr page, s') \<and>
      rpc_conn os v h s' \<and> vw_state v (snd s') = f'"
    using page_served [OF h, of os v c w "Readdirplus3 dir cookie cv dc mc" "Pageplus3 a page" f' Pageplus_v
        decode_readdirplus_reply page]
      conn srv fits dir_ok_wf [OF dir] cv length_readdir_args(2) [OF dir cv]
    by (auto simp: s nfs3_readdirplus_page_def meaning3_def reply3_def proc3_values outcome3_def inj_def)
  with rest srv s show ?thesis by fastforce
qed

lemma serves_readdirplus:
  assumes h: "serves3 h srv" and lists: "listsplus3 srv dir dc mc J" and dir: "dir_ok dir"
  shows "serves_listing (\<lambda>cookie cv. nfs3_readdirplus_page os dir cookie cv dc mc) rpp_entries rpp_eof
    rpp_cookieverf dp_cookie
    (\<lambda>cookie cv todo s. rpc_conn os v h s \<and> J cookie cv todo (vw_state v (snd s)))"
  unfolding serves_listing_def using readdirplus_page_served [OF assms, of os v] by meson

lemma readdir_served:
  assumes "conn3 os v srv (c, w)" and "lists3 srv dir count J" and "dir_ok dir"
    and "J 0 cookieverf0 files (vw_state v w)"
  shows "\<exists>s'. NFSClient_readdir os dir count (c, w) = Some (Inr files, s')"
proof -
  obtain h where h: "serves3 h srv" and rc: "rpc_conn os v h (c3_conn c, w)"
    using assms(1) by (auto simp: conn3_def)
  from readdirp.loop_lists_all [OF serves_readdir [OF h assms(2,3), of os v],
      where cookie = 0 and cv = cookieverf0 and todo = files and s = "(c3_conn c, w)" and acc = "[]"] rc assms(4)
  show ?thesis by (auto simp: NFSClient_readdir_def nfs3_readdir_def on_conn_def io_zoom_def)
qed

text \<open>A server for which listing is reading is in the same state afterwards.\<close>

lemma readdirplus_served_in:
  assumes conn: "conn3 os v srv (c, w)" and lists: "listsplus3 srv dir dc mc J" and dir: "dir_ok dir"
    and J: "J 0 cookieverf0 files (vw_state v w)"
    and reads: "\<And>cookie cv f. snd (srv (Readdirplus3 dir cookie cv dc mc) f) = f"
  shows "\<exists>c' w'. NFSClient_readdirplus os dir dc mc (c, w) = Some (Inr files, (c', w')) \<and> conn3 os v srv (c', w') \<and>
    vw_state v w' = vw_state v w"
proof -
  obtain h where h: "serves3 h srv" and rc: "rpc_conn os v h (c3_conn c, w)"
    using conn by (auto simp: conn3_def)
  let ?E = "\<lambda>s. rpc_conn os v h s \<and> vw_state v (snd s) = vw_state v w"
  let ?J = "\<lambda>cookie cv todo s. ?E s \<and> J cookie cv todo (vw_state v (snd s))"
  have "\<exists>s'. readdirplus_loop os dir dc mc [] 0 cookieverf0 (c3_conn c, w) = Some (Inr ([] @ files), s') \<and> ?E s'"
  proof (rule readdirplusp.loop_lists_all_in [where J = ?J])
    fix cookie cv todo s assume s: "?J cookie cv todo s"
    then obtain page s' rest where page: "nfs3_readdirplus_page os dir cookie cv dc mc s = Some (Inr page, s')"
      and "rpc_conn os v h s'" "vw_state v (snd s') = vw_state v (snd s)" "todo = rpp_entries page @ rest"
      and next_page: "if rpp_eof page then rest = [] else rpp_entries page \<noteq> [] \<and>
        J (last_cookie dp_cookie cookie (rpp_entries page)) (rpp_cookieverf page) rest (vw_state v (snd s'))"
      using readdirplus_page_served [where J = J and os = os and v = v and cookie = cookie and cv = cv and todo = todo
          and s = s, OF h lists dir] unfolding reads by blast
    with s show "\<exists>page s' rest. nfs3_readdirplus_page os dir cookie cv dc mc s = Some (Inr page, s') \<and> ?E s' \<and>
        todo = rpp_entries page @ rest \<and>
        (if rpp_eof page then rest = [] else rpp_entries page \<noteq> [] \<and>
           ?J (last_cookie dp_cookie cookie (rpp_entries page)) (rpp_cookieverf page) rest s')"
      by (intro exI [of _ page] exI [of _ s'] exI [of _ rest], cases "rpp_eof page") simp_all
  qed (use rc J in simp)
  then show ?thesis using h
    by (auto simp: NFSClient_readdirplus_def nfs3_readdirplus_def on_conn_def io_zoom_def conn3_def)
qed

lemma readdirplus_served:
  assumes "conn3 os v srv (c, w)" and "listsplus3 srv dir dc mc J" and "dir_ok dir"
    and "J 0 cookieverf0 files (vw_state v w)"
  shows "\<exists>s'. NFSClient_readdirplus os dir dc mc (c, w) = Some (Inr files, s')"
proof -
  obtain h where h: "serves3 h srv" and rc: "rpc_conn os v h (c3_conn c, w)"
    using assms(1) by (auto simp: conn3_def)
  from readdirplusp.loop_lists_all [OF serves_readdirplus [OF h assms(2,3), of os v],
      where cookie = 0 and cv = cookieverf0 and todo = files and s = "(c3_conn c, w)" and acc = "[]"] rc assms(4)
  show ?thesis by (auto simp: NFSClient_readdirplus_def nfs3_readdirplus_def on_conn_def io_zoom_def)
qed

lemma run3_value:
  assumes "run3 os req s = Some (Inr x, s')" and "run3 os req = io_map V m" and "\<And>y. V y = x \<Longrightarrow> y = z"
  shows "m s = Some (Inr z, s')"
proof -
  obtain q where "m s = Some (q, s')" and "map_sum id V q = Inr x"
    using assms(1) unfolding assms(2) by (auto simp: io_map_Some)
  with assms(3) show ?thesis by (cases q) auto
qed

subsection \<open>Servers for the examples\<close>

text \<open>One file that can be read and written, and nothing else.\<close>

fun file_server :: "byte list server3" where
  "file_server (Getattr3 fh) f =
     (Attr3 (Fattr3_zero\<lparr>fa_type := NF3REG, fa_size := word_of_nat (length f)\<rparr>), f)"
| "file_server (Read3 fh off count) f =
     (Data3 None (length f \<le> unat off + unat count) (take (unat count) (drop (unat off) f)), f)"
| "file_server (Write3 fh off how data) f =
     (Written3 (None, None) \<lparr>wr_count = word_of_nat (length data), wr_committed = how, wr_verf = replicate 8 0\<rparr>,
      take (unat off) f @ data @ drop (unat off + length data) f)"
| "file_server req f = (Fail3 (Nfsstat3_value NFS3ERR_NOTSUPP) None (None, None) (None, None), f)"

lemma file_server_ok: "server3_ok file_server"
  unfolding server3_ok_def
proof (intro allI)
  fix req f
  have "min n (unat (c :: u32)) < 2 ^ 32" for n c
    using unsigned_less [of c, where 'a = nat] by (simp add: min.strict_coboundedI2)
  then show "fits3 (proc3 req) (fst (file_server req f))"
    by (cases req) (simp_all add: fits3_def proc3_values)
qed

definition fh0 :: Fh3 where
  "fh0 = \<lparr>fh3_data = [9, 9]\<rparr>"

definition client0 :: NFSClient where
  "client0 = \<lparr>c3_host = ''server'', c3_conn = conn0\<rparr>"

lemma client0_conn: "conn3 (sim_os 2 (rpc_server (nfs3_handler srv))) sim_view srv (client0, sim_start f)"
  unfolding conn3_def by (auto simp: client0_def intro!: serves3_itself conn0_conn exI [of _ "nfs3_handler srv"])

text \<open>A directory of three entries, two per page.\<close>

definition entry :: "nat \<Rightarrow> DirEntry3" where
  "entry i = \<lparr>de_fileid = word_of_nat (100 + i), de_name = [word_of_nat (65 + i)], de_cookie = word_of_nat i\<rparr>"

definition entryplus :: "nat \<Rightarrow> DirEntryPlus3" where
  "entryplus i =
     \<lparr>dp_fileid = word_of_nat (100 + i), dp_name = [word_of_nat (65 + i)], dp_cookie = word_of_nat i,
      dp_has_attrs = False, dp_attrs = Fattr3_zero, dp_has_fh = True, dp_fh = fh0\<rparr>"

fun dir_server :: "unit server3" where
  "dir_server (Readdir3 dir cookie cv count) f =
     (Page3 None
       (if cookie = 0
        then \<lparr>rp_entries = [entry 1, entry 2], rp_eof = False, rp_cookieverf = replicate 8 5\<rparr>
        else \<lparr>rp_entries = [entry 3], rp_eof = True, rp_cookieverf = replicate 8 5\<rparr>), f)"
| "dir_server (Readdirplus3 dir cookie cv dc mc) f =
     (Pageplus3 None
       (if cookie = 0
        then \<lparr>rpp_entries = [entryplus 1, entryplus 2], rpp_eof = False, rpp_cookieverf = replicate 8 5\<rparr>
        else \<lparr>rpp_entries = [entryplus 3], rpp_eof = True, rpp_cookieverf = replicate 8 5\<rparr>), f)"
| "dir_server req f = (Fail3 1 None (None, None) (None, None), f)"

definition todo0 :: "'e list \<Rightarrow> u64 \<Rightarrow> byte list \<Rightarrow> 'e list \<Rightarrow> unit \<Rightarrow> bool" where
  "todo0 es cookie cv todo f \<longleftrightarrow> length cv = 8 \<and> (cookie = 0 \<and> todo = es \<or> cookie = 2 \<and> todo = drop 2 es)"

lemma dir_server_lists: "lists3 dir_server dir count (todo0 [entry 1, entry 2, entry 3])"
  unfolding lists3_def
proof (intro allI impI)
  fix cookie cv todo f assume J: "todo0 [entry 1, entry 2, entry 3] cookie cv todo f"
  then consider "cookie = 0" "todo = [entry 1, entry 2, entry 3]" | "cookie = 2" "todo = [entry 3]"
    by (auto simp: todo0_def)
  then show "length cv = 8 \<and> (\<exists>a page f' rest. dir_server (Readdir3 dir cookie cv count) f = (Page3 a page, f') \<and>
      fits3 NFSPROC3_READDIR (Page3 a page) \<and> todo = rp_entries page @ rest \<and>
      (if rp_eof page then rest = [] else rp_entries page \<noteq> [] \<and>
        todo0 [entry 1, entry 2, entry 3] (last_cookie de_cookie cookie (rp_entries page)) (rp_cookieverf page) rest f'))"
    using J
    by cases (auto simp: todo0_def fits3_def proc3_values entry3_ok_def entry_def last_cookie_def)
qed

lemma dir_server_listsplus: "listsplus3 dir_server dir dc mc (todo0 [entryplus 1, entryplus 2, entryplus 3])"
  unfolding listsplus3_def
proof (intro allI impI)
  fix cookie cv todo f assume J: "todo0 [entryplus 1, entryplus 2, entryplus 3] cookie cv todo f"
  then consider "cookie = 0" "todo = [entryplus 1, entryplus 2, entryplus 3]" | "cookie = 2" "todo = [entryplus 3]"
    by (auto simp: todo0_def)
  then show "length cv = 8 \<and> (\<exists>a page f' rest.
      dir_server (Readdirplus3 dir cookie cv dc mc) f = (Pageplus3 a page, f') \<and>
      fits3 NFSPROC3_READDIRPLUS (Pageplus3 a page) \<and> todo = rpp_entries page @ rest \<and>
      (if rpp_eof page then rest = [] else rpp_entries page \<noteq> [] \<and>
        todo0 [entryplus 1, entryplus 2, entryplus 3] (last_cookie dp_cookie cookie (rpp_entries page))
          (rpp_cookieverf page) rest f'))"
    using J
    by cases (auto simp: todo0_def fits3_def proc3_values entryplus3_ok_def entryplus_def last_cookie_def
        fh0_def fh3_wf_def)
qed

subsection \<open>Properties\<close>

text \<open>C2: Any sequence of NFSv3 operations made through \<open>NFSClient\<close> on one connection returns what
  the server's procedures return for the same requests in the same order: successful results with all
  their fields, the status of a failure as an \<open>NfsError\<close> naming the procedure, and a missing handle of a
  new object as an exception. It does so over any network that cuts the byte streams as it likes. Each
  operation is one call; nothing else of the client changes.\<close>

theorem nfs3_session_refines:
  assumes "conn3 os v srv (c, w)" and "server3_ok srv" and "calls3_ok cs"
  shows "\<exists>w'. run3_all os cs (c, w) =
      Some (fst (serve3_all srv (map meaning3 cs) (vw_state v w)), ((next_call3 ^^ length cs) c, w')) \<and>
    vw_state v w' = snd (serve3_all srv (map meaning3 cs) (vw_state v w))"
  using run3_all_served [OF assms] by blast

lemma nfs3_session_refines_witness:
  "\<exists>s'. run3_all (sim_os 2 (rpc_server (nfs3_handler file_server)))
      [Write3 fh0 0 FILE_SYNC [1, 2, 3], Read3 fh0 1 5, Rmdir3 fh0 [100]] (client0, sim_start []) =
    Some ([Inr (Written_v \<lparr>wr_count = 3, wr_committed = FILE_SYNC, wr_verf = replicate 8 0\<rparr>),
           Inr (Data_v [2, 3]), Inl (NfsError 10004 ''RMDIR'')], s')"
proof -
  let ?cs = "[Write3 fh0 0 FILE_SYNC [1, 2, 3], Read3 fh0 1 5, Rmdir3 fh0 [100]] :: call3 list"
  have ok: "calls3_ok ?cs"
    by (simp add: calls3_ok_def fh0_def fh3_wf_def name_ok_def encode_write_args_def encode_read_args_def
        encode_rmdir_args_def put_simps wire_fh3_def length_wire_opaque xdr_pad_def)
  have srv: "serve3_all file_server (map meaning3 ?cs) [] =
    ([Inr (Written_v \<lparr>wr_count = 3, wr_committed = FILE_SYNC, wr_verf = replicate 8 0\<rparr>),
      Inr (Data_v [2, 3]), Inl (NfsError 10004 ''RMDIR'')], [1, 2, 3])"
    by (simp add: meaning3_def outcome3_def proc3_values proc_name_def)
  have st: "vw_state sim_view (sim_start []) = []"
    by (simp add: sim_view_def sim_start_def)
  from nfs3_session_refines [OF client0_conn [of file_server "[]"] file_server_ok ok] show ?thesis
    unfolding st srv fst_conv by blast
qed

text \<open>C21: An RFC 1813 server that parses the arguments of any NFSv3 call, strictly and to the last byte,
  recovers the request that was made: handles, names, offsets, counts, data, verifiers, and exactly those
  attributes the caller marked as set, with the times as server time, client time or unchanged.\<close>

theorem nfs3_request_parsed:
  assumes "call3_ok c"
  shows "server_request3 (proc3 c) (args3 c) = Inr (map_req3 sattr3_meaning guard3_meaning c)"
  using server_request3_args3 [OF assms] by (simp add: meaning3_def)

lemma nfs3_request_parsed_witness:
  "server_request3 NFSPROC3_MKDIR (encode_mkdir_args fh0 [97, 98]
      (Sattr3_default\<lparr>sa_set_mode := True, sa_set_mtime := SET_TO_SERVER_TIME\<rparr>)) =
   Inr (Mkdir3 fh0 [97, 98] \<lparr>st3_mode = Some 0x1A4, st3_uid = None, st3_gid = None, st3_size = None,
     st3_atime = Keep, st3_mtime = Server_time\<rparr>)"
  using nfs3_request_parsed [of "Mkdir3 fh0 [97, 98]
      (Sattr3_default\<lparr>sa_set_mode := True, sa_set_mtime := SET_TO_SERVER_TIME\<rparr>)"]
  by (simp add: fh0_def fh3_wf_def name_ok_def sattr3_meaning_def Sattr3_default_def when_set_def
      set_time_meaning_def)

text \<open>Every reply RFC 1813 lets a server send to a procedure, success or failure, with or without
  the optional attributes, is decoded to the value it carries, or to the \<open>NfsError\<close> with its status.\<close>

theorem nfs3_reply_decoded:
  assumes "fits3 (proc3 c) resp"
  shows "reply3 (proc3 c) (wire_resp3 (proc3 c) resp) = outcome3 (proc3 c) resp"
  by (rule reply3_wire [OF proc3_valid assms])

lemma nfs3_reply_decoded_witness:
  "decode_lookup_reply (be32 0 @ wire_fh3 fh0 @ wire_post_op_attr (Some Fattr3_zero) @ wire_post_op_attr None) =
     Inr fh0 \<and>
   reply3 NFSPROC3_RENAME (be32 2 @ wire_wcc_data (None, Some Fattr3_zero) @ wire_wcc_data (None, None)) =
     Inl (NfsError 2 ''RENAME'')"
  using nfs3_reply_decoded [of "Lookup3 fh0 []" "Found3 fh0 (Some Fattr3_zero) None"]
    nfs3_reply_decoded [of "Rename3 fh0 [] fh0 []" "Fail3 2 None (None, Some Fattr3_zero) (None, None)"]
  by (auto simp: fits3_def fh0_def fh3_wf_def proc3_values wire_resp3_def outcome3_def reply3_def
      attrs_body_def proc_name_def map_sum_def split: sum.splits)

text \<open>C13: Against a server that lists a directory page by page, each page continuing at the cookie of
  the last entry with the verifier of the last page, \<open>readdir\<close> returns, with every entry exactly once and
  in order.\<close>

theorem nfs3_readdir_complete:
  assumes "conn3 os v srv (c, w)" and "lists3 srv dir count J" and "dir_ok dir"
    and "J 0 cookieverf0 files (vw_state v w)"
  shows "\<exists>s'. NFSClient_readdir os dir count (c, w) = Some (Inr files, s')"
  by (rule readdir_served [OF assms])

lemma nfs3_readdir_complete_witness:
  "\<exists>s'. NFSClient_readdir (sim_os 2 (rpc_server (nfs3_handler dir_server))) fh0 4096 (client0, sim_start ()) =
     Some (Inr [entry 1, entry 2, entry 3], s')"
  by (rule nfs3_readdir_complete [OF client0_conn dir_server_lists])
     (simp_all add: dir_ok_def fh0_def todo0_def cookieverf0_def COOKIEVERF_SIZE_def)

text \<open>C14: The same for \<open>readdirplus\<close>, with the attributes and handles the server sends along.\<close>

theorem nfs3_readdirplus_complete:
  assumes "conn3 os v srv (c, w)" and "listsplus3 srv dir dc mc J" and "dir_ok dir"
    and "J 0 cookieverf0 files (vw_state v w)"
  shows "\<exists>s'. NFSClient_readdirplus os dir dc mc (c, w) = Some (Inr files, s')"
  by (rule readdirplus_served [OF assms])

lemma nfs3_readdirplus_complete_witness:
  "\<exists>s'. NFSClient_readdirplus (sim_os 2 (rpc_server (nfs3_handler dir_server))) fh0 4096 8192
      (client0, sim_start ()) = Some (Inr [entryplus 1, entryplus 2, entryplus 3], s')"
  by (rule nfs3_readdirplus_complete [OF client0_conn dir_server_listsplus])
     (simp_all add: dir_ok_def fh0_def todo0_def cookieverf0_def COOKIEVERF_SIZE_def)

subsection \<open>Bad servers\<close>

text \<open>What the decoders throw on any bytes at all.\<close>

definition reply_error3 :: "u32 \<Rightarrow> error \<Rightarrow> bool" where
  "reply_error3 p e \<longleftrightarrow> e = underflow \<or> (\<exists>st. st \<noteq> 0 \<and> e = NfsError st (proc_name p)) \<or>
     p \<in> {8, 9, 10, 11} \<and> e = RuntimeError (proc_name p @ '': server returned no file handle'')"

lemma reply3_throws:
  assumes "proc3_valid p" and "reply3 p d = Inl e"
  shows "reply_error3 p e"
proof -
  have E: "reply_error3 p underflow" for p by (simp add: reply_error3_def)
  have status: "st \<noteq> 0 \<Longrightarrow> n = proc_name p \<Longrightarrow> reply_error3 p (NfsError st n)" for st n p
    by (auto simp: reply_error3_def)
  have made: "p \<in> {8, 9, 10, 11} \<Longrightarrow> m = proc_name p @ '': server returned no file handle'' \<Longrightarrow>
      reply_error3 p (RuntimeError m)" for m p
    by (simp add: reply_error3_def)
  have dec: "decode q d = Inl e \<Longrightarrow> dec_throws (reply_error3 p) q \<Longrightarrow> reply_error3 p e" for q :: "'z decoder" and p
    by (rule dec_throws_decode)
  have inl: "map_sum id f r = Inl e \<longleftrightarrow> r = Inl e" for f :: "'y \<Rightarrow> 'z" and r
    by (cases r) simp_all
  from assms show ?thesis
    unfolding proc3_valid_def
    by (elim insertE emptyE; hypsubst)
       (simp add: reply3_def inl reply3_defs, erule dec,
        intro throws_intros E status made; simp add: proc_name_def)+
qed

text \<open>C22: On any bytes whatever a server sends, a reply decoder either returns a value or throws the
  underflow error, an \<open>NfsError\<close> with a non-zero status and its own procedure's name, or, for the
  procedures that make an object, the exception for the missing handle.\<close>

theorem nfs3_reply_errors:
  assumes "reply3 (proc3 c) d = Inl e"
  shows "e = underflow \<or> (\<exists>st. st \<noteq> 0 \<and> e = NfsError st (proc_name (proc3 c))) \<or>
    proc3 c \<in> {8, 9, 10, 11} \<and>
    e = RuntimeError (proc_name (proc3 c) @ '': server returned no file handle'')"
  using reply3_throws [OF proc3_valid assms] by (simp add: reply_error3_def)

lemma nfs3_reply_errors_witness:
  "decode_getattr_reply [0, 0, 0, 0, 1] = Inl underflow"
proof -
  have "reply3 (proc3 (Getattr3 fh0 :: call3)) [0, 0, 0, 0, 1] = Inl e \<Longrightarrow> \<forall>st. e \<noteq> NfsError st ''GETATTR'' \<Longrightarrow>
      e = underflow" for e
    using nfs3_reply_errors [of "Getattr3 fh0" "[0, 0, 0, 0, 1]" e] by (auto simp: proc3_values proc_name_def)
  moreover have "be32 0 = [0, 0, 0, 0]" by (simp add: be32_def put_uint32_def)
  ultimately show ?thesis
    using get_uint32_at [of "[]" 0 "[1]"]
    by (simp add: decode_getattr_reply_def decode_at eff_simps)
       (simp add: decode_fattr3_def eff_simps get_uint32_def require_at)
qed

text \<open>A server none of whose pages is the last one.\<close>

definition endless3 :: "'f server3 \<Rightarrow> Fh3 \<Rightarrow> u32 \<Rightarrow> bool" where
  "endless3 srv dir count \<longleftrightarrow>
     (\<forall>cookie cv f. \<exists>a page f'. srv (Readdir3 dir cookie cv count) f = (Page3 a page, f') \<and>
        fits3 NFSPROC3_READDIR (Page3 a page) \<and> \<not> rp_eof page)"

text \<open>Against a server that never sets \<open>eof\<close>, \<open>readdir\<close> never returns and never throws: it keeps
  asking, also when the pages are empty and the cookie does not advance.\<close>

theorem nfs3_readdir_endless:
  assumes conn: "conn3 os v srv (c, w)" and srv: "endless3 srv dir count" and dir: "dir_ok dir"
  shows "NFSClient_readdir os dir count (c, w) = None"
proof -
  obtain h where h: "serves3 h srv" and rc: "rpc_conn os v h (c3_conn c, w)"
    using conn by (auto simp: conn3_def)
  have "readdir_loop os dir count [] 0 cookieverf0 (c3_conn c, w) = None"
  proof (rule readdirp.loop_diverges
      [where I = "\<lambda>cookie cv s. rpc_conn os v h s \<and> length cv = 8"])
    show "rpc_conn os v h (c3_conn c, w) \<and> length cookieverf0 = 8"
      using rc by (simp add: cookieverf0_def COOKIEVERF_SIZE_def)
  next
    fix cookie :: u64 and cv :: "byte list" and s assume I: "rpc_conn os v h s \<and> length cv = 8"
    obtain c1 w1 where s: "s = (c1, w1)" by (cases s)
    obtain a page f' where p: "srv (Readdir3 dir cookie cv count) (vw_state v w1) = (Page3 a page, f')"
      and fits: "fits3 NFSPROC3_READDIR (Page3 a page)" and eof: "\<not> rp_eof page"
      using srv unfolding endless3_def by metis
    have "\<exists>s'. nfs3_readdir_page os dir cookie cv count s = Some (Inr page, s') \<and>
        rpc_conn os v h s' \<and> vw_state v (snd s') = f'"
      using page_served [OF h, of os v c1 w1 "Readdir3 dir cookie cv count" "Page3 a page" f' Page_v
          decode_readdir_reply page] I p fits dir_ok_wf [OF dir] length_readdir_args(1) [OF dir, of cv]
      by (auto simp: s nfs3_readdir_page_def meaning3_def reply3_def proc3_values outcome3_def inj_def)
    then show "\<exists>page s'. nfs3_readdir_page os dir cookie cv count s = Some (Inr page, s') \<and> \<not> rp_eof page \<and>
        rpc_conn os v h s' \<and> length (rp_cookieverf page) = 8"
      using eof fits by (auto simp: fits3_def)
  qed
  then show ?thesis by (simp add: NFSClient_readdir_def nfs3_readdir_def on_conn_def io_zoom_def)
qed

definition empty_pages :: "unit server3" where
  "empty_pages req f = (Page3 None \<lparr>rp_entries = [], rp_eof = False, rp_cookieverf = replicate 8 0\<rparr>, f)"

lemma nfs3_readdir_endless_witness:
  "NFSClient_readdir (sim_os 2 (rpc_server (nfs3_handler empty_pages))) fh0 4096 (client0, sim_start ()) = None"
  by (rule nfs3_readdir_endless [OF client0_conn])
     (simp_all add: endless3_def empty_pages_def fits3_def proc3_values dir_ok_def fh0_def)

subsection \<open>The two names in every directory\<close>

text \<open>READDIRPLUS may list a directory under its own name and its parent under another. A client that walks a tree must
  follow neither.\<close>

definition self_or_parent :: "cstring \<Rightarrow> bool" where
  "self_or_parent n \<longleftrightarrow> n = [46] \<or> n = [46, 46]"

definition dot_entry :: "cstring \<Rightarrow> u64 \<Rightarrow> DirEntryPlus3" where
  "dot_entry n cookie =
     \<lparr>dp_fileid = 0, dp_name = n, dp_cookie = cookie, dp_has_attrs = True, dp_attrs = Fattr3_zero\<lparr>fa_type := NF3DIR\<rparr>,
      dp_has_fh = False, dp_fh = \<lparr>fh3_data = []\<rparr>\<rparr>"

definition dot_entries :: "DirEntryPlus3 list" where
  "dot_entries = [dot_entry [46] 1, dot_entry [46, 46] 2]"

lemma dot_entries_ok: "list_all entryplus3_ok dot_entries"
  "list_all (\<lambda>e. self_or_parent (dp_name e)) dot_entries" "filter (\<lambda>e. \<not> self_or_parent (dp_name e)) dot_entries = []"
  by (simp_all add: dot_entries_def dot_entry_def self_or_parent_def entryplus3_ok_def)

end
