(* ===== verification/Mount_Server.thy ===== *)
theory Mount_Server
  imports Mount Transport
begin

text \<open>
  GETPORT and the MOUNT protocol against a host whose portmapper listens on port 111 and whose mount
  daemon on the port it is registered at, over connections that are opened for one call and closed again.
\<close>

subsection \<open>A host that accepts connections\<close>

definition same_view :: "('w, 'f) view \<Rightarrow> 'w \<Rightarrow> 'w \<Rightarrow> bool" where
  "same_view v w w' \<longleftrightarrow> vw_conn v w' = vw_conn v w \<and> vw_state v w' = vw_state v w"

text \<open>
  \<open>net\<close> says which program listens on which port of the host. A port on which something listens accepts: the
  process gets a descriptor it had no connection on, which is now connected to that very port, and its
  other connections are as before. Closing ends the one connection. Nothing is said of the other ports.
\<close>

type_synonym 'f listeners = "u16 \<Rightarrow> 'f handler option"

definition host_up :: "'w os \<Rightarrow> ('w, 'f) view \<Rightarrow> 'f listeners \<Rightarrow> string \<Rightarrow> bool" where
  "host_up os v net host \<longleftrightarrow>
     (\<forall>port w. net port \<noteq> None \<longrightarrow>
        (\<exists>addr w1 fd w2 w3. os_getaddrinfo os host (to_string (unat port)) w = (Some addr, w1) \<and>
           os_socket os w1 = (fd, w2) \<and> 0 \<le> fd \<and> vw_conn v w fd = None \<and> os_connect os fd addr w2 = (0, w3) \<and>
           vw_conn v w3 = (vw_conn v w)(fd \<mapsto> idle_conn port) \<and> vw_state v w3 = vw_state v w)) \<and>
     (\<forall>fd w. vw_conn v (os_close os fd w) = (vw_conn v w)(fd := None) \<and> vw_state v (os_close os fd w) = vw_state v w) \<and>
     (\<forall>fd port h. net port = Some h \<longrightarrow> tcp_peer os fd port v (rpc_server h))"

lemma host_up_connect:
  assumes up: "host_up os v net host" and port: "net port = Some h"
  obtains c w' where "TcpRpcClient os host port w = Some (Inr c, w')" and "rc_auth c = None" and "0 \<le> rc_sock c"
    and "vw_conn v w (rc_sock c) = None" and "vw_conn v w' = (vw_conn v w)(rc_sock c \<mapsto> idle_conn port)"
    and "rpc_conn os v h (c, w')" and "vw_state v w' = vw_state v w"
proof -
  have "\<exists>addr w1 fd w2 w3. os_getaddrinfo os host (to_string (unat port)) w = (Some addr, w1) \<and>
      os_socket os w1 = (fd, w2) \<and> 0 \<le> fd \<and> vw_conn v w fd = None \<and> os_connect os fd addr w2 = (0, w3) \<and>
      vw_conn v w3 = (vw_conn v w)(fd \<mapsto> idle_conn port) \<and> vw_state v w3 = vw_state v w"
    by (rule up [unfolded host_up_def, THEN conjunct1, rule_format]) (simp add: port)
  then obtain addr w1 fd w2 w3 where con: "os_getaddrinfo os host (to_string (unat port)) w = (Some addr, w1)"
      "os_socket os w1 = (fd, w2)" "0 \<le> fd" "os_connect os fd addr w2 = (0, w3)"
    and new: "vw_conn v w fd = None" "vw_conn v w3 = (vw_conn v w)(fd \<mapsto> idle_conn port)"
      "vw_state v w3 = vw_state v w"
    by (elim exE conjE) (rule that)
  have "tcp_peer os fd port v (rpc_server h)" using up port by (simp add: host_up_def)
  with new have "rpc_conn os v h (\<lparr>rc_sock = fd, rc_xid = 1, rc_auth = None\<rparr>, w3)"
    by (auto simp: rpc_conn_def auth_ok_def)
  with con new show thesis
    by (intro that [of "\<lparr>rc_sock = fd, rc_xid = 1, rc_auth = None\<rparr>" w3])
       (simp_all add: TcpRpcClient_def Let_def eff_simps)
qed

text \<open>Closing a connection that was opened since: the others are as they were.\<close>

lemma host_up_destroy:
  assumes "host_up os v net host" and "vw_conn v w (rc_sock c) = None" and "0 \<le> rc_sock c"
    and "vw_conn v w' = (vw_conn v w)(rc_sock c \<mapsto> k)"
  shows "vw_conn v (rpc_destroy os c w') = vw_conn v w" "vw_state v (rpc_destroy os c w') = vw_state v w'"
  using assms by (auto simp: host_up_def rpc_destroy_def)

lemma host_up_destroy_state: "host_up os v net host \<Longrightarrow> vw_state v (rpc_destroy os c w) = vw_state v w"
  by (simp add: host_up_def rpc_destroy_def)

text \<open>One call on a connection of its own.\<close>

lemma one_call_served:
  assumes up: "host_up os v net host" and port: "net port = Some h" and len: "length args < 2 ^ 30"
    and srv: "\<And>c. rc_auth c = None \<Longrightarrow> h (call_header c prog vers proc) args (vw_state v w) = (body, f')"
  shows "\<exists>w'. with_rpc os host port (io_bind (call os prog vers proc args) (\<lambda>reply. io_lift (D reply))) w =
      Some (D body, w') \<and> vw_conn v w' = vw_conn v w \<and> vw_state v w' = f'"
proof -
  obtain c w1 where con: "TcpRpcClient os host port w = Some (Inr c, w1)" and c: "rc_auth c = None" "0 \<le> rc_sock c"
    and new: "vw_conn v w (rc_sock c) = None" "vw_conn v w1 = (vw_conn v w)(rc_sock c \<mapsto> idle_conn port)"
    and conn: "rpc_conn os v h (c, w1)" and st: "vw_state v w1 = vw_state v w"
    using host_up_connect [OF up port] by blast
  obtain w2 where call: "call os prog vers proc args (c, w1) = Some (Inr body, (c\<lparr>rc_xid := rc_xid c + 1\<rparr>, w2))"
    and same: "vw_conn v w2 = vw_conn v w1" and st2: "vw_state v w2 = f'"
    using call_served [OF conn len] srv [OF c(1)] st by metis
  let ?c = "c\<lparr>rc_xid := rc_xid c + 1\<rparr>"
  have "vw_conn v (rpc_destroy os ?c w2) = vw_conn v w" "vw_state v (rpc_destroy os ?c w2) = f'"
    using host_up_destroy [OF up, of w ?c w2 "idle_conn port"] new same st2 c(2) by simp_all
  with con call show ?thesis by (simp add: with_rpc_def eff_simps)
qed

subsection \<open>A portmapper and a mount daemon\<close>

text \<open>
  The port a program is registered at (0: none), what mounting a path gives, what unmounting does, and
  the export list.
\<close>

record 'f mount_server =
  ms_port :: "u32 \<Rightarrow> u32 \<Rightarrow> u32 \<Rightarrow> u32"
  ms_mnt :: "cstring \<Rightarrow> 'f \<Rightarrow> (u32 + Fh3 \<times> u32 list) \<times> 'f"
  ms_umnt :: "cstring \<Rightarrow> 'f \<Rightarrow> 'f"
  ms_exports :: "'f \<Rightarrow> ExportEntry list"

definition server_getport :: "(u32 \<times> u32 \<times> u32 \<times> u32) decoder" where
  "server_getport =
     dbind get_uint32 (\<lambda>prog. dbind get_uint32 (\<lambda>vers. dbind get_uint32 (\<lambda>prot. dbind get_uint32 (\<lambda>port.
     dreturn (prog, vers, prot, port)))))"

definition wire_mount_result :: "u32 + Fh3 \<times> u32 list \<Rightarrow> byte list" where
  "wire_mount_result r =
     (case r of Inl st \<Rightarrow> be32 st
      | Inr (fh, flavors) \<Rightarrow>
          be32 0 @ wire_fh3 fh @ be32 (word_of_nat (length flavors)) @ concat (map be32 flavors))"

definition portmap_handler :: "'f mount_server \<Rightarrow> 'f handler" where
  "portmap_handler ms hdr args f =
    (if ch_proc hdr = 3 then
       (case decode server_getport args of
          Inr (prog, vers, prot, port) \<Rightarrow> (be32 (ms_port ms prog vers prot), f)
        | Inl _ \<Rightarrow> ([], f))
     else ([], f))"

definition mountd_handler :: "'f mount_server \<Rightarrow> 'f handler" where
  "mountd_handler ms hdr args f =
    (if ch_proc hdr = 5 then (wire_follows wire_export_entry (ms_exports ms f), f)
     else
       (case decode get_string args of
          Inl _ \<Rightarrow> ([], f)
        | Inr path \<Rightarrow>
            if ch_proc hdr = 1 then (case ms_mnt ms path f of (r, f') \<Rightarrow> (wire_mount_result r, f'))
            else if ch_proc hdr = 3 then ([], ms_umnt ms path f)
            else ([], f)))"

text \<open>What listens on a port may serve other programs as well.\<close>

definition serves_portmap :: "'f handler \<Rightarrow> 'f mount_server \<Rightarrow> bool" where
  "serves_portmap h ms \<longleftrightarrow> (\<forall>hdr args f. ch_prog hdr = 100000 \<longrightarrow> ch_vers hdr = 2 \<longrightarrow>
     h hdr args f = portmap_handler ms hdr args f)"

definition serves_mountd :: "'f handler \<Rightarrow> 'f mount_server \<Rightarrow> bool" where
  "serves_mountd h ms \<longleftrightarrow> (\<forall>hdr args f. ch_prog hdr = 100005 \<longrightarrow> ch_vers hdr = 3 \<longrightarrow>
     h hdr args f = mountd_handler ms hdr args f)"

definition port_ok :: "u32 \<Rightarrow> bool" where
  "port_ok p \<longleftrightarrow> 0 < unat p \<and> unat p < 2 ^ 16"

text \<open>The portmapper is at its well-known port; a program is at the port the portmapper has for it over TCP
  (protocol 6).\<close>

definition portmapper_at_111 :: "'f listeners \<Rightarrow> 'f mount_server \<Rightarrow> bool" where
  "portmapper_at_111 net ms \<longleftrightarrow> (\<exists>h. net 111 = Some h \<and> serves_portmap h ms)"

definition listens_registered :: "'f listeners \<Rightarrow> 'f mount_server \<Rightarrow> u32 \<Rightarrow> u32 \<Rightarrow> ('f handler \<Rightarrow> bool) \<Rightarrow> bool" where
  "listens_registered net ms prog vers service \<longleftrightarrow>
     (let p = ms_port ms prog vers 6 in
      port_ok p \<and> (\<exists>h. net (word_of_nat (unat p)) = Some h \<and> service h))"

definition mount_result_ok :: "u32 + Fh3 \<times> u32 list \<Rightarrow> bool" where
  "mount_result_ok r = (case r of Inl st \<Rightarrow> st \<noteq> 0 | Inr (fh, flavors) \<Rightarrow> fh3_wf fh)"

definition path_ok :: "cstring \<Rightarrow> bool" where
  "path_ok p \<longleftrightarrow> length p \<le> 1024"

lemma port_ok_nonzero: "port_ok p \<Longrightarrow> p \<noteq> 0"
  by (auto simp: port_ok_def)

lemma listens_registeredE:
  assumes "listens_registered net ms prog vers service"
  obtains h where "ms_port ms prog vers IPPROTO_TCP_XDR \<noteq> 0"
    and "net (ucast (ms_port ms prog vers IPPROTO_TCP_XDR)) = Some h" and "service h"
  using assms port_ok_nonzero by (auto simp: listens_registered_def Let_def IPPROTO_TCP_XDR_def)

lemma getport_served:
  assumes up: "host_up os v net host" and pm: "portmapper_at_111 net ms"
  shows "\<exists>w'. getport os host prog vers w =
      Some (if ms_port ms prog vers IPPROTO_TCP_XDR = 0
            then Inl (RuntimeError (''portmap: program '' @ to_string (unat prog) @ '' version '' @
                        to_string (unat vers) @ '' is not registered''))
            else Inr (ucast (ms_port ms prog vers IPPROTO_TCP_XDR)), w') \<and>
    vw_conn v w' = vw_conn v w \<and> vw_state v w' = vw_state v w"
proof -
  let ?p = "ms_port ms prog vers IPPROTO_TCP_XDR"
  obtain h where at: "net PMAP_PORT = Some h" and h: "serves_portmap h ms"
    using pm by (auto simp: portmapper_at_111_def PMAP_PORT_def)
  have "decode server_getport (encode_getport_args prog vers) = Inr (prog, vers, IPPROTO_TCP_XDR, 0)"
    by (simp add: server_getport_def encode_getport_args_def decode_at put_simps eff_simps at_simps
        u32c.dec_enc_end [OF TrueI])
  then have "h (call_header c PMAP_PROG PMAP_VERS PMAPPROC_GETPORT)
      (encode_getport_args prog vers) (vw_state v w) = (be32 ?p, vw_state v w)" for c
    using h by (simp add: serves_portmap_def portmap_handler_def call_header_def PMAPPROC_GETPORT_def PMAP_PROG_def
        PMAP_VERS_def)
  moreover have "length (encode_getport_args prog vers) < 2 ^ 30"
    by (simp add: encode_getport_args_def put_simps)
  moreover have "decode_getport_reply prog vers (be32 ?p) =
      (if ?p = 0 then Inl (RuntimeError (''portmap: program '' @ to_string (unat prog) @ '' version '' @
                        to_string (unat vers) @ '' is not registered''))
       else Inr (ucast ?p))"
    by (simp add: decode_getport_reply_def decode_at eff_simps u32c.dec_enc_end [OF TrueI])
  ultimately show ?thesis
    using one_call_served [OF up at, of "encode_getport_args prog vers" PMAP_PROG PMAP_VERS
        PMAPPROC_GETPORT w "be32 ?p" "vw_state v w" "decode_getport_reply prog vers"]
    by (simp add: getport_def)
qed

lemma length_path_args: "path_ok p \<Longrightarrow> length (encode (put_string p)) < 2 ^ 30"
  by (simp add: path_ok_def put_simps length_wire_opaque xdr_pad_def)

text \<open>GETPORT at a daemon that is registered, then one call to it.\<close>

lemma mount_call_served:
  assumes up: "host_up os v net host" and pm: "portmapper_at_111 net ms"
    and reg: "listens_registered net ms 100005 3 (\<lambda>h. serves_mountd h ms)" and len: "length args < 2 ^ 30"
    and srv: "\<And>c. mountd_handler ms (call_header c MOUNT_PROG MOUNT_VERS proc) args (vw_state v w) = (body, f')"
  shows "\<exists>w'. io_bind (getport os host MOUNT_PROG MOUNT_VERS) (\<lambda>port.
        with_rpc os host port (io_bind (call os MOUNT_PROG MOUNT_VERS proc args) (\<lambda>reply. io_lift (D reply)))) w =
      Some (D body, w') \<and> vw_conn v w' = vw_conn v w \<and> vw_state v w' = f'"
proof -
  let ?p = "ms_port ms MOUNT_PROG MOUNT_VERS IPPROTO_TCP_XDR"
  obtain h where p: "?p \<noteq> 0" and at: "net (ucast ?p) = Some h" and h: "serves_mountd h ms"
    using reg by (auto simp: MOUNT_PROG_def MOUNT_VERS_def elim: listens_registeredE)
  obtain w1 where g: "getport os host MOUNT_PROG MOUNT_VERS w = Some (Inr (ucast ?p), w1)"
    and i: "vw_conn v w1 = vw_conn v w" and st: "vw_state v w1 = vw_state v w"
    using getport_served [OF up pm, of MOUNT_PROG MOUNT_VERS] p by auto
  have s: "\<And>c. h (call_header c MOUNT_PROG MOUNT_VERS proc) args (vw_state v w1) = (body, f')"
    using h srv st by (simp add: serves_mountd_def call_header_def MOUNT_PROG_def MOUNT_VERS_def)
  from one_call_served [OF up at len s] g i show ?thesis by (simp add: eff_simps)
qed

lemma io_return_lift: "io_return x = io_lift (Inr x)"
  by (rule ext) (simp add: eff_simps)

lemma decode_mnt_wire:
  assumes "mount_result_ok r"
  shows "decode_mnt_reply (wire_mount_result r) =
    (case r of Inl st \<Rightarrow> Inl (NfsError st ''MOUNT MNT3 mountstat3'') | Inr (fh, flavors) \<Rightarrow> Inr fh)"
  using assms
  by (cases r) (auto simp: mount_result_ok_def fh3_wf_def wire_fh3_def decode_mnt_reply_def
      wire_mount_result_def decode_at eff_simps at_simps u32c.dec_enc_end [OF TrueI])

lemma decode_path: "path_ok p \<Longrightarrow> decode get_string (encode (put_string p)) = Inr p"
  using stringc.decode_enc [of p "[]"] by (simp add: path_ok_def put_simps)

lemma mnt_served:
  assumes "host_up os v net host" and "portmapper_at_111 net ms" and "path_ok path"
    and "listens_registered net ms 100005 3 (\<lambda>h. serves_mountd h ms)"
    and r: "ms_mnt ms path (vw_state v w) = (r, f')" and "mount_result_ok r"
  shows "\<exists>w'. mnt os host path w =
      Some (case r of Inl st \<Rightarrow> Inl (NfsError st ''MOUNT MNT3 mountstat3'') | Inr (fh, flavors) \<Rightarrow> Inr fh, w') \<and>
    vw_conn v w' = vw_conn v w \<and> vw_state v w' = f'"
proof -
  have "\<And>c. mountd_handler ms (call_header c MOUNT_PROG MOUNT_VERS MOUNTPROC3_MNT)
      (encode (put_string path)) (vw_state v w) = (wire_mount_result r, f')"
    by (simp add: mountd_handler_def call_header_def MOUNT_PROG_def MOUNT_VERS_def MOUNTPROC3_MNT_def
        decode_path [OF assms(3)] r)
  from mount_call_served [OF assms(1,2,4) length_path_args [OF assms(3)] this, of decode_mnt_reply]
  show ?thesis by (simp add: mnt_def Let_def decode_mnt_wire [OF assms(6)])
qed

lemma umnt_served:
  assumes "host_up os v net host" and "portmapper_at_111 net ms" and "path_ok path"
    and "listens_registered net ms 100005 3 (\<lambda>h. serves_mountd h ms)"
  shows "\<exists>w'. umnt os host path w = Some (Inr (), w') \<and> vw_conn v w' = vw_conn v w \<and>
    vw_state v w' = ms_umnt ms path (vw_state v w)"
proof -
  have "\<And>c. mountd_handler ms (call_header c MOUNT_PROG MOUNT_VERS MOUNTPROC3_UMNT)
      (encode (put_string path)) (vw_state v w) = ([], ms_umnt ms path (vw_state v w))"
    by (simp add: mountd_handler_def call_header_def MOUNT_PROG_def MOUNT_VERS_def MOUNTPROC3_UMNT_def
        decode_path [OF assms(3)])
  from mount_call_served [OF assms(1,2,4) length_path_args [OF assms(3)] this, of "\<lambda>_. Inr ()"]
  show ?thesis by (simp add: umnt_def Let_def io_return_lift)
qed

lemma export_list_served:
  assumes "host_up os v net host" and "portmapper_at_111 net ms"
    and "listens_registered net ms 100005 3 (\<lambda>h. serves_mountd h ms)"
    and "list_all export_entry_ok (ms_exports ms (vw_state v w))"
  shows "\<exists>w'. export_list os host w = Some (Inr (ms_exports ms (vw_state v w)), w') \<and> vw_conn v w' = vw_conn v w \<and>
    vw_state v w' = vw_state v w"
proof -
  have "\<And>c. mountd_handler ms (call_header c MOUNT_PROG MOUNT_VERS MOUNTPROC3_EXPORT)
      [] (vw_state v w) = (wire_follows wire_export_entry (ms_exports ms (vw_state v w)), vw_state v w)"
    by (simp add: mountd_handler_def call_header_def MOUNT_PROG_def MOUNT_VERS_def MOUNTPROC3_EXPORT_def)
  from mount_call_served [OF assms(1-3) _ this, of decode_export_reply]
  show ?thesis
    using exportsl.list.decode_enc [OF assms(4), of "[]"]
    by (simp add: export_list_def decode_export_reply_def)
qed

subsection \<open>Descriptors\<close>

text \<open>The operations a scoped connection is used for.\<close>

lemma tracks_openD:
  assumes "tracks_open os opened"
  shows "os_getaddrinfo os host port w = (r, w') \<Longrightarrow> opened w' = opened w"
    and "os_socket os w = (fd, w') \<Longrightarrow>
      fd \<notin> opened w \<and> opened w' = (if 0 \<le> fd then insert fd (opened w) else opened w)"
    and "os_connect os fd addr w = (rc, w') \<Longrightarrow> opened w' = opened w"
    and "os_send os fd d w = (n, w') \<Longrightarrow> opened w' = opened w"
    and "os_recv os fd want w = (c, w') \<Longrightarrow> opened w' = opened w"
    and "opened (os_close os fd w) = opened w - {fd}"
proof -
  note t = assms [unfolded tracks_open_def]
  note t' = t [THEN conjunct2]
  note t'' = t' [THEN conjunct2, THEN conjunct2]
  show "os_getaddrinfo os host port w = (r, w') \<Longrightarrow> opened w' = opened w"
    by (rule t [THEN conjunct1, rule_format])
  show "os_socket os w = (fd, w') \<Longrightarrow>
      fd \<notin> opened w \<and> opened w' = (if 0 \<le> fd then insert fd (opened w) else opened w)"
    by (rule t' [THEN conjunct1, rule_format])
  show "os_connect os fd addr w = (rc, w') \<Longrightarrow> opened w' = opened w"
    by (rule t' [THEN conjunct2, THEN conjunct1, rule_format])
  show "os_send os fd d w = (n, w') \<Longrightarrow> opened w' = opened w"
    by (rule t'' [THEN conjunct1, rule_format])
  show "os_recv os fd want w = (c, w') \<Longrightarrow> opened w' = opened w"
    by (rule t'' [THEN conjunct2, THEN conjunct1, rule_format])
  show "opened (os_close os fd w) = opened w - {fd}"
    by (rule t'' [THEN conjunct2, THEN conjunct2, rule_format])
qed

lemma call_keeps:
  assumes t: "tracks_open os opened" and q: "call os prog vers proc args (c, w) = Some (r, (c', w'))"
  shows "rc_sock c' = rc_sock c \<and> opened w' = opened w"
proof -
  have "recv_rel os (rc_sock c) (\<lambda>w w'. opened w' = opened w)"
    using tracks_openD(5) [OF t] by (simp add: recv_rel_def)
  then have "opened w' = opened w"
    by (rule call_rel [OF q, where R = "\<lambda>w w'. opened w' = opened w"]) (rule tracks_openD(4) [OF t])
  with io_relD [OF call_one_call q] show ?thesis by (simp add: one_call_def)
qed

lemma one_call_keeps:
  assumes t: "tracks_open os opened"
    and run: "io_bind (call os prog vers proc args) (\<lambda>reply. io_lift (D reply)) (c, w) = Some (r, (c', w'))"
  shows "rc_sock c' = rc_sock c \<and> opened w' = opened w"
  using run call_keeps [OF t] by (auto simp: io_bind_Some_iff io_lift_def)

lemma TcpRpcClient_eq:
  "TcpRpcClient os host port w =
     (case os_getaddrinfo os host (to_string (unat port)) w of
        (None, w1) \<Rightarrow> Some (Inl (RuntimeError (''getaddrinfo failed for '' @ host)), w1)
      | (Some addr, w1) \<Rightarrow>
          (case os_socket os w1 of (fd, w2) \<Rightarrow>
             if fd < 0 then Some (Inl (RuntimeError ''socket() failed''), w2)
             else (case os_connect os fd addr w2 of (rc, w3) \<Rightarrow>
               if rc \<noteq> 0 then Some (Inl (RuntimeError
                 (''connect() to '' @ host @ '':'' @ to_string (unat port) @ '' failed'')), w3)
               else Some (Inr \<lparr>rc_sock = fd, rc_xid = 1, rc_auth = None\<rparr>, w3))))"
  by (simp add: TcpRpcClient_def Let_def eff_simps split: prod.split option.split)

lemma TcpRpcClient_opened:
  assumes t: "tracks_open os opened" and con: "\<And>fd addr w. fst (os_connect os fd addr w) = 0"
    and run: "TcpRpcClient os host port w = Some (q, w')"
  shows "case q of
      Inl e \<Rightarrow> opened w' = opened w
    | Inr c \<Rightarrow> 0 \<le> rc_sock c \<and> rc_sock c \<notin> opened w \<and> opened w' = insert (rc_sock c) (opened w)"
proof -
  obtain res w1 where g: "os_getaddrinfo os host (to_string (unat port)) w = (res, w1)" by fastforce
  obtain fd w2 where s: "os_socket os w1 = (fd, w2)" by fastforce
  obtain rc w3 where c: "os_connect os fd (the res) w2 = (rc, w3)" by fastforce
  have "rc = 0" using con [of fd "the res" w2] c by simp
  with run g s c tracks_openD(1) [OF t g] tracks_openD(2) [OF t s] tracks_openD(3) [OF t c] show ?thesis
    by (cases res) (auto simp: TcpRpcClient_eq split: if_splits)
qed

lemma with_rpc_balanced:
  assumes t: "tracks_open os opened" and con: "\<And>fd addr w. fst (os_connect os fd addr w) = 0"
    and run: "with_rpc os host port (io_bind (call os prog vers proc args) (\<lambda>reply. io_lift (D reply))) w = Some (r, w')"
  shows "opened w' = opened w"
proof -
  let ?body = "io_bind (call os prog vers proc args) (\<lambda>reply. io_lift (D reply))"
  consider e where "TcpRpcClient os host port w = Some (Inl e, w')"
    | c w1 c' w2 where "TcpRpcClient os host port w = Some (Inr c, w1)" "?body (c, w1) = Some (r, (c', w2))"
        "w' = rpc_destroy os c' w2"
    using run unfolding with_rpc_def io_bind_Some_iff [of "TcpRpcClient os host port"] by auto
  then show ?thesis
  proof cases
    case 1
    from TcpRpcClient_opened [OF t con this] show ?thesis by simp
  next
    case 2
    from TcpRpcClient_opened [OF t con 2(1)] one_call_keeps [OF t 2(2)] 2(3) show ?thesis
      by (auto simp: rpc_destroy_def tracks_openD(6) [OF t])
  qed
qed

lemma getport_balanced:
  assumes "tracks_open os opened" and "\<And>fd addr w. fst (os_connect os fd addr w) = 0"
    and "getport os host prog vers w = Some (r, w')"
  shows "opened w' = opened w"
  using with_rpc_balanced [OF assms(1,2)] assms(3) by (simp add: getport_def Let_def)

lemma mount_call_balanced:
  assumes t: "tracks_open os opened" and con: "\<And>fd addr w. fst (os_connect os fd addr w) = 0"
    and run: "io_bind (getport os host p0 v0) (\<lambda>port.
      with_rpc os host port (io_bind (call os prog vers proc args) (\<lambda>reply. io_lift (D reply)))) w = Some (r, w')"
  shows "opened w' = opened w"
  using run unfolding io_bind_Some_iff [of "getport os host p0 v0"]
  by (auto dest!: getport_balanced [OF t con] with_rpc_balanced [OF t con])

subsection \<open>Properties\<close>

text \<open>C12: On a host whose portmapper listens on port 111 and whose mount daemon listens on the port the
  portmapper has for it (nothing is assumed of the other ports), \<open>mnt\<close>, \<open>umnt\<close> and \<open>export_list\<close>, each over
  two connections of its own (portmapper, then mount daemon), do at the daemon exactly what they are asked to
  for the given path, return the handle, the mount status as an exception, or the export list with all groups
  in order, and leave every other connection of the process as it was and none of their own.\<close>

theorem mount_operations_refine:
  assumes "host_up os v net host" and "portmapper_at_111 net ms" and "path_ok path"
    and "listens_registered net ms 100005 3 (\<lambda>h. serves_mountd h ms)"
    and "ms_mnt ms path (vw_state v w) = (r, f')" and "mount_result_ok r"
    and "list_all export_entry_ok (ms_exports ms (vw_state v w))"
  shows "(\<exists>w'. mnt os host path w =
        Some (case r of Inl st \<Rightarrow> Inl (NfsError st ''MOUNT MNT3 mountstat3'') | Inr (fh, flavors) \<Rightarrow> Inr fh, w') \<and>
        vw_conn v w' = vw_conn v w \<and> vw_state v w' = f') \<and>
    (\<exists>w'. umnt os host path w = Some (Inr (), w') \<and> vw_conn v w' = vw_conn v w \<and> vw_state v w' = ms_umnt ms path (vw_state v w)) \<and>
    (\<exists>w'. export_list os host w = Some (Inr (ms_exports ms (vw_state v w)), w') \<and> vw_conn v w' = vw_conn v w \<and>
        vw_state v w' = vw_state v w)"
  using mnt_served [OF assms(1-6)] umnt_served [OF assms(1-4)] export_list_served [OF assms(1,2,4,7)] by blast

text \<open>A host for the examples: it counts the mounts of one export.\<close>

definition mount0 :: "nat mount_server" where
  "mount0 =
     \<lparr>ms_port = (\<lambda>prog vers prot. if prog = 100005 then 2050 else if prog = 100003 then 2049
                   else if prog = 7 then 0x10000 else 0),
      ms_mnt = (\<lambda>path n. if path = [47, 97] then (Inr (\<lparr>fh3_data = [1, 2, 3]\<rparr>, [1]), n + 1) else (Inl 2, n)),
      ms_umnt = (\<lambda>path n. n - 1),
      ms_exports = (\<lambda>n. [\<lparr>ex_path = [47, 97], ex_groups = [[42], [49, 48]]\<rparr>])\<rparr>"

lemma mount0_simps:
  "ms_port mount0 MOUNT_PROG MOUNT_VERS IPPROTO_TCP_XDR = 2050" "ms_port mount0 7 1 IPPROTO_TCP_XDR = 0x10000"
  "ms_port mount0 100003 3 IPPROTO_TCP_XDR = 2049" "ms_port mount0 100005 3 6 = 2050"
  "ms_mnt mount0 [47, 97] n = (Inr (\<lparr>fh3_data = [1, 2, 3]\<rparr>, [1]), n + 1)"
  "list_all export_entry_ok (ms_exports mount0 n)"
  by (simp_all add: mount0_def MOUNT_PROG_def export_entry_ok_def)

text \<open>Its portmapper is at port 111, the mount daemon at 2050; something else is at 2049.\<close>

definition listeners0 :: "nat listeners" where
  "listeners0 = [111 \<mapsto> portmap_handler mount0, 2050 \<mapsto> mountd_handler mount0, 2049 \<mapsto> echo]"

lemma serves_itself:
  "serves_portmap (portmap_handler ms) ms" "serves_mountd (mountd_handler ms) ms"
  by (simp_all add: serves_portmap_def serves_mountd_def)

lemma listeners0_serve:
  "portmapper_at_111 listeners0 mount0"
  "listens_registered listeners0 mount0 100005 3 (\<lambda>h. serves_mountd h mount0)"
  by (simp_all add: portmapper_at_111_def listens_registered_def listeners0_def mount0_simps port_ok_def serves_itself)

text \<open>The simulated network with RPC servers at its ports.\<close>

definition sim_host :: "nat \<Rightarrow> 'f listeners \<Rightarrow> 'f sim os" where
  "sim_host mtu net = sim_net mtu (\<lambda>port. map_option rpc_server (net port))"

lemma sim_host_up:
  assumes "mtu < 2 ^ 30" and "host \<noteq> []"
  shows "host_up (sim_host mtu net) sim_view net host"
  unfolding host_up_def
proof (intro conjI allI impI)
  fix port and w :: "'a sim" assume "net port \<noteq> None"
  then show "\<exists>addr w1 fd w2 w3. os_getaddrinfo (sim_host mtu net) host (to_string (unat port)) w = (Some addr, w1) \<and>
      os_socket (sim_host mtu net) w1 = (fd, w2) \<and> 0 \<le> fd \<and> vw_conn sim_view w fd = None \<and>
      os_connect (sim_host mtu net) fd addr w2 = (0, w3) \<and>
      vw_conn sim_view w3 = (vw_conn sim_view w)(fd \<mapsto> idle_conn port) \<and> vw_state sim_view w3 = vw_state sim_view w"
    using assms(2) fresh_fd(1) [of "sm_open w"]
    by (auto simp: sim_host_def sim_net_def sim_view_def sim_conn_of_def fun_eq_iff)
next
  show "vw_conn sim_view (os_close (sim_host mtu net) fd w) = (vw_conn sim_view w)(fd := None)"
    and "vw_state sim_view (os_close (sim_host mtu net) fd w) = vw_state sim_view w" for fd w
    by (auto simp: sim_host_def sim_net_def sim_view_def sim_conn_of_def fun_eq_iff)
next
  show "net port = Some h \<Longrightarrow> tcp_peer (sim_host mtu net) fd port sim_view (rpc_server h)" for fd port h
    unfolding sim_host_def by (rule sim_peer [OF assms(1)]) simp
qed

lemma sim_host_conn:
  assumes "net 2049 = Some h"
  shows "rpc_conn (sim_host 2 net) sim_view h (conn0, sim_start f)"
proof -
  have "tcp_peer (sim_host 2 net) (rc_sock conn0) 2049 sim_view (rpc_server h)"
    unfolding sim_host_def by (rule sim_peer) (simp_all add: assms)
  then show ?thesis using conn0_idle [of f] by (auto simp: rpc_conn_def conn0_def auth_ok_def intro!: exI [of _ 2049])
qed

lemma mount_operations_refine_witness:
  "\<exists>w'. mnt (sim_host 2 listeners0) ''host'' [47, 97] (sim_start 3) =
     Some (Inr \<lparr>fh3_data = [1, 2, 3]\<rparr>, w') \<and> sm_state w' = 4"
proof -
  have up: "host_up (sim_host 2 listeners0) sim_view listeners0 ''host''"
    by (rule sim_host_up) simp_all
  from mount_operations_refine [OF up listeners0_serve(1) _ listeners0_serve(2), of "[47, 97]" "sim_start 3"
      "Inr (\<lparr>fh3_data = [1, 2, 3]\<rparr>, [1])" 4]
  show ?thesis
    by (auto simp: sim_view_start path_ok_def mount0_simps mount_result_ok_def fh3_wf_def)
       (auto simp: sim_view_def)
qed

text \<open>C26: When connections are accepted, GETPORT and the MOUNT operations leave no descriptor behind, on
  any outcome: every return and every exception closes what the operation opened.\<close>

theorem scoped_connections_closed:
  assumes "tracks_open os opened" and "\<And>fd addr w. fst (os_connect os fd addr w) = 0"
  shows "(\<forall>r w'. getport os host prog vers w = Some (r, w') \<longrightarrow> opened w' = opened w) \<and>
    (\<forall>r w'. mnt os host path w = Some (r, w') \<longrightarrow> opened w' = opened w) \<and>
    (\<forall>r w'. umnt os host path w = Some (r, w') \<longrightarrow> opened w' = opened w) \<and>
    (\<forall>r w'. export_list os host w = Some (r, w') \<longrightarrow> opened w' = opened w)"
  unfolding mnt_def umnt_def export_list_def Let_def io_return_lift
  by (intro conjI allI impI; (erule getport_balanced [OF assms] | erule mount_call_balanced [OF assms]))

text \<open>A network on which every port accepts.\<close>

definition accepting0 :: "nat listeners" where
  "accepting0 port = (case listeners0 port of None \<Rightarrow> Some echo | Some h \<Rightarrow> Some h)"

lemma accepting0_serve:
  "portmapper_at_111 accepting0 mount0"
  "listens_registered accepting0 mount0 100005 3 (\<lambda>h. serves_mountd h mount0)"
  using listeners0_serve by (auto simp: portmapper_at_111_def listens_registered_def Let_def accepting0_def)

lemma scoped_connections_closed_witness:
  "\<exists>r w'. mnt (sim_host 2 accepting0) ''host'' [47, 97] (sim_start 3) = Some (r, w') \<and> set (sm_open w') = {3}"
proof -
  have up: "host_up (sim_host 2 accepting0) sim_view accepting0 ''host''"
    by (rule sim_host_up) simp_all
  obtain r w' where m: "mnt (sim_host 2 accepting0) ''host'' [47, 97] (sim_start 3) = Some (r, w')"
    using mnt_served [OF up accepting0_serve(1) _ accepting0_serve(2), of "[47, 97]" "sim_start 3"
        "Inr (\<lparr>fh3_data = [1, 2, 3]\<rparr>, [1])" 4]
    by (auto simp: sim_view_start path_ok_def mount0_simps mount_result_ok_def fh3_wf_def)
  have "fst (os_connect (sim_host 2 accepting0) fd addr w) = 0" for fd addr w
    by (simp add: sim_host_def sim_net_def accepting0_def split: option.split)
  from scoped_connections_closed [OF sim_tracks_open [of 2 "\<lambda>port. map_option rpc_server (accepting0 port)", folded sim_host_def]
      this, of "''host''" _ _ "sim_start 3" "[47, 97]"] m show ?thesis
    by (force simp: sim_start_def)
qed

text \<open>GETPORT throws for port 0 (not registered) and otherwise keeps only the low 16 bits of the port
  word: a port of 2^16 or more is not rejected but connected to under another number, and 65536 becomes
  port 0, which the check for 0 was to keep out.\<close>

theorem getport_low_bits:
  assumes "host_up os v net host" and "portmapper_at_111 net ms"
  shows "\<exists>w'. getport os host prog vers w =
      Some (if ms_port ms prog vers IPPROTO_TCP_XDR = 0
            then Inl (RuntimeError (''portmap: program '' @ to_string (unat prog) @ '' version '' @
                        to_string (unat vers) @ '' is not registered''))
            else Inr (word_of_nat (unat (ms_port ms prog vers IPPROTO_TCP_XDR) mod 2 ^ 16)), w') \<and>
    vw_conn v w' = vw_conn v w \<and> vw_state v w' = vw_state v w"
proof -
  have low: "(ucast p :: u16) = word_of_nat (unat p mod 2 ^ 16)" for p :: u32
    by (rule word_unat_eq_iff [THEN iffD2])
       (simp add: unsigned_ucast_eq unsigned_of_nat take_bit_eq_mod unsigned_take_bit_eq)
  show ?thesis unfolding low [symmetric] by (rule getport_served [OF assms])
qed

lemma getport_low_bits_witness:
  "\<exists>w'. getport (sim_host 2 listeners0) ''host'' 7 1 (sim_start 3) = Some (Inr 0, w')"
proof -
  have up: "host_up (sim_host 2 listeners0) sim_view listeners0 ''host''"
    by (rule sim_host_up) simp_all
  from getport_low_bits [OF up listeners0_serve(1), of 7 1 "sim_start 3"] show ?thesis by (auto simp: mount0_simps)
qed

end
