(* ===== verification/Nfs3_Connect.thy ===== *)
theory Nfs3_Connect
  imports Nfs3_Server Mount_Server
begin

text \<open>
  Making an NFSv3 client: GETPORT on one connection, and a second one to the port that it returned. And hosts
  for the examples that run a portmapper, a mount daemon and an NFSv3 server, each at a port of its own.
\<close>

subsection \<open>The constructor\<close>

lemma conn3_kept: "conn3 os v srv (c, w) \<Longrightarrow> vw_conn v w' = vw_conn v w \<Longrightarrow> conn3 os v srv (c, w')"
  unfolding conn3_def by (auto intro: rpc_conn_kept)

lemma connect_served:
  assumes up: "host_up os v net host" and pm: "portmapper_at_111 net ms"
    and reg: "listens_registered net ms 100003 3 (\<lambda>h. serves3 h srv)"
  shows "\<exists>c w'. NFSClient_ctor os host w = Some (Inr c, w') \<and> c3_host c = host \<and>
    conn3 os v srv (c, w') \<and> vw_state v w' = vw_state v w"
proof -
  let ?p = "ms_port ms NFS_PROG NFS_VERS IPPROTO_TCP_XDR"
  obtain h where p: "?p \<noteq> 0" and at: "net (ucast ?p) = Some h" and h: "serves3 h srv"
    using reg by (auto simp: NFS_PROG_def NFS_VERS_def elim: listens_registeredE)
  obtain w1 where g: "getport os host NFS_PROG NFS_VERS w = Some (Inr (ucast ?p), w1)" and st: "vw_state v w1 = vw_state v w"
    using getport_served [OF up pm, of NFS_PROG NFS_VERS] p by auto
  obtain c w2 where "TcpRpcClient os host (ucast ?p) w1 = Some (Inr c, w2)"
    and "rpc_conn os v h (c, w2)" and "vw_state v w2 = vw_state v w1"
    by (rule host_up_connect [OF up at])
  with g st h show ?thesis
    by (auto simp: NFSClient_ctor_def eff_simps conn3_def)
qed

subsection \<open>Hosts for the examples\<close>

definition host_ports :: "u32 \<Rightarrow> u32 \<Rightarrow> u32 \<Rightarrow> u32" where
  "host_ports prog vers prot = (if prog = 100005 then 2050 else if prog = 100003 then 2049 else 0)"

definition listeners3 :: "'f mount_server \<Rightarrow> 'f server3 \<Rightarrow> 'f listeners" where
  "listeners3 ms srv = [111 \<mapsto> portmap_handler ms, 2050 \<mapsto> mountd_handler ms, 2049 \<mapsto> nfs3_handler srv]"

lemma listeners3_serve:
  assumes "ms_port ms = host_ports"
  shows "portmapper_at_111 (listeners3 ms srv) ms"
    "listens_registered (listeners3 ms srv) ms 100005 3 (\<lambda>h. serves_mountd h ms)"
    "listens_registered (listeners3 ms srv) ms 100003 3 (\<lambda>h. serves3 h srv)"
  using assms
  by (simp_all add: portmapper_at_111_def listens_registered_def listeners3_def host_ports_def port_ok_def serves_itself
      serves3_itself)

lemma listeners3_conn: "rpc_conn (sim_host 2 (listeners3 ms srv)) sim_view (nfs3_handler srv) (conn0, sim_start f)"
  by (rule sim_host_conn) (simp add: listeners3_def)

end
