(* ===== verification/Nfs4_Types.thy ===== *)
theory Nfs4_Types
  imports Rpc
begin

text \<open>
  \<open>src/nfs4/nfs4_types.hpp\<close>, \<open>nfs4_error.hpp\<close>, \<open>nfs4_attr.hpp\<close>, \<open>nfs4_attr.cpp\<close>: the NFSv4 data types, the status
  codes, attribute bitmaps and attribute lists. \<open>std::array\<close>s are byte lists of their fixed length;
  enums read from the wire are words, as in \<open>Nfs3_Types\<close>; \<open>int64_t\<close> is a 64-bit word.
\<close>

subsection \<open>nfs4_types.hpp\<close>

type_synonym SessionId41 = "byte list"

record Nfs4Fh =
  fh4_data :: "byte list"

definition Nfs4Fh_eq :: "Nfs4Fh \<Rightarrow> Nfs4Fh \<Rightarrow> bool" where
  "Nfs4Fh_eq a b = (fh4_data a = fh4_data b)"

record Stateid4 =
  sid_seqid :: u32
  sid_other :: "byte list"

definition Stateid4_zero :: Stateid4 where
  "Stateid4_zero = \<lparr>sid_seqid = 0, sid_other = replicate 12 0\<rparr>"

record Nfstime4 =
  t4_seconds :: u64
  t4_nseconds :: u32

type_synonym Ftype4 = u32

definition NF4REG :: Ftype4 where "NF4REG = 1"
definition NF4DIR :: Ftype4 where "NF4DIR = 2"
definition NF4BLK :: Ftype4 where "NF4BLK = 3"
definition NF4CHR :: Ftype4 where "NF4CHR = 4"
definition NF4LNK :: Ftype4 where "NF4LNK = 5"
definition NF4SOCK :: Ftype4 where "NF4SOCK = 6"
definition NF4FIFO :: Ftype4 where "NF4FIFO = 7"
definition NF4ATTRDIR :: Ftype4 where "NF4ATTRDIR = 8"
definition NF4NAMEDATTR :: Ftype4 where "NF4NAMEDATTR = 9"

type_synonym Stable4 = u32

definition UNSTABLE4 :: Stable4 where "UNSTABLE4 = 0"
definition DATA_SYNC4 :: Stable4 where "DATA_SYNC4 = 1"
definition FILE_SYNC4 :: Stable4 where "FILE_SYNC4 = 2"

record Fattr4 =
  f4_type :: "Ftype4 option"
  f4_change :: "u64 option"
  f4_size :: "u64 option"
  f4_fileid :: "u64 option"
  f4_mode :: "u32 option"
  f4_numlinks :: "u32 option"
  f4_owner :: "cstring option"
  f4_owner_group :: "cstring option"
  f4_space_used :: "u64 option"
  f4_time_access :: "Nfstime4 option"
  f4_time_metadata :: "Nfstime4 option"
  f4_time_modify :: "Nfstime4 option"
  f4_mounted_on_fileid :: "u64 option"

record Nfs4File =
  nf_fh :: Nfs4Fh
  nf_stateid :: Stateid4
  nf_seqid :: u32

record Nfs4WriteResult =
  w4_count :: u32
  w4_committed :: Stable4
  w4_verf :: "byte list"

record Nfs4DirEntry =
  d4_cookie :: u64
  d4_name :: cstring
  d4_attrs :: Fattr4

definition encode_nfs4fh :: "Nfs4Fh \<Rightarrow> xdr_encoder \<Rightarrow> xdr_encoder" where
  "encode_nfs4fh fh = put_opaque (fh4_data fh)"

definition decode_nfs4fh :: "Nfs4Fh decoder" where
  "decode_nfs4fh = dbind get_opaque (\<lambda>d. dreturn \<lparr>fh4_data = d\<rparr>)"

definition encode_stateid4 :: "Stateid4 \<Rightarrow> xdr_encoder \<Rightarrow> xdr_encoder" where
  "encode_stateid4 sid = steps [put_uint32 (sid_seqid sid), put_fixed_opaque (sid_other sid)]"

definition decode_stateid4 :: "Stateid4 decoder" where
  "decode_stateid4 =
     dbind get_uint32 (\<lambda>seqid.
     dbind (get_fixed_opaque 12) (\<lambda>raw.
     dreturn \<lparr>sid_seqid = seqid, sid_other = raw\<rparr>))"

definition decode_nfstime4 :: "Nfstime4 decoder" where
  "decode_nfstime4 =
     dbind get_uint64 (\<lambda>seconds.
     dbind get_uint32 (\<lambda>nseconds.
     dreturn \<lparr>t4_seconds = seconds, t4_nseconds = nseconds\<rparr>))"

definition skip_change_info4 :: "unit decoder" where
  "skip_change_info4 =
     dbind get_uint32 (\<lambda>atomic.
     dbind get_uint64 (\<lambda>before.
     dbind get_uint64 (\<lambda>after.
     dreturn ())))"

subsection \<open>nfs4_error.hpp\<close>

text \<open>A status is any 32-bit word; these are the named ones.\<close>

type_synonym Nfsstat4 = u32

definition NFS4_OK :: Nfsstat4 where "NFS4_OK = 0"
definition NFS4ERR_PERM :: Nfsstat4 where "NFS4ERR_PERM = 1"
definition NFS4ERR_NOENT :: Nfsstat4 where "NFS4ERR_NOENT = 2"
definition NFS4ERR_IO :: Nfsstat4 where "NFS4ERR_IO = 5"
definition NFS4ERR_NXIO :: Nfsstat4 where "NFS4ERR_NXIO = 6"
definition NFS4ERR_ACCESS :: Nfsstat4 where "NFS4ERR_ACCESS = 13"
definition NFS4ERR_EXIST :: Nfsstat4 where "NFS4ERR_EXIST = 17"
definition NFS4ERR_XDEV :: Nfsstat4 where "NFS4ERR_XDEV = 18"
definition NFS4ERR_NOTDIR :: Nfsstat4 where "NFS4ERR_NOTDIR = 20"
definition NFS4ERR_ISDIR :: Nfsstat4 where "NFS4ERR_ISDIR = 21"
definition NFS4ERR_INVAL :: Nfsstat4 where "NFS4ERR_INVAL = 22"
definition NFS4ERR_FBIG :: Nfsstat4 where "NFS4ERR_FBIG = 27"
definition NFS4ERR_NOSPC :: Nfsstat4 where "NFS4ERR_NOSPC = 28"
definition NFS4ERR_ROFS :: Nfsstat4 where "NFS4ERR_ROFS = 30"
definition NFS4ERR_MLINK :: Nfsstat4 where "NFS4ERR_MLINK = 31"
definition NFS4ERR_NAMETOOLONG :: Nfsstat4 where "NFS4ERR_NAMETOOLONG = 63"
definition NFS4ERR_NOTEMPTY :: Nfsstat4 where "NFS4ERR_NOTEMPTY = 66"
definition NFS4ERR_DQUOT :: Nfsstat4 where "NFS4ERR_DQUOT = 69"
definition NFS4ERR_STALE :: Nfsstat4 where "NFS4ERR_STALE = 70"
definition NFS4ERR_BADHANDLE :: Nfsstat4 where "NFS4ERR_BADHANDLE = 10001"
definition NFS4ERR_BAD_COOKIE :: Nfsstat4 where "NFS4ERR_BAD_COOKIE = 10003"
definition NFS4ERR_NOTSUPP :: Nfsstat4 where "NFS4ERR_NOTSUPP = 10004"
definition NFS4ERR_TOOSMALL :: Nfsstat4 where "NFS4ERR_TOOSMALL = 10005"
definition NFS4ERR_SERVERFAULT :: Nfsstat4 where "NFS4ERR_SERVERFAULT = 10006"
definition NFS4ERR_BADTYPE :: Nfsstat4 where "NFS4ERR_BADTYPE = 10007"
definition NFS4ERR_DELAY :: Nfsstat4 where "NFS4ERR_DELAY = 10008"
definition NFS4ERR_SAME :: Nfsstat4 where "NFS4ERR_SAME = 10009"
definition NFS4ERR_DENIED :: Nfsstat4 where "NFS4ERR_DENIED = 10010"
definition NFS4ERR_EXPIRED :: Nfsstat4 where "NFS4ERR_EXPIRED = 10011"
definition NFS4ERR_LOCKED :: Nfsstat4 where "NFS4ERR_LOCKED = 10012"
definition NFS4ERR_GRACE :: Nfsstat4 where "NFS4ERR_GRACE = 10013"
definition NFS4ERR_FHEXPIRED :: Nfsstat4 where "NFS4ERR_FHEXPIRED = 10014"
definition NFS4ERR_SHARE_DENIED :: Nfsstat4 where "NFS4ERR_SHARE_DENIED = 10015"
definition NFS4ERR_WRONGSEC :: Nfsstat4 where "NFS4ERR_WRONGSEC = 10016"
definition NFS4ERR_CLID_INUSE :: Nfsstat4 where "NFS4ERR_CLID_INUSE = 10017"
definition NFS4ERR_RESOURCE :: Nfsstat4 where "NFS4ERR_RESOURCE = 10018"
definition NFS4ERR_MOVED :: Nfsstat4 where "NFS4ERR_MOVED = 10019"
definition NFS4ERR_NOFILEHANDLE :: Nfsstat4 where "NFS4ERR_NOFILEHANDLE = 10020"
definition NFS4ERR_MINOR_VERS_MISMATCH :: Nfsstat4 where "NFS4ERR_MINOR_VERS_MISMATCH = 10021"
definition NFS4ERR_STALE_CLIENTID :: Nfsstat4 where "NFS4ERR_STALE_CLIENTID = 10022"
definition NFS4ERR_STALE_STATEID :: Nfsstat4 where "NFS4ERR_STALE_STATEID = 10023"
definition NFS4ERR_OLD_STATEID :: Nfsstat4 where "NFS4ERR_OLD_STATEID = 10024"
definition NFS4ERR_BAD_STATEID :: Nfsstat4 where "NFS4ERR_BAD_STATEID = 10025"
definition NFS4ERR_BAD_SEQID :: Nfsstat4 where "NFS4ERR_BAD_SEQID = 10026"
definition NFS4ERR_NOT_SAME :: Nfsstat4 where "NFS4ERR_NOT_SAME = 10027"
definition NFS4ERR_LOCK_RANGE :: Nfsstat4 where "NFS4ERR_LOCK_RANGE = 10028"
definition NFS4ERR_SYMLINK :: Nfsstat4 where "NFS4ERR_SYMLINK = 10029"
definition NFS4ERR_RESTOREFH :: Nfsstat4 where "NFS4ERR_RESTOREFH = 10030"
definition NFS4ERR_LEASE_MOVED :: Nfsstat4 where "NFS4ERR_LEASE_MOVED = 10031"
definition NFS4ERR_ATTRNOTSUPP :: Nfsstat4 where "NFS4ERR_ATTRNOTSUPP = 10032"
definition NFS4ERR_NO_GRACE :: Nfsstat4 where "NFS4ERR_NO_GRACE = 10033"
definition NFS4ERR_RECLAIM_BAD :: Nfsstat4 where "NFS4ERR_RECLAIM_BAD = 10034"
definition NFS4ERR_RECLAIM_CONFLICT :: Nfsstat4 where "NFS4ERR_RECLAIM_CONFLICT = 10035"
definition NFS4ERR_BADXDR :: Nfsstat4 where "NFS4ERR_BADXDR = 10036"
definition NFS4ERR_LOCKS_HELD :: Nfsstat4 where "NFS4ERR_LOCKS_HELD = 10037"
definition NFS4ERR_OPENMODE :: Nfsstat4 where "NFS4ERR_OPENMODE = 10038"
definition NFS4ERR_BADOWNER :: Nfsstat4 where "NFS4ERR_BADOWNER = 10039"
definition NFS4ERR_BADCHAR :: Nfsstat4 where "NFS4ERR_BADCHAR = 10040"
definition NFS4ERR_BADNAME :: Nfsstat4 where "NFS4ERR_BADNAME = 10041"
definition NFS4ERR_BAD_RANGE :: Nfsstat4 where "NFS4ERR_BAD_RANGE = 10042"
definition NFS4ERR_LOCK_NOTSUPP :: Nfsstat4 where "NFS4ERR_LOCK_NOTSUPP = 10043"
definition NFS4ERR_OP_ILLEGAL :: Nfsstat4 where "NFS4ERR_OP_ILLEGAL = 10044"
definition NFS4ERR_DEADLOCK :: Nfsstat4 where "NFS4ERR_DEADLOCK = 10045"
definition NFS4ERR_FILE_OPEN :: Nfsstat4 where "NFS4ERR_FILE_OPEN = 10046"
definition NFS4ERR_ADMIN_REVOKED :: Nfsstat4 where "NFS4ERR_ADMIN_REVOKED = 10047"
definition NFS4ERR_CB_PATH_DOWN :: Nfsstat4 where "NFS4ERR_CB_PATH_DOWN = 10048"
definition NFS4ERR_BADSESSION :: Nfsstat4 where "NFS4ERR_BADSESSION = 10052"
definition NFS4ERR_BADSLOT :: Nfsstat4 where "NFS4ERR_BADSLOT = 10053"
definition NFS4ERR_BAD_HIGH_SLOT :: Nfsstat4 where "NFS4ERR_BAD_HIGH_SLOT = 10054"
definition NFS4ERR_CONN_NOT_BOUND_TO_SESSION :: Nfsstat4 where "NFS4ERR_CONN_NOT_BOUND_TO_SESSION = 10055"
definition NFS4ERR_DEADSESSION :: Nfsstat4 where "NFS4ERR_DEADSESSION = 10056"
definition NFS4ERR_SEQ_FALSE_RETRY :: Nfsstat4 where "NFS4ERR_SEQ_FALSE_RETRY = 10060"
definition NFS4ERR_SEQ_MISORDERED :: Nfsstat4 where "NFS4ERR_SEQ_MISORDERED = 10063"

definition Nfs4Error_what :: "u32 \<Rightarrow> string \<Rightarrow> string" where
  "Nfs4Error_what s op = op @ '' failed, nfsstat4='' @ to_string (unat s)"

fun Nfs4Error_is :: "error \<Rightarrow> Nfsstat4 \<Rightarrow> bool" where
  "Nfs4Error_is (Nfs4Error s op) code = (s = code)"
| "Nfs4Error_is _ code = False"

subsection \<open>Attribute identifiers\<close>

definition ATTR_TYPE :: u32 where "ATTR_TYPE = 1"
definition ATTR_CHANGE :: u32 where "ATTR_CHANGE = 3"
definition ATTR_SIZE :: u32 where "ATTR_SIZE = 4"
definition ATTR_FSID :: u32 where "ATTR_FSID = 8"
definition ATTR_FILEID :: u32 where "ATTR_FILEID = 20"
definition ATTR_MODE :: u32 where "ATTR_MODE = 33"
definition ATTR_NUMLINKS :: u32 where "ATTR_NUMLINKS = 35"
definition ATTR_OWNER :: u32 where "ATTR_OWNER = 36"
definition ATTR_OWNER_GROUP :: u32 where "ATTR_OWNER_GROUP = 37"
definition ATTR_SPACE_USED :: u32 where "ATTR_SPACE_USED = 45"
definition ATTR_TIME_ACCESS :: u32 where "ATTR_TIME_ACCESS = 47"
definition ATTR_TIME_METADATA :: u32 where "ATTR_TIME_METADATA = 52"
definition ATTR_TIME_MODIFY :: u32 where "ATTR_TIME_MODIFY = 53"
definition ATTR_MOUNTED_ON_FILEID :: u32 where "ATTR_MOUNTED_ON_FILEID = 55"
definition ATTR_TIME_ACCESS_SET :: u32 where "ATTR_TIME_ACCESS_SET = 64"
definition ATTR_TIME_MODIFY_SET :: u32 where "ATTR_TIME_MODIFY_SET = 65"

subsection \<open>Bitmaps\<close>

definition bitmap4_set :: "u32 list \<Rightarrow> u32 \<Rightarrow> u32 list" where
  "bitmap4_set bm aid =
     (let wrd = unat (aid div 32);
          bt = push_bit (unat (aid mod 32)) 1;
          bm = (if length bm \<le> wrd then bm @ replicate (wrd + 1 - length bm) 0 else bm)
      in bm[wrd := bm ! wrd OR bt])"

definition bitmap4_test :: "u32 list \<Rightarrow> u32 \<Rightarrow> bool" where
  "bitmap4_test bm aid =
     (let wrd = unat (aid div 32);
          bt = push_bit (unat (aid mod 32)) 1 :: u32
      in if length bm \<le> wrd then False else bm ! wrd AND bt \<noteq> 0)"

definition encode_bitmap4 :: "u32 list \<Rightarrow> xdr_encoder \<Rightarrow> xdr_encoder" where
  "encode_bitmap4 bm = steps [put_uint32 (word_of_nat (length bm)), fold put_uint32 bm]"

definition decode_bitmap4 :: "u32 list decoder" where
  "decode_bitmap4 = dbind get_uint32 (\<lambda>count. dtimes (unat count) get_uint32)"

definition make_bitmap4 :: "u32 list \<Rightarrow> u32 list" where
  "make_bitmap4 ids = fold (\<lambda>aid bm. bitmap4_set bm aid) ids []"

definition encode_attr_request :: "u32 list \<Rightarrow> xdr_encoder \<Rightarrow> xdr_encoder" where
  "encode_attr_request ids = encode_bitmap4 (make_bitmap4 ids)"

subsection \<open>fattr4\<close>

text \<open>\<open>if (bitmap4_test(bm, id)) a.field = ad.get();\<close>\<close>

definition attr_if :: "u32 list \<Rightarrow> u32 \<Rightarrow> 'a decoder \<Rightarrow> 'a option decoder" where
  "attr_if bm aid p =
     (if bitmap4_test bm aid then dbind p (\<lambda>x. dreturn (Some x)) else dreturn None)"

definition decode_attrlist :: "u32 list \<Rightarrow> Fattr4 decoder" where
  "decode_attrlist bm =
     dbind (attr_if bm ATTR_TYPE get_uint32) (\<lambda>type.
     dbind (attr_if bm ATTR_CHANGE get_uint64) (\<lambda>change.
     dbind (attr_if bm ATTR_SIZE get_uint64) (\<lambda>size.
     dbind (attr_if bm ATTR_FSID (dbind get_uint64 (\<lambda>major. get_uint64))) (\<lambda>fsid.
     dbind (attr_if bm ATTR_FILEID get_uint64) (\<lambda>fileid.
     dbind (attr_if bm ATTR_MODE get_uint32) (\<lambda>mode.
     dbind (attr_if bm ATTR_NUMLINKS get_uint32) (\<lambda>numlinks.
     dbind (attr_if bm ATTR_OWNER get_string) (\<lambda>owner.
     dbind (attr_if bm ATTR_OWNER_GROUP get_string) (\<lambda>owner_group.
     dbind (attr_if bm ATTR_SPACE_USED get_uint64) (\<lambda>space_used.
     dbind (attr_if bm ATTR_TIME_ACCESS decode_nfstime4) (\<lambda>time_access.
     dbind (attr_if bm ATTR_TIME_METADATA decode_nfstime4) (\<lambda>time_metadata.
     dbind (attr_if bm ATTR_TIME_MODIFY decode_nfstime4) (\<lambda>time_modify.
     dbind (attr_if bm ATTR_MOUNTED_ON_FILEID get_uint64) (\<lambda>mounted_on_fileid.
     dreturn
       \<lparr>f4_type = type, f4_change = change, f4_size = size, f4_fileid = fileid, f4_mode = mode,
        f4_numlinks = numlinks, f4_owner = owner, f4_owner_group = owner_group,
        f4_space_used = space_used, f4_time_access = time_access,
        f4_time_metadata = time_metadata, f4_time_modify = time_modify,
        f4_mounted_on_fileid = mounted_on_fileid\<rparr>))))))))))))))"

definition decode_fattr4 :: "Fattr4 decoder" where
  "decode_fattr4 =
     dbind decode_bitmap4 (\<lambda>bm.
     dbind get_opaque (\<lambda>attrlist d.
     case decode (decode_attrlist bm) attrlist of Inl e \<Rightarrow> Inl e | Inr a \<Rightarrow> Inr (a, d)))"

record Sattr4 =
  s4_size :: "u64 option"
  s4_mode :: "u32 option"
  s4_owner :: "cstring option"
  s4_owner_group :: "cstring option"
  s4_time_access :: "Nfstime4 option"
  s4_time_modify :: "Nfstime4 option"

definition Sattr4_default :: Sattr4 where
  "Sattr4_default =
     \<lparr>s4_size = None, s4_mode = None, s4_owner = None, s4_owner_group = None,
      s4_time_access = None, s4_time_modify = None\<rparr>"

definition set_if :: "'a option \<Rightarrow> u32 \<Rightarrow> u32 list \<Rightarrow> u32 list" where
  "set_if x aid bm = (case x of None \<Rightarrow> bm | Some _ \<Rightarrow> bitmap4_set bm aid)"

definition put_if :: "'a option \<Rightarrow> ('a \<Rightarrow> xdr_encoder \<Rightarrow> xdr_encoder) \<Rightarrow> xdr_encoder \<Rightarrow> xdr_encoder" where
  "put_if x put buf = (case x of None \<Rightarrow> buf | Some v \<Rightarrow> put v buf)"

text \<open>\<open>settime4\<close> with \<open>SET_TO_CLIENT_TIME\<close>.\<close>

definition put_settime4 :: "Nfstime4 \<Rightarrow> xdr_encoder \<Rightarrow> xdr_encoder" where
  "put_settime4 t = steps [put_uint32 1, put_uint64 (t4_seconds t), put_uint32 (t4_nseconds t)]"

definition encode_fattr4 :: "Sattr4 \<Rightarrow> xdr_encoder \<Rightarrow> xdr_encoder" where
  "encode_fattr4 attrs =
     (let bm = (steps [set_if (s4_size attrs) ATTR_SIZE,
                set_if (s4_mode attrs) ATTR_MODE,
                set_if (s4_owner attrs) ATTR_OWNER,
                set_if (s4_owner_group attrs) ATTR_OWNER_GROUP,
                set_if (s4_time_access attrs) ATTR_TIME_ACCESS_SET,
                set_if (s4_time_modify attrs) ATTR_TIME_MODIFY_SET]) [];
          ae = encode (steps [
                put_if (s4_size attrs) put_uint64,
                put_if (s4_mode attrs) put_uint32,
                put_if (s4_owner attrs) put_string,
                put_if (s4_owner_group attrs) put_string,
                put_if (s4_time_access attrs) put_settime4,
                put_if (s4_time_modify attrs) put_settime4])
      in steps [encode_bitmap4 bm, put_opaque ae])"

end
