(* ===== verification/Nfs4_Attrs.thy ===== *)
theory Nfs4_Attrs
  imports Nfs4_Types
begin

text \<open>
  Bitmaps and attribute lists (\<open>src/nfs4/nfs4_attr.cpp\<close>): a bitmap is the set of the attribute ids put
  into it, an attribute list the values of those ids in ascending order. The server's side follows RFC
  7530, sections 3.3.7 and 5.
\<close>

subsection \<open>Codecs\<close>

text \<open>RFC 7530, section 2.1: a handle has at most \<open>NFS4_FHSIZE\<close> bytes.\<close>

definition fh4_ok :: "Nfs4Fh \<Rightarrow> bool" where
  "fh4_ok fh \<longleftrightarrow> length (fh4_data fh) \<le> 128"

definition wire_fh4 :: "Nfs4Fh \<Rightarrow> byte list" where
  "wire_fh4 fh = wire_opaque (fh4_data fh)"

definition stateid_ok :: "Stateid4 \<Rightarrow> bool" where
  "stateid_ok s \<longleftrightarrow> length (sid_other s) = 12"

definition wire_stateid4 :: "Stateid4 \<Rightarrow> byte list" where
  "wire_stateid4 s = be32 (sid_seqid s) @ wire_fixed (sid_other s)"

definition wire_time4 :: "Nfstime4 \<Rightarrow> byte list" where
  "wire_time4 t = be64 (t4_seconds t) @ be32 (t4_nseconds t)"

definition wire_bitmap4 :: "u32 list \<Rightarrow> byte list" where
  "wire_bitmap4 bm = be32 (word_of_nat (length bm)) @ concat (map be32 bm)"

interpretation fh4c: wire_codec fh4_ok wire_fh4 decode_nfs4fh
  by unfold_locales (simp add: decode_nfs4fh_def wire_fh4_def fh4_ok_def eff_simps at_simps)

interpretation stateid4c: wire_codec stateid_ok wire_stateid4 decode_stateid4
  by unfold_locales (simp add: decode_stateid4_def wire_stateid4_def stateid_ok_def eff_simps at_simps)

interpretation time4c: wire_codec "\<lambda>_. True" wire_time4 decode_nfstime4
  by unfold_locales (simp add: decode_nfstime4_def wire_time4_def eff_simps at_simps)

interpretation bitmap4c: wire_codec "\<lambda>bm. length bm < 2 ^ 32" wire_bitmap4 decode_bitmap4
  by unfold_locales
     (simp add: decode_bitmap4_def wire_bitmap4_def eff_simps at_simps length_word_of_nat u32c.dtimes_enc list_all_def)

lemmas [at_simps] = fh4c.dec_enc stateid4c.dec_enc time4c.dec_enc [OF TrueI] bitmap4c.dec_enc

lemma encode_nfs4fh_append [put_simps]: "encode_nfs4fh fh buf = buf @ wire_fh4 fh"
  by (simp add: encode_nfs4fh_def wire_fh4_def put_simps)

lemma encode_stateid4_append [put_simps]: "encode_stateid4 s buf = buf @ wire_stateid4 s"
  by (simp add: encode_stateid4_def wire_stateid4_def put_simps)

lemma encode_bitmap4_append [put_simps]: "encode_bitmap4 bm buf = buf @ wire_bitmap4 bm"
  by (simp add: encode_bitmap4_def wire_bitmap4_def put_simps)

lemma encode_attr_request_append [put_simps]:
  "encode_attr_request ids buf = buf @ wire_bitmap4 (make_bitmap4 ids)"
  by (simp add: encode_attr_request_def put_simps)

subsection \<open>A bitmap is a set\<close>

lemma unat_div_mod32: "unat (a div 32 :: u32) = unat a div 32" "unat (a mod 32 :: u32) = unat a mod 32"
  by (simp_all add: unat_div unat_mod)

lemma bitmap4_test_bit:
  "bitmap4_test bm a \<longleftrightarrow> unat a div 32 < length bm \<and> bit (bm ! (unat a div 32)) (unat a mod 32)"
proof -
  have "w AND push_bit n 1 \<noteq> 0 \<longleftrightarrow> bit w n" for w :: u32 and n
    by (simp add: bit_iff_and_push_bit_not_eq_0)
  then show ?thesis
    by (auto simp: bitmap4_test_def Let_def unat_div_mod32 simp del: push_bit_of_1)
qed

lemma length_bitmap4_set: "length (bitmap4_set bm a) = max (length bm) (unat a div 32 + 1)"
  by (auto simp: bitmap4_set_def Let_def unat_div_mod32)

lemma nth_bitmap4_set:
  assumes "i < length (bitmap4_set bm a)"
  shows "bitmap4_set bm a ! i =
    (if i < length bm then bm ! i else 0) OR (if i = unat a div 32 then push_bit (unat a mod 32) 1 else 0)"
  using assms
  by (auto simp: bitmap4_set_def Let_def unat_div_mod32 nth_append nth_list_update simp del: push_bit_of_1)

lemma div_mod_eq: "a = b \<longleftrightarrow> unat a div 32 = unat b div 32 \<and> unat a mod 32 = unat (b :: u32) mod 32"
  by (metis div_mult_mod_eq unsigned_word_eqI)

lemma bit_or_push32:
  assumes "n < 32"
  shows "bit ((w :: u32) OR (if c then push_bit m 1 else 0)) n \<longleftrightarrow> bit w n \<or> c \<and> n = m"
  using assms by (cases c) (auto simp: bit_or_iff bit_push_bit_iff bit_1_iff simp del: push_bit_of_1)

lemma bitmap4_test_set: "bitmap4_test (bitmap4_set bm a) b \<longleftrightarrow> b = a \<or> bitmap4_test bm b"
proof (cases "unat b div 32 < length (bitmap4_set bm a)")
  case True
  have "unat b mod 32 < 32" by simp
  with True show ?thesis
    unfolding bitmap4_test_bit nth_bitmap4_set [OF True] div_mod_eq [of b a]
    by (subst bit_or_push32) auto
next
  case False
  then have "b \<noteq> a" "\<not> unat b div 32 < length bm" by (auto simp: length_bitmap4_set)
  with False show ?thesis by (simp only: bitmap4_test_bit simp_thms)
qed

lemma bitmap4_test_Nil: "\<not> bitmap4_test [] a"
  by (simp add: bitmap4_test_bit)

lemma bitmap4_test_make: "bitmap4_test (make_bitmap4 ids) a \<longleftrightarrow> a \<in> set ids"
proof -
  have "bitmap4_test (fold (\<lambda>aid bm. bitmap4_set bm aid) ids bm) a \<longleftrightarrow> a \<in> set ids \<or> bitmap4_test bm a" for bm
    by (induction ids arbitrary: bm) (auto simp: bitmap4_test_set)
  then show ?thesis by (simp add: make_bitmap4_def bitmap4_test_Nil)
qed

lemma unat_div32: "unat (a :: u32) div 32 < 2 ^ 27"
proof -
  have "unat a < 2 ^ 27 * 32" using unsigned_less [of a, where 'a = nat] by simp
  then show ?thesis by (simp only: less_mult_imp_div_less)
qed

lemma length_bitmap4_set_le: "length bm \<le> 2 ^ 27 \<Longrightarrow> length (bitmap4_set bm a) \<le> 2 ^ 27"
  using unat_div32 [of a] by (simp add: length_bitmap4_set)

lemma length_make_bitmap4: "length (make_bitmap4 ids) \<le> 2 ^ 27"
proof -
  have "length bm \<le> 2 ^ 27 \<Longrightarrow> length (fold (\<lambda>aid bm. bitmap4_set bm aid) ids bm) \<le> 2 ^ 27" for bm
    by (induction ids arbitrary: bm) (simp_all only: fold_simps length_bitmap4_set_le)
  then show ?thesis by (simp add: make_bitmap4_def)
qed

subsection \<open>fattr4\<close>

definition attr_bytes :: "('a \<Rightarrow> byte list) \<Rightarrow> 'a option \<Rightarrow> byte list" where
  "attr_bytes enc x = (case x of None \<Rightarrow> [] | Some v \<Rightarrow> enc v)"

text \<open>The values in ascending order of their ids; \<open>fsid\<close> is one the client asks for nowhere and skips.\<close>

definition wire_attrlist :: "Fattr4 \<Rightarrow> (u64 \<times> u64) option \<Rightarrow> byte list" where
  "wire_attrlist a fsid =
     attr_bytes be32 (f4_type a) @ attr_bytes be64 (f4_change a) @ attr_bytes be64 (f4_size a) @
     attr_bytes (\<lambda>(x, y). be64 x @ be64 y) fsid @ attr_bytes be64 (f4_fileid a) @
     attr_bytes be32 (f4_mode a) @ attr_bytes be32 (f4_numlinks a) @ attr_bytes wire_opaque (f4_owner a) @
     attr_bytes wire_opaque (f4_owner_group a) @ attr_bytes be64 (f4_space_used a) @
     attr_bytes wire_time4 (f4_time_access a) @ attr_bytes wire_time4 (f4_time_metadata a) @
     attr_bytes wire_time4 (f4_time_modify a) @ attr_bytes be64 (f4_mounted_on_fileid a)"

text \<open>The bitmap says which values are there.\<close>

definition bitmap_fits :: "u32 list \<Rightarrow> Fattr4 \<Rightarrow> (u64 \<times> u64) option \<Rightarrow> bool" where
  "bitmap_fits bm a fsid \<longleftrightarrow>
     (bitmap4_test bm 1 \<longleftrightarrow> f4_type a \<noteq> None) \<and> (bitmap4_test bm 3 \<longleftrightarrow> f4_change a \<noteq> None) \<and>
     (bitmap4_test bm 4 \<longleftrightarrow> f4_size a \<noteq> None) \<and> (bitmap4_test bm 8 \<longleftrightarrow> fsid \<noteq> None) \<and>
     (bitmap4_test bm 20 \<longleftrightarrow> f4_fileid a \<noteq> None) \<and> (bitmap4_test bm 33 \<longleftrightarrow> f4_mode a \<noteq> None) \<and>
     (bitmap4_test bm 35 \<longleftrightarrow> f4_numlinks a \<noteq> None) \<and> (bitmap4_test bm 36 \<longleftrightarrow> f4_owner a \<noteq> None) \<and>
     (bitmap4_test bm 37 \<longleftrightarrow> f4_owner_group a \<noteq> None) \<and> (bitmap4_test bm 45 \<longleftrightarrow> f4_space_used a \<noteq> None) \<and>
     (bitmap4_test bm 47 \<longleftrightarrow> f4_time_access a \<noteq> None) \<and>
     (bitmap4_test bm 52 \<longleftrightarrow> f4_time_metadata a \<noteq> None) \<and>
     (bitmap4_test bm 53 \<longleftrightarrow> f4_time_modify a \<noteq> None) \<and>
     (bitmap4_test bm 55 \<longleftrightarrow> f4_mounted_on_fileid a \<noteq> None)"

type_synonym wire_attrs4 = "u32 list \<times> Fattr4 \<times> (u64 \<times> u64) option"

definition attrs4_ok :: "wire_attrs4 \<Rightarrow> bool" where
  "attrs4_ok = (\<lambda>(bm, a, fsid). length bm < 2 ^ 32 \<and> bitmap_fits bm a fsid \<and>
     length (wire_attrlist a fsid) < 2 ^ 32 \<and> pred_option (\<lambda>s. length s < 2 ^ 32) (f4_owner a) \<and>
     pred_option (\<lambda>s. length s < 2 ^ 32) (f4_owner_group a))"

definition wire_fattr4 :: "wire_attrs4 \<Rightarrow> byte list" where
  "wire_fattr4 = (\<lambda>(bm, a, fsid). wire_bitmap4 bm @ wire_opaque (wire_attrlist a fsid))"

lemma attr_if_at:
  assumes "bitmap4_test bm aid \<longleftrightarrow> x \<noteq> None"
    and "\<And>v q r. x = Some v \<Longrightarrow> p (at q (enc v @ r)) = Inr (v, at (q @ enc v) r)"
  shows "attr_if bm aid p (at pre (attr_bytes enc x @ rest)) = Inr (x, at (pre @ attr_bytes enc x) rest)"
  using assms by (cases x) (simp_all add: attr_if_def attr_bytes_def eff_simps)

lemma attr_if_fsid:
  assumes "bitmap4_test bm aid \<longleftrightarrow> x \<noteq> None"
  shows "attr_if bm aid (dbind get_uint64 (\<lambda>major. get_uint64))
      (at pre (attr_bytes (\<lambda>(a, b). be64 a @ be64 b) x @ rest)) =
    Inr (map_option snd x, at (pre @ attr_bytes (\<lambda>(a, b). be64 a @ be64 b) x) rest)"
  using assms by (cases x) (auto simp: attr_if_def attr_bytes_def eff_simps at_simps)

lemma attr_if_string:
  assumes "bitmap4_test bm aid \<longleftrightarrow> x \<noteq> None" "pred_option (\<lambda>s. length s < 2 ^ 32) x"
  shows "attr_if bm aid get_string (at pre (attr_bytes wire_opaque x @ rest)) =
    Inr (x, at (pre @ attr_bytes wire_opaque x) rest)"
  by (rule attr_if_at [OF assms(1)]) (use assms(2) in \<open>simp add: at_simps\<close>)

lemmas attr_ifs_at = attr_if_fsid attr_if_string attr_if_at [OF _ get_uint32_at] attr_if_at [OF _ get_uint64_at]
  attr_if_at [OF _ time4c.dec_enc [OF TrueI]]

lemmas attr_ids = ATTR_TYPE_def ATTR_CHANGE_def ATTR_SIZE_def ATTR_FSID_def ATTR_FILEID_def ATTR_MODE_def
  ATTR_NUMLINKS_def ATTR_OWNER_def ATTR_OWNER_GROUP_def ATTR_SPACE_USED_def ATTR_TIME_ACCESS_def
  ATTR_TIME_METADATA_def ATTR_TIME_MODIFY_def ATTR_MOUNTED_ON_FILEID_def

lemma decode_attrlist_at:
  assumes "attrs4_ok (bm, a, fsid)"
  shows "decode_attrlist bm (at pre (wire_attrlist a fsid @ rest)) = Inr (a, at (pre @ wire_attrlist a fsid) rest)"
  using assms unfolding attrs4_ok_def bitmap_fits_def
  by (simp add: decode_attrlist_def wire_attrlist_def eff_simps attr_ifs_at attr_ids)

lemma decode_fattr4_at [at_simps]:
  assumes ok: "attrs4_ok x"
  shows "decode_fattr4 (at pre (wire_fattr4 x @ rest)) = Inr (fst (snd x), at (pre @ wire_fattr4 x) rest)"
proof -
  obtain bm a fsid where x: "x = (bm, a, fsid)" by (cases x)
  have "decode (decode_attrlist bm) (wire_attrlist a fsid) = Inr a"
    using decode_attrlist_at [of bm a fsid "[]" "[]"] ok by (simp add: x decode_at)
  moreover have "length bm < 2 ^ 32" "length (wire_attrlist a fsid) < 2 ^ 32"
    using ok by (simp_all add: x attrs4_ok_def)
  ultimately show ?thesis by (simp add: x decode_fattr4_def wire_fattr4_def eff_simps at_simps)
qed
subsection \<open>Settable attributes\<close>

definition id_if :: "'a option \<Rightarrow> u32 \<Rightarrow> u32 list" where
  "id_if x aid = (case x of None \<Rightarrow> [] | Some _ \<Rightarrow> [aid])"

definition sattr4_ids :: "Sattr4 \<Rightarrow> u32 list" where
  "sattr4_ids a =
     id_if (s4_size a) ATTR_SIZE @ id_if (s4_mode a) ATTR_MODE @ id_if (s4_owner a) ATTR_OWNER @
     id_if (s4_owner_group a) ATTR_OWNER_GROUP @ id_if (s4_time_access a) ATTR_TIME_ACCESS_SET @
     id_if (s4_time_modify a) ATTR_TIME_MODIFY_SET"

definition wire_settime4 :: "Nfstime4 \<Rightarrow> byte list" where
  "wire_settime4 t = be32 1 @ wire_time4 t"

definition wire_sattrlist :: "Sattr4 \<Rightarrow> byte list" where
  "wire_sattrlist a =
     attr_bytes be64 (s4_size a) @ attr_bytes be32 (s4_mode a) @ attr_bytes wire_opaque (s4_owner a) @
     attr_bytes wire_opaque (s4_owner_group a) @ attr_bytes wire_settime4 (s4_time_access a) @
     attr_bytes wire_settime4 (s4_time_modify a)"

definition wire_sattr4 :: "Sattr4 \<Rightarrow> byte list" where
  "wire_sattr4 a = wire_bitmap4 (make_bitmap4 (sattr4_ids a)) @ wire_opaque (wire_sattrlist a)"

lemma set_if_fold: "set_if x aid bm = fold (\<lambda>aid bm. bitmap4_set bm aid) (id_if x aid) bm"
  by (cases x) (simp_all add: set_if_def id_if_def)

lemma put_if_append:
  assumes "\<And>v buf. put v buf = buf @ enc v"
  shows "put_if x put buf = buf @ attr_bytes enc x"
  by (cases x) (simp_all add: put_if_def attr_bytes_def assms)

lemma put_settime4_append [put_simps]: "put_settime4 t buf = buf @ wire_settime4 t"
  by (simp add: put_settime4_def wire_settime4_def wire_time4_def put_simps)

lemmas put_ifs_append = put_if_append [OF put_uint64_append] put_if_append [OF put_uint32_append]
  put_if_append [OF put_string_append] put_if_append [OF put_settime4_append]

lemma encode_fattr4_append [put_simps]: "encode_fattr4 a buf = buf @ wire_sattr4 a"
  by (simp add: encode_fattr4_def wire_sattr4_def wire_sattrlist_def sattr4_ids_def make_bitmap4_def
      set_if_fold fold_append put_ifs_append encode_def Let_def put_simps)

text \<open>
  A server of RFC 7530 (section 5.7 and table 5): the attributes it lets a client set, and how it reads
  a \<open>fattr4\<close> that sets some of them. Any other id is refused with \<open>NFS4ERR_ATTRNOTSUPP\<close>.
\<close>

definition rfc_settable :: "u32 list" where
  "rfc_settable = [4, 33, 36, 37, 48, 54]"

definition rfc_supports :: "u32 list \<Rightarrow> bool" where
  "rfc_supports bm \<longleftrightarrow>
     list_all (\<lambda>i. bitmap4_test bm (word_of_nat i) \<longrightarrow> word_of_nat i \<in> set rfc_settable) [0..<32 * length bm]"

definition get_settime4 :: "Nfstime4 decoder" where
  "get_settime4 = dbind get_uint32 (\<lambda>how. dbind (throw_if (how \<noteq> 1) (RuntimeError ''BADXDR'')) (\<lambda>_. decode_nfstime4))"

definition rfc_attrlist :: "u32 list \<Rightarrow> Sattr4 decoder" where
  "rfc_attrlist bm =
     dbind (attr_if bm 4 get_uint64) (\<lambda>size.
     dbind (attr_if bm 33 get_uint32) (\<lambda>mode.
     dbind (attr_if bm 36 get_string) (\<lambda>owner.
     dbind (attr_if bm 37 get_string) (\<lambda>owner_group.
     dbind (attr_if bm 48 get_settime4) (\<lambda>time_access.
     dbind (attr_if bm 54 get_settime4) (\<lambda>time_modify.
     dreturn \<lparr>s4_size = size, s4_mode = mode, s4_owner = owner, s4_owner_group = owner_group,
       s4_time_access = time_access, s4_time_modify = time_modify\<rparr>))))))"

definition rfc_fattr4 :: "(Nfsstat4 + Sattr4) decoder" where
  "rfc_fattr4 =
     dbind decode_bitmap4 (\<lambda>bm.
     dbind get_opaque (\<lambda>l d.
     if rfc_supports bm
     then case decode (rfc_attrlist bm) l of Inl e \<Rightarrow> Inl e | Inr a \<Rightarrow> Inr (Inr a, d)
     else Inr (Inl NFS4ERR_ATTRNOTSUPP, d)))"

definition sattr4_ok :: "Sattr4 \<Rightarrow> bool" where
  "sattr4_ok a \<longleftrightarrow> length (wire_sattrlist a) < 2 ^ 32 \<and> pred_option (\<lambda>s. length s < 2 ^ 32) (s4_owner a) \<and>
     pred_option (\<lambda>s. length s < 2 ^ 32) (s4_owner_group a)"

lemma rfc_supports_iff: "rfc_supports bm \<longleftrightarrow> (\<forall>a. bitmap4_test bm a \<longrightarrow> a \<in> set rfc_settable)"
proof
  assume r: "rfc_supports bm"
  have "a \<in> set rfc_settable" if t: "bitmap4_test bm a" for a
  proof -
    have "unat a < 32 * length bm" using t by (simp add: bitmap4_test_bit div_less_iff_less_mult mult.commute)
    then have "unat a \<in> set [0..<32 * length bm]" by simp
    with r have "bitmap4_test bm (word_of_nat (unat a)) \<longrightarrow> (word_of_nat (unat a) :: u32) \<in> set rfc_settable"
      unfolding rfc_supports_def list_all_iff by (rule bspec)
    then show ?thesis using t by simp
  qed
  then show "\<forall>a. bitmap4_test bm a \<longrightarrow> a \<in> set rfc_settable" by blast
qed (simp add: rfc_supports_def list_all_iff)

lemma id_if_simps: "a \<in> set (id_if x b) \<longleftrightarrow> x \<noteq> None \<and> a = b"
  by (cases x) (auto simp: id_if_def)

lemmas sattr4_id_defs = sattr4_ids_def ATTR_SIZE_def ATTR_MODE_def ATTR_OWNER_def ATTR_OWNER_GROUP_def
  ATTR_TIME_ACCESS_SET_def ATTR_TIME_MODIFY_SET_def

lemma rfc_supports_sattr4:
  "rfc_supports (make_bitmap4 (sattr4_ids a)) \<longleftrightarrow> s4_time_access a = None \<and> s4_time_modify a = None"
proof -
  have "rfc_supports (make_bitmap4 (sattr4_ids a)) \<longleftrightarrow> (\<forall>i \<in> set (sattr4_ids a). i \<in> set rfc_settable)"
    by (simp add: rfc_supports_iff bitmap4_test_make Ball_def)
  also have "\<dots> \<longleftrightarrow> s4_time_access a = None \<and> s4_time_modify a = None"
    by (auto simp: sattr4_id_defs id_if_simps ball_Un rfc_settable_def simp del: not_None_eq)
  finally show ?thesis .
qed

lemma attr_bytes_None: "attr_bytes enc None = []"
  by (simp add: attr_bytes_def)

lemma attr_if_none: "\<not> bitmap4_test bm aid \<Longrightarrow> attr_if bm aid p d = Inr (None, d)"
  by (simp add: attr_if_def eff_simps)

lemma rfc_attrlist_at:
  assumes "sattr4_ok a" "s4_time_access a = None" "s4_time_modify a = None"
  shows "rfc_attrlist (make_bitmap4 (sattr4_ids a)) (at pre (wire_sattrlist a @ rest)) =
    Inr (a, at (pre @ wire_sattrlist a) rest)"
  using assms unfolding sattr4_ok_def
  by (simp add: rfc_attrlist_def wire_sattrlist_def eff_simps attr_if_string attr_if_none
      attr_if_at [OF _ get_uint32_at] attr_if_at [OF _ get_uint64_at]
      bitmap4_test_make sattr4_id_defs id_if_simps attr_bytes_None)

lemma rfc_fattr4_at:
  assumes ok: "sattr4_ok a"
  shows "rfc_fattr4 (at pre (wire_sattr4 a @ rest)) =
    Inr (if s4_time_access a = None \<and> s4_time_modify a = None then Inr a else Inl NFS4ERR_ATTRNOTSUPP,
      at (pre @ wire_sattr4 a) rest)"
proof -
  let ?bm = "make_bitmap4 (sattr4_ids a)"
  have l: "length ?bm < 2 ^ 32" using length_make_bitmap4 [of "sattr4_ids a"] by simp
  have s: "length (wire_sattrlist a) < 2 ^ 32" using ok by (simp add: sattr4_ok_def)
  have d: "s4_time_access a = None \<Longrightarrow> s4_time_modify a = None \<Longrightarrow>
      decode (rfc_attrlist ?bm) (wire_sattrlist a) = Inr a"
    using rfc_attrlist_at [OF ok, of "[]" "[]"] by (simp add: decode_at)
  show ?thesis
    by (simp add: rfc_fattr4_def wire_sattr4_def eff_simps bitmap4c.dec_enc [OF l] opaquec.dec_enc [OF s]
        rfc_supports_sattr4 d)
qed

definition Fattr4_none :: Fattr4 where
  "Fattr4_none =
     \<lparr>f4_type = None, f4_change = None, f4_size = None, f4_fileid = None, f4_mode = None,
      f4_numlinks = None, f4_owner = None, f4_owner_group = None, f4_space_used = None,
      f4_time_access = None, f4_time_metadata = None, f4_time_modify = None, f4_mounted_on_fileid = None\<rparr>"

definition small_attrs4 :: Fattr4 where
  "small_attrs4 = Fattr4_none\<lparr>f4_type := Some NF4REG, f4_size := Some 7\<rparr>"

lemma small_attrs4_ok: "attrs4_ok ([18], small_attrs4, None)"
  by (simp add: attrs4_ok_def bitmap_fits_def bitmap4_test_def wire_attrlist_def attr_bytes_def
      small_attrs4_def Fattr4_none_def)

subsection \<open>Properties\<close>

text \<open>A bitmap built from a list of attribute ids tests true for exactly those ids, over all 2^32 of
  them: \<open>bitmap4_set\<close> grows the vector to the word it needs and keeps every other bit, and \<open>bitmap4_test\<close>
  is false beyond the end.\<close>

theorem make_bitmap4_members: "bitmap4_test (make_bitmap4 ids) a \<longleftrightarrow> a \<in> set ids"
  by (rule bitmap4_test_make)

text \<open>C23: \<open>decode_fattr4\<close> reads back every attribute a server sends: for a bitmap that says which of the
  known attributes are there (whatever else of it is zero), each value comes out in its own field and
  only those, the fsid is skipped, and the cursor stands after the attribute list.\<close>

theorem decode_fattr4_reads:
  assumes "attrs4_ok (bm, a, fsid)"
  shows "decode_fattr4 (at pre (wire_fattr4 (bm, a, fsid) @ rest)) = Inr (a, at (pre @ wire_fattr4 (bm, a, fsid)) rest)"
  using decode_fattr4_at [OF assms] by simp

theorem decode_fattr4_reads_witness:
  "decode_fattr4 (at [] (wire_fattr4 ([18], small_attrs4, None) @ [])) =
     Inr (small_attrs4, at ([] @ wire_fattr4 ([18], small_attrs4, None)) [])"
  by (rule decode_fattr4_reads) (rule small_attrs4_ok)

text \<open>C24: \<open>encode_fattr4\<close> against a server of RFC 7530: what the server reads from a \<open>SETATTR\<close>'s attributes is
  what the caller asked for as long as no time is set; as soon as one is, the server refuses the
  attributes as unknown, because the code numbers \<open>time_access_set\<close> and \<open>time_modify_set\<close> 64 and 65
  where the protocol has 48 and 54.\<close>

theorem encode_fattr4_read_by_server:
  assumes "sattr4_ok a"
  shows "decode rfc_fattr4 (encode (encode_fattr4 a)) =
    Inr (if s4_time_access a = None \<and> s4_time_modify a = None then Inr a else Inl NFS4ERR_ATTRNOTSUPP)"
  using rfc_fattr4_at [OF assms, of "[]" "[]"] by (simp add: decode_at encode_def put_simps)

theorem encode_fattr4_read_by_server_witness:
  "decode rfc_fattr4 (encode (encode_fattr4 (Sattr4_default\<lparr>s4_time_modify := Some \<lparr>t4_seconds = 5, t4_nseconds = 0\<rparr>\<rparr>))) =
    Inr (Inl NFS4ERR_ATTRNOTSUPP)"
  by (subst encode_fattr4_read_by_server)
     (simp_all add: sattr4_ok_def Sattr4_default_def wire_sattrlist_def attr_bytes_def wire_settime4_def wire_time4_def)

end
