(* ===== verification/Nfs4_Ops.thy ===== *)
theory Nfs4_Ops
  imports Nfs4_Types
begin

text \<open>
  \<open>src/nfs4\<close>: the COMPOUND envelope (\<open>compound.cpp\<close>) and the NFSv4 operations that go into it: an
  encoder that appends the operation to the request, and a decoder for its entry in the reply, which
  reads the echoed operation code, throws on a status other than 0, and reads the result.
\<close>

subsection \<open>compound.hpp, compound.cpp\<close>

definition OP_ACCESS :: u32 where "OP_ACCESS = 3"
definition OP_CLOSE :: u32 where "OP_CLOSE = 4"
definition OP_COMMIT :: u32 where "OP_COMMIT = 5"
definition OP_CREATE :: u32 where "OP_CREATE = 6"
definition OP_GETATTR :: u32 where "OP_GETATTR = 9"
definition OP_GETFH :: u32 where "OP_GETFH = 10"
definition OP_LOOKUP :: u32 where "OP_LOOKUP = 15"
definition OP_LOOKUPP :: u32 where "OP_LOOKUPP = 16"
definition OP_OPEN :: u32 where "OP_OPEN = 18"
definition OP_OPEN_CONFIRM :: u32 where "OP_OPEN_CONFIRM = 20"
definition OP_PUTFH :: u32 where "OP_PUTFH = 22"
definition OP_PUTROOTFH :: u32 where "OP_PUTROOTFH = 24"
definition OP_READ :: u32 where "OP_READ = 25"
definition OP_READDIR :: u32 where "OP_READDIR = 26"
definition OP_READLINK :: u32 where "OP_READLINK = 27"
definition OP_REMOVE :: u32 where "OP_REMOVE = 28"
definition OP_RENAME :: u32 where "OP_RENAME = 29"
definition OP_RENEW :: u32 where "OP_RENEW = 30"
definition OP_RESTOREFH :: u32 where "OP_RESTOREFH = 31"
definition OP_SAVEFH :: u32 where "OP_SAVEFH = 32"
definition OP_SETATTR :: u32 where "OP_SETATTR = 34"
definition OP_SETCLIENTID :: u32 where "OP_SETCLIENTID = 35"
definition OP_SETCLIENTID_CONFIRM :: u32 where "OP_SETCLIENTID_CONFIRM = 36"
definition OP_WRITE :: u32 where "OP_WRITE = 38"
definition OP_BIND_CONN_TO_SESSION :: u32 where "OP_BIND_CONN_TO_SESSION = 41"
definition OP_EXCHANGE_ID :: u32 where "OP_EXCHANGE_ID = 42"
definition OP_CREATE_SESSION :: u32 where "OP_CREATE_SESSION = 43"
definition OP_DESTROY_SESSION :: u32 where "OP_DESTROY_SESSION = 44"
definition OP_FREE_STATEID :: u32 where "OP_FREE_STATEID = 45"
definition OP_TEST_STATEID :: u32 where "OP_TEST_STATEID = 56"
definition OP_DESTROY_CLIENTID :: u32 where "OP_DESTROY_CLIENTID = 57"
definition OP_RECLAIM_COMPLETE :: u32 where "OP_RECLAIM_COMPLETE = 58"
definition OP_SEQUENCE :: u32 where "OP_SEQUENCE = 53"

definition NFS4_PROG :: u32 where "NFS4_PROG = 100003"
definition NFS4_VERS :: u32 where "NFS4_VERS = 4"
definition NFS4_PROC_COMPOUND :: u32 where "NFS4_PROC_COMPOUND = 1"

definition encode_compound_args :: "cstring \<Rightarrow> byte list \<Rightarrow> u32 \<Rightarrow> u32 \<Rightarrow> byte list" where
  "encode_compound_args tag ops_bytes num_ops minorversion =
     encode (steps [put_string tag, put_uint32 minorversion, put_uint32 num_ops]) @ ops_bytes"

definition call_compound ::
  "'w os \<Rightarrow> cstring \<Rightarrow> byte list \<Rightarrow> u32 \<Rightarrow> u32 \<Rightarrow> ('w rpc_state, byte list) io" where
  "call_compound os tag ops_bytes num_ops minorversion =
     (let args = encode_compound_args tag ops_bytes num_ops minorversion in
     call os NFS4_PROG NFS4_VERS NFS4_PROC_COMPOUND args)"

definition check_compound_status :: "unit decoder" where
  "check_compound_status =
     dbind get_uint32 (\<lambda>status.
     dbind (throw_if (status \<noteq> 0) (Nfs4Error status ''COMPOUND'')) (\<lambda>_.
     dbind get_string (\<lambda>tag.
     dbind get_uint32 (\<lambda>numops.
     dreturn ()))))"

subsection \<open>fh_ops.cpp\<close>

text \<open>The operation code of a result is read and ignored.\<close>

definition check_op_status :: "string \<Rightarrow> unit decoder" where
  "check_op_status name =
     dbind get_uint32 (\<lambda>resop.
     dbind get_uint32 (\<lambda>status.
     throw_if (status \<noteq> 0) (Nfs4Error status name)))"

definition encode_putrootfh :: "xdr_encoder \<Rightarrow> xdr_encoder" where
  "encode_putrootfh =
     put_uint32 OP_PUTROOTFH"

definition encode_putfh :: "Nfs4Fh \<Rightarrow> xdr_encoder \<Rightarrow> xdr_encoder" where
  "encode_putfh fh =
     steps [
     put_uint32 OP_PUTFH,
     encode_nfs4fh fh]"

definition encode_getfh :: "xdr_encoder \<Rightarrow> xdr_encoder" where
  "encode_getfh =
     put_uint32 OP_GETFH"

definition encode_savefh :: "xdr_encoder \<Rightarrow> xdr_encoder" where
  "encode_savefh =
     put_uint32 OP_SAVEFH"

definition encode_restorefh :: "xdr_encoder \<Rightarrow> xdr_encoder" where
  "encode_restorefh =
     put_uint32 OP_RESTOREFH"

definition encode_lookupp :: "xdr_encoder \<Rightarrow> xdr_encoder" where
  "encode_lookupp =
     put_uint32 OP_LOOKUPP"

definition decode_putrootfh_result :: "unit decoder" where
  "decode_putrootfh_result = check_op_status ''PUTROOTFH''"

definition decode_putfh_result :: "unit decoder" where
  "decode_putfh_result = check_op_status ''PUTFH''"

definition decode_getfh_result :: "Nfs4Fh decoder" where
  "decode_getfh_result =
     dbind (check_op_status ''GETFH'') (\<lambda>_.
     decode_nfs4fh)"

definition decode_savefh_result :: "unit decoder" where
  "decode_savefh_result = check_op_status ''SAVEFH''"

definition decode_restorefh_result :: "unit decoder" where
  "decode_restorefh_result = check_op_status ''RESTOREFH''"

definition decode_lookupp_result :: "unit decoder" where
  "decode_lookupp_result = check_op_status ''LOOKUPP''"

subsection \<open>setclientid.cpp\<close>

record SetclientidResult =
  scr_clientid :: u64
  scr_confirm_verifier :: "byte list"

definition encode_setclientid :: "byte list \<Rightarrow> cstring \<Rightarrow> u32 \<Rightarrow> xdr_encoder \<Rightarrow> xdr_encoder" where
  "encode_setclientid verifier client_id cb_program =
     steps [
     put_uint32 OP_SETCLIENTID,
     put_fixed_opaque verifier,
     put_opaque client_id,
     put_uint32 cb_program,
     put_string (bytes_of ''tcp''),
     put_string (bytes_of ''0.0.0.0.0.0''),
     put_uint32 0]"

definition decode_setclientid_result :: "SetclientidResult decoder" where
  "decode_setclientid_result =
     dbind (check_op_status ''SETCLIENTID'') (\<lambda>_.
     dbind get_uint64 (\<lambda>clientid.
     dbind (get_fixed_opaque 8) (\<lambda>cv.
     dreturn \<lparr>scr_clientid = clientid, scr_confirm_verifier = cv\<rparr>)))"

definition encode_setclientid_confirm :: "u64 \<Rightarrow> byte list \<Rightarrow> xdr_encoder \<Rightarrow> xdr_encoder" where
  "encode_setclientid_confirm clientid confirm_verifier =
     steps [
     put_uint32 OP_SETCLIENTID_CONFIRM,
     put_uint64 clientid,
     put_fixed_opaque confirm_verifier]"

definition decode_setclientid_confirm_result :: "unit decoder" where
  "decode_setclientid_confirm_result = check_op_status ''SETCLIENTID_CONFIRM''"

subsection \<open>lookup.cpp, getattr.cpp, access.cpp\<close>

definition encode_lookup :: "cstring \<Rightarrow> xdr_encoder \<Rightarrow> xdr_encoder" where
  "encode_lookup name =
     steps [
     put_uint32 OP_LOOKUP,
     put_string name]"

definition decode_lookup_result :: "unit decoder" where
  "decode_lookup_result = check_op_status ''LOOKUP''"

definition encode_getattr :: "u32 list \<Rightarrow> xdr_encoder \<Rightarrow> xdr_encoder" where
  "encode_getattr attr_ids =
     steps [
     put_uint32 OP_GETATTR,
     encode_attr_request attr_ids]"

definition decode_getattr_result :: "Fattr4 decoder" where
  "decode_getattr_result =
     dbind (check_op_status ''GETATTR'') (\<lambda>_.
     decode_fattr4)"

definition ACCESS4_READ :: u32 where "ACCESS4_READ = 0x0001"
definition ACCESS4_LOOKUP :: u32 where "ACCESS4_LOOKUP = 0x0002"
definition ACCESS4_MODIFY :: u32 where "ACCESS4_MODIFY = 0x0004"
definition ACCESS4_EXTEND :: u32 where "ACCESS4_EXTEND = 0x0008"
definition ACCESS4_DELETE :: u32 where "ACCESS4_DELETE = 0x0010"
definition ACCESS4_EXECUTE :: u32 where "ACCESS4_EXECUTE = 0x0020"

record Access4Result =
  ac_supported :: u32
  ac_access :: u32

definition encode_access :: "u32 \<Rightarrow> xdr_encoder \<Rightarrow> xdr_encoder" where
  "encode_access access_mask =
     steps [
     put_uint32 OP_ACCESS,
     put_uint32 access_mask]"

definition decode_access_result :: "Access4Result decoder" where
  "decode_access_result =
     dbind (check_op_status ''ACCESS'') (\<lambda>_.
     dbind get_uint32 (\<lambda>supported.
     dbind get_uint32 (\<lambda>access.
     dreturn \<lparr>ac_supported = supported, ac_access = access\<rparr>)))"

subsection \<open>open.cpp\<close>

definition OPEN4_SHARE_ACCESS_READ :: u32 where "OPEN4_SHARE_ACCESS_READ = 1"
definition OPEN4_SHARE_ACCESS_WRITE :: u32 where "OPEN4_SHARE_ACCESS_WRITE = 2"
definition OPEN4_SHARE_ACCESS_BOTH :: u32 where "OPEN4_SHARE_ACCESS_BOTH = 3"
definition OPEN4_SHARE_DENY_NONE :: u32 where "OPEN4_SHARE_DENY_NONE = 0"
definition OPEN4_NOCREATE :: u32 where "OPEN4_NOCREATE = 0"
definition OPEN4_CREATE :: u32 where "OPEN4_CREATE = 1"
definition UNCHECKED4 :: u32 where "UNCHECKED4 = 0"
definition GUARDED4 :: u32 where "GUARDED4 = 1"
definition EXCLUSIVE4 :: u32 where "EXCLUSIVE4 = 2"
definition CLAIM_NULL :: u32 where "CLAIM_NULL = 0"
definition OPEN4_RESULT_CONFIRM :: u32 where "OPEN4_RESULT_CONFIRM = 2"
definition OPEN4_RESULT_LOCKTYPE_POSIX :: u32 where "OPEN4_RESULT_LOCKTYPE_POSIX = 4"

record Open4Result =
  or_stateid :: Stateid4
  or_rflags :: u32

definition encode_open_prefix :: "u32 \<Rightarrow> u32 \<Rightarrow> u64 \<Rightarrow> cstring \<Rightarrow> xdr_encoder \<Rightarrow> xdr_encoder" where
  "encode_open_prefix seqid share_access clientid owner =
     steps [
     put_uint32 OP_OPEN,
     put_uint32 seqid,
     put_uint32 share_access,
     put_uint32 OPEN4_SHARE_DENY_NONE,
     put_uint64 clientid,
     put_opaque owner]"

definition encode_open_nocreate :: "u32 \<Rightarrow> u32 \<Rightarrow> u64 \<Rightarrow> cstring \<Rightarrow> cstring \<Rightarrow> xdr_encoder \<Rightarrow> xdr_encoder" where
  "encode_open_nocreate seqid share_access clientid owner name =
     steps [
     encode_open_prefix seqid share_access clientid owner,
     put_uint32 OPEN4_NOCREATE,
     put_uint32 CLAIM_NULL,
     put_string name]"

definition encode_open_create :: "u32 \<Rightarrow> u32 \<Rightarrow> u64 \<Rightarrow> cstring \<Rightarrow> cstring \<Rightarrow> Sattr4 \<Rightarrow> xdr_encoder \<Rightarrow> xdr_encoder" where
  "encode_open_create seqid share_access clientid owner name attrs =
     steps [
     encode_open_prefix seqid share_access clientid owner,
     put_uint32 OPEN4_CREATE,
     put_uint32 UNCHECKED4,
     encode_fattr4 attrs,
     put_uint32 CLAIM_NULL,
     put_string name]"

text \<open>\<open>for (uint32_t i = 0; i < bm_size; ++i) dec.get_uint32();\<close> after \<open>bm_size\<close>\<close>

definition skip_bitmap4 :: "unit decoder" where
  "skip_bitmap4 =
     dbind get_uint32 (\<lambda>bm_size.
     dbind (dtimes (unat bm_size) get_uint32) (\<lambda>_.
     dreturn ()))"

definition skip_nfsace4 :: "unit decoder" where
  "skip_nfsace4 =
     dbind get_uint32 (\<lambda>type.
     dbind get_uint32 (\<lambda>flag.
     dbind get_uint32 (\<lambda>access_mask.
     dbind get_string (\<lambda>who.
     dreturn ()))))"

definition skip_delegation :: "unit decoder" where
  "skip_delegation =
     dbind get_uint32 (\<lambda>deleg_type.
     if deleg_type = 1 then
       dbind decode_stateid4 (\<lambda>_.
       dbind get_uint32 (\<lambda>recall.
       skip_nfsace4))
     else if deleg_type = 2 then
       dbind decode_stateid4 (\<lambda>_.
       dbind get_uint32 (\<lambda>recall.
       dbind get_uint32 (\<lambda>limitby.
       dbind get_uint32 (\<lambda>num_blocks.
       dbind get_uint32 (\<lambda>bytes_per_block.
       skip_nfsace4)))))
     else dreturn ())"

definition decode_open_result :: "Open4Result decoder" where
  "decode_open_result =
     dbind (check_op_status ''OPEN'') (\<lambda>_.
     dbind decode_stateid4 (\<lambda>stateid.
     dbind skip_change_info4 (\<lambda>_.
     dbind get_uint32 (\<lambda>rflags.
     dbind skip_bitmap4 (\<lambda>_.
     dbind skip_delegation (\<lambda>_.
     dreturn \<lparr>or_stateid = stateid, or_rflags = rflags\<rparr>))))))"

definition encode_open_confirm :: "Stateid4 \<Rightarrow> u32 \<Rightarrow> xdr_encoder \<Rightarrow> xdr_encoder" where
  "encode_open_confirm stateid seqid =
     steps [
     put_uint32 OP_OPEN_CONFIRM,
     encode_stateid4 stateid,
     put_uint32 seqid]"

definition decode_open_confirm_result :: "Stateid4 decoder" where
  "decode_open_confirm_result =
     dbind (check_op_status ''OPEN_CONFIRM'') (\<lambda>_.
     decode_stateid4)"

definition encode_close :: "u32 \<Rightarrow> Stateid4 \<Rightarrow> xdr_encoder \<Rightarrow> xdr_encoder" where
  "encode_close seqid stateid =
     steps [
     put_uint32 OP_CLOSE,
     put_uint32 seqid,
     encode_stateid4 stateid]"

definition decode_close_result :: "unit decoder" where
  "decode_close_result =
     dbind (check_op_status ''CLOSE'') (\<lambda>_.
     dbind decode_stateid4 (\<lambda>_.
     dreturn ()))"

definition encode_renew :: "u64 \<Rightarrow> xdr_encoder \<Rightarrow> xdr_encoder" where
  "encode_renew clientid =
     steps [
     put_uint32 OP_RENEW,
     put_uint64 clientid]"

definition decode_renew_result :: "unit decoder" where
  "decode_renew_result = check_op_status ''RENEW''"

subsection \<open>read.cpp, write.cpp, commit.cpp\<close>

definition encode_read :: "Stateid4 \<Rightarrow> u64 \<Rightarrow> u32 \<Rightarrow> xdr_encoder \<Rightarrow> xdr_encoder" where
  "encode_read stateid off count =
     steps [
     put_uint32 OP_READ,
     encode_stateid4 stateid,
     put_uint64 off,
     put_uint32 count]"

definition decode_read_result :: "byte list decoder" where
  "decode_read_result =
     dbind (check_op_status ''READ'') (\<lambda>_.
     dbind get_uint32 (\<lambda>eof.
     get_opaque))"

definition encode_write :: "Stateid4 \<Rightarrow> u64 \<Rightarrow> Stable4 \<Rightarrow> byte list \<Rightarrow> xdr_encoder \<Rightarrow> xdr_encoder" where
  "encode_write stateid off how data =
     steps [
     put_uint32 OP_WRITE,
     encode_stateid4 stateid,
     put_uint64 off,
     put_uint32 how,
     put_opaque data]"

definition decode_write_result :: "Nfs4WriteResult decoder" where
  "decode_write_result =
     dbind (check_op_status ''WRITE'') (\<lambda>_.
     dbind get_uint32 (\<lambda>count.
     dbind get_uint32 (\<lambda>committed.
     dbind (get_fixed_opaque 8) (\<lambda>v.
     dreturn \<lparr>w4_count = count, w4_committed = committed, w4_verf = v\<rparr>))))"

definition encode_commit :: "u64 \<Rightarrow> u32 \<Rightarrow> xdr_encoder \<Rightarrow> xdr_encoder" where
  "encode_commit off count =
     steps [
     put_uint32 OP_COMMIT,
     put_uint64 off,
     put_uint32 count]"

definition decode_commit_result :: "byte list decoder" where
  "decode_commit_result =
     dbind (check_op_status ''COMMIT'') (\<lambda>_.
     get_fixed_opaque 8)"

subsection \<open>dirop.cpp, setattr.cpp, create.cpp, readlink.cpp\<close>

definition encode_remove :: "cstring \<Rightarrow> xdr_encoder \<Rightarrow> xdr_encoder" where
  "encode_remove name =
     steps [
     put_uint32 OP_REMOVE,
     put_string name]"

definition decode_remove_result :: "unit decoder" where
  "decode_remove_result =
     dbind (check_op_status ''REMOVE'') (\<lambda>_.
     skip_change_info4)"

definition encode_rename :: "cstring \<Rightarrow> cstring \<Rightarrow> xdr_encoder \<Rightarrow> xdr_encoder" where
  "encode_rename oldname newname =
     steps [
     put_uint32 OP_RENAME,
     put_string oldname,
     put_string newname]"

definition decode_rename_result :: "unit decoder" where
  "decode_rename_result =
     dbind (check_op_status ''RENAME'') (\<lambda>_.
     dbind skip_change_info4 (\<lambda>_.
     skip_change_info4))"

definition encode_setattr :: "Stateid4 \<Rightarrow> Sattr4 \<Rightarrow> xdr_encoder \<Rightarrow> xdr_encoder" where
  "encode_setattr stateid attrs =
     steps [
     put_uint32 OP_SETATTR,
     encode_stateid4 stateid,
     encode_fattr4 attrs]"

definition decode_setattr_result :: "unit decoder" where
  "decode_setattr_result =
     dbind (check_op_status ''SETATTR'') (\<lambda>_.
     skip_bitmap4)"

definition encode_create_dir :: "cstring \<Rightarrow> Sattr4 \<Rightarrow> xdr_encoder \<Rightarrow> xdr_encoder" where
  "encode_create_dir name attrs =
     steps [
     put_uint32 OP_CREATE,
     put_uint32 NF4DIR,
     put_string name,
     encode_fattr4 attrs]"

definition encode_create_symlink :: "cstring \<Rightarrow> cstring \<Rightarrow> Sattr4 \<Rightarrow> xdr_encoder \<Rightarrow> xdr_encoder" where
  "encode_create_symlink name target attrs =
     steps [
     put_uint32 OP_CREATE,
     put_uint32 NF4LNK,
     put_string target,
     put_string name,
     encode_fattr4 attrs]"

definition decode_create_result :: "unit decoder" where
  "decode_create_result =
     dbind (check_op_status ''CREATE'') (\<lambda>_.
     dbind skip_change_info4 (\<lambda>_.
     skip_bitmap4))"

definition encode_readlink :: "xdr_encoder \<Rightarrow> xdr_encoder" where
  "encode_readlink =
     put_uint32 OP_READLINK"

definition decode_readlink_result :: "cstring decoder" where
  "decode_readlink_result =
     dbind (check_op_status ''READLINK'') (\<lambda>_.
     get_string)"

subsection \<open>Cursor safety\<close>

lemma dec_safe_nfs4_types [safe_intros]:
  "dec_safe decode_nfs4fh" "dec_safe decode_stateid4" "dec_safe decode_nfstime4"
  "dec_safe skip_change_info4" "dec_safe decode_bitmap4" "dec_safe (check_op_status n)"
  unfolding decode_nfs4fh_def decode_stateid4_def decode_nfstime4_def skip_change_info4_def
    decode_bitmap4_def check_op_status_def by (intro safe_intros)+

lemma dec_safe_decode_fattr4 [safe_intros]: "dec_safe decode_fattr4"
proof -
  have "dec_safe (\<lambda>d. case v of Inl e \<Rightarrow> Inl e | Inr a \<Rightarrow> Inr (a :: Fattr4, d))" for v
    by (auto simp: dec_safe_def split: sum.splits)
  then show ?thesis unfolding decode_fattr4_def by (intro safe_intros)
qed

subsection \<open>readdir.cpp\<close>

record ReaddirPage4 =
  rp4_cookieverf :: "byte list"
  rp4_entries :: "Nfs4DirEntry list"
  rp4_eof :: bool

definition encode_readdir :: "u64 \<Rightarrow> byte list \<Rightarrow> u32 \<Rightarrow> u32 \<Rightarrow> u32 list \<Rightarrow> xdr_encoder \<Rightarrow> xdr_encoder" where
  "encode_readdir cookie cookieverf dircount maxcount attr_ids =
     steps [
     put_uint32 OP_READDIR,
     put_uint64 cookie,
     put_fixed_opaque cookieverf,
     put_uint32 dircount,
     put_uint32 maxcount,
     encode_attr_request attr_ids]"

definition decode_entry4 :: "Nfs4DirEntry decoder" where
  "decode_entry4 =
     dbind get_uint64 (\<lambda>cookie.
     dbind get_string (\<lambda>name.
     dbind decode_fattr4 (\<lambda>attrs.
     dreturn \<lparr>d4_cookie = cookie, d4_name = name, d4_attrs = attrs\<rparr>)))"

lemma dec_safe_decode_entry4 [safe_intros]: "dec_safe decode_entry4"
  unfolding decode_entry4_def by (intro safe_intros)

function decode_entries4 :: "Nfs4DirEntry list \<Rightarrow> Nfs4DirEntry list decoder" where
  "decode_entries4 acc d =
     (case get_uint32 d of
        Inl e \<Rightarrow> Inl e
      | Inr (v, d1) \<Rightarrow>
          if v \<noteq> 0 then
            (case decode_entry4 d1 of
               Inl e \<Rightarrow> Inl e
             | Inr (entry, d2) \<Rightarrow> decode_entries4 (acc @ [entry]) d2)
          else Inr (acc, d1))"
  by pat_completeness auto
termination
  by (relation "measure (\<lambda>(acc, d). remaining d)")
     (auto dest: loop_turn_shrinks [OF _ dec_safe_decode_entry4])

declare decode_entries4.simps [simp del]

definition decode_readdir_result :: "ReaddirPage4 decoder" where
  "decode_readdir_result =
     dbind (check_op_status ''READDIR'') (\<lambda>_.
     dbind (get_fixed_opaque 8) (\<lambda>cv.
     dbind (decode_entries4 []) (\<lambda>entries.
     dbind get_uint32 (\<lambda>eof.
     dreturn \<lparr>rp4_cookieverf = cv, rp4_entries = entries, rp4_eof = (eof \<noteq> 0)\<rparr>))))"

end
