(* ===== verification/Nfs4_Session.thy ===== *)
theory Nfs4_Session
  imports Nfs4_Ops
begin

text \<open>\<open>src/nfs4/session41.cpp\<close>: the operations that set up and use an NFSv4.1 session.\<close>

subsection \<open>EXCHANGE_ID\<close>

record ExchangeIdResult =
  xr_clientid :: u64
  xr_sequenceid :: u32

definition encode_exchange_id :: "byte list \<Rightarrow> cstring \<Rightarrow> xdr_encoder \<Rightarrow> xdr_encoder" where
  "encode_exchange_id verifier client_id =
     steps [
     put_uint32 OP_EXCHANGE_ID,
     put_fixed_opaque verifier,
     put_opaque client_id,
     put_uint32 0x00020000,
     put_uint32 0,
     put_uint32 0]"

text \<open>One element of \<open>eir_server_impl_id\<close>, skipped.\<close>

definition skip_impl_id :: "unit decoder" where
  "skip_impl_id =
     dbind get_opaque (\<lambda>domain.
     dbind get_opaque (\<lambda>name.
     dbind get_uint64 (\<lambda>seconds.
     dbind get_uint32 (\<lambda>nseconds.
     dreturn ()))))"

definition decode_exchange_id_result :: "ExchangeIdResult decoder" where
  "decode_exchange_id_result =
     dbind (check_op_status ''EXCHANGE_ID'') (\<lambda>_.
     dbind get_uint64 (\<lambda>clientid.
     dbind get_uint32 (\<lambda>sequenceid.
     dbind get_uint32 (\<lambda>flags.
     dbind get_uint32 (\<lambda>sprotect.
     dbind get_uint64 (\<lambda>so_minor_id.
     dbind get_opaque (\<lambda>so_major_id.
     dbind get_opaque (\<lambda>server_scope.
     dbind get_uint32 (\<lambda>impl_count.
     dbind (dtimes (unat impl_count) skip_impl_id) (\<lambda>_.
     dreturn \<lparr>xr_clientid = clientid, xr_sequenceid = sequenceid\<rparr>))))))))))"

subsection \<open>CREATE_SESSION\<close>

definition encode_channel_attrs :: "u32 \<Rightarrow> u32 \<Rightarrow> u32 \<Rightarrow> xdr_encoder \<Rightarrow> xdr_encoder" where
  "encode_channel_attrs maxrqst maxresp maxresp_cached =
     steps [
     put_uint32 0,
     put_uint32 maxrqst,
     put_uint32 maxresp,
     put_uint32 maxresp_cached,
     put_uint32 16,
     put_uint32 1,
     put_uint32 0]"

definition encode_create_session :: "u64 \<Rightarrow> u32 \<Rightarrow> xdr_encoder \<Rightarrow> xdr_encoder" where
  "encode_create_session clientid sequenceid =
     steps [
     put_uint32 OP_CREATE_SESSION,
     put_uint64 clientid,
     put_uint32 sequenceid,
     put_uint32 0,
     encode_channel_attrs 65536 65536 1024,
     encode_channel_attrs 4096 4096 256,
     put_uint32 0,
     put_uint32 1,
     put_uint32 0]"

definition decode_create_session_result :: "SessionId41 decoder" where
  "decode_create_session_result =
     dbind (check_op_status ''CREATE_SESSION'') (\<lambda>_.
     dbind (get_fixed_opaque 16) (\<lambda>sid.
     dbind get_uint32 (\<lambda>csr_sequence.
     dbind get_uint32 (\<lambda>csr_flags.
     dbind (dtimes 7 get_uint32) (\<lambda>fore_chan_attrs.
     dbind (dtimes 7 get_uint32) (\<lambda>back_chan_attrs.
     dreturn sid))))))"

subsection \<open>SEQUENCE\<close>

definition encode_sequence41 :: "SessionId41 \<Rightarrow> u32 \<Rightarrow> u32 \<Rightarrow> u32 \<Rightarrow> bool \<Rightarrow> xdr_encoder \<Rightarrow> xdr_encoder" where
  "encode_sequence41 sessionid sequenceid slotid highest_slotid cachethis =
     steps [
     put_uint32 OP_SEQUENCE,
     put_fixed_opaque sessionid,
     put_uint32 sequenceid,
     put_uint32 slotid,
     put_uint32 highest_slotid,
     put_uint32 (if cachethis then 1 else 0)]"

definition decode_sequence41_result :: "unit decoder" where
  "decode_sequence41_result =
     dbind (check_op_status ''SEQUENCE'') (\<lambda>_.
     dbind (get_fixed_opaque 16) (\<lambda>sessionid.
     dbind get_uint32 (\<lambda>sequenceid.
     dbind get_uint32 (\<lambda>slotid.
     dbind get_uint32 (\<lambda>highest_slotid.
     dbind get_uint32 (\<lambda>target_highest_slotid.
     dbind get_uint32 (\<lambda>status_flags.
     dreturn ())))))))"

subsection \<open>RECLAIM_COMPLETE, DESTROY_SESSION\<close>

definition encode_reclaim_complete :: "bool \<Rightarrow> xdr_encoder \<Rightarrow> xdr_encoder" where
  "encode_reclaim_complete one_fs =
     steps [
     put_uint32 OP_RECLAIM_COMPLETE,
     put_uint32 (if one_fs then 1 else 0)]"

definition decode_reclaim_complete_result :: "unit decoder" where
  "decode_reclaim_complete_result = check_op_status ''RECLAIM_COMPLETE''"

definition encode_destroy_session :: "SessionId41 \<Rightarrow> xdr_encoder \<Rightarrow> xdr_encoder" where
  "encode_destroy_session sessionid =
     steps [
     put_uint32 OP_DESTROY_SESSION,
     put_fixed_opaque sessionid]"

definition decode_destroy_session_result :: "unit decoder" where
  "decode_destroy_session_result = check_op_status ''DESTROY_SESSION''"

end
