(* ===== verification/Nfs4_Compound.thy ===== *)
theory Nfs4_Compound
  imports Nfs4_Attrs Nfs4_Session Peer
begin

text \<open>
  COMPOUND as a server of RFC 7530 and RFC 5661 sees it: the operations of a request (\<open>op4\<close>), how they
  stand on the wire and are read from it, the results (\<open>res4\<close>) and the reply that carries them.
\<close>

subsection \<open>Operations\<close>

text \<open>Attributes to set are kept as they came: a bitmap and the bytes of the values.\<close>

type_synonym raw_attrs = "u32 list \<times> byte list"

datatype op4 =
    Access4 u32
  | Close4 u32 Stateid4
  | Commit4 u64 u32
  | Mkdir4 cstring raw_attrs
  | Symlink4 cstring cstring raw_attrs
  | Getattr4 "u32 list"
  | Getfh4
  | Lookup4 cstring
  | Lookupp4
  | Open4 u32 u32 u32 u64 cstring "raw_attrs option" cstring
  | Open_confirm4 Stateid4 u32
  | Putfh4 Nfs4Fh
  | Putrootfh4
  | Read4 Stateid4 u64 u32
  | Readdir4 u64 "byte list" u32 u32 "u32 list"
  | Readlink4
  | Remove4 cstring
  | Rename4 cstring cstring
  | Renew4 u64
  | Restorefh4
  | Savefh4
  | Setattr4 Stateid4 raw_attrs
  | Setclientid4 "byte list" cstring u32 cstring cstring u32
  | Setclientid_confirm4 u64 "byte list"
  | Write4 Stateid4 u64 u32 "byte list"
  | Exchange_id4 "byte list" cstring u32
  | Create_session4 u64 u32 u32 "u32 list" "u32 list" u32
  | Destroy_session4 "byte list"
  | Reclaim_complete4 u32
  | Sequence4 "byte list" u32 u32 u32 u32

definition wire_raw :: "raw_attrs \<Rightarrow> byte list" where
  "wire_raw a = wire_bitmap4 (fst a) @ wire_opaque (snd a)"

definition wire_words :: "u32 list \<Rightarrow> byte list" where
  "wire_words ws = concat (map be32 ws)"

fun op_code :: "op4 \<Rightarrow> u32" where
  "op_code (Access4 m) = 3"
| "op_code (Close4 s sid) = 4"
| "op_code (Commit4 off n) = 5"
| "op_code (Mkdir4 n a) = 6"
| "op_code (Symlink4 t n a) = 6"
| "op_code (Getattr4 bm) = 9"
| "op_code Getfh4 = 10"
| "op_code (Lookup4 n) = 15"
| "op_code Lookupp4 = 16"
| "op_code (Open4 s acc deny cid own cr n) = 18"
| "op_code (Open_confirm4 sid s) = 20"
| "op_code (Putfh4 fh) = 22"
| "op_code Putrootfh4 = 24"
| "op_code (Read4 sid off n) = 25"
| "op_code (Readdir4 c cv dc mc bm) = 26"
| "op_code Readlink4 = 27"
| "op_code (Remove4 n) = 28"
| "op_code (Rename4 n n') = 29"
| "op_code (Renew4 cid) = 30"
| "op_code Restorefh4 = 31"
| "op_code Savefh4 = 32"
| "op_code (Setattr4 sid a) = 34"
| "op_code (Setclientid4 v i p net addr cb) = 35"
| "op_code (Setclientid_confirm4 cid v) = 36"
| "op_code (Write4 sid off st d) = 38"
| "op_code (Exchange_id4 v i f) = 42"
| "op_code (Create_session4 cid s f fore back p) = 43"
| "op_code (Destroy_session4 sid) = 44"
| "op_code (Reclaim_complete4 b) = 58"
| "op_code (Sequence4 sid s slot hi c) = 53"

fun op_body :: "op4 \<Rightarrow> byte list" where
  "op_body (Access4 m) = be32 m"
| "op_body (Close4 s sid) = be32 s @ wire_stateid4 sid"
| "op_body (Commit4 off n) = be64 off @ be32 n"
| "op_body (Mkdir4 n a) = be32 2 @ wire_opaque n @ wire_raw a"
| "op_body (Symlink4 t n a) = be32 5 @ wire_opaque t @ wire_opaque n @ wire_raw a"
| "op_body (Getattr4 bm) = wire_bitmap4 bm"
| "op_body (Lookup4 n) = wire_opaque n"
| "op_body (Open4 s acc deny cid own cr n) =
     be32 s @ be32 acc @ be32 deny @ be64 cid @ wire_opaque own @
     (case cr of None \<Rightarrow> be32 0 | Some a \<Rightarrow> be32 1 @ be32 0 @ wire_raw a) @ be32 0 @ wire_opaque n"
| "op_body (Open_confirm4 sid s) = wire_stateid4 sid @ be32 s"
| "op_body (Putfh4 fh) = wire_fh4 fh"
| "op_body (Read4 sid off n) = wire_stateid4 sid @ be64 off @ be32 n"
| "op_body (Readdir4 c cv dc mc bm) = be64 c @ wire_fixed cv @ be32 dc @ be32 mc @ wire_bitmap4 bm"
| "op_body (Remove4 n) = wire_opaque n"
| "op_body (Rename4 n n') = wire_opaque n @ wire_opaque n'"
| "op_body (Renew4 cid) = be64 cid"
| "op_body (Setattr4 sid a) = wire_stateid4 sid @ wire_raw a"
| "op_body (Setclientid4 v i p net addr cb) =
     wire_fixed v @ wire_opaque i @ be32 p @ wire_opaque net @ wire_opaque addr @ be32 cb"
| "op_body (Setclientid_confirm4 cid v) = be64 cid @ wire_fixed v"
| "op_body (Write4 sid off st d) = wire_stateid4 sid @ be64 off @ be32 st @ wire_opaque d"
| "op_body (Exchange_id4 v i f) = wire_fixed v @ wire_opaque i @ be32 f @ be32 0 @ be32 0"
| "op_body (Create_session4 cid s f fore back p) =
     be64 cid @ be32 s @ be32 f @ wire_words fore @ wire_words back @ be32 p @ be32 1 @ be32 0"
| "op_body (Destroy_session4 sid) = wire_fixed sid"
| "op_body (Reclaim_complete4 b) = be32 b"
| "op_body (Sequence4 sid s slot hi c) = wire_fixed sid @ be32 s @ be32 slot @ be32 hi @ be32 c"
| "op_body _ = []"

definition wire_op4 :: "op4 \<Rightarrow> byte list" where
  "wire_op4 op = be32 (op_code op) @ op_body op"

subsection \<open>Reading a request\<close>

definition BADXDR :: error where
  "BADXDR = RuntimeError ''NFS4ERR_BADXDR''"

definition get_raw :: "raw_attrs decoder" where
  "get_raw = dbind decode_bitmap4 (\<lambda>bm. dbind get_opaque (\<lambda>vals. dreturn (bm, vals)))"

text \<open>A word that has to have a certain value.\<close>

definition expect :: "u32 \<Rightarrow> unit decoder" where
  "expect v = dbind get_uint32 (\<lambda>x. throw_if (x \<noteq> v) BADXDR)"

text \<open>CREATE makes a directory or a link; OPEN creates unchecked or not at all, by name.\<close>

definition get_create :: "op4 decoder" where
  "get_create = dbind get_uint32 (\<lambda>t.
     if t = 2 then dbind get_string (\<lambda>n. dbind get_raw (\<lambda>a. dreturn (Mkdir4 n a)))
     else if t = 5 then
       dbind get_string (\<lambda>l. dbind get_string (\<lambda>n. dbind get_raw (\<lambda>a. dreturn (Symlink4 l n a))))
     else (\<lambda>_. Inl BADXDR))"

definition get_openflag :: "raw_attrs option decoder" where
  "get_openflag = dbind get_uint32 (\<lambda>t.
     if t = 0 then dreturn None
     else dbind (expect 0) (\<lambda>_. dbind get_raw (\<lambda>a. dreturn (Some a))))"

definition get_open :: "op4 decoder" where
  "get_open =
     dbind get_uint32 (\<lambda>s. dbind get_uint32 (\<lambda>acc. dbind get_uint32 (\<lambda>deny. dbind get_uint64 (\<lambda>cid.
     dbind get_opaque (\<lambda>own. dbind get_openflag (\<lambda>cr. dbind (expect 0) (\<lambda>_. dbind get_string (\<lambda>n.
     dreturn (Open4 s acc deny cid own cr n)))))))))"

text \<open>The arguments of an operation, by its code.\<close>

definition get_op_body :: "u32 \<Rightarrow> op4 decoder" where
  "get_op_body code =
    (if code = 3 then dbind get_uint32 (\<lambda>m. dreturn (Access4 m))
     else if code = 4 then dbind get_uint32 (\<lambda>s. dbind decode_stateid4 (\<lambda>sid. dreturn (Close4 s sid)))
     else if code = 5 then dbind get_uint64 (\<lambda>off. dbind get_uint32 (\<lambda>n. dreturn (Commit4 off n)))
     else if code = 6 then get_create
     else if code = 9 then dbind decode_bitmap4 (\<lambda>bm. dreturn (Getattr4 bm))
     else if code = 10 then dreturn Getfh4
     else if code = 15 then dbind get_string (\<lambda>n. dreturn (Lookup4 n))
     else if code = 16 then dreturn Lookupp4
     else if code = 18 then get_open
     else if code = 20 then dbind decode_stateid4 (\<lambda>sid. dbind get_uint32 (\<lambda>s. dreturn (Open_confirm4 sid s)))
     else if code = 22 then dbind decode_nfs4fh (\<lambda>fh. dreturn (Putfh4 fh))
     else if code = 24 then dreturn Putrootfh4
     else if code = 25 then
       dbind decode_stateid4 (\<lambda>sid. dbind get_uint64 (\<lambda>off. dbind get_uint32 (\<lambda>n. dreturn (Read4 sid off n))))
     else if code = 26 then
       dbind get_uint64 (\<lambda>c. dbind (get_fixed_opaque 8) (\<lambda>cv. dbind get_uint32 (\<lambda>dc. dbind get_uint32 (\<lambda>mc.
       dbind decode_bitmap4 (\<lambda>bm. dreturn (Readdir4 c cv dc mc bm))))))
     else if code = 27 then dreturn Readlink4
     else if code = 28 then dbind get_string (\<lambda>n. dreturn (Remove4 n))
     else if code = 29 then dbind get_string (\<lambda>n. dbind get_string (\<lambda>n'. dreturn (Rename4 n n')))
     else if code = 30 then dbind get_uint64 (\<lambda>cid. dreturn (Renew4 cid))
     else if code = 31 then dreturn Restorefh4
     else if code = 32 then dreturn Savefh4
     else if code = 34 then dbind decode_stateid4 (\<lambda>sid. dbind get_raw (\<lambda>a. dreturn (Setattr4 sid a)))
     else if code = 35 then
       dbind (get_fixed_opaque 8) (\<lambda>v. dbind get_opaque (\<lambda>i. dbind get_uint32 (\<lambda>p. dbind get_string (\<lambda>net.
       dbind get_string (\<lambda>addr. dbind get_uint32 (\<lambda>cb. dreturn (Setclientid4 v i p net addr cb)))))))
     else if code = 36 then
       dbind get_uint64 (\<lambda>cid. dbind (get_fixed_opaque 8) (\<lambda>v. dreturn (Setclientid_confirm4 cid v)))
     else if code = 38 then
       dbind decode_stateid4 (\<lambda>sid. dbind get_uint64 (\<lambda>off. dbind get_uint32 (\<lambda>st. dbind get_opaque (\<lambda>d.
       dreturn (Write4 sid off st d)))))
     else if code = 42 then
       dbind (get_fixed_opaque 8) (\<lambda>v. dbind get_opaque (\<lambda>i. dbind get_uint32 (\<lambda>f.
       dbind (expect 0) (\<lambda>_. dbind (expect 0) (\<lambda>_. dreturn (Exchange_id4 v i f))))))
     else if code = 43 then
       dbind get_uint64 (\<lambda>cid. dbind get_uint32 (\<lambda>s. dbind get_uint32 (\<lambda>f.
       dbind (dtimes 7 get_uint32) (\<lambda>fore. dbind (dtimes 7 get_uint32) (\<lambda>back.
       dbind get_uint32 (\<lambda>p. dbind (expect 1) (\<lambda>_. dbind (expect 0) (\<lambda>_.
       dreturn (Create_session4 cid s f fore back p)))))))))
     else if code = 44 then dbind (get_fixed_opaque 16) (\<lambda>sid. dreturn (Destroy_session4 sid))
     else if code = 53 then
       dbind (get_fixed_opaque 16) (\<lambda>sid. dbind get_uint32 (\<lambda>s. dbind get_uint32 (\<lambda>slot.
       dbind get_uint32 (\<lambda>hi. dbind get_uint32 (\<lambda>c. dreturn (Sequence4 sid s slot hi c))))))
     else if code = 58 then dbind get_uint32 (\<lambda>b. dreturn (Reclaim_complete4 b))
     else (\<lambda>_. Inl BADXDR))"

definition get_op4 :: "op4 decoder" where
  "get_op4 = dbind get_uint32 get_op_body"

definition small :: "'a list \<Rightarrow> bool" where
  "small xs \<longleftrightarrow> length xs < 2 ^ 32"

definition raw_ok :: "raw_attrs \<Rightarrow> bool" where
  "raw_ok a \<longleftrightarrow> small (fst a) \<and> small (snd a)"

fun op4_ok :: "op4 \<Rightarrow> bool" where
  "op4_ok (Close4 s sid) = stateid_ok sid"
| "op4_ok (Mkdir4 n a) = (small n \<and> raw_ok a)"
| "op4_ok (Symlink4 t n a) = (small t \<and> small n \<and> raw_ok a)"
| "op4_ok (Getattr4 bm) = small bm"
| "op4_ok (Lookup4 n) = small n"
| "op4_ok (Open4 s acc deny cid own cr n) = (small own \<and> pred_option raw_ok cr \<and> small n)"
| "op4_ok (Open_confirm4 sid s) = stateid_ok sid"
| "op4_ok (Putfh4 fh) = fh4_ok fh"
| "op4_ok (Read4 sid off n) = stateid_ok sid"
| "op4_ok (Readdir4 c cv dc mc bm) = (length cv = 8 \<and> small bm)"
| "op4_ok (Remove4 n) = small n"
| "op4_ok (Rename4 n n') = (small n \<and> small n')"
| "op4_ok (Setattr4 sid a) = (stateid_ok sid \<and> raw_ok a)"
| "op4_ok (Setclientid4 v i p net addr cb) = (length v = 8 \<and> small i \<and> small net \<and> small addr)"
| "op4_ok (Setclientid_confirm4 cid v) = (length v = 8)"
| "op4_ok (Write4 sid off st d) = (stateid_ok sid \<and> small d)"
| "op4_ok (Exchange_id4 v i f) = (length v = 8 \<and> small i)"
| "op4_ok (Create_session4 cid s f fore back p) = (length fore = 7 \<and> length back = 7)"
| "op4_ok (Destroy_session4 sid) = (length sid = 16)"
| "op4_ok (Sequence4 sid s slot hi c) = (length sid = 16)"
| "op4_ok _ = True"

interpretation rawc: wire_codec raw_ok wire_raw get_raw
  by unfold_locales (simp add: get_raw_def wire_raw_def raw_ok_def small_def eff_simps at_simps)

lemma expect_at: "expect v (at pre (be32 v @ rest)) = Inr ((), at (pre @ be32 v) rest)"
  by (simp add: expect_def eff_simps at_simps)

lemma wire_words_at: "length ws = n \<Longrightarrow>
   dtimes n get_uint32 (at pre (wire_words ws @ rest)) = Inr (ws, at (pre @ wire_words ws) rest)"
  using u32c.dtimes_enc [where xs = ws and pre = pre and rest = rest] by (simp add: wire_words_def list_all_def)

lemma get_openflag_at: "pred_option raw_ok cr \<Longrightarrow>
   get_openflag (at pre ((case cr of None \<Rightarrow> be32 0 | Some a \<Rightarrow> be32 1 @ be32 0 @ wire_raw a) @ rest)) =
   Inr (cr, at (pre @ (case cr of None \<Rightarrow> be32 0 | Some a \<Rightarrow> be32 1 @ be32 0 @ wire_raw a)) rest)"
  by (cases cr) (simp_all add: get_openflag_def eff_simps at_simps expect_at rawc.dec_enc)

lemma get_op_body_at: "op4_ok op \<Longrightarrow>
   get_op_body (op_code op) (at pre (op_body op @ rest)) = Inr (op, at (pre @ op_body op) rest)"
  by (cases op)
     (simp_all add: get_op_body_def get_create_def get_open_def eff_simps at_simps small_def
        expect_at wire_words_at get_openflag_at rawc.dec_enc)

interpretation op4c: wire_codec op4_ok wire_op4 get_op4
  by unfold_locales (simp add: get_op4_def wire_op4_def eff_simps at_simps get_op_body_at)

subsection \<open>Results\<close>

text \<open>RFC 7530, section 16.16: a write delegation limits the file's size, or the blocks it may grow by.\<close>

datatype limit4 = Size_limit u64 | Block_limit u32 u32

type_synonym ace4 = "u32 \<times> u32 \<times> u32 \<times> cstring"

datatype delegation4 =
    No_delegation
  | Read_delegation Stateid4 bool ace4
  | Write_delegation Stateid4 bool limit4 ace4

record cinfo4 =
  ci_atomic :: bool
  ci_before :: u64
  ci_after :: u64

datatype res4 =
    Done_r
  | Fh_r Nfs4Fh
  | Attrs_r wire_attrs4
  | Allowed_r u32 u32
  | Opened_r Stateid4 cinfo4 u32 "u32 list" delegation4
  | State_r Stateid4
  | Data_r bool "byte list"
  | Written_r Nfs4WriteResult
  | Verf_r "byte list"
  | Changed_r cinfo4
  | Renamed_r cinfo4 cinfo4
  | Set_r "u32 list"
  | Created_r cinfo4 "u32 list"
  | Target_r cstring
  | Page_r ReaddirPage4
  | Clientid_r u64 "byte list"
  | Exchanged_r u64 u32 u32 u64 "byte list" "byte list" "(byte list \<times> byte list \<times> u64 \<times> u32) option"
  | Session_r "byte list" u32 u32 "u32 list" "u32 list"
  | Sequence_r "byte list" u32 u32 u32 u32 u32

definition wire_flag :: "bool \<Rightarrow> byte list" where
  "wire_flag b = be32 (if b then 1 else 0)"

definition wire_cinfo :: "cinfo4 \<Rightarrow> byte list" where
  "wire_cinfo c = wire_flag (ci_atomic c) @ be64 (ci_before c) @ be64 (ci_after c)"

definition wire_ace :: "ace4 \<Rightarrow> byte list" where
  "wire_ace = (\<lambda>(t, f, m, who). be32 t @ be32 f @ be32 m @ wire_opaque who)"

definition ace_ok :: "ace4 \<Rightarrow> bool" where
  "ace_ok = (\<lambda>(t, f, m, who). small who)"

fun wire_limit :: "limit4 \<Rightarrow> byte list" where
  "wire_limit (Size_limit n) = be32 1 @ be64 n"
| "wire_limit (Block_limit n b) = be32 2 @ be32 n @ be32 b"

fun wire_delegation :: "delegation4 \<Rightarrow> byte list" where
  "wire_delegation No_delegation = be32 0"
| "wire_delegation (Read_delegation sid recall ace) =
     be32 1 @ wire_stateid4 sid @ wire_flag recall @ wire_ace ace"
| "wire_delegation (Write_delegation sid recall limit ace) =
     be32 2 @ wire_stateid4 sid @ wire_flag recall @ wire_limit limit @ wire_ace ace"

fun delegation_ok :: "delegation4 \<Rightarrow> bool" where
  "delegation_ok No_delegation = True"
| "delegation_ok (Read_delegation sid recall ace) = (stateid_ok sid \<and> ace_ok ace)"
| "delegation_ok (Write_delegation sid recall limit ace) = (stateid_ok sid \<and> ace_ok ace)"

text \<open>An entry's bitmap says which of its attributes are there.\<close>

definition fattr4_ids :: "Fattr4 \<Rightarrow> u32 list" where
  "fattr4_ids a =
     id_if (f4_type a) 1 @ id_if (f4_change a) 3 @ id_if (f4_size a) 4 @ id_if (f4_fileid a) 20 @
     id_if (f4_mode a) 33 @ id_if (f4_numlinks a) 35 @ id_if (f4_owner a) 36 @
     id_if (f4_owner_group a) 37 @ id_if (f4_space_used a) 45 @ id_if (f4_time_access a) 47 @
     id_if (f4_time_metadata a) 52 @ id_if (f4_time_modify a) 53 @ id_if (f4_mounted_on_fileid a) 55"

definition own_attrs :: "Fattr4 \<Rightarrow> wire_attrs4" where
  "own_attrs a = (make_bitmap4 (fattr4_ids a), a, None)"

definition fattr4_ok :: "Fattr4 \<Rightarrow> bool" where
  "fattr4_ok a \<longleftrightarrow> length (wire_attrlist a None) < 2 ^ 32 \<and>
     pred_option (\<lambda>s. length s < 2 ^ 32) (f4_owner a) \<and> pred_option (\<lambda>s. length s < 2 ^ 32) (f4_owner_group a)"

definition wire_entry4 :: "Nfs4DirEntry \<Rightarrow> byte list" where
  "wire_entry4 e = be64 (d4_cookie e) @ wire_opaque (d4_name e) @ wire_fattr4 (own_attrs (d4_attrs e))"

definition entry4_ok :: "Nfs4DirEntry \<Rightarrow> bool" where
  "entry4_ok e \<longleftrightarrow> small (d4_name e) \<and> fattr4_ok (d4_attrs e)"

fun res_body :: "res4 \<Rightarrow> byte list" where
  "res_body Done_r = []"
| "res_body (Fh_r fh) = wire_fh4 fh"
| "res_body (Attrs_r a) = wire_fattr4 a"
| "res_body (Allowed_r s m) = be32 s @ be32 m"
| "res_body (Opened_r sid c fl bm d) =
     wire_stateid4 sid @ wire_cinfo c @ be32 fl @ wire_bitmap4 bm @ wire_delegation d"
| "res_body (State_r sid) = wire_stateid4 sid"
| "res_body (Data_r eof d) = wire_flag eof @ wire_opaque d"
| "res_body (Written_r r) = be32 (w4_count r) @ be32 (w4_committed r) @ wire_fixed (w4_verf r)"
| "res_body (Verf_r v) = wire_fixed v"
| "res_body (Changed_r c) = wire_cinfo c"
| "res_body (Renamed_r c c') = wire_cinfo c @ wire_cinfo c'"
| "res_body (Set_r bm) = wire_bitmap4 bm"
| "res_body (Created_r c bm) = wire_cinfo c @ wire_bitmap4 bm"
| "res_body (Target_r t) = wire_opaque t"
| "res_body (Page_r p) =
     wire_fixed (rp4_cookieverf p) @ wire_follows wire_entry4 (rp4_entries p) @ wire_flag (rp4_eof p)"
| "res_body (Clientid_r cid v) = be64 cid @ wire_fixed v"
| "res_body (Exchanged_r cid s fl mi ma sc impl) =
     be64 cid @ be32 s @ be32 fl @ be32 0 @ be64 mi @ wire_opaque ma @ wire_opaque sc @
     (case impl of None \<Rightarrow> be32 0
      | Some (dm, nm, sec, nsec) \<Rightarrow> be32 1 @ wire_opaque dm @ wire_opaque nm @ be64 sec @ be32 nsec)"
| "res_body (Session_r sid s fl fore back) = wire_fixed sid @ be32 s @ be32 fl @ wire_words fore @ wire_words back"
| "res_body (Sequence_r sid s slot hi thi fl) =
     wire_fixed sid @ be32 s @ be32 slot @ be32 hi @ be32 thi @ be32 fl"

text \<open>The result of an operation that succeeded, and the kind of result each operation has.\<close>

definition wire_res4 :: "op4 \<Rightarrow> res4 \<Rightarrow> byte list" where
  "wire_res4 op r = be32 (op_code op) @ be32 0 @ res_body r"

fun fits4 :: "op4 \<Rightarrow> res4 \<Rightarrow> bool" where
  "fits4 (Access4 m) r = (\<exists>s a. r = Allowed_r s a)"
| "fits4 (Close4 s sid) r = (\<exists>sid'. r = State_r sid' \<and> stateid_ok sid')"
| "fits4 (Commit4 off n) r = (\<exists>v. r = Verf_r v \<and> length v = 8)"
| "fits4 (Mkdir4 n a) r = (\<exists>c bm. r = Created_r c bm \<and> small bm)"
| "fits4 (Symlink4 t n a) r = (\<exists>c bm. r = Created_r c bm \<and> small bm)"
| "fits4 (Getattr4 bm) r = (\<exists>a. r = Attrs_r a \<and> attrs4_ok a)"
| "fits4 Getfh4 r = (\<exists>fh. r = Fh_r fh \<and> fh4_ok fh)"
| "fits4 (Open4 s acc deny cid own cr n) r =
     (\<exists>sid c fl bm d. r = Opened_r sid c fl bm d \<and> stateid_ok sid \<and> small bm \<and> delegation_ok d)"
| "fits4 (Open_confirm4 sid s) r = (\<exists>sid'. r = State_r sid' \<and> stateid_ok sid')"
| "fits4 (Read4 sid off n) r = (\<exists>eof d. r = Data_r eof d \<and> small d)"
| "fits4 (Readdir4 c cv dc mc bm) r =
     (\<exists>p. r = Page_r p \<and> length (rp4_cookieverf p) = 8 \<and> list_all entry4_ok (rp4_entries p))"
| "fits4 Readlink4 r = (\<exists>t. r = Target_r t \<and> small t)"
| "fits4 (Remove4 n) r = (\<exists>c. r = Changed_r c)"
| "fits4 (Rename4 n n') r = (\<exists>c c'. r = Renamed_r c c')"
| "fits4 (Setattr4 sid a) r = (\<exists>bm. r = Set_r bm \<and> small bm)"
| "fits4 (Setclientid4 v i p net addr cb) r = (\<exists>cid v'. r = Clientid_r cid v' \<and> length v' = 8)"
| "fits4 (Write4 sid off st d) r = (\<exists>w. r = Written_r w \<and> length (w4_verf w) = 8)"
| "fits4 (Exchange_id4 v i f) r =
     (\<exists>cid s fl mi ma sc impl. r = Exchanged_r cid s fl mi ma sc impl \<and> small ma \<and> small sc \<and>
        pred_option (\<lambda>(dm, nm, _). small dm \<and> small nm) impl)"
| "fits4 (Create_session4 cid s f fore back p) r =
     (\<exists>sid s' fl fore' back'. r = Session_r sid s' fl fore' back' \<and> length sid = 16 \<and> length fore' = 7 \<and>
        length back' = 7)"
| "fits4 (Sequence4 sid s slot hi c) r =
     (\<exists>sid' s' slot' hi' thi fl. r = Sequence_r sid' s' slot' hi' thi fl \<and> length sid' = 16)"
| "fits4 _ r = (r = Done_r)"

subsection \<open>Reading a result\<close>

lemma check_op_status_at:
  "check_op_status name (at pre (be32 code @ be32 0 @ rest)) = Inr ((), at (pre @ be32 code @ be32 0) rest)"
  by (simp add: check_op_status_def eff_simps at_simps)

lemma check_op_status_res [at_simps]:
  "check_op_status name (at pre (wire_res4 op r @ rest)) =
   Inr ((), at (pre @ be32 (op_code op) @ be32 0) (res_body r @ rest))"
  using check_op_status_at [of name pre "op_code op" "res_body r @ rest"] by (simp add: wire_res4_def)

lemma skip_bitmap4_at: "small bm \<Longrightarrow>
   skip_bitmap4 (at pre (wire_bitmap4 bm @ rest)) = Inr ((), at (pre @ wire_bitmap4 bm) rest)"
  by (simp add: small_def skip_bitmap4_def wire_bitmap4_def eff_simps at_simps length_word_of_nat
      u32c.dtimes_enc list_all_def)

lemma skip_change_info4_at:
  "skip_change_info4 (at pre (wire_cinfo c @ rest)) = Inr ((), at (pre @ wire_cinfo c) rest)"
  by (simp add: skip_change_info4_def wire_cinfo_def wire_flag_def eff_simps at_simps)

lemma skip_nfsace4_at: "ace_ok ace \<Longrightarrow>
   skip_nfsace4 (at pre (wire_ace ace @ rest)) = Inr ((), at (pre @ wire_ace ace) rest)"
  by (cases ace) (simp add: skip_nfsace4_def wire_ace_def ace_ok_def small_def eff_simps at_simps)

text \<open>Whatever the server delegates is skipped: a limit is a word and eight bytes either way.\<close>

lemma wire_limit_eq: "\<exists>k x y. wire_limit l = be32 k @ be32 x @ be32 y"
  by (cases l) (auto simp: be64_be32)

lemma skip_delegation_at:
  assumes "delegation_ok d"
  shows "skip_delegation (at pre (wire_delegation d @ rest)) = Inr ((), at (pre @ wire_delegation d) rest)"
proof (cases d)
  case (Write_delegation sid recall limit ace)
  obtain k x y where l: "wire_limit limit = be32 k @ be32 x @ be32 y" using wire_limit_eq by blast
  show ?thesis
    using assms by (simp add: Write_delegation skip_delegation_def wire_flag_def l eff_simps at_simps skip_nfsace4_at)
qed (use assms in \<open>simp_all add: skip_delegation_def wire_flag_def eff_simps at_simps skip_nfsace4_at\<close>)

lemma own_attrs_ok: "fattr4_ok a \<Longrightarrow> attrs4_ok (own_attrs a)"
  using length_make_bitmap4 [of "fattr4_ids a"]
  by (simp add: fattr4_ok_def own_attrs_def attrs4_ok_def bitmap_fits_def bitmap4_test_make fattr4_ids_def id_if_simps)

interpretation entry4c: wire_codec entry4_ok wire_entry4 decode_entry4
  by unfold_locales
     (simp add: decode_entry4_def wire_entry4_def entry4_ok_def small_def eff_simps at_simps own_attrs_ok,
      simp add: own_attrs_def)

interpretation entries4: follows_loop entry4_ok wire_entry4 decode_entry4 decode_entries4
  by unfold_locales
     (rule dec_safe_decode_entry4,
      simp add: decode_entries4.simps split: sum.split)

lemma flag_nonzero: "(if b then 1 else 0) \<noteq> (0 :: u32) \<longleftrightarrow> b"
  by simp

end
