(* ===== verification/Nfs4_Client.thy ===== *)
theory Nfs4_Client
  imports Nfs4_Ops Mount Paging
begin

text \<open>
  \<open>src/nfs4_client.cpp\<close>: the NFSv4.0 client. Its state is the connection, the clientid of the
  SETCLIENTID handshake and the sequence number of its one open owner; every operation is one
  COMPOUND, except \<open>do_open\<close> (retries during the server's grace period, then perhaps a second
  COMPOUND) and \<open>readdir\<close> (a COMPOUND per page).
\<close>

record Nfs4Client =
  n40_host :: string
  n40_rpc :: rpc_client
  n40_root_fh :: Nfs4Fh
  n40_clientid :: u64
  n40_open_seqid :: u32

type_synonym 'w nfs4_state = "Nfs4Client \<times> 'w"

definition on_rpc4 :: "('w rpc_state, 'a) io \<Rightarrow> ('w nfs4_state, 'a) io" where
  "on_rpc4 = io_zoom (\<lambda>(c, w). (n40_rpc c, w)) (\<lambda>(r, w) (c, _). (c\<lparr>n40_rpc := r\<rparr>, w))"

definition compound4 :: "'w os \<Rightarrow> cstring \<Rightarrow> byte list \<Rightarrow> u32 \<Rightarrow> ('w nfs4_state, byte list) io" where
  "compound4 os tag ops_bytes num_ops = on_rpc4 (call_compound os tag ops_bytes num_ops 0)"

subsection \<open>Construction\<close>

text \<open>\<open>for (int i = 7; i >= 0; --i) { verifier[i] = now & 0xFF; now >>= 8; }\<close>\<close>

fun verifier_loop :: "nat \<Rightarrow> u64 \<Rightarrow> byte list \<Rightarrow> byte list" where
  "verifier_loop 0 now verifier = verifier"
| "verifier_loop (Suc i) now verifier =
     verifier_loop i (signed_drop_bit 8 now) (verifier[i := ucast (now AND 0xFF)])"

definition boot_verifier :: "u64 \<Rightarrow> byte list" where
  "boot_verifier now = verifier_loop 8 now (replicate 8 0)"

definition do_setclientid_confirm :: "'w os \<Rightarrow> ('w rpc_state, u64) io" where
  "do_setclientid_confirm os =
     io_bind (on_world (io_call (os_now os))) (\<lambda>now.
     let ops = encode (encode_setclientid (boot_verifier now) (bytes_of ''nfsclient-v4'') 0) in
     io_bind (call_compound os (bytes_of ''init'') ops 1 0) (\<lambda>reply.
     io_bind (io_lift (decode (
       dbind check_compound_status (\<lambda>_.
       decode_setclientid_result)) reply)) (\<lambda>r.
     let ops2 = encode (encode_setclientid_confirm (scr_clientid r) (scr_confirm_verifier r)) in
     io_bind (call_compound os (bytes_of ''init'') ops2 1 0) (\<lambda>reply2.
     io_bind (io_lift (decode (
       dbind check_compound_status (\<lambda>_.
       decode_setclientid_confirm_result)) reply2)) (\<lambda>_.
     io_return (scr_clientid r))))))"

text \<open>The root is the empty file handle; the one the server returns is dropped.\<close>

definition root_sentinel :: Nfs4Fh where
  "root_sentinel = \<lparr>fh4_data = []\<rparr>"

definition do_get_root_fh :: "'w os \<Rightarrow> ('w rpc_state, Nfs4Fh) io" where
  "do_get_root_fh os =
     (let ops = encode (steps [encode_putrootfh, encode_getfh]) in
     io_bind (call_compound os [] ops 2 0) (\<lambda>reply.
     io_bind (io_lift (decode (
       dbind check_compound_status (\<lambda>_.
       dbind decode_putrootfh_result (\<lambda>_.
       decode_getfh_result)) ) reply)) (\<lambda>_.
     io_return root_sentinel)))"

definition encode_fh4 :: "Nfs4Fh \<Rightarrow> xdr_encoder \<Rightarrow> xdr_encoder" where
  "encode_fh4 fh = (if fh4_data fh = [] then encode_putrootfh else encode_putfh fh)"

definition Nfs4Client_ctor :: "'w os \<Rightarrow> string \<Rightarrow> ('w, Nfs4Client) io" where
  "Nfs4Client_ctor os host =
     io_bind (getport os host NFS4_PROG NFS4_VERS) (\<lambda>port.
     io_bind (construct_rpc os host port (
       io_bind (do_setclientid_confirm os) (\<lambda>clientid.
       io_bind (do_get_root_fh os) (\<lambda>root_fh.
       io_return (clientid, root_fh))))) (\<lambda>(rpc, clientid, root_fh).
     io_return \<lparr>n40_host = host, n40_rpc = rpc, n40_root_fh = root_fh, n40_clientid = clientid,
                n40_open_seqid = 0\<rparr>))"

definition Nfs4Client_auth :: "'w os \<Rightarrow> string \<Rightarrow> AuthSys \<Rightarrow> ('w, Nfs4Client) io" where
  "Nfs4Client_auth os host auth =
     io_bind (getport os host NFS4_PROG NFS4_VERS) (\<lambda>port.
     io_bind (construct_rpc os host port (
       io_bind (on_client (rpc_set_auth_sys auth)) (\<lambda>_.
       io_bind (do_setclientid_confirm os) (\<lambda>clientid.
       io_bind (do_get_root_fh os) (\<lambda>root_fh.
       io_return (clientid, root_fh)))))) (\<lambda>(rpc, clientid, root_fh).
     io_return \<lparr>n40_host = host, n40_rpc = rpc, n40_root_fh = root_fh, n40_clientid = clientid,
                n40_open_seqid = 0\<rparr>))"

definition Nfs4Client_set_auth_sys :: "AuthSys \<Rightarrow> Nfs4Client \<Rightarrow> Nfs4Client" where
  "Nfs4Client_set_auth_sys auth c = c\<lparr>n40_rpc := rpc_set_auth_sys auth (n40_rpc c)\<rparr>"

definition Nfs4Client_clear_auth :: "Nfs4Client \<Rightarrow> Nfs4Client" where
  "Nfs4Client_clear_auth c = c\<lparr>n40_rpc := rpc_clear_auth (n40_rpc c)\<rparr>"

fun is_grace :: "error \<Rightarrow> bool" where
  "is_grace (Nfs4Error status op) = (status = NFS4ERR_GRACE)"
| "is_grace _ = False"

subsection \<open>File handle operations\<close>

definition Nfs4Client_lookup :: "'w os \<Rightarrow> Nfs4Fh \<Rightarrow> cstring \<Rightarrow> ('w nfs4_state, Nfs4Fh) io" where
  "Nfs4Client_lookup os dir name =
     (let ops = encode (steps [
            encode_fh4 dir,
            encode_lookup name,
            encode_getfh]) in
     io_bind (compound4 os [] ops 3) (\<lambda>reply.
     io_lift (decode (
     dbind check_compound_status (\<lambda>_.
     dbind decode_putfh_result (\<lambda>_.
     dbind decode_lookup_result (\<lambda>_.
     decode_getfh_result)))) reply)))"

definition Nfs4Client_getattr :: "'w os \<Rightarrow> Nfs4Fh \<Rightarrow> ('w nfs4_state, Fattr4) io" where
  "Nfs4Client_getattr os fh =
     (let ops = encode (steps [
            encode_fh4 fh,
            encode_getattr
              [ATTR_TYPE, ATTR_CHANGE, ATTR_SIZE, ATTR_FILEID, ATTR_MODE, ATTR_NUMLINKS, ATTR_OWNER,
               ATTR_OWNER_GROUP, ATTR_TIME_ACCESS, ATTR_TIME_METADATA, ATTR_TIME_MODIFY]]) in
     io_bind (compound4 os [] ops 2) (\<lambda>reply.
     io_lift (decode (
     dbind check_compound_status (\<lambda>_.
     dbind decode_putfh_result (\<lambda>_.
     decode_getattr_result))) reply)))"

definition Nfs4Client_access :: "'w os \<Rightarrow> Nfs4Fh \<Rightarrow> u32 \<Rightarrow> ('w nfs4_state, u32) io" where
  "Nfs4Client_access os fh access_mask =
     (let ops = encode (steps [
            encode_fh4 fh,
            encode_access access_mask]) in
     io_bind (compound4 os [] ops 2) (\<lambda>reply.
     io_lift (decode (
     dbind check_compound_status (\<lambda>_.
     dbind decode_putfh_result (\<lambda>_.
     dbind decode_access_result (\<lambda>r. dreturn (ac_access r))))) reply)))"

subsection \<open>Open and close\<close>

text \<open>The COMPOUND that \<open>do_open\<close> sends, the same in every turn of its retry loop.\<close>

definition Nfs4Client_open_ops ::
  "Nfs4Client \<Rightarrow> Nfs4Fh \<Rightarrow> cstring \<Rightarrow> u32 \<Rightarrow> bool \<Rightarrow> u32 \<Rightarrow> byte list" where
  "Nfs4Client_open_ops c dir name share_access create seqid = encode (steps [
     encode_fh4 dir,
     (if create
      then encode_open_create seqid share_access (n40_clientid c)
             (bytes_of ''nfsclient-v4'') name Sattr4_default
      else encode_open_nocreate seqid share_access (n40_clientid c)
             (bytes_of ''nfsclient-v4'') name),
     encode_getfh])"

text \<open>The retry loop: \<open>NFS4ERR_GRACE\<close> sleeps and tries again, for as long as it takes.\<close>

partial_function (option) Nfs4Client_open_loop ::
  "'w os \<Rightarrow> Nfs4Fh \<Rightarrow> cstring \<Rightarrow> u32 \<Rightarrow> bool \<Rightarrow> u32 \<Rightarrow> 'w nfs4_state \<Rightarrow>
   ((error + byte list) \<times> 'w nfs4_state) option" where
  "Nfs4Client_open_loop os dir name share_access create seqid s =
     io_bind (compound4 os [] (Nfs4Client_open_ops (fst s) dir name share_access create seqid) 3) (\<lambda>reply s'.
     case decode check_compound_status reply of
       Inr _ \<Rightarrow> io_return reply s'
     | Inl e \<Rightarrow>
         (if is_grace e
          then Nfs4Client_open_loop os dir name share_access create seqid (fst s', os_sleep os 5 (snd s'))
          else io_throw e s')) s"

definition decode_open_reply :: "byte list \<Rightarrow> error + Open4Result \<times> Nfs4Fh" where
  "decode_open_reply reply = decode (
     dbind check_compound_status (\<lambda>_.
     dbind decode_putfh_result (\<lambda>_.
     dbind decode_open_result (\<lambda>open_res.
     dbind decode_getfh_result (\<lambda>fh.
     dreturn (open_res, fh))))) ) reply"

text \<open>\<open>++open_seqid_\<close>\<close>

definition next_open_seqid :: "('w nfs4_state, u32) io" where
  "next_open_seqid =
     io_bind (io_modify (\<lambda>(c, w). (c\<lparr>n40_open_seqid := n40_open_seqid c + 1\<rparr>, w))) (\<lambda>_.
     io_get (\<lambda>(c, w). n40_open_seqid c))"

definition Nfs4Client_open_confirm :: "'w os \<Rightarrow> Nfs4File \<Rightarrow> ('w nfs4_state, Nfs4File) io" where
  "Nfs4Client_open_confirm os f =
     io_bind next_open_seqid (\<lambda>confirm_seqid.
     let ops2 = encode (steps [
           encode_fh4 (nf_fh f),
           encode_open_confirm (nf_stateid f) confirm_seqid]) in
     io_bind (compound4 os [] ops2 2) (\<lambda>reply2.
     io_bind (io_lift (decode (
       dbind check_compound_status (\<lambda>_.
       dbind decode_putfh_result (\<lambda>_.
       decode_open_confirm_result)) ) reply2)) (\<lambda>stateid.
     io_return (f\<lparr>nf_stateid := stateid, nf_seqid := confirm_seqid\<rparr>))))"

definition Nfs4Client_do_open ::
  "'w os \<Rightarrow> Nfs4Fh \<Rightarrow> cstring \<Rightarrow> u32 \<Rightarrow> bool \<Rightarrow> ('w nfs4_state, Nfs4File) io" where
  "Nfs4Client_do_open os dir name share_access create =
     io_bind next_open_seqid (\<lambda>seqid.
     io_bind (Nfs4Client_open_loop os dir name share_access create seqid) (\<lambda>reply.
     io_bind (io_lift (decode_open_reply reply)) (\<lambda>(open_res, fh).
     let f = \<lparr>nf_fh = fh, nf_stateid = or_stateid open_res, nf_seqid = seqid\<rparr> in
     if or_rflags open_res AND OPEN4_RESULT_CONFIRM \<noteq> 0
     then Nfs4Client_open_confirm os f
     else io_return f)))"

definition Nfs4Client_open_read :: "'w os \<Rightarrow> Nfs4Fh \<Rightarrow> cstring \<Rightarrow> ('w nfs4_state, Nfs4File) io" where
  "Nfs4Client_open_read os dir name = Nfs4Client_do_open os dir name OPEN4_SHARE_ACCESS_READ False"

definition Nfs4Client_open_write :: "'w os \<Rightarrow> Nfs4Fh \<Rightarrow> cstring \<Rightarrow> bool \<Rightarrow> ('w nfs4_state, Nfs4File) io" where
  "Nfs4Client_open_write os dir name create = Nfs4Client_do_open os dir name OPEN4_SHARE_ACCESS_WRITE create"

definition Nfs4Client_close :: "'w os \<Rightarrow> Nfs4File \<Rightarrow> ('w nfs4_state, unit) io" where
  "Nfs4Client_close os f =
     (let ops = encode (steps [
            encode_fh4 (nf_fh f),
            encode_close (nf_seqid f) (nf_stateid f)]) in
     io_bind (compound4 os [] ops 2) (\<lambda>reply.
     io_lift (decode (
     dbind check_compound_status (\<lambda>_.
     dbind decode_putfh_result (\<lambda>_.
     decode_close_result))) reply)))"

subsection \<open>Data operations\<close>

definition Nfs4Client_read :: "'w os \<Rightarrow> Nfs4File \<Rightarrow> u64 \<Rightarrow> u32 \<Rightarrow> ('w nfs4_state, byte list) io" where
  "Nfs4Client_read os f off count =
     (let ops = encode (steps [
            encode_fh4 (nf_fh f),
            encode_read (nf_stateid f) off count]) in
     io_bind (compound4 os [] ops 2) (\<lambda>reply.
     io_lift (decode (
     dbind check_compound_status (\<lambda>_.
     dbind decode_putfh_result (\<lambda>_.
     decode_read_result))) reply)))"

definition Nfs4Client_write :: "'w os \<Rightarrow> Nfs4File \<Rightarrow> u64 \<Rightarrow> Stable4 \<Rightarrow> byte list \<Rightarrow> ('w nfs4_state, u32) io" where
  "Nfs4Client_write os f off how data =
     (let ops = encode (steps [
            encode_fh4 (nf_fh f),
            encode_write (nf_stateid f) off how data]) in
     io_bind (compound4 os [] ops 2) (\<lambda>reply.
     io_lift (decode (
     dbind check_compound_status (\<lambda>_.
     dbind decode_putfh_result (\<lambda>_.
     dbind decode_write_result (\<lambda>r. dreturn (w4_count r))))) reply)))"

definition Nfs4Client_commit :: "'w os \<Rightarrow> Nfs4File \<Rightarrow> u64 \<Rightarrow> u32 \<Rightarrow> ('w nfs4_state, byte list) io" where
  "Nfs4Client_commit os f off count =
     (let ops = encode (steps [
            encode_fh4 (nf_fh f),
            encode_commit off count]) in
     io_bind (compound4 os [] ops 2) (\<lambda>reply.
     io_lift (decode (
     dbind check_compound_status (\<lambda>_.
     dbind decode_putfh_result (\<lambda>_.
     decode_commit_result))) reply)))"

subsection \<open>Namespace operations\<close>

definition Nfs4Client_mkdir :: "'w os \<Rightarrow> Nfs4Fh \<Rightarrow> cstring \<Rightarrow> Sattr4 \<Rightarrow> ('w nfs4_state, Nfs4Fh) io" where
  "Nfs4Client_mkdir os dir name attrs =
     (let ops = encode (steps [
            encode_fh4 dir,
            encode_create_dir name attrs,
            encode_getfh]) in
     io_bind (compound4 os [] ops 3) (\<lambda>reply.
     io_lift (decode (
     dbind check_compound_status (\<lambda>_.
     dbind decode_putfh_result (\<lambda>_.
     dbind decode_create_result (\<lambda>_.
     decode_getfh_result)))) reply)))"

definition Nfs4Client_remove :: "'w os \<Rightarrow> Nfs4Fh \<Rightarrow> cstring \<Rightarrow> ('w nfs4_state, unit) io" where
  "Nfs4Client_remove os dir name =
     (let ops = encode (steps [
            encode_fh4 dir,
            encode_remove name]) in
     io_bind (compound4 os [] ops 2) (\<lambda>reply.
     io_lift (decode (
     dbind check_compound_status (\<lambda>_.
     dbind decode_putfh_result (\<lambda>_.
     decode_remove_result))) reply)))"

definition Nfs4Client_rename :: "'w os \<Rightarrow> Nfs4Fh \<Rightarrow> cstring \<Rightarrow> Nfs4Fh \<Rightarrow> cstring \<Rightarrow> ('w nfs4_state, unit) io" where
  "Nfs4Client_rename os src_dir src_name dst_dir dst_name =
     (let ops = encode (steps [
            encode_fh4 src_dir,
            encode_savefh,
            encode_fh4 dst_dir,
            encode_rename src_name dst_name]) in
     io_bind (compound4 os [] ops 4) (\<lambda>reply.
     io_lift (decode (
     dbind check_compound_status (\<lambda>_.
     dbind decode_putfh_result (\<lambda>_.
     dbind decode_savefh_result (\<lambda>_.
     dbind decode_putfh_result (\<lambda>_.
     decode_rename_result))))) reply)))"

definition Nfs4Client_symlink :: "'w os \<Rightarrow> Nfs4Fh \<Rightarrow> cstring \<Rightarrow> cstring \<Rightarrow> Sattr4 \<Rightarrow> ('w nfs4_state, Nfs4Fh) io" where
  "Nfs4Client_symlink os dir name target attrs =
     (let ops = encode (steps [
            encode_fh4 dir,
            encode_create_symlink name target attrs,
            encode_getfh]) in
     io_bind (compound4 os [] ops 3) (\<lambda>reply.
     io_lift (decode (
     dbind check_compound_status (\<lambda>_.
     dbind decode_putfh_result (\<lambda>_.
     dbind decode_create_result (\<lambda>_.
     decode_getfh_result)))) reply)))"

definition Nfs4Client_readlink :: "'w os \<Rightarrow> Nfs4Fh \<Rightarrow> ('w nfs4_state, cstring) io" where
  "Nfs4Client_readlink os fh =
     (let ops = encode (steps [
            encode_fh4 fh,
            encode_readlink]) in
     io_bind (compound4 os [] ops 2) (\<lambda>reply.
     io_lift (decode (
     dbind check_compound_status (\<lambda>_.
     dbind decode_putfh_result (\<lambda>_.
     decode_readlink_result))) reply)))"

definition Nfs4Client_setattr :: "'w os \<Rightarrow> Nfs4Fh \<Rightarrow> Sattr4 \<Rightarrow> ('w nfs4_state, unit) io" where
  "Nfs4Client_setattr os fh attrs =
     (let ops = encode (steps [
            encode_fh4 fh,
            encode_setattr Stateid4_zero attrs]) in
     io_bind (compound4 os [] ops 2) (\<lambda>reply.
     io_lift (decode (
     dbind check_compound_status (\<lambda>_.
     dbind decode_putfh_result (\<lambda>_.
     decode_setattr_result))) reply)))"

subsection \<open>Directory listing\<close>

definition Nfs4Client_readdir_page :: "'w os \<Rightarrow> Nfs4Fh \<Rightarrow> u64 \<Rightarrow> byte list \<Rightarrow> ('w nfs4_state, ReaddirPage4) io" where
  "Nfs4Client_readdir_page os dir cookie cookieverf =
     (let ops = encode (steps [
            encode_fh4 dir,
            encode_readdir cookie cookieverf 4096 32768
              [ATTR_TYPE, ATTR_SIZE, ATTR_FILEID, ATTR_MODE, ATTR_TIME_MODIFY]]) in
     io_bind (compound4 os [] ops 2) (\<lambda>reply.
     io_lift (decode (
     dbind check_compound_status (\<lambda>_.
     dbind decode_putfh_result (\<lambda>_.
     decode_readdir_result))) reply)))"

partial_function (option) Nfs4Client_readdir_loop ::
  "'w os \<Rightarrow> Nfs4Fh \<Rightarrow> Nfs4DirEntry list \<Rightarrow> u64 \<Rightarrow> byte list \<Rightarrow> 'w nfs4_state \<Rightarrow>
   ((error + Nfs4DirEntry list) \<times> 'w nfs4_state) option" where
  "Nfs4Client_readdir_loop os dir acc cookie cookieverf s =
     io_bind (Nfs4Client_readdir_page os dir cookie cookieverf) (\<lambda>page s'.
     let st = collect d4_cookie (rp4_entries page) (cookie, acc) in
     if rp4_eof page then io_return (snd st) s'
     else Nfs4Client_readdir_loop os dir (snd st) (fst st) (rp4_cookieverf page) s') s"

definition Nfs4Client_readdir :: "'w os \<Rightarrow> Nfs4Fh \<Rightarrow> ('w nfs4_state, Nfs4DirEntry list) io" where
  "Nfs4Client_readdir os dir = Nfs4Client_readdir_loop os dir [] 0 (replicate 8 0)"

subsection \<open>Lease renewal\<close>

definition Nfs4Client_renew :: "'w os \<Rightarrow> ('w nfs4_state, unit) io" where
  "Nfs4Client_renew os =
     io_bind (io_get (\<lambda>(c, w). n40_clientid c)) (\<lambda>clientid.
     let ops = encode (encode_renew clientid) in
     io_bind (compound4 os [] ops 1) (\<lambda>reply.
     io_lift (decode (
     dbind check_compound_status (\<lambda>_.
     decode_renew_result)) reply)))"

end
