(* ===== verification/Nfs41_Client.thy ===== *)
theory Nfs41_Client
  imports Nfs4_Session Nfs4_Client
begin

text \<open>
  \<open>src/nfs41_client.cpp\<close>: the NFSv4.1 client. On top of the 4.0 state it keeps the session and the
  sequence number of its single slot; every COMPOUND inside the session starts with a SEQUENCE that
  uses up the next slot sequence number (\<open>compound41\<close>).
\<close>

record Nfs41Client =
  n41_host :: string
  n41_rpc :: rpc_client
  n41_root_fh :: Nfs4Fh
  n41_clientid :: u64
  n41_sessionid :: SessionId41
  n41_slot_seqid :: u32
  n41_open_seqid :: u32

type_synonym 'w nfs41_state = "Nfs41Client \<times> 'w"

definition on_rpc41 :: "('w rpc_state, 'a) io \<Rightarrow> ('w nfs41_state, 'a) io" where
  "on_rpc41 = io_zoom (\<lambda>(c, w). (n41_rpc c, w)) (\<lambda>(r, w) (c, _). (c\<lparr>n41_rpc := r\<rparr>, w))"

definition encode_fh41 :: "Nfs4Fh \<Rightarrow> xdr_encoder \<Rightarrow> xdr_encoder" where
  "encode_fh41 fh = (if fh4_data fh = [] then encode_putrootfh else encode_putfh fh)"

definition compound41 :: "'w os \<Rightarrow> cstring \<Rightarrow> byte list \<Rightarrow> u32 \<Rightarrow> ('w nfs41_state, byte list) io" where
  "compound41 os tag ops_bytes num_ops =
     io_bind (io_get fst) (\<lambda>c.
     io_bind (io_modify (\<lambda>(c, w). (c\<lparr>n41_slot_seqid := n41_slot_seqid c + 1\<rparr>, w))) (\<lambda>_.
     let seq_bytes = encode (encode_sequence41 (n41_sessionid c) (n41_slot_seqid c) 0 0 False);
         all_ops = seq_bytes @ ops_bytes in
     on_rpc41 (call_compound os tag all_ops (num_ops + 1) 1)))"

subsection \<open>Construction and destruction\<close>

definition do_bootstrap :: "'w os \<Rightarrow> ('w rpc_state, u64 \<times> SessionId41) io" where
  "do_bootstrap os =
     io_bind (on_world (io_call (os_now os))) (\<lambda>now.
     let ops1 = encode (encode_exchange_id (boot_verifier now) (bytes_of ''nfsclient-v41'')) in
     io_bind (call_compound os (bytes_of ''init'') ops1 1 1) (\<lambda>reply1.
     io_bind (io_lift (decode (
       dbind check_compound_status (\<lambda>_.
       decode_exchange_id_result)) reply1)) (\<lambda>exid.
     let ops2 = encode (encode_create_session (xr_clientid exid) (xr_sequenceid exid)) in
     io_bind (call_compound os (bytes_of ''init'') ops2 1 1) (\<lambda>reply2.
     io_bind (io_lift (decode (
       dbind check_compound_status (\<lambda>_.
       decode_create_session_result)) reply2)) (\<lambda>sid.
     io_return (xr_clientid exid, sid))))))"

text \<open>
  What both constructors do inside the new session: RECLAIM_COMPLETE, then a look at the root.
\<close>

definition reclaim_complete :: "'w os \<Rightarrow> ('w nfs41_state, unit) io" where
  "reclaim_complete os =
     (let ops_rc = encode (encode_reclaim_complete False) in
     io_bind (compound41 os (bytes_of ''init'') ops_rc 1) (\<lambda>reply_rc.
     io_lift (decode (
       dbind check_compound_status (\<lambda>_.
       dbind decode_sequence41_result (\<lambda>_.
       decode_reclaim_complete_result)) ) reply_rc)))"

definition check_root :: "'w os \<Rightarrow> ('w nfs41_state, unit) io" where
  "check_root os =
     (let ops_root = encode (steps [encode_putrootfh, encode_getfh]) in
     io_bind (compound41 os [] ops_root 2) (\<lambda>reply_root.
     io_bind (io_lift (decode (
       dbind check_compound_status (\<lambda>_.
       dbind decode_sequence41_result (\<lambda>_.
       dbind decode_putrootfh_result (\<lambda>_.
       decode_getfh_result))) ) reply_root)) (\<lambda>_.
     io_modify (\<lambda>(c, w). (c\<lparr>n41_root_fh := root_sentinel\<rparr>, w)))))"

text \<open>The constructor's body after \<open>rpc_\<close> is stored, run on the members it has so far.\<close>

definition Nfs41Client_init :: "'w os \<Rightarrow> string \<Rightarrow> ('w rpc_state, Nfs41Client) io" where
  "Nfs41Client_init os host =
     io_bind (do_bootstrap os) (\<lambda>(clientid, sessionid) (rpc, w).
     map_option (\<lambda>(r, (c, w')). (map_sum id (\<lambda>_. c) r, (n41_rpc c, w')))
       (io_bind (reclaim_complete os) (\<lambda>_. check_root os)
          (\<lparr>n41_host = host, n41_rpc = rpc, n41_root_fh = root_sentinel, n41_clientid = clientid,
            n41_sessionid = sessionid, n41_slot_seqid = 1, n41_open_seqid = 0\<rparr>, w)))"

definition Nfs41Client_ctor :: "'w os \<Rightarrow> string \<Rightarrow> ('w, Nfs41Client) io" where
  "Nfs41Client_ctor os host =
     io_bind (getport os host NFS4_PROG NFS4_VERS) (\<lambda>port.
     io_bind (construct_rpc os host port (Nfs41Client_init os host)) (\<lambda>(rpc, c).
     io_return c))"

definition Nfs41Client_auth :: "'w os \<Rightarrow> string \<Rightarrow> AuthSys \<Rightarrow> ('w, Nfs41Client) io" where
  "Nfs41Client_auth os host auth =
     io_bind (getport os host NFS4_PROG NFS4_VERS) (\<lambda>port.
     io_bind (construct_rpc os host port (
       io_bind (on_client (rpc_set_auth_sys auth)) (\<lambda>_.
       Nfs41Client_init os host))) (\<lambda>(rpc, c).
     io_return c))"

text \<open>Best effort: whatever the call throws is caught, and the connection is closed.\<close>

definition Nfs41Client_destroy :: "'w os \<Rightarrow> Nfs41Client \<Rightarrow> 'w \<Rightarrow> 'w option" where
  "Nfs41Client_destroy os c w =
     (let ops = encode (encode_destroy_session (n41_sessionid c)) in
     map_option (\<lambda>(r, (rpc, w')). rpc_destroy os rpc w')
       (call_compound os (bytes_of ''destroy'') ops 1 1 (n41_rpc c, w)))"

definition Nfs41Client_set_auth_sys :: "AuthSys \<Rightarrow> Nfs41Client \<Rightarrow> Nfs41Client" where
  "Nfs41Client_set_auth_sys auth c = c\<lparr>n41_rpc := rpc_set_auth_sys auth (n41_rpc c)\<rparr>"

definition Nfs41Client_clear_auth :: "Nfs41Client \<Rightarrow> Nfs41Client" where
  "Nfs41Client_clear_auth c = c\<lparr>n41_rpc := rpc_clear_auth (n41_rpc c)\<rparr>"

text \<open>The exception a server's request for confirmation raises.\<close>

definition confirm_error :: error where
  "confirm_error = RuntimeError (''NFSv4.1 server set OPEN4_RESULT_CONFIRM '' @ [CHR 0xE2, CHR 0x80, CHR 0x94] @
       '' protocol error'')"

subsection \<open>File handle operations\<close>

definition Nfs41Client_lookup :: "'w os \<Rightarrow> Nfs4Fh \<Rightarrow> cstring \<Rightarrow> ('w nfs41_state, Nfs4Fh) io" where
  "Nfs41Client_lookup os dir name =
     (let ops = encode (steps [
            encode_fh41 dir,
            encode_lookup name,
            encode_getfh]) in
     io_bind (compound41 os [] ops 3) (\<lambda>reply.
     io_lift (decode (
     dbind check_compound_status (\<lambda>_.
     dbind decode_sequence41_result (\<lambda>_.
     dbind decode_putfh_result (\<lambda>_.
     dbind decode_lookup_result (\<lambda>_.
     decode_getfh_result))))) reply)))"

definition Nfs41Client_getattr :: "'w os \<Rightarrow> Nfs4Fh \<Rightarrow> ('w nfs41_state, Fattr4) io" where
  "Nfs41Client_getattr os fh =
     (let ops = encode (steps [
            encode_fh41 fh,
            encode_getattr
              [ATTR_TYPE, ATTR_CHANGE, ATTR_SIZE, ATTR_FILEID, ATTR_MODE, ATTR_NUMLINKS, ATTR_OWNER,
               ATTR_OWNER_GROUP, ATTR_TIME_ACCESS, ATTR_TIME_METADATA, ATTR_TIME_MODIFY]]) in
     io_bind (compound41 os [] ops 2) (\<lambda>reply.
     io_lift (decode (
     dbind check_compound_status (\<lambda>_.
     dbind decode_sequence41_result (\<lambda>_.
     dbind decode_putfh_result (\<lambda>_.
     decode_getattr_result)))) reply)))"

definition Nfs41Client_access :: "'w os \<Rightarrow> Nfs4Fh \<Rightarrow> u32 \<Rightarrow> ('w nfs41_state, u32) io" where
  "Nfs41Client_access os fh access_mask =
     (let ops = encode (steps [
            encode_fh41 fh,
            encode_access access_mask]) in
     io_bind (compound41 os [] ops 2) (\<lambda>reply.
     io_lift (decode (
     dbind check_compound_status (\<lambda>_.
     dbind decode_sequence41_result (\<lambda>_.
     dbind decode_putfh_result (\<lambda>_.
     dbind decode_access_result (\<lambda>r. dreturn (ac_access r)))))) reply)))"

subsection \<open>Open and close\<close>

text \<open>The COMPOUND that \<open>do_open\<close> sends, the same in every turn of its retry loop.\<close>

definition Nfs41Client_open_ops ::
  "Nfs41Client \<Rightarrow> Nfs4Fh \<Rightarrow> cstring \<Rightarrow> u32 \<Rightarrow> bool \<Rightarrow> u32 \<Rightarrow> byte list" where
  "Nfs41Client_open_ops c dir name share_access create seqid = encode (steps [
     encode_fh41 dir,
     (if create
      then encode_open_create seqid share_access (n41_clientid c)
             (bytes_of ''nfsclient-v41'') name Sattr4_default
      else encode_open_nocreate seqid share_access (n41_clientid c)
             (bytes_of ''nfsclient-v41'') name),
     encode_getfh])"

text \<open>The retry loop: \<open>NFS4ERR_GRACE\<close> sleeps and tries again, for as long as it takes.\<close>

partial_function (option) Nfs41Client_open_loop ::
  "'w os \<Rightarrow> Nfs4Fh \<Rightarrow> cstring \<Rightarrow> u32 \<Rightarrow> bool \<Rightarrow> u32 \<Rightarrow> 'w nfs41_state \<Rightarrow>
   ((error + byte list) \<times> 'w nfs41_state) option" where
  "Nfs41Client_open_loop os dir name share_access create seqid s =
     io_bind (compound41 os [] (Nfs41Client_open_ops (fst s) dir name share_access create seqid) 3) (\<lambda>reply s'.
     case decode check_compound_status reply of
       Inr _ \<Rightarrow> io_return reply s'
     | Inl e \<Rightarrow>
         (if is_grace e
          then Nfs41Client_open_loop os dir name share_access create seqid (fst s', os_sleep os 5 (snd s'))
          else io_throw e s')) s"

definition Nfs41Client_do_open ::
  "'w os \<Rightarrow> Nfs4Fh \<Rightarrow> cstring \<Rightarrow> u32 \<Rightarrow> bool \<Rightarrow> ('w nfs41_state, Nfs4File) io" where
  "Nfs41Client_do_open os dir name share_access create =
     io_bind (io_modify (\<lambda>(c, w). (c\<lparr>n41_open_seqid := n41_open_seqid c + 1\<rparr>, w))) (\<lambda>_.
     io_bind (io_get (\<lambda>(c, w). n41_open_seqid c)) (\<lambda>seqid.
     io_bind (Nfs41Client_open_loop os dir name share_access create seqid) (\<lambda>reply.
     io_lift (decode (
     dbind check_compound_status (\<lambda>_.
     dbind decode_sequence41_result (\<lambda>_.
     dbind decode_putfh_result (\<lambda>_.
     dbind decode_open_result (\<lambda>open_res.
     dbind decode_getfh_result (\<lambda>fh.
     dbind (throw_if (or_rflags open_res AND OPEN4_RESULT_CONFIRM \<noteq> 0) confirm_error) (\<lambda>_.
     dreturn \<lparr>nf_fh = fh, nf_stateid = or_stateid open_res, nf_seqid = seqid\<rparr>)))))))
     reply))))"

definition Nfs41Client_open_read :: "'w os \<Rightarrow> Nfs4Fh \<Rightarrow> cstring \<Rightarrow> ('w nfs41_state, Nfs4File) io" where
  "Nfs41Client_open_read os dir name = Nfs41Client_do_open os dir name OPEN4_SHARE_ACCESS_READ False"

definition Nfs41Client_open_write :: "'w os \<Rightarrow> Nfs4Fh \<Rightarrow> cstring \<Rightarrow> bool \<Rightarrow> ('w nfs41_state, Nfs4File) io" where
  "Nfs41Client_open_write os dir name create = Nfs41Client_do_open os dir name OPEN4_SHARE_ACCESS_WRITE create"

definition Nfs41Client_close :: "'w os \<Rightarrow> Nfs4File \<Rightarrow> ('w nfs41_state, unit) io" where
  "Nfs41Client_close os f =
     (let ops = encode (steps [
            encode_fh41 (nf_fh f),
            encode_close (nf_seqid f) (nf_stateid f)]) in
     io_bind (compound41 os [] ops 2) (\<lambda>reply.
     io_lift (decode (
     dbind check_compound_status (\<lambda>_.
     dbind decode_sequence41_result (\<lambda>_.
     dbind decode_putfh_result (\<lambda>_.
     decode_close_result)))) reply)))"

subsection \<open>Data operations\<close>

definition Nfs41Client_read :: "'w os \<Rightarrow> Nfs4File \<Rightarrow> u64 \<Rightarrow> u32 \<Rightarrow> ('w nfs41_state, byte list) io" where
  "Nfs41Client_read os f off count =
     (let ops = encode (steps [
            encode_fh41 (nf_fh f),
            encode_read (nf_stateid f) off count]) in
     io_bind (compound41 os [] ops 2) (\<lambda>reply.
     io_lift (decode (
     dbind check_compound_status (\<lambda>_.
     dbind decode_sequence41_result (\<lambda>_.
     dbind decode_putfh_result (\<lambda>_.
     decode_read_result)))) reply)))"

definition Nfs41Client_write :: "'w os \<Rightarrow> Nfs4File \<Rightarrow> u64 \<Rightarrow> Stable4 \<Rightarrow> byte list \<Rightarrow> ('w nfs41_state, u32) io" where
  "Nfs41Client_write os f off how data =
     (let ops = encode (steps [
            encode_fh41 (nf_fh f),
            encode_write (nf_stateid f) off how data]) in
     io_bind (compound41 os [] ops 2) (\<lambda>reply.
     io_lift (decode (
     dbind check_compound_status (\<lambda>_.
     dbind decode_sequence41_result (\<lambda>_.
     dbind decode_putfh_result (\<lambda>_.
     dbind decode_write_result (\<lambda>r. dreturn (w4_count r)))))) reply)))"

definition Nfs41Client_commit :: "'w os \<Rightarrow> Nfs4File \<Rightarrow> u64 \<Rightarrow> u32 \<Rightarrow> ('w nfs41_state, byte list) io" where
  "Nfs41Client_commit os f off count =
     (let ops = encode (steps [
            encode_fh41 (nf_fh f),
            encode_commit off count]) in
     io_bind (compound41 os [] ops 2) (\<lambda>reply.
     io_lift (decode (
     dbind check_compound_status (\<lambda>_.
     dbind decode_sequence41_result (\<lambda>_.
     dbind decode_putfh_result (\<lambda>_.
     decode_commit_result)))) reply)))"

subsection \<open>Namespace operations\<close>

definition Nfs41Client_mkdir :: "'w os \<Rightarrow> Nfs4Fh \<Rightarrow> cstring \<Rightarrow> Sattr4 \<Rightarrow> ('w nfs41_state, Nfs4Fh) io" where
  "Nfs41Client_mkdir os dir name attrs =
     (let ops = encode (steps [
            encode_fh41 dir,
            encode_create_dir name attrs,
            encode_getfh]) in
     io_bind (compound41 os [] ops 3) (\<lambda>reply.
     io_lift (decode (
     dbind check_compound_status (\<lambda>_.
     dbind decode_sequence41_result (\<lambda>_.
     dbind decode_putfh_result (\<lambda>_.
     dbind decode_create_result (\<lambda>_.
     decode_getfh_result))))) reply)))"

definition Nfs41Client_remove :: "'w os \<Rightarrow> Nfs4Fh \<Rightarrow> cstring \<Rightarrow> ('w nfs41_state, unit) io" where
  "Nfs41Client_remove os dir name =
     (let ops = encode (steps [
            encode_fh41 dir,
            encode_remove name]) in
     io_bind (compound41 os [] ops 2) (\<lambda>reply.
     io_lift (decode (
     dbind check_compound_status (\<lambda>_.
     dbind decode_sequence41_result (\<lambda>_.
     dbind decode_putfh_result (\<lambda>_.
     decode_remove_result)))) reply)))"

definition Nfs41Client_rename :: "'w os \<Rightarrow> Nfs4Fh \<Rightarrow> cstring \<Rightarrow> Nfs4Fh \<Rightarrow> cstring \<Rightarrow> ('w nfs41_state, unit) io" where
  "Nfs41Client_rename os src_dir src_name dst_dir dst_name =
     (let ops = encode (steps [
            encode_fh41 src_dir,
            encode_savefh,
            encode_fh41 dst_dir,
            encode_rename src_name dst_name]) in
     io_bind (compound41 os [] ops 4) (\<lambda>reply.
     io_lift (decode (
     dbind check_compound_status (\<lambda>_.
     dbind decode_sequence41_result (\<lambda>_.
     dbind decode_putfh_result (\<lambda>_.
     dbind decode_savefh_result (\<lambda>_.
     dbind decode_putfh_result (\<lambda>_.
     decode_rename_result)))))) reply)))"

definition Nfs41Client_symlink :: "'w os \<Rightarrow> Nfs4Fh \<Rightarrow> cstring \<Rightarrow> cstring \<Rightarrow> Sattr4 \<Rightarrow> ('w nfs41_state, Nfs4Fh) io" where
  "Nfs41Client_symlink os dir name target attrs =
     (let ops = encode (steps [
            encode_fh41 dir,
            encode_create_symlink name target attrs,
            encode_getfh]) in
     io_bind (compound41 os [] ops 3) (\<lambda>reply.
     io_lift (decode (
     dbind check_compound_status (\<lambda>_.
     dbind decode_sequence41_result (\<lambda>_.
     dbind decode_putfh_result (\<lambda>_.
     dbind decode_create_result (\<lambda>_.
     decode_getfh_result))))) reply)))"

definition Nfs41Client_readlink :: "'w os \<Rightarrow> Nfs4Fh \<Rightarrow> ('w nfs41_state, cstring) io" where
  "Nfs41Client_readlink os fh =
     (let ops = encode (steps [
            encode_fh41 fh,
            encode_readlink]) in
     io_bind (compound41 os [] ops 2) (\<lambda>reply.
     io_lift (decode (
     dbind check_compound_status (\<lambda>_.
     dbind decode_sequence41_result (\<lambda>_.
     dbind decode_putfh_result (\<lambda>_.
     decode_readlink_result)))) reply)))"

definition Nfs41Client_setattr :: "'w os \<Rightarrow> Nfs4Fh \<Rightarrow> Sattr4 \<Rightarrow> ('w nfs41_state, unit) io" where
  "Nfs41Client_setattr os fh attrs =
     (let ops = encode (steps [
            encode_fh41 fh,
            encode_setattr Stateid4_zero attrs]) in
     io_bind (compound41 os [] ops 2) (\<lambda>reply.
     io_lift (decode (
     dbind check_compound_status (\<lambda>_.
     dbind decode_sequence41_result (\<lambda>_.
     dbind decode_putfh_result (\<lambda>_.
     decode_setattr_result)))) reply)))"

subsection \<open>Directory listing\<close>

definition Nfs41Client_readdir_page :: "'w os \<Rightarrow> Nfs4Fh \<Rightarrow> u64 \<Rightarrow> byte list \<Rightarrow> ('w nfs41_state, ReaddirPage4) io" where
  "Nfs41Client_readdir_page os dir cookie cookieverf =
     (let ops = encode (steps [
            encode_fh41 dir,
            encode_readdir cookie cookieverf 4096 32768
              [ATTR_TYPE, ATTR_SIZE, ATTR_FILEID, ATTR_MODE, ATTR_TIME_MODIFY]]) in
     io_bind (compound41 os [] ops 2) (\<lambda>reply.
     io_lift (decode (
     dbind check_compound_status (\<lambda>_.
     dbind decode_sequence41_result (\<lambda>_.
     dbind decode_putfh_result (\<lambda>_.
     decode_readdir_result)))) reply)))"

partial_function (option) Nfs41Client_readdir_loop ::
  "'w os \<Rightarrow> Nfs4Fh \<Rightarrow> Nfs4DirEntry list \<Rightarrow> u64 \<Rightarrow> byte list \<Rightarrow> 'w nfs41_state \<Rightarrow>
   ((error + Nfs4DirEntry list) \<times> 'w nfs41_state) option" where
  "Nfs41Client_readdir_loop os dir acc cookie cookieverf s =
     io_bind (Nfs41Client_readdir_page os dir cookie cookieverf) (\<lambda>page s'.
     let st = collect d4_cookie (rp4_entries page) (cookie, acc) in
     if rp4_eof page then io_return (snd st) s'
     else Nfs41Client_readdir_loop os dir (snd st) (fst st) (rp4_cookieverf page) s') s"

definition Nfs41Client_readdir :: "'w os \<Rightarrow> Nfs4Fh \<Rightarrow> ('w nfs41_state, Nfs4DirEntry list) io" where
  "Nfs41Client_readdir os dir = Nfs41Client_readdir_loop os dir [] 0 (replicate 8 0)"

end
