(* ===== verification/Nfs4_Requests.thy ===== *)
theory Nfs4_Requests
  imports Nfs4_Compound Nfs41_Client
begin

text \<open>
  What the two NFSv4 clients ask for: every operation of the facades that is one COMPOUND (\<open>call4\<close>), the
  operations it consists of (\<open>ops4\<close>), the decoder of its results (\<open>body4\<close>) and the value it returns
  (\<open>answer4\<close>). The same table serves both minor versions; \<open>compound_channel\<close> is what it needs of the
  client that sends the COMPOUND.
\<close>

subsection \<open>Requests and their operations\<close>

text \<open>OPEN and OPEN_CONFIRM are the two steps of \<open>do_open\<close>, with the numbers the client puts in.\<close>

datatype call4 =
    Lookup_c Nfs4Fh cstring
  | Getattr_c Nfs4Fh
  | Access_c Nfs4Fh u32
  | Open_c Nfs4Fh cstring u32 bool u32 u64 cstring
  | Confirm_c Nfs4File u32
  | Close_c Nfs4File
  | Read_c Nfs4File u64 u32
  | Write_c Nfs4File u64 Stable4 "byte list"
  | Commit_c Nfs4File u64 u32
  | Mkdir_c Nfs4Fh cstring Sattr4
  | Remove_c Nfs4Fh cstring
  | Rename_c Nfs4Fh cstring Nfs4Fh cstring
  | Symlink_c Nfs4Fh cstring cstring Sattr4
  | Readlink_c Nfs4Fh
  | Setattr_c Nfs4Fh Sattr4
  | Page_c Nfs4Fh u64 "byte list"
  | Renew_c u64

text \<open>The empty handle stands for the root.\<close>

definition at_fh :: "Nfs4Fh \<Rightarrow> op4" where
  "at_fh fh = (if fh4_data fh = [] then Putrootfh4 else Putfh4 fh)"

definition raw_sattr4 :: "Sattr4 \<Rightarrow> raw_attrs" where
  "raw_sattr4 a = (make_bitmap4 (sattr4_ids a), wire_sattrlist a)"

definition all_attrs :: "u32 list" where
  "all_attrs = [ATTR_TYPE, ATTR_CHANGE, ATTR_SIZE, ATTR_FILEID, ATTR_MODE, ATTR_NUMLINKS, ATTR_OWNER,
     ATTR_OWNER_GROUP, ATTR_TIME_ACCESS, ATTR_TIME_METADATA, ATTR_TIME_MODIFY]"

definition entry_attrs :: "u32 list" where
  "entry_attrs = [ATTR_TYPE, ATTR_SIZE, ATTR_FILEID, ATTR_MODE, ATTR_TIME_MODIFY]"

fun ops4 :: "call4 \<Rightarrow> op4 list" where
  "ops4 (Lookup_c dir n) = [at_fh dir, Lookup4 n, Getfh4]"
| "ops4 (Getattr_c fh) = [at_fh fh, Getattr4 (make_bitmap4 all_attrs)]"
| "ops4 (Access_c fh m) = [at_fh fh, Access4 m]"
| "ops4 (Open_c dir n acc cr s cid own) =
     [at_fh dir, Open4 s acc 0 cid own (if cr then Some (raw_sattr4 Sattr4_default) else None) n, Getfh4]"
| "ops4 (Confirm_c f s) = [at_fh (nf_fh f), Open_confirm4 (nf_stateid f) s]"
| "ops4 (Close_c f) = [at_fh (nf_fh f), Close4 (nf_seqid f) (nf_stateid f)]"
| "ops4 (Read_c f off n) = [at_fh (nf_fh f), Read4 (nf_stateid f) off n]"
| "ops4 (Write_c f off how d) = [at_fh (nf_fh f), Write4 (nf_stateid f) off how d]"
| "ops4 (Commit_c f off n) = [at_fh (nf_fh f), Commit4 off n]"
| "ops4 (Mkdir_c dir n a) = [at_fh dir, Mkdir4 n (raw_sattr4 a), Getfh4]"
| "ops4 (Remove_c dir n) = [at_fh dir, Remove4 n]"
| "ops4 (Rename_c dir n dir' n') = [at_fh dir, Savefh4, at_fh dir', Rename4 n n']"
| "ops4 (Symlink_c dir n t a) = [at_fh dir, Symlink4 t n (raw_sattr4 a), Getfh4]"
| "ops4 (Readlink_c fh) = [at_fh fh, Readlink4]"
| "ops4 (Setattr_c fh a) = [at_fh fh, Setattr4 Stateid4_zero (raw_sattr4 a)]"
| "ops4 (Page_c dir c cv) = [at_fh dir, Readdir4 c cv 4096 32768 (make_bitmap4 entry_attrs)]"
| "ops4 (Renew_c cid) = [Renew4 cid]"

definition wire_ops :: "op4 list \<Rightarrow> byte list" where
  "wire_ops ops = concat (map wire_op4 ops)"

text \<open>What the clients put together for it.\<close>

fun args4 :: "call4 \<Rightarrow> byte list" where
  "args4 (Lookup_c dir n) = encode (steps [encode_fh4 dir, encode_lookup n, encode_getfh])"
| "args4 (Getattr_c fh) = encode (steps [encode_fh4 fh, encode_getattr all_attrs])"
| "args4 (Access_c fh m) = encode (steps [encode_fh4 fh, encode_access m])"
| "args4 (Open_c dir n acc cr s cid own) = encode (steps [encode_fh4 dir,
     (if cr then encode_open_create s acc cid own n Sattr4_default else encode_open_nocreate s acc cid own n),
     encode_getfh])"
| "args4 (Confirm_c f s) = encode (steps [encode_fh4 (nf_fh f), encode_open_confirm (nf_stateid f) s])"
| "args4 (Close_c f) = encode (steps [encode_fh4 (nf_fh f), encode_close (nf_seqid f) (nf_stateid f)])"
| "args4 (Read_c f off n) = encode (steps [encode_fh4 (nf_fh f), encode_read (nf_stateid f) off n])"
| "args4 (Write_c f off how d) = encode (steps [encode_fh4 (nf_fh f), encode_write (nf_stateid f) off how d])"
| "args4 (Commit_c f off n) = encode (steps [encode_fh4 (nf_fh f), encode_commit off n])"
| "args4 (Mkdir_c dir n a) = encode (steps [encode_fh4 dir, encode_create_dir n a, encode_getfh])"
| "args4 (Remove_c dir n) = encode (steps [encode_fh4 dir, encode_remove n])"
| "args4 (Rename_c dir n dir' n') =
     encode (steps [encode_fh4 dir, encode_savefh, encode_fh4 dir', encode_rename n n'])"
| "args4 (Symlink_c dir n t a) = encode (steps [encode_fh4 dir, encode_create_symlink n t a, encode_getfh])"
| "args4 (Readlink_c fh) = encode (steps [encode_fh4 fh, encode_readlink])"
| "args4 (Setattr_c fh a) = encode (steps [encode_fh4 fh, encode_setattr Stateid4_zero a])"
| "args4 (Page_c dir c cv) = encode (steps [encode_fh4 dir, encode_readdir c cv 4096 32768 entry_attrs])"
| "args4 (Renew_c cid) = encode (encode_renew cid)"

lemmas op_code_defs =
  OP_ACCESS_def OP_CLOSE_def OP_COMMIT_def OP_CREATE_def OP_GETATTR_def OP_GETFH_def OP_LOOKUP_def
  OP_LOOKUPP_def OP_OPEN_def OP_OPEN_CONFIRM_def OP_PUTFH_def OP_PUTROOTFH_def OP_READ_def OP_READDIR_def
  OP_READLINK_def OP_REMOVE_def OP_RENAME_def OP_RENEW_def OP_RESTOREFH_def OP_SAVEFH_def OP_SETATTR_def
  OP_SETCLIENTID_def OP_SETCLIENTID_CONFIRM_def OP_WRITE_def OP_EXCHANGE_ID_def OP_CREATE_SESSION_def
  OP_DESTROY_SESSION_def OP_RECLAIM_COMPLETE_def OP_SEQUENCE_def

lemmas op_encoder_defs =
  encode_lookup_def encode_getfh_def encode_getattr_def encode_access_def encode_open_create_def
  encode_open_nocreate_def encode_open_prefix_def encode_open_confirm_def encode_close_def encode_read_def
  encode_write_def encode_commit_def encode_create_dir_def encode_create_symlink_def encode_remove_def
  encode_savefh_def encode_rename_def encode_readlink_def encode_setattr_def encode_readdir_def
  encode_renew_def encode_putfh_def encode_putrootfh_def

lemma encode_fh4_append [put_simps]: "encode_fh4 fh buf = buf @ wire_op4 (at_fh fh)"
  by (simp add: encode_fh4_def at_fh_def wire_op4_def op_encoder_defs op_code_defs put_simps)

lemma wire_raw_sattr4: "wire_raw (raw_sattr4 a) = wire_sattr4 a"
  by (simp add: wire_raw_def raw_sattr4_def wire_sattr4_def)

lemma args4_wire: "args4 c = wire_ops (ops4 c)"
  by (cases c)
     (simp_all add: wire_ops_def wire_op4_def op_encoder_defs op_code_defs put_simps encode_def
        wire_raw_sattr4 [symmetric] OPEN4_SHARE_DENY_NONE_def OPEN4_NOCREATE_def OPEN4_CREATE_def
        UNCHECKED4_def CLAIM_NULL_def NF4DIR_def NF4LNK_def)

subsection \<open>Results\<close>

datatype val4 =
    Unit_a
  | Fh_a Nfs4Fh
  | Attr_a Fattr4
  | Mask_a u32
  | Opened_a Open4Result Nfs4Fh
  | State_a Stateid4
  | Data_a "byte list"
  | Count_a u32
  | Verf_a "byte list"
  | Path_a cstring
  | Page_a ReaddirPage4

definition as_val :: "('a \<Rightarrow> val4) \<Rightarrow> 'a decoder \<Rightarrow> val4 decoder" where
  "as_val f p = dbind p (\<lambda>x. dreturn (f x))"

fun body4 :: "call4 \<Rightarrow> val4 decoder" where
  "body4 (Lookup_c dir n) =
     dbind decode_putfh_result (\<lambda>_. dbind decode_lookup_result (\<lambda>_. as_val Fh_a decode_getfh_result))"
| "body4 (Getattr_c fh) = dbind decode_putfh_result (\<lambda>_. as_val Attr_a decode_getattr_result)"
| "body4 (Access_c fh m) = dbind decode_putfh_result (\<lambda>_. as_val (\<lambda>r. Mask_a (ac_access r)) decode_access_result)"
| "body4 (Open_c dir n acc cr s cid own) =
     dbind decode_putfh_result (\<lambda>_. dbind decode_open_result (\<lambda>r. as_val (Opened_a r) decode_getfh_result))"
| "body4 (Confirm_c f s) = dbind decode_putfh_result (\<lambda>_. as_val State_a decode_open_confirm_result)"
| "body4 (Close_c f) = dbind decode_putfh_result (\<lambda>_. as_val (\<lambda>_. Unit_a) decode_close_result)"
| "body4 (Read_c f off n) = dbind decode_putfh_result (\<lambda>_. as_val Data_a decode_read_result)"
| "body4 (Write_c f off how d) =
     dbind decode_putfh_result (\<lambda>_. as_val (\<lambda>r. Count_a (w4_count r)) decode_write_result)"
| "body4 (Commit_c f off n) = dbind decode_putfh_result (\<lambda>_. as_val Verf_a decode_commit_result)"
| "body4 (Mkdir_c dir n a) =
     dbind decode_putfh_result (\<lambda>_. dbind decode_create_result (\<lambda>_. as_val Fh_a decode_getfh_result))"
| "body4 (Remove_c dir n) = dbind decode_putfh_result (\<lambda>_. as_val (\<lambda>_. Unit_a) decode_remove_result)"
| "body4 (Rename_c dir n dir' n') =
     dbind decode_putfh_result (\<lambda>_. dbind decode_savefh_result (\<lambda>_. dbind decode_putfh_result (\<lambda>_.
     as_val (\<lambda>_. Unit_a) decode_rename_result)))"
| "body4 (Symlink_c dir n t a) =
     dbind decode_putfh_result (\<lambda>_. dbind decode_create_result (\<lambda>_. as_val Fh_a decode_getfh_result))"
| "body4 (Readlink_c fh) = dbind decode_putfh_result (\<lambda>_. as_val Path_a decode_readlink_result)"
| "body4 (Setattr_c fh a) = dbind decode_putfh_result (\<lambda>_. as_val (\<lambda>_. Unit_a) decode_setattr_result)"
| "body4 (Page_c dir c cv) = dbind decode_putfh_result (\<lambda>_. as_val Page_a decode_readdir_result)"
| "body4 (Renew_c cid) = as_val (\<lambda>_. Unit_a) decode_renew_result"

text \<open>
  What a result means to the caller: the last one says it, except that an OPEN returns the open's
  state and the file's handle.
\<close>

definition answer4 :: "call4 \<Rightarrow> res4 list \<Rightarrow> val4" where
  "answer4 c rs =
    (case c of
       Open_c dir n acc cr s cid own \<Rightarrow>
         (case rs of
            [_, Opened_r sid ci fl bm d, Fh_r fh] \<Rightarrow> Opened_a \<lparr>or_stateid = sid, or_rflags = fl\<rparr> fh
          | _ \<Rightarrow> Unit_a)
     | Close_c f \<Rightarrow> Unit_a
     | _ \<Rightarrow>
         (case last rs of
            Fh_r fh \<Rightarrow> Fh_a fh
          | Attrs_r a \<Rightarrow> Attr_a (fst (snd a))
          | Allowed_r s m \<Rightarrow> Mask_a m
          | State_r sid \<Rightarrow> State_a sid
          | Data_r eof d \<Rightarrow> Data_a d
          | Written_r w \<Rightarrow> Count_a (w4_count w)
          | Verf_r v \<Rightarrow> Verf_a v
          | Target_r t \<Rightarrow> Path_a t
          | Page_r p \<Rightarrow> Page_a p
          | _ \<Rightarrow> Unit_a))"

definition wire_results :: "op4 list \<Rightarrow> res4 list \<Rightarrow> byte list" where
  "wire_results ops rs = concat (map2 wire_res4 ops rs)"

lemmas op_decoder_defs =
  decode_putfh_result_def decode_lookup_result_def decode_getfh_result_def decode_getattr_result_def
  decode_access_result_def decode_open_result_def decode_open_confirm_result_def decode_close_result_def
  decode_read_result_def decode_write_result_def decode_commit_result_def decode_create_result_def
  decode_remove_result_def decode_rename_result_def decode_savefh_result_def decode_readlink_result_def
  decode_setattr_result_def decode_readdir_result_def decode_renew_result_def

lemma fits4_at_fh [simp]: "fits4 (at_fh fh) r \<longleftrightarrow> r = Done_r"
  by (simp add: at_fh_def)

lemma res_flag: "get_uint32 (at pre (wire_flag b @ rest)) = Inr (if b then 1 else 0, at (pre @ wire_flag b) rest)"
  by (simp add: wire_flag_def get_uint32_at)

lemma body4_at:
  assumes "list_all2 fits4 (ops4 c) rs"
  shows "body4 c (at pre (wire_results (ops4 c) rs @ rest)) = Inr (answer4 c rs, at (pre @ wire_results (ops4 c) rs) rest)"
  using assms
  by (cases c)
     (auto simp: list_all2_Cons1 wire_results_def answer4_def as_val_def op_decoder_defs small_def
        fh4_ok_def eff_simps check_op_status_at wire_res4_def res_flag skip_bitmap4_at [unfolded small_def]
        skip_change_info4_at skip_delegation_at entries4.loop_at u32c.dec_enc u64c.dec_enc opaquec.dec_enc
        stringc.dec_enc fixedc.dec_enc fh4c.dec_enc stateid4c.dec_enc decode_fattr4_at)

subsection \<open>COMPOUND at the server\<close>

definition get_compound :: "(cstring \<times> u32 \<times> op4 list) decoder" where
  "get_compound =
     dbind get_string (\<lambda>tag. dbind get_uint32 (\<lambda>minor. dbind get_uint32 (\<lambda>n.
     dbind (dtimes (unat n) get_op4) (\<lambda>ops. dreturn (tag, minor, ops)))))"

text \<open>
  The reply: the status, the tag, and the results; a failure ends with an entry for the operation that
  failed, which has no body.
\<close>

definition wire_compound :: "cstring \<Rightarrow> op4 list \<Rightarrow> Nfsstat4 \<times> res4 list \<Rightarrow> byte list" where
  "wire_compound tag ops = (\<lambda>(st, rs).
     be32 st @ wire_opaque tag @
     (if st = 0 then be32 (word_of_nat (length rs)) @ wire_results ops rs
      else be32 (word_of_nat (length rs + 1)) @ wire_results ops rs @
           concat (map (\<lambda>op. be32 (op_code op) @ be32 st) (take 1 (drop (length rs) ops)))))"

text \<open>A server gets the minor version and the operations; it answers with a status and results.\<close>

type_synonym 'f server4 = "u32 \<Rightarrow> op4 list \<Rightarrow> 'f \<Rightarrow> (Nfsstat4 \<times> res4 list) \<times> 'f"

definition nfs4_handler :: "'f server4 \<Rightarrow> 'f handler" where
  "nfs4_handler srv hdr args f =
    (if ch_prog hdr = NFS4_PROG \<and> ch_vers hdr = NFS4_VERS \<and> ch_proc hdr = NFS4_PROC_COMPOUND then
       (case decode get_compound args of
          Inl _ \<Rightarrow> (wire_compound [] [] (NFS4ERR_BADXDR, []), f)
        | Inr (tag, minor, ops) \<Rightarrow>
            (case srv minor ops f of (answer, f') \<Rightarrow> (wire_compound tag ops answer, f')))
     else ([], f))"

text \<open>The host may run other programs as well.\<close>

definition serves4 :: "'f handler \<Rightarrow> 'f server4 \<Rightarrow> bool" where
  "serves4 h srv \<longleftrightarrow> (\<forall>hdr args f. ch_prog hdr = NFS4_PROG \<longrightarrow> ch_vers hdr = NFS4_VERS \<longrightarrow>
     h hdr args f = nfs4_handler srv hdr args f)"

definition answer_ok :: "op4 list \<Rightarrow> Nfsstat4 \<times> res4 list \<Rightarrow> bool" where
  "answer_ok ops = (\<lambda>(st, rs). st = 0 \<longrightarrow> list_all2 fits4 ops rs)"

definition server4_ok :: "'f server4 \<Rightarrow> bool" where
  "server4_ok srv \<longleftrightarrow> (\<forall>minor ops f. answer_ok ops (fst (srv minor ops f)))"

definition request_ok :: "op4 list \<Rightarrow> bool" where
  "request_ok ops \<longleftrightarrow> list_all op4_ok ops \<and> length (wire_ops ops) < 2 ^ 29"

lemma length_wire_ops: "length ops \<le> length (wire_ops ops)"
  by (induction ops) (simp_all add: wire_ops_def wire_op4_def)

lemma get_compound_args:
  assumes ops: "list_all op4_ok ops" "length ops < 2 ^ 32" and tag: "small tag"
  shows "decode get_compound (encode_compound_args tag (wire_ops ops) (word_of_nat (length ops)) minor) =
    Inr (tag, minor, ops)"
proof -
  have "dtimes (length ops) get_op4 (at pre (wire_ops ops)) = Inr (ops, at (pre @ wire_ops ops) [])" for pre
    using op4c.dtimes_enc [OF ops(1) refl, of pre "[]"] by (simp add: wire_ops_def)
  then show ?thesis
    using tag by (simp add: get_compound_def encode_compound_args_def decode_at encode_def put_simps
        eff_simps stringc.dec_enc small_def u32c.dec_enc length_word_of_nat [OF ops(2)])
qed

lemma compound_served:
  assumes h: "serves4 h srv" and conn: "rpc_conn os v h (c, w)"
    and ops: "list_all op4_ok ops" "length (wire_ops ops) < 2 ^ 30 - 64" and tag: "length tag \<le> 32"
    and srv: "srv minor ops (vw_state v w) = (answer, f')"
  shows "\<exists>w'. call_compound os tag (wire_ops ops) (word_of_nat (length ops)) minor (c, w) =
      Some (Inr (wire_compound tag ops answer), (c\<lparr>rc_xid := rc_xid c + 1\<rparr>, w')) \<and>
    rpc_conn os v h (c\<lparr>rc_xid := rc_xid c + 1\<rparr>, w') \<and> vw_state v w' = f'"
proof -
  let ?args = "encode_compound_args tag (wire_ops ops) (word_of_nat (length ops)) minor"
  have "length ops < 2 ^ 32" using length_wire_ops [of ops] ops(2) by simp
  moreover have "small tag" using tag by (simp add: small_def)
  ultimately have "decode get_compound ?args = Inr (tag, minor, ops)"
    using ops(1) by (rule get_compound_args [rotated])
  then have "h (call_header c NFS4_PROG NFS4_VERS NFS4_PROC_COMPOUND) ?args (vw_state v w) =
      (wire_compound tag ops answer, f')"
    using h srv by (simp add: serves4_def nfs4_handler_def call_header_def)
  moreover have "length ?args < 2 ^ 30"
    using ops(2) tag by (simp add: encode_compound_args_def encode_def put_simps length_wire_opaque xdr_pad_def)
  ultimately show ?thesis
    using call_served [OF conn, of ?args NFS4_PROG NFS4_VERS NFS4_PROC_COMPOUND]
    by (auto simp: call_compound_def Let_def)
qed

text \<open>The reply's envelope, as \<open>check_compound_status\<close> reads it.\<close>

lemma check_compound_wire:
  assumes "length tag \<le> 32"
  shows "\<exists>pre. \<forall>D. decode (dbind check_compound_status (\<lambda>_. D)) (wire_compound tag ops (st, rs)) =
    (if st \<noteq> 0 then Inl (Nfs4Error st ''COMPOUND'') else map_sum id fst (D (at pre (wire_results ops rs))))"
proof (cases "st = 0")
  case True
  let ?pre = "be32 0 @ wire_opaque tag @ be32 (word_of_nat (length rs))"
  have "check_compound_status (at [] (wire_compound tag ops (st, rs))) = Inr ((), at ?pre (wire_results ops rs))"
    using assms True by (simp add: check_compound_status_def wire_compound_def eff_simps stringc.dec_enc
        u32c.dec_enc u32c.dec_enc [where pre = "[]", simplified])
  with True show ?thesis by (intro exI [of _ ?pre]) (simp add: decode_at eff_simps)
next
  case False
  then show ?thesis
    by (simp add: decode_at check_compound_status_def wire_compound_def eff_simps
        u32c.dec_enc [where pre = "[]", simplified])
qed

lemma check_compound_alone:
  assumes "length tag \<le> 32"
  shows "decode check_compound_status (wire_compound tag ops (st, rs)) =
    (if st \<noteq> 0 then Inl (Nfs4Error st ''COMPOUND'') else Inr ())"
proof -
  have "dbind check_compound_status (\<lambda>_. dreturn ()) = check_compound_status"
    by (rule ext) (auto simp: eff_simps split: sum.split)
  moreover obtain pre where
    "decode (dbind check_compound_status (\<lambda>_. dreturn ())) (wire_compound tag ops (st, rs)) =
      (if st \<noteq> 0 then Inl (Nfs4Error st ''COMPOUND'')
       else map_sum id fst (dreturn () (at pre (wire_results ops rs))))"
    using check_compound_wire [OF assms, of ops st rs, where 'a = unit] by blast
  ultimately show ?thesis by (simp add: dreturn_def)
qed

subsection \<open>The channel of a client\<close>

definition outcome4 :: "call4 \<Rightarrow> Nfsstat4 \<times> res4 list \<Rightarrow> error + val4" where
  "outcome4 c = (\<lambda>(st, rs). if st \<noteq> 0 then Inl (Nfs4Error st ''COMPOUND'') else Inr (answer4 c rs))"

text \<open>
  One COMPOUND of a client that sends operations with \<open>send\<close> and whose replies start with what \<open>first\<close>
  reads.
\<close>

definition compound_op ::
  "(byte list \<Rightarrow> u32 \<Rightarrow> ('s, byte list) io) \<Rightarrow> unit decoder \<Rightarrow> call4 \<Rightarrow> ('s, val4) io" where
  "compound_op send first c =
     io_bind (send (args4 c) (word_of_nat (length (ops4 c)))) (\<lambda>reply.
     io_lift (decode (dbind check_compound_status (\<lambda>_. dbind first (\<lambda>_. body4 c))) reply))"

fun run_ops :: "(call4 \<Rightarrow> ('s, val4) io) \<Rightarrow> call4 list \<Rightarrow> 's \<Rightarrow> ((error + val4) list \<times> 's) option" where
  "run_ops run [] s = Some ([], s)"
| "run_ops run (c # cs) s =
     (case run c s of
        None \<Rightarrow> None
      | Some (r, s') \<Rightarrow> map_option (\<lambda>(rs, s''). (r # rs, s'')) (run_ops run cs s'))"

fun answer_all :: "(op4 list \<Rightarrow> 'f \<Rightarrow> (Nfsstat4 \<times> res4 list) \<times> 'f) \<Rightarrow> call4 list \<Rightarrow> 'f \<Rightarrow>
    (error + val4) list \<times> 'f" where
  "answer_all answers [] f = ([], f)"
| "answer_all answers (c # cs) f =
     (case answers (ops4 c) f of
        (a, f') \<Rightarrow> (case answer_all answers cs f' of (rs, f'') \<Rightarrow> (outcome4 c a # rs, f'')))"

text \<open>
  What the two clients' \<open>compound\<close> functions promise: on a connection to a server the operations are
  answered as the server function says, the client's own state makes a fixed step, and the connection
  stays good.
\<close>

locale compound_channel =
  fixes conn :: "'c \<times> 'w \<Rightarrow> bool" and fstate :: "'w \<Rightarrow> 'f" and step :: "'c \<Rightarrow> 'c"
    and send :: "byte list \<Rightarrow> u32 \<Rightarrow> ('c \<times> 'w, byte list) io" and first :: "unit decoder"
    and answers :: "op4 list \<Rightarrow> 'f \<Rightarrow> (Nfsstat4 \<times> res4 list) \<times> 'f"
  assumes send_served:
    "conn (c, w) \<Longrightarrow> request_ok ops \<Longrightarrow> answers ops (fstate w) = ((st, rs), f') \<Longrightarrow> answer_ok ops (st, rs) \<Longrightarrow>
     \<exists>reply w' pre. send (wire_ops ops) (word_of_nat (length ops)) (c, w) = Some (Inr reply, (step c, w')) \<and>
       conn (step c, w') \<and> fstate w' = f' \<and>
       decode check_compound_status reply = (if st \<noteq> 0 then Inl (Nfs4Error st ''COMPOUND'') else Inr ()) \<and>
       (\<forall>D :: val4 decoder. decode (dbind check_compound_status (\<lambda>_. dbind first (\<lambda>_. D))) reply =
          (if st \<noteq> 0 then Inl (Nfs4Error st ''COMPOUND'')
           else map_sum id fst (D (at pre (wire_results ops rs)))))"
begin

lemma op_served:
  assumes "conn (s, w)" and "request_ok (ops4 c)" and a: "answers (ops4 c) (fstate w) = (a, f')"
    and ok: "answer_ok (ops4 c) a"
  shows "\<exists>w'. compound_op send first c (s, w) = Some (outcome4 c a, (step s, w')) \<and> conn (step s, w') \<and>
    fstate w' = f'"
proof -
  obtain st rs where sr: "a = (st, rs)" by (cases a)
  from send_served [OF assms(1,2) a [unfolded sr] ok [unfolded sr]] obtain reply w' pre
    where s: "send (args4 c) (word_of_nat (length (ops4 c))) (s, w) = Some (Inr reply, (step s, w'))"
      and c: "conn (step s, w')" "fstate w' = f'"
      and d: "decode (dbind check_compound_status (\<lambda>_. dbind first (\<lambda>_. body4 c))) reply =
          (if st \<noteq> 0 then Inl (Nfs4Error st ''COMPOUND'')
           else map_sum id fst (body4 c (at pre (wire_results (ops4 c) rs))))"
    by (auto simp: args4_wire)
  have "st = 0 \<Longrightarrow> body4 c (at pre (wire_results (ops4 c) rs)) =
      Inr (answer4 c rs, at (pre @ wire_results (ops4 c) rs) [])"
    using body4_at [of c rs pre "[]"] ok by (simp add: sr answer_ok_def)
  with s c d show ?thesis by (auto simp: compound_op_def outcome4_def sr eff_simps)
qed

lemma ops_served:
  assumes "conn (s, w)" and "\<And>ops f. answer_ok ops (fst (answers ops f))"
    and "list_all (\<lambda>c. request_ok (ops4 c)) cs"
  shows "\<exists>w'. run_ops (compound_op send first) cs (s, w) =
      Some (fst (answer_all answers cs (fstate w)), ((step ^^ length cs) s, w')) \<and>
    conn ((step ^^ length cs) s, w') \<and> fstate w' = snd (answer_all answers cs (fstate w))"
  using assms(1,3)
proof (induction cs arbitrary: s w)
  case Nil
  then show ?case by simp
next
  case (Cons c cs)
  obtain a f' where a: "answers (ops4 c) (fstate w) = (a, f')" by fastforce
  with assms(2) have "answer_ok (ops4 c) a" by (metis fst_conv)
  with op_served [OF Cons.prems(1) _ a] Cons.prems(2) obtain w1
    where r: "compound_op send first c (s, w) = Some (outcome4 c a, (step s, w1))"
      and conn: "conn (step s, w1)" and st: "fstate w1 = f'" by auto
  have "list_all (\<lambda>c. request_ok (ops4 c)) cs" using Cons.prems(2) by simp
  from Cons.IH [OF conn this] show ?case
    by (auto simp: r a st funpow_swap1 split: prod.splits)
qed

end

end
