(* ===== verification/Nfs4_Open.thy ===== *)
theory Nfs4_Open
  imports Nfs4_Requests
begin

text \<open>
  The retry loop of \<open>do_open\<close>, which both NFSv4 clients have: send the OPEN, and while the server is in
  its grace period sleep and send it again. \<open>retried\<close> is the loop as a relation, \<open>after_grace\<close> what the
  server ends up answering, and the locale \<open>retry_channel\<close> a loop over a client's channel.
\<close>

subsection \<open>Runs of the loop that return\<close>

inductive retried ::
  "('s, byte list) io \<Rightarrow> ('s \<Rightarrow> 's) \<Rightarrow> 's \<Rightarrow> (error + byte list) \<times> 's \<Rightarrow> bool" for ask rest where
  failed: "ask s = Some (Inl e, s') \<Longrightarrow> retried ask rest s (Inl e, s')"
| opened: "ask s = Some (Inr reply, s') \<Longrightarrow> decode check_compound_status reply = Inr u \<Longrightarrow>
    retried ask rest s (Inr reply, s')"
| refused: "ask s = Some (Inr reply, s') \<Longrightarrow> decode check_compound_status reply = Inl e \<Longrightarrow> \<not> is_grace e \<Longrightarrow>
    retried ask rest s (Inl e, s')"
| again: "ask s = Some (Inr reply, s') \<Longrightarrow> decode check_compound_status reply = Inl e \<Longrightarrow> is_grace e \<Longrightarrow>
    retried ask rest (rest s') r \<Longrightarrow> retried ask rest s r"

inductive_cases retriedE: "retried ask rest s r"

lemma retried_turn:
  assumes run: "io_bind (ask s) (\<lambda>reply s'.
      case decode check_compound_status reply of
        Inr _ \<Rightarrow> io_return reply s'
      | Inl e \<Rightarrow> (if is_grace e then go (rest s') else io_throw e s')) s = Some r"
    and go: "\<And>s r. go s = Some r \<Longrightarrow> retried (\<lambda>s. ask s s) rest s r"
  shows "retried (\<lambda>s. ask s s) rest s r"
proof (cases "ask s s")
  case (Some qt)
  obtain q t where qt: "qt = (q, t)" by (cases qt)
  show ?thesis
  proof (cases q)
    case (Inl e)
    with run Some qt show ?thesis by (auto simp: io_bind_def intro: retried.failed)
  next
    case (Inr reply)
    note ask = Some [unfolded qt Inr]
    show ?thesis
    proof (cases "decode check_compound_status reply")
      case (Inl e)
      with run ask retried.refused [where ask = "\<lambda>s. ask s s", OF ask Inl] retried.again [where ask = "\<lambda>s. ask s s", OF ask Inl _ go] show ?thesis
        by (cases "is_grace e") (auto simp: io_bind_def io_throw_def)
    next
      case (Inr u)
      with run ask retried.opened [where ask = "\<lambda>s. ask s s", OF ask Inr] show ?thesis by (auto simp: io_bind_def io_return_def)
    qed
  qed
qed (use run in \<open>simp add: io_bind_def\<close>)

subsection \<open>The server's side\<close>

text \<open>
  The answer that is not a refusal because of the grace period, if it comes within \<open>n\<close> retries; \<open>tick\<close> is
  what the client's sleeping lets happen at the server.
\<close>

fun after_grace :: "('f \<Rightarrow> 'f) \<Rightarrow> (op4 list \<Rightarrow> 'f \<Rightarrow> (Nfsstat4 \<times> res4 list) \<times> 'f) \<Rightarrow> op4 list \<Rightarrow> nat \<Rightarrow> 'f \<Rightarrow>
    ((Nfsstat4 \<times> res4 list) \<times> 'f) option" where
  "after_grace tick answers ops n f =
     (case answers ops f of
        (a, f') \<Rightarrow>
          if fst a \<noteq> NFS4ERR_GRACE then Some (a, f')
          else (case n of 0 \<Rightarrow> None | Suc m \<Rightarrow> after_grace tick answers ops m (tick f')))"

declare after_grace.simps [simp del]

lemma after_grace_step: "answers ops f = (a, f') \<Longrightarrow> after_grace tick answers ops n f =
    (if fst a \<noteq> NFS4ERR_GRACE then Some (a, f')
     else (case n of 0 \<Rightarrow> None | Suc m \<Rightarrow> after_grace tick answers ops m (tick f')))"
  by (subst after_grace.simps) simp

lemma after_grace_not_grace: "after_grace tick answers ops n f = Some (a, f') \<Longrightarrow> fst a \<noteq> NFS4ERR_GRACE"
proof (induction n arbitrary: f)
  case 0
  then show ?case by (auto simp: after_grace.simps split: if_splits prod.splits)
next
  case (Suc n)
  then show ?case by (subst (asm) (2) after_grace.simps) (auto split: if_splits prod.splits)
qed

lemma after_grace_answer: "after_grace tick answers ops n f = Some (a, f') \<Longrightarrow> \<exists>f0. answers ops f0 = (a, f')"
proof (induction n arbitrary: f)
  case 0
  then show ?case by (subst (asm) after_grace.simps) (auto split: if_splits prod.splits)
next
  case (Suc n)
  then show ?case by (subst (asm) (2) after_grace.simps) (auto split: if_splits prod.splits)
qed

text \<open>More retries change nothing once there is an answer.\<close>

lemma after_grace_more: "after_grace tick answers ops n f = Some r \<Longrightarrow> n \<le> m \<Longrightarrow> after_grace tick answers ops m f = Some r"
proof (induction n arbitrary: m f)
  case 0
  then show ?case by (subst after_grace.simps) (auto simp: after_grace.simps [of _ _ _ 0] split: if_splits prod.splits)
next
  case (Suc n)
  then obtain k where m: "m = Suc k" "n \<le> k" by (cases m) auto
  from Suc.prems(1) show ?case
    unfolding m(1) by (auto simp: after_grace.simps [of _ _ _ "Suc _"] Suc.IH m(2) split: if_splits prod.splits)
qed

text \<open>A client that would get no such answer, however often it asked.\<close>

definition waiting ::
  "('c \<times> 'w \<Rightarrow> bool) \<Rightarrow> ('w \<Rightarrow> 'f) \<Rightarrow> (op4 list \<Rightarrow> 'f \<Rightarrow> (Nfsstat4 \<times> res4 list) \<times> 'f) \<Rightarrow> ('c \<Rightarrow> call4) \<Rightarrow>
   ('f \<Rightarrow> 'f) \<Rightarrow> 'c \<times> 'w \<Rightarrow> bool" where
  "waiting conn fstate answers request tick s \<longleftrightarrow> conn s \<and> request_ok (ops4 (request (fst s))) \<and>
     (\<forall>n. after_grace tick answers (ops4 (request (fst s))) n (fstate (snd s)) = None)"

subsection \<open>The loop of a client\<close>

locale retry_channel = compound_channel conn fstate step send first answers
  for conn :: "'c \<times> 'w \<Rightarrow> bool" and fstate :: "'w \<Rightarrow> 'f" and step :: "'c \<Rightarrow> 'c"
    and send :: "byte list \<Rightarrow> u32 \<Rightarrow> ('c \<times> 'w, byte list) io" and first :: "unit decoder"
    and answers :: "op4 list \<Rightarrow> 'f \<Rightarrow> (Nfsstat4 \<times> res4 list) \<times> 'f" +
  fixes loop :: "('c \<times> 'w, byte list) io" and request :: "'c \<Rightarrow> call4"
    and rest :: "'c \<times> 'w \<Rightarrow> 'c \<times> 'w" and tick :: "'f \<Rightarrow> 'f"
  assumes loop_unfold: "loop s =
      io_bind (send (args4 (request (fst s))) (word_of_nat (length (ops4 (request (fst s)))))) (\<lambda>reply s'.
        case decode check_compound_status reply of
          Inr _ \<Rightarrow> io_return reply s'
        | Inl e \<Rightarrow> (if is_grace e then loop (rest s') else io_throw e s')) s"
    and loop_sound: "loop s = Some r \<Longrightarrow>
      retried (\<lambda>s. send (args4 (request (fst s))) (word_of_nat (length (ops4 (request (fst s))))) s) rest s r"
    and request_step: "request (step c) = request c"
    and rest_conn: "conn (c, w) \<Longrightarrow> \<exists>w'. rest (c, w) = (c, w') \<and> conn (c, w') \<and> fstate w' = tick (fstate w)"
begin

text \<open>One turn, as the server sees it.\<close>

lemma ask_served:
  assumes "conn (c, w)" and "request_ok (ops4 (request c))"
    and a: "answers (ops4 (request c)) (fstate w) = ((st, rs), f')"
    and ok: "answer_ok (ops4 (request c)) (st, rs)"
  shows "\<exists>reply w'. send (args4 (request c)) (word_of_nat (length (ops4 (request c)))) (c, w) =
      Some (Inr reply, (step c, w')) \<and> conn (step c, w') \<and> fstate w' = f' \<and>
    decode check_compound_status reply = (if st \<noteq> 0 then Inl (Nfs4Error st ''COMPOUND'') else Inr ()) \<and>
    (st = 0 \<longrightarrow> decode (dbind check_compound_status (\<lambda>_. dbind first (\<lambda>_. body4 (request c)))) reply =
       Inr (answer4 (request c) rs))"
proof -
  from send_served [OF assms] obtain reply w' pre
    where s: "send (args4 (request c)) (word_of_nat (length (ops4 (request c)))) (c, w) =
        Some (Inr reply, (step c, w'))" "conn (step c, w')" "fstate w' = f'"
      "decode check_compound_status reply = (if st \<noteq> 0 then Inl (Nfs4Error st ''COMPOUND'') else Inr ())"
      and d: "decode (dbind check_compound_status (\<lambda>_. dbind first (\<lambda>_. body4 (request c)))) reply =
        (if st \<noteq> 0 then Inl (Nfs4Error st ''COMPOUND'')
         else map_sum id fst (body4 (request c) (at pre (wire_results (ops4 (request c)) rs))))"
    by (auto simp: args4_wire)
  have "st = 0 \<Longrightarrow> body4 (request c) (at pre (wire_results (ops4 (request c)) rs)) =
      Inr (answer4 (request c) rs, at (pre @ wire_results (ops4 (request c)) rs) [])"
    using body4_at [of "request c" rs pre "[]"] ok by (simp add: answer_ok_def)
  with s d show ?thesis by auto
qed

text \<open>The server's final answer ends the loop: an error as the exception, a success as the reply.\<close>

lemma loop_served:
  "conn (c, w) \<Longrightarrow> request_ok (ops4 (request c)) \<Longrightarrow>
    after_grace tick answers (ops4 (request c)) n (fstate w) = Some ((st, rs), f') \<Longrightarrow>
    answer_ok (ops4 (request c)) (st, rs) \<Longrightarrow>
    \<exists>k w' reply. loop (c, w) =
        Some (if st \<noteq> 0 then Inl (Nfs4Error st ''COMPOUND'') else Inr reply, ((step ^^ Suc k) c, w')) \<and>
      conn ((step ^^ Suc k) c, w') \<and> fstate w' = f' \<and>
      (st = 0 \<longrightarrow> decode (dbind check_compound_status (\<lambda>_. dbind first (\<lambda>_. body4 (request c)))) reply =
         Inr (answer4 (request c) rs))"
proof (induction n arbitrary: c w rule: less_induct)
  case (less n)
  let ?ops = "ops4 (request c)"
  obtain st1 rs1 f1 where a: "answers ?ops (fstate w) = ((st1, rs1), f1)" by (metis prod.exhaust)
  have "answer_ok ?ops (st1, rs1)"
  proof (cases "st1 = NFS4ERR_GRACE")
    case True
    then show ?thesis by (simp add: answer_ok_def NFS4ERR_GRACE_def)
  next
    case False
    with less.prems(3,4) a show ?thesis by (auto simp: after_grace.simps)
  qed
  from ask_served [OF less.prems(1,2) a this] obtain reply w1
    where s: "send (args4 (request c)) (word_of_nat (length ?ops)) (c, w) = Some (Inr reply, (step c, w1))"
      and c: "conn (step c, w1)" "fstate w1 = f1"
      and d: "decode check_compound_status reply = (if st1 \<noteq> 0 then Inl (Nfs4Error st1 ''COMPOUND'') else Inr ())"
      and b: "st1 = 0 \<longrightarrow> decode (dbind check_compound_status (\<lambda>_. dbind first (\<lambda>_. body4 (request c)))) reply =
        Inr (answer4 (request c) rs1)" by blast
  show ?case
  proof (cases "st1 = NFS4ERR_GRACE")
    case False
    with less.prems(3) a have "st = st1" "rs = rs1" "f' = f1"
      by (auto simp: after_grace.simps)
    with False s c d b show ?thesis
      by (intro exI [of _ 0] exI [of _ w1] exI [of _ reply])
         (subst loop_unfold, simp add: io_bind_def io_return_def io_throw_def)
  next
    case True
    obtain m where m: "n = Suc m" and g: "after_grace tick answers ?ops m (tick f1) = Some ((st, rs), f')"
      using less.prems(3) a True by (subst (asm) after_grace.simps) (auto split: nat.splits)
    obtain w2 where r: "rest (step c, w1) = (step c, w2)" "conn (step c, w2)" "fstate w2 = tick f1"
      using rest_conn [OF c(1)] c(2) by blast
    obtain k w' reply' where l: "loop (step c, w2) =
        Some (if st \<noteq> 0 then Inl (Nfs4Error st ''COMPOUND'') else Inr reply', ((step ^^ Suc k) (step c), w'))"
      and "conn ((step ^^ Suc k) (step c), w')" "fstate w' = f'"
      and "st = 0 \<longrightarrow> decode (dbind check_compound_status (\<lambda>_. dbind first (\<lambda>_. body4 (request c)))) reply' =
         Inr (answer4 (request c) rs)"
      using less.IH [of m "step c" w2] m r less.prems(2,4) g by (auto simp: request_step)
    moreover have "loop (c, w) = loop (step c, w2)"
      using True s d r by (subst loop_unfold) (simp add: io_bind_def NFS4ERR_GRACE_def)
    moreover have "(step ^^ Suc k) (step c) = (step ^^ Suc (Suc k)) c" by (simp add: funpow_swap1)
    ultimately show ?thesis by (intro exI [of _ "Suc k"] exI [of _ w'] exI [of _ reply']) simp
  qed
qed

text \<open>A server that never leaves its grace period keeps the client waiting for ever.\<close>

lemma waits_turn:
  assumes s: "waiting conn fstate answers request tick s"
  shows "\<exists>reply s1. send (args4 (request (fst s))) (word_of_nat (length (ops4 (request (fst s))))) s = Some (Inr reply, s1) \<and>
    decode check_compound_status reply = Inl (Nfs4Error NFS4ERR_GRACE ''COMPOUND'') \<and>
    waiting conn fstate answers request tick (rest s1)"
proof -
  obtain c w where cw: "s = (c, w)" by (cases s)
  let ?ops = "ops4 (request c)"
  obtain st rs f1 where a: "answers ?ops (fstate w) = ((st, rs), f1)" by (metis prod.exhaust)
  have never: "after_grace tick answers ?ops n (fstate w) = None" for n using s by (simp add: waiting_def cw)
  have st: "st = NFS4ERR_GRACE"
    using never [of 0] a by (auto simp: after_grace.simps split: if_splits)
  have later: "after_grace tick answers ?ops n (tick f1) = None" for n
    using never [of "Suc n"] a st by (subst (asm) after_grace.simps) simp
  have "answer_ok ?ops (st, rs)" using st by (simp add: answer_ok_def NFS4ERR_GRACE_def)
  with ask_served [OF _ _ a] s obtain reply w1
    where q: "send (args4 (request c)) (word_of_nat (length ?ops)) (c, w) = Some (Inr reply, (step c, w1))"
      "decode check_compound_status reply = (if st \<noteq> 0 then Inl (Nfs4Error st ''COMPOUND'') else Inr ())"
      and c: "conn (step c, w1)" "fstate w1 = f1"
    by (auto simp: waiting_def cw)
  obtain w2 where "rest (step c, w1) = (step c, w2)" "conn (step c, w2)" "fstate w2 = tick f1"
    using rest_conn [OF c(1)] c(2) by blast
  with q st later s show ?thesis
    by (simp add: waiting_def cw request_step NFS4ERR_GRACE_def)
qed

lemma loop_waits:
  assumes s: "waiting conn fstate answers request tick s"
  shows "loop s = None"
proof (rule ccontr)
  assume "loop s \<noteq> None"
  then obtain r where "retried (\<lambda>s. send (args4 (request (fst s))) (word_of_nat (length (ops4 (request (fst s))))) s)
      rest s r"
    using loop_sound by blast
  then show False
    using s
  proof (induction rule: retried.induct)
    case (failed s e s')
    with waits_turn [OF failed.prems] show ?case by auto
  next
    case (opened s reply s' u)
    with waits_turn [OF opened.prems] show ?case by auto
  next
    case (refused s reply s' e)
    with waits_turn [OF refused.prems] show ?case by auto
  next
    case (again s reply s' e r)
    with waits_turn [OF again.prems] show ?case by auto
  qed
qed

end

end
