(* ===== verification/Nfs4_Listing.thy ===== *)
theory Nfs4_Listing
  imports Nfs4_Open
begin

text \<open>
  Directory listings over an NFSv4 client's channel, and the servers of the examples.
\<close>

subsection \<open>A server that lists a directory\<close>

text \<open>
  A server that has \<open>todo\<close> left to list for a cookie and a verifier (\<open>J\<close> relates them to its state)
  answers READDIR with a first part of it: all of it on the page with \<open>eof\<close>, otherwise at least one
  entry, and it then has the rest left for the last entry's cookie and the page's verifier.
\<close>

definition lists4 ::
  "(op4 list \<Rightarrow> 'f \<Rightarrow> (Nfsstat4 \<times> res4 list) \<times> 'f) \<Rightarrow> Nfs4Fh \<Rightarrow>
   (u64 \<Rightarrow> byte list \<Rightarrow> Nfs4DirEntry list \<Rightarrow> 'f \<Rightarrow> bool) \<Rightarrow> bool" where
  "lists4 answers dir J \<longleftrightarrow>
     (\<forall>cookie cv todo f. J cookie cv todo f \<longrightarrow> length cv = 8 \<and>
        (\<exists>page f' rest. answers (ops4 (Page_c dir cookie cv)) f = ((0, [Done_r, Page_r page]), f') \<and>
           answer_ok (ops4 (Page_c dir cookie cv)) (0, [Done_r, Page_r page]) \<and> todo = rp4_entries page @ rest \<and>
           (if rp4_eof page then rest = []
            else rp4_entries page \<noteq> [] \<and>
                 J (last_cookie d4_cookie cookie (rp4_entries page)) (rp4_cookieverf page) rest f')))"

lemma request_ok_page:
  assumes "fh4_ok dir" and "length cv = 8"
  shows "request_ok (ops4 (Page_c dir cookie cv))"
proof -
  have "make_bitmap4 entry_attrs = [1048594, 2097154]" by (simp add: make_bitmap4_def bitmap4_set_def
      entry_attrs_def attr_ids)
  then show ?thesis
    using assms xdr_pad_lt [of "length (fh4_data dir)"]
    by (simp add: request_ok_def at_fh_def fh4_ok_def wire_ops_def wire_op4_def small_def
        wire_fh4_def wire_bitmap4_def length_wire_opaque length_wire_fixed)
qed

context compound_channel
begin

lemma serves_pages:
  assumes page: "\<And>cookie cv. io_map Page_a (page cookie cv) = compound_op send first (Page_c dir cookie cv)"
    and lists: "lists4 answers dir J" and dir: "fh4_ok dir"
  shows "serves_listing page rp4_entries rp4_eof rp4_cookieverf d4_cookie
    (\<lambda>cookie cv todo s. conn s \<and> J cookie cv todo (fstate (snd s)))"
  unfolding serves_listing_def
proof (intro allI impI, elim conjE)
  fix cookie cv todo s
  assume c: "conn s" and J: "J cookie cv todo (fstate (snd s))"
  obtain c0 w where s: "s = (c0, w)" by (cases s)
  from lists J obtain p f' rest where cv: "length cv = 8"
    and a: "answers (ops4 (Page_c dir cookie cv)) (fstate w) = ((0, [Done_r, Page_r p]), f')"
    and ok: "answer_ok (ops4 (Page_c dir cookie cv)) (0, [Done_r, Page_r p])"
    and rest: "todo = rp4_entries p @ rest" "if rp4_eof p then rest = [] else rp4_entries p \<noteq> [] \<and>
      J (last_cookie d4_cookie cookie (rp4_entries p)) (rp4_cookieverf p) rest f'"
    unfolding lists4_def s snd_conv by blast
  obtain w' where "compound_op send first (Page_c dir cookie cv) (c0, w) =
      Some (outcome4 (Page_c dir cookie cv) (0, [Done_r, Page_r p]), (step c0, w'))"
    and c': "conn (step c0, w')" "fstate w' = f'"
    using op_served [OF c [unfolded s] request_ok_page [OF dir cv] a ok] by blast
  then have "io_map Page_a (page cookie cv) (c0, w) = Some (Inr (Page_a p), (step c0, w'))"
    by (simp add: page outcome4_def answer4_def)
  then obtain q where "page cookie cv (c0, w) = Some (q, (step c0, w'))" "Inr (Page_a p) = map_sum id Page_a q"
    unfolding io_map_Some by blast
  then have "page cookie cv (c0, w) = Some (Inr p, (step c0, w'))" by (cases q) auto
  with c' rest show "\<exists>page' s' rest. page cookie cv s = Some (Inr page', s') \<and> todo = rp4_entries page' @ rest \<and>
      (if rp4_eof page' then rest = [] else rp4_entries page' \<noteq> [] \<and> conn s' \<and>
         J (last_cookie d4_cookie cookie (rp4_entries page')) (rp4_cookieverf page') rest (fstate (snd s')))"
    unfolding s by (intro exI [of _ p] exI [of _ "(step c0, w')"] exI [of _ rest]) simp
qed

end

subsection \<open>Servers that take the operations of a COMPOUND one by one\<close>

fun serve_ops :: "(op4 \<Rightarrow> 'f \<Rightarrow> (Nfsstat4 + res4) \<times> 'f) \<Rightarrow> op4 list \<Rightarrow> 'f \<Rightarrow> (Nfsstat4 \<times> res4 list) \<times> 'f" where
  "serve_ops exec [] f = ((0, []), f)"
| "serve_ops exec (op # ops) f =
     (case exec op f of
        (Inl st, f') \<Rightarrow> ((st, []), f')
      | (Inr r, f') \<Rightarrow> (case serve_ops exec ops f' of ((st, rs), f'') \<Rightarrow> ((st, r # rs), f'')))"

definition op_ok :: "(op4 \<Rightarrow> 'f \<Rightarrow> (Nfsstat4 + res4) \<times> 'f) \<Rightarrow> bool" where
  "op_ok exec \<longleftrightarrow> (\<forall>op f. case fst (exec op f) of Inl st \<Rightarrow> st \<noteq> 0 | Inr r \<Rightarrow> fits4 op r)"

definition op_server :: "(op4 \<Rightarrow> 'f \<Rightarrow> (Nfsstat4 + res4) \<times> 'f) \<Rightarrow> 'f server4" where
  "op_server exec minor ops f = serve_ops exec ops f"

lemma op_server_ok:
  assumes "op_ok exec"
  shows "server4_ok (op_server exec)"
proof -
  have "answer_ok ops (fst (serve_ops exec ops f))" for ops f
  proof (induction ops arbitrary: f)
    case (Cons op ops)
    obtain q f' where q: "exec op f = (q, f')" by fastforce
    have o: "case q of Inl st \<Rightarrow> st \<noteq> 0 | Inr r \<Rightarrow> fits4 op r"
      using assms q unfolding op_ok_def by (metis fst_conv)
    obtain st rs f'' where "serve_ops exec ops f' = ((st, rs), f'')" by (metis prod.exhaust)
    with q o Cons.IH [of f'] show ?case by (cases q) (auto simp: answer_ok_def)
  qed (simp add: answer_ok_def)
  then show ?thesis by (simp add: server4_ok_def op_server_def)
qed

text \<open>
  One file in a directory of three entries: it can be opened (after the number of refusals the state
  starts with, and with an OPEN_CONFIRM if \<open>confirm\<close>), read and written.
\<close>

definition entry4 :: "nat \<Rightarrow> Nfs4DirEntry" where
  "entry4 i = \<lparr>d4_cookie = word_of_nat i, d4_name = [word_of_nat (65 + i)], d4_attrs = small_attrs4\<rparr>"

definition sid4 :: "u32 \<Rightarrow> Stateid4" where
  "sid4 s = \<lparr>sid_seqid = s, sid_other = replicate 12 1\<rparr>"

definition fh4_of :: "byte \<Rightarrow> Nfs4Fh" where
  "fh4_of b = \<lparr>fh4_data = [b]\<rparr>"

fun file4 :: "bool \<Rightarrow> op4 \<Rightarrow> nat \<times> byte list \<Rightarrow> (Nfsstat4 + res4) \<times> nat \<times> byte list" where
  "file4 confirm (Putfh4 fh) f = (Inr Done_r, f)"
| "file4 confirm Putrootfh4 f = (Inr Done_r, f)"
| "file4 confirm (Lookup4 n) f = (if n = [7] then Inr Done_r else Inl NFS4ERR_NOENT, f)"
| "file4 confirm Getfh4 f = (Inr (Fh_r (fh4_of 7)), f)"
| "file4 confirm (Open4 s acc deny cid own cr n) (g, f) =
     (if g > 0 then (Inl NFS4ERR_GRACE, (g - 1, f))
      else (Inr (Opened_r (sid4 1) \<lparr>ci_atomic = True, ci_before = 1, ci_after = 1\<rparr>
              (if confirm then 2 else 0) [] No_delegation), (g, f)))"
| "file4 confirm (Open_confirm4 sid s) f = (Inr (State_r (sid4 2)), f)"
| "file4 confirm (Close4 s sid) f = (Inr (State_r (sid4 0)), f)"
| "file4 confirm (Read4 sid off n) (g, f) =
     (Inr (Data_r (length f \<le> unat off + unat n) (take (unat n) (drop (unat off) f))), (g, f))"
| "file4 confirm (Write4 sid off how d) (g, f) =
     (Inr (Written_r \<lparr>w4_count = word_of_nat (length d), w4_committed = how, w4_verf = replicate 8 0\<rparr>),
      (g, take (unat off) f @ d @ drop (unat off + length d) f))"
| "file4 confirm (Readdir4 c cv dc mc bm) f =
     (Inr (Page_r (if c = 0
        then \<lparr>rp4_cookieverf = replicate 8 5, rp4_entries = [entry4 1, entry4 2], rp4_eof = False\<rparr>
        else \<lparr>rp4_cookieverf = replicate 8 5, rp4_entries = [entry4 3], rp4_eof = True\<rparr>)), f)"
| "file4 confirm op f = (Inl NFS4ERR_NOTSUPP, f)"

lemma small_fattr4_ok: "fattr4_ok small_attrs4"
  by (simp add: fattr4_ok_def wire_attrlist_def attr_bytes_def small_attrs4_def Fattr4_none_def)

lemma file4_ok: "op_ok (file4 confirm)"
  unfolding op_ok_def
proof (intro allI)
  fix op f
  have "min n (unat (c :: u32)) < 2 ^ 32" for n c
    using unsigned_less [of c, where 'a = nat] by (simp add: min.strict_coboundedI2)
  then show "case fst (file4 confirm op f) of Inl st \<Rightarrow> st \<noteq> 0 | Inr r \<Rightarrow> fits4 op r"
    by (cases f; cases op)
       (simp_all add: NFS4ERR_NOTSUPP_def NFS4ERR_GRACE_def NFS4ERR_NOENT_def fh4_of_def fh4_ok_def sid4_def
          stateid_ok_def small_def entry4_ok_def entry4_def small_fattr4_ok)
qed

definition todo4 :: "u64 \<Rightarrow> byte list \<Rightarrow> Nfs4DirEntry list \<Rightarrow> 'f \<Rightarrow> bool" where
  "todo4 cookie cv todo f \<longleftrightarrow> length cv = 8 \<and>
     (cookie = 0 \<and> todo = [entry4 1, entry4 2, entry4 3] \<or> cookie = 2 \<and> todo = [entry4 3])"

lemma file4_lists: "lists4 (op_server (file4 confirm) minor) (fh4_of 7) todo4"
  unfolding lists4_def
proof (intro allI impI)
  fix cookie cv todo and f :: "nat \<times> byte list" assume J: "todo4 cookie cv todo f"
  then consider "cookie = 0" "todo = [entry4 1, entry4 2, entry4 3]" | "cookie = 2" "todo = [entry4 3]"
    by (auto simp: todo4_def)
  then show "length cv = 8 \<and> (\<exists>page f' rest.
      op_server (file4 confirm) minor (ops4 (Page_c (fh4_of 7) cookie cv)) f = ((0, [Done_r, Page_r page]), f') \<and>
      answer_ok (ops4 (Page_c (fh4_of 7) cookie cv)) (0, [Done_r, Page_r page]) \<and> todo = rp4_entries page @ rest \<and>
      (if rp4_eof page then rest = [] else rp4_entries page \<noteq> [] \<and>
        todo4 (last_cookie d4_cookie cookie (rp4_entries page)) (rp4_cookieverf page) rest f'))"
    using J
    by cases (auto simp: todo4_def op_server_def fh4_of_def at_fh_def answer_ok_def entry4_ok_def entry4_def small_def
        small_fattr4_ok last_cookie_def)
qed

end
