(* ===== verification/Nfs4_Server.thy ===== *)
theory Nfs4_Server
  imports Nfs4_Listing Transport
begin

text \<open>
  The NFSv4.0 client against a server of minor version 0.
\<close>

subsection \<open>The client's channel\<close>

definition conn40 :: "'w os \<Rightarrow> ('w, 'f) view \<Rightarrow> 'f server4 \<Rightarrow> 'w nfs4_state \<Rightarrow> bool" where
  "conn40 os v srv s \<longleftrightarrow> (\<exists>h. serves4 h srv \<and> rpc_conn os v h (n40_rpc (fst s), snd s))"

definition next_call40 :: "Nfs4Client \<Rightarrow> Nfs4Client" where
  "next_call40 c = c\<lparr>n40_rpc := (n40_rpc c)\<lparr>rc_xid := rc_xid (n40_rpc c) + 1\<rparr>\<rparr>"

lemma compound4_served:
  assumes conn: "conn40 os v srv (c, w)" and ops: "request_ok ops" and tag: "length tag \<le> 32"
    and srv: "srv 0 ops (vw_state v w) = (answer, f')"
  shows "\<exists>w'. compound4 os tag (wire_ops ops) (word_of_nat (length ops)) (c, w) =
      Some (Inr (wire_compound tag ops answer), (next_call40 c, w')) \<and>
    conn40 os v srv (next_call40 c, w') \<and> vw_state v w' = f'"
proof -
  obtain h where h: "serves4 h srv" and rc: "rpc_conn os v h (n40_rpc c, w)"
    using conn by (auto simp: conn40_def)
  from compound_served [where srv = srv, OF h rc _ _ tag srv] ops obtain w'
    where "call_compound os tag (wire_ops ops) (word_of_nat (length ops)) 0 (n40_rpc c, w) =
        Some (Inr (wire_compound tag ops answer), ((n40_rpc c)\<lparr>rc_xid := rc_xid (n40_rpc c) + 1\<rparr>, w'))"
      and "rpc_conn os v h ((n40_rpc c)\<lparr>rc_xid := rc_xid (n40_rpc c) + 1\<rparr>, w')" and "vw_state v w' = f'"
    by (auto simp: request_ok_def)
  with h show ?thesis
    by (auto simp: compound4_def on_rpc4_def io_zoom_def next_call40_def conn40_def)
qed

interpretation c40: compound_channel "conn40 os v srv" "vw_state v" next_call40 "compound4 os []"
    "dreturn ()" "srv 0" for os v srv
proof unfold_locales
  fix c w ops st rs f'
  assume "conn40 os v srv (c, w)" "request_ok ops" "srv 0 ops (vw_state v w) = ((st, rs), f')"
  then obtain w' where *: "compound4 os [] (wire_ops ops) (word_of_nat (length ops)) (c, w) =
      Some (Inr (wire_compound [] ops (st, rs)), (next_call40 c, w'))"
    and **: "conn40 os v srv (next_call40 c, w')" "vw_state v w' = f'"
    using compound4_served [of os v srv c w ops "[]"] by auto
  obtain pre where "\<forall>D :: val4 decoder. decode (dbind check_compound_status (\<lambda>_. D)) (wire_compound [] ops (st, rs)) =
    (if st \<noteq> 0 then Inl (Nfs4Error st ''COMPOUND'') else map_sum id fst (D (at pre (wire_results ops rs))))"
    using check_compound_wire [of "[]" ops st rs] by auto
  with * ** show "\<exists>reply w' pre. compound4 os [] (wire_ops ops) (word_of_nat (length ops)) (c, w) =
        Some (Inr reply, (next_call40 c, w')) \<and> conn40 os v srv (next_call40 c, w') \<and> vw_state v w' = f' \<and>
      decode check_compound_status reply = (if st \<noteq> 0 then Inl (Nfs4Error st ''COMPOUND'') else Inr ()) \<and>
      (\<forall>D :: val4 decoder. decode (dbind check_compound_status (\<lambda>_. dbind (dreturn ()) (\<lambda>_. D))) reply =
        (if st \<noteq> 0 then Inl (Nfs4Error st ''COMPOUND'')
         else map_sum id fst (D (at pre (wire_results ops rs)))))"
    by (auto simp: dbind_dreturn check_compound_alone)
qed

subsection \<open>The client's operations\<close>

text \<open>
  The operations of the facade that are one COMPOUND each. Opening and confirming are not: they take
  numbers of the open owner (\<open>Nfs4Client_do_open\<close>); \<open>renew\<close> is for the client's own clientid.
\<close>

definition facade40 :: "u64 \<Rightarrow> call4 \<Rightarrow> bool" where
  "facade40 clientid q \<longleftrightarrow>
     (case q of Open_c dir n acc cr s cid own \<Rightarrow> False | Confirm_c f s \<Rightarrow> False
      | Renew_c cid \<Rightarrow> cid = clientid | _ \<Rightarrow> True)"

fun run40 :: "'w os \<Rightarrow> call4 \<Rightarrow> ('w nfs4_state, val4) io" where
  "run40 os (Lookup_c dir n) = io_map Fh_a (Nfs4Client_lookup os dir n)"
| "run40 os (Getattr_c fh) = io_map Attr_a (Nfs4Client_getattr os fh)"
| "run40 os (Access_c fh m) = io_map Mask_a (Nfs4Client_access os fh m)"
| "run40 os (Close_c f) = io_map (\<lambda>_. Unit_a) (Nfs4Client_close os f)"
| "run40 os (Read_c f off n) = io_map Data_a (Nfs4Client_read os f off n)"
| "run40 os (Write_c f off how d) = io_map Count_a (Nfs4Client_write os f off how d)"
| "run40 os (Commit_c f off n) = io_map Verf_a (Nfs4Client_commit os f off n)"
| "run40 os (Mkdir_c dir n a) = io_map Fh_a (Nfs4Client_mkdir os dir n a)"
| "run40 os (Remove_c dir n) = io_map (\<lambda>_. Unit_a) (Nfs4Client_remove os dir n)"
| "run40 os (Rename_c dir n dir' n') = io_map (\<lambda>_. Unit_a) (Nfs4Client_rename os dir n dir' n')"
| "run40 os (Symlink_c dir n t a) = io_map Fh_a (Nfs4Client_symlink os dir n t a)"
| "run40 os (Readlink_c fh) = io_map Path_a (Nfs4Client_readlink os fh)"
| "run40 os (Setattr_c fh a) = io_map (\<lambda>_. Unit_a) (Nfs4Client_setattr os fh a)"
| "run40 os (Page_c dir c cv) = io_map Page_a (Nfs4Client_readdir_page os dir c cv)"
| "run40 os (Renew_c cid) = io_map (\<lambda>_. Unit_a) (Nfs4Client_renew os)"
| "run40 os c = io_throw BADXDR"

lemmas client40_defs =
  Nfs4Client_lookup_def Nfs4Client_getattr_def Nfs4Client_access_def Nfs4Client_close_def
  Nfs4Client_read_def Nfs4Client_write_def Nfs4Client_commit_def Nfs4Client_mkdir_def Nfs4Client_remove_def
  Nfs4Client_rename_def Nfs4Client_symlink_def Nfs4Client_readlink_def Nfs4Client_setattr_def
  Nfs4Client_readdir_page_def

lemma map_decode: "map_sum id f (decode p v) = decode (dbind p (\<lambda>x. dreturn (f x))) v"
  by (auto simp: decode_def eff_simps split: sum.splits prod.splits)

lemma run40_compound:
  "facade40 cid q \<Longrightarrow> \<forall>cid. q \<noteq> Renew_c cid \<Longrightarrow> run40 os q = compound_op (compound4 os []) (dreturn ()) q"
  by (cases q)
     (simp_all add: facade40_def client40_defs compound_op_def Let_def io_map_bind_lift map_decode dbind_assoc
        dbind_dreturn as_val_def all_attrs_def entry_attrs_def)

lemma run40_renew:
  "run40 os (Renew_c (n40_clientid c)) (c, w) = compound_op (compound4 os []) (dreturn ()) (Renew_c (n40_clientid c)) (c, w)"
proof -
  have "run40 os (Renew_c (n40_clientid c)) (c, w) =
      io_map (\<lambda>_. Unit_a) (io_bind (compound4 os [] (encode (encode_renew (n40_clientid c))) 1) (\<lambda>reply.
        io_lift (decode (dbind check_compound_status (\<lambda>_. decode_renew_result)) reply))) (c, w)"
    by (simp add: Nfs4Client_renew_def Let_def io_map_def io_bind_def io_get_def)
  then show ?thesis
    by (simp add: compound_op_def io_map_bind_lift map_decode dbind_assoc dbind_dreturn as_val_def)
qed

lemma run40_eq:
  "facade40 (n40_clientid c) q \<Longrightarrow> run40 os q (c, w) = compound_op (compound4 os []) (dreturn ()) q (c, w)"
  by (cases "\<exists>cid. q = Renew_c cid") (auto simp: facade40_def run40_renew run40_compound simp del: run40.simps)

lemma run40_session:
  assumes conn: "conn40 os v srv (c, w)" and ok: "server4_ok srv" and cs: "list_all (\<lambda>q. request_ok (ops4 q)) cs"
    and fac: "list_all (facade40 (n40_clientid c)) cs"
  shows "\<exists>w'. run_ops (run40 os) cs (c, w) =
      Some (fst (answer_all (srv 0) cs (vw_state v w)), ((next_call40 ^^ length cs) c, w')) \<and>
    vw_state v w' = snd (answer_all (srv 0) cs (vw_state v w))"
proof -
  have aok: "\<And>ops f. answer_ok ops (fst (srv 0 ops f))" using ok by (simp add: server4_ok_def)
  have "run_ops (run40 os) cs (c, w) = run_ops (compound_op (compound4 os []) (dreturn ())) cs (c, w)"
    using conn cs fac
  proof (induction cs arbitrary: c w)
    case (Cons q cs)
    obtain a f' where a: "srv 0 (ops4 q) (vw_state v w) = (a, f')" by fastforce
    with aok have "answer_ok (ops4 q) a" by (metis fst_conv)
    with c40.op_served [OF Cons.prems(1) _ a] Cons.prems(2) obtain w1
      where "compound_op (compound4 os []) (dreturn ()) q (c, w) = Some (outcome4 q a, (next_call40 c, w1))"
        and "conn40 os v srv (next_call40 c, w1)" by auto
    with Cons.IH [of "next_call40 c" w1] Cons.prems(2,3) run40_eq [of c q os w] show ?case
      by (simp add: next_call40_def)
  qed simp
  with c40.ops_served [where srv = srv, OF conn aok cs] show ?thesis by auto
qed

subsection \<open>Opening a file\<close>

text \<open>Sleeping touches no connection; \<open>tick\<close> is what it lets happen at the server.\<close>

definition sleeps :: "'w os \<Rightarrow> ('w, 'f) view \<Rightarrow> ('f \<Rightarrow> 'f) \<Rightarrow> bool" where
  "sleeps os v tick \<longleftrightarrow>
     (\<forall>n w. vw_conn v (os_sleep os n w) = vw_conn v w \<and> vw_state v (os_sleep os n w) = tick (vw_state v w))"

lemma rpc_conn_sleep:
  "rpc_conn os v h (c, w) \<Longrightarrow> sleeps os v tick \<Longrightarrow> rpc_conn os v h (c, os_sleep os n w)"
  by (simp add: rpc_conn_def sleeps_def)

definition open_request40 ::
  "Nfs4Fh \<Rightarrow> cstring \<Rightarrow> u32 \<Rightarrow> bool \<Rightarrow> u32 \<Rightarrow> Nfs4Client \<Rightarrow> call4" where
  "open_request40 dir name acc create seqid c =
     Open_c dir name acc create seqid (n40_clientid c) (bytes_of ''nfsclient-v4'')"

lemma open_ops40: "Nfs4Client_open_ops c dir name acc create seqid = args4 (open_request40 dir name acc create seqid c)"
  by (simp add: Nfs4Client_open_ops_def open_request40_def)

lemma open_request40_num: "word_of_nat (length (ops4 (open_request40 dir name acc create seqid c))) = 3"
  by (simp add: open_request40_def)

lemma Nfs4Client_open_loop_sound:
  assumes "Nfs4Client_open_loop os dir name acc create seqid s = Some r"
  shows "retried (\<lambda>s. compound4 os [] (args4 (open_request40 dir name acc create seqid (fst s)))
      (word_of_nat (length (ops4 (open_request40 dir name acc create seqid (fst s))))) s)
    (\<lambda>s. (fst s, os_sleep os 5 (snd s))) s r"
  by (rule Nfs4Client_open_loop.raw_induct
      [where P = "\<lambda>os dir name acc create seqid s r.
         retried (\<lambda>s. compound4 os [] (args4 (open_request40 dir name acc create seqid (fst s)))
           (word_of_nat (length (ops4 (open_request40 dir name acc create seqid (fst s))))) s)
         (\<lambda>s. (fst s, os_sleep os 5 (snd s))) s r", OF _ assms])
     (simp only: open_ops40 open_request40_num, rule retried_turn)

interpretation r40: retry_channel "\<lambda>s. conn40 os v srv s \<and> sleeps os v tick" "vw_state v" next_call40
    "compound4 os []" "dreturn ()" "srv 0" "Nfs4Client_open_loop os dir name acc create seqid"
    "open_request40 dir name acc create seqid" "\<lambda>s. (fst s, os_sleep os 5 (snd s))" tick
  for os v srv dir name acc create seqid tick
proof unfold_locales
  fix c w ops st rs f'
  assume "conn40 os v srv (c, w) \<and> sleeps os v tick" "request_ok ops"
    "srv 0 ops (vw_state v w) = ((st, rs), f')" "answer_ok ops (st, rs)"
  with c40.send_served [of os v srv c w ops st rs f'] show "\<exists>reply w' pre.
      compound4 os [] (wire_ops ops) (word_of_nat (length ops)) (c, w) = Some (Inr reply, (next_call40 c, w')) \<and>
      (conn40 os v srv (next_call40 c, w') \<and> sleeps os v tick) \<and> vw_state v w' = f' \<and>
      decode check_compound_status reply = (if st \<noteq> 0 then Inl (Nfs4Error st ''COMPOUND'') else Inr ()) \<and>
      (\<forall>D :: val4 decoder. decode (dbind check_compound_status (\<lambda>_. dbind (dreturn ()) (\<lambda>_. D))) reply =
        (if st \<noteq> 0 then Inl (Nfs4Error st ''COMPOUND'')
         else map_sum id fst (D (at pre (wire_results ops rs)))))"
    by blast
next
  fix s
  show "Nfs4Client_open_loop os dir name acc create seqid s =
    io_bind (compound4 os [] (args4 (open_request40 dir name acc create seqid (fst s)))
        (word_of_nat (length (ops4 (open_request40 dir name acc create seqid (fst s)))))) (\<lambda>reply s'.
      case decode check_compound_status reply of
        Inr _ \<Rightarrow> io_return reply s'
      | Inl e \<Rightarrow> (if is_grace e then Nfs4Client_open_loop os dir name acc create seqid (fst s', os_sleep os 5 (snd s'))
                 else io_throw e s')) s"
    by (subst Nfs4Client_open_loop.simps) (simp only: open_ops40 open_request40_num)
next
  fix c w
  assume "conn40 os v srv (c, w) \<and> sleeps os v tick"
  then show "\<exists>w'. (fst (c, w), os_sleep os 5 (snd (c, w))) = (c, w') \<and>
      (conn40 os v srv (c, w') \<and> sleeps os v tick) \<and> vw_state v w' = tick (vw_state v w)"
    by (auto simp: conn40_def sleeps_def dest: rpc_conn_sleep)
qed (rule Nfs4Client_open_loop_sound, simp_all add: open_request40_def next_call40_def)

text \<open>
  What \<open>do_open\<close> returns, and the open owner's next sequence number: the OPEN's own number is \<open>seqid\<close>,
  and a server that asks for it gets an OPEN_CONFIRM with the next one.
\<close>

definition opened40 ::
  "(op4 list \<Rightarrow> 'f \<Rightarrow> (Nfsstat4 \<times> res4 list) \<times> 'f) \<Rightarrow> u32 \<Rightarrow> Open4Result \<Rightarrow> Nfs4Fh \<Rightarrow> 'f \<Rightarrow>
   (error + Nfs4File) \<times> u32 \<times> 'f" where
  "opened40 answers seqid r fh f =
    (let file = \<lparr>nf_fh = fh, nf_stateid = or_stateid r, nf_seqid = seqid\<rparr> in
     if or_rflags r AND 2 = 0 then (Inr file, seqid, f)
     else (case answers (ops4 (Confirm_c file (seqid + 1))) f of
             (a, f') \<Rightarrow>
               (case outcome4 (Confirm_c file (seqid + 1)) a of
                  Inr (State_a sid) \<Rightarrow> (Inr (file\<lparr>nf_stateid := sid, nf_seqid := seqid + 1\<rparr>), seqid + 1, f')
                | Inr _ \<Rightarrow> (Inr file, seqid + 1, f')
                | Inl e \<Rightarrow> (Inl e, seqid + 1, f'))))"

definition open40 ::
  "('f \<Rightarrow> 'f) \<Rightarrow> (op4 list \<Rightarrow> 'f \<Rightarrow> (Nfsstat4 \<times> res4 list) \<times> 'f) \<Rightarrow> call4 \<Rightarrow> u32 \<Rightarrow> nat \<Rightarrow> 'f \<Rightarrow>
   ((error + Nfs4File) \<times> u32 \<times> 'f) option" where
  "open40 tick answers c seqid n f =
     map_option (\<lambda>(a, f1).
       case outcome4 c a of
         Inr (Opened_a r fh) \<Rightarrow> opened40 answers seqid r fh f1
       | Inr _ \<Rightarrow> (Inr \<lparr>nf_fh = root_sentinel, nf_stateid = Stateid4_zero, nf_seqid = seqid\<rparr>, seqid, f1)
       | Inl e \<Rightarrow> (Inl e, seqid, f1))
     (after_grace tick answers (ops4 c) n f)"

lemma answer4_open:
  assumes "list_all2 fits4 (ops4 (Open_c dir name acc create seqid cid own)) rs"
  shows "\<exists>r fh. answer4 (Open_c dir name acc create seqid cid own) rs = Opened_a r fh \<and>
    stateid_ok (or_stateid r) \<and> fh4_ok fh"
  using assms by (auto simp: list_all2_Cons1 answer4_def)

lemma answer4_confirm:
  assumes "list_all2 fits4 (ops4 (Confirm_c f seqid)) rs"
  shows "\<exists>sid. answer4 (Confirm_c f seqid) rs = State_a sid"
  using assms by (auto simp: list_all2_Cons1 answer4_def)

lemma request_ok_file:
  assumes "fh4_ok (nf_fh f)" and "stateid_ok (nf_stateid f)"
  shows "request_ok (ops4 (Confirm_c f s))" and "request_ok (ops4 (Close_c f))"
  using assms xdr_pad_lt [of "length (fh4_data (nf_fh f))"]
  by (simp_all add: request_ok_def at_fh_def fh4_ok_def stateid_ok_def wire_ops_def wire_op4_def
      wire_fh4_def wire_stateid4_def length_wire_opaque length_wire_fixed)

lemma open_reply_val:
  "map_sum id (\<lambda>(r, fh). Opened_a r fh) (decode_open_reply reply) =
   decode (dbind check_compound_status (\<lambda>_. dbind (dreturn ()) (\<lambda>_. body4 (open_request40 dir name acc create seqid c)))) reply"
  by (simp add: decode_open_reply_def map_decode dbind_assoc dbind_dreturn as_val_def open_request40_def)

lemma confirm_step:
  "Nfs4Client_open_confirm os f = io_bind next_open_seqid (\<lambda>s.
     io_bind (io_bind (compound4 os [] (args4 (Confirm_c f s)) 2) (\<lambda>reply2.
       io_lift (decode (dbind check_compound_status (\<lambda>_. dbind decode_putfh_result (\<lambda>_. decode_open_confirm_result))) reply2)))
     (\<lambda>sid. io_return (f\<lparr>nf_stateid := sid, nf_seqid := s\<rparr>)))"
  by (simp add: Nfs4Client_open_confirm_def Let_def io_bind_assoc)

lemma open_confirm_served:
  assumes conn: "conn40 os v srv (c, w)" and ok: "fh4_ok (nf_fh f)" "stateid_ok (nf_stateid f)"
    and srv: "srv 0 (ops4 (Confirm_c f (n40_open_seqid c + 1))) (vw_state v w) = (a, f')"
    and a: "answer_ok (ops4 (Confirm_c f (n40_open_seqid c + 1))) a"
  shows "\<exists>w'. Nfs4Client_open_confirm os f (c, w) =
      Some (case outcome4 (Confirm_c f (n40_open_seqid c + 1)) a of
              Inr (State_a sid) \<Rightarrow> Inr (f\<lparr>nf_stateid := sid, nf_seqid := n40_open_seqid c + 1\<rparr>)
            | Inr _ \<Rightarrow> Inr f | Inl e \<Rightarrow> Inl e,
          (next_call40 (c\<lparr>n40_open_seqid := n40_open_seqid c + 1\<rparr>), w')) \<and>
    conn40 os v srv (next_call40 (c\<lparr>n40_open_seqid := n40_open_seqid c + 1\<rparr>), w') \<and> vw_state v w' = f'"
proof -
  let ?s = "n40_open_seqid c + 1" and ?c = "c\<lparr>n40_open_seqid := n40_open_seqid c + 1\<rparr>"
  let ?m = "io_bind (compound4 os [] (args4 (Confirm_c f ?s)) 2) (\<lambda>reply2.
    io_lift (decode (dbind check_compound_status (\<lambda>_. dbind decode_putfh_result (\<lambda>_. decode_open_confirm_result))) reply2))"
  have "conn40 os v srv (?c, w)" using conn by (simp add: conn40_def)
  from c40.op_served [OF this request_ok_file(1) [OF ok] srv a] obtain w'
    where r: "compound_op (compound4 os []) (dreturn ()) (Confirm_c f ?s) (?c, w) =
        Some (outcome4 (Confirm_c f ?s) a, (next_call40 ?c, w'))"
      and c: "conn40 os v srv (next_call40 ?c, w')" "vw_state v w' = f'" by blast
  have m: "io_map State_a ?m = compound_op (compound4 os []) (dreturn ()) (Confirm_c f ?s)"
    by (simp add: compound_op_def io_map_bind_lift map_decode dbind_assoc dbind_dreturn as_val_def)
  obtain q where q: "?m (?c, w) = Some (q, (next_call40 ?c, w'))"
    "outcome4 (Confirm_c f ?s) a = map_sum id State_a q"
    using r [folded m, unfolded io_map_Some] by blast
  have "Nfs4Client_open_confirm os f (c, w) = io_bind ?m (\<lambda>sid. io_return (f\<lparr>nf_stateid := sid, nf_seqid := ?s\<rparr>)) (?c, w)"
    by (simp add: confirm_step next_open_seqid_def io_bind_def io_modify_def io_get_def)
  with q c show ?thesis by (cases q) (auto simp: io_bind_def io_return_def)
qed

lemma next_call40_fields [simp]:
  "n40_open_seqid ((next_call40 ^^ k) c) = n40_open_seqid c" "n40_clientid ((next_call40 ^^ k) c) = n40_clientid c"
  by (induction k) (simp_all add: next_call40_def)

lemma do_open_served:
  assumes conn: "conn40 os v srv (c, w)" "sleeps os v tick"
    and ok: "\<And>a f1. after_grace tick (srv 0)
        (ops4 (open_request40 dir name acc create (n40_open_seqid c + 1) c)) n (vw_state v w) = Some (a, f1) \<Longrightarrow>
      answer_ok (ops4 (open_request40 dir name acc create (n40_open_seqid c + 1) c)) a \<and>
      (\<forall>ops. answer_ok ops (fst (srv 0 ops f1)))"
    and req: "request_ok (ops4 (open_request40 dir name acc create (n40_open_seqid c + 1) c))"
    and spec: "open40 tick (srv 0) (open_request40 dir name acc create (n40_open_seqid c + 1) c)
      (n40_open_seqid c + 1) n (vw_state v w) = Some (r, s', f')"
  shows "\<exists>c' w'. Nfs4Client_do_open os dir name acc create (c, w) = Some (r, (c', w')) \<and>
    conn40 os v srv (c', w') \<and> n40_open_seqid c' = s' \<and> n40_clientid c' = n40_clientid c \<and> vw_state v w' = f'"
proof -
  let ?s = "n40_open_seqid c + 1" and ?c = "c\<lparr>n40_open_seqid := n40_open_seqid c + 1\<rparr>"
  let ?q = "open_request40 dir name acc create ?s c"
  have q: "open_request40 dir name acc create ?s ?c = ?q" by (simp add: open_request40_def)
  obtain st rs f1 where g: "after_grace tick (srv 0) (ops4 ?q) n (vw_state v w) = Some ((st, rs), f1)"
    and rest: "(r, s', f') = (case outcome4 ?q (st, rs) of
         Inr (Opened_a r fh) \<Rightarrow> opened40 (srv 0) ?s r fh f1
       | Inr _ \<Rightarrow> (Inr \<lparr>nf_fh = root_sentinel, nf_stateid = Stateid4_zero, nf_seqid = ?s\<rparr>, ?s, f1)
       | Inl e \<Rightarrow> (Inl e, ?s, f1))"
    using spec by (auto simp: open40_def)
  have aok: "answer_ok (ops4 ?q) (st, rs)" "\<And>ops. answer_ok ops (fst (srv 0 ops f1))"
    using ok [OF g] by blast+
  have "conn40 os v srv (?c, w)" using conn(1) by (simp add: conn40_def)
  with r40.loop_served [where srv = srv and c = ?c and os = os and v = v and w = w and tick = tick and dir = dir and
      name = name and acc = acc and create = create and seqid = ?s and n = n and st = st and rs = rs and f' = f1]
    aok(1) conn(2) req g q
  obtain k w1 reply where l: "Nfs4Client_open_loop os dir name acc create ?s (?c, w) =
      Some (if st \<noteq> 0 then Inl (Nfs4Error st ''COMPOUND'') else Inr reply, ((next_call40 ^^ Suc k) ?c, w1))"
    and c1: "conn40 os v srv ((next_call40 ^^ Suc k) ?c, w1)" and f1: "vw_state v w1 = f1"
    and d: "st = 0 \<longrightarrow> decode (dbind check_compound_status (\<lambda>_. dbind (dreturn ()) (\<lambda>_. body4 ?q))) reply = Inr (answer4 ?q rs)"
    by auto
  let ?c1 = "(next_call40 ^^ Suc k) ?c"
  have run: "Nfs4Client_do_open os dir name acc create (c, w) =
      (if st \<noteq> 0 then Some (Inl (Nfs4Error st ''COMPOUND''), (?c1, w1))
       else io_bind (io_lift (decode_open_reply reply)) (\<lambda>(open_res, fh).
         let f = \<lparr>nf_fh = fh, nf_stateid = or_stateid open_res, nf_seqid = ?s\<rparr> in
         if or_rflags open_res AND OPEN4_RESULT_CONFIRM \<noteq> 0 then Nfs4Client_open_confirm os f
         else io_return f) (?c1, w1))"
    using l by (simp add: Nfs4Client_do_open_def next_open_seqid_def io_bind_def io_modify_def io_get_def)
  have s1: "n40_open_seqid ?c1 = ?s" "n40_clientid ?c1 = n40_clientid c"
    by (simp_all only: next_call40_fields) simp_all
  show ?thesis
  proof (cases "st = 0")
    case False
    with run rest c1 f1 s1 show ?thesis by (intro exI [of _ ?c1] exI [of _ w1]) (simp add: outcome4_def)
  next
    case True
    have "list_all2 fits4 (ops4 ?q) rs" using aok(1) True by (simp add: answer_ok_def)
    then obtain res fh where a: "answer4 ?q rs = Opened_a res fh" and fit: "stateid_ok (or_stateid res)" "fh4_ok fh"
      using answer4_open unfolding open_request40_def by blast
    let ?f = "\<lparr>nf_fh = fh, nf_stateid = or_stateid res, nf_seqid = ?s\<rparr>"
    have dec: "decode_open_reply reply = Inr (res, fh)"
      using d True a open_reply_val [of reply dir name acc create ?s c]
      by (cases "decode_open_reply reply") auto
    have rest': "(r, s', f') = opened40 (srv 0) ?s res fh f1"
      using rest True a by (simp add: outcome4_def)
    show ?thesis
    proof (cases "or_rflags res AND 2 = 0")
      case True
      with run dec rest' \<open>st = 0\<close> c1 f1 s1 show ?thesis
        by (intro exI [of _ ?c1] exI [of _ w1])
           (simp add: OPEN4_RESULT_CONFIRM_def opened40_def Let_def io_bind_def io_return_def io_lift_def)
    next
      case False
      obtain a2 f2 where srv: "srv 0 (ops4 (Confirm_c ?f (?s + 1))) f1 = (a2, f2)" by fastforce
      have fit': "answer_ok (ops4 (Confirm_c ?f (?s + 1))) a2"
        using aok(2) [of "ops4 (Confirm_c ?f (?s + 1))"] srv by (simp only: fst_conv)
      let ?c2 = "next_call40 (?c1\<lparr>n40_open_seqid := ?s + 1\<rparr>)"
      obtain w2 where conf: "Nfs4Client_open_confirm os ?f (?c1, w1) =
          Some (case outcome4 (Confirm_c ?f (?s + 1)) a2 of
                  Inr (State_a sid) \<Rightarrow> Inr (?f\<lparr>nf_stateid := sid, nf_seqid := ?s + 1\<rparr>)
                | Inr _ \<Rightarrow> Inr ?f | Inl e \<Rightarrow> Inl e, (?c2, w2))"
        and c2: "conn40 os v srv (?c2, w2)" "vw_state v w2 = f2"
        using open_confirm_served [where c = ?c1 and f = ?f and a = a2 and f' = f2, unfolded s1(1), OF c1 _ _ srv [folded f1] fit']
          fit by (simp only: Nfs4File.simps) blast
      have "Nfs4Client_do_open os dir name acc create (c, w) = Nfs4Client_open_confirm os ?f (?c1, w1)"
        using run dec False \<open>st = 0\<close>
        by (simp add: OPEN4_RESULT_CONFIRM_def Let_def io_bind_def io_lift_def)
      moreover have "n40_open_seqid ?c2 = ?s + 1" "n40_clientid ?c2 = n40_clientid c"
        using s1 by (simp_all add: next_call40_def)
      ultimately show ?thesis
        using conf c2 rest' False srv
        by (intro exI [of _ ?c2] exI [of _ w2])
           (auto simp: opened40_def Let_def split: sum.splits val4.splits)
    qed
  qed
qed

lemma after_grace_ok:
  assumes "server4_ok srv" and "after_grace tick (srv minor) ops n f = Some (a, f1)"
  shows "answer_ok ops a \<and> (\<forall>ops. answer_ok ops (fst (srv minor ops f1)))"
  using after_grace_answer [OF assms(2)] assms(1) unfolding server4_ok_def by (metis fst_conv)

text \<open>A server that never leaves its grace period.\<close>

lemma do_open_waits:
  assumes "conn40 os v srv (c, w)" "sleeps os v tick"
    and "request_ok (ops4 (open_request40 dir name acc create (n40_open_seqid c + 1) c))"
    and "\<And>n. open40 tick (srv 0) (open_request40 dir name acc create (n40_open_seqid c + 1) c)
      (n40_open_seqid c + 1) n (vw_state v w) = None"
  shows "Nfs4Client_do_open os dir name acc create (c, w) = None"
proof -
  let ?s = "n40_open_seqid c + 1" and ?c = "c\<lparr>n40_open_seqid := n40_open_seqid c + 1\<rparr>"
  have "Nfs4Client_open_loop os dir name acc create ?s (?c, w) = None"
    by (rule r40.loop_waits [where srv = srv and v = v and tick = tick])
       (use assms in \<open>simp_all add: waiting_def conn40_def open_request40_def open40_def\<close>)
  then show ?thesis
    by (simp add: Nfs4Client_do_open_def next_open_seqid_def io_bind_def io_modify_def io_get_def)
qed

subsection \<open>Listing\<close>

lemma Nfs4Client_readdir_loop_sound:
  assumes "Nfs4Client_readdir_loop os dir acc cookie cv s = Some r"
  shows "paged (Nfs4Client_readdir_page os dir) rp4_entries rp4_eof rp4_cookieverf d4_cookie acc cookie cv s r"
  by (rule Nfs4Client_readdir_loop.raw_induct
      [where P = "\<lambda>os dir acc cookie cv s r. paged (Nfs4Client_readdir_page os dir) rp4_entries rp4_eof
         rp4_cookieverf d4_cookie acc cookie cv s r", OF _ assms])
     (rule paged_turn)

interpretation readdir40: pager "Nfs4Client_readdir_loop os dir" "Nfs4Client_readdir_page os dir"
  rp4_entries rp4_eof rp4_cookieverf d4_cookie for os dir
  by unfold_locales (rule Nfs4Client_readdir_loop.simps, rule Nfs4Client_readdir_loop_sound)

lemma page40: "io_map Page_a (Nfs4Client_readdir_page os dir cookie cv) =
   compound_op (compound4 os []) (dreturn ()) (Page_c dir cookie cv)"
  using run40_compound [of 0 "Page_c dir cookie cv" os] by (simp add: facade40_def)

subsection \<open>A server that numbers the open owner's requests\<close>

text \<open>
  RFC 7530, section 9.1.7: the requests of an open owner (OPEN, OPEN_CONFIRM, CLOSE) are numbered. The
  next number is one higher than the last; the last one again is a retransmission, answered from the
  reply cache if it is the same request; anything else is \<open>NFS4ERR_BAD_SEQID\<close>. Whether it succeeded or
  not, a request uses its number up, except for the errors of \<open>keeps_seqid\<close>.
\<close>

fun owner_seqid :: "op4 \<Rightarrow> u32 option" where
  "owner_seqid (Open4 s acc deny cid own cr n) = Some s"
| "owner_seqid (Open_confirm4 sid s) = Some s"
| "owner_seqid (Close4 s sid) = Some s"
| "owner_seqid _ = None"

definition request_seqid :: "op4 list \<Rightarrow> u32 option" where
  "request_seqid ops = (case List.map_filter owner_seqid ops of [] \<Rightarrow> None | s # _ \<Rightarrow> Some s)"

definition keeps_seqid :: "Nfsstat4 \<Rightarrow> bool" where
  "keeps_seqid st \<longleftrightarrow> st \<in> {NFS4ERR_STALE_CLIENTID, NFS4ERR_STALE_STATEID, NFS4ERR_BAD_STATEID,
     NFS4ERR_BAD_SEQID, NFS4ERR_BADXDR, NFS4ERR_RESOURCE, NFS4ERR_NOFILEHANDLE, NFS4ERR_MOVED}"

lemmas keeps_seqid_defs =
  keeps_seqid_def NFS4ERR_STALE_CLIENTID_def NFS4ERR_STALE_STATEID_def NFS4ERR_BAD_STATEID_def
  NFS4ERR_BAD_SEQID_def NFS4ERR_BADXDR_def NFS4ERR_RESOURCE_def NFS4ERR_NOFILEHANDLE_def NFS4ERR_MOVED_def

type_synonym 'f owner_state = "u32 \<times> (op4 list \<times> Nfsstat4 \<times> res4 list) option \<times> 'f"

definition owned :: "'f server4 \<Rightarrow> 'f owner_state server4" where
  "owned srv minor ops = (\<lambda>(q, cache, f).
    (case request_seqid ops of
       None \<Rightarrow> (case srv minor ops f of (a, f') \<Rightarrow> (a, (q, cache, f')))
     | Some s \<Rightarrow>
         if s = q + 1 then
           (case srv minor ops f of
              (a, f') \<Rightarrow> (a, if keeps_seqid (fst a) then (q, cache, f') else (s, Some (ops, a), f')))
         else if s = q \<and> map_option fst cache = Some ops then (snd (the cache), (q, cache, f))
         else ((NFS4ERR_BAD_SEQID, []), (q, cache, f))))"

text \<open>The cached answer is one that the server gave.\<close>

definition cache_ok :: "'f owner_state \<Rightarrow> bool" where
  "cache_ok = (\<lambda>(q, cache, f). case cache of None \<Rightarrow> True | Some (ops, a) \<Rightarrow> answer_ok ops a)"

lemma owned_ok:
  assumes "server4_ok srv" and "cache_ok s"
  shows "answer_ok ops (fst (owned srv minor ops s)) \<and> cache_ok (snd (owned srv minor ops s))"
proof -
  obtain q cache f where s: "s = (q, cache, f)" by (cases s)
  obtain a f' where a: "srv minor ops f = (a, f')" by fastforce
  have "answer_ok ops a" using assms(1) a unfolding server4_ok_def by (metis fst_conv)
  with assms(2) a show ?thesis
    by (cases "request_seqid ops"; cases cache) (auto simp: s owned_def cache_ok_def answer_ok_def NFS4ERR_BAD_SEQID_def)
qed

definition owner_tick :: "('f \<Rightarrow> 'f) \<Rightarrow> 'f owner_state \<Rightarrow> 'f owner_state" where
  "owner_tick tick = (\<lambda>(q, cache, f). (q, cache, tick f))"

lemma owner_tick_simp [simp]: "owner_tick tick (q, cache, f) = (q, cache, tick f)"
  by (simp add: owner_tick_def)

lemma owned_replay:
  assumes "request_seqid ops = Some s" and "fst a = NFS4ERR_GRACE"
  shows "after_grace (owner_tick tick) (owned srv minor) ops n (s, Some (ops, a), f) = None"
proof (induction n arbitrary: f)
  case 0
  show ?case using assms by (simp add: after_grace.simps owned_def)
next
  case (Suc n)
  have "owned srv minor ops (s, Some (ops, a), f) = (a, (s, Some (ops, a), f))"
    using assms by (simp add: owned_def)
  with assms Suc.IH [of "tick f"] show ?case by (subst after_grace.simps) simp
qed

text \<open>The server's first answer to an OPEN is its last: it repeats a refusal.\<close>

lemma owned_open:
  assumes ops: "request_seqid ops = Some (q + 1)" and srv: "srv minor ops f = (a, f')"
  shows "after_grace (owner_tick tick) (owned srv minor) ops n (q, cache, f) =
    (if fst a = NFS4ERR_GRACE then None
     else Some (a, if keeps_seqid (fst a) then (q, cache, f') else (q + 1, Some (ops, a), f')))"
proof (cases "fst a = NFS4ERR_GRACE")
  case False
  with assms show ?thesis by (simp add: after_grace.simps owned_def)
next
  case True
  then have "\<not> keeps_seqid (fst a)"
    by (simp add: keeps_seqid_defs NFS4ERR_GRACE_def)
  then have "owned srv minor ops (q, cache, f) = (a, (q + 1, Some (ops, a), f'))"
    using assms by (simp add: owned_def)
  with True show ?thesis
    by (subst after_grace.simps) (simp add: owned_replay [OF ops True] split: nat.split)
qed

lemma request_seqids [simp]:
  "request_seqid (ops4 (Open_c dir name acc create s cid own)) = Some s"
  "request_seqid (ops4 (Confirm_c f s)) = Some s"
  "request_seqid (ops4 (Close_c f)) = Some (nf_seqid f)"
  by (simp_all add: request_seqid_def List.map_filter_simps at_fh_def)

text \<open>After a successful \<open>do_open\<close> the file's number is the last one the server has seen.\<close>

definition last_seqid :: "'f owner_state \<Rightarrow> Nfs4File \<Rightarrow> bool" where
  "last_seqid s f \<longleftrightarrow> fst s = nf_seqid f \<and> map_option fst (fst (snd s)) \<noteq> Some (ops4 (Close_c f)) \<and>
     fh4_ok (nf_fh f) \<and> stateid_ok (nf_stateid f)"

lemma no_keep_0: "\<not> keeps_seqid 0"
  by (simp add: keeps_seqid_defs)

lemma owned_opened:
  assumes ok: "server4_ok srv" and fit: "stateid_ok (or_stateid r)" "fh4_ok fh"
    and run: "opened40 (owned srv 0) s r fh (s, Some (ops4 (Open_c dir name acc create s cid own), a), f) = (Inr file, s', f')"
  shows "last_seqid f' file"
proof (cases "or_rflags r AND 2 = 0")
  case True
  with run fit show ?thesis by (auto simp: opened40_def Let_def last_seqid_def)
next
  case False
  let ?f = "\<lparr>nf_fh = fh, nf_stateid = or_stateid r, nf_seqid = s\<rparr>"
  obtain st rs f2 where a: "srv 0 (ops4 (Confirm_c ?f (s + 1))) f = ((st, rs), f2)" by (metis prod.exhaust)
  have aok: "answer_ok (ops4 (Confirm_c ?f (s + 1))) (st, rs)"
    using ok a unfolding server4_ok_def by (metis fst_conv)
  have o: "owned srv 0 (ops4 (Confirm_c ?f (s + 1))) (s, Some (ops4 (Open_c dir name acc create s cid own), a), f) =
      ((st, rs), if keeps_seqid st then (s, Some (ops4 (Open_c dir name acc create s cid own), a), f2)
        else (s + 1, Some (ops4 (Confirm_c ?f (s + 1)), (st, rs)), f2))"
    by (simp add: owned_def a del: ops4.simps)
  have st: "st = 0"
    using run False by (auto simp: opened40_def Let_def o outcome4_def simp del: ops4.simps split: if_splits)
  with aok have "list_all2 fits4 (ops4 (Confirm_c ?f (s + 1))) rs" by (simp add: answer_ok_def)
  then obtain sid where sid: "answer4 (Confirm_c ?f (s + 1)) rs = State_a sid" "stateid_ok sid"
    by (auto simp: list_all2_Cons1 answer4_def)
  have "(file, f') = (?f\<lparr>nf_stateid := sid, nf_seqid := s + 1\<rparr>, (s + 1, Some (ops4 (Confirm_c ?f (s + 1)), (0, rs)), f2))"
    using run False by (auto simp: opened40_def Let_def o outcome4_def st sid no_keep_0 simp del: ops4.simps)
  with fit sid show ?thesis by (simp add: last_seqid_def)
qed

lemma owned_open40:
  assumes ok: "server4_ok srv" and run: "open40 (owner_tick tick) (owned srv 0)
      (Open_c dir name acc create (q + 1) cid own) (q + 1) n (q, cache, f) = Some (Inr file, s', f')"
  shows "last_seqid f' file"
proof -
  let ?c = "Open_c dir name acc create (q + 1) cid own"
  obtain st rs f1 where a: "srv 0 (ops4 ?c) f = ((st, rs), f1)" by (metis prod.exhaust)
  have aok: "answer_ok (ops4 ?c) (st, rs)" using ok a unfolding server4_ok_def by (metis fst_conv)
  note g = owned_open [where srv = srv and minor = 0 and tick = tick and n = n and cache = cache, OF request_seqids(1) a]
  have st: "st = 0"
    using run unfolding open40_def g by (auto simp: outcome4_def simp del: ops4.simps split: if_splits)
  with aok have "list_all2 fits4 (ops4 ?c) rs" by (simp add: answer_ok_def)
  from answer4_open [OF this] obtain r fh
    where r: "answer4 ?c rs = Opened_a r fh" "stateid_ok (or_stateid r)" "fh4_ok fh" by blast
  have "opened40 (owned srv 0) (q + 1) r fh (q + 1, Some (ops4 ?c, (0, rs)), f1) = (Inr file, s', f')"
    using run unfolding open40_def g by (simp add: st r outcome4_def no_keep_0 NFS4ERR_GRACE_def del: ops4.simps)
  from owned_opened [OF ok r(2,3) this] show ?thesis .
qed

lemma after_grace_owned_ok:
  assumes ok: "server4_ok srv" and c: "cache_ok s"
    and g: "after_grace (owner_tick tick) (owned srv minor) ops n s = Some (a, s1)"
  shows "answer_ok ops a \<and> cache_ok s1"
  using c g
proof (induction n arbitrary: s)
  case 0
  then show ?case using owned_ok [OF ok 0(1), of ops minor]
    by (auto simp: after_grace.simps split: prod.splits if_splits)
next
  case (Suc n)
  obtain b s2 where b: "owned srv minor ops s = (b, s2)" by (metis prod.exhaust)
  with owned_ok [OF ok Suc.prems(1), of ops minor] have o: "answer_ok ops b" "cache_ok s2" by auto
  then have "cache_ok (owner_tick tick s2)" by (cases s2) (simp add: cache_ok_def)
  with Suc.prems(2) o Suc.IH show ?case
    by (auto simp: after_grace_step [of "owned srv minor", OF b] split: if_splits)
qed

subsection \<open>Clients for the examples\<close>

definition client4 :: Nfs4Client where
  "client4 = \<lparr>n40_host = ''server'', n40_rpc = conn0, n40_root_fh = root_sentinel, n40_clientid = 9, n40_open_seqid = 0\<rparr>"

lemma client4_conn: "conn40 (sim_os 2 (rpc_server (nfs4_handler srv))) sim_view srv (client4, sim_start f)"
  unfolding conn40_def by (auto simp: client4_def serves4_def intro!: conn0_conn exI [of _ "nfs4_handler srv"])

lemma sim_sleeps: "sleeps (sim_os mtu server) sim_view (\<lambda>f. f)"
  by (simp add: sleeps_def sim_os_def sim_net_def sim_view_def sim_conn_of_def fun_eq_iff)

lemmas sim_start_state [simp] = sim_view_start(1)

lemma client4_open_ok:
  "request_ok (ops4 (open_request40 (fh4_of 7) [7] 1 False s client4))"
  by (simp add: open_request40_def request_ok_def at_fh_def fh4_of_def fh4_ok_def wire_ops_def wire_op4_def
      wire_fh4_def length_wire_opaque small_def bytes_of_def xdr_pad_def)

subsection \<open>Properties\<close>

text \<open>C3: Any sequence of the NFSv4.0 operations that \<open>Nfs4Client\<close> performs with one COMPOUND each (all but opening a
  file, \<open>do_open\<close> and its confirmation, which take numbers of the open owner; \<open>renew\<close> is for the client's own
  clientid) returns what an RFC 7530 server answers to the COMPOUNDs they stand for: the file handle (the root
  for the empty handle), the operation and, where it returns a handle, GETFH, for \<open>renew\<close> RENEW alone; a
  COMPOUND that fails raises \<open>Nfs4Error\<close> with the server's status, one that succeeds yields the value that the
  function returns, read off the server's result (the handle, the attributes, the granted access bits, the data
  of a READ without its eof flag, the count of a WRITE, the verifier of a COMMIT, the text of a link, the page of
  a directory). It holds over any network that cuts the byte streams as it likes.\<close>

theorem nfs4_session_refines:
  assumes "conn40 os v srv (c, w)" and "server4_ok srv" and "list_all (\<lambda>c. request_ok (ops4 c)) cs"
    and "list_all (facade40 (n40_clientid c)) cs"
  shows "\<exists>w'. run_ops (run40 os) cs (c, w) =
      Some (fst (answer_all (srv 0) cs (vw_state v w)), ((next_call40 ^^ length cs) c, w')) \<and>
    vw_state v w' = snd (answer_all (srv 0) cs (vw_state v w))"
  using assms by (rule run40_session)

lemma nfs4_session_refines_witness:
  "\<exists>s'. run_ops (run40 (sim_os 2 (rpc_server (nfs4_handler (op_server (file4 False))))))
      [Lookup_c root_sentinel [7],
       Write_c \<lparr>nf_fh = fh4_of 7, nf_stateid = sid4 1, nf_seqid = 1\<rparr> 0 FILE_SYNC4 [1, 2, 3],
       Read_c \<lparr>nf_fh = fh4_of 7, nf_stateid = sid4 1, nf_seqid = 1\<rparr> 1 5,
       Lookup_c (fh4_of 7) [8]] (client4, sim_start (0, [])) =
    Some ([Inr (Fh_a (fh4_of 7)), Inr (Count_a 3), Inr (Data_a [2, 3]), Inl (Nfs4Error 2 ''COMPOUND'')], s')"
proof -
  let ?f = "\<lparr>nf_fh = fh4_of 7, nf_stateid = sid4 1, nf_seqid = 1\<rparr>"
  let ?cs = "[Lookup_c root_sentinel [7], Write_c ?f 0 FILE_SYNC4 [1, 2, 3], Read_c ?f 1 5, Lookup_c (fh4_of 7) [8]]"
  have ok: "list_all (\<lambda>c. request_ok (ops4 c)) ?cs"
    by (simp add: request_ok_def at_fh_def fh4_of_def fh4_ok_def sid4_def stateid_ok_def wire_ops_def wire_op4_def
        wire_fh4_def wire_stateid4_def length_wire_opaque length_wire_fixed small_def root_sentinel_def xdr_pad_def)
  have srv: "answer_all (op_server (file4 False) 0) ?cs (0, []) =
    ([Inr (Fh_a (fh4_of 7)), Inr (Count_a 3), Inr (Data_a [2, 3]), Inl (Nfs4Error 2 ''COMPOUND'')], (0, [1, 2, 3]))"
    by (simp add: op_server_def at_fh_def fh4_of_def root_sentinel_def outcome4_def answer4_def NFS4ERR_NOENT_def)
  have fac: "list_all (facade40 cid) ?cs" for cid by (simp add: facade40_def)
  from nfs4_session_refines [OF client4_conn [of "op_server (file4 False)" "(0, [])"] op_server_ok [OF file4_ok] ok fac]
  show ?thesis unfolding sim_start_state srv fst_conv by blast
qed

text \<open>C15: \<open>Nfs4Client::readdir\<close> lists a directory completely, in the server's order and every entry once,
  however the server divides it into pages: the cookie of the last entry and the verifier of the last
  page go into the next READDIR, until the page with \<open>eof\<close>; it returns (the loop ends) for every server
  that gets on with its listing.\<close>

theorem nfs4_readdir_complete:
  assumes "conn40 os v srv (c, w)" and "lists4 (srv 0) dir J" and "fh4_ok dir"
    and "J 0 (replicate 8 0) files (vw_state v w)"
  shows "\<exists>s'. Nfs4Client_readdir os dir (c, w) = Some (Inr files, s')"
  using readdir40.loop_lists_all [OF c40.serves_pages [where os = os and v = v and page = "Nfs4Client_readdir_page os dir" and dir = dir and J = J and srv = srv, OF page40 assms(2,3)],
      where cookie = 0 and cv = "replicate 8 0" and todo = files and s = "(c, w)" and acc = "[]"] assms(1,4)
  by (simp add: Nfs4Client_readdir_def)

lemma nfs4_readdir_complete_witness:
  "\<exists>s'. Nfs4Client_readdir (sim_os 2 (rpc_server (nfs4_handler (op_server (file4 False))))) (fh4_of 7)
     (client4, sim_start (0, [])) = Some (Inr [entry4 1, entry4 2, entry4 3], s')"
  by (rule nfs4_readdir_complete [OF client4_conn file4_lists])
     (simp_all add: todo4_def fh4_ok_def fh4_of_def)

text \<open>C10: What \<open>do_open\<close> (behind \<open>open_read\<close> and \<open>open_write\<close>) does, against any server: it sends OPEN with the open
  owner's next number and, after sleeping, the very same OPEN with the very same number again, as long as the
  answer is that the server is in its grace period (RFC 7530, section 9.1.7, would have the number go up after
  NFS4ERR_GRACE; a server that keeps to it takes the second OPEN for a retransmission, see C17); an OPEN whose
  result asks for it is confirmed with the number after that, under the stateid the OPEN returned, and the
  confirmed stateid replaces it. Any other failure, of either COMPOUND, is raised with its status, and the
  number counts as used. The server's state is what these COMPOUNDs and the time slept make it.\<close>

theorem nfs4_open_refines:
  assumes "conn40 os v srv (c, w)" and "sleeps os v tick" and "server4_ok srv"
    and "request_ok (ops4 (open_request40 dir name acc create (n40_open_seqid c + 1) c))"
    and "open40 tick (srv 0) (open_request40 dir name acc create (n40_open_seqid c + 1) c)
      (n40_open_seqid c + 1) n (vw_state v w) = Some (r, s', f')"
  shows "\<exists>c' w'. Nfs4Client_do_open os dir name acc create (c, w) = Some (r, (c', w')) \<and>
    n40_open_seqid c' = s' \<and> n40_clientid c' = n40_clientid c \<and> vw_state v w' = f'"
  using do_open_served [OF assms(1,2) _ assms(4,5)] after_grace_ok [OF assms(3)] by blast

lemma nfs4_open_refines_witness:
  "\<exists>c' w'. Nfs4Client_do_open (sim_os 2 (rpc_server (nfs4_handler (op_server (file4 True))))) (fh4_of 7) [7] 1 False
     (client4, sim_start (1, [])) =
     Some (Inr \<lparr>nf_fh = fh4_of 7, nf_stateid = sid4 2, nf_seqid = 2\<rparr>, (c', w')) \<and>
     n40_open_seqid c' = 2 \<and> n40_clientid c' = n40_clientid client4 \<and> vw_state sim_view w' = (0, [])"
proof -
  have s: "n40_open_seqid client4 + 1 = 1" by (simp add: client4_def)
  have "open40 (\<lambda>f. f) (op_server (file4 True) 0) (open_request40 (fh4_of 7) [7] 1 False 1 client4) 1 1 (1, []) =
      Some (Inr \<lparr>nf_fh = fh4_of 7, nf_stateid = sid4 2, nf_seqid = 2\<rparr>, 2, (0, []))"
    by (simp add: open40_def open_request40_def after_grace.simps op_server_def at_fh_def fh4_of_def NFS4ERR_GRACE_def
        outcome4_def answer4_def opened40_def)
  then show ?thesis
    using nfs4_open_refines [where tick = "\<lambda>f. f" and n = 1, OF client4_conn sim_sleeps op_server_ok [OF file4_ok]
        client4_open_ok, unfolded s sim_start_state, of True] by blast
qed

text \<open>C16: The retry loop has no bound: \<open>do_open\<close> fails to return exactly when the server refuses every
  retransmission of the OPEN because of its grace period; otherwise it returns.\<close>

theorem nfs4_open_returns_iff:
  assumes "conn40 os v srv (c, w)" and "sleeps os v tick" and "server4_ok srv"
    and "request_ok (ops4 (open_request40 dir name acc create (n40_open_seqid c + 1) c))"
  shows "Nfs4Client_do_open os dir name acc create (c, w) = None \<longleftrightarrow>
    (\<forall>n. after_grace tick (srv 0) (ops4 (open_request40 dir name acc create (n40_open_seqid c + 1) c)) n
       (vw_state v w) = None)"
proof
  assume none: "Nfs4Client_do_open os dir name acc create (c, w) = None"
  show "\<forall>n. after_grace tick (srv 0) (ops4 (open_request40 dir name acc create (n40_open_seqid c + 1) c)) n
       (vw_state v w) = None"
  proof (rule allI, rule ccontr)
    fix n
    let ?q = "open_request40 dir name acc create (n40_open_seqid c + 1) c"
    assume some: "after_grace tick (srv 0) (ops4 ?q) n (vw_state v w) \<noteq> None"
    then have "open40 tick (srv 0) ?q (n40_open_seqid c + 1) n (vw_state v w) \<noteq> None"
      by (simp add: open40_def)
    then obtain r s' f' where o: "open40 tick (srv 0) ?q (n40_open_seqid c + 1) n (vw_state v w) = Some (r, s', f')"
      by (metis option.exhaust prod.exhaust)
    from do_open_served [OF assms(1,2) _ assms(4) o] after_grace_ok [OF assms(3)] none show False by fastforce
  qed
next
  assume "\<forall>n. after_grace tick (srv 0) (ops4 (open_request40 dir name acc create (n40_open_seqid c + 1) c)) n
       (vw_state v w) = None"
  then show "Nfs4Client_do_open os dir name acc create (c, w) = None"
    by (intro do_open_waits [OF assms(1,2,4)]) (simp add: open40_def)
qed

lemma nfs4_open_returns_iff_witness:
  "Nfs4Client_do_open (sim_os 2 (rpc_server (nfs4_handler (op_server (\<lambda>op f. (Inl NFS4ERR_GRACE, f))))))
     (fh4_of 7) [7] 1 False (client4, sim_start ()) = None"
proof -
  let ?exec = "\<lambda>op (f :: unit). (Inl NFS4ERR_GRACE :: Nfsstat4 + res4, f)"
  have "op_ok ?exec" by (simp add: op_ok_def NFS4ERR_GRACE_def)
  note ok = op_server_ok [OF this]
  have "after_grace (\<lambda>f. f) (op_server ?exec 0) (op # ops) n f = None" for op ops n f
    by (induction n) (simp_all add: after_grace.simps op_server_def)
  then show ?thesis
    using nfs4_open_returns_iff [where tick = "\<lambda>f. f", OF client4_conn sim_sleeps ok client4_open_ok]
    by (simp add: open_request40_def)
qed

text \<open>C17: Sending an OPEN again under the number it had before, as \<open>do_open\<close> does during the grace period, is a
  retransmission to a server that numbers the open owner's requests (RFC 7530, section 9.1.7): the refusal
  has used the number up and is answered again from the reply cache, so that one \<open>NFS4ERR_GRACE\<close> keeps
  \<open>do_open\<close> retrying for ever, whatever the server would answer to a new request later.\<close>

theorem nfs4_grace_retry_replayed:
  assumes "conn40 os v (owned srv) (c, w)" and "sleeps os v (owner_tick tick)"
    and "vw_state v w = (n40_open_seqid c, cache, f)"
    and "request_ok (ops4 (open_request40 dir name acc create (n40_open_seqid c + 1) c))"
    and "srv 0 (ops4 (open_request40 dir name acc create (n40_open_seqid c + 1) c)) f = ((NFS4ERR_GRACE, rs), f')"
  shows "Nfs4Client_do_open os dir name acc create (c, w) = None"
proof (rule do_open_waits [OF assms(1,2,4)])
  fix n
  show "open40 (owner_tick tick) (owned srv 0) (open_request40 dir name acc create (n40_open_seqid c + 1) c)
      (n40_open_seqid c + 1) n (vw_state v w) = None"
    using owned_open [where ops = "ops4 (open_request40 dir name acc create (n40_open_seqid c + 1) c)" and
        q = "n40_open_seqid c" and srv = srv and minor = 0 and f = f and tick = tick and n = n and cache = cache]
      assms(3,5)
    by (simp add: open40_def open_request40_def del: ops4.simps)
qed

lemma nfs4_grace_retry_replayed_witness:
  "Nfs4Client_do_open (sim_os 2 (rpc_server (nfs4_handler (owned (op_server (file4 False)))))) (fh4_of 7) [7] 1 False
     (client4, sim_start (0, None, (1, []))) = None"
proof -
  have s: "sleeps (sim_os 2 server) sim_view (owner_tick (\<lambda>f :: nat \<times> byte list. f))" for server
    by (simp add: sleeps_def sim_os_def sim_net_def sim_view_def sim_conn_of_def fun_eq_iff owner_tick_def split_beta)
  have n: "n40_open_seqid client4 = 0" by (simp add: client4_def)
  have a: "op_server (file4 False) 0 (ops4 (open_request40 (fh4_of 7) [7] 1 False (n40_open_seqid client4 + 1) client4)) (1, []) =
      ((NFS4ERR_GRACE, [Done_r]), (0, []))"
    by (simp add: op_server_def open_request40_def at_fh_def fh4_of_def)
  show ?thesis
    by (rule nfs4_grace_retry_replayed [OF client4_conn s _ client4_open_ok, where srv = "op_server (file4 False)" and
          f = "(1, [])" and cache = None and rs = "[Done_r]" and f' = "(0, [])"])
       (simp only: n sim_start_state, rule a)
qed

text \<open>C18: \<open>Nfs4Client::close\<close> sends CLOSE under the number of the OPEN or OPEN_CONFIRM that opened the file, a
  number that is used up: a server that numbers the open owner's requests refuses to close any file
  right after \<open>do_open\<close> has opened it.\<close>

theorem nfs4_close_reuses_seqid:
  assumes "conn40 os v (owned srv) (c, w)" and "sleeps os v (owner_tick tick)" and "server4_ok srv"
    and "vw_state v w = (n40_open_seqid c, cache, f)" and "cache_ok (vw_state v w)"
    and "request_ok (ops4 (open_request40 dir name acc create (n40_open_seqid c + 1) c))"
    and "Nfs4Client_do_open os dir name acc create (c, w) = Some (Inr file, (c', w'))"
  shows "\<exists>s''. Nfs4Client_close os file (c', w') = Some (Inl (Nfs4Error NFS4ERR_BAD_SEQID ''COMPOUND''), s'')"
proof -
  let ?q = "open_request40 dir name acc create (n40_open_seqid c + 1) c" and ?s = "n40_open_seqid c + 1"
  have nog: "\<not> (\<forall>n. open40 (owner_tick tick) (owned srv 0) ?q ?s n (vw_state v w) = None)"
  proof
    assume "\<forall>n. open40 (owner_tick tick) (owned srv 0) ?q ?s n (vw_state v w) = None"
    then have "Nfs4Client_do_open os dir name acc create (c, w) = None"
      by (intro do_open_waits [OF assms(1,2,6)]) (rule spec)
    with assms(7) show False by simp
  qed
  then obtain n where "open40 (owner_tick tick) (owned srv 0) ?q ?s n (vw_state v w) \<noteq> None" by blast
  then obtain r s' f' where o: "open40 (owner_tick tick) (owned srv 0) ?q ?s n (vw_state v w) = Some (r, s', f')"
    by (metis option.exhaust prod.exhaust)
  have ok: "answer_ok (ops4 ?q) a \<and> (\<forall>ops. answer_ok ops (fst (owned srv 0 ops f1)))"
    if g: "after_grace (owner_tick tick) (owned srv 0) (ops4 ?q) n (vw_state v w) = Some (a, f1)" for a f1
    using after_grace_owned_ok [OF assms(3,5) g] owned_ok [OF assms(3)] by blast
  obtain c1 w1 where d: "Nfs4Client_do_open os dir name acc create (c, w) = Some (r, (c1, w1))"
    and conn: "conn40 os v (owned srv) (c1, w1)" and st: "vw_state v w1 = f'"
    using do_open_served [OF assms(1,2) ok assms(6) o] by blast
  with assms(7) have r: "r = Inr file" "c1 = c'" "w1 = w'" by auto
  have l: "last_seqid f' file"
    using owned_open40 [OF assms(3), of tick dir name acc create "n40_open_seqid c"] o r(1) assms(4)
    by (simp add: open_request40_def del: ops4.simps)
  obtain q2 cache2 f2 where f': "f' = (q2, cache2, f2)" by (cases f')
  have a: "owned srv 0 (ops4 (Close_c file)) f' = ((NFS4ERR_BAD_SEQID, []), f')"
    using l by (auto simp: f' last_seqid_def owned_def simp del: ops4.simps)
  have "io_map (\<lambda>_. Unit_a) (Nfs4Client_close os file) (c', w') =
      Some (Inl (Nfs4Error NFS4ERR_BAD_SEQID ''COMPOUND''), (next_call40 c', w2))"
    if "compound_op (compound4 os []) (dreturn ()) (Close_c file) (c', w') =
      Some (outcome4 (Close_c file) (NFS4ERR_BAD_SEQID, []), (next_call40 c', w2))" for w2
    using that run40_compound [of 0 "Close_c file" os] by (simp add: facade40_def) (simp add: outcome4_def NFS4ERR_BAD_SEQID_def)
  moreover have "request_ok (ops4 (Close_c file))" "answer_ok (ops4 (Close_c file)) (NFS4ERR_BAD_SEQID, [])"
    using l request_ok_file(2) by (auto simp: last_seqid_def answer_ok_def NFS4ERR_BAD_SEQID_def simp del: ops4.simps)
  ultimately obtain w2 where "io_map (\<lambda>_. Unit_a) (Nfs4Client_close os file) (c', w') =
      Some (Inl (Nfs4Error NFS4ERR_BAD_SEQID ''COMPOUND''), (next_call40 c', w2))"
    using c40.op_served [where c = "Close_c file", OF conn [unfolded r] _ a [folded st [unfolded r]]] by blast
  then obtain q where "Nfs4Client_close os file (c', w') = Some (q, (next_call40 c', w2))"
    "Inl (Nfs4Error NFS4ERR_BAD_SEQID ''COMPOUND'') = map_sum id (\<lambda>_. Unit_a) q"
    unfolding io_map_Some by blast
  then show ?thesis by (cases q) auto
qed

lemma nfs4_close_reuses_seqid_witness:
  "\<exists>s1 s2. Nfs4Client_do_open (sim_os 2 (rpc_server (nfs4_handler (owned (op_server (file4 True)))))) (fh4_of 7) [7] 1 False
       (client4, sim_start (0, None, (0, []))) = Some (Inr \<lparr>nf_fh = fh4_of 7, nf_stateid = sid4 2, nf_seqid = 2\<rparr>, s1) \<and>
     Nfs4Client_close (sim_os 2 (rpc_server (nfs4_handler (owned (op_server (file4 True))))))
       \<lparr>nf_fh = fh4_of 7, nf_stateid = sid4 2, nf_seqid = 2\<rparr> s1 = Some (Inl (Nfs4Error 10026 ''COMPOUND''), s2)"
proof -
  let ?srv = "op_server (file4 True)" and ?q = "open_request40 (fh4_of 7) [7] 1 False 1 client4"
  let ?os = "sim_os 2 (rpc_server (nfs4_handler (owned ?srv)))" and ?f = "\<lparr>nf_fh = fh4_of 7, nf_stateid = sid4 2, nf_seqid = 2\<rparr>"
  have s: "sleeps ?os sim_view (owner_tick (\<lambda>f :: nat \<times> byte list. f))"
    by (simp add: sleeps_def sim_os_def sim_net_def sim_view_def sim_conn_of_def fun_eq_iff owner_tick_def split_beta)
  have c: "cache_ok (vw_state sim_view (sim_start (0, None, (0, []))))" by (simp add: cache_ok_def)
  have n: "n40_open_seqid client4 + 1 = 1" by (simp add: client4_def)
  have o: "open40 (owner_tick (\<lambda>f. f)) (owned ?srv 0) ?q 1 0 (0, None, (0, [])) =
      Some (Inr ?f, 2, (2, Some (ops4 (Confirm_c \<lparr>nf_fh = fh4_of 7, nf_stateid = sid4 1, nf_seqid = 1\<rparr> 2),
        (0, [Done_r, State_r (sid4 2)])), (0, [])))"
    by (simp add: open40_def open_request40_def after_grace.simps op_server_def at_fh_def fh4_of_def NFS4ERR_GRACE_def
        outcome4_def answer4_def opened40_def owned_def request_seqid_def List.map_filter_simps no_keep_0)
  have ok: "answer_ok (ops4 ?q) a \<and> (\<forall>ops. answer_ok ops (fst (owned ?srv 0 ops f1)))"
    if g: "after_grace (owner_tick (\<lambda>f. f)) (owned ?srv 0) (ops4 ?q) 0 (0, None, (0, [])) = Some (a, f1)" for a f1
    using after_grace_owned_ok [OF op_server_ok [OF file4_ok] _ g] owned_ok [OF op_server_ok [OF file4_ok]]
    by (auto simp: cache_ok_def)
  obtain c' w' where d: "Nfs4Client_do_open ?os (fh4_of 7) [7] 1 False (client4, sim_start (0, None, (0, []))) = Some (Inr ?f, (c', w'))"
    using do_open_served [OF client4_conn s, where n = 0, unfolded n sim_start_state, OF ok client4_open_ok o] by blast
  from nfs4_close_reuses_seqid [OF client4_conn s op_server_ok [OF file4_ok] _ c _ d] d client4_open_ok show ?thesis
    by (auto simp: client4_def NFS4ERR_BAD_SEQID_def)
qed

end
