(* ===== verification/Nfs41_Server.thy ===== *)
theory Nfs41_Server
  imports Nfs4_Server
begin

text \<open>
  The NFSv4.1 client against a server that keeps a session for it: every COMPOUND has to start with a
  SEQUENCE that names the session, its only slot and the slot's next sequence number.
\<close>

subsection \<open>A session at the server\<close>

definition NFS4ERR_OP_NOT_IN_SESSION :: Nfsstat4 where
  "NFS4ERR_OP_NOT_IN_SESSION = 10071"

text \<open>The state has the sequence number that has to come next (RFC 5661, section 2.10.6.1).\<close>

definition sequenced :: "SessionId41 \<Rightarrow> 'f server4 \<Rightarrow> (u32 \<times> 'f) server4" where
  "sequenced sid srv minor ops = (\<lambda>(q, f).
    (case ops of
       Sequence4 sid' s slot hi c # ops' \<Rightarrow>
         if sid' \<noteq> sid then ((NFS4ERR_BADSESSION, []), (q, f))
         else if slot \<noteq> 0 then ((NFS4ERR_BADSLOT, []), (q, f))
         else if s \<noteq> q then ((NFS4ERR_SEQ_MISORDERED, []), (q, f))
         else (case srv minor ops' f of
                 ((st, rs), f') \<Rightarrow> ((st, Sequence_r sid s 0 0 0 0 # rs), (q + 1, f')))
     | _ \<Rightarrow> ((NFS4ERR_OP_NOT_IN_SESSION, []), (q, f))))"

text \<open>A server in which this session has been created; it serves other requests too.\<close>

definition has_session :: "(u32 \<times> 'f) server4 \<Rightarrow> SessionId41 \<Rightarrow> 'f server4 \<Rightarrow> bool" where
  "has_session srv' sid srv \<longleftrightarrow>
     (\<forall>minor sid' s slot hi c ops f.
        srv' minor (Sequence4 sid' s slot hi c # ops) f = sequenced sid srv minor (Sequence4 sid' s slot hi c # ops) f)"

lemma has_session_itself: "has_session (sequenced sid srv) sid srv"
  by (simp add: has_session_def)

definition conn41 :: "'w os \<Rightarrow> ('w, u32 \<times> 'f) view \<Rightarrow> 'f server4 \<Rightarrow> 'w nfs41_state \<Rightarrow> bool" where
  "conn41 os v srv s \<longleftrightarrow> length (n41_sessionid (fst s)) = 16 \<and> n41_slot_seqid (fst s) = fst (vw_state v (snd s)) \<and>
     (\<exists>h srv'. serves4 h srv' \<and> has_session srv' (n41_sessionid (fst s)) srv \<and>
        rpc_conn os v h (n41_rpc (fst s), snd s))"

definition next_call41 :: "Nfs41Client \<Rightarrow> Nfs41Client" where
  "next_call41 c =
     c\<lparr>n41_rpc := (n41_rpc c)\<lparr>rc_xid := rc_xid (n41_rpc c) + 1\<rparr>, n41_slot_seqid := n41_slot_seqid c + 1\<rparr>"

definition seq_op :: "Nfs41Client \<Rightarrow> op4" where
  "seq_op c = Sequence4 (n41_sessionid c) (n41_slot_seqid c) 0 0 0"

lemma encode_sequence41_append [put_simps]:
  "encode_sequence41 sid s slot hi cache buf = buf @ wire_op4 (Sequence4 sid s slot hi (if cache then 1 else 0))"
  by (simp add: encode_sequence41_def wire_op4_def op_code_defs put_simps)

lemma decode_sequence41_at: "length sid = 16 \<Longrightarrow>
   decode_sequence41_result (at pre (wire_res4 op (Sequence_r sid s slot hi thi fl) @ rest)) =
   Inr ((), at (pre @ wire_res4 op (Sequence_r sid s slot hi thi fl)) rest)"
  by (simp add: decode_sequence41_result_def wire_res4_def check_op_status_at eff_simps u32c.dec_enc fixedc.dec_enc)

lemma compound41_served:
  assumes conn: "conn41 os v srv (c, w)" and ops: "request_ok ops" and tag: "length tag \<le> 32"
    and srv: "srv 1 ops (snd (vw_state v w)) = ((st, rs), f')"
  shows "\<exists>w'. compound41 os tag (wire_ops ops) (word_of_nat (length ops)) (c, w) =
      Some (Inr (wire_compound tag (seq_op c # ops)
          (st, Sequence_r (n41_sessionid c) (n41_slot_seqid c) 0 0 0 0 # rs)), (next_call41 c, w')) \<and>
    conn41 os v srv (next_call41 c, w') \<and> snd (vw_state v w') = f'"
proof -
  let ?sid = "n41_sessionid c" and ?ops = "seq_op c # ops"
  obtain h srv' where h: "serves4 h srv'" and ses: "has_session srv' ?sid srv" and rc: "rpc_conn os v h (n41_rpc c, w)"
    and sid: "length ?sid = 16" and q: "fst (vw_state v w) = n41_slot_seqid c"
    using conn by (auto simp: conn41_def)
  have answer: "srv' 1 ?ops (vw_state v w) =
      ((st, Sequence_r ?sid (n41_slot_seqid c) 0 0 0 0 # rs), (n41_slot_seqid c + 1, f'))"
    using q srv ses by (cases "vw_state v w") (simp add: has_session_def sequenced_def seq_op_def)
  have ok: "list_all op4_ok ?ops" "length (wire_ops ?ops) < 2 ^ 30 - 64"
    using ops sid by (simp_all add: request_ok_def seq_op_def wire_ops_def wire_op4_def length_wire_fixed)
  obtain w' where call: "call_compound os tag (wire_ops ?ops) (word_of_nat (length ?ops)) 1 (n41_rpc c, w) =
        Some (Inr (wire_compound tag ?ops (st, Sequence_r ?sid (n41_slot_seqid c) 0 0 0 0 # rs)),
          ((n41_rpc c)\<lparr>rc_xid := rc_xid (n41_rpc c) + 1\<rparr>, w'))"
      and rc': "rpc_conn os v h ((n41_rpc c)\<lparr>rc_xid := rc_xid (n41_rpc c) + 1\<rparr>, w')"
      and st: "vw_state v w' = (n41_slot_seqid c + 1, f')"
    using compound_served [where srv = srv', OF h rc ok tag answer] by blast
  have "compound41 os tag (wire_ops ops) (word_of_nat (length ops)) (c, w) =
      Some (Inr (wire_compound tag ?ops (st, Sequence_r ?sid (n41_slot_seqid c) 0 0 0 0 # rs)), (next_call41 c, w'))"
    using call by (simp add: compound41_def eff_simps Let_def encode_def put_simps on_rpc41_def io_zoom_def
        next_call41_def seq_op_def wire_ops_def add.commute)
  moreover have "conn41 os v srv (next_call41 c, w')"
    using h ses rc' sid st by (auto simp: conn41_def next_call41_def)
  ultimately show ?thesis using st by auto
qed

lemma check_sequence_wire:
  assumes "length tag \<le> 32" and sid: "length (n41_sessionid c) = 16"
  shows "\<exists>pre. \<forall>D. decode (dbind check_compound_status (\<lambda>_. dbind decode_sequence41_result (\<lambda>_. D)))
      (wire_compound tag (seq_op c # ops) (st, Sequence_r (n41_sessionid c) (n41_slot_seqid c) 0 0 0 0 # rs)) =
    (if st \<noteq> 0 then Inl (Nfs4Error st ''COMPOUND'') else map_sum id fst (D (at pre (wire_results ops rs))))"
proof -
  let ?r = "Sequence_r (n41_sessionid c) (n41_slot_seqid c) 0 0 0 0"
  obtain pre where *: "\<forall>D :: 'a decoder. decode (dbind check_compound_status (\<lambda>_. D)) (wire_compound tag (seq_op c # ops) (st, ?r # rs)) =
    (if st \<noteq> 0 then Inl (Nfs4Error st ''COMPOUND'')
     else map_sum id fst (D (at pre (wire_results (seq_op c # ops) (?r # rs)))))"
    using check_compound_wire [OF assms(1)] by blast
  show ?thesis
    unfolding * [rule_format]
    by (rule exI [of _ "pre @ wire_res4 (seq_op c) ?r"])
       (simp add: wire_results_def decode_sequence41_at [OF sid] eff_simps)
qed

interpretation c41: compound_channel "conn41 os v srv" "\<lambda>w. snd (vw_state v w)" next_call41
    "compound41 os []" decode_sequence41_result "srv 1" for os v srv
proof unfold_locales
  fix c w ops st rs f'
  assume c: "conn41 os v srv (c, w)" and "request_ok ops" "srv 1 ops (snd (vw_state v w)) = ((st, rs), f')"
  then obtain w' where *: "compound41 os [] (wire_ops ops) (word_of_nat (length ops)) (c, w) =
      Some (Inr (wire_compound [] (seq_op c # ops)
          (st, Sequence_r (n41_sessionid c) (n41_slot_seqid c) 0 0 0 0 # rs)), (next_call41 c, w'))"
    and **: "conn41 os v srv (next_call41 c, w')" "snd (vw_state v w') = f'"
    using compound41_served [of os v srv c w ops "[]"] by auto
  have sid: "length (n41_sessionid c) = 16" using c by (simp add: conn41_def)
  obtain pre where "\<forall>D :: val4 decoder. decode (dbind check_compound_status (\<lambda>_. dbind decode_sequence41_result (\<lambda>_. D)))
      (wire_compound [] (seq_op c # ops) (st, Sequence_r (n41_sessionid c) (n41_slot_seqid c) 0 0 0 0 # rs)) =
    (if st \<noteq> 0 then Inl (Nfs4Error st ''COMPOUND'') else map_sum id fst (D (at pre (wire_results ops rs))))"
    using check_sequence_wire [of "[]", OF _ sid] by fastforce
  with * ** check_compound_alone [of "[]", simplified] show "\<exists>reply w' pre. compound41 os [] (wire_ops ops) (word_of_nat (length ops)) (c, w) =
        Some (Inr reply, (next_call41 c, w')) \<and> conn41 os v srv (next_call41 c, w') \<and> snd (vw_state v w') = f' \<and>
      decode check_compound_status reply = (if st \<noteq> 0 then Inl (Nfs4Error st ''COMPOUND'') else Inr ()) \<and>
      (\<forall>D :: val4 decoder. decode (dbind check_compound_status (\<lambda>_. dbind decode_sequence41_result (\<lambda>_. D))) reply =
        (if st \<noteq> 0 then Inl (Nfs4Error st ''COMPOUND'')
         else map_sum id fst (D (at pre (wire_results ops rs)))))"
    by blast
qed

subsection \<open>The client's operations\<close>

text \<open>The COMPOUNDs of \<open>do_open\<close> are run as they are.\<close>

fun run41 :: "'w os \<Rightarrow> call4 \<Rightarrow> ('w nfs41_state, val4) io" where
  "run41 os (Lookup_c dir n) = io_map Fh_a (Nfs41Client_lookup os dir n)"
| "run41 os (Getattr_c fh) = io_map Attr_a (Nfs41Client_getattr os fh)"
| "run41 os (Access_c fh m) = io_map Mask_a (Nfs41Client_access os fh m)"
| "run41 os (Close_c f) = io_map (\<lambda>_. Unit_a) (Nfs41Client_close os f)"
| "run41 os (Read_c f off n) = io_map Data_a (Nfs41Client_read os f off n)"
| "run41 os (Write_c f off how d) = io_map Count_a (Nfs41Client_write os f off how d)"
| "run41 os (Commit_c f off n) = io_map Verf_a (Nfs41Client_commit os f off n)"
| "run41 os (Mkdir_c dir n a) = io_map Fh_a (Nfs41Client_mkdir os dir n a)"
| "run41 os (Remove_c dir n) = io_map (\<lambda>_. Unit_a) (Nfs41Client_remove os dir n)"
| "run41 os (Rename_c dir n dir' n') = io_map (\<lambda>_. Unit_a) (Nfs41Client_rename os dir n dir' n')"
| "run41 os (Symlink_c dir n t a) = io_map Fh_a (Nfs41Client_symlink os dir n t a)"
| "run41 os (Readlink_c fh) = io_map Path_a (Nfs41Client_readlink os fh)"
| "run41 os (Setattr_c fh a) = io_map (\<lambda>_. Unit_a) (Nfs41Client_setattr os fh a)"
| "run41 os (Page_c dir c cv) = io_map Page_a (Nfs41Client_readdir_page os dir c cv)"
| "run41 os c = compound_op (compound41 os []) decode_sequence41_result c"

lemmas client41_defs =
  Nfs41Client_lookup_def Nfs41Client_getattr_def Nfs41Client_access_def Nfs41Client_close_def
  Nfs41Client_read_def Nfs41Client_write_def Nfs41Client_commit_def Nfs41Client_mkdir_def
  Nfs41Client_remove_def Nfs41Client_rename_def Nfs41Client_symlink_def Nfs41Client_readlink_def
  Nfs41Client_setattr_def Nfs41Client_readdir_page_def

lemma encode_fh41_eq: "encode_fh41 = encode_fh4"
  by (rule ext) (simp add: encode_fh41_def encode_fh4_def)

lemma run41_eq: "run41 os c = compound_op (compound41 os []) decode_sequence41_result c"
  by (cases c)
     (simp_all add: client41_defs compound_op_def Let_def io_map_bind_lift map_decode dbind_assoc dbind_dreturn
        as_val_def all_attrs_def entry_attrs_def encode_fh41_eq)

subsection \<open>Opening a file\<close>

definition open_request41 ::
  "Nfs4Fh \<Rightarrow> cstring \<Rightarrow> u32 \<Rightarrow> bool \<Rightarrow> u32 \<Rightarrow> Nfs41Client \<Rightarrow> call4" where
  "open_request41 dir name acc create seqid c =
     Open_c dir name acc create seqid (n41_clientid c) (bytes_of ''nfsclient-v41'')"

lemma open_ops41: "Nfs41Client_open_ops c dir name acc create seqid = args4 (open_request41 dir name acc create seqid c)"
  by (simp add: Nfs41Client_open_ops_def open_request41_def encode_fh41_eq)

lemma open_request41_num: "word_of_nat (length (ops4 (open_request41 dir name acc create seqid c))) = 3"
  by (simp add: open_request41_def)

lemma Nfs41Client_open_loop_sound:
  assumes "Nfs41Client_open_loop os dir name acc create seqid s = Some r"
  shows "retried (\<lambda>s. compound41 os [] (args4 (open_request41 dir name acc create seqid (fst s)))
      (word_of_nat (length (ops4 (open_request41 dir name acc create seqid (fst s))))) s)
    (\<lambda>s. (fst s, os_sleep os 5 (snd s))) s r"
  by (rule Nfs41Client_open_loop.raw_induct
      [where P = "\<lambda>os dir name acc create seqid s r.
         retried (\<lambda>s. compound41 os [] (args4 (open_request41 dir name acc create seqid (fst s)))
           (word_of_nat (length (ops4 (open_request41 dir name acc create seqid (fst s))))) s)
         (\<lambda>s. (fst s, os_sleep os 5 (snd s))) s r", OF _ assms])
     (simp only: open_ops41 open_request41_num, rule retried_turn)

text \<open>What sleeping lets happen at the server does not touch the session.\<close>

definition session_tick :: "('f \<Rightarrow> 'f) \<Rightarrow> u32 \<times> 'f \<Rightarrow> u32 \<times> 'f" where
  "session_tick tick = (\<lambda>(q, f). (q, tick f))"

interpretation r41: retry_channel "\<lambda>s. conn41 os v srv s \<and> sleeps os v (session_tick tick)" "\<lambda>w. snd (vw_state v w)"
    next_call41 "compound41 os []" decode_sequence41_result "srv 1" "Nfs41Client_open_loop os dir name acc create seqid"
    "open_request41 dir name acc create seqid" "\<lambda>s. (fst s, os_sleep os 5 (snd s))" tick
  for os v srv dir name acc create seqid tick
proof unfold_locales
  fix c w ops st rs f'
  assume "conn41 os v srv (c, w) \<and> sleeps os v (session_tick tick)" "request_ok ops"
    "srv 1 ops (snd (vw_state v w)) = ((st, rs), f')" "answer_ok ops (st, rs)"
  with c41.send_served [of os v srv c w ops st rs f'] show "\<exists>reply w' pre.
      compound41 os [] (wire_ops ops) (word_of_nat (length ops)) (c, w) = Some (Inr reply, (next_call41 c, w')) \<and>
      (conn41 os v srv (next_call41 c, w') \<and> sleeps os v (session_tick tick)) \<and> snd (vw_state v w') = f' \<and>
      decode check_compound_status reply = (if st \<noteq> 0 then Inl (Nfs4Error st ''COMPOUND'') else Inr ()) \<and>
      (\<forall>D :: val4 decoder. decode (dbind check_compound_status (\<lambda>_. dbind decode_sequence41_result (\<lambda>_. D))) reply =
        (if st \<noteq> 0 then Inl (Nfs4Error st ''COMPOUND'')
         else map_sum id fst (D (at pre (wire_results ops rs)))))"
    by blast
next
  fix s
  show "Nfs41Client_open_loop os dir name acc create seqid s =
    io_bind (compound41 os [] (args4 (open_request41 dir name acc create seqid (fst s)))
        (word_of_nat (length (ops4 (open_request41 dir name acc create seqid (fst s)))))) (\<lambda>reply s'.
      case decode check_compound_status reply of
        Inr _ \<Rightarrow> io_return reply s'
      | Inl e \<Rightarrow> (if is_grace e then Nfs41Client_open_loop os dir name acc create seqid (fst s', os_sleep os 5 (snd s'))
                 else io_throw e s')) s"
    by (subst Nfs41Client_open_loop.simps) (simp only: open_ops41 open_request41_num)
next
  fix c w
  assume "conn41 os v srv (c, w) \<and> sleeps os v (session_tick tick)"
  moreover from this have "conn41 os v srv (c, os_sleep os 5 w)"
    unfolding conn41_def by (auto simp: sleeps_def session_tick_def split_beta rpc_conn_def)
  ultimately show "\<exists>w'. (fst (c, w), os_sleep os 5 (snd (c, w))) = (c, w') \<and>
      (conn41 os v srv (c, w') \<and> sleeps os v (session_tick tick)) \<and> snd (vw_state v w') = tick (snd (vw_state v w))"
    by (auto simp: sleeps_def session_tick_def split_beta)
qed (rule Nfs41Client_open_loop_sound, simp_all add: open_request41_def next_call41_def)

text \<open>What \<open>do_open\<close> returns: a session needs no confirmation, and a server that asks for one is refused.\<close>

definition open41 ::
  "('f \<Rightarrow> 'f) \<Rightarrow> (op4 list \<Rightarrow> 'f \<Rightarrow> (Nfsstat4 \<times> res4 list) \<times> 'f) \<Rightarrow> call4 \<Rightarrow> u32 \<Rightarrow> nat \<Rightarrow> 'f \<Rightarrow>
   ((error + Nfs4File) \<times> 'f) option" where
  "open41 tick answers c seqid n f =
     map_option (\<lambda>(a, f1).
       (case outcome4 c a of
          Inr (Opened_a r fh) \<Rightarrow>
            if or_rflags r AND 2 \<noteq> 0 then Inl confirm_error
            else Inr \<lparr>nf_fh = fh, nf_stateid = or_stateid r, nf_seqid = seqid\<rparr>
        | Inr _ \<Rightarrow> Inl confirm_error
        | Inl e \<Rightarrow> Inl e, f1))
     (after_grace tick answers (ops4 c) n f)"

lemma next_call41_fields [simp]:
  "n41_open_seqid ((next_call41 ^^ k) c) = n41_open_seqid c" "n41_clientid ((next_call41 ^^ k) c) = n41_clientid c"
  "n41_sessionid ((next_call41 ^^ k) c) = n41_sessionid c"
  "n41_slot_seqid ((next_call41 ^^ k) c) = n41_slot_seqid c + word_of_nat k"
  by (induction k) (simp_all add: next_call41_def)

lemma decode_open41_reply:
  assumes "decode (dbind check_compound_status (\<lambda>_. dbind decode_sequence41_result (\<lambda>_.
      body4 (open_request41 dir name acc create seqid c)))) reply = Inr (Opened_a r fh)"
  shows "decode (
     dbind check_compound_status (\<lambda>_.
     dbind decode_sequence41_result (\<lambda>_.
     dbind decode_putfh_result (\<lambda>_.
     dbind decode_open_result (\<lambda>open_res.
     dbind decode_getfh_result (\<lambda>fh.
     dbind (throw_if (or_rflags open_res AND OPEN4_RESULT_CONFIRM \<noteq> 0) confirm_error) (\<lambda>_.
     dreturn \<lparr>nf_fh = fh, nf_stateid = or_stateid open_res, nf_seqid = seqid\<rparr>))))))) reply =
   (if or_rflags r AND 2 \<noteq> 0 then Inl confirm_error
    else Inr \<lparr>nf_fh = fh, nf_stateid = or_stateid r, nf_seqid = seqid\<rparr>)"
  using assms
  by (auto simp: decode_def open_request41_def as_val_def dbind_def dreturn_def throw_if_def OPEN4_RESULT_CONFIRM_def
      split: sum.splits prod.splits)

lemma io_bind_state: "io_bind (io_modify g) f s = f () (g s)" "io_bind (io_get h) f' s = f' (h s) s"
  by (simp_all add: io_bind_def io_modify_def io_get_def)

lemma do_open41_eq:
  "Nfs41Client_do_open os dir name acc create (c, w) =
   io_bind (Nfs41Client_open_loop os dir name acc create (n41_open_seqid c + 1)) (\<lambda>reply.
     io_lift (decode (
     dbind check_compound_status (\<lambda>_.
     dbind decode_sequence41_result (\<lambda>_.
     dbind decode_putfh_result (\<lambda>_.
     dbind decode_open_result (\<lambda>open_res.
     dbind decode_getfh_result (\<lambda>fh.
     dbind (throw_if (or_rflags open_res AND OPEN4_RESULT_CONFIRM \<noteq> 0) confirm_error) (\<lambda>_.
     dreturn \<lparr>nf_fh = fh, nf_stateid = or_stateid open_res, nf_seqid = n41_open_seqid c + 1\<rparr>)))))))
     reply)) (c\<lparr>n41_open_seqid := n41_open_seqid c + 1\<rparr>, w)"
  by (simp add: Nfs41Client_do_open_def io_bind_state)

lemma do_open41_served:
  assumes conn: "conn41 os v srv (c, w)" "sleeps os v (session_tick tick)" and ok: "server4_ok srv"
    and req: "request_ok (ops4 (open_request41 dir name acc create (n41_open_seqid c + 1) c))"
    and spec: "open41 tick (srv 1) (open_request41 dir name acc create (n41_open_seqid c + 1) c)
      (n41_open_seqid c + 1) n (snd (vw_state v w)) = Some (r, f')"
  shows "\<exists>k w'. Nfs41Client_do_open os dir name acc create (c, w) =
      Some (r, ((next_call41 ^^ Suc k) (c\<lparr>n41_open_seqid := n41_open_seqid c + 1\<rparr>), w')) \<and>
    conn41 os v srv ((next_call41 ^^ Suc k) (c\<lparr>n41_open_seqid := n41_open_seqid c + 1\<rparr>), w') \<and> snd (vw_state v w') = f'"
proof -
  let ?s = "n41_open_seqid c + 1" and ?c = "c\<lparr>n41_open_seqid := n41_open_seqid c + 1\<rparr>"
  let ?q = "open_request41 dir name acc create ?s c"
  have q: "open_request41 dir name acc create ?s ?c = ?q" by (simp add: open_request41_def)
  obtain st rs f1 where g: "after_grace tick (srv 1) (ops4 ?q) n (snd (vw_state v w)) = Some ((st, rs), f1)"
    and rest: "(r, f') = (case outcome4 ?q (st, rs) of
          Inr (Opened_a r fh) \<Rightarrow> if or_rflags r AND 2 \<noteq> 0 then Inl confirm_error
            else Inr \<lparr>nf_fh = fh, nf_stateid = or_stateid r, nf_seqid = ?s\<rparr>
        | Inr _ \<Rightarrow> Inl confirm_error
        | Inl e \<Rightarrow> Inl e, f1)"
    using spec by (auto simp: open41_def)
  have aok: "answer_ok (ops4 ?q) (st, rs)" using after_grace_ok [OF ok g] by blast
  have "conn41 os v srv (?c, w)" using conn(1) by (simp add: conn41_def)
  with r41.loop_served [where srv = srv and c = ?c and os = os and v = v and w = w and tick = tick and dir = dir and
      name = name and acc = acc and create = create and seqid = ?s and n = n and st = st and rs = rs and f' = f1]
    aok conn(2) req g q
  obtain k w1 reply where l: "Nfs41Client_open_loop os dir name acc create ?s (?c, w) =
      Some (if st \<noteq> 0 then Inl (Nfs4Error st ''COMPOUND'') else Inr reply, ((next_call41 ^^ Suc k) ?c, w1))"
    and c1: "conn41 os v srv ((next_call41 ^^ Suc k) ?c, w1)" and f1: "snd (vw_state v w1) = f1"
    and d: "st = 0 \<longrightarrow> decode (dbind check_compound_status (\<lambda>_. dbind decode_sequence41_result (\<lambda>_. body4 ?q))) reply = Inr (answer4 ?q rs)"
    by auto
  have "Nfs41Client_do_open os dir name acc create (c, w) = Some (r, ((next_call41 ^^ Suc k) ?c, w1))"
  proof (cases "st = 0")
    case False
    with l rest show ?thesis by (simp add: do_open41_eq io_bind_def outcome4_def)
  next
    case True
    with aok have "list_all2 fits4 (ops4 ?q) rs" by (simp add: answer_ok_def)
    then obtain res fh where a: "answer4 ?q rs = Opened_a res fh"
      using answer4_open unfolding open_request41_def by blast
    with True d have d': "decode (dbind check_compound_status (\<lambda>_. dbind decode_sequence41_result (\<lambda>_. body4 ?q))) reply =
        Inr (Opened_a res fh)" by simp
    from l rest True a show ?thesis
      by (simp add: do_open41_eq io_bind_def io_lift_def outcome4_def decode_open41_reply [OF d'])
  qed
  with c1 f1 rest show ?thesis by blast
qed

subsection \<open>Listing\<close>

lemma Nfs41Client_readdir_loop_sound:
  assumes "Nfs41Client_readdir_loop os dir acc cookie cv s = Some r"
  shows "paged (Nfs41Client_readdir_page os dir) rp4_entries rp4_eof rp4_cookieverf d4_cookie acc cookie cv s r"
  by (rule Nfs41Client_readdir_loop.raw_induct
      [where P = "\<lambda>os dir acc cookie cv s r. paged (Nfs41Client_readdir_page os dir) rp4_entries rp4_eof
         rp4_cookieverf d4_cookie acc cookie cv s r", OF _ assms])
     (rule paged_turn)

interpretation readdir41: pager "Nfs41Client_readdir_loop os dir" "Nfs41Client_readdir_page os dir"
  rp4_entries rp4_eof rp4_cookieverf d4_cookie for os dir
  by unfold_locales (rule Nfs41Client_readdir_loop.simps, rule Nfs41Client_readdir_loop_sound)

lemma page41: "io_map Page_a (Nfs41Client_readdir_page os dir cookie cv) =
   compound_op (compound41 os []) decode_sequence41_result (Page_c dir cookie cv)"
  using run41_eq [of os "Page_c dir cookie cv"] by simp

subsection \<open>The slot\<close>

text \<open>A COMPOUND uses up one slot sequence number and one transaction id, however it ends.\<close>

definition one_compound41 :: "'w nfs41_state \<Rightarrow> 'w nfs41_state \<Rightarrow> bool" where
  "one_compound41 s s' \<longleftrightarrow> fst s' = next_call41 (fst s)"

lemma compound41_one: "io_rel one_compound41 (compound41 os tag ops n)"
proof (rule io_relI)
  fix s r s' assume run: "compound41 os tag ops n s = Some (r, s')"
  obtain c w where s: "s = (c, w)" by (cases s)
  let ?c = "c\<lparr>n41_slot_seqid := n41_slot_seqid c + 1\<rparr>"
  obtain rpc w' where "call_compound os tag (encode (encode_sequence41 (n41_sessionid c) (n41_slot_seqid c) 0 0 False) @ ops)
      (n + 1) 1 (n41_rpc c, w) = Some (r, (rpc, w'))" and s': "s' = (?c\<lparr>n41_rpc := rpc\<rparr>, w')"
    using run by (auto simp: s compound41_def io_bind_state Let_def on_rpc41_def io_zoom_def)
  then have "rpc = (n41_rpc c)\<lparr>rc_xid := rc_xid (n41_rpc c) + 1\<rparr>"
    using io_relD [OF call_one_call] by (fastforce simp: call_compound_def Let_def one_call_def)
  then show "one_compound41 s s'" by (simp add: one_compound41_def s s' next_call41_def)
qed

lemma compound_op_one: "io_rel one_compound41 (compound_op (compound41 os []) first c)"
proof -
  have "io_rel (=) (io_lift r :: ('w nfs41_state, val4) io)" for r
    by (rule io_relI) (simp add: io_lift_def)
  then show ?thesis
    unfolding compound_op_def by (rule io_rel_bind [OF compound41_one]) auto
qed

subsection \<open>Clients for the examples\<close>

definition sid0 :: SessionId41 where
  "sid0 = replicate 16 3"

definition client41 :: Nfs41Client where
  "client41 = \<lparr>n41_host = ''server'', n41_rpc = conn0, n41_root_fh = root_sentinel, n41_clientid = 9,
     n41_sessionid = sid0, n41_slot_seqid = 1, n41_open_seqid = 0\<rparr>"

lemma client41_conn:
  "conn41 (sim_os 2 (rpc_server (nfs4_handler (sequenced sid0 srv)))) sim_view srv (client41, sim_start (1, f))"
  unfolding conn41_def
  by (auto simp: client41_def sid0_def serves4_def sim_view_start
      intro!: conn0_conn exI [of _ "nfs4_handler (sequenced (replicate 16 3) srv)"]
        exI [of _ "sequenced (replicate 16 3) srv"] has_session_itself)

lemma sim_session_sleeps: "sleeps (sim_os mtu server) sim_view (session_tick (\<lambda>f. f))"
  by (simp add: sleeps_def sim_os_def sim_net_def sim_view_def sim_conn_of_def fun_eq_iff session_tick_def split_beta)

subsection \<open>Properties\<close>

text \<open>C4: Any sequence of NFSv4.1 operations made through \<open>Nfs41Client\<close> in its session returns what the server answers
  to the same COMPOUNDs without the session: the SEQUENCE that the client puts in front of each names the
  session, slot 0 and exactly the number that the server expects, which executes every request once and
  in order; after the session's operations client and server still agree on the next number, also when
  operations failed.\<close>

theorem nfs41_session_refines:
  assumes "conn41 os v srv (c, w)" and "server4_ok srv" and "list_all (\<lambda>c. request_ok (ops4 c)) cs"
  shows "\<exists>w'. run_ops (run41 os) cs (c, w) =
      Some (fst (answer_all (srv 1) cs (snd (vw_state v w))), ((next_call41 ^^ length cs) c, w')) \<and>
    vw_state v w' = (n41_slot_seqid c + word_of_nat (length cs), snd (answer_all (srv 1) cs (snd (vw_state v w))))"
proof -
  obtain w' where r: "run_ops (run41 os) cs (c, w) =
      Some (fst (answer_all (srv 1) cs (snd (vw_state v w))), ((next_call41 ^^ length cs) c, w'))"
    and conn: "conn41 os v srv ((next_call41 ^^ length cs) c, w')"
    and f: "snd (vw_state v w') = snd (answer_all (srv 1) cs (snd (vw_state v w)))"
    using c41.ops_served [where srv = srv, OF assms(1) _ assms(3)] assms(2)
    unfolding run41_eq [abs_def] server4_ok_def by blast
  from conn have "fst (vw_state v w') = n41_slot_seqid c + word_of_nat (length cs)"
    by (simp add: conn41_def)
  with r f show ?thesis by (metis prod.collapse)
qed

lemma nfs41_session_refines_witness:
  "\<exists>s'. run_ops (run41 (sim_os 2 (rpc_server (nfs4_handler (sequenced sid0 (op_server (file4 False)))))))
      [Lookup_c (fh4_of 7) [8],
       Write_c \<lparr>nf_fh = fh4_of 7, nf_stateid = sid4 1, nf_seqid = 1\<rparr> 0 FILE_SYNC4 [1, 2, 3],
       Read_c \<lparr>nf_fh = fh4_of 7, nf_stateid = sid4 1, nf_seqid = 1\<rparr> 1 5] (client41, sim_start (1, (0, []))) =
    Some ([Inl (Nfs4Error 2 ''COMPOUND''), Inr (Count_a 3), Inr (Data_a [2, 3])], s')"
proof -
  let ?f = "\<lparr>nf_fh = fh4_of 7, nf_stateid = sid4 1, nf_seqid = 1\<rparr>"
  let ?cs = "[Lookup_c (fh4_of 7) [8], Write_c ?f 0 FILE_SYNC4 [1, 2, 3], Read_c ?f 1 5]"
  have ok: "list_all (\<lambda>c. request_ok (ops4 c)) ?cs"
    by (simp add: request_ok_def at_fh_def fh4_of_def fh4_ok_def sid4_def stateid_ok_def wire_ops_def wire_op4_def
        wire_fh4_def wire_stateid4_def length_wire_opaque length_wire_fixed small_def xdr_pad_def)
  have srv: "answer_all (op_server (file4 False) 1) ?cs (0, []) =
    ([Inl (Nfs4Error 2 ''COMPOUND''), Inr (Count_a 3), Inr (Data_a [2, 3])], (0, [1, 2, 3]))"
    by (simp add: op_server_def at_fh_def fh4_of_def outcome4_def answer4_def NFS4ERR_NOENT_def)
  from nfs41_session_refines [OF client41_conn [of "op_server (file4 False)" "(0, [])"] op_server_ok [OF file4_ok] ok]
  show ?thesis unfolding sim_start_state srv fst_conv snd_conv by blast
qed

text \<open>C19: However a COMPOUND of the session ends, with a value, with the server's error or with an exception
  of the connection or of the reply's decoder, it has used up exactly one slot sequence number and one
  transaction id, and the session, the clientid, the handle of the root and the open owner's number are
  unchanged.\<close>

theorem nfs41_slot_advances:
  assumes "run41 os op (c, w) = Some (r, (c', w'))"
  shows "c' = c\<lparr>n41_rpc := (n41_rpc c)\<lparr>rc_xid := rc_xid (n41_rpc c) + 1\<rparr>, n41_slot_seqid := n41_slot_seqid c + 1\<rparr>"
  using io_relD [OF compound_op_one assms [unfolded run41_eq]] by (simp add: one_compound41_def next_call41_def)

lemma nfs41_slot_advances_witness:
  "\<exists>r c' w'. run41 (sim_os 2 (rpc_server (nfs4_handler (sequenced sid0 (op_server (file4 False))))))
      (Lookup_c (fh4_of 7) [8]) (client41, sim_start (1, (0, []))) = Some (r, (c', w')) \<and> n41_slot_seqid c' = 2"
proof -
  let ?os = "sim_os 2 (rpc_server (nfs4_handler (sequenced sid0 (op_server (file4 False)))))"
  have ok: "request_ok (ops4 (Lookup_c (fh4_of 7) [8]))"
    by (simp add: request_ok_def at_fh_def fh4_of_def fh4_ok_def wire_ops_def wire_op4_def wire_fh4_def
        length_wire_opaque small_def xdr_pad_def)
  obtain a f' where a: "op_server (file4 False) 1 (ops4 (Lookup_c (fh4_of 7) [8])) (0, []) = (a, f')"
    by (metis prod.exhaust)
  have "answer_ok (ops4 (Lookup_c (fh4_of 7) [8])) a"
    using op_server_ok [OF file4_ok [of False]] a unfolding server4_ok_def by (metis fst_conv)
  then obtain r c' w' where r: "run41 ?os (Lookup_c (fh4_of 7) [8]) (client41, sim_start (1, (0, []))) = Some (r, (c', w'))"
    using c41.op_served [OF client41_conn [of "op_server (file4 False)" "(0, [])"] ok, unfolded sim_start_state snd_conv,
        OF a] unfolding run41_eq by blast
  from nfs41_slot_advances [OF r] have "n41_slot_seqid c' = n41_slot_seqid client41 + 1" by simp
  with r show ?thesis by (auto simp: client41_def)
qed

text \<open>C39: \<open>Nfs41Client::readdir\<close> lists a directory completely, in the server's order and every entry once, however
  the server divides it into pages, each page a COMPOUND of its own in the session.\<close>

theorem nfs41_readdir_complete:
  assumes "conn41 os v srv (c, w)" and "lists4 (srv 1) dir J" and "fh4_ok dir"
    and "J 0 (replicate 8 0) files (snd (vw_state v w))"
  shows "\<exists>s'. Nfs41Client_readdir os dir (c, w) = Some (Inr files, s')"
  using readdir41.loop_lists_all [OF c41.serves_pages [where os = os and v = v and page = "Nfs41Client_readdir_page os dir"
        and dir = dir and J = J and srv = srv, OF page41 assms(2,3)],
      where cookie = 0 and cv = "replicate 8 0" and todo = files and s = "(c, w)" and acc = "[]"] assms(1,4)
  by (simp add: Nfs41Client_readdir_def)

lemma nfs41_readdir_complete_witness:
  "\<exists>s'. Nfs41Client_readdir (sim_os 2 (rpc_server (nfs4_handler (sequenced sid0 (op_server (file4 False)))))) (fh4_of 7)
     (client41, sim_start (1, (0, []))) = Some (Inr [entry4 1, entry4 2, entry4 3], s')"
  by (rule nfs41_readdir_complete [OF client41_conn file4_lists])
     (simp_all add: todo4_def fh4_ok_def fh4_of_def)

text \<open>C11: \<open>do_open\<close> of the 4.1 client sends OPEN, again for as long as the server is in its grace period, each time as a
  new request of the session; it never confirms an open: a result that asks for it is an exception, any
  other success the file, and a failure its status.\<close>

theorem nfs41_open_refines:
  assumes "conn41 os v srv (c, w)" and "sleeps os v (session_tick tick)" and "server4_ok srv"
    and "request_ok (ops4 (open_request41 dir name acc create (n41_open_seqid c + 1) c))"
    and "open41 tick (srv 1) (open_request41 dir name acc create (n41_open_seqid c + 1) c)
      (n41_open_seqid c + 1) n (snd (vw_state v w)) = Some (r, f')"
  shows "\<exists>c' w'. Nfs41Client_do_open os dir name acc create (c, w) = Some (r, (c', w')) \<and>
    n41_open_seqid c' = n41_open_seqid c + 1 \<and> vw_state v w' = (n41_slot_seqid c', f')"
proof -
  let ?c = "c\<lparr>n41_open_seqid := n41_open_seqid c + 1\<rparr>"
  obtain k w' where r: "Nfs41Client_do_open os dir name acc create (c, w) = Some (r, ((next_call41 ^^ Suc k) ?c, w'))"
    and c: "conn41 os v srv ((next_call41 ^^ Suc k) ?c, w')" and f: "snd (vw_state v w') = f'"
    using do_open41_served [OF assms] by blast
  have "n41_open_seqid ((next_call41 ^^ Suc k) ?c) = n41_open_seqid c + 1"
    by (simp only: next_call41_fields) simp
  moreover have "vw_state v w' = (n41_slot_seqid ((next_call41 ^^ Suc k) ?c), f')"
    using c f by (simp only: conn41_def fst_conv snd_conv prod_eq_iff)
  ultimately show ?thesis using r by blast
qed

lemma nfs41_open_refines_witness:
  "\<exists>c' w'. Nfs41Client_do_open (sim_os 2 (rpc_server (nfs4_handler (sequenced sid0 (op_server (file4 False))))))
     (fh4_of 7) [7] 1 False (client41, sim_start (1, (1, []))) =
     Some (Inr \<lparr>nf_fh = fh4_of 7, nf_stateid = sid4 1, nf_seqid = 1\<rparr>, (c', w')) \<and>
     n41_open_seqid c' = n41_open_seqid client41 + 1 \<and> vw_state sim_view w' = (n41_slot_seqid c', (0, []))"
proof -
  have s: "n41_open_seqid client41 + 1 = 1" by (simp add: client41_def)
  have o: "open41 (\<lambda>f. f) (op_server (file4 False) 1) (open_request41 (fh4_of 7) [7] 1 False 1 client41) 1 1 (1, []) =
      Some (Inr \<lparr>nf_fh = fh4_of 7, nf_stateid = sid4 1, nf_seqid = 1\<rparr>, (0, []))"
    by (simp add: open41_def open_request41_def after_grace.simps op_server_def at_fh_def fh4_of_def NFS4ERR_GRACE_def
        outcome4_def answer4_def)
  have r: "request_ok (ops4 (open_request41 (fh4_of 7) [7] 1 False 1 client41))"
    by (simp add: open_request41_def request_ok_def at_fh_def fh4_of_def fh4_ok_def wire_ops_def wire_op4_def
        wire_fh4_def length_wire_opaque small_def bytes_of_def xdr_pad_def)
  show ?thesis
    using nfs41_open_refines [where n = 1, OF client41_conn sim_session_sleeps op_server_ok [OF file4_ok],
        unfolded s sim_start_state snd_conv, OF r o] by (simp add: s)
qed

end
