(* ===== verification/Nfs4_Connect.thy ===== *)
theory Nfs4_Connect
  imports Mount_Server Nfs41_Server
begin

text \<open>
  Making an NFSv4 client: GETPORT, a connection, and the handshake that registers the client with the
  server, SETCLIENTID and its confirmation for 4.0, EXCHANGE_ID and CREATE_SESSION for 4.1.
\<close>

subsection \<open>The boot verifier\<close>

lemma ucast_and_byte: "(ucast (w AND 0xFF) :: byte) = ucast (w :: 'a :: len word)"
proof (rule bit_word_eqI)
  fix n assume "n < LENGTH(8)"
  then have "bit (0xFF :: 'a word) n \<longleftrightarrow> n < LENGTH('a)"
    using bit_mask_iff [of 8 n, where 'a = "'a word"] by (simp add: mask_eq_exp_minus_1)
  then show "bit (ucast (w AND 0xFF) :: byte) n \<longleftrightarrow> bit (ucast w :: byte) n"
    by (auto simp: bit_ucast_iff bit_and_iff dest: bit_imp_le_length)
qed

lemma byte_signed_drop: "(ucast (signed_drop_bit k (now :: u64)) :: byte) = ucast (drop_bit k now)" if k: "k \<le> 56"
proof (rule bit_word_eqI)
  fix n assume "n < LENGTH(8)"
  then have "k + n < 63 \<or> k + n = 63" using k by simp arith
  then show "bit (ucast (signed_drop_bit k now) :: byte) n \<longleftrightarrow> bit (ucast (drop_bit k now) :: byte) n"
    by (auto simp: bit_ucast_iff bit_signed_drop_bit_iff bit_drop_bit_eq)
qed

lemma byte_drop_ucast: "(ucast (drop_bit k (ucast (w :: u64) :: u32)) :: byte) = ucast (drop_bit k w)" if "k \<le> 24"
  by (rule bit_word_eqI) (use that in \<open>auto simp: bit_ucast_iff bit_drop_bit_eq\<close>)

lemma byte_drop_low: "(ucast (drop_bit k (ucast (w AND 0xFFFFFFFF :: u64) :: u32)) :: byte) = ucast (drop_bit k w)" if "k \<le> 24"
proof -
  have "(ucast (w AND 0xFFFFFFFF :: u64) :: u32) = ucast w"
  proof (rule bit_word_eqI)
    fix n assume "n < LENGTH(32)"
    then have "bit (0xFFFFFFFF :: u64) n"
      using bit_mask_iff [of 32 n, where 'a = u64] by (simp add: mask_eq_exp_minus_1)
    then show "bit (ucast (w AND 0xFFFFFFFF :: u64) :: u32) n \<longleftrightarrow> bit (ucast w :: u32) n"
      by (auto simp: bit_ucast_iff bit_and_iff)
  qed
  with byte_drop_ucast [OF that] show ?thesis by simp
qed
lemma signed_drop_bit_twice: "signed_drop_bit 8 (signed_drop_bit k (w :: u64)) = signed_drop_bit (8 + k) w" 
  by (rule bit_word_eqI) (auto simp: bit_signed_drop_bit_iff)
lemma verifier_loop8: "verifier_loop 8 now [0, 0, 0, 0, 0, 0, 0, 0] =
  [ucast (drop_bit 56 now), ucast (drop_bit 48 now), ucast (drop_bit 40 now), ucast (drop_bit 32 now),
   ucast (drop_bit 24 now), ucast (drop_bit 16 now), ucast (drop_bit 8 now), ucast now]"
proof -
  have eight: "8 = Suc (Suc (Suc (Suc (Suc (Suc (Suc (Suc 0)))))))" by simp
  have "verifier_loop (Suc (Suc (Suc (Suc (Suc (Suc (Suc (Suc 0)))))))) now [0, 0, 0, 0, 0, 0, 0, 0] =
    [ucast (drop_bit 56 now), ucast (drop_bit 48 now), ucast (drop_bit 40 now), ucast (drop_bit 32 now),
     ucast (drop_bit 24 now), ucast (drop_bit 16 now), ucast (drop_bit 8 now), ucast now]"
    by (simp add: ucast_and_byte signed_drop_bit_twice byte_signed_drop)
  then show ?thesis by (simp only: eight [symmetric])
qed

lemma boot_verifier_be64: "boot_verifier now = be64 now"
proof -
  have r: "replicate 8 (0 :: byte) = [0, 0, 0, 0, 0, 0, 0, 0]" by (simp add: numeral_eq_Suc)
  have lo: "(ucast (ucast (now AND 0xFFFFFFFF :: u64) :: u32) :: byte) = ucast now"
    using byte_drop_low [of 0 now] by simp
  have hi: "(ucast (drop_bit k (ucast (drop_bit 32 now) :: u32)) :: byte) = ucast (drop_bit (k + 32) now)" if "k \<le> 24" for k
    using byte_drop_ucast [OF that, of "drop_bit 32 now"] by (simp add: drop_bit_drop_bit)
  have hi0: "(ucast (ucast (drop_bit 32 now) :: u32) :: byte) = ucast (drop_bit 32 now)"
    using hi [of 0] by simp
  show ?thesis
    by (simp add: boot_verifier_def r verifier_loop8 be64_def put_uint64_def put_uint32_def ucast_and_byte
        byte_drop_low lo hi hi0)
qed

subsection \<open>One COMPOUND on a bare connection\<close>

text \<open>Asking for the time changes nothing on a connection.\<close>

definition clock_ok :: "'w os \<Rightarrow> ('w, 'f) view \<Rightarrow> bool" where
  "clock_ok os v \<longleftrightarrow> (\<forall>w. same_view v w (snd (os_now os w)))"

lemma rpc_conn_same: "rpc_conn os v h (c, w) \<Longrightarrow> same_view v w w' \<Longrightarrow> rpc_conn os v h (c, w')"
  by (simp add: rpc_conn_def same_view_def)

lemma init_compound:
  assumes h: "serves4 h srv" and conn: "rpc_conn os v h (c, w)" and ops: "request_ok ops"
    and tag: "length tag \<le> 32" and srv: "srv minor ops (vw_state v w) = ((st, rs), f')"
    and D: "\<And>pre. st = 0 \<Longrightarrow> \<exists>d. D (at pre (wire_results ops rs)) = Inr (x, d)"
  shows "\<exists>reply w'. call_compound os tag (wire_ops ops) (word_of_nat (length ops)) minor (c, w) =
      Some (Inr reply, (c\<lparr>rc_xid := rc_xid c + 1\<rparr>, w')) \<and>
    decode (dbind check_compound_status (\<lambda>_. D)) reply = (if st \<noteq> 0 then Inl (Nfs4Error st ''COMPOUND'') else Inr x) \<and>
    rpc_conn os v h (c\<lparr>rc_xid := rc_xid c + 1\<rparr>, w') \<and> vw_state v w' = f'"
proof -
  from compound_served [where srv = srv, OF h conn _ _ tag srv] ops obtain w'
    where c: "call_compound os tag (wire_ops ops) (word_of_nat (length ops)) minor (c, w) =
        Some (Inr (wire_compound tag ops (st, rs)), (c\<lparr>rc_xid := rc_xid c + 1\<rparr>, w'))"
      "rpc_conn os v h (c\<lparr>rc_xid := rc_xid c + 1\<rparr>, w')" "vw_state v w' = f'"
    by (auto simp: request_ok_def)
  obtain pre where "decode (dbind check_compound_status (\<lambda>_. D)) (wire_compound tag ops (st, rs)) =
    (if st \<noteq> 0 then Inl (Nfs4Error st ''COMPOUND'') else map_sum id fst (D (at pre (wire_results ops rs))))"
    using check_compound_wire [OF tag, of ops st rs] by blast
  with c D [of pre] show ?thesis by auto
qed

subsection \<open>SETCLIENTID\<close>

text \<open>
  The handshake as the server sees it: the id it gave is the one to be confirmed and used, together
  with the verifier that came with it; then the root has to exist.
\<close>

definition setclientid_op :: "byte list \<Rightarrow> op4" where
  "setclientid_op verf =
     Setclientid4 verf (bytes_of ''nfsclient-v4'') 0 (bytes_of ''tcp'') (bytes_of ''0.0.0.0.0.0'') 0"

definition handshake40 ::
  "(op4 list \<Rightarrow> 'f \<Rightarrow> (Nfsstat4 \<times> res4 list) \<times> 'f) \<Rightarrow> byte list \<Rightarrow> 'f \<Rightarrow> (error + u64) \<times> 'f" where
  "handshake40 answers verf f =
    (case answers [setclientid_op verf] f of
       ((st, rs), f1) \<Rightarrow>
         if st \<noteq> 0 then (Inl (Nfs4Error st ''COMPOUND''), f1)
         else
           (case rs of
              [Clientid_r cid cv] \<Rightarrow>
                (case answers [Setclientid_confirm4 cid cv] f1 of
                   ((st2, _), f2) \<Rightarrow>
                     if st2 \<noteq> 0 then (Inl (Nfs4Error st2 ''COMPOUND''), f2)
                     else
                       (case answers [Putrootfh4, Getfh4] f2 of
                          ((st3, _), f3) \<Rightarrow>
                            (if st3 \<noteq> 0 then Inl (Nfs4Error st3 ''COMPOUND'') else Inr cid, f3)))
            | _ \<Rightarrow> (Inl BADXDR, f1)))"

lemma encode_setclientids_append:
  "encode (encode_setclientid verf (bytes_of ''nfsclient-v4'') 0) = wire_ops [setclientid_op verf]"
  "encode (encode_setclientid_confirm cid cv) = wire_ops [Setclientid_confirm4 cid cv]"
  "encode (steps [encode_putrootfh, encode_getfh]) = wire_ops [Putrootfh4, Getfh4]"
  by (simp_all add: encode_setclientid_def encode_setclientid_confirm_def encode_putrootfh_def encode_getfh_def
      setclientid_op_def wire_ops_def wire_op4_def op_code_defs encode_def put_simps)

lemma request_ok_handshake:
  "length verf = 8 \<Longrightarrow> request_ok [setclientid_op verf]"
  "length cv = 8 \<Longrightarrow> request_ok [Setclientid_confirm4 cid cv]"
  "request_ok [Putrootfh4, Getfh4]"
  by (simp_all add: request_ok_def setclientid_op_def wire_ops_def wire_op4_def length_wire_fixed length_wire_opaque
      small_def bytes_of_def xdr_pad_def)

lemma decode_setclientid_at: "length cv = 8 \<Longrightarrow>
  \<exists>d. decode_setclientid_result (at pre (wire_results [setclientid_op verf] [Clientid_r cid cv])) =
    Inr (\<lparr>scr_clientid = cid, scr_confirm_verifier = cv\<rparr>, d)"
  by (simp add: decode_setclientid_result_def wire_results_def wire_res4_def check_op_status_at eff_simps u64c.dec_enc
      fixedc.dec_enc_end)

lemma decode_done_at: "\<exists>d. check_op_status name (at pre (wire_results [op] [Done_r])) = Inr ((), d)"
  using check_op_status_at [of name pre "op_code op" "[]"] by (simp add: wire_results_def wire_res4_def)

lemma decode_root_at:
  "fh4_ok fh \<Longrightarrow> \<exists>d. dbind decode_putrootfh_result (\<lambda>_. decode_getfh_result)
      (at pre (wire_results [Putrootfh4, Getfh4] [Done_r, Fh_r fh])) = Inr (fh, d)"
  by (simp add: decode_putrootfh_result_def decode_getfh_result_def wire_results_def wire_res4_def check_op_status_at
      eff_simps fh4c.dec_enc_end)

lemma on_world_now: "on_world (io_call (os_now os)) (c, w) = Some (Inr (fst (os_now os w)), (c, snd (os_now os w)))"
  by (simp add: on_world_def io_zoom_def io_call_def split_beta)

lemma handshake40_served:
  assumes h: "serves4 h srv" and conn: "rpc_conn os v h (c, w)" and clock: "clock_ok os v" and ok: "server4_ok srv"
    and spec: "handshake40 (srv 0) (be64 (fst (os_now os w))) (vw_state v w) = (r, f')"
  shows "\<exists>c' w'. io_bind (do_setclientid_confirm os) (\<lambda>clientid.
      io_bind (do_get_root_fh os) (\<lambda>root_fh. io_return (clientid, root_fh))) (c, w) =
      Some (map_sum id (\<lambda>clientid. (clientid, root_sentinel)) r, (c', w')) \<and>
    rpc_conn os v h (c', w') \<and> vw_state v w' = f'"
proof -
  let ?verf = "be64 (fst (os_now os w))" and ?w0 = "snd (os_now os w)"
  let ?c1 = "c\<lparr>rc_xid := rc_xid c + 1\<rparr>"
  let ?c2 = "?c1\<lparr>rc_xid := rc_xid ?c1 + 1\<rparr>"
  have same: "same_view v w ?w0" using clock by (simp add: clock_ok_def)
  note conn0 = rpc_conn_same [OF conn same]
  have st0: "vw_state v ?w0 = vw_state v w" using same by (simp add: same_view_def)
  have tag: "length (bytes_of ''init'') \<le> 32" by (simp add: bytes_of_def)
  obtain st rs f1 where a1: "srv 0 [setclientid_op ?verf] (vw_state v ?w0) = ((st, rs), f1)" by (metis prod.exhaust)
  have ok1: "answer_ok [setclientid_op ?verf] (st, rs)" using ok a1 unfolding server4_ok_def by (metis fst_conv)
  show ?thesis
  proof (cases "st = 0")
    case False
    with init_compound [where tag = "bytes_of ''init''", OF h conn0 request_ok_handshake(1) tag a1,
        of decode_setclientid_result] obtain reply w1
      where "call_compound os (bytes_of ''init'') (wire_ops [setclientid_op ?verf]) 1 0 (c, ?w0) = Some (Inr reply, (?c1, w1))"
        "decode (dbind check_compound_status (\<lambda>_. decode_setclientid_result)) reply = Inl (Nfs4Error st ''COMPOUND'')"
        "rpc_conn os v h (?c1, w1)" "vw_state v w1 = f1" by auto
    with False spec a1 st0 show ?thesis
      by (intro exI [of _ ?c1] exI [of _ w1])
         (auto simp: do_setclientid_confirm_def on_world_now encode_setclientids_append boot_verifier_be64 Let_def io_bind_def
            io_lift_def handshake40_def)
  next
    case True
    with ok1 obtain cid cv where rs: "rs = [Clientid_r cid cv]" and cv: "length cv = 8"
      by (auto simp: answer_ok_def setclientid_op_def list_all2_Cons1)
    obtain reply w1
      where call1: "call_compound os (bytes_of ''init'') (wire_ops [setclientid_op ?verf]) 1 0 (c, ?w0) = Some (Inr reply, (?c1, w1))"
        "decode (dbind check_compound_status (\<lambda>_. decode_setclientid_result)) reply =
          Inr \<lparr>scr_clientid = cid, scr_confirm_verifier = cv\<rparr>"
        and conn1: "rpc_conn os v h (?c1, w1)" and st1: "vw_state v w1 = f1"
      using init_compound [where tag = "bytes_of ''init''", OF h conn0 request_ok_handshake(1) tag a1,
          of decode_setclientid_result "\<lparr>scr_clientid = cid, scr_confirm_verifier = cv\<rparr>"] decode_setclientid_at [OF cv] rs True
      by auto
    obtain st2 rs2 f2 where a2: "srv 0 [Setclientid_confirm4 cid cv] f1 = ((st2, rs2), f2)" by (metis prod.exhaust)
    have ok2: "answer_ok [Setclientid_confirm4 cid cv] (st2, rs2)" using ok a2 unfolding server4_ok_def by (metis fst_conv)
    then have rs2: "st2 = 0 \<Longrightarrow> rs2 = [Done_r]" by (auto simp: answer_ok_def list_all2_Cons1)
    obtain reply2 w2
      where call2: "call_compound os (bytes_of ''init'') (wire_ops [Setclientid_confirm4 cid cv]) 1 0 (?c1, w1) = Some (Inr reply2, (?c2, w2))"
        "decode (dbind check_compound_status (\<lambda>_. decode_setclientid_confirm_result)) reply2 =
          (if st2 \<noteq> 0 then Inl (Nfs4Error st2 ''COMPOUND'') else Inr ())"
        and conn2: "rpc_conn os v h (?c2, w2)" and st2: "vw_state v w2 = f2"
      using init_compound [where tag = "bytes_of ''init''", OF h conn1 request_ok_handshake(2) [OF cv] tag a2 [folded st1],
          of decode_setclientid_confirm_result "()"] decode_done_at rs2
      by (auto simp: decode_setclientid_confirm_result_def)
    have first: "do_setclientid_confirm os (c, w) =
        Some (if st2 \<noteq> 0 then Inl (Nfs4Error st2 ''COMPOUND'') else Inr cid, (?c2, w2))"
      using call1 call2
      by (simp add: do_setclientid_confirm_def on_world_now encode_setclientids_append boot_verifier_be64 Let_def io_bind_def
            io_lift_def io_return_def)
    show ?thesis
    proof (cases "st2 = 0")
      case False
      with first spec a1 a2 rs True st0 conn2 st2 show ?thesis
        by (intro exI [of _ ?c2] exI [of _ w2]) (auto simp: io_bind_def handshake40_def)
    next
      case st2z: True
      let ?c3 = "?c2\<lparr>rc_xid := rc_xid ?c2 + 1\<rparr>"
      obtain st3 rs3 f3 where a3: "srv 0 [Putrootfh4, Getfh4] f2 = ((st3, rs3), f3)" by (metis prod.exhaust)
      have "answer_ok [Putrootfh4, Getfh4] (st3, rs3)" using ok a3 unfolding server4_ok_def by (metis fst_conv)
      then obtain fh where rs3: "st3 = 0 \<Longrightarrow> rs3 = [Done_r, Fh_r fh] \<and> fh4_ok fh" by (auto simp: answer_ok_def list_all2_Cons1)
      obtain reply3 w3
        where call3: "call_compound os [] (wire_ops [Putrootfh4, Getfh4]) 2 0 (?c2, w2) = Some (Inr reply3, (?c3, w3))"
          "decode (dbind check_compound_status (\<lambda>_. dbind decode_putrootfh_result (\<lambda>_. decode_getfh_result))) reply3 =
            (if st3 \<noteq> 0 then Inl (Nfs4Error st3 ''COMPOUND'') else Inr fh)"
          and conn3: "rpc_conn os v h (?c3, w3)" and st3: "vw_state v w3 = f3"
        using init_compound [where tag = "[]", OF h conn2 request_ok_handshake(3) _ a3 [folded st2],
            of "dbind decode_putrootfh_result (\<lambda>_. decode_getfh_result)" fh] decode_root_at rs3
        by auto
      with first spec a1 a2 a3 rs True st2z st0 show ?thesis
        by (intro exI [of _ ?c3] exI [of _ w3])
           (auto simp: io_bind_def io_lift_def io_return_def handshake40_def do_get_root_fh_def encode_setclientids_append Let_def)
    qed
  qed
qed

lemma construct_served:
  assumes up: "host_up os v net host" and port: "net port = Some h"
  shows "\<exists>c w1. TcpRpcClient os host port w = Some (Inr c, w1) \<and> rpc_conn os v h (c, w1) \<and> vw_state v w1 = vw_state v w \<and>
    (\<forall>r s'. body (c, w1) = Some (r, s') \<longrightarrow> construct_rpc os host port body w =
       Some (map_sum id (\<lambda>x. (fst s', x)) r, case r of Inl e \<Rightarrow> rpc_destroy os (fst s') (snd s') | Inr _ \<Rightarrow> snd s'))"
proof -
  obtain c w1 where "TcpRpcClient os host port w = Some (Inr c, w1)" "rpc_conn os v h (c, w1)" "vw_state v w1 = vw_state v w"
    by (rule host_up_connect [OF up port])
  then show ?thesis
    by (intro exI [of _ c] exI [of _ w1]) (auto simp: construct_rpc_def io_bind_def split: sum.splits)
qed

subsection \<open>Sessions\<close>

text \<open>
  RFC 8881, section 18.35: the flags by which EXCHANGE_ID asks for a role. The client sends the second one,
  under the name of the first.
\<close>

definition EXCHGID4_FLAG_USE_NON_PNFS :: u32 where "EXCHGID4_FLAG_USE_NON_PNFS = 0x00010000"
definition EXCHGID4_FLAG_USE_PNFS_MDS :: u32 where "EXCHGID4_FLAG_USE_PNFS_MDS = 0x00020000"

text \<open>
  A server of 4.1 that hands out the client id \<open>cid\<close>, creates the session \<open>sid\<close> for the right client id and
  sequence id, after which its slot expects number 1, and then serves \<open>srv\<close> in the session.
\<close>

definition session_server :: "u64 \<Rightarrow> u32 \<Rightarrow> SessionId41 \<Rightarrow> 'f server4 \<Rightarrow> (u32 \<times> 'f) server4" where
  "session_server cid cseq sid srv minor ops s =
    (case ops of
       [Exchange_id4 verf owner flags] \<Rightarrow> ((0, [Exchanged_r cid cseq EXCHGID4_FLAG_USE_PNFS_MDS 0 [1] [2] None]), s)
     | [Create_session4 cid' s' flags fore back prog] \<Rightarrow>
         if cid' \<noteq> cid then ((NFS4ERR_STALE_CLIENTID, []), s)
         else if s' \<noteq> cseq then ((NFS4ERR_SEQ_MISORDERED, []), s)
         else ((0, [Session_r sid s' 0 [0, 65536, 65536, 1024, 8, 1, 0] [0, 4096, 4096, 256, 8, 1, 0]]), (1, snd s))
     | [Destroy_session4 sid'] \<Rightarrow>
         if sid' \<noteq> sid then ((NFS4ERR_BADSESSION, []), s) else ((0, [Done_r]), s)
     | _ \<Rightarrow> sequenced sid srv minor ops s)"

lemma session_server_has: "has_session (session_server cid cseq sid srv) sid srv"
  by (simp add: has_session_def session_server_def)

text \<open>What the constructor does in the new session.\<close>

definition begin_session :: "'f server4 \<Rightarrow> 'f \<Rightarrow> (error + unit) \<times> 'f" where
  "begin_session srv f =
    (case srv 1 [Reclaim_complete4 0] f of
       ((st, _), f1) \<Rightarrow>
         if st \<noteq> 0 then (Inl (Nfs4Error st ''COMPOUND''), f1)
         else (case srv 1 [Putrootfh4, Getfh4] f1 of
                 ((st2, _), f2) \<Rightarrow> (if st2 \<noteq> 0 then Inl (Nfs4Error st2 ''COMPOUND'') else Inr (), f2)))"

definition exchange_op :: "byte list \<Rightarrow> op4" where
  "exchange_op verf = Exchange_id4 verf (bytes_of ''nfsclient-v41'') EXCHGID4_FLAG_USE_PNFS_MDS"

definition create_op :: "u64 \<Rightarrow> u32 \<Rightarrow> op4" where
  "create_op cid s =
     Create_session4 cid s 0 [0, 65536, 65536, 1024, 16, 1, 0] [0, 4096, 4096, 256, 16, 1, 0] 0"

lemma encode_sessions_append:
  "encode (encode_exchange_id verf (bytes_of ''nfsclient-v41'')) = wire_ops [exchange_op verf]"
  "encode (encode_create_session cid s) = wire_ops [create_op cid s]"
  "encode (encode_reclaim_complete False) = wire_ops [Reclaim_complete4 0]"
  "encode (encode_destroy_session sid) = wire_ops [Destroy_session4 sid]"
  by (simp_all add: encode_exchange_id_def encode_create_session_def encode_channel_attrs_def
      encode_reclaim_complete_def encode_destroy_session_def exchange_op_def EXCHGID4_FLAG_USE_PNFS_MDS_def create_op_def wire_ops_def wire_op4_def
      op_code_defs encode_def put_simps wire_words_def)

lemma request_ok_session:
  "length verf = 8 \<Longrightarrow> request_ok [exchange_op verf]" "request_ok [create_op cid s]"
  "request_ok [Reclaim_complete4 0]" "length sid = 16 \<Longrightarrow> request_ok [Destroy_session4 sid]"
  by (simp_all add: request_ok_def exchange_op_def EXCHGID4_FLAG_USE_PNFS_MDS_def create_op_def wire_ops_def wire_op4_def length_wire_fixed
      length_wire_opaque small_def bytes_of_def xdr_pad_def wire_words_def)

lemma dtimes_words_at: "length ws = n \<Longrightarrow>
   dtimes n get_uint32 (at pre (wire_words ws)) = Inr (ws, at (pre @ wire_words ws) [])"
  using wire_words_at [of ws n pre "[]"] by simp

lemma decode_exchange_at: "small ma \<Longrightarrow> small sc \<Longrightarrow>
  \<exists>d. decode_exchange_id_result (at pre (wire_results [exchange_op verf] [Exchanged_r cid s fl mi ma sc None])) =
    Inr (\<lparr>xr_clientid = cid, xr_sequenceid = s\<rparr>, d)"
  by (simp add: decode_exchange_id_result_def wire_results_def wire_res4_def check_op_status_at eff_simps u64c.dec_enc
      u32c.dec_enc opaquec.dec_enc small_def u32c.dec_enc_end)

lemma decode_create_at: "length sid = 16 \<Longrightarrow> length fore = 7 \<Longrightarrow> length back = 7 \<Longrightarrow>
  \<exists>d. decode_create_session_result (at pre (wire_results [create_op cid s] [Session_r sid s' fl fore back])) = Inr (sid, d)"
  by (simp add: decode_create_session_result_def wire_results_def wire_res4_def check_op_status_at eff_simps
      u32c.dec_enc fixedc.dec_enc wire_words_at dtimes_words_at)

text \<open>In the session: one COMPOUND whose results \<open>D\<close> reads.\<close>

lemma session_compound:
  assumes conn: "conn41 os v srv (c, w)" and ops: "request_ok ops" and tag: "length tag \<le> 32"
    and srv: "srv 1 ops (snd (vw_state v w)) = ((st, rs), f')"
    and D: "\<And>pre. st = 0 \<Longrightarrow> \<exists>d. D (at pre (wire_results ops rs)) = Inr (x, d)"
  shows "\<exists>reply w'. compound41 os tag (wire_ops ops) (word_of_nat (length ops)) (c, w) = Some (Inr reply, (next_call41 c, w')) \<and>
    decode (dbind check_compound_status (\<lambda>_. dbind decode_sequence41_result (\<lambda>_. D))) reply =
      (if st \<noteq> 0 then Inl (Nfs4Error st ''COMPOUND'') else Inr x) \<and>
    conn41 os v srv (next_call41 c, w') \<and> snd (vw_state v w') = f'"
proof -
  have sid: "length (n41_sessionid c) = 16" using conn by (simp add: conn41_def)
  obtain pre where "decode (dbind check_compound_status (\<lambda>_. dbind decode_sequence41_result (\<lambda>_. D)))
      (wire_compound tag (seq_op c # ops) (st, Sequence_r (n41_sessionid c) (n41_slot_seqid c) 0 0 0 0 # rs)) =
    (if st \<noteq> 0 then Inl (Nfs4Error st ''COMPOUND'') else map_sum id fst (D (at pre (wire_results ops rs))))"
    using check_sequence_wire [OF tag sid, of ops st rs] by blast
  with compound41_served [OF conn ops tag srv] D [of pre] show ?thesis by auto
qed

lemma begin_session_served:
  assumes conn: "conn41 os v srv (c, w)" and root: "n41_root_fh c = root_sentinel" and ok: "server4_ok srv"
    and spec: "begin_session srv (snd (vw_state v w)) = (r, f')"
  shows "\<exists>k w'. io_bind (reclaim_complete os) (\<lambda>_. check_root os) (c, w) = Some (r, ((next_call41 ^^ k) c, w')) \<and>
    conn41 os v srv ((next_call41 ^^ k) c, w') \<and> snd (vw_state v w') = f' \<and> (r = Inr () \<longrightarrow> k = 2)"
proof -
  let ?f = "snd (vw_state v w)"
  have tag: "length (bytes_of ''init'') \<le> 32" by (simp add: bytes_of_def)
  obtain st rs f1 where a1: "srv 1 [Reclaim_complete4 0] ?f = ((st, rs), f1)" by (metis prod.exhaust)
  have "answer_ok [Reclaim_complete4 0] (st, rs)" using ok a1 unfolding server4_ok_def by (metis fst_conv)
  then have rs: "st = 0 \<Longrightarrow> rs = [Done_r]" by (auto simp: answer_ok_def list_all2_Cons1)
  obtain reply w1 where call1: "compound41 os (bytes_of ''init'') (wire_ops [Reclaim_complete4 0]) 1 (c, w) = Some (Inr reply, (next_call41 c, w1))"
      "decode (dbind check_compound_status (\<lambda>_. dbind decode_sequence41_result (\<lambda>_. decode_reclaim_complete_result))) reply =
        (if st \<noteq> 0 then Inl (Nfs4Error st ''COMPOUND'') else Inr ())"
    and conn1: "conn41 os v srv (next_call41 c, w1)" and st1: "snd (vw_state v w1) = f1"
    using session_compound [OF conn request_ok_session(3) tag a1, of decode_reclaim_complete_result "()"] decode_done_at rs
    by (auto simp: decode_reclaim_complete_result_def)
  have first: "reclaim_complete os (c, w) = Some (if st \<noteq> 0 then Inl (Nfs4Error st ''COMPOUND'') else Inr (), (next_call41 c, w1))"
    using call1 by (simp add: reclaim_complete_def encode_sessions_append Let_def io_bind_def io_lift_def)
  show ?thesis
  proof (cases "st = 0")
    case False
    with first spec a1 conn1 st1 show ?thesis
      by (intro exI [of _ 1] exI [of _ w1]) (auto simp: io_bind_def begin_session_def)
  next
    case True
    obtain st2 rs2 f2 where a2: "srv 1 [Putrootfh4, Getfh4] f1 = ((st2, rs2), f2)" by (metis prod.exhaust)
    have "answer_ok [Putrootfh4, Getfh4] (st2, rs2)" using ok a2 unfolding server4_ok_def by (metis fst_conv)
    then obtain fh where rs2: "st2 = 0 \<Longrightarrow> rs2 = [Done_r, Fh_r fh] \<and> fh4_ok fh" by (auto simp: answer_ok_def list_all2_Cons1)
    obtain reply2 w2 where call2: "compound41 os [] (wire_ops [Putrootfh4, Getfh4]) 2 (next_call41 c, w1) =
          Some (Inr reply2, (next_call41 (next_call41 c), w2))"
        "decode (dbind check_compound_status (\<lambda>_. dbind decode_sequence41_result (\<lambda>_. dbind decode_putrootfh_result
            (\<lambda>_. decode_getfh_result)))) reply2 = (if st2 \<noteq> 0 then Inl (Nfs4Error st2 ''COMPOUND'') else Inr fh)"
      and conn2: "conn41 os v srv (next_call41 (next_call41 c), w2)" and st2: "snd (vw_state v w2) = f2"
      using session_compound [OF conn1 request_ok_handshake(3) _ a2 [folded st1], of "[]"
          "dbind decode_putrootfh_result (\<lambda>_. decode_getfh_result)" fh] decode_root_at rs2
      by auto
    have "next_call41 (next_call41 c)\<lparr>n41_root_fh := root_sentinel\<rparr> = next_call41 (next_call41 c)"
      using root by (simp add: next_call41_def)
    with first call2 True spec a1 a2 conn2 st2 show ?thesis
      by (intro exI [of _ 2] exI [of _ w2])
         (auto simp: io_bind_def io_lift_def io_modify_def begin_session_def check_root_def encode_setclientids_append Let_def
            numeral_2_eq_2)
  qed
qed

subsection \<open>The constructors\<close>

text \<open>C25: The verifier that tells one boot of the client from the next is the 64-bit time in network byte
  order: the loop that fills it from the last byte to the first shifts all eight bytes out, each into its
  place, for every value of the signed count (the shift is arithmetic, the masks drop the sign).\<close>

theorem boot_verifier_network_order: "boot_verifier now = be64 now"
  by (rule boot_verifier_be64)

lemma bind_params: "construct_rpc os host port body w = Some (Inr (rpc, x, y), w') \<Longrightarrow>
  io_bind (construct_rpc os host port body) (\<lambda>(rpc, x, y). k rpc x y) w = k rpc x y w'"
  by (simp add: io_bind_def)

lemma connect40_served:
  assumes up: "host_up os v net host" and pm: "portmapper_at_111 net ms"
    and reg: "listens_registered net ms 100003 4 (\<lambda>h. serves4 h srv)"
    and clock: "clock_ok os v" and ok: "server4_ok srv"
  shows "\<exists>t w1. case handshake40 (srv 0) (be64 (fst (os_now os t))) (vw_state v w) of
      (Inl e, f') \<Rightarrow> Nfs4Client_ctor os host w = Some (Inl e, w1)
    | (Inr cid, f') \<Rightarrow>
        (\<exists>c. Nfs4Client_ctor os host w = Some (Inr c, w1) \<and> n40_clientid c = cid \<and> n40_open_seqid c = 0 \<and>
           n40_root_fh c = root_sentinel \<and> conn40 os v srv (c, w1) \<and> vw_state v w1 = f')"
proof -
  let ?p = "ms_port ms NFS4_PROG NFS4_VERS IPPROTO_TCP_XDR"
  obtain h where p: "?p \<noteq> 0" and at: "net (ucast ?p) = Some h" and h: "serves4 h srv"
    using reg by (auto simp: NFS4_PROG_def NFS4_VERS_def elim: listens_registeredE)
  let ?body = "io_bind (do_setclientid_confirm os) (\<lambda>clientid.
      io_bind (do_get_root_fh os) (\<lambda>root_fh. io_return (clientid, root_fh)))"
  obtain w1 where g: "getport os host NFS4_PROG NFS4_VERS w = Some (Inr (ucast ?p), w1)"
    and st1: "vw_state v w1 = vw_state v w"
    using getport_served [OF up pm, of NFS4_PROG NFS4_VERS] p by auto
  obtain c w2 where conn: "rpc_conn os v h (c, w2)" and st2: "vw_state v w2 = vw_state v w1"
    and build: "\<And>r s'. ?body (c, w2) = Some (r, s') \<Longrightarrow> construct_rpc os host (ucast ?p) ?body w1 =
       Some (map_sum id (\<lambda>x. (fst s', x)) r, case r of Inl e \<Rightarrow> rpc_destroy os (fst s') (snd s') | Inr _ \<Rightarrow> snd s')"
    using construct_served [OF up at, of w1 ?body] by blast
  obtain r f' where spec: "handshake40 (srv 0) (be64 (fst (os_now os w2))) (vw_state v w2) = (r, f')" by fastforce
  obtain c' w3 where run: "?body (c, w2) = Some (map_sum id (\<lambda>clientid. (clientid, root_sentinel)) r, (c', w3))"
    and conn3: "rpc_conn os v h (c', w3)" and st3: "vw_state v w3 = f'"
    using handshake40_served [OF h conn clock ok spec] by blast
  show ?thesis
  proof (cases r)
    case (Inl e)
    with build [OF run] g spec st1 st2 show ?thesis
      by (intro exI [of _ w2] exI [of _ "rpc_destroy os c' w3"]) (simp add: Nfs4Client_ctor_def io_bind_def)
  next
    case (Inr cid)
    with build [OF run] g spec st1 st2 conn3 st3 h show ?thesis
      by (intro exI [of _ w2] exI [of _ w3]) (auto simp: Nfs4Client_ctor_def io_bind_def io_return_def conn40_def)
  qed
qed

text \<open>C5: Against a host whose portmapper listens on port 111 and whose NFSv4.0 server listens on the port the
  portmapper has for it (nothing is assumed of the other ports), the constructor of \<open>Nfs4Client\<close> performs the
  handshake of RFC 7530: it registers with the time as its verifier, confirms exactly the clientid and the
  verifier the server answered, and asks for the root. If a step is refused, the constructor throws the
  server's status; if not, the client has the confirmed clientid, no open sequence number used, and any
  session of the operations that are one COMPOUND each (all but opening a file), which may depend on the
  clientid, returns what the server answers from the state the handshake left.\<close>

theorem nfs4_connect_use:
  assumes "host_up os v net host" and "portmapper_at_111 net ms"
    and "listens_registered net ms 100003 4 (\<lambda>h. serves4 h srv)" and "clock_ok os v" and "server4_ok srv"
    and "\<And>cid. list_all (\<lambda>q. request_ok (ops4 q) \<and> facade40 cid q) (session cid)"
  shows "\<exists>t w1. case handshake40 (srv 0) (be64 (fst (os_now os t))) (vw_state v w) of
      (Inl e, f') \<Rightarrow> Nfs4Client_ctor os host w = Some (Inl e, w1)
    | (Inr cid, f') \<Rightarrow>
        (\<exists>c s'. Nfs4Client_ctor os host w = Some (Inr c, w1) \<and> n40_clientid c = cid \<and> n40_open_seqid c = 0 \<and>
           n40_root_fh c = root_sentinel \<and>
           run_ops (run40 os) (session cid) (c, w1) = Some (fst (answer_all (srv 0) (session cid) f'), s'))"
proof -
  obtain t w1 where *: "case handshake40 (srv 0) (be64 (fst (os_now os t))) (vw_state v w) of
      (Inl e, f') \<Rightarrow> Nfs4Client_ctor os host w = Some (Inl e, w1)
    | (Inr cid, f') \<Rightarrow>
        (\<exists>c. Nfs4Client_ctor os host w = Some (Inr c, w1) \<and> n40_clientid c = cid \<and> n40_open_seqid c = 0 \<and>
           n40_root_fh c = root_sentinel \<and> conn40 os v srv (c, w1) \<and> vw_state v w1 = f')"
    using connect40_served [OF assms(1-5), of w] by (elim exE) (rule that)
  have use: "\<exists>s'. run_ops (run40 os) (session (n40_clientid c)) (c, w1) =
      Some (fst (answer_all (srv 0) (session (n40_clientid c)) (vw_state v w1)), s')"
    if "conn40 os v srv (c, w1)" for c
  proof -
    have "list_all (\<lambda>q. request_ok (ops4 q)) (session (n40_clientid c))"
      and "list_all (facade40 (n40_clientid c)) (session (n40_clientid c))"
      using assms(6) [of "n40_clientid c"] by (simp_all add: list_all_iff)
    from run40_session [OF that assms(5) this] show ?thesis by blast
  qed
  obtain r f' where r: "handshake40 (srv 0) (be64 (fst (os_now os t))) (vw_state v w) = (r, f')" by fastforce
  show ?thesis
  proof (cases r)
    case (Inl e)
    with * r show ?thesis by (intro exI [of _ t] exI [of _ w1]) simp
  next
    case (Inr cid)
    with * r obtain c where c: "Nfs4Client_ctor os host w = Some (Inr c, w1)" "n40_clientid c = cid"
        "n40_open_seqid c = 0" "n40_root_fh c = root_sentinel" "vw_state v w1 = f'"
      and conn: "conn40 os v srv (c, w1)" by auto
    with r Inr use [OF conn] show ?thesis
      by (intro exI [of _ t] exI [of _ w1]) auto
  qed
qed

text \<open>The file server of the other examples, for clients that register first.\<close>

fun login4 :: "op4 \<Rightarrow> nat \<times> byte list \<Rightarrow> (Nfsstat4 + res4) \<times> nat \<times> byte list" where
  "login4 (Setclientid4 verf i prog net addr cb) f = (Inr (Clientid_r 9 (replicate 8 4)), f)"
| "login4 (Setclientid_confirm4 cid verf) f =
     (if cid = 9 \<and> verf = replicate 8 4 then Inr Done_r else Inl NFS4ERR_STALE_CLIENTID, f)"
| "login4 op f = file4 False op f"

lemma login4_ok: "op_ok login4"
  unfolding op_ok_def
proof (intro allI)
  fix op f
  have "case fst (file4 False op f) of Inl st \<Rightarrow> st \<noteq> 0 | Inr r \<Rightarrow> fits4 op r"
    using file4_ok [of False] unfolding op_ok_def by blast
  then show "case fst (login4 op f) of Inl st \<Rightarrow> st \<noteq> 0 | Inr r \<Rightarrow> fits4 op r"
    by (cases op) (simp_all add: NFS4ERR_STALE_CLIENTID_def)
qed

text \<open>A host whose portmapper knows one program; nothing else listens.\<close>

definition portmap1 :: "u32 \<Rightarrow> u32 \<Rightarrow> 'f mount_server" where
  "portmap1 prog vers =
     \<lparr>ms_port = (\<lambda>prog' vers' prot. if prog' = prog \<and> vers' = vers then 2049 else 0),
      ms_mnt = (\<lambda>path f. (Inl 2, f)), ms_umnt = (\<lambda>path f. f), ms_exports = (\<lambda>f. [])\<rparr>"

definition listeners1 :: "u32 \<Rightarrow> u32 \<Rightarrow> 'f handler \<Rightarrow> 'f listeners" where
  "listeners1 prog vers h = [111 \<mapsto> portmap_handler (portmap1 prog vers), 2049 \<mapsto> h]"

lemma listeners1_serve:
  "portmapper_at_111 (listeners1 prog vers h) (portmap1 prog vers)"
  "service h \<Longrightarrow> listens_registered (listeners1 prog vers h) (portmap1 prog vers) prog vers service"
  by (simp_all add: portmapper_at_111_def listens_registered_def listeners1_def portmap1_def port_ok_def serves_itself)

lemma serves4_itself: "serves4 (nfs4_handler srv) srv"
  by (simp add: serves4_def)

lemma sim_clock: "clock_ok (sim_host mtu net) sim_view"
  by (simp add: clock_ok_def sim_host_def sim_net_def same_view_def)

lemma nfs4_connect_use_witness:
  "\<exists>c w1 s'. Nfs4Client_ctor (sim_host 2 (listeners1 100003 4 (nfs4_handler (op_server login4)))) ''host''
       (sim_start (0, [5, 6, 7])) = Some (Inr c, w1) \<and> n40_clientid c = 9 \<and>
     run_ops (run40 (sim_host 2 (listeners1 100003 4 (nfs4_handler (op_server login4)))))
       [Lookup_c root_sentinel [7], Read_c \<lparr>nf_fh = fh4_of 7, nf_stateid = sid4 1, nf_seqid = 1\<rparr> 1 5, Renew_c 9] (c, w1) =
     Some ([Inr (Fh_a (fh4_of 7)), Inr (Data_a [6, 7]), Inl (Nfs4Error NFS4ERR_NOTSUPP ''COMPOUND'')], s')"
proof -
  let ?net = "listeners1 100003 4 (nfs4_handler (op_server login4))"
  let ?cs = "\<lambda>cid. [Lookup_c root_sentinel [7], Read_c \<lparr>nf_fh = fh4_of 7, nf_stateid = sid4 1, nf_seqid = 1\<rparr> 1 5, Renew_c cid]"
  have up: "host_up (sim_host 2 ?net) sim_view ?net ''host''" by (rule sim_host_up) simp_all
  have ok: "list_all (\<lambda>q. request_ok (ops4 q) \<and> facade40 cid q) (?cs cid)" for cid
    by (simp add: request_ok_def at_fh_def fh4_of_def fh4_ok_def sid4_def stateid_ok_def wire_ops_def wire_op4_def
        wire_fh4_def wire_stateid4_def length_wire_opaque length_wire_fixed small_def root_sentinel_def xdr_pad_def facade40_def)
  have hs: "handshake40 (op_server login4 0) verf f = (Inr 9, f)" for verf f
    by (cases f) (simp add: handshake40_def op_server_def setclientid_op_def)
  have srv: "answer_all (op_server login4 0) (?cs 9) (0, [5, 6, 7]) =
    ([Inr (Fh_a (fh4_of 7)), Inr (Data_a [6, 7]), Inl (Nfs4Error NFS4ERR_NOTSUPP ''COMPOUND'')], (0, [5, 6, 7]))"
    by (simp add: op_server_def at_fh_def fh4_of_def root_sentinel_def outcome4_def answer4_def NFS4ERR_NOTSUPP_def)
  from nfs4_connect_use [where session = ?cs, OF up listeners1_serve(1) listeners1_serve(2) [where service = "\<lambda>h. serves4 h (op_server login4)", OF serves4_itself] sim_clock
      op_server_ok [OF login4_ok] ok, of "sim_start (0, [5, 6, 7])"]
  show ?thesis unfolding hs sim_view_start prod.case sum.case srv fst_conv by blast
qed

subsection \<open>EXCHANGE_ID and CREATE_SESSION\<close>

text \<open>The bootstrap as the server sees it: the session is asked for with the clientid and the sequence id it
  returned.\<close>

definition bootstrap41 ::
  "(op4 list \<Rightarrow> 'f \<Rightarrow> (Nfsstat4 \<times> res4 list) \<times> 'f) \<Rightarrow> byte list \<Rightarrow> 'f \<Rightarrow> (error + u64 \<times> SessionId41) \<times> 'f" where
  "bootstrap41 answers verf f =
    (case answers [exchange_op verf] f of
       ((st, rs), f1) \<Rightarrow>
         if st \<noteq> 0 then (Inl (Nfs4Error st ''COMPOUND''), f1)
         else
           (case rs of
              [Exchanged_r cid s fl mi ma sc impl] \<Rightarrow>
                (case answers [create_op cid s] f1 of
                   ((st2, rs2), f2) \<Rightarrow>
                     if st2 \<noteq> 0 then (Inl (Nfs4Error st2 ''COMPOUND''), f2)
                     else
                       (case rs2 of
                          [Session_r sid s' fl' fore back] \<Rightarrow> (Inr (cid, sid), f2)
                        | _ \<Rightarrow> (Inl BADXDR, f2)))
            | _ \<Rightarrow> (Inl BADXDR, f1)))"

lemma decode_exchange_impl_at:
  "small ma \<Longrightarrow> small sc \<Longrightarrow> pred_option (\<lambda>(dm, nm, _). small dm \<and> small nm) impl \<Longrightarrow>
  \<exists>d. decode_exchange_id_result (at pre (wire_results [exchange_op verf] [Exchanged_r cid s fl mi ma sc impl])) =
    Inr (\<lparr>xr_clientid = cid, xr_sequenceid = s\<rparr>, d)"
  by (cases impl)
     (auto simp: decode_exchange_id_result_def wire_results_def wire_res4_def check_op_status_at eff_simps u64c.dec_enc
      u32c.dec_enc opaquec.dec_enc small_def u32c.dec_enc_end skip_impl_id_def)

lemma bootstrap_served:
  assumes h: "serves4 h srv" and conn: "rpc_conn os v h (c, w)" and clock: "clock_ok os v" and ok: "server4_ok srv"
    and spec: "bootstrap41 (srv 1) (be64 (fst (os_now os w))) (vw_state v w) = (r, f')"
  shows "\<exists>c' w'. do_bootstrap os (c, w) = Some (r, (c', w')) \<and> rpc_conn os v h (c', w') \<and> vw_state v w' = f' \<and>
    (\<forall>cid sid. r = Inr (cid, sid) \<longrightarrow> length sid = 16)"
proof -
  let ?verf = "be64 (fst (os_now os w))" and ?w0 = "snd (os_now os w)"
  let ?c1 = "c\<lparr>rc_xid := rc_xid c + 1\<rparr>"
  let ?c2 = "?c1\<lparr>rc_xid := rc_xid ?c1 + 1\<rparr>"
  have same: "same_view v w ?w0" using clock by (simp add: clock_ok_def)
  note conn0 = rpc_conn_same [OF conn same]
  have st0: "vw_state v ?w0 = vw_state v w" using same by (simp add: same_view_def)
  have tag: "length (bytes_of ''init'') \<le> 32" and v8: "length ?verf = 8" by (simp_all add: bytes_of_def)
  obtain st rs f1 where a1: "srv 1 [exchange_op ?verf] (vw_state v ?w0) = ((st, rs), f1)" by (metis prod.exhaust)
  have ok1: "answer_ok [exchange_op ?verf] (st, rs)" using ok a1 unfolding server4_ok_def by (metis fst_conv)
  show ?thesis
  proof (cases "st = 0")
    case False
    with init_compound [where tag = "bytes_of ''init''", OF h conn0 request_ok_session(1) tag a1,
        of decode_exchange_id_result] v8 obtain reply w1
      where "call_compound os (bytes_of ''init'') (wire_ops [exchange_op ?verf]) 1 1 (c, ?w0) = Some (Inr reply, (?c1, w1))"
        "decode (dbind check_compound_status (\<lambda>_. decode_exchange_id_result)) reply = Inl (Nfs4Error st ''COMPOUND'')"
        "rpc_conn os v h (?c1, w1)" "vw_state v w1 = f1" by auto
    with False spec a1 st0 show ?thesis
      by (intro exI [of _ ?c1] exI [of _ w1])
         (auto simp: do_bootstrap_def on_world_now encode_sessions_append boot_verifier_be64 Let_def io_bind_def
            io_lift_def bootstrap41_def)
  next
    case True
    with ok1 obtain cid s fl mi ma sc impl where rs: "rs = [Exchanged_r cid s fl mi ma sc impl]" and small: "small ma" "small sc"
        "pred_option (\<lambda>(dm, nm, _). small dm \<and> small nm) impl"
      by (auto simp: answer_ok_def exchange_op_def list_all2_Cons1)
    obtain reply w1
      where call1: "call_compound os (bytes_of ''init'') (wire_ops [exchange_op ?verf]) 1 1 (c, ?w0) = Some (Inr reply, (?c1, w1))"
        "decode (dbind check_compound_status (\<lambda>_. decode_exchange_id_result)) reply =
          Inr \<lparr>xr_clientid = cid, xr_sequenceid = s\<rparr>"
        and conn1: "rpc_conn os v h (?c1, w1)" and st1: "vw_state v w1 = f1"
      using init_compound [where tag = "bytes_of ''init''", OF h conn0 request_ok_session(1) [OF v8] tag a1,
          of decode_exchange_id_result "\<lparr>xr_clientid = cid, xr_sequenceid = s\<rparr>"] decode_exchange_impl_at [OF small] rs True
      by auto
    obtain st2 rs2 f2 where a2: "srv 1 [create_op cid s] f1 = ((st2, rs2), f2)" by (metis prod.exhaust)
    have "answer_ok [create_op cid s] (st2, rs2)" using ok a2 unfolding server4_ok_def by (metis fst_conv)
    then obtain sid s' fl' fore bck where rs2: "st2 = 0 \<Longrightarrow> rs2 = [Session_r sid s' fl' fore bck] \<and> length sid = 16 \<and>
        length fore = 7 \<and> length bck = 7"
      by (auto simp: answer_ok_def create_op_def list_all2_Cons1)
    obtain reply2 w2
      where call2: "call_compound os (bytes_of ''init'') (wire_ops [create_op cid s]) 1 1 (?c1, w1) = Some (Inr reply2, (?c2, w2))"
        "decode (dbind check_compound_status (\<lambda>_. decode_create_session_result)) reply2 =
          (if st2 \<noteq> 0 then Inl (Nfs4Error st2 ''COMPOUND'') else Inr sid)"
        and conn2: "rpc_conn os v h (?c2, w2)" and st2: "vw_state v w2 = f2"
      using init_compound [where tag = "bytes_of ''init''", OF h conn1 request_ok_session(2) tag a2 [folded st1],
          of decode_create_session_result sid] decode_create_at rs2
      by auto
    show ?thesis
      using call1 call2 conn2 st2 spec a1 [unfolded st0] a2 rs rs2 True
      by (intro exI [of _ ?c2] exI [of _ w2])
         (auto simp: do_bootstrap_def on_world_now encode_sessions_append boot_verifier_be64 Let_def io_bind_def
            io_lift_def io_return_def bootstrap41_def)
  qed
qed

subsection \<open>The 4.1 constructor\<close>

definition new_client41 :: "string \<Rightarrow> u64 \<Rightarrow> SessionId41 \<Rightarrow> rpc_client \<Rightarrow> Nfs41Client" where
  "new_client41 host cid sid rpc =
     \<lparr>n41_host = host, n41_rpc = rpc, n41_root_fh = root_sentinel, n41_clientid = cid, n41_sessionid = sid,
      n41_slot_seqid = 1, n41_open_seqid = 0\<rparr>"

lemma init_served:
  assumes h: "serves4 h srv'" and conn: "rpc_conn os v h (rpc, w)" and clock: "clock_ok os v"
    and ok': "server4_ok srv'" and ok: "server4_ok srv"
    and boot: "bootstrap41 (srv' 1) (be64 (fst (os_now os w))) (vw_state v w) = (Inr (cid, sid), (1, f))"
    and ses: "has_session srv' sid srv" and start: "begin_session srv f = (r, f')"
  shows "\<exists>k rpc0 w'. Nfs41Client_init os host (rpc, w) =
      Some (map_sum id (\<lambda>_. (next_call41 ^^ k) (new_client41 host cid sid rpc0)) r,
        (n41_rpc ((next_call41 ^^ k) (new_client41 host cid sid rpc0)), w')) \<and>
    conn41 os v srv ((next_call41 ^^ k) (new_client41 host cid sid rpc0), w') \<and> snd (vw_state v w') = f' \<and>
    (r = Inr () \<longrightarrow> k = 2)"
proof -
  obtain rpc1 w1 where b: "do_bootstrap os (rpc, w) = Some (Inr (cid, sid), (rpc1, w1))"
    and conn1: "rpc_conn os v h (rpc1, w1)" and st1: "vw_state v w1 = (1, f)" and sid: "length sid = 16"
    using bootstrap_served [OF h conn clock ok' boot] by blast
  let ?c = "new_client41 host cid sid rpc1"
  have conn41: "conn41 os v srv (?c, w1)" and root: "n41_root_fh ?c = root_sentinel"
    using sid st1 h ses conn1 by (auto simp: conn41_def new_client41_def)
  have start': "begin_session srv (snd (vw_state v w1)) = (r, f')" using start st1 by simp
  obtain k w2 where g: "io_bind (reclaim_complete os) (\<lambda>_. check_root os) (?c, w1) = Some (r, ((next_call41 ^^ k) ?c, w2))"
    and conn2: "conn41 os v srv ((next_call41 ^^ k) ?c, w2)" and f': "snd (vw_state v w2) = f'"
    and k: "r = Inr () \<longrightarrow> k = 2"
    using begin_session_served [OF conn41 root ok start'] by blast
  have "Nfs41Client_init os host (rpc, w) =
      map_option (\<lambda>(r, (c, w')). (map_sum id (\<lambda>_. c) r, (n41_rpc c, w')))
        (io_bind (reclaim_complete os) (\<lambda>_. check_root os) (?c, w1))"
    using b by (simp add: Nfs41Client_init_def io_bind_def [of "do_bootstrap os"] new_client41_def)
  with g conn2 f' k show ?thesis by auto
qed

lemma init_fails:
  assumes h: "serves4 h srv'" and conn: "rpc_conn os v h (rpc, w)" and clock: "clock_ok os v" and ok': "server4_ok srv'"
    and boot: "bootstrap41 (srv' 1) (be64 (fst (os_now os w))) (vw_state v w) = (Inl e, f')"
  shows "\<exists>s'. Nfs41Client_init os host (rpc, w) = Some (Inl e, s')"
  using bootstrap_served [OF h conn clock ok' boot] by (auto simp: Nfs41Client_init_def io_bind_def [of "do_bootstrap os"])

text \<open>Everything the constructor gets from the server, in order; the session starts at the state \<open>f\<close>.\<close>

definition handshake41 :: "(u32 \<times> 'f) server4 \<Rightarrow> 'f server4 \<Rightarrow> byte list \<Rightarrow> u32 \<times> 'f \<Rightarrow> (error + u64 \<times> SessionId41) \<times> 'f" where
  "handshake41 srv' srv verf s =
    (case bootstrap41 (srv' 1) verf s of
       (Inl e, s1) \<Rightarrow> (Inl e, snd s1)
     | (Inr (cid, sid), s1) \<Rightarrow>
         (case begin_session srv (snd s1) of (r, f) \<Rightarrow> (map_sum id (\<lambda>_. (cid, sid)) r, f)))"

text \<open>A server creates sessions that serve \<open>srv\<close> and whose slot starts at 1.\<close>

definition opens_sessions :: "(u32 \<times> 'f) server4 \<Rightarrow> 'f server4 \<Rightarrow> bool" where
  "opens_sessions srv' srv \<longleftrightarrow> (\<forall>verf s cid sid s1.
     bootstrap41 (srv' 1) verf s = (Inr (cid, sid), s1) \<longrightarrow> fst s1 = 1 \<and> has_session srv' sid srv)"

lemma init_handshake:
  assumes h: "serves4 h srv'" and conn: "rpc_conn os v h (rpc, w)" and clock: "clock_ok os v"
    and ok': "server4_ok srv'" and ok: "server4_ok srv" and opens: "opens_sessions srv' srv"
    and spec: "handshake41 srv' srv (be64 (fst (os_now os w))) (vw_state v w) = (r, f')"
  shows "\<exists>s'. case r of
      Inl e \<Rightarrow> Nfs41Client_init os host (rpc, w) = Some (Inl e, s')
    | Inr (cid, sid) \<Rightarrow> (\<exists>c. Nfs41Client_init os host (rpc, w) = Some (Inr c, s') \<and> n41_clientid c = cid \<and>
        n41_sessionid c = sid \<and> n41_slot_seqid c = 3 \<and> n41_open_seqid c = 0 \<and> n41_root_fh c = root_sentinel \<and>
        conn41 os v srv (c, snd s') \<and> snd (vw_state v (snd s')) = f')"
proof -
  obtain b s1 where b: "bootstrap41 (srv' 1) (be64 (fst (os_now os w))) (vw_state v w) = (b, s1)"
    by (metis prod.exhaust)
  show ?thesis
  proof (cases b)
    case (Inl e)
    with init_fails [OF h conn clock ok' b [unfolded Inl], of host] spec b show ?thesis
      by (auto simp: handshake41_def)
  next
    case (Inr p)
    obtain cid sid where p: "p = (cid, sid)" by fastforce
    with Inr b opens have s1: "s1 = (1, snd s1)" and ses: "has_session srv' sid srv"
      unfolding opens_sessions_def by (metis prod.collapse)+
    obtain q f2 where q: "begin_session srv (snd s1) = (q, f2)" by fastforce
    have boot: "bootstrap41 (srv' 1) (be64 (fst (os_now os w))) (vw_state v w) = (Inr (cid, sid), (1, snd s1))"
      using b Inr p s1 by simp
    have r: "r = map_sum id (\<lambda>_. (cid, sid)) q" and f2: "f2 = f'"
      using spec boot q by (simp_all add: handshake41_def)
    obtain k rpc0 w' where *: "Nfs41Client_init os host (rpc, w) =
        Some (map_sum id (\<lambda>_. (next_call41 ^^ k) (new_client41 host cid sid rpc0)) q,
          (n41_rpc ((next_call41 ^^ k) (new_client41 host cid sid rpc0)), w'))"
      "conn41 os v srv ((next_call41 ^^ k) (new_client41 host cid sid rpc0), w')" "snd (vw_state v w') = f2" "q = Inr () \<longrightarrow> k = 2"
      using init_served [OF h conn clock ok' ok boot ses q] by blast
    show ?thesis
    proof (cases q)
      case Inl
      with * r show ?thesis by auto
    next
      case (Inr u)
      with * r f2 show ?thesis
        by (intro exI [of _ "(n41_rpc ((next_call41 ^^ k) (new_client41 host cid sid rpc0)), w')"])
           (auto simp: numeral_2_eq_2 next_call41_def new_client41_def)
    qed
  qed
qed

lemma connect41_served:
  assumes up: "host_up os v net host" and pm: "portmapper_at_111 net ms"
    and reg: "listens_registered net ms 100003 4 (\<lambda>h. serves4 h srv')" and clock: "clock_ok os v"
    and ok': "server4_ok srv'" and ok: "server4_ok srv" and opens: "opens_sessions srv' srv"
  obtains t r f' w1 where "handshake41 srv' srv (be64 (fst (os_now os t))) (vw_state v w) = (r, f')"
    and "case r of
      Inl e \<Rightarrow> Nfs41Client_ctor os host w = Some (Inl e, w1)
    | Inr (cid, sid) \<Rightarrow> (\<exists>c. Nfs41Client_ctor os host w = Some (Inr c, w1) \<and> n41_clientid c = cid \<and>
        n41_sessionid c = sid \<and> n41_slot_seqid c = 3 \<and> n41_open_seqid c = 0 \<and> n41_root_fh c = root_sentinel \<and>
        conn41 os v srv (c, w1) \<and> snd (vw_state v w1) = f')"
proof -
  let ?p = "ms_port ms NFS4_PROG NFS4_VERS IPPROTO_TCP_XDR"
  obtain h where p: "?p \<noteq> 0" and at: "net (ucast ?p) = Some h" and h: "serves4 h srv'"
    using reg by (auto simp: NFS4_PROG_def NFS4_VERS_def elim: listens_registeredE)
  obtain w1 where g: "getport os host NFS4_PROG NFS4_VERS w = Some (Inr (ucast ?p), w1)"
    and st1: "vw_state v w1 = vw_state v w"
    using getport_served [OF up pm, of NFS4_PROG NFS4_VERS] p by auto
  obtain c w2 where conn: "rpc_conn os v h (c, w2)" and st2: "vw_state v w2 = vw_state v w1"
    and build: "\<And>r s'. Nfs41Client_init os host (c, w2) = Some (r, s') \<Longrightarrow>
       construct_rpc os host (ucast ?p) (Nfs41Client_init os host) w1 =
       Some (map_sum id (\<lambda>x. (fst s', x)) r, case r of Inl e \<Rightarrow> rpc_destroy os (fst s') (snd s') | Inr _ \<Rightarrow> snd s')"
    using construct_served [OF up at, of w1 "Nfs41Client_init os host"] by blast
  obtain r f' where spec: "handshake41 srv' srv (be64 (fst (os_now os w2))) (vw_state v w2) = (r, f')"
    by (metis prod.exhaust)
  obtain s' where *: "case r of
      Inl e \<Rightarrow> Nfs41Client_init os host (c, w2) = Some (Inl e, s')
    | Inr (cid, sid) \<Rightarrow> (\<exists>c'. Nfs41Client_init os host (c, w2) = Some (Inr c', s') \<and> n41_clientid c' = cid \<and>
        n41_sessionid c' = sid \<and> n41_slot_seqid c' = 3 \<and> n41_open_seqid c' = 0 \<and> n41_root_fh c' = root_sentinel \<and>
        conn41 os v srv (c', snd s') \<and> snd (vw_state v (snd s')) = f')"
    using init_handshake [where host = host, OF h conn clock ok' ok opens spec] by (elim exE) (rule that)
  show thesis
  proof (rule that [of w2 r f' "case r of Inl e \<Rightarrow> rpc_destroy os (fst s') (snd s') | Inr _ \<Rightarrow> snd s'"])
    show "handshake41 srv' srv (be64 (fst (os_now os w2))) (vw_state v w) = (r, f')"
      using spec st1 st2 by simp
  qed (use g * in \<open>auto simp: Nfs41Client_ctor_def io_bind_def io_return_def dest!: build split: sum.splits\<close>)
qed

text \<open>C6: Against a host whose portmapper listens on port 111 and whose NFSv4.1 server listens on the port the
  portmapper has for it (nothing is assumed of the other ports), the constructor of \<open>Nfs41Client\<close> sends
  EXCHANGE_ID with the time as verifier and the flag EXCHGID4_FLAG_USE_PNFS_MDS (0x00020000: the source
  calls it USE_NON_PNFS, which is 0x00010000 in RFC 5661 and 8881, so the client asks for a pNFS role it does
  not use), CREATE_SESSION with the clientid and the sequence id that came back, and inside the new session
  RECLAIM_COMPLETE and a look at the root. A refusal at any step is thrown with the server's status;
  otherwise the client holds the clientid and the session it was given, has used two numbers of the slot, and
  any session of operations returns what the server answers from the state the handshake left.\<close>

theorem nfs41_connect_use:
  assumes "host_up os v net host" and "portmapper_at_111 net ms"
    and "listens_registered net ms 100003 4 (\<lambda>h. serves4 h srv')" and "clock_ok os v"
    and "server4_ok srv'" and "server4_ok srv" and "opens_sessions srv' srv" and "list_all (\<lambda>c. request_ok (ops4 c)) cs"
  shows "\<exists>t w1. case handshake41 srv' srv (be64 (fst (os_now os t))) (vw_state v w) of
      (Inl e, f') \<Rightarrow> Nfs41Client_ctor os host w = Some (Inl e, w1)
    | (Inr (cid, sid), f') \<Rightarrow>
        (\<exists>c s'. Nfs41Client_ctor os host w = Some (Inr c, w1) \<and> n41_clientid c = cid \<and> n41_sessionid c = sid \<and>
           n41_slot_seqid c = 3 \<and> n41_open_seqid c = 0 \<and> n41_root_fh c = root_sentinel \<and>
           run_ops (run41 os) cs (c, w1) = Some (fst (answer_all (srv 1) cs f'), s'))"
proof -
  obtain t r f' w1 where hs: "handshake41 srv' srv (be64 (fst (os_now os t))) (vw_state v w) = (r, f')"
    and *: "case r of
      Inl e \<Rightarrow> Nfs41Client_ctor os host w = Some (Inl e, w1)
    | Inr (cid, sid) \<Rightarrow> (\<exists>c. Nfs41Client_ctor os host w = Some (Inr c, w1) \<and> n41_clientid c = cid \<and>
        n41_sessionid c = sid \<and> n41_slot_seqid c = 3 \<and> n41_open_seqid c = 0 \<and> n41_root_fh c = root_sentinel \<and>
        conn41 os v srv (c, w1) \<and> snd (vw_state v w1) = f')"
    by (rule connect41_served [OF assms(1-7)])
  have use: "\<exists>s'. run_ops (run41 os) cs (c, w1) = Some (fst (answer_all (srv 1) cs (snd (vw_state v w1))), s')"
    if conn: "conn41 os v srv (c, w1)" for c
  proof -
    have "answer_ok ops (fst (srv 1 ops f))" for ops f using assms(6) unfolding server4_ok_def by blast
    from c41.ops_served [where srv = srv, OF conn this assms(8)] show ?thesis
      unfolding run41_eq [abs_def] by blast
  qed
  show ?thesis
  proof (cases r)
    case (Inl e)
    with * hs show ?thesis by (intro exI [of _ t] exI [of _ w1]) simp
  next
    case (Inr p)
    with * hs show ?thesis
      by (intro exI [of _ t] exI [of _ w1]) (auto dest!: use simp del: answer_all.simps)
  qed
qed

lemma sequenced_answers:
  assumes ok: "server4_ok srv" and sid: "length sid = 16"
  shows "answer_ok ops (fst (sequenced sid srv minor ops (q, f)))"
proof (cases ops)
  case (Cons op ops')
  obtain st rs f' where a: "srv minor ops' f = ((st, rs), f')" by (metis prod.exhaust)
  then have "answer_ok ops' (st, rs)" using ok unfolding server4_ok_def by (metis fst_conv)
  with Cons a sid show ?thesis
    by (cases op) (simp_all add: sequenced_def answer_ok_def NFS4ERR_BADSESSION_def NFS4ERR_BADSLOT_def
        NFS4ERR_SEQ_MISORDERED_def NFS4ERR_OP_NOT_IN_SESSION_def)
qed (simp add: sequenced_def answer_ok_def NFS4ERR_OP_NOT_IN_SESSION_def)

lemma session_server_ok:
  assumes ok: "server4_ok srv" and sid: "length sid = 16"
  shows "server4_ok (session_server cid cseq sid srv)"
  unfolding server4_ok_def
proof (intro allI)
  fix minor ops and s :: "u32 \<times> 'a"
  have seq: "answer_ok ops (fst (sequenced sid srv minor ops s))"
    using sequenced_answers [OF assms, of ops minor "fst s" "snd s"] by simp
  show "answer_ok ops (fst (session_server cid cseq sid srv minor ops s))"
  proof (cases "\<exists>op. ops = [op]")
    case True
    then obtain op where "ops = [op]" by blast
    with seq sid show ?thesis
      by (cases op) (simp_all add: session_server_def, simp_all add: answer_ok_def NFS4ERR_STALE_CLIENTID_def
          NFS4ERR_SEQ_MISORDERED_def NFS4ERR_BADSESSION_def small_def)
  next
    case False
    then have "session_server cid cseq sid srv minor ops s = sequenced sid srv minor ops s"
      by (simp add: session_server_def split: list.split op4.split)
    with seq show ?thesis by simp
  qed
qed

lemma bootstrap_session_server:
  "bootstrap41 (session_server cid cseq sid srv 1) verf s = (Inr (cid, sid), (1, snd s))"
  by (simp add: bootstrap41_def session_server_def exchange_op_def create_op_def)

lemma session_server_opens: "opens_sessions (session_server cid cseq sid srv) srv"
  by (simp add: opens_sessions_def bootstrap_session_server session_server_has)

text \<open>The same file server, inside a session.\<close>

fun file41 :: "bool \<Rightarrow> op4 \<Rightarrow> nat \<times> byte list \<Rightarrow> (Nfsstat4 + res4) \<times> nat \<times> byte list" where
  "file41 confirm (Reclaim_complete4 one_fs) f = (Inr Done_r, f)"
| "file41 confirm op f = file4 confirm op f"

lemma file41_ok: "op_ok (file41 confirm)"
  unfolding op_ok_def
proof (intro allI)
  fix op f
  have "case fst (file4 confirm op f) of Inl st \<Rightarrow> st \<noteq> 0 | Inr r \<Rightarrow> fits4 op r"
    using file4_ok [of confirm] unfolding op_ok_def by blast
  then show "case fst (file41 confirm op f) of Inl st \<Rightarrow> st \<noteq> 0 | Inr r \<Rightarrow> fits4 op r"
    by (cases op) simp_all
qed

lemma nfs41_connect_use_witness:
  "\<exists>c w1 s'. Nfs41Client_ctor (sim_host 2 (listeners1 100003 4 (nfs4_handler
        (session_server 9 7 sid0 (op_server (file41 False)))))) ''host'' (sim_start (0, (0, [5, 6, 7]))) = Some (Inr c, w1) \<and>
     n41_sessionid c = sid0 \<and> n41_slot_seqid c = 3 \<and>
     run_ops (run41 (sim_host 2 (listeners1 100003 4 (nfs4_handler (session_server 9 7 sid0 (op_server (file41 False)))))))
       [Lookup_c root_sentinel [7], Read_c \<lparr>nf_fh = fh4_of 7, nf_stateid = sid4 1, nf_seqid = 1\<rparr> 1 5] (c, w1) =
     Some ([Inr (Fh_a (fh4_of 7)), Inr (Data_a [6, 7])], s')"
proof -
  let ?srv = "op_server (file41 False)"
  let ?net = "listeners1 100003 4 (nfs4_handler (session_server 9 7 sid0 ?srv))"
  let ?cs = "[Lookup_c root_sentinel [7], Read_c \<lparr>nf_fh = fh4_of 7, nf_stateid = sid4 1, nf_seqid = 1\<rparr> 1 5]"
  have up: "host_up (sim_host 2 ?net) sim_view ?net ''host''" by (rule sim_host_up) simp_all
  have reg: "listens_registered ?net (portmap1 100003 4) 100003 4 (\<lambda>h. serves4 h (session_server 9 7 sid0 ?srv))"
    by (rule listeners1_serve(2)) (rule serves4_itself)
  have ok: "list_all (\<lambda>c. request_ok (ops4 c)) ?cs"
    by (simp add: request_ok_def at_fh_def fh4_of_def fh4_ok_def sid4_def stateid_ok_def wire_ops_def wire_op4_def
        wire_fh4_def wire_stateid4_def length_wire_opaque length_wire_fixed small_def root_sentinel_def xdr_pad_def)
  have hs: "handshake41 (session_server 9 7 sid0 ?srv) ?srv verf (q, f) = (Inr (9, sid0), f)" for verf q f
    by (cases f) (simp add: handshake41_def bootstrap_session_server begin_session_def op_server_def)
  have srv: "answer_all (?srv 1) ?cs (0, [5, 6, 7]) = ([Inr (Fh_a (fh4_of 7)), Inr (Data_a [6, 7])], (0, [5, 6, 7]))"
    by (simp add: op_server_def at_fh_def fh4_of_def root_sentinel_def outcome4_def answer4_def)
  have sid: "length sid0 = 16" by (simp add: sid0_def)
  from nfs41_connect_use [OF up listeners1_serve(1) reg sim_clock
      session_server_ok [OF op_server_ok [OF file41_ok] sid] op_server_ok [OF file41_ok] session_server_opens ok,
      of "sim_start (0, (0, [5, 6, 7]))"]
  show ?thesis unfolding hs sim_view_start prod.case sum.case srv fst_conv by blast
qed

subsection \<open>The destructor\<close>

text \<open>C20: Destroying an \<open>Nfs41Client\<close> sends DESTROY_SESSION for the client's session in a COMPOUND of its own, outside
  every session, and closes the connection. It returns whatever the server answers to it.\<close>

theorem nfs41_destroy_ends_session:
  assumes "host_up os v net host" and "serves4 h srv" and "rpc_conn os v h (n41_rpc c, w)"
    and "length (n41_sessionid c) = 16" and "tracks_open os opened" and "0 \<le> rc_sock (n41_rpc c)"
  shows "\<exists>w'. Nfs41Client_destroy os c w = Some w' \<and>
    vw_state v w' = snd (srv 1 [Destroy_session4 (n41_sessionid c)] (vw_state v w)) \<and>
    opened w' = opened w - {rc_sock (n41_rpc c)}"
proof -
  let ?ops = "[Destroy_session4 (n41_sessionid c)]"
  obtain st rs f' where a: "srv 1 ?ops (vw_state v w) = ((st, rs), f')" by (metis prod.exhaust)
  have "length (bytes_of ''destroy'') \<le> 32" by (simp add: bytes_of_def)
  then obtain w1 where call: "call_compound os (bytes_of ''destroy'') (wire_ops ?ops) 1 1 (n41_rpc c, w) =
        Some (Inr (wire_compound (bytes_of ''destroy'') ?ops (st, rs)),
          ((n41_rpc c)\<lparr>rc_xid := rc_xid (n41_rpc c) + 1\<rparr>, w1))" and "vw_state v w1 = f'"
    using compound_served [where tag = "bytes_of ''destroy''" and srv = srv, OF assms(2,3) _ _ _ a]
      request_ok_session(4) [OF assms(4)] by (auto simp: request_ok_def)
  moreover have "vw_state v (rpc_destroy os s w1) = vw_state v w1" for s
    by (rule host_up_destroy_state [OF assms(1)])
  moreover have "opened w1 = opened w"
    using call_keeps [OF assms(5) call [unfolded call_compound_def Let_def]] by simp
  ultimately show ?thesis
    using a assms(6)
    by (simp add: Nfs41Client_destroy_def encode_sessions_append Let_def)
      (simp add: rpc_destroy_def tracks_openD(6) [OF assms(5)])
qed

lemma nfs41_destroy_ends_session_witness:
  "\<exists>w'. Nfs41Client_destroy (sim_host 2 (listeners1 100003 4 (nfs4_handler (session_server 9 7 sid0 (op_server (file4 False))))))
     client41 (sim_start (1, (0, [5]))) = Some w' \<and> vw_state sim_view w' = (1, (0, [5])) \<and> sm_open w' = []"
proof -
  let ?srv = "session_server 9 7 sid0 (op_server (file4 False))"
  let ?net = "listeners1 100003 4 (nfs4_handler ?srv)"
  have up: "host_up (sim_host 2 ?net) sim_view ?net ''host''" by (rule sim_host_up) simp_all
  have conn: "rpc_conn (sim_host 2 ?net) sim_view (nfs4_handler ?srv) (n41_rpc client41, sim_start (1, (0, [5])))"
    using sim_host_conn [of ?net "nfs4_handler ?srv"] by (simp add: listeners1_def client41_def)
  have sid: "length (n41_sessionid client41) = 16" by (simp add: client41_def sid0_def)
  have "snd (?srv 1 [Destroy_session4 (n41_sessionid client41)] (vw_state sim_view (sim_start (1, (0, [5]))))) =
      (1, (0, [5]))" by (simp add: session_server_def sim_view_start)
  with nfs41_destroy_ends_session [OF up serves4_itself conn sid
      sim_tracks_open [of 2 "\<lambda>port. map_option rpc_server (?net port)", folded sim_host_def]] show ?thesis
    by (simp add: client41_def conn0_def sim_start_def)
qed

end
