(* ===== verification/Bench_Args.thy ===== *)
theory Bench_Args
  imports Nfs3_Types
begin

text \<open>
  The command line of \<open>tools/bench/main.cpp\<close>: sizes with a suffix, the options, the checks made before anything is
  sent. Of the C library, \<open>strtoull\<close> and \<open>atoi\<close> are modelled (base 10, with saturation); \<open>atof\<close> is a
  parameter, and so is the type of doubles.
\<close>

subsection \<open>Numbers of the C library\<close>

definition is_space :: "char \<Rightarrow> bool" where
  "is_space c \<longleftrightarrow> of_char c \<in> {9 :: nat, 10, 11, 12, 13, 32}"

definition is_digit :: "char \<Rightarrow> bool" where
  "is_digit c \<longleftrightarrow> 48 \<le> (of_char c :: nat) \<and> (of_char c :: nat) \<le> 57"

fun take_digits :: "nat \<Rightarrow> string \<Rightarrow> nat \<times> string" where
  "take_digits acc [] = (acc, [])"
| "take_digits acc (c # cs) = (if is_digit c then take_digits (10 * acc + (of_char c - 48)) cs else (acc, c # cs))"

text \<open>White space, a sign, digits: the sign, the value and what follows; \<open>None\<close> if there is no digit.\<close>

definition scan_sign :: "string \<Rightarrow> bool \<times> string" where
  "scan_sign s = (case s of c # cs \<Rightarrow> if c = CHR ''-'' then (True, cs) else if c = CHR ''+'' then (False, cs) else (False, s)
                  | [] \<Rightarrow> (False, s))"

definition scan_number :: "string \<Rightarrow> (bool \<times> nat \<times> string) option" where
  "scan_number s =
     (case scan_sign (dropWhile is_space s) of
        (neg, ds) \<Rightarrow> (case ds of
            c # _ \<Rightarrow> if is_digit c then Some (neg, take_digits 0 ds) else None
          | [] \<Rightarrow> None))"

text \<open>\<open>strtoull(s, &end, 10)\<close>: a negative number is negated in 64 bits, one too large becomes \<open>ULLONG_MAX\<close>; without a
  number \<open>end\<close> is \<open>s\<close> itself.\<close>

definition strtoull :: "string \<Rightarrow> u64 \<times> string" where
  "strtoull s =
     (case scan_number s of
        None \<Rightarrow> (0, s)
      | Some (neg, v, end_) \<Rightarrow>
          (if v \<ge> 2 ^ 64 then - 1 else if neg then - word_of_nat v else word_of_nat v, end_))"

text \<open>\<open>static_cast<uint32_t>(atoi(s))\<close>: \<open>strtol\<close> (64 bits, saturating) cut down to an \<open>int\<close>.\<close>

definition atoi_u32 :: "string \<Rightarrow> u32" where
  "atoi_u32 s =
     (case scan_number s of
        None \<Rightarrow> 0
      | Some (neg, v, end_) \<Rightarrow> word_of_int (if neg then max (- (2 ^ 63)) (- int v) else min (2 ^ 63 - 1) (int v)))"

subsection \<open>parse_size\<close>

definition parse_size :: "string \<Rightarrow> error + u64" where
  "parse_size s =
     (case strtoull s of
        (v, end_) \<Rightarrow>
          if end_ = s then Inl (RuntimeError (''bad size: '' @ s))
          else (case end_ of
              [] \<Rightarrow> Inr v
            | c # _ \<Rightarrow>
                if c = CHR ''K'' \<or> c = CHR ''k'' then Inr (push_bit 10 v)
                else if c = CHR ''M'' \<or> c = CHR ''m'' then Inr (push_bit 20 v)
                else if c = CHR ''G'' \<or> c = CHR ''g'' then Inr (push_bit 30 v)
                else Inl (RuntimeError (''bad size suffix: '' @ end_))))"

subsection \<open>The configuration\<close>

record 'd BenchConfig =
  cfg_server :: string
  cfg_export_path :: string
  cfg_workload :: string
  cfg_bs :: u32
  cfg_size :: u64
  cfg_threads :: u32
  cfg_duration :: u32
  cfg_stable :: Stable3
  cfg_rw_ratio :: 'd
  cfg_csv_path :: string

definition BenchConfig_default :: "'d \<Rightarrow> 'd BenchConfig" where
  "BenchConfig_default seven_tenths =
     \<lparr>cfg_server = [], cfg_export_path = [], cfg_workload = [], cfg_bs = 65536, cfg_size = 2 ^ 30, cfg_threads = 1,
      cfg_duration = 30, cfg_stable = UNSTABLE, cfg_rw_ratio = seven_tenths, cfg_csv_path = []\<rparr>"

text \<open>Ways not to start: two messages with exit code 1, and the exception of \<open>parse_size\<close>, which nothing catches.\<close>

datatype usage_error =
    Unknown_argument string
  | Unknown_stable_mode string
  | Terminated error
  | Usage
  | Not_positive
  | Unknown_workload string

definition set_bs :: "string \<Rightarrow> 'd BenchConfig \<Rightarrow> usage_error + 'd BenchConfig" where
  "set_bs s cfg = map_sum Terminated (\<lambda>v. cfg\<lparr>cfg_bs := ucast v\<rparr>) (parse_size s)"

definition set_size :: "string \<Rightarrow> 'd BenchConfig \<Rightarrow> usage_error + 'd BenchConfig" where
  "set_size s cfg = map_sum Terminated (\<lambda>v. cfg\<lparr>cfg_size := v\<rparr>) (parse_size s)"

definition set_stable :: "string \<Rightarrow> 'd BenchConfig \<Rightarrow> usage_error + 'd BenchConfig" where
  "set_stable s cfg =
     (if s = ''unstable'' then Inr (cfg\<lparr>cfg_stable := UNSTABLE\<rparr>)
      else if s = ''datasync'' then Inr (cfg\<lparr>cfg_stable := DATA_SYNC\<rparr>)
      else if s = ''filesync'' then Inr (cfg\<lparr>cfg_stable := FILE_SYNC\<rparr>)
      else Inl (Unknown_stable_mode s))"

text \<open>One turn of the loop over \<open>argv\<close>, for the flag \<open>a\<close> followed by \<open>v\<close>.\<close>

definition set_option :: "(string \<Rightarrow> 'd) \<Rightarrow> string \<Rightarrow> string \<Rightarrow> 'd BenchConfig \<Rightarrow> usage_error + 'd BenchConfig" where
  "set_option atof a v cfg =
     (if a = ''--server'' then Inr (cfg\<lparr>cfg_server := v\<rparr>)
      else if a = ''--export'' then Inr (cfg\<lparr>cfg_export_path := v\<rparr>)
      else if a = ''--workload'' then Inr (cfg\<lparr>cfg_workload := v\<rparr>)
      else if a = ''--bs'' then set_bs v cfg
      else if a = ''--size'' then set_size v cfg
      else if a = ''--threads'' then Inr (cfg\<lparr>cfg_threads := atoi_u32 v\<rparr>)
      else if a = ''--duration'' then Inr (cfg\<lparr>cfg_duration := atoi_u32 v\<rparr>)
      else if a = ''--rw-ratio'' then Inr (cfg\<lparr>cfg_rw_ratio := atof v\<rparr>)
      else if a = ''--csv'' then Inr (cfg\<lparr>cfg_csv_path := v\<rparr>)
      else if a = ''--stable'' then set_stable v cfg
      else Inl (Unknown_argument a))"

text \<open>A flag without a value is not taken for a flag.\<close>

fun parse_args :: "(string \<Rightarrow> 'd) \<Rightarrow> string list \<Rightarrow> 'd BenchConfig \<Rightarrow> usage_error + 'd BenchConfig" where
  "parse_args atof [] cfg = Inr cfg"
| "parse_args atof [a] cfg = Inl (Unknown_argument a)"
| "parse_args atof (a # v # argv) cfg =
     (case set_option atof a v cfg of Inl e \<Rightarrow> Inl e | Inr cfg' \<Rightarrow> parse_args atof argv cfg')"

definition registry :: "string list" where
  "registry = [''seqread'', ''seqwrite'', ''randread'', ''randwrite'', ''meta'', ''mixed'']"

definition check_config :: "'d BenchConfig \<Rightarrow> usage_error + 'd BenchConfig" where
  "check_config cfg =
     (if cfg_server cfg = [] \<or> cfg_export_path cfg = [] \<or> cfg_workload cfg = [] then Inl Usage
      else if cfg_bs cfg = 0 \<or> cfg_size cfg = 0 \<or> cfg_threads cfg = 0 \<or> cfg_duration cfg = 0 then Inl Not_positive
      else if cfg_workload cfg \<notin> set registry then Inl (Unknown_workload (cfg_workload cfg))
      else Inr cfg)"

definition configure :: "(string \<Rightarrow> 'd) \<Rightarrow> 'd \<Rightarrow> string list \<Rightarrow> usage_error + 'd BenchConfig" where
  "configure atof seven_tenths argv =
     (case parse_args atof argv (BenchConfig_default seven_tenths) of Inl e \<Rightarrow> Inl e | Inr cfg \<Rightarrow> check_config cfg)"

subsection \<open>Decimal numerals\<close>

lemma digit_char: "n < 10 \<Longrightarrow> is_digit (char_of (48 + n)) \<and> (of_char (char_of (48 + n)) :: nat) = 48 + n"
  by (simp add: is_digit_def)

lemma take_digits_to_string:
  "take_digits acc (to_string n @ cs) = take_digits (acc * 10 ^ length (to_string n) + n) cs"
proof (induction n arbitrary: acc cs rule: to_string.induct)
  case (1 n)
  show ?case
  proof (cases "n < 10")
    case True
    then show ?thesis using digit_char [of n] by (simp add: to_string.simps [of n] mult.commute)
  next
    case False
    have d: "n mod 10 < 10" by simp
    have "take_digits acc (to_string n @ cs) =
        take_digits (acc * 10 ^ length (to_string (n div 10)) + n div 10) (char_of (48 + n mod 10) # cs)"
      using 1 False by (simp add: to_string.simps [of n])
    also have "\<dots> = take_digits (10 * (acc * 10 ^ length (to_string (n div 10)) + n div 10) + n mod 10) cs"
      using digit_char [OF d] by simp
    also have "10 * (acc * 10 ^ length (to_string (n div 10)) + n div 10) + n mod 10 =
        acc * 10 ^ length (to_string n) + n"
      using False by (simp add: to_string.simps [of n] algebra_simps)
    finally show ?thesis .
  qed
qed

lemma to_string_digits: "\<exists>c cs. to_string n = c # cs \<and> is_digit c"
proof (induction n rule: to_string.induct)
  case (1 n)
  then show ?case using digit_char [of n] by (cases "n < 10") (auto simp: to_string.simps [of n])
qed

lemma digit_no_sign: "is_digit c \<Longrightarrow> \<not> is_space c \<and> c \<noteq> CHR ''-'' \<and> c \<noteq> CHR ''+''"
  by (auto simp: is_digit_def is_space_def)

definition no_digit :: "string \<Rightarrow> bool" where
  "no_digit s \<longleftrightarrow> s = [] \<or> \<not> is_digit (hd s)"

lemma scan_to_string: "no_digit rest \<Longrightarrow> scan_number (to_string n @ rest) = Some (False, n, rest)"
proof -
  assume rest: "no_digit rest"
  obtain c cs where c: "to_string n = c # cs" "is_digit c" using to_string_digits by blast
  then have "scan_sign (dropWhile is_space (to_string n @ rest)) = (False, to_string n @ rest)"
    using digit_no_sign [of c] by (simp add: scan_sign_def)
  then have "scan_number (to_string n @ rest) = Some (False, take_digits 0 (to_string n @ rest))"
    using c by (simp add: scan_number_def)
  also have "take_digits 0 (to_string n @ rest) = (n, rest)"
    using rest unfolding take_digits_to_string by (cases rest) (simp_all add: no_digit_def)
  finally show ?thesis .
qed

lemma strtoull_to_string:
  "no_digit rest \<Longrightarrow> strtoull (to_string n @ rest) = (if n \<ge> 2 ^ 64 then - 1 else word_of_nat n, rest)"
  by (simp add: strtoull_def scan_to_string)

lemma atoi_to_string: "n < 2 ^ 31 \<Longrightarrow> atoi_u32 (to_string n) = word_of_nat n"
  using scan_to_string [of "[]" n] by (simp add: atoi_u32_def no_digit_def min_def)

text \<open>The suffixes and what follows them: only the first character after the digits is looked at.\<close>

fun suffix_shift :: "string \<Rightarrow> nat option" where
  "suffix_shift [] = Some 0"
| "suffix_shift (c # cs) =
     (if c \<in> {CHR ''K'', CHR ''k''} then Some 10 else if c \<in> {CHR ''M'', CHR ''m''} then Some 20
      else if c \<in> {CHR ''G'', CHR ''g''} then Some 30 else None)"

lemma suffix_no_digit: "suffix_shift rest = Some k \<Longrightarrow> no_digit rest"
  by (cases rest) (auto simp: no_digit_def is_digit_def split: if_splits)

lemma parse_size_to_string:
  assumes "suffix_shift rest = Some k"
  shows "parse_size (to_string n @ rest) = Inr (push_bit k (if n \<ge> 2 ^ 64 then - 1 else word_of_nat n))"
proof -
  have ne: "(rest = to_string n @ rest) = False" using to_string_digits [of n] by auto
  have v: "strtoull (to_string n @ rest) = (if n \<ge> 2 ^ 64 then - 1 else word_of_nat n, rest)"
    by (rule strtoull_to_string [OF suffix_no_digit [OF assms]])
  show ?thesis
    unfolding parse_size_def v prod.case ne if_False using assms by (cases rest) (auto split: if_splits)
qed

lemma push_word_of_nat: "push_bit k (word_of_nat n :: 'a :: len word) = word_of_nat (n * 2 ^ k)"
  by (simp add: push_bit_eq_mult)

subsection \<open>Writing the options out\<close>

definition stable_name :: "Stable3 \<Rightarrow> string" where
  "stable_name st = (if st = UNSTABLE then ''unstable'' else if st = DATA_SYNC then ''datasync'' else ''filesync'')"

definition render_options :: "string \<Rightarrow> 'd BenchConfig \<Rightarrow> string list" where
  "render_options ratio cfg =
     [''--server'', cfg_server cfg, ''--export'', cfg_export_path cfg, ''--workload'', cfg_workload cfg,
      ''--bs'', to_string (unat (cfg_bs cfg)), ''--size'', to_string (unat (cfg_size cfg)),
      ''--threads'', to_string (unat (cfg_threads cfg)), ''--duration'', to_string (unat (cfg_duration cfg)),
      ''--rw-ratio'', ratio, ''--csv'', cfg_csv_path cfg, ''--stable'', stable_name (cfg_stable cfg)]"

definition usable :: "'d BenchConfig \<Rightarrow> bool" where
  "usable cfg \<longleftrightarrow> cfg_server cfg \<noteq> [] \<and> cfg_export_path cfg \<noteq> [] \<and> cfg_workload cfg \<in> set registry \<and>
     cfg_stable cfg \<in> {UNSTABLE, DATA_SYNC, FILE_SYNC} \<and> 0 < unat (cfg_bs cfg) \<and> 0 < unat (cfg_size cfg) \<and> 0 < unat (cfg_threads cfg) \<and> unat (cfg_threads cfg) < 2 ^ 31 \<and>
     0 < unat (cfg_duration cfg) \<and> unat (cfg_duration cfg) < 2 ^ 31"

lemma word_of_unat: "(word_of_nat (unat (b :: u32)) :: u64) = ucast b" and ucast_up_down: "(ucast (ucast (b :: u32) :: u64) :: u32) = b"
  by (transfer; simp)+

lemma parse_size_unat: "parse_size (to_string (unat (v :: u64))) = Inr v" "parse_size (to_string (unat (b :: u32))) = Inr (ucast b)"
proof -
  have "unat v < 2 ^ 64" "unat b < 2 ^ 64"
    using unsigned_less [of v, where 'a = nat] unsigned_less [of b, where 'a = nat] by simp_all
  then show "parse_size (to_string (unat v)) = Inr v" "parse_size (to_string (unat b)) = Inr (ucast b)"
    using parse_size_to_string [of "[]" 0 "unat v"] parse_size_to_string [of "[]" 0 "unat b"]
    by (simp_all add: word_of_unat)
qed

lemma set_stable_name:
  "st \<in> {UNSTABLE, DATA_SYNC, FILE_SYNC} \<Longrightarrow> set_stable (stable_name st) cfg = Inr (cfg\<lparr>cfg_stable := st\<rparr>)"
  by (auto simp: set_stable_def stable_name_def UNSTABLE_def DATA_SYNC_def FILE_SYNC_def)

lemma set_option_value:
  "set_option atof ''--server'' v cfg = Inr (cfg\<lparr>cfg_server := v\<rparr>)"
  "set_option atof ''--export'' v cfg = Inr (cfg\<lparr>cfg_export_path := v\<rparr>)"
  "set_option atof ''--workload'' v cfg = Inr (cfg\<lparr>cfg_workload := v\<rparr>)"
  "set_option atof ''--bs'' v cfg = set_bs v cfg"
  "set_option atof ''--size'' v cfg = set_size v cfg"
  "set_option atof ''--threads'' v cfg = Inr (cfg\<lparr>cfg_threads := atoi_u32 v\<rparr>)"
  "set_option atof ''--duration'' v cfg = Inr (cfg\<lparr>cfg_duration := atoi_u32 v\<rparr>)"
  "set_option atof ''--rw-ratio'' v cfg = Inr (cfg\<lparr>cfg_rw_ratio := atof v\<rparr>)"
  "set_option atof ''--csv'' v cfg = Inr (cfg\<lparr>cfg_csv_path := v\<rparr>)"
  "set_option atof ''--stable'' v cfg = set_stable v cfg"
  by (simp_all add: set_option_def)

lemma parse_args_append:
  "parse_args atof pre cfg = Inr cfg' \<Longrightarrow> parse_args atof (pre @ argv) cfg = parse_args atof argv cfg'"
  by (induction atof pre cfg rule: parse_args.induct) (auto split: sum.splits)

text \<open>C33: Every usable configuration can be given on the command line, also after other well-formed options (the last
  one of a kind counts): what is parsed is the configuration that was written out, and it passes the
  checks.\<close>

theorem options_roundtrip:
  assumes "parse_args atof pre (BenchConfig_default d) = Inr cfg0" and "usable cfg" and "atof ratio = cfg_rw_ratio cfg"
  shows "configure atof d (pre @ render_options ratio cfg) = Inr cfg"
proof -
  have "parse_args atof (render_options ratio cfg) cfg0 = Inr cfg"
    using assms(2,3)
    by (simp add: render_options_def set_option_value set_bs_def set_size_def parse_size_unat set_stable_name
        atoi_to_string usable_def ucast_up_down)
  moreover have "check_config cfg = Inr cfg"
    using assms(2) by (auto simp: usable_def check_config_def registry_def)
  ultimately show ?thesis
    by (simp add: configure_def parse_args_append [OF assms(1)])
qed

definition bench_example :: "unit BenchConfig" where
  "bench_example = (BenchConfig_default ())\<lparr>cfg_server := ''nas'', cfg_export_path := ''/data'', cfg_workload := ''mixed'',
     cfg_bs := 4096, cfg_stable := FILE_SYNC\<rparr>"

lemma options_roundtrip_witness:
  "configure (\<lambda>_. ()) () ([''--threads'', ''many''] @ render_options ''0.7'' bench_example) = Inr bench_example"
  by (rule options_roundtrip [where pre = "[''--threads'', ''many'']" and cfg = bench_example and cfg0 = "(BenchConfig_default ())\<lparr>cfg_threads := atoi_u32 ''many''\<rparr>"])
     (simp_all add: set_option_value usable_def bench_example_def BenchConfig_default_def registry_def)

subsection \<open>Sizes that wrap\<close>

text \<open>What a size option stands for: \<open>strtoull\<close> stops at \<open>2 ^ 64 - 1\<close>, the suffix multiplies modulo \<open>2 ^ 64\<close>.\<close>

definition size_value :: "nat \<Rightarrow> nat \<Rightarrow> nat" where
  "size_value n k = min n (2 ^ 64 - 1) * 2 ^ k mod 2 ^ 64"

lemma parse_size_value:
  assumes "suffix_shift rest = Some k"
  shows "parse_size (to_string n @ rest) = Inr (word_of_nat (size_value n k))"
proof -
  have m: "(word_of_nat (m mod 2 ^ 64) :: u64) = word_of_nat m" for m
    by (simp add: word_of_nat_eq_iff take_bit_eq_mod)
  have "(- 1 :: u64) = word_of_nat (2 ^ 64 - 1)" by simp
  then have "(if n \<ge> 2 ^ 64 then - 1 else word_of_nat n :: u64) = word_of_nat (min n (2 ^ 64 - 1))"
    by (cases "n \<ge> 2 ^ 64") (simp_all only: if_True if_False min_def, auto)
  then show ?thesis
    unfolding parse_size_to_string [OF assms] size_value_def m by (simp only: push_word_of_nat)
qed

text \<open>C35: The options \<open>--bs\<close> and \<open>--size\<close>, after any other options with which the program would start: each is the
  product of its number (one above \<open>2 ^ 64 - 1\<close> counts as \<open>2 ^ 64 - 1\<close>, which is where \<open>strtoull\<close> stops) and its suffix
  modulo \<open>2 ^ 64\<close>, and \<open>--bs\<close> keeps the low 32 bits of that. Nothing that does not fit is refused, and whatever
  follows the suffix is ignored: if one of the two has become 0, the program says that the values have to be
  positive; otherwise it runs with what has become of them.\<close>

theorem size_options_wrap:
  assumes "suffix_shift bs_rest = Some k" and "suffix_shift size_rest = Some l"
    and "parse_args atof pre (BenchConfig_default d) = Inr cfg"
    and "cfg_server cfg \<noteq> []" and "cfg_export_path cfg \<noteq> []" and "cfg_threads cfg \<noteq> 0" and "cfg_duration cfg \<noteq> 0"
    and "cfg_workload cfg \<in> {''seqread'', ''seqwrite'', ''randread'', ''randwrite'', ''meta'', ''mixed''}"
  shows "configure atof d (pre @ [''--bs'', to_string m @ bs_rest, ''--size'', to_string n @ size_rest]) =
    (if size_value m k mod 2 ^ 32 = 0 \<or> size_value n l = 0 then Inl Not_positive
     else Inr (cfg\<lparr>cfg_bs := word_of_nat (size_value m k mod 2 ^ 32), cfg_size := word_of_nat (size_value n l)\<rparr>))"
proof -
  let ?cfg = "cfg\<lparr>cfg_bs := word_of_nat (size_value m k), cfg_size := word_of_nat (size_value n l)\<rparr>"
  have low: "(word_of_nat (j mod 2 ^ 32) :: u32) = word_of_nat j" "(ucast (word_of_nat j :: u64) :: u32) = word_of_nat j" for j
  proof -
    show "(word_of_nat (j mod 2 ^ 32) :: u32) = word_of_nat j" by (simp add: word_of_nat_eq_iff take_bit_eq_mod)
    show "(ucast (word_of_nat j :: u64) :: u32) = word_of_nat j" by transfer (simp add: take_bit_take_bit min_def)
  qed
  have "parse_args atof (pre @ [''--bs'', to_string m @ bs_rest, ''--size'', to_string n @ size_rest]) (BenchConfig_default d) =
      Inr ?cfg"
    by (simp add: parse_args_append [OF assms(3)] set_option_value set_bs_def set_size_def parse_size_value assms(1,2) low(2))
  then have "configure atof d (pre @ [''--bs'', to_string m @ bs_rest, ''--size'', to_string n @ size_rest]) = check_config ?cfg"
    by (simp add: configure_def)
  also have "\<dots> = (if (word_of_nat (size_value m k) :: u32) = 0 \<or> (word_of_nat (size_value n l) :: u64) = 0 then Inl Not_positive else Inr ?cfg)"
    using assms(4-8) by (auto simp: check_config_def registry_def)
  also have "(word_of_nat (size_value m k) :: u32) = 0 \<longleftrightarrow> size_value m k mod 2 ^ 32 = 0"
    by (simp add: word_of_nat_eq_0_iff dvd_eq_mod_eq_0)
  also have "(word_of_nat (size_value n l) :: u64) = 0 \<longleftrightarrow> size_value n l = 0"
  proof -
    have "size_value n l < 2 ^ 64" by (simp add: size_value_def)
    then show ?thesis by (simp add: word_of_nat_eq_0_iff dvd_eq_mod_eq_0)
  qed
  finally show ?thesis by (simp only: low(1))
qed

lemma size_options_wrap_witness:
  "configure (\<lambda>_. ()) () ([''--server'', ''nas'', ''--export'', ''/'', ''--workload'', ''meta''] @
      [''--bs'', ''5Gigabytes'', ''--size'', ''16m'']) =
    Inr ((BenchConfig_default ())\<lparr>cfg_server := ''nas'', cfg_export_path := ''/'', cfg_workload := ''meta'',
      cfg_bs := 2 ^ 30, cfg_size := 2 ^ 24\<rparr>) \<and>
   configure (\<lambda>_. ()) () ([''--server'', ''nas'', ''--export'', ''/'', ''--workload'', ''meta''] @
      [''--bs'', ''4G'', ''--size'', ''1'']) = Inl Not_positive"
proof -
  let ?pre = "[''--server'', ''nas'', ''--export'', ''/'', ''--workload'', ''meta'']"
  let ?cfg = "(BenchConfig_default ())\<lparr>cfg_server := ''nas'', cfg_export_path := ''/'', cfg_workload := ''meta''\<rparr>"
  have s: "to_string 5 = ''5''" "to_string 16 = ''16''" "to_string 4 = ''4''" "to_string 1 = ''1''" by code_simp+
  have pre: "parse_args (\<lambda>_. ()) ?pre (BenchConfig_default ()) = Inr ?cfg" by (simp add: set_option_value)
  have ok: "cfg_server ?cfg \<noteq> []" "cfg_export_path ?cfg \<noteq> []" "cfg_threads ?cfg \<noteq> 0" "cfg_duration ?cfg \<noteq> 0"
      "cfg_workload ?cfg \<in> {''seqread'', ''seqwrite'', ''randread'', ''randwrite'', ''meta'', ''mixed''}"
    by (simp_all add: BenchConfig_default_def)
  have v: "size_value 5 30 mod 2 ^ 32 = 2 ^ 30" "size_value 16 20 = 2 ^ 24" "size_value 4 30 mod 2 ^ 32 = 0"
    by (simp_all add: size_value_def)
  have "configure (\<lambda>_. ()) () (?pre @ [''--bs'', to_string 5 @ ''Gigabytes'', ''--size'', to_string 16 @ ''m'']) =
      Inr (?cfg\<lparr>cfg_bs := 2 ^ 30, cfg_size := 2 ^ 24\<rparr>)"
    using size_options_wrap [where pre = ?pre and m = 5 and bs_rest = "''Gigabytes''" and k = 30 and n = 16 and size_rest = "''m''" and l = 20, OF _ _ pre ok]
    unfolding v by simp
  moreover have "configure (\<lambda>_. ()) () (?pre @ [''--bs'', to_string 4 @ ''G'', ''--size'', to_string 1 @ []]) = Inl Not_positive"
    using size_options_wrap [where pre = ?pre and m = 4 and bs_rest = "''G''" and k = 30 and n = 1 and size_rest = "[]" and l = 0, OF _ _ pre ok]
    unfolding v by simp
  ultimately show ?thesis unfolding s by simp
qed

end
