(* ===== verification/Bench_Stats.thy ===== *)
theory Bench_Stats
  imports Prelude
begin

text \<open>
  \<open>tools/bench/bench_stats.hpp\<close>: the latency samples of a benchmark thread and their percentiles. The index of a
  percentile is computed in \<open>double\<close>; the rounding of each step is part of the model.
\<close>

subsection \<open>Doubles\<close>

text \<open>
  A positive \<open>double\<close> is written as a natural number of some unit \<open>2 ^ -u\<close> small enough for all the numbers at
  hand. Rounding to 53 significant bits, to the nearest and on a tie to the even one, does not depend
  on the unit.
\<close>

fun excess_bits :: "nat \<Rightarrow> nat" where
  "excess_bits n = (if n < 2 ^ 53 then 0 else Suc (excess_bits (n div 2)))"

declare excess_bits.simps [simp del]

definition round_bits :: "nat \<Rightarrow> nat \<Rightarrow> nat" where
  "round_bits b n =
     (let q = n div 2 ^ b; r = n mod 2 ^ b in
      (if 2 * r < 2 ^ b \<or> 2 * r = 2 ^ b \<and> even q then q else q + 1) * 2 ^ b)"

definition to_double :: "nat \<Rightarrow> nat" where
  "to_double n = round_bits (excess_bits n) n"

text \<open>\<open>static_cast<size_t>(p * static_cast<double>(n - 1) + 0.5)\<close>, with \<open>p\<close> in units of \<open>2 ^ -53\<close>.\<close>

definition pct_index :: "nat \<Rightarrow> nat \<Rightarrow> nat" where
  "pct_index p n = to_double (to_double (p * to_double (n - 1)) + 2 ^ 52) div 2 ^ 53"

text \<open>The constants 0.50, 0.95 and 0.99 as the doubles the compiler makes of them.\<close>

definition double_050 :: nat where "double_050 = 4503599627370496"
definition double_095 :: nat where "double_095 = 8556839292003942"
definition double_099 :: nat where "double_099 = 8917127262193582"

subsection \<open>The reservoir\<close>

record Reservoir =
  samples :: "u64 list"

record Reservoir_Stats =
  min_ns :: u64
  p50_ns :: u64
  p95_ns :: u64
  p99_ns :: u64
  max_ns :: u64

definition Reservoir_new :: Reservoir where
  "Reservoir_new = \<lparr>samples = []\<rparr>"

definition Reservoir_push :: "u64 \<Rightarrow> Reservoir \<Rightarrow> Reservoir" where
  "Reservoir_push ns r = r\<lparr>samples := samples r @ [ns]\<rparr>"

definition Reservoir_count :: "Reservoir \<Rightarrow> nat" where
  "Reservoir_count r = length (samples r)"

definition Reservoir_empty :: "Reservoir \<Rightarrow> bool" where
  "Reservoir_empty r \<longleftrightarrow> samples r = []"

definition Reservoir_merge :: "Reservoir \<Rightarrow> Reservoir \<Rightarrow> Reservoir" where
  "Reservoir_merge other r = r\<lparr>samples := samples r @ samples other\<rparr>"

text \<open>\<open>pct\<close>, on the sorted samples.\<close>

definition pct :: "u64 list \<Rightarrow> nat \<Rightarrow> u64" where
  "pct xs p =
     (let idx = pct_index p (length xs) in
      xs ! (if idx \<ge> length xs then length xs - 1 else idx))"

text \<open>\<open>compute\<close> leaves the samples sorted.\<close>

definition Reservoir_compute :: "Reservoir \<Rightarrow> Reservoir_Stats \<times> Reservoir" where
  "Reservoir_compute r =
     (if samples r = [] then (\<lparr>min_ns = 0, p50_ns = 0, p95_ns = 0, p99_ns = 0, max_ns = 0\<rparr>, r)
      else
        (let xs = sort (samples r) in
         (\<lparr>min_ns = hd xs, p50_ns = pct xs double_050, p95_ns = pct xs double_095, p99_ns = pct xs double_099,
           max_ns = last xs\<rparr>, r\<lparr>samples := xs\<rparr>)))"

subsection \<open>Rounding\<close>

lemma excess_bits_bounds: "n < 2 ^ (53 + excess_bits n) \<and> (excess_bits n > 0 \<longrightarrow> 2 ^ (52 + excess_bits n) \<le> n)"
proof (induction n rule: excess_bits.induct)
  case (1 n)
  show ?case
  proof (cases "n < 2 ^ 53")
    case True
    then show ?thesis by (simp add: excess_bits.simps)
  next
    case False
    then have e: "excess_bits n = Suc (excess_bits (n div 2))" by (subst excess_bits.simps) simp
    have "n div 2 < 2 ^ (53 + excess_bits (n div 2))" using 1 False by simp
    then have up: "n < 2 * 2 ^ (53 + excess_bits (n div 2))" by linarith
    have "2 ^ (52 + excess_bits (n div 2)) \<le> n div 2"
    proof (cases "excess_bits (n div 2)")
      case 0
      with False show ?thesis by simp
    next
      case Suc
      with 1 False show ?thesis by simp
    qed
    then have "2 * 2 ^ (52 + excess_bits (n div 2)) \<le> n" by linarith
    with up show ?thesis unfolding e by (simp add: power_Suc [symmetric] del: power_Suc)
  qed
qed

lemma excess_bits_mono: "m \<le> n \<Longrightarrow> excess_bits m \<le> excess_bits n"
proof (rule ccontr)
  assume le: "m \<le> n" and "\<not> excess_bits m \<le> excess_bits n"
  then have gt: "excess_bits n < excess_bits m" by simp
  then have "(2 :: nat) ^ (53 + excess_bits n) \<le> 2 ^ (52 + excess_bits m)" by (intro power_increasing) auto
  also have "\<dots> \<le> m" using excess_bits_bounds [of m] gt by auto
  also have "\<dots> \<le> n" by (rule le)
  also have "\<dots> < 2 ^ (53 + excess_bits n)" using excess_bits_bounds [of n] by blast
  finally show False by simp
qed

lemma round_bits_mono: "m \<le> n \<Longrightarrow> round_bits b m \<le> round_bits b n"
proof -
  assume le: "m \<le> n"
  let ?B = "2 ^ b :: nat"
  let ?q = "m div ?B" and ?q' = "n div ?B" and ?r = "m mod ?B" and ?r' = "n mod ?B"
  have "?q \<le> ?q'" using le by (rule div_le_mono)
  then consider "?q < ?q'" | "?q = ?q'" by linarith
  then have "(if 2 * ?r < ?B \<or> 2 * ?r = ?B \<and> even ?q then ?q else ?q + 1) \<le>
      (if 2 * ?r' < ?B \<or> 2 * ?r' = ?B \<and> even ?q' then ?q' else ?q' + 1)"
  proof cases
    case 2
    have "?q * ?B + ?r \<le> ?q' * ?B + ?r'" using le by (simp only: div_mult_mod_eq)
    with 2 have "?r \<le> ?r'" by simp
    with 2 show ?thesis by auto
  qed auto
  then show ?thesis unfolding round_bits_def Let_def by (rule mult_le_mono1)
qed

lemma round_bits_exact: "round_bits b (a * 2 ^ b) = a * 2 ^ b"
  by (simp add: round_bits_def)

lemma round_bits_error: "2 * round_bits b n \<le> 2 * n + 2 ^ b" "2 * n \<le> 2 * round_bits b n + 2 ^ b"
proof -
  define B q r where "B = (2 :: nat) ^ b" and "q = n div B" and "r = n mod B"
  have n: "n = q * B + r" and r: "r < B"
    by (simp_all only: B_def q_def r_def div_mult_mod_eq) simp
  have "round_bits b n = (if 2 * r < B \<or> 2 * r = B \<and> even q then q else q + 1) * B"
    by (simp only: round_bits_def Let_def B_def q_def r_def)
  then have "round_bits b n = q * B \<and> 2 * r \<le> B \<or> round_bits b n = q * B + B \<and> B \<le> 2 * r"
    by (auto simp: distrib_right)
  then show "2 * round_bits b n \<le> 2 * n + 2 ^ b" "2 * n \<le> 2 * round_bits b n + 2 ^ b"
    unfolding B_def [symmetric] using n r by linarith+
qed

lemma to_double_exact:
  assumes "a < 2 ^ 53"
  shows "to_double (a * 2 ^ j) = a * 2 ^ j"
proof (cases "excess_bits (a * 2 ^ j) = 0")
  case True
  then show ?thesis using round_bits_exact [of 0 "a * 2 ^ j"] by (simp add: to_double_def)
next
  case False
  let ?e = "excess_bits (a * 2 ^ j)"
  have "2 ^ (52 + ?e) \<le> a * 2 ^ j" using False excess_bits_bounds by blast
  also have "\<dots> < 2 ^ 53 * 2 ^ j" using assms by simp
  also have "\<dots> = 2 ^ (53 + j)" by (simp only: power_add)
  finally have "52 + ?e < 53 + j" by (rule power_less_imp_less_exp [rotated]) simp
  then have "?e \<le> j" by simp
  then obtain d where "j = ?e + d" using le_Suc_ex by blast
  then have "a * 2 ^ j = (a * 2 ^ d) * 2 ^ ?e" by (metis power_add mult.assoc mult.commute)
  then show ?thesis unfolding to_double_def by (metis round_bits_exact)
qed

lemma to_double_mono: "m \<le> n \<Longrightarrow> to_double m \<le> to_double n"
proof -
  assume le: "m \<le> n"
  show ?thesis
  proof (cases "excess_bits m = excess_bits n")
    case True
    with round_bits_mono [OF le] show ?thesis by (simp add: to_double_def)
  next
    case False
    with excess_bits_mono [OF le] have lt: "excess_bits m < excess_bits n" by simp
    let ?P = "2 ^ 52 * 2 ^ excess_bits n :: nat"
    have "m < 2 ^ (53 + excess_bits m)" using excess_bits_bounds by blast
    also have "\<dots> \<le> 2 ^ (52 + excess_bits n)" using lt by (intro power_increasing) auto
    finally have m: "m \<le> 2 ^ (52 + excess_bits n - excess_bits m) * 2 ^ excess_bits m"
      using lt by (simp add: power_add [symmetric])
    have "to_double m \<le> 2 ^ (52 + excess_bits n - excess_bits m) * 2 ^ excess_bits m"
      using round_bits_mono [OF m, of "excess_bits m"] unfolding round_bits_exact to_double_def .
    also have "\<dots> = ?P"
    proof -
      have "52 + excess_bits n - excess_bits m + excess_bits m = 52 + excess_bits n" using lt by simp
      then show ?thesis by (simp only: power_add [symmetric])
    qed
    also have "\<dots> \<le> to_double n"
    proof -
      have "?P \<le> n" using excess_bits_bounds [of n] lt by (simp add: power_add)
      from round_bits_mono [OF this, of "excess_bits n"] show ?thesis unfolding round_bits_exact to_double_def .
    qed
    finally show ?thesis .
  qed
qed

lemma to_double_lower: "2 ^ 53 * n \<le> 2 ^ 53 * to_double n + n"
proof (cases "excess_bits n = 0")
  case True
  then show ?thesis using round_bits_exact [of 0 n] by (simp add: to_double_def)
next
  case False
  then have "2 ^ 52 * 2 ^ excess_bits n \<le> n" using excess_bits_bounds [of n] by (simp only: power_add)
  moreover have "2 * n \<le> 2 * to_double n + 2 ^ excess_bits n" unfolding to_double_def by (rule round_bits_error)
  ultimately show ?thesis by simp
qed

subsection \<open>The index of a percentile\<close>

lemma double_half: "k < 2 ^ 53 \<Longrightarrow> to_double k = k"
  using to_double_exact [of k 0] by simp

lemma pct_index_median: "0 < n \<Longrightarrow> n < 2 ^ 53 \<Longrightarrow> pct_index double_050 n = n div 2"
proof -
  assume n: "0 < n" "n < 2 ^ 53"
  have "to_double (double_050 * to_double (n - 1)) = (n - 1) * 2 ^ 52"
    using to_double_exact [of "n - 1" 52] double_half [of "n - 1"] n
    by (simp add: double_050_def mult.commute less_imp_diff_less)
  then have "pct_index double_050 n = to_double (n * 2 ^ 52) div 2 ^ 53"
    using n by (cases n) (simp_all add: pct_index_def add.commute)
  also have "\<dots> = (n * 2 ^ 52) div (2 * 2 ^ 52)" using to_double_exact [of n 52] n by simp
  also have "\<dots> = n div 2" by (rule div_mult_mult2) simp
  finally show ?thesis .
qed

lemma pct_index_mono: "p \<le> q \<Longrightarrow> pct_index p n \<le> pct_index q n"
  unfolding pct_index_def by (intro div_le_mono to_double_mono add_le_mono1 mult_le_mono1)

text \<open>How far the computed index can be below the exact one, for at most \<open>2 ^ 32\<close> samples.\<close>

lemma pct_index_lower:
  assumes "0 < n" and "n \<le> 2 ^ 32" and "p < 2 ^ 53"
  shows "p * (n - 1) + 2 ^ 52 < 2 ^ 53 * (pct_index p n + 1) + 2 ^ 34"
proof -
  let ?k = "n - 1" and ?a = "to_double (p * (n - 1))"
  let ?b = "to_double (?a + 2 ^ 52)"
  have k: "to_double ?k = ?k" using assms by (intro double_half) simp
  have pk: "p * ?k \<le> 2 ^ 53 * 2 ^ 32" using assms by (intro mult_le_mono) simp_all
  have lo1: "2 ^ 53 * (p * ?k) \<le> 2 ^ 53 * ?a + p * ?k" by (rule to_double_lower)
  have up: "?a \<le> 2 ^ 53 * 2 ^ 32"
    using to_double_mono [OF pk] to_double_exact [of 1 "53 + 32"] by simp
  have lo2: "2 ^ 53 * (?a + 2 ^ 52) \<le> 2 ^ 53 * ?b + (?a + 2 ^ 52)" by (rule to_double_lower)
  have "?b < 2 ^ 53 * (?b div 2 ^ 53 + 1)"
    using dividend_less_times_div [of "2 ^ 53" ?b] by (simp add: algebra_simps)
  moreover have "pct_index p n = ?b div 2 ^ 53" by (simp only: pct_index_def k)
  ultimately show ?thesis using lo1 lo2 up pk by simp
qed

lemma pct_index_095: "0 < n \<Longrightarrow> n \<le> 2 ^ 32 \<Longrightarrow> 19 * (n - 1) + 10 \<le> 20 * pct_index double_095 n + 20"
  using pct_index_lower [of n double_095] by (simp add: double_095_def)

lemma pct_index_099: "0 < n \<Longrightarrow> n \<le> 2 ^ 32 \<Longrightarrow> 99 * (n - 1) + 50 \<le> 100 * pct_index double_099 n + 100"
  using pct_index_lower [of n double_099] by (simp add: double_099_def)

subsection \<open>What the percentiles are\<close>

text \<open>The index that is used in the end.\<close>

definition pct_at :: "nat \<Rightarrow> nat \<Rightarrow> nat" where
  "pct_at p n = min (pct_index p n) (n - 1)"

lemma pct_nth: "xs \<noteq> [] \<Longrightarrow> pct xs p = xs ! pct_at p (length xs) \<and> pct_at p (length xs) < length xs"
  by (cases "length xs") (auto simp: pct_def pct_at_def Let_def min_def not_less)

lemma pct_mono: "xs \<noteq> [] \<Longrightarrow> sorted xs \<Longrightarrow> p \<le> q \<Longrightarrow> pct xs p \<le> pct xs q"
  using pct_nth [of xs p] pct_nth [of xs q] pct_index_mono [of p q "length xs"]
  by (simp add: sorted_nth_mono pct_at_def min.mono)

lemma length_filter_above:
  assumes "sorted xs" and "i < length xs"
  shows "length (filter (\<lambda>x. xs ! i < x) xs) \<le> length xs - Suc i"
proof -
  have "\<forall>x \<in> set (take (Suc i) xs). x \<le> xs ! i"
    using assms by (auto simp: in_set_conv_nth intro!: sorted_nth_mono)
  then have "filter (\<lambda>x. xs ! i < x) (take (Suc i) xs) = []" by (auto simp: filter_empty_conv not_less)
  then have "filter (\<lambda>x. xs ! i < x) xs = filter (\<lambda>x. xs ! i < x) (drop (Suc i) xs)"
    by (metis append_take_drop_id filter_append append_Nil)
  also have "length \<dots> \<le> length xs - Suc i" by (metis length_drop length_filter_le)
  finally show ?thesis .
qed

lemma length_filter_sort: "length (filter P (sort xs)) = length (filter P xs)"
  by (simp add: filter_sort)

lemma sorted_ends:
  assumes "xs \<noteq> []" and "sorted xs"
  shows "hd xs = Min (set xs)" "last xs = Max (set xs)"
proof -
  have "hd xs \<le> x" "x \<le> last xs" if "x \<in> set xs" for x
    using that assms by (auto simp: in_set_conv_nth hd_conv_nth last_conv_nth intro!: sorted_nth_mono)
  then show "hd xs = Min (set xs)" "last xs = Max (set xs)"
    using assms(1) by (auto intro!: Min_eqI [symmetric] Max_eqI [symmetric])
qed

lemma above_pct:
  assumes "xs \<noteq> []"
  shows "length (filter (\<lambda>x. pct (sort xs) p < x) xs) \<le> length xs - Suc (pct_at p (length xs))"
proof -
  have ne: "sort xs \<noteq> []" using assms by (metis length_0_conv length_sort)
  show ?thesis
    using length_filter_above [OF sorted_sort, of "pct_at p (length xs)" xs] pct_nth [OF ne, of p]
    by (simp add: length_filter_sort)
qed

text \<open>C32: The percentiles of a benchmark thread's latencies, computed with an index in \<open>double\<close>: the minimum and
  the maximum are those of the samples, the median is the middle element, the five numbers are ordered,
  each is a sample, and at most 5 (1) of 100 samples, up to the rounding of the index, are above the 95th
  (99th) percentile.\<close>

theorem reservoir_percentiles:
  fixes r :: Reservoir
  defines "st \<equiv> fst (Reservoir_compute r)" and "xs \<equiv> samples r"
  assumes "xs \<noteq> []" and "length xs \<le> 2 ^ 32"
  shows "min_ns st = Min (set xs) \<and> max_ns st = Max (set xs) \<and> p50_ns st = sort xs ! (length xs div 2) \<and>
    min_ns st \<le> p50_ns st \<and> p50_ns st \<le> p95_ns st \<and> p95_ns st \<le> p99_ns st \<and> p99_ns st \<le> max_ns st \<and>
    {p50_ns st, p95_ns st, p99_ns st} \<subseteq> set xs \<and>
    20 * length (filter (\<lambda>x. p95_ns st < x) xs) \<le> length xs + 9 \<and>
    100 * length (filter (\<lambda>x. p99_ns st < x) xs) \<le> length xs + 49"
proof -
  let ?ys = "sort xs" and ?n = "length xs"
  have ys: "?ys \<noteq> []" and n: "0 < ?n" using assms(3) by (metis length_0_conv length_sort, simp)
  have fields: "min_ns st = hd ?ys" "max_ns st = last ?ys" "p50_ns st = pct ?ys double_050" "p95_ns st = pct ?ys double_095"
    "p99_ns st = pct ?ys double_099"
    using assms(3) by (simp_all add: st_def xs_def Reservoir_compute_def Let_def)
  have in_set: "pct ?ys p \<in> set xs" for p using pct_nth [OF ys, of p] nth_mem by (metis set_sort)
  have ends: "hd ?ys = Min (set xs)" "last ?ys = Max (set xs)"
    using sorted_ends [OF ys sorted_sort] by simp_all
  have order: "Min (set xs) \<le> pct ?ys p" "pct ?ys p \<le> Max (set xs)" for p
    using in_set by simp_all
  have "pct_at double_050 ?n = ?n div 2"
    using pct_index_median [of ?n] n assms(4) by (simp add: pct_at_def)
  with pct_nth [OF ys, of double_050] have median: "pct ?ys double_050 = ?ys ! (?n div 2)" by simp
  have mono: "pct ?ys double_050 \<le> pct ?ys double_095" "pct ?ys double_095 \<le> pct ?ys double_099"
    using pct_mono [OF ys sorted_sort] by (simp_all add: double_050_def double_095_def double_099_def)
  have rank95: "20 * length (filter (\<lambda>x. pct ?ys double_095 < x) xs) \<le> ?n + 9"
    using above_pct [OF assms(3), of double_095] pct_index_095 [of ?n] n assms(4) by (simp add: pct_at_def)
  have rank99: "100 * length (filter (\<lambda>x. pct ?ys double_099 < x) xs) \<le> ?n + 49"
    using above_pct [OF assms(3), of double_099] pct_index_099 [of ?n] n assms(4) by (simp add: pct_at_def)
  show ?thesis
    unfolding fields ends median [symmetric]
    using order [of double_050] order [of double_099] in_set [of double_050] in_set [of double_095]
      in_set [of double_099] mono rank95 rank99 by simp
qed

lemma reservoir_percentiles_witness:
  "p50_ns (fst (Reservoir_compute \<lparr>samples = [30, 10, 20]\<rparr>)) = 20 \<and>
   max_ns (fst (Reservoir_compute \<lparr>samples = [30, 10, 20]\<rparr>)) = 30"
  using reservoir_percentiles [of "\<lparr>samples = [30, 10, 20]\<rparr>"] by simp

end
