(* ===== verification/Bench_Workloads.thy ===== *)
theory Bench_Workloads
  imports Bench_Args Bench_Stats Nfs3_Client
begin

text \<open>
  The workloads of \<open>tools/bench\<close>, what each thread does with its client until it is told to stop. The clock, the stop
  flag and the random numbers are the environment of a thread; the counters it is given by reference are
  part of its state, so that they keep what was counted when an exception ends the run.
\<close>

subsection \<open>A thread's state and environment\<close>

record Counters =
  ct_res :: Reservoir
  ct_ops :: u64
  ct_bytes :: u64

definition Counters_zero :: Counters where
  "Counters_zero = \<lparr>ct_res = Reservoir_new, ct_ops = 0, ct_bytes = 0\<rparr>"

type_synonym 'w thread_state = "Counters \<times> 'w nfs3_state"

text \<open>\<open>stop\<close>, \<open>steady_clock::now()\<close> in nanoseconds, \<open>uniform_int_distribution(0, max)\<close>, and whether the next number of
  \<open>uniform_real_distribution(0, 1)\<close> is below a given one.\<close>

record ('w, 'd) bench_env =
  be_stop :: "'w \<Rightarrow> bool \<times> 'w"
  be_now :: "'w \<Rightarrow> u64 \<times> 'w"
  be_uniform :: "u64 \<Rightarrow> 'w \<Rightarrow> u64 \<times> 'w"
  be_coin_below :: "'d \<Rightarrow> 'w \<Rightarrow> bool \<times> 'w"

definition on_nfs :: "('w nfs3_state, 'a) io \<Rightarrow> ('w thread_state, 'a) io" where
  "on_nfs = io_zoom snd (\<lambda>t (k, _). (k, t))"

definition on_env :: "('w \<Rightarrow> 'a \<times> 'w) \<Rightarrow> ('w thread_state, 'a) io" where
  "on_env g = (\<lambda>(k, (c, w)). case g w of (x, w') \<Rightarrow> Some (Inr x, (k, (c, w'))))"

definition count_bytes :: "u64 \<Rightarrow> ('w thread_state, unit) io" where
  "count_bytes n = io_modify (\<lambda>(k, s). (k\<lparr>ct_bytes := ct_bytes k + n\<rparr>, s))"

text \<open>\<open>res.push(...)\<close> and, as soon as it is done with the result, \<open>++ops\<close>.\<close>

definition push_latency :: "u64 \<Rightarrow> u64 \<Rightarrow> ('w thread_state, unit) io" where
  "push_latency t0 t1 = io_modify (\<lambda>(k, s). (k\<lparr>ct_res := Reservoir_push (t1 - t0) (ct_res k)\<rparr>, s))"

definition count_op :: "('w thread_state, unit) io" where
  "count_op = io_modify (\<lambda>(k, s). (k\<lparr>ct_ops := ct_ops k + 1\<rparr>, s))"

text \<open>\<open>auto t0 = now(); ...; auto t1 = now(); res.push(t1 - t0);\<close>\<close>

definition timed :: "('w, 'd) bench_env \<Rightarrow> ('w thread_state, 'a) io \<Rightarrow> ('w thread_state, 'a) io" where
  "timed env m =
     io_bind (on_env (be_now env)) (\<lambda>t0.
     io_bind m (\<lambda>x.
     io_bind (on_env (be_now env)) (\<lambda>t1.
     io_bind (push_latency t0 t1) (\<lambda>_.
     io_return x))))"

subsection \<open>Setup and teardown\<close>

definition bench_data :: cstring where
  "bench_data = bytes_of ''bench_data''"

text \<open>\<open>while (written < cfg.size)\<close>: the count in the result of a WRITE is not looked at.\<close>

partial_function (option) fill_loop ::
  "'w os \<Rightarrow> Fh3 \<Rightarrow> 'd BenchConfig \<Rightarrow> byte list \<Rightarrow> u64 \<Rightarrow> 'w nfs3_state \<Rightarrow> ((error + unit) \<times> 'w nfs3_state) option" where
  "fill_loop os fh cfg buf written s =
     (if written < cfg_size cfg then
        (let chunk = (ucast (min (ucast (cfg_bs cfg)) (cfg_size cfg - written)) :: u32) in
         io_bind (NFSClient_write os fh written FILE_SYNC (take (unat chunk) buf)) (\<lambda>_.
         fill_loop os fh cfg buf (written + ucast chunk)) s)
      else io_return () s)"

definition fill_file :: "'w os \<Rightarrow> byte \<Rightarrow> Fh3 \<Rightarrow> 'd BenchConfig \<Rightarrow> ('w nfs3_state, unit) io" where
  "fill_file os pattern workdir cfg =
     (let buf = replicate (unat (cfg_bs cfg)) pattern in
      io_bind (NFSClient_create os workdir bench_data UNCHECKED Sattr3_default) (\<lambda>fh.
      fill_loop os fh cfg buf 0))"

definition remove_data :: "'w os \<Rightarrow> Fh3 \<Rightarrow> ('w nfs3_state, unit) io" where
  "remove_data os workdir = NFSClient_remove os workdir bench_data"

subsection \<open>Sequential reads and writes\<close>

text \<open>\<open>offset += data.size(); if (data.empty() || offset >= cfg.size) offset = 0;\<close> and the same for writes.\<close>

definition next_read :: "'d BenchConfig \<Rightarrow> u64 \<Rightarrow> byte list \<Rightarrow> u64" where
  "next_read cfg offset data =
     (let offset' = offset + word_of_nat (length data) in
      if data = [] \<or> offset' \<ge> cfg_size cfg then 0 else offset')"

definition next_write :: "'d BenchConfig \<Rightarrow> u64 \<Rightarrow> WriteResult \<Rightarrow> u64" where
  "next_write cfg offset result =
     (let offset' = offset + ucast (wr_count result) in if offset' \<ge> cfg_size cfg then 0 else offset')"

partial_function (option) seqread_loop ::
  "'w os \<Rightarrow> ('w, 'd) bench_env \<Rightarrow> Fh3 \<Rightarrow> 'd BenchConfig \<Rightarrow> u64 \<Rightarrow> 'w thread_state \<Rightarrow>
   ((error + unit) \<times> 'w thread_state) option" where
  "seqread_loop os env fh cfg offset s =
     io_bind (on_env (be_stop env)) (\<lambda>stop s.
     if stop then io_return () s
     else
       io_bind (timed env (on_nfs (NFSClient_read os fh offset (cfg_bs cfg)))) (\<lambda>data.
       io_bind (count_bytes (word_of_nat (length data))) (\<lambda>_.
       io_bind count_op (\<lambda>_.
       seqread_loop os env fh cfg (next_read cfg offset data)))) s) s"

definition run_seqread :: "'w os \<Rightarrow> ('w, 'd) bench_env \<Rightarrow> Fh3 \<Rightarrow> 'd BenchConfig \<Rightarrow> nat \<Rightarrow> ('w thread_state, unit) io" where
  "run_seqread os env workdir cfg tid =
     io_bind (on_nfs (NFSClient_lookup os workdir bench_data)) (\<lambda>fh.
     seqread_loop os env fh cfg 0)"

partial_function (option) seqwrite_loop ::
  "'w os \<Rightarrow> ('w, 'd) bench_env \<Rightarrow> Fh3 \<Rightarrow> 'd BenchConfig \<Rightarrow> byte list \<Rightarrow> u64 \<Rightarrow> 'w thread_state \<Rightarrow>
   ((error + unit) \<times> 'w thread_state) option" where
  "seqwrite_loop os env fh cfg buf offset s =
     io_bind (on_env (be_stop env)) (\<lambda>stop s.
     if stop then io_return () s
     else
       io_bind (timed env (on_nfs (NFSClient_write os fh offset (cfg_stable cfg) buf))) (\<lambda>result.
       io_bind (count_bytes (ucast (wr_count result))) (\<lambda>_.
       io_bind count_op (\<lambda>_.
       seqwrite_loop os env fh cfg buf (next_write cfg offset result)))) s) s"

definition run_seqwrite :: "'w os \<Rightarrow> ('w, 'd) bench_env \<Rightarrow> Fh3 \<Rightarrow> 'd BenchConfig \<Rightarrow> nat \<Rightarrow> ('w thread_state, unit) io" where
  "run_seqwrite os env workdir cfg tid =
     (let fname = bytes_of (''bench_write_'' @ to_string tid) in
      io_bind (on_nfs (NFSClient_create os workdir fname UNCHECKED Sattr3_default)) (\<lambda>fh.
      let buf = replicate (unat (cfg_bs cfg)) 0xBC in
      io_bind (seqwrite_loop os env fh cfg buf 0) (\<lambda>_.
      on_nfs (NFSClient_remove os workdir fname))))"

subsection \<open>Random reads and writes\<close>

definition max_block :: "'d BenchConfig \<Rightarrow> u64" where
  "max_block cfg = (let blocks = cfg_size cfg div ucast (cfg_bs cfg) in if blocks > 0 then blocks - 1 else 0)"

definition draw_offset :: "('w, 'd) bench_env \<Rightarrow> 'd BenchConfig \<Rightarrow> ('w thread_state, u64) io" where
  "draw_offset env cfg =
     io_bind (on_env (be_uniform env (max_block cfg))) (\<lambda>block.
     io_return (block * ucast (cfg_bs cfg)))"

partial_function (option) randread_loop ::
  "'w os \<Rightarrow> ('w, 'd) bench_env \<Rightarrow> Fh3 \<Rightarrow> 'd BenchConfig \<Rightarrow> 'w thread_state \<Rightarrow>
   ((error + unit) \<times> 'w thread_state) option" where
  "randread_loop os env fh cfg s =
     io_bind (on_env (be_stop env)) (\<lambda>stop s.
     if stop then io_return () s
     else
       io_bind (draw_offset env cfg) (\<lambda>offset.
       io_bind (timed env (on_nfs (NFSClient_read os fh offset (cfg_bs cfg)))) (\<lambda>data.
       io_bind (count_bytes (word_of_nat (length data))) (\<lambda>_.
       io_bind count_op (\<lambda>_.
       randread_loop os env fh cfg)))) s) s"

definition run_randread :: "'w os \<Rightarrow> ('w, 'd) bench_env \<Rightarrow> Fh3 \<Rightarrow> 'd BenchConfig \<Rightarrow> nat \<Rightarrow> ('w thread_state, unit) io" where
  "run_randread os env workdir cfg tid =
     io_bind (on_nfs (NFSClient_lookup os workdir bench_data)) (\<lambda>fh.
     randread_loop os env fh cfg)"

partial_function (option) randwrite_loop ::
  "'w os \<Rightarrow> ('w, 'd) bench_env \<Rightarrow> Fh3 \<Rightarrow> 'd BenchConfig \<Rightarrow> byte list \<Rightarrow> 'w thread_state \<Rightarrow>
   ((error + unit) \<times> 'w thread_state) option" where
  "randwrite_loop os env fh cfg buf s =
     io_bind (on_env (be_stop env)) (\<lambda>stop s.
     if stop then io_return () s
     else
       io_bind (draw_offset env cfg) (\<lambda>offset.
       io_bind (timed env (on_nfs (NFSClient_write os fh offset (cfg_stable cfg) buf))) (\<lambda>result.
       io_bind (count_bytes (ucast (wr_count result))) (\<lambda>_.
       io_bind count_op (\<lambda>_.
       randwrite_loop os env fh cfg buf)))) s) s"

definition run_randwrite :: "'w os \<Rightarrow> ('w, 'd) bench_env \<Rightarrow> Fh3 \<Rightarrow> 'd BenchConfig \<Rightarrow> nat \<Rightarrow> ('w thread_state, unit) io" where
  "run_randwrite os env workdir cfg tid =
     (let fname = bytes_of (''bench_rw_'' @ to_string tid) in
      io_bind (on_nfs (NFSClient_create os workdir fname UNCHECKED Sattr3_default)) (\<lambda>fh.
      io_bind (on_nfs (NFSClient_setattr os fh (Sattr3_default\<lparr>sa_set_size := True, sa_size := cfg_size cfg\<rparr>)
                 \<lparr>sg_check = False, sg_ctime_sec = 0, sg_ctime_nsec = 0\<rparr>)) (\<lambda>_.
      let buf = replicate (unat (cfg_bs cfg)) 0xDE in
      io_bind (randwrite_loop os env fh cfg buf) (\<lambda>_.
      on_nfs (NFSClient_remove os workdir fname)))))"

subsection \<open>Both, and metadata only\<close>

text \<open>Here the bytes are counted before the clock is read for the second time.\<close>

definition mixed_op :: "'w os \<Rightarrow> ('w, 'd) bench_env \<Rightarrow> Fh3 \<Rightarrow> 'd BenchConfig \<Rightarrow> byte list \<Rightarrow> u64 \<Rightarrow> ('w thread_state, unit) io" where
  "mixed_op os env fh cfg wbuf offset =
     io_bind (on_env (be_coin_below env (cfg_rw_ratio cfg))) (\<lambda>reading.
     if reading then
       io_bind (on_nfs (NFSClient_read os fh offset (cfg_bs cfg))) (\<lambda>data.
       count_bytes (word_of_nat (length data)))
     else
       io_bind (on_nfs (NFSClient_write os fh offset (cfg_stable cfg) wbuf)) (\<lambda>result.
       count_bytes (ucast (wr_count result))))"

partial_function (option) mixed_loop ::
  "'w os \<Rightarrow> ('w, 'd) bench_env \<Rightarrow> Fh3 \<Rightarrow> 'd BenchConfig \<Rightarrow> byte list \<Rightarrow> 'w thread_state \<Rightarrow>
   ((error + unit) \<times> 'w thread_state) option" where
  "mixed_loop os env fh cfg wbuf s =
     io_bind (on_env (be_stop env)) (\<lambda>stop s.
     if stop then io_return () s
     else
       io_bind (draw_offset env cfg) (\<lambda>offset.
       io_bind (timed env (mixed_op os env fh cfg wbuf offset)) (\<lambda>_.
       io_bind count_op (\<lambda>_.
       mixed_loop os env fh cfg wbuf))) s) s"

definition run_mixed :: "'w os \<Rightarrow> ('w, 'd) bench_env \<Rightarrow> Fh3 \<Rightarrow> 'd BenchConfig \<Rightarrow> nat \<Rightarrow> ('w thread_state, unit) io" where
  "run_mixed os env workdir cfg tid =
     io_bind (on_nfs (NFSClient_lookup os workdir bench_data)) (\<lambda>fh.
     let wbuf = replicate (unat (cfg_bs cfg)) 0xEF in
     mixed_loop os env fh cfg wbuf)"

definition meta_name :: "nat \<Rightarrow> u64 \<Rightarrow> cstring" where
  "meta_name tid seq = bytes_of (''m_'' @ to_string tid @ ''_'' @ to_string (unat seq))"

partial_function (option) meta_loop ::
  "'w os \<Rightarrow> ('w, 'd) bench_env \<Rightarrow> Fh3 \<Rightarrow> nat \<Rightarrow> u64 \<Rightarrow> 'w thread_state \<Rightarrow> ((error + unit) \<times> 'w thread_state) option" where
  "meta_loop os env workdir tid seq s =
     io_bind (on_env (be_stop env)) (\<lambda>stop s.
     if stop then io_return () s
     else
       io_bind (timed env (on_nfs (
         io_bind (NFSClient_create os workdir (meta_name tid seq) GUARDED Sattr3_default) (\<lambda>_.
         NFSClient_remove os workdir (meta_name tid seq))))) (\<lambda>_.
       io_bind count_op (\<lambda>_.
       meta_loop os env workdir tid (seq + 1))) s) s"

definition run_meta :: "'w os \<Rightarrow> ('w, 'd) bench_env \<Rightarrow> Fh3 \<Rightarrow> 'd BenchConfig \<Rightarrow> nat \<Rightarrow> ('w thread_state, unit) io" where
  "run_meta os env workdir cfg tid = meta_loop os env workdir tid 0"

end
