(* ===== verification/Bench_Main.thy ===== *)
theory Bench_Main
  imports Bench_Workloads
begin

text \<open>
  \<open>tools/bench/main.cpp\<close> after the command line: the workloads by name, one thread, all of them, the recursive
  removal of the scratch directory, and \<open>main\<close>. What is printed and the CSV file are left out.
\<close>

subsection \<open>The workloads\<close>

record ('w, 'd) Workload =
  wl_name :: string
  wl_setup :: "(Fh3 \<Rightarrow> 'd BenchConfig \<Rightarrow> ('w nfs3_state, unit) io) option"
  wl_run :: "Fh3 \<Rightarrow> 'd BenchConfig \<Rightarrow> nat \<Rightarrow> ('w thread_state, unit) io"
  wl_teardown :: "(Fh3 \<Rightarrow> 'd BenchConfig \<Rightarrow> ('w nfs3_state, unit) io) option"

definition make_workload_seqread :: "'w os \<Rightarrow> ('w, 'd) bench_env \<Rightarrow> ('w, 'd) Workload" where
  "make_workload_seqread os env =
     \<lparr>wl_name = ''seqread'', wl_setup = Some (fill_file os 0xAB), wl_run = run_seqread os env,
      wl_teardown = Some (\<lambda>workdir cfg. remove_data os workdir)\<rparr>"

definition make_workload_seqwrite :: "'w os \<Rightarrow> ('w, 'd) bench_env \<Rightarrow> ('w, 'd) Workload" where
  "make_workload_seqwrite os env =
     \<lparr>wl_name = ''seqwrite'', wl_setup = None, wl_run = run_seqwrite os env, wl_teardown = None\<rparr>"

definition make_workload_randread :: "'w os \<Rightarrow> ('w, 'd) bench_env \<Rightarrow> ('w, 'd) Workload" where
  "make_workload_randread os env =
     \<lparr>wl_name = ''randread'', wl_setup = Some (fill_file os 0xCD), wl_run = run_randread os env,
      wl_teardown = Some (\<lambda>workdir cfg. remove_data os workdir)\<rparr>"

definition make_workload_randwrite :: "'w os \<Rightarrow> ('w, 'd) bench_env \<Rightarrow> ('w, 'd) Workload" where
  "make_workload_randwrite os env =
     \<lparr>wl_name = ''randwrite'', wl_setup = None, wl_run = run_randwrite os env, wl_teardown = None\<rparr>"

definition make_workload_meta :: "'w os \<Rightarrow> ('w, 'd) bench_env \<Rightarrow> ('w, 'd) Workload" where
  "make_workload_meta os env = \<lparr>wl_name = ''meta'', wl_setup = None, wl_run = run_meta os env, wl_teardown = None\<rparr>"

definition make_workload_mixed :: "'w os \<Rightarrow> ('w, 'd) bench_env \<Rightarrow> ('w, 'd) Workload" where
  "make_workload_mixed os env =
     \<lparr>wl_name = ''mixed'', wl_setup = Some (fill_file os 0xEF), wl_run = run_mixed os env,
      wl_teardown = Some (\<lambda>workdir cfg. remove_data os workdir)\<rparr>"

definition workloads :: "'w os \<Rightarrow> ('w, 'd) bench_env \<Rightarrow> (string \<times> ('w, 'd) Workload) list" where
  "workloads os env =
     [(''seqread'', make_workload_seqread os env), (''seqwrite'', make_workload_seqwrite os env),
      (''randread'', make_workload_randread os env), (''randwrite'', make_workload_randwrite os env),
      (''meta'', make_workload_meta os env), (''mixed'', make_workload_mixed os env)]"

subsection \<open>Threads\<close>

definition root_auth :: AuthSys where
  "root_auth = AuthSys_default\<lparr>au_uid := 0, au_gid := 0\<rparr>"

text \<open>One thread: a client of its own, and every exception caught; the counters are read after the join.\<close>

definition worker ::
  "'w os \<Rightarrow> ('w, 'd) Workload \<Rightarrow> 'd BenchConfig \<Rightarrow> string \<Rightarrow> Fh3 \<Rightarrow> nat \<Rightarrow> ('w, Counters) io" where
  "worker os wl cfg host workdir_fh tid w =
     (case NFSClient_ctor os host w of
        None \<Rightarrow> None
      | Some (Inl e, w') \<Rightarrow> Some (Inr Counters_zero, w')
      | Some (Inr client, w') \<Rightarrow>
          map_option (\<lambda>(r, (k, (c, w''))). (Inr k, rpc_destroy os (c3_conn c) w''))
            (wl_run wl workdir_fh cfg tid (Counters_zero, (NFSClient_set_auth_sys root_auth client, w'))))"

record RunResult =
  rr_total_ops :: u64
  rr_total_bytes :: u64
  rr_elapsed_ns :: u64
  rr_lat :: Reservoir_Stats

text \<open>\<open>for (int i = 0; i < N; ++i)\<close>\<close>

definition merge_counters :: "Counters list \<Rightarrow> Counters" where
  "merge_counters ks =
     foldl (\<lambda>m k. \<lparr>ct_res = Reservoir_merge (ct_res k) (ct_res m), ct_ops = ct_ops m + ct_ops k,
                   ct_bytes = ct_bytes m + ct_bytes k\<rparr>) Counters_zero ks"

text \<open>
  \<open>threads\<close> is \<open>std::thread\<close>, sleeping, raising the stop flag and joining: it runs the threads numbered below its
  second argument interleaved as the system likes and returns their counters by number. More than
  \<open>2 ^ 31 - 1\<close> of them make a negative \<open>int\<close>, for which \<open>std::vector\<close> throws.
\<close>

definition run_workload ::
  "'w os \<Rightarrow> ('w, 'd) bench_env \<Rightarrow> ((nat \<Rightarrow> ('w, Counters) io) \<Rightarrow> nat \<Rightarrow> u32 \<Rightarrow> ('w, Counters list) io) \<Rightarrow>
   ('w, 'd) Workload \<Rightarrow> 'd BenchConfig \<Rightarrow> string \<Rightarrow> Fh3 \<Rightarrow> ('w, RunResult) io" where
  "run_workload os env threads wl cfg host workdir_fh =
     io_bind (io_throw_if (unat (cfg_threads cfg) \<ge> 2 ^ 31) (RuntimeError ''std::length_error'')) (\<lambda>_.
     io_bind (io_call (be_now env)) (\<lambda>t_start.
     io_bind (threads (worker os wl cfg host workdir_fh) (unat (cfg_threads cfg)) (cfg_duration cfg)) (\<lambda>ks.
     io_bind (io_call (be_now env)) (\<lambda>t_end.
     let merged = merge_counters ks in
     io_return \<lparr>rr_total_ops = ct_ops merged, rr_total_bytes = ct_bytes merged, rr_elapsed_ns = t_end - t_start,
                rr_lat = fst (Reservoir_compute (ct_res merged))\<rparr>))))"

subsection \<open>Removing a directory\<close>

definition is_dot :: "cstring \<Rightarrow> bool" where
  "is_dot name \<longleftrightarrow> name = bytes_of ''.'' \<or> name = bytes_of ''..''"

text \<open>The loop of \<open>clear_dir\<close>, with the call of \<open>rmdir_recursive\<close> written out (and in it the one of \<open>clear_dir\<close>).\<close>

partial_function (option) clear_entries ::
  "'w os \<Rightarrow> Fh3 \<Rightarrow> DirEntryPlus3 list \<Rightarrow> 'w nfs3_state \<Rightarrow> ((error + unit) \<times> 'w nfs3_state) option" where
  "clear_entries os dir entries s =
     (case entries of
        [] \<Rightarrow> io_return () s
      | entry # rest \<Rightarrow>
          if is_dot (dp_name entry) then clear_entries os dir rest s
          else if dp_has_attrs entry \<and> fa_type (dp_attrs entry) = NF3DIR then
            io_bind (NFSClient_lookup os dir (dp_name entry)) (\<lambda>dir_fh.
            io_bind (NFSClient_readdirplus os dir_fh 4096 32768) (\<lambda>entries'.
            io_bind (clear_entries os dir_fh entries') (\<lambda>_.
            io_bind (NFSClient_rmdir os dir (dp_name entry)) (\<lambda>_.
            clear_entries os dir rest)))) s
          else
            io_bind (NFSClient_remove os dir (dp_name entry)) (\<lambda>_. clear_entries os dir rest) s)"

definition clear_dir :: "'w os \<Rightarrow> Fh3 \<Rightarrow> ('w nfs3_state, unit) io" where
  "clear_dir os dir = io_bind (NFSClient_readdirplus os dir 4096 32768) (\<lambda>entries. clear_entries os dir entries)"

definition rmdir_recursive :: "'w os \<Rightarrow> Fh3 \<Rightarrow> cstring \<Rightarrow> ('w nfs3_state, unit) io" where
  "rmdir_recursive os parent name =
     io_bind (NFSClient_lookup os parent name) (\<lambda>dir_fh.
     io_bind (clear_dir os dir_fh) (\<lambda>_.
     NFSClient_rmdir os parent name))"

subsection \<open>main\<close>

text \<open>
  After the checks of the command line. Until the scratch directory exists, an exception ends the program; from
  then on it only sets the exit code, and the directory is removed in any case, best effort.
  \<open>run\<close> is \<open>run_workload\<close> with the threads of the system.
\<close>

definition run_phases ::
  "('w, 'd) Workload \<Rightarrow> 'd BenchConfig \<Rightarrow> (Fh3 \<Rightarrow> ('w, RunResult) io) \<Rightarrow> Fh3 \<Rightarrow> ('w nfs3_state, unit) io" where
  "run_phases wl cfg run workdir_fh =
     io_bind (case wl_setup wl of None \<Rightarrow> io_return () | Some setup \<Rightarrow> setup workdir_fh cfg) (\<lambda>_.
     io_bind (on_host (\<lambda>_. run workdir_fh)) (\<lambda>result.
     case wl_teardown wl of None \<Rightarrow> io_return () | Some teardown \<Rightarrow> teardown workdir_fh cfg))"

definition workdir_name :: "nat \<Rightarrow> cstring" where
  "workdir_name pid = bytes_of (''bench_'' @ to_string pid)"

definition bench_session ::
  "'w os \<Rightarrow> ('w, 'd) Workload \<Rightarrow> 'd BenchConfig \<Rightarrow> (Fh3 \<Rightarrow> ('w, RunResult) io) \<Rightarrow> nat \<Rightarrow> ('w nfs3_state, nat) io" where
  "bench_session os wl cfg run pid =
     io_bind (NFSClient_mount os (bytes_of (cfg_export_path cfg))) (\<lambda>root_fh.
     io_bind (NFSClient_mkdir os root_fh (workdir_name pid) Sattr3_default) (\<lambda>workdir_fh.
     io_bind (io_try (run_phases wl cfg run workdir_fh)) (\<lambda>r.
     let rc = (case r of Inl _ \<Rightarrow> 1 | Inr _ \<Rightarrow> 0) in
     io_bind (io_try (rmdir_recursive os root_fh (workdir_name pid))) (\<lambda>_.
     io_return rc))))"

definition bench_main ::
  "'w os \<Rightarrow> ('w, 'd) Workload \<Rightarrow> 'd BenchConfig \<Rightarrow> (Fh3 \<Rightarrow> ('w, RunResult) io) \<Rightarrow> nat \<Rightarrow> ('w, nat) io" where
  "bench_main os wl cfg run pid =
     io_bind (NFSClient_ctor os (cfg_server cfg)) (\<lambda>main_client w.
     map_option (\<lambda>(r, (c, w')). (r, case r of Inl _ \<Rightarrow> w' | Inr _ \<Rightarrow> rpc_destroy os (c3_conn c) w'))
       (bench_session os wl cfg run pid (NFSClient_set_auth_sys root_auth main_client, w)))"

end
