(* ===== verification/Bench_Props.thy ===== *)
theory Bench_Props
  imports Bench_Main Nfs3_Connect
begin

text \<open>
  What the benchmark measures and what it leaves behind: the counters of a thread, the offsets it draws, the
  file the setup writes.
\<close>

subsection \<open>One sample per operation\<close>



text \<open>Steps that touch neither the samples nor the number of operations.\<close>

definition same_count :: "'w thread_state \<Rightarrow> 'w thread_state \<Rightarrow> bool" where
  "same_count s s' \<longleftrightarrow> ct_ops (fst s') = ct_ops (fst s) \<and> ct_res (fst s') = ct_res (fst s)"


lemma same_count_bind [rel_intros]:
  "io_rel same_count m \<Longrightarrow> (\<And>x. io_rel same_count (f x)) \<Longrightarrow> io_rel same_count (io_bind m f)"
  by (rule io_rel_bind [where R = same_count and Q = same_count]) (auto simp: same_count_def)










lemma io_rel_if [rel_intros]: "io_rel R m1 \<Longrightarrow> io_rel R m2 \<Longrightarrow> io_rel R (if b then m1 else m2)"
  by simp

















subsection \<open>Random offsets\<close>

text \<open>The random workloads stay in the file: an offset that is drawn is a multiple of the block size, and the block
  at it ends within the file's size, without wrap-around, unless a single block is larger than the file.\<close>

theorem random_blocks_in_file:
  assumes "\<And>m w. fst (be_uniform env m w) \<le> m" and "cfg_bs cfg \<noteq> 0"
    and "draw_offset env cfg s = Some (Inr offset, s')"
  shows "unat (cfg_bs cfg) dvd unat offset \<and>
    unat offset + unat (cfg_bs cfg) \<le> max (unat (cfg_size cfg)) (unat (cfg_bs cfg))"
proof -
  let ?bs = "unat (cfg_bs cfg)" and ?size = "unat (cfg_size cfg)"
  have bs: "0 < ?bs" using assms(2) by (simp add: unat_gt_0)
  have u: "unat (ucast (cfg_bs cfg) :: u64) = ?bs"
    using unsigned_less [of "cfg_bs cfg", where 'a = nat] by (simp add: unsigned_ucast_eq take_bit_nat_eq_self)
  obtain block where block: "block \<le> max_block cfg" and off: "offset = block * ucast (cfg_bs cfg)"
    using assms(1,3) by (cases s) (auto simp: draw_offset_def on_env_def eff_simps split: prod.splits, metis fst_conv)
  have blocks: "unat (cfg_size cfg div ucast (cfg_bs cfg)) = ?size div ?bs"
    by (simp add: unat_div_distrib u)
  have le: "unat block \<le> ?size div ?bs - 1"
  proof (cases "cfg_size cfg div ucast (cfg_bs cfg) = 0")
    case True
    then show ?thesis using block by (simp add: max_block_def)
  next
    case False
    then have "unat (max_block cfg) = ?size div ?bs - 1"
      using blocks by (simp add: max_block_def word_neq_0_conv unat_minus_one)
    then show ?thesis using block by (simp add: word_le_nat_alt)
  qed
  have "unat block * ?bs \<le> (?size div ?bs - 1) * ?bs" using le by (rule mult_le_mono1)
  also have "\<dots> = ?size div ?bs * ?bs - ?bs" by (simp add: diff_mult_distrib)
  finally have fit: "unat block * ?bs + ?bs \<le> max ?size ?bs"
    using div_times_less_eq_dividend [of ?size ?bs] by linarith
  also have "\<dots> < 2 ^ 64"
    using unsigned_less [of "cfg_size cfg", where 'a = nat] unsigned_less [of "cfg_bs cfg", where 'a = nat] by simp
  finally have "unat offset = unat block * ?bs"
    using bs by (simp add: off unat_mult_lem [THEN iffD1] u unat_word_ariths)
  with fit show ?thesis by simp
qed

definition bench_env0 :: "('w, unit) bench_env" where
  "bench_env0 = \<lparr>be_stop = (\<lambda>w. (True, w)), be_now = (\<lambda>w. (0, w)), be_uniform = (\<lambda>m w. (m, w)), be_coin_below = (\<lambda>d w. (True, w))\<rparr>"

lemma random_blocks_in_file_witness:
  "\<exists>offset s'. draw_offset bench_env0 bench_example (Counters_zero, (client0, ())) = Some (Inr offset, s') \<and>
     unat offset + 4096 \<le> 2 ^ 30"
proof -
  have cfg: "cfg_bs bench_example = 4096" "cfg_size bench_example = 2 ^ 30"
    by (simp_all add: bench_example_def BenchConfig_default_def)
  obtain offset s' where d: "draw_offset bench_env0 bench_example (Counters_zero, (client0, ())) = Some (Inr offset, s')"
    by (simp add: draw_offset_def on_env_def eff_simps bench_env0_def)
  have "fst (be_uniform bench_env0 m w) \<le> m" for m and w :: unit by (simp add: bench_env0_def)
  from random_blocks_in_file [OF this _ d] have "unat offset + 4096 \<le> 2 ^ 30" by (simp add: cfg)
  with d show ?thesis by blast
qed

subsection \<open>The file the setup writes\<close>

text \<open>A server that stores at \<open>fh\<close> what it is sent, all of it, where it is told; \<open>content\<close> is the file.\<close>

definition stores_writes :: "'f server3 \<Rightarrow> Fh3 \<Rightarrow> ('f \<Rightarrow> byte list) \<Rightarrow> bool" where
  "stores_writes srv fh content \<longleftrightarrow>
     (\<forall>off d f. unat off \<le> length (content f) \<longrightarrow>
        (\<exists>wcc res f'. srv (Write3 fh off FILE_SYNC d) f = (Written3 wcc res, f') \<and> length (wr_verf res) = 8 \<and>
           content f' = take (unat off) (content f) @ d @ drop (unat off + length d) (content f)))"

lemma write_stored:
  assumes conn: "conn3 os v srv (c, w)" and srv: "stores_writes srv fh content" and fh: "dir_ok fh"
    and d: "length d < 2 ^ 29" and off: "unat off \<le> length (content (vw_state v w))"
  shows "\<exists>res c' w'. NFSClient_write os fh off FILE_SYNC d (c, w) = Some (Inr res, (c', w')) \<and> conn3 os v srv (c', w') \<and>
    content (vw_state v w') = take (unat off) (content (vw_state v w)) @ d @ drop (unat off + length d) (content (vw_state v w))"
proof -
  obtain wcc res f' where s: "srv (Write3 fh off FILE_SYNC d) (vw_state v w) = (Written3 wcc res, f')"
    and verf: "length (wr_verf res) = 8"
    and c: "content f' = take (unat off) (content (vw_state v w)) @ d @ drop (unat off + length d) (content (vw_state v w))"
    using srv off unfolding stores_writes_def by blast
  have fit: "fits3 (proc3 (Write3 fh off FILE_SYNC d)) (Written3 wcc res)" by (simp add: fits3_def proc3_values verf)
  have "length (wire_fh3 fh) \<le> 71" using fh by (simp add: dir_ok_def wire_fh3_def length_wire_opaque xdr_pad_def)
  moreover have "length (wire_opaque d) \<le> length d + 8"
    by (simp add: length_wire_opaque xdr_pad_def)
  ultimately have ok: "call3_ok (Write3 fh off FILE_SYNC d)" "length (args3 (Write3 fh off FILE_SYNC d)) < 2 ^ 30"
    using fh d by (simp_all add: dir_ok_wf encode_write_args_def put_simps)
  have "srv (meaning3 (Write3 fh off FILE_SYNC d)) (vw_state v w) = (Written3 wcc res, f')"
    using s by (simp add: meaning3_def)
  from run3_served [OF conn ok this fit] obtain w'
    where r: "run3 os (Write3 fh off FILE_SYNC d) (c, w) = Some (outcome3 7 (Written3 wcc res), (next_call3 c, w'))"
      and "conn3 os v srv (next_call3 c, w')" "vw_state v w' = f'" by (auto simp: proc3_values)
  moreover from r obtain q where "NFSClient_write os fh off FILE_SYNC d (c, w) = Some (q, (next_call3 c, w'))"
    and "map_sum id Written_v q = Inr (Written_v res)" by (auto simp: io_map_Some outcome3_def)
  then have "NFSClient_write os fh off FILE_SYNC d (c, w) = Some (Inr res, (next_call3 c, w'))" by (cases q) auto
  ultimately show ?thesis using c by blast
qed

lemma fill_loop_fills:
  assumes srv: "stores_writes srv fh content" and fh: "dir_ok fh" and bs: "0 < unat (cfg_bs cfg)" "unat (cfg_bs cfg) < 2 ^ 29"
    and "conn3 os v srv (c, w)" and "content (vw_state v w) = replicate (unat written) p" and "written \<le> cfg_size cfg"
  shows "\<exists>c' w'. fill_loop os fh cfg (replicate (unat (cfg_bs cfg)) p) written (c, w) = Some (Inr (), (c', w')) \<and>
    conn3 os v srv (c', w') \<and> content (vw_state v w') = replicate (unat (cfg_size cfg)) p"
  using assms(5-7)
proof (induction "unat (cfg_size cfg - written)" arbitrary: written c w rule: less_induct)
  case less
  show ?case
  proof (cases "written < cfg_size cfg")
    case False
    with less.prems show ?thesis by (subst fill_loop.simps) (auto simp: io_return_def)
  next
    case True
    let ?bs = "cfg_bs cfg" and ?size = "cfg_size cfg"
    define left where "left = min (ucast ?bs) (?size - written)"
    have u: "unat (ucast ?bs :: u64) = unat ?bs"
      using unsigned_less [of ?bs, where 'a = nat] by (simp add: unsigned_ucast_eq take_bit_nat_eq_self)
    have sub: "unat (?size - written) = unat ?size - unat written"
      using True by (simp add: unat_sub order_less_imp_le)
    have lt: "unat written < unat ?size" using True by (simp add: word_less_nat_alt)
    have left: "unat left = min (unat ?bs) (unat ?size - unat written)"
      using sub u by (simp add: left_def min_def word_le_nat_alt)
    have n: "unat (ucast left :: u32) = unat left"
      using left unsigned_less [of ?bs, where 'a = nat] by (simp add: unsigned_ucast_eq take_bit_nat_eq_self)
    have wide: "(ucast (ucast left :: u32) :: u64) = left"
      using n by (simp add: word_unat_eq_iff unsigned_ucast_eq unsigned_take_bit_eq)
    have data: "take (unat (ucast left :: u32)) (replicate (unat ?bs) p) = replicate (unat left) p"
      using left by (simp add: n min_def)
    have fits: "unat written + unat left \<le> unat ?size" using left lt by linarith
    have nxt: "unat (written + left) = unat written + unat left"
    proof (rule unat_add_lem [THEN iffD1])
      from fits show "unat written + unat left < 2 ^ LENGTH(64)"
        using unsigned_less [of ?size, where 'a = nat] by (rule le_less_trans)
    qed
    have short: "length (replicate (unat left) p) < 2 ^ 29" using left bs by simp
    have off: "unat written \<le> length (content (vw_state v w))" by (simp add: less.prems)
    obtain res c1 w1 where wr: "NFSClient_write os fh written FILE_SYNC (replicate (unat left) p) (c, w) = Some (Inr res, (c1, w1))"
      and conn1: "conn3 os v srv (c1, w1)" and cont: "content (vw_state v w1) = replicate (unat (written + left)) p"
      using write_stored [OF less.prems(1) srv fh short off] less.prems(2) by (auto simp: nxt replicate_add)
    have dec: "unat (?size - (written + left)) < unat (?size - written)"
      using left bs lt nxt sub by (subst unat_sub) (auto simp: word_le_nat_alt)
    have le: "written + left \<le> ?size" using fits nxt by (simp add: word_le_nat_alt)
    obtain c2 w2 where "fill_loop os fh cfg (replicate (unat ?bs) p) (written + left) (c1, w1) = Some (Inr (), (c2, w2))"
      and "conn3 os v srv (c2, w2)" and "content (vw_state v w2) = replicate (unat ?size) p"
      using less.hyps [OF dec conn1 cont le] by blast
    moreover have "fill_loop os fh cfg (replicate (unat ?bs) p) written (c, w) =
        io_bind (NFSClient_write os fh written FILE_SYNC (replicate (unat left) p))
          (\<lambda>_. fill_loop os fh cfg (replicate (unat ?bs) p) (written + left)) (c, w)"
      using True by (subst fill_loop.simps) (simp only: if_True Let_def left_def [symmetric] data wide)
    ultimately show ?thesis using wr by (auto simp: io_bind_def)
  qed
qed

text \<open>The setup of the reading workloads writes the whole file: against a server that stores what it is sent, the
  loop that writes block after block ends, for every size and every block size of the command line
  (below 512 MiB), and the file then has exactly the configured number of pattern bytes.\<close>

theorem setup_fills_file:
  assumes "conn3 os v srv (c, w)" and "stores_writes srv fh content" and "dir_ok fh"
    and "0 < unat (cfg_bs cfg)" and "unat (cfg_bs cfg) < 2 ^ 29" and "content (vw_state v w) = []"
  shows "\<exists>c' w'. fill_loop os fh cfg (replicate (unat (cfg_bs cfg)) p) 0 (c, w) = Some (Inr (), (c', w')) \<and>
    content (vw_state v w') = replicate (unat (cfg_size cfg)) p"
  using fill_loop_fills [where written = 0 and p = p, OF assms(2-5,1)] assms(6) by auto

lemma file_server_stores: "stores_writes file_server fh (\<lambda>f. f)"
  by (simp add: stores_writes_def)

lemma setup_fills_file_witness:
  "\<exists>c' w'. fill_loop (sim_os 2 (rpc_server (nfs3_handler file_server))) fh0 (bench_example\<lparr>cfg_size := 10000\<rparr>)
      (replicate 4096 0xAB) 0 (client0, sim_start []) = Some (Inr (), (c', w')) \<and>
     vw_state sim_view w' = replicate 10000 0xAB"
proof -
  have cfg: "cfg_bs (bench_example\<lparr>cfg_size := 10000\<rparr>) = 4096" "cfg_size (bench_example\<lparr>cfg_size := 10000\<rparr>) = 10000"
    by (simp_all add: bench_example_def BenchConfig_default_def)
  have "dir_ok fh0" by (simp add: dir_ok_def fh0_def)
  from setup_fills_file [OF client0_conn file_server_stores this, of "bench_example\<lparr>cfg_size := 10000\<rparr>" "[]" "0xAB"]
  show ?thesis unfolding cfg by (auto simp: sim_view_start)
qed

end
