(* ===== verification/Bench_Cleanup.thy ===== *)
theory Bench_Cleanup
  imports Bench_Props Nfs3_Connect
begin

text \<open>
  The recursive removal of the benchmark's directory against a server with a tree of files: everything below the
  directory goes, nothing else changes. And \<open>main\<close>, which ends with it.
\<close>

subsection \<open>A tree of files at the server\<close>

datatype 'i inode = Absent | Plain | Folder "(cstring \<times> 'i) list"

definition drop_name :: "cstring \<Rightarrow> (cstring \<times> 'i) list \<Rightarrow> (cstring \<times> 'i) list" where
  "drop_name n es = filter (\<lambda>(m, j). m \<noteq> n) es"

definition entries_ok :: "(cstring \<times> 'i) list \<Rightarrow> bool" where
  "entries_ok es \<longleftrightarrow> distinct (map fst es) \<and> list_all (\<lambda>(n, j). length n \<le> 255 \<and> \<not> self_or_parent n) es"

text \<open>The children \<open>es\<close> of a directory are the roots of disjoint trees with the nodes \<open>D\<close>.\<close>

inductive children :: "('i \<Rightarrow> 'i inode) \<Rightarrow> (cstring \<times> 'i) list \<Rightarrow> 'i set \<Rightarrow> bool" for d where
  no_child: "children d [] {}"
| file_child: "d j = Plain \<Longrightarrow> entries_ok ((n, j) # es) \<Longrightarrow> children d es D \<Longrightarrow> j \<notin> D \<Longrightarrow>
    children d ((n, j) # es) (insert j D)"
| dir_child: "d j = Folder es' \<Longrightarrow> entries_ok ((n, j) # es) \<Longrightarrow> children d es' D' \<Longrightarrow> children d es D \<Longrightarrow>
    j \<notin> D' \<Longrightarrow> j \<notin> D \<Longrightarrow> D' \<inter> D = {} \<Longrightarrow> children d ((n, j) # es) (insert j (D' \<union> D))"

text \<open>
  A listing names the children, in their order, among the entries for the directory and its parent, and says
  of each whether it is a directory.
\<close>

definition lists_children :: "('i \<Rightarrow> 'i inode) \<Rightarrow> (cstring \<times> 'i) list \<Rightarrow> DirEntryPlus3 list \<Rightarrow> bool" where
  "lists_children d es L \<longleftrightarrow>
     list_all2 (\<lambda>(n, j) e. dp_name e = n \<and>
         (dp_has_attrs e \<and> fa_type (dp_attrs e) = NF3DIR \<longleftrightarrow> (\<exists>es'. d j = Folder es')))
       es (filter (\<lambda>e. \<not> self_or_parent (dp_name e)) L)"

text \<open>The code's test for these two names.\<close>

lemma is_dot_iff: "is_dot n \<longleftrightarrow> self_or_parent n"
  by (simp add: is_dot_def self_or_parent_def bytes_of_def)

subsection \<open>The calls of the client\<close>

lemma name_call_ok:
  assumes "dir_ok dir" and "length n \<le> 255"
  shows "call3_ok (Lookup3 dir n)" "length (args3 (Lookup3 dir n)) < 2 ^ 30"
    "call3_ok (Remove3 dir n)" "length (args3 (Remove3 dir n)) < 2 ^ 30"
    "call3_ok (Rmdir3 dir n)" "length (args3 (Rmdir3 dir n)) < 2 ^ 30"
proof -
  have "length (wire_fh3 dir) \<le> 71" using assms(1) by (simp add: dir_ok_def wire_fh3_def length_wire_opaque xdr_pad_def)
  moreover have "length (wire_opaque n) \<le> 263" using assms(2) by (simp add: length_wire_opaque xdr_pad_def)
  ultimately show "call3_ok (Lookup3 dir n)" "length (args3 (Lookup3 dir n)) < 2 ^ 30"
    "call3_ok (Remove3 dir n)" "length (args3 (Remove3 dir n)) < 2 ^ 30"
    "call3_ok (Rmdir3 dir n)" "length (args3 (Rmdir3 dir n)) < 2 ^ 30"
    using assms by (simp_all add: dir_ok_wf name_ok_def encode_lookup_args_def encode_remove_args_def encode_rmdir_args_def put_simps)
qed

lemma entries_okD: "entries_ok es \<Longrightarrow> (n, j) \<in> set es \<Longrightarrow> length n \<le> 255"
  by (auto simp: entries_ok_def list_all_iff)

lemma entries_ok_tl: "entries_ok (x # es) \<Longrightarrow> entries_ok es"
  by (simp add: entries_ok_def)

lemma children_ok: "children d es D \<Longrightarrow> entries_ok es"
  by (induction rule: children.induct) (simp_all add: entries_ok_def)

text \<open>\<open>at_tree s d\<close>: a client of the server, whose disk is \<open>d\<close>.\<close>

definition at_tree :: "'w os \<Rightarrow> ('w, 'f) view \<Rightarrow> 'f server3 \<Rightarrow> ('f \<Rightarrow> 'i \<Rightarrow> 'i inode) \<Rightarrow> 'w nfs3_state \<Rightarrow> ('i \<Rightarrow> 'i inode) \<Rightarrow> bool" where
  "at_tree os v srv disk s d \<longleftrightarrow> conn3 os v srv s \<and> disk (vw_state v (snd s)) = d"

text \<open>What LOOKUP, READDIRPLUS, REMOVE and RMDIR do at such a server (RFC 1813, sections 3.3.3, 3.3.17, 3.3.12, 3.3.13).\<close>

locale tree_export =
  fixes srv :: "'f server3" and disk :: "'f \<Rightarrow> 'i \<Rightarrow> 'i inode" and fh_of :: "'i \<Rightarrow> Fh3"
  assumes handle: "dir_ok (fh_of i)"
    and listing_reads: "snd (srv (Readdirplus3 (fh_of i) cookie cv 4096 32768) f) = f"
    and listing: "disk f i = Folder es \<Longrightarrow> entries_ok es \<Longrightarrow> \<exists>L J. listsplus3 srv (fh_of i) 4096 32768 J \<and> J 0 cookieverf0 L f \<and>
      lists_children (disk f) es L"
    and lookup: "disk f i = Folder es \<Longrightarrow> entries_ok es \<Longrightarrow> (n, j) \<in> set es \<Longrightarrow>
      \<exists>a b. srv (Lookup3 (fh_of i) n) f = (Found3 (fh_of j) a b, f)"
    and remove: "disk f i = Folder es \<Longrightarrow> entries_ok es \<Longrightarrow> (n, j) \<in> set es \<Longrightarrow> disk f j = Plain \<Longrightarrow>
      \<exists>a w1 w2 f'. srv (Remove3 (fh_of i) n) f = (Done3 a w1 w2, f') \<and>
        disk f' = (disk f)(i := Folder (drop_name n es), j := Absent)"
    and rmdir: "disk f i = Folder es \<Longrightarrow> entries_ok es \<Longrightarrow> (n, j) \<in> set es \<Longrightarrow> disk f j = Folder [] \<Longrightarrow>
      \<exists>a w1 w2 f'. srv (Rmdir3 (fh_of i) n) f = (Done3 a w1 w2, f') \<and>
        disk f' = (disk f)(i := Folder (drop_name n es), j := Absent)"
begin

lemma tree_lookup:
  assumes at: "at_tree os v srv disk s d"
    and i: "d i = Folder es" "entries_ok es" and n: "(n, j) \<in> set es"
  shows "\<exists>s'. NFSClient_lookup os (fh_of i) n s = Some (Inr (fh_of j), s') \<and> at_tree os v srv disk s' d"
proof -
  obtain c w where s: "s = (c, w)" by (cases s)
  have conn: "conn3 os v srv (c, w)" and d: "disk (vw_state v w) = d" using at by (simp_all add: at_tree_def s)
  obtain a b where r: "srv (meaning3 (Lookup3 (fh_of i) n)) (vw_state v w) = (Found3 (fh_of j) a b, vw_state v w)"
    using lookup [of "vw_state v w" i es n j] i n d by (auto simp: meaning3_def)
  from run3_served [OF conn name_call_ok(1,2) [OF handle entries_okD [OF i(2) n]] r] handle [of j] obtain w'
    where *: "run3 os (Lookup3 (fh_of i) n) (c, w) = Some (Inr (Fh_v (fh_of j)), (next_call3 c, w'))"
      "conn3 os v srv (next_call3 c, w')" "vw_state v w' = vw_state v w"
    by (auto simp: fits3_def proc3_values outcome3_def dir_ok_wf)
  have "NFSClient_lookup os (fh_of i) n (c, w) = Some (Inr (fh_of j), (next_call3 c, w'))"
    by (rule run3_value [OF *(1), where V = Fh_v]) (simp_all add: fun_eq_iff)
  with * d show ?thesis by (auto simp: s at_tree_def)
qed

lemma tree_remove:
  assumes at: "at_tree os v srv disk s d"
    and i: "d i = Folder es" "entries_ok es" and n: "(n, j) \<in> set es" and j: "d j = Plain"
  shows "\<exists>s'. NFSClient_remove os (fh_of i) n s = Some (Inr (), s') \<and>
    at_tree os v srv disk s' (d(i := Folder (drop_name n es), j := Absent))"
proof -
  obtain c w where s: "s = (c, w)" by (cases s)
  have conn: "conn3 os v srv (c, w)" and d: "disk (vw_state v w) = d" using at by (simp_all add: at_tree_def s)
  obtain a w1 w2 f' where r: "srv (meaning3 (Remove3 (fh_of i) n)) (vw_state v w) = (Done3 a w1 w2, f')"
    and d': "disk f' = d(i := Folder (drop_name n es), j := Absent)"
    using remove [of "vw_state v w" i es n j] i n j d by (auto simp: meaning3_def)
  from run3_served [OF conn name_call_ok(3,4) [OF handle entries_okD [OF i(2) n]] r] obtain w'
    where *: "run3 os (Remove3 (fh_of i) n) (c, w) = Some (Inr Unit_v, (next_call3 c, w'))"
      "conn3 os v srv (next_call3 c, w')" "vw_state v w' = f'"
    by (auto simp: fits3_def proc3_values outcome3_def)
  have "NFSClient_remove os (fh_of i) n (c, w) = Some (Inr (), (next_call3 c, w'))"
    by (rule run3_value [OF *(1), where V = "\<lambda>_. Unit_v"]) (simp_all add: fun_eq_iff)
  with * d' show ?thesis by (auto simp: s at_tree_def)
qed

lemma tree_rmdir:
  assumes at: "at_tree os v srv disk s d"
    and i: "d i = Folder es" "entries_ok es" and n: "(n, j) \<in> set es" and j: "d j = Folder []"
  shows "\<exists>s'. NFSClient_rmdir os (fh_of i) n s = Some (Inr (), s') \<and>
    at_tree os v srv disk s' (d(i := Folder (drop_name n es), j := Absent))"
proof -
  obtain c w where s: "s = (c, w)" by (cases s)
  have conn: "conn3 os v srv (c, w)" and d: "disk (vw_state v w) = d" using at by (simp_all add: at_tree_def s)
  obtain a w1 w2 f' where r: "srv (meaning3 (Rmdir3 (fh_of i) n)) (vw_state v w) = (Done3 a w1 w2, f')"
    and d': "disk f' = d(i := Folder (drop_name n es), j := Absent)"
    using rmdir [of "vw_state v w" i es n j] i n j d by (auto simp: meaning3_def)
  from run3_served [OF conn name_call_ok(5,6) [OF handle entries_okD [OF i(2) n]] r] obtain w'
    where *: "run3 os (Rmdir3 (fh_of i) n) (c, w) = Some (Inr Unit_v, (next_call3 c, w'))"
      "conn3 os v srv (next_call3 c, w')" "vw_state v w' = f'"
    by (auto simp: fits3_def proc3_values outcome3_def)
  have "NFSClient_rmdir os (fh_of i) n (c, w) = Some (Inr (), (next_call3 c, w'))"
    by (rule run3_value [OF *(1), where V = "\<lambda>_. Unit_v"]) (simp_all add: fun_eq_iff)
  with * d' show ?thesis by (auto simp: s at_tree_def)
qed

lemma tree_list:
  assumes at: "at_tree os v srv disk s d" and i: "d i = Folder es" "entries_ok es"
  shows "\<exists>L s'. NFSClient_readdirplus os (fh_of i) 4096 32768 s = Some (Inr L, s') \<and> at_tree os v srv disk s' d \<and>
    lists_children d es L"
proof -
  obtain c w where s: "s = (c, w)" by (cases s)
  have conn: "conn3 os v srv (c, w)" and d: "disk (vw_state v w) = d" using at by (simp_all add: at_tree_def s)
  obtain L J where "listsplus3 srv (fh_of i) 4096 32768 J" and "J 0 cookieverf0 L (vw_state v w)"
    and L: "lists_children d es L"
    using listing [of "vw_state v w" i es] i d by blast
  from readdirplus_served_in [OF conn this(1) handle this(2) listing_reads] L d show ?thesis by (auto simp: s at_tree_def)
qed

end

lemma clear_entries_Nil: "clear_entries os dir [] s = Some (Inr (), s)"
  by (subst clear_entries.simps) (simp add: io_return_def)

lemma clear_entries_Cons: "clear_entries os dir (e # rest) s =
   (if self_or_parent (dp_name e) then clear_entries os dir rest s
    else if dp_has_attrs e \<and> fa_type (dp_attrs e) = NF3DIR then
      io_bind (NFSClient_lookup os dir (dp_name e)) (\<lambda>dir_fh.
      io_bind (NFSClient_readdirplus os dir_fh 4096 32768) (\<lambda>entries'.
      io_bind (clear_entries os dir_fh entries') (\<lambda>_.
      io_bind (NFSClient_rmdir os dir (dp_name e)) (\<lambda>_.
      clear_entries os dir rest)))) s
    else io_bind (NFSClient_remove os dir (dp_name e)) (\<lambda>_. clear_entries os dir rest) s)"
  by (subst clear_entries.simps) (simp add: is_dot_iff)

lemma clear_entries_dots:
  "list_all (\<lambda>e. self_or_parent (dp_name e)) ds \<Longrightarrow> clear_entries os dir (ds @ L) s = clear_entries os dir L s"
  by (induction ds) (auto simp: clear_entries_Cons)

lemma lists_children_Cons:
  assumes "lists_children d ((n, j) # es) L"
  obtains ds e L' where "L = ds @ e # L'" "list_all (\<lambda>e. self_or_parent (dp_name e)) ds" "dp_name e = n" "\<not> self_or_parent n"
    "dp_has_attrs e \<and> fa_type (dp_attrs e) = NF3DIR \<longleftrightarrow> (\<exists>es'. d j = Folder es')" "lists_children d es L'"
proof -
  obtain e F where F: "filter (\<lambda>e. \<not> self_or_parent (dp_name e)) L = e # F" and e: "dp_name e = n"
      "dp_has_attrs e \<and> fa_type (dp_attrs e) = NF3DIR \<longleftrightarrow> (\<exists>es'. d j = Folder es')"
    and rest: "list_all2 (\<lambda>(n, j) e. dp_name e = n \<and>
         (dp_has_attrs e \<and> fa_type (dp_attrs e) = NF3DIR \<longleftrightarrow> (\<exists>es'. d j = Folder es'))) es F"
    using assms unfolding lists_children_def by (auto simp: list_all2_Cons1)
  obtain ds L' where L: "L = ds @ e # L'" "\<forall>u \<in> set ds. \<not> \<not> self_or_parent (dp_name u)" "\<not> self_or_parent (dp_name e)"
      "F = filter (\<lambda>e. \<not> self_or_parent (dp_name e)) L'"
    using F unfolding filter_eq_Cons_iff by blast
  with e rest show thesis by (intro that [of ds e L']) (auto simp: lists_children_def list_all_iff)
qed

lemma lists_children_Nil: "lists_children d [] L \<Longrightarrow> list_all (\<lambda>e. self_or_parent (dp_name e)) L"
  by (auto simp: lists_children_def filter_empty_conv list_all_iff)

lemma lists_children_cong:
  "lists_children d es L \<Longrightarrow> (\<And>n j. (n, j) \<in> set es \<Longrightarrow> d' j = d j) \<Longrightarrow> lists_children d' es L"
  unfolding lists_children_def by (erule list.rel_mono_strong) auto

lemma children_nodes: "children d es D \<Longrightarrow> (n, j) \<in> set es \<Longrightarrow> j \<in> D"
  by (induction rule: children.induct) auto

lemma drop_name_head: "entries_ok ((n, j) # es) \<Longrightarrow> drop_name n ((n, j) # es) = es"
  by (auto simp: drop_name_def filter_id_conv image_iff entries_ok_def)

text \<open>What is left when the trees of \<open>D\<close> below \<open>i\<close> are gone.\<close>

definition cleared :: "'i \<Rightarrow> 'i set \<Rightarrow> ('i \<Rightarrow> 'i inode) \<Rightarrow> 'i \<Rightarrow> 'i inode" where
  "cleared i D d = (\<lambda>k. if k = i then Folder [] else if k \<in> D then Absent else d k)"

context tree_export
begin

lemma clear_entries_clears:
  assumes "children d es D"
  shows "\<forall>i d' L s. (\<forall>k \<in> D. d' k = d k) \<longrightarrow> d' i = Folder es \<longrightarrow> i \<notin> D \<longrightarrow> at_tree os v srv disk s d' \<longrightarrow>
    lists_children d' es L \<longrightarrow>
    (\<exists>s'. clear_entries os (fh_of i) L s = Some (Inr (), s') \<and> at_tree os v srv disk s' (cleared i D d'))"
  using assms
proof (induction rule: children.induct)
  case no_child
  show ?case
  proof (intro allI impI)
    fix i d' L s assume at: "at_tree os v srv disk s d'" and i: "d' i = Folder []" and L: "lists_children d' [] L"
    have "clear_entries os (fh_of i) L s = Some (Inr (), s)"
      using clear_entries_dots [OF lists_children_Nil [OF L], of os "fh_of i" "[]" s]
      by (simp add: clear_entries_Nil)
    moreover have "cleared i {} d' = d'" using i by (auto simp: cleared_def)
    ultimately show "\<exists>s'. clear_entries os (fh_of i) L s = Some (Inr (), s') \<and> at_tree os v srv disk s' (cleared i {} d')"
      using at by simp
  qed
next
  case (file_child j n es D)
  show ?case
  proof (intro allI impI)
    fix i d' L s
    assume same: "\<forall>k \<in> insert j D. d' k = d k" and i: "d' i = Folder ((n, j) # es)" and new: "i \<notin> insert j D"
      and at: "at_tree os v srv disk s d'" and L: "lists_children d' ((n, j) # es) L"
    obtain ds e L' where L: "L = ds @ e # L'" "list_all (\<lambda>e. self_or_parent (dp_name e)) ds" "dp_name e = n" "\<not> self_or_parent n"
        "dp_has_attrs e \<and> fa_type (dp_attrs e) = NF3DIR \<longleftrightarrow> (\<exists>es'. d' j = Folder es')" "lists_children d' es L'"
      by (rule lists_children_Cons [OF L])
    let ?d1 = "d'(i := Folder (drop_name n ((n, j) # es)), j := Absent)"
    have j: "d' j = Plain" using same file_child.hyps by simp
    obtain s1 where rm: "NFSClient_remove os (fh_of i) n s = Some (Inr (), s1)" and at1: "at_tree os v srv disk s1 ?d1"
      using tree_remove [OF at i file_child.hyps(2) list.set_intros(1) j] by blast
    have "?d1 i = Folder es" using new drop_name_head [OF file_child.hyps(2)] by auto
    moreover have "\<forall>k \<in> D. ?d1 k = d k" using same new file_child.hyps by auto
    moreover have "lists_children ?d1 es L'"
      by (rule lists_children_cong [OF L(6)]) (use children_nodes [OF file_child.hyps(3)] new file_child.hyps(4) in auto)
    ultimately obtain s2 where rest: "clear_entries os (fh_of i) L' s1 = Some (Inr (), s2)"
      and at2: "at_tree os v srv disk s2 (cleared i D ?d1)"
      using file_child.IH new at1 by blast
    have "clear_entries os (fh_of i) L s = Some (Inr (), s2)"
      unfolding L(1) clear_entries_dots [OF L(2)] clear_entries_Cons using L(3-5) j rm rest by (auto simp: io_bind_def)
    moreover have "cleared i D ?d1 = cleared i (insert j D) d'" by (auto simp: cleared_def)
    ultimately show "\<exists>s'. clear_entries os (fh_of i) L s = Some (Inr (), s') \<and>
        at_tree os v srv disk s' (cleared i (insert j D) d')" using at2 by auto
  qed
next
  case (dir_child j es' n es D' D)
  show ?case
  proof (intro allI impI)
    fix i d' L s
    assume same: "\<forall>k \<in> insert j (D' \<union> D). d' k = d k" and i: "d' i = Folder ((n, j) # es)" and new: "i \<notin> insert j (D' \<union> D)"
      and at: "at_tree os v srv disk s d'" and L: "lists_children d' ((n, j) # es) L"
    obtain ds e L' where L: "L = ds @ e # L'" "list_all (\<lambda>e. self_or_parent (dp_name e)) ds" "dp_name e = n" "\<not> self_or_parent n"
        "dp_has_attrs e \<and> fa_type (dp_attrs e) = NF3DIR \<longleftrightarrow> (\<exists>es'. d' j = Folder es')" "lists_children d' es L'"
      by (rule lists_children_Cons [OF L])
    have j: "d' j = Folder es'" using same dir_child.hyps by simp
    obtain s1 where lu: "NFSClient_lookup os (fh_of i) n s = Some (Inr (fh_of j), s1)" and at1: "at_tree os v srv disk s1 d'"
      using tree_lookup [OF at i dir_child.hyps(2) list.set_intros(1)] by blast
    obtain M s2 where ls: "NFSClient_readdirplus os (fh_of j) 4096 32768 s1 = Some (Inr M, s2)"
      and at2: "at_tree os v srv disk s2 d'" and M: "lists_children d' es' M"
      using tree_list [OF at1 j children_ok [OF dir_child.hyps(3)]] by blast
    have "\<forall>k \<in> D'. d' k = d k" using same by simp
    then obtain s3 where cl: "clear_entries os (fh_of j) M s2 = Some (Inr (), s3)"
      and at3: "at_tree os v srv disk s3 (cleared j D' d')"
      using dir_child.IH(1) j dir_child.hyps(5) at2 M by blast
    let ?d3 = "cleared j D' d'"
    have i3: "?d3 i = Folder ((n, j) # es)" and j3: "?d3 j = Folder []" using i new by (auto simp: cleared_def)
    let ?d4 = "?d3(i := Folder (drop_name n ((n, j) # es)), j := Absent)"
    obtain s4 where rd: "NFSClient_rmdir os (fh_of i) n s3 = Some (Inr (), s4)" and at4: "at_tree os v srv disk s4 ?d4"
      using tree_rmdir [OF at3 i3 dir_child.hyps(2) list.set_intros(1) j3] by blast
    have i4: "?d4 i = Folder es" using new drop_name_head [OF dir_child.hyps(2)] by auto
    have out: "k \<notin> D' \<and> k \<noteq> j \<and> k \<noteq> i" if "k \<in> D" for k using that dir_child.hyps new by auto
    then have same4: "\<forall>k \<in> D. ?d4 k = d k" using same by (auto simp: cleared_def)
    have "lists_children ?d4 es L'"
      by (rule lists_children_cong [OF L(6)]) (use children_nodes [OF dir_child.hyps(4)] out in \<open>auto simp: cleared_def\<close>)
    with i4 same4 obtain s5 where rest: "clear_entries os (fh_of i) L' s4 = Some (Inr (), s5)"
      and at5: "at_tree os v srv disk s5 (cleared i D ?d4)"
      using dir_child.IH(2) new at4 by blast
    have "clear_entries os (fh_of i) L s = Some (Inr (), s5)"
      unfolding L(1) clear_entries_dots [OF L(2)] clear_entries_Cons using L(3-5) j lu ls cl rd rest
      by (simp add: io_bind_def)
    moreover have "cleared i D ?d4 = cleared i (insert j (D' \<union> D)) d'" by (auto simp: cleared_def)
    ultimately show "\<exists>s'. clear_entries os (fh_of i) L s = Some (Inr (), s') \<and>
        at_tree os v srv disk s' (cleared i (insert j (D' \<union> D)) d')" using at5 by auto
  qed
qed

lemma rmdir_recursive_clears:
  assumes at: "at_tree os v srv disk s d" and p: "d p = Folder ps" and ps: "entries_ok ps" and n: "(n, i) \<in> set ps"
    and i: "d i = Folder es" and tree: "children d es D" and out: "i \<notin> D" "p \<notin> insert i D"
  shows "\<exists>s'. rmdir_recursive os (fh_of p) n s = Some (Inr (), s') \<and>
    at_tree os v srv disk s' (\<lambda>k. if k = p then Folder (drop_name n ps) else if k \<in> insert i D then Absent else d k)"
proof -
  obtain s1 where lu: "NFSClient_lookup os (fh_of p) n s = Some (Inr (fh_of i), s1)" and at1: "at_tree os v srv disk s1 d"
    using tree_lookup [OF at p ps n] by blast
  obtain L s2 where ls: "NFSClient_readdirplus os (fh_of i) 4096 32768 s1 = Some (Inr L, s2)"
    and at2: "at_tree os v srv disk s2 d" and L: "lists_children d es L"
    using tree_list [OF at1 i children_ok [OF tree]] by blast
  obtain s3 where cl: "clear_entries os (fh_of i) L s2 = Some (Inr (), s3)" and at3: "at_tree os v srv disk s3 (cleared i D d)"
    using clear_entries_clears [OF tree] i out(1) at2 L by blast
  have p3: "cleared i D d p = Folder ps" and i3: "cleared i D d i = Folder []" using p out by (auto simp: cleared_def)
  obtain s4 where rd: "NFSClient_rmdir os (fh_of p) n s3 = Some (Inr (), s4)"
    and at4: "at_tree os v srv disk s4 ((cleared i D d)(p := Folder (drop_name n ps), i := Absent))"
    using tree_rmdir [OF at3 p3 ps n i3] by blast
  have "(cleared i D d)(p := Folder (drop_name n ps), i := Absent) =
      (\<lambda>k. if k = p then Folder (drop_name n ps) else if k \<in> insert i D then Absent else d k)"
    using out by (auto simp: cleared_def)
  with at4 lu ls cl rd show ?thesis by (auto simp: rmdir_recursive_def clear_dir_def io_bind_def)
qed

end

subsection \<open>A server of that kind\<close>

text \<open>Its handles are the numbers of its nodes; a listing is one page.\<close>

type_synonym small_disk = "byte \<Rightarrow> byte inode"

definition node_fh :: "byte \<Rightarrow> Fh3" where
  "node_fh i = \<lparr>fh3_data = [i]\<rparr>"

definition node_of :: "Fh3 \<Rightarrow> byte" where
  "node_of fh = hd (fh3_data fh)"

fun folder_entries :: "byte inode \<Rightarrow> (cstring \<times> byte) list" where
  "folder_entries (Folder es) = es"
| "folder_entries _ = []"

fun is_folder :: "'i inode \<Rightarrow> bool" where
  "is_folder (Folder es) = True"
| "is_folder _ = False"

definition tree_entry :: "small_disk \<Rightarrow> cstring \<times> byte \<Rightarrow> DirEntryPlus3" where
  "tree_entry d = (\<lambda>(n, j).
     \<lparr>dp_fileid = ucast j, dp_name = n, dp_cookie = ucast j, dp_has_attrs = True,
      dp_attrs = Fattr3_zero\<lparr>fa_type := (if is_folder (d j) then NF3DIR else NF3REG)\<rparr>, dp_has_fh = True,
      dp_fh = node_fh j\<rparr>)"

definition no_entry :: resp3 where
  "no_entry = Fail3 (Nfsstat3_value NFS3ERR_NOENT) None (None, None) (None, None)"

fun tree_server :: "small_disk server3" where
  "tree_server (Lookup3 dir n) d =
     (case map_of (folder_entries (d (node_of dir))) n of
        Some j \<Rightarrow> (Found3 (node_fh j) None None, d) | None \<Rightarrow> (no_entry, d))"
| "tree_server (Readdirplus3 dir cookie cv dc mc) d =
     (Pageplus3 None \<lparr>rpp_entries = dot_entries @ map (tree_entry d) (folder_entries (d (node_of dir))), rpp_eof = True,
        rpp_cookieverf = replicate 8 5\<rparr>, d)"
| "tree_server (Remove3 dir n) d =
     (case map_of (folder_entries (d (node_of dir))) n of
        Some j \<Rightarrow> (Done3 None (None, None) (None, None),
          d(node_of dir := Folder (drop_name n (folder_entries (d (node_of dir)))), j := Absent))
      | None \<Rightarrow> (no_entry, d))"
| "tree_server (Rmdir3 dir n) d =
     (case map_of (folder_entries (d (node_of dir))) n of
        Some j \<Rightarrow> (Done3 None (None, None) (None, None),
          d(node_of dir := Folder (drop_name n (folder_entries (d (node_of dir)))), j := Absent))
      | None \<Rightarrow> (no_entry, d))"
| "tree_server (Mkdir3 dir n sattr) d =
     (Made3 (Some (node_fh 9)) None (None, None),
      d(node_of dir := Folder (folder_entries (d (node_of dir)) @ [(n, 9)]), 9 := Folder []))"
| "tree_server req d = (no_entry, d)"

definition todo_page :: "small_disk \<Rightarrow> DirEntryPlus3 list \<Rightarrow> u64 \<Rightarrow> byte list \<Rightarrow> DirEntryPlus3 list \<Rightarrow> small_disk \<Rightarrow> bool" where
  "todo_page d L cookie cv todo f \<longleftrightarrow> length cv = 8 \<and> todo = L \<and> f = d"

lemma node_of_fh [simp]: "node_of (node_fh i) = i"
  by (simp add: node_of_def node_fh_def)

lemma entries_ok_map_of: "entries_ok es \<Longrightarrow> (n, j) \<in> set es \<Longrightarrow> map_of es n = Some j"
  by (simp add: entries_ok_def)

interpretation tree: tree_export tree_server "\<lambda>d. d" node_fh
proof
  fix i j :: byte and es n and f :: small_disk and cookie cv
  show "dir_ok (node_fh i)" by (simp add: dir_ok_def node_fh_def)
  show "snd (tree_server (Readdirplus3 (node_fh i) cookie cv 4096 32768) f) = f" by simp
  assume i: "f i = Folder es" and es: "entries_ok es"
  let ?L = "dot_entries @ map (tree_entry f) es"
  have "fits3 NFSPROC3_READDIRPLUS (Pageplus3 None \<lparr>rpp_entries = ?L, rpp_eof = True, rpp_cookieverf = replicate 8 5\<rparr>)"
    using es by (auto simp: fits3_def proc3_values entryplus3_ok_def dot_entries_def dot_entry_def tree_entry_def bytes_of_def node_fh_def
        fh3_wf_def entries_ok_def list_all_iff)
  then have "listsplus3 tree_server (node_fh i) 4096 32768 (todo_page f ?L)"
    using i by (auto simp: listsplus3_def todo_page_def)
  moreover have "lists_children f es ?L"
  proof -
    note dot_entries_ok(3)
    moreover have "filter (\<lambda>e. \<not> self_or_parent (dp_name e)) (map (tree_entry f) es) = map (tree_entry f) es"
      using es by (auto simp: filter_id_conv entries_ok_def list_all_iff tree_entry_def)
    moreover have "list_all2 (\<lambda>(n, j) e. dp_name e = n \<and>
         (dp_has_attrs e \<and> fa_type (dp_attrs e) = NF3DIR \<longleftrightarrow> (\<exists>es'. f j = Folder es'))) es (map (tree_entry f) es)"
    proof -
      have "is_folder (f j) \<longleftrightarrow> (\<exists>es'. f j = Folder es')" for j by (cases "f j") simp_all
      then show ?thesis by (auto simp: list.rel_map tree_entry_def NF3DIR_def NF3REG_def intro!: list.rel_refl split: if_splits)
    qed
    ultimately show ?thesis by (simp add: lists_children_def)
  qed
  ultimately show "\<exists>L J. listsplus3 tree_server (node_fh i) 4096 32768 J \<and> J 0 cookieverf0 L f \<and> lists_children f es L"
    by (intro exI [of _ ?L] exI [of _ "todo_page f ?L"]) (simp add: todo_page_def cookieverf0_def COOKIEVERF_SIZE_def)
  assume n: "(n, j) \<in> set es"
  show "\<exists>a b. tree_server (Lookup3 (node_fh i) n) f = (Found3 (node_fh j) a b, f)"
    "\<exists>a w1 w2 f'. tree_server (Remove3 (node_fh i) n) f = (Done3 a w1 w2, f') \<and>
      f' = f(i := Folder (drop_name n es), j := Absent)"
    "\<exists>a w1 w2 f'. tree_server (Rmdir3 (node_fh i) n) f = (Done3 a w1 w2, f') \<and>
      f' = f(i := Folder (drop_name n es), j := Absent)"
    using i entries_ok_map_of [OF es n] by simp_all
qed

subsection \<open>Properties\<close>

text \<open>C29: \<open>rmdir_recursive\<close> removes a directory with everything below it, however deep, and nothing else, and goes neither
  into the directory's entry for itself (".") nor into that for its parent (".."), which the server may list among the
  others: against a server with a tree of files whose READDIRPLUS returns the attributes of every directory that it
  lists (they are optional in RFC 1813; the code takes an entry without them for a file), it returns, the directory's
  name is gone from its parent, the nodes of the tree are gone, and every other node is what it was.\<close>

theorem rmdir_recursive_removes_tree:
  assumes "tree_export srv disk fh_of" and "conn3 os v srv (c, w)" and "disk (vw_state v w) p = Folder ps"
    and "entries_ok ps" and "(n, i) \<in> set ps" and "disk (vw_state v w) i = Folder es"
    and "children (disk (vw_state v w)) es D" and "i \<notin> D" and "p \<notin> insert i D"
  shows "\<exists>c' w'. rmdir_recursive os (fh_of p) n (c, w) = Some (Inr (), (c', w')) \<and> conn3 os v srv (c', w') \<and>
    disk (vw_state v w') =
      (\<lambda>k. if k = p then Folder (drop_name n ps) else if k \<in> insert i D then Absent else disk (vw_state v w) k)"
  using tree_export.rmdir_recursive_clears [OF assms(1), of os v "(c, w)" "disk (vw_state v w)"] assms(2-9)
  by (auto simp: at_tree_def)

definition disk0 :: small_disk where
  "disk0 = (\<lambda>_. Absent)(1 := Folder [([97], 2), ([98], 3)], 2 := Folder [([99], 4), ([100], 5)], 3 := Plain, 4 := Plain,
     5 := Folder [])"

lemma disk0_children: "children disk0 [([99], 4), ([100], 5)] {4, 5}"
proof -
  have "children disk0 [([100], 5)] (insert 5 ({} \<union> {}))"
    by (rule dir_child [where es' = "[]"]) (auto intro: no_child simp: disk0_def entries_ok_def self_or_parent_def bytes_of_def)
  then have "children disk0 [([99], 4), ([100], 5)] (insert 4 (insert 5 ({} \<union> {})))"
    by (rule file_child [rotated 2]) (auto simp: disk0_def entries_ok_def self_or_parent_def bytes_of_def)
  then show ?thesis by simp
qed

lemma rmdir_recursive_removes_tree_witness:
  "\<exists>c' w'. rmdir_recursive (sim_os 2 (rpc_server (nfs3_handler tree_server))) (node_fh 1) [97] (client0, sim_start disk0) =
     Some (Inr (), (c', w')) \<and> vw_state sim_view w' = (\<lambda>_. Absent)(1 := Folder [([98], 3)], 3 := Plain)"
proof -
  let ?gone = "\<lambda>k. if k = 1 then Folder (drop_name [97] [([97], 2), ([98], 3)]) else if k \<in> {2, 4, 5} then Absent else disk0 k"
  have st: "vw_state sim_view (sim_start disk0) = disk0" by (simp add: sim_view_start)
  have d: "disk0 1 = Folder [([97], 2), ([98], 3)]" "disk0 2 = Folder [([99], 4), ([100], 5)]" by (simp_all add: disk0_def)
  have ok: "entries_ok [([97], 2), ([98] :: cstring, 3 :: byte)]" by (simp add: entries_ok_def self_or_parent_def bytes_of_def)
  have "?gone = (\<lambda>_. Absent)(1 := Folder [([98], 3)], 3 := Plain)" by (auto simp: disk0_def drop_name_def fun_eq_iff)
  with rmdir_recursive_removes_tree [OF tree.tree_export_axioms client0_conn [of tree_server disk0], unfolded st, OF d(1) ok _ d(2)
      disk0_children] show ?thesis by fastforce
qed

text \<open>C30: Once its scratch directory exists, \<open>bench\<close> takes it away again: if setup, threads and teardown end (normally or
  by an exception), the connection to the server is still up when they have, and what they have left in the directory
  is a tree, then against a server as in C29 the program returns 0 or 1, 1 exactly when there was an exception, and the
  export is as without the directory.\<close>

theorem bench_leaves_nothing:
  assumes "tree_export srv disk fh_of"
    and "NFSClient_mount os (bytes_of (cfg_export_path cfg)) s = Some (Inr (fh_of p), s1)"
    and "NFSClient_mkdir os (fh_of p) (workdir_name pid) Sattr3_default s1 = Some (Inr workdir_fh, s2)"
    and "run_phases wl cfg run workdir_fh s2 = Some (r, (c, w))" and "conn3 os v srv (c, w)"
    and "disk (vw_state v w) p = Folder ps" and "entries_ok ps" and "(workdir_name pid, i) \<in> set ps"
    and "disk (vw_state v w) i = Folder es" and "children (disk (vw_state v w)) es D" and "i \<notin> D" and "p \<notin> insert i D"
  shows "\<exists>c' w'. bench_session os wl cfg run pid s = Some (Inr (if r = Inr () then 0 else 1), (c', w')) \<and>
    disk (vw_state v w') =
      (\<lambda>k. if k = p then Folder (drop_name (workdir_name pid) ps) else if k \<in> insert i D then Absent
           else disk (vw_state v w) k)"
proof -
  obtain s' where rm: "rmdir_recursive os (fh_of p) (workdir_name pid) (c, w) = Some (Inr (), s')"
    and at: "at_tree os v srv disk s' (\<lambda>k. if k = p then Folder (drop_name (workdir_name pid) ps)
      else if k \<in> insert i D then Absent else disk (vw_state v w) k)"
    using tree_export.rmdir_recursive_clears [OF assms(1) _ assms(6-12), of os v "(c, w)"] assms(5)
    by (auto simp: at_tree_def)
  have "bench_session os wl cfg run pid s = Some (Inr (if r = Inr () then 0 else 1), s')"
    using assms(2-4) rm by (cases r) (simp_all add: bench_session_def io_bind_def io_try_def io_return_def Let_def)
  with at show ?thesis by (cases s') (simp add: at_tree_def)
qed

text \<open>A run of the metadata workload in which nothing is left over, on an export with one file.\<close>

definition mount_tree :: "small_disk mount_server" where
  "mount_tree =
     \<lparr>ms_port = host_ports, ms_mnt = (\<lambda>path d. (Inr (node_fh 1, [1]), d)), ms_umnt = (\<lambda>path d. d),
      ms_exports = (\<lambda>d. [])\<rparr>"

definition disk1 :: small_disk where
  "disk1 = (\<lambda>_. Absent)(1 := Folder [([98], 3)], 3 := Plain)"

definition no_result :: RunResult where
  "no_result = \<lparr>rr_total_ops = 0, rr_total_bytes = 0, rr_elapsed_ns = 0, rr_lat = fst (Reservoir_compute Reservoir_new)\<rparr>"

lemma bench_leaves_nothing_witness:
  "\<exists>c' w'. bench_session (sim_host 2 (listeners3 mount_tree tree_server))
      (make_workload_meta (sim_host 2 (listeners3 mount_tree tree_server)) bench_env0) bench_example
      (\<lambda>fh. io_return no_result) 7 (client0, sim_start disk1) = Some (Inr 0, (c', w')) \<and> vw_state sim_view w' = disk1"
proof -
  let ?net = "listeners3 mount_tree tree_server"
  let ?os = "sim_host 2 ?net" and ?n = "workdir_name 7"
  have n: "length ?n \<le> 255" "\<not> self_or_parent ?n"
    by (simp_all add: workdir_name_def bytes_of_def to_string.simps self_or_parent_def)
  have up: "host_up ?os sim_view ?net ''server''" by (rule sim_host_up) simp_all
  have ports: "ms_port mount_tree = host_ports" by (simp add: mount_tree_def)
  have path: "path_ok (bytes_of (cfg_export_path bench_example))"
    by (simp add: path_ok_def bench_example_def BenchConfig_default_def bytes_of_def)
  obtain w1 where m: "mnt ?os ''server'' (bytes_of (cfg_export_path bench_example)) (sim_start disk1) = Some (Inr (node_fh 1), w1)"
    and k1: "vw_conn sim_view w1 = vw_conn sim_view (sim_start disk1)" and st1: "vw_state sim_view w1 = disk1"
    using mnt_served [OF up listeners3_serve(1) [OF ports] path listeners3_serve(2) [OF ports], of "sim_start disk1" "Inr (node_fh 1, [1])" disk1]
    by (auto simp: mount_tree_def mount_result_ok_def fh3_wf_def node_fh_def sim_view_start)
  have mounted: "NFSClient_mount ?os (bytes_of (cfg_export_path bench_example)) (client0, sim_start disk1) =
      Some (Inr (node_fh 1), (client0, w1))"
    using m by (simp add: NFSClient_mount_def on_host_def client0_def)
  have "conn3 ?os sim_view tree_server (client0, sim_start disk1)"
    using listeners3_conn [of mount_tree tree_server disk1] serves3_itself by (auto simp: conn3_def client0_def)
  then have conn1: "conn3 ?os sim_view tree_server (client0, w1)" by (rule conn3_kept [OF _ k1])
  let ?d2 = "disk1(1 := Folder [([98], 3), (?n, 9)], 9 := Folder [])" and ?req = "Mkdir3 (node_fh 1) ?n Sattr3_default"
  have "length (wire_opaque ?n) \<le> 263" using n by (simp add: length_wire_opaque xdr_pad_def)
  then have ok: "call3_ok ?req" "length (args3 ?req) < 2 ^ 30"
    using n by (simp_all add: node_fh_def fh3_wf_def name_ok_def encode_mkdir_args_def encode_sattr3_def Sattr3_default_def
        put_simps wire_fh3_def length_wire_opaque xdr_pad_def)
  have "tree_server (meaning3 ?req) (vw_state sim_view w1) = (Made3 (Some (node_fh 9)) None (None, None), ?d2)"
    by (simp add: meaning3_def st1 disk1_def)
  moreover have "fits3 (proc3 ?req) (Made3 (Some (node_fh 9)) None (None, None))"
    by (simp add: fits3_def proc3_values node_fh_def fh3_wf_def)
  moreover have "outcome3 (proc3 ?req) (Made3 (Some (node_fh 9)) None (None, None)) = Inr (Fh_v (node_fh 9))"
    by (simp add: outcome3_def)
  ultimately obtain w2 where
    r: "run3 ?os ?req (client0, w1) = Some (Inr (Fh_v (node_fh 9)), (next_call3 client0, w2))"
    and conn2: "conn3 ?os sim_view tree_server (next_call3 client0, w2)" and st2: "vw_state sim_view w2 = ?d2"
    using run3_served [OF conn1 ok] by metis
  have made: "NFSClient_mkdir ?os (node_fh 1) ?n Sattr3_default (client0, w1) = Some (Inr (node_fh 9), (next_call3 client0, w2))"
    by (rule run3_value [OF r, where V = Fh_v]) (simp_all add: fun_eq_iff)
  have phases: "run_phases (make_workload_meta ?os bench_env0) bench_example (\<lambda>fh. io_return no_result) (node_fh 9)
      (next_call3 client0, w2) = Some (Inr (), (next_call3 client0, w2))"
    by (simp add: run_phases_def make_workload_meta_def eff_simps on_host_def)
  have tree: "vw_state sim_view w2 1 = Folder [([98], 3), (?n, 9)]" "entries_ok [([98], 3), (?n, 9 :: byte)]"
      "(?n, 9) \<in> set [([98], 3), (?n, 9 :: byte)]" "vw_state sim_view w2 9 = Folder []"
      "children (vw_state sim_view w2) [] {}" "9 \<notin> ({} :: byte set)" "(1 :: byte) \<notin> insert 9 {}"
    using n by (auto simp: st2 entries_ok_def self_or_parent_def bytes_of_def workdir_name_def intro: no_child)
  have "(\<lambda>k. if k = 1 then Folder (drop_name ?n [([98], 3), (?n, 9)]) else if k \<in> insert 9 {} then Absent
      else vw_state sim_view w2 k) = disk1"
    using tree(2) by (auto simp: st2 disk1_def drop_name_def entries_ok_def fun_eq_iff)
  with bench_leaves_nothing [where disk = "\<lambda>d. d" and fh_of = node_fh and v = sim_view, OF tree.tree_export_axioms mounted made phases conn2 tree] show ?thesis by simp
qed

end
