(* ===== verification/Bench_Report.thy ===== *)
theory Bench_Report
  imports Bench_Main
begin

text \<open>
  What \<open>tools/bench/main.cpp\<close> prints: sizes and times for a person, the table of a result, the row of the CSV file. Doubles
  are those of theory \<open>Bench_Stats\<close> in units of \<open>2 ^ -128\<close>; \<open>printf\<close> and \<open>operator<<\<close> convert their exact values.
\<close>

subsection \<open>Doubles and their digits\<close>

definition unit :: nat where "unit = 2 ^ 128"

definition of_u64 :: "u64 \<Rightarrow> nat" where
  "of_u64 n = to_double (unat n) * unit"

text \<open>The quotient of two doubles; the last bit before rounding stands for all the bits that follow.\<close>

definition div_double :: "nat \<Rightarrow> nat \<Rightarrow> nat" where
  "div_double a b = to_double (2 * (a * unit div b) + of_bool (a * unit mod b \<noteq> 0)) div 2"

text \<open>To the nearest, on a tie to the even one.\<close>

definition round_div :: "nat \<Rightarrow> nat \<Rightarrow> nat" where
  "round_div n d = (let q = n div d; r = n mod d in if 2 * r < d \<or> 2 * r = d \<and> even q then q else q + 1)"

definition padded :: "nat \<Rightarrow> nat \<Rightarrow> string" where
  "padded k n = (let s = to_string n in replicate (k - length s) (CHR ''0'') @ s)"

text \<open>\<open>%.<k>f\<close>\<close>

definition decimals :: "nat \<Rightarrow> nat \<Rightarrow> string" where
  "decimals k n = to_string (n div 10 ^ k) @ (if k = 0 then [] else ''.'' @ padded k (n mod 10 ^ k))"

definition printf_f :: "nat \<Rightarrow> nat \<Rightarrow> string" where
  "printf_f k x = decimals k (round_div (10 ^ k * x) unit)"

text \<open>
  \<open>operator<<\<close> on a double: six significant digits (\<open>%g\<close>), in the notation with an exponent below \<open>10 ^ -4\<close> and from \<open>10 ^ 6\<close>
  on, without the zeros at the end.
\<close>

function small_exponent :: "nat \<Rightarrow> nat \<Rightarrow> nat" where
  "small_exponent n d = (if n = 0 \<or> d \<le> n then 0 else Suc (small_exponent (10 * n) d))"
  by auto
termination by (relation "measure (\<lambda>(n, d). d - n)") auto

declare small_exponent.simps [simp del]

definition exponent :: "nat \<Rightarrow> int" where
  "exponent x = (if unit \<le> x then int (length (to_string (x div unit))) - 1 else - int (small_exponent x unit))"

definition six_digits :: "nat \<Rightarrow> nat \<times> int" where
  "six_digits x =
     (let e = exponent x;
          n = (if e \<le> 5 then round_div (x * 10 ^ nat (5 - e)) unit else round_div x (unit * 10 ^ nat (e - 5))) in
      if n = 10 ^ 6 then (10 ^ 5, e + 1) else (n, e))"

definition without_zeros :: "string \<Rightarrow> string" where
  "without_zeros s =
     (let t = rev (dropWhile (\<lambda>c. c = CHR ''0'') (rev s)) in if t \<noteq> [] \<and> last t = CHR ''.'' then butlast t else t)"

definition ostream_double :: "nat \<Rightarrow> string" where
  "ostream_double x =
     (if x = 0 then ''0'' else
      let (n, e) = six_digits x in
      if - 4 \<le> e \<and> e < 5 then without_zeros (decimals (nat (5 - e)) n)
      else if e = 5 then to_string n
      else without_zeros (decimals 5 n) @ ''e'' @ (if e < 0 then ''-'' else ''+'') @ padded 2 (nat \<bar>e\<bar>))"

text \<open>A quotient by zero, as the hardware the tool runs on has it (the C++ standard leaves it undefined).\<close>

definition show_quotient :: "(nat \<Rightarrow> string) \<Rightarrow> nat \<Rightarrow> nat \<Rightarrow> string" where
  "show_quotient pr a b = (if b \<noteq> 0 then pr (div_double a b) else if a = 0 then ''-nan'' else ''inf'')"

subsection \<open>Sizes and times\<close>

definition human_bytes :: "u64 \<Rightarrow> string" where
  "human_bytes n =
     (if 2 ^ 30 \<le> n then printf_f 1 (div_double (of_u64 n) (of_u64 (2 ^ 30))) @ '' GiB''
      else if 2 ^ 20 \<le> n then printf_f 1 (div_double (of_u64 n) (of_u64 (2 ^ 20))) @ '' MiB''
      else if 2 ^ 10 \<le> n then printf_f 1 (div_double (of_u64 n) (of_u64 (2 ^ 10))) @ '' KiB''
      else to_string (unat n) @ '' B'')"

definition human_ns :: "u64 \<Rightarrow> string" where
  "human_ns ns =
     (if 10 ^ 9 \<le> ns then printf_f 2 (div_double (of_u64 ns) (of_u64 (10 ^ 9))) @ '' s''
      else if 10 ^ 6 \<le> ns then printf_f 2 (div_double (of_u64 ns) (of_u64 (10 ^ 6))) @ '' ms''
      else if 10 ^ 3 \<le> ns then printf_f 2 (div_double (of_u64 ns) (of_u64 (10 ^ 3))) @ '' us''
      else to_string (unat ns) @ '' ns'')"

subsection \<open>Usage\<close>

definition print_usage :: "string \<Rightarrow> string list" where
  "print_usage prog =
     [''Usage: '' @ prog @ '' --server HOST --export PATH --workload NAME [options]'',
      [],
      ''Workloads: seqread, seqwrite, randread, randwrite, meta, mixed'',
      [],
      ''Options:'',
      ''  --bs <bytes>       Block size (default 65536, supports K/M/G suffixes)'',
      ''  --size <bytes>     Data file size (default 1G)'',
      ''  --threads <n>      Concurrent connections/threads (default 1)'',
      ''  --duration <s>     Run time in seconds (default 30)'',
      ''  --stable <mode>    Write stability: unstable, datasync, filesync (default unstable)'',
      ''  --rw-ratio <0-1>   Read fraction for '' @ [CHR 0x27] @ ''mixed'' @ [CHR 0x27] @ '' workload (default 0.7)'',
      ''  --csv <path>       Append results to a CSV file'']"

subsection \<open>The table\<close>

text \<open>\<open>%-<k>s\<close> counts bytes.\<close>

definition left_aligned :: "nat \<Rightarrow> string \<Rightarrow> string" where
  "left_aligned k s = s @ replicate (k - length s) (CHR '' '')"

definition columns :: "string list \<Rightarrow> string" where
  "columns xs = concat (map2 (\<lambda>k s. (if k = 12 then [] else '' '') @ left_aligned k s) [12, 14, 10, 10, 10, 10, 10] xs)"

text \<open>A horizontal bar of \<open>n\<close> characters, of three bytes each.\<close>

definition bar :: "nat \<Rightarrow> string" where
  "bar n = concat (replicate n [CHR 0xE2, CHR 0x94, CHR 0x80])"

text \<open>\<open>duration<double>\<close> of the nanoseconds measured.\<close>

definition elapsed_s :: "RunResult \<Rightarrow> nat" where
  "elapsed_s r = div_double (of_u64 (rr_elapsed_ns r)) (of_u64 (10 ^ 9))"

definition print_result :: "'d BenchConfig \<Rightarrow> RunResult \<Rightarrow> string list" where
  "print_result cfg r =
     (let tput =
        (if rr_total_bytes r > 0
         then show_quotient (printf_f 1) (div_double (of_u64 (rr_total_bytes r)) (of_u64 (10 ^ 6))) (elapsed_s r) @ '' MB/s''
         else show_quotient (printf_f 0) (of_u64 (rr_total_ops r)) (elapsed_s r) @ '' IOPS'') in
     [[],
      ''Workload : '' @ cfg_workload cfg,
      ''bs       : '' @ human_bytes (ucast (cfg_bs cfg)),
      ''size     : '' @ human_bytes (cfg_size cfg),
      ''threads  : '' @ to_string (unat (cfg_threads cfg)),
      ''duration : '' @ printf_f 1 (elapsed_s r) @ '' s'',
      [],
      columns [''Ops'', ''Throughput'', ''lat_min'', ''lat_p50'', ''lat_p95'', ''lat_p99'', ''lat_max''],
      columns [bar 11, bar 13, bar 9, bar 9, bar 9, bar 9, bar 9],
      columns [to_string (unat (rr_total_ops r)), tput,
        human_ns (min_ns (rr_lat r)), human_ns (p50_ns (rr_lat r)), human_ns (p95_ns (rr_lat r)),
        human_ns (p99_ns (rr_lat r)), human_ns (max_ns (rr_lat r))],
      []])"

subsection \<open>The CSV file\<close>

definition to_us :: "u64 \<Rightarrow> string" where
  "to_us ns = ostream_double (div_double (of_u64 ns) (of_u64 1000))"

definition joined :: "string list \<Rightarrow> string" where
  "joined xs = concat (map2 (\<lambda>sep x. sep @ x) ([] # replicate (length xs) '','') xs)"

definition csv_header :: string where
  "csv_header = ''workload,bs,size,threads,duration_s,ops,throughput_mb_s,'' @
     ''lat_min_us,lat_p50_us,lat_p95_us,lat_p99_us,lat_max_us''"

definition csv_row :: "'d BenchConfig \<Rightarrow> RunResult \<Rightarrow> string list" where
  "csv_row cfg r =
     [cfg_workload cfg, to_string (unat (cfg_bs cfg)), to_string (unat (cfg_size cfg)), to_string (unat (cfg_threads cfg)),
      ostream_double (elapsed_s r), to_string (unat (rr_total_ops r)),
      (if rr_total_bytes r > 0
       then show_quotient ostream_double (div_double (of_u64 (rr_total_bytes r)) (of_u64 (10 ^ 6))) (elapsed_s r)
       else ''0''),
      to_us (min_ns (rr_lat r)), to_us (p50_ns (rr_lat r)), to_us (p95_ns (rr_lat r)), to_us (p99_ns (rr_lat r)),
      to_us (max_ns (rr_lat r))]"

text \<open>
  The lines that are appended, or \<open>None\<close> with a warning when the file cannot be opened for writing; \<open>readable\<close> is what the test
  by an \<open>ifstream\<close> says.
\<close>

definition write_csv :: "bool \<Rightarrow> bool \<Rightarrow> 'd BenchConfig \<Rightarrow> RunResult \<Rightarrow> string list option" where
  "write_csv readable writable cfg r =
     (if writable then Some ((if readable then [] else [csv_header]) @ [joined (csv_row cfg r)]) else None)"

subsection \<open>How exact the printed numbers are\<close>

lemma round_div_error:
  assumes "0 < d"
  shows "2 * (round_div n d * d) \<le> 2 * n + d" "2 * n \<le> 2 * (round_div n d * d) + d"
proof -
  define q r where "q = n div d" and "r = n mod d"
  have "n = q * d + r" "r < d" using assms by (simp_all add: q_def r_def)
  moreover have "round_div n d * d = q * d \<and> 2 * r \<le> d \<or> round_div n d * d = q * d + d \<and> d \<le> 2 * r"
    by (auto simp: round_div_def Let_def q_def [symmetric] r_def [symmetric])
  ultimately show "2 * (round_div n d * d) \<le> 2 * n + d" "2 * n \<le> 2 * (round_div n d * d) + d" by linarith+
qed

lemma to_double_upper: "2 ^ 53 * to_double n \<le> 2 ^ 53 * n + n"
proof (cases "excess_bits n = 0")
  case True
  then show ?thesis using round_bits_exact [of 0 n] by (simp add: to_double_def)
next
  case False
  then have "2 ^ 52 * 2 ^ excess_bits n \<le> n" using excess_bits_bounds [of n] by (simp only: power_add)
  moreover have "2 * to_double n \<le> 2 * n + 2 ^ excess_bits n" unfolding to_double_def by (rule round_bits_error)
  ultimately show ?thesis by simp
qed

lemma quotient_bound:
  fixes x q s h c n :: nat
  assumes "2 ^ 53 * x \<le> 2 ^ 53 * (2 * q + s) + (2 * q + s)" and "2 ^ 53 * (2 * q + s) \<le> 2 ^ 53 * x + (2 * q + s)"
    and "x \<le> 2 * h + c" and "2 * h \<le> x" and "s \<le> c" and "q \<le> n" and "n < q + c"
    and "n \<le> 2 ^ 50 * 2 ^ 128" and "c \<le> 2 ^ 40"
  shows "4 * h \<le> 4 * n + 2 ^ 128" and "4 * n \<le> 4 * h + 2 ^ 128"
  using assms by simp_all

text \<open>A quotient of integers below \<open>2 ^ 50\<close> is off by less than a quarter of the divisor's unit.\<close>

lemma div_double_close:
  assumes "n < 2 ^ 50" and "0 < c" and "c \<le> 2 ^ 40"
  shows "4 * (div_double (n * unit) (c * unit) * c) \<le> 4 * (n * unit) + unit"
    and "4 * (n * unit) \<le> 4 * (div_double (n * unit) (c * unit) * c) + unit"
proof -
  define q s where "q = n * unit div c" and "s = (of_bool (n * unit mod c \<noteq> 0) :: nat)"
  define D where "D = to_double (2 * q + s)"
  have u: "0 < unit" by (simp add: unit_def)
  have "n * unit * unit div (c * unit) = q" "(n * unit * unit mod (c * unit) \<noteq> 0) = (n * unit mod c \<noteq> 0)"
    using u by (simp_all add: q_def mod_mult_mult2)
  then have X: "div_double (n * unit) (c * unit) = D div 2" by (simp add: div_double_def D_def s_def)
  have qc: "q * c \<le> n * unit" "n * unit < q * c + c"
    using dividend_less_div_times [OF assms(2), of "n * unit"] by (simp_all add: q_def add.commute)
  have s: "s \<le> 1" by (simp add: s_def)
  have D: "2 ^ 53 * D \<le> 2 ^ 53 * (2 * q + s) + (2 * q + s)" "2 ^ 53 * (2 * q + s) \<le> 2 ^ 53 * D + (2 * q + s)"
    unfolding D_def by (rule to_double_upper to_double_lower)+
  have D2: "D \<le> 2 * (D div 2) + 1" "2 * (D div 2) \<le> D" by simp_all
  have m: "2 ^ 53 * (D * c) \<le> 2 ^ 53 * (2 * (q * c) + s * c) + (2 * (q * c) + s * c)"
    "2 ^ 53 * (2 * (q * c) + s * c) \<le> 2 ^ 53 * (D * c) + (2 * (q * c) + s * c)"
    "D * c \<le> 2 * (D div 2 * c) + c" "2 * (D div 2 * c) \<le> D * c" "s * c \<le> c"
    using mult_le_mono1 [OF D(1), of c] mult_le_mono1 [OF D(2), of c] mult_le_mono1 [OF D2(1), of c]
      mult_le_mono1 [OF D2(2), of c] mult_le_mono1 [OF s, of c] by (simp_all add: algebra_simps)
  have nU: "n * unit \<le> 2 ^ 50 * unit" using assms(1) by (intro mult_le_mono1) simp
  show "4 * (div_double (n * unit) (c * unit) * c) \<le> 4 * (n * unit) + unit"
    and "4 * (n * unit) \<le> 4 * (div_double (n * unit) (c * unit) * c) + unit"
    unfolding X using quotient_bound [OF m qc _ assms(3)] nU by (simp_all add: unit_def)
qed

lemma printf_quotient_close:
  assumes "n < 2 ^ 50" and "0 < k" and "k * 10 ^ d \<le> 2 ^ 40"
  shows "\<exists>h. printf_f d (div_double (n * unit) (k * 10 ^ d * unit)) = decimals d h \<and> 2 * (h * k) \<le> 2 * n + k \<and> 2 * n \<le> 2 * (h * k) + k"
proof -
  define X where "X = div_double (n * unit) (k * 10 ^ d * unit)"
  define h where "h = round_div (10 ^ d * X) unit"
  have u: "0 < unit" by (simp add: unit_def)
  have c: "4 * (X * (k * 10 ^ d)) \<le> 4 * (n * unit) + unit" "4 * (n * unit) \<le> 4 * (X * (k * 10 ^ d)) + unit"
    unfolding X_def by (rule div_double_close [OF assms(1) _ assms(3)], use assms(2) in simp)+
  have "2 * (h * unit) \<le> 2 * (10 ^ d * X) + unit" "2 * (10 ^ d * X) \<le> 2 * (h * unit) + unit"
    unfolding h_def by (rule round_div_error [OF u])+
  from this [THEN mult_le_mono1, of k]
  have "2 * (h * k * unit) \<le> 2 * (X * (k * 10 ^ d)) + k * unit" "2 * (X * (k * 10 ^ d)) \<le> 2 * (h * k * unit) + k * unit"
    by (simp_all add: algebra_simps)
  with c u have "2 * (h * k) * unit < (2 * n + k + 1) * unit" "2 * n * unit < (2 * (h * k) + k + 1) * unit"
    by (simp_all add: algebra_simps)
  with u show ?thesis unfolding mult_less_cancel2 by (auto simp: printf_f_def h_def X_def)
qed

lemma of_u64_exact: "unat n < 2 ^ 50 \<Longrightarrow> of_u64 n = unat n * unit"
  by (simp add: of_u64_def double_half)

lemma div_double_power:
  assumes "n < 2 ^ 50" and "j \<le> 40"
  shows "div_double (n * unit) (2 ^ j * unit) = n * 2 ^ (128 - j)"
proof -
  define B where "B = 2 ^ j * unit"
  have e: "n * unit * unit = n * 2 ^ (128 - j) * B"
    using assms(2) by (simp add: B_def unit_def mult.assoc flip: power_add mult.assoc)
  have "0 < B" by (simp add: B_def unit_def)
  then have "n * unit * unit div B = n * 2 ^ (128 - j)" "n * unit * unit mod B = 0" unfolding e by simp_all
  then have "div_double (n * unit) B = to_double (n * 2 ^ Suc (128 - j)) div 2"
    by (simp only: div_double_def) (simp add: mult_ac)
  also have "to_double (n * 2 ^ Suc (128 - j)) = n * 2 ^ Suc (128 - j)" by (rule to_double_exact) (use assms in simp)
  finally show ?thesis by (simp add: B_def)
qed

lemma printf_power_close:
  assumes "n < 2 ^ 50" and "j \<le> 40"
  shows "\<exists>h. printf_f 1 (div_double (n * unit) (2 ^ j * unit)) = decimals 1 h \<and>
    2 * (h * 2 ^ j) \<le> 20 * n + 2 ^ j \<and> 20 * n \<le> 2 * (h * 2 ^ j) + 2 ^ j"
proof -
  define h where "h = round_div (10 * (n * 2 ^ (128 - j))) unit"
  define M :: nat where "M = 2 ^ (128 - j)"
  have u: "unit = M * 2 ^ j" using assms(2) by (simp add: M_def unit_def flip: power_add)
  have M: "0 < M" by (simp add: M_def)
  have "2 * (h * unit) \<le> 2 * (10 * (n * M)) + unit" "2 * (10 * (n * M)) \<le> 2 * (h * unit) + unit"
    unfolding h_def M_def by (rule round_div_error; simp add: unit_def)+
  then have "(2 * (h * 2 ^ j)) * M \<le> (20 * n + 2 ^ j) * M" "20 * n * M \<le> (2 * (h * 2 ^ j) + 2 ^ j) * M"
    unfolding u by (simp_all add: algebra_simps)
  with M show ?thesis unfolding mult_le_cancel2 div_double_power [OF assms] by (auto simp: printf_f_def h_def)
qed

subsection \<open>Properties\<close>

text \<open>C34: The times and sizes of the table are rounded correctly in spite of the two roundings of the doubles: from a
  microsecond up to 13 days a time is printed in the largest unit that fits with the two decimals nearest to it, and from a
  kibibyte up to a pebibyte a size with the nearest decimal.\<close>

theorem human_units_nearest:
  assumes "unat n < 2 ^ 50"
  shows "(1000 \<le> unat n \<longrightarrow> (\<exists>h k name. (k, name) \<in> {(10, '' us''), (10 ^ 4, '' ms''), (10 ^ 7, '' s'')} \<and> 100 * k \<le> unat n \<and>
      (unat n < 100000 * k \<or> name = '' s'') \<and> human_ns n = decimals 2 h @ name \<and>
      2 * (h * k) \<le> 2 * unat n + k \<and> 2 * unat n \<le> 2 * (h * k) + k)) \<and>
    (1024 \<le> unat n \<longrightarrow> (\<exists>h b name. (b, name) \<in> {(2 ^ 10, '' KiB''), (2 ^ 20, '' MiB''), (2 ^ 30, '' GiB'')} \<and> b \<le> unat n \<and>
      (unat n < 1024 * b \<or> name = '' GiB'') \<and> human_bytes n = decimals 1 h @ name \<and>
      2 * (h * b) \<le> 20 * unat n + b \<and> 20 * unat n \<le> 2 * (h * b) + b))"
  (is "(_ \<longrightarrow> ?time) \<and> (_ \<longrightarrow> ?size)")
proof (intro conjI impI)
  note n = of_u64_exact [OF assms]
  have c: "of_u64 (10 ^ 3) = 10 * 10 ^ 2 * unit" "of_u64 (10 ^ 6) = 10 ^ 4 * 10 ^ 2 * unit" "of_u64 (10 ^ 9) = 10 ^ 7 * 10 ^ 2 * unit"
    "of_u64 (2 ^ 10) = 2 ^ 10 * unit" "of_u64 (2 ^ 20) = 2 ^ 20 * unit" "of_u64 (2 ^ 30) = 2 ^ 30 * unit"
    by (simp_all add: of_u64_exact)
  have le: "10 ^ 3 \<le> n \<longleftrightarrow> 10 ^ 3 \<le> unat n" "10 ^ 6 \<le> n \<longleftrightarrow> 10 ^ 6 \<le> unat n" "10 ^ 9 \<le> n \<longleftrightarrow> 10 ^ 9 \<le> unat n"
    "2 ^ 10 \<le> n \<longleftrightarrow> 2 ^ 10 \<le> unat n" "2 ^ 20 \<le> n \<longleftrightarrow> 2 ^ 20 \<le> unat n" "2 ^ 30 \<le> n \<longleftrightarrow> 2 ^ 30 \<le> unat n"
    by (simp_all add: word_le_nat_alt)
  show ?time if "1000 \<le> unat n"
  proof -
    obtain k name where k: "(k, name) \<in> {(10, '' us''), (10 ^ 4, '' ms''), (10 ^ 7, '' s'')}" "100 * k \<le> unat n"
        "unat n < 100000 * k \<or> name = '' s''"
      and ns: "human_ns n = printf_f 2 (div_double (unat n * unit) (k * 10 ^ 2 * unit)) @ name"
    proof -
      consider "10 ^ 9 \<le> unat n" | "10 ^ 6 \<le> unat n" "unat n < 10 ^ 9" | "10 ^ 3 \<le> unat n" "unat n < 10 ^ 6"
        using \<open>1000 \<le> unat n\<close> by fastforce
      then show thesis
      proof cases
        case 1
        then show thesis by (intro that [of "10 ^ 7" "'' s''"]) (simp_all only: human_ns_def le n c, simp_all)
      next
        case 2
        then show thesis by (intro that [of "10 ^ 4" "'' ms''"]) (simp_all only: human_ns_def le n c, simp_all)
      next
        case 3
        then show thesis by (intro that [of 10 "'' us''"]) (simp_all only: human_ns_def le n c, simp_all)
      qed
    qed
    have "0 < k" "k * 10 ^ 2 \<le> 2 ^ 40" using k(1) by auto
    then obtain h where h: "human_ns n = decimals 2 h @ name" "2 * (h * k) \<le> 2 * unat n + k" "2 * unat n \<le> 2 * (h * k) + k"
      using printf_quotient_close [OF assms, of k 2] unfolding ns by blast
    show ?thesis by (rule exI [of _ h], rule exI [of _ k], rule exI [of _ name], intro conjI) (fact k h)+
  qed
  show ?size if "1024 \<le> unat n"
  proof -
    obtain j name where j: "(2 ^ j :: nat, name) \<in> {(2 ^ 10, '' KiB''), (2 ^ 20, '' MiB''), (2 ^ 30, '' GiB'')}" "2 ^ j \<le> unat n"
        "unat n < 1024 * 2 ^ j \<or> name = '' GiB''" "j \<le> 40"
      and b: "human_bytes n = printf_f 1 (div_double (unat n * unit) (2 ^ j * unit)) @ name"
    proof -
      consider "2 ^ 30 \<le> unat n" | "2 ^ 20 \<le> unat n" "unat n < 2 ^ 30" | "2 ^ 10 \<le> unat n" "unat n < 2 ^ 20"
        using \<open>1024 \<le> unat n\<close> by fastforce
      then show thesis
      proof cases
        case 1
        then show thesis by (intro that [of 30 "'' GiB''"]) (simp_all only: human_bytes_def le n c, simp_all)
      next
        case 2
        then show thesis by (intro that [of 20 "'' MiB''"]) (simp_all only: human_bytes_def le n c, simp_all)
      next
        case 3
        then show thesis by (intro that [of 10 "'' KiB''"]) (simp_all only: human_bytes_def le n c, simp_all)
      qed
    qed
    obtain h where h: "human_bytes n = decimals 1 h @ name" "2 * (h * 2 ^ j) \<le> 20 * unat n + 2 ^ j"
        "20 * unat n \<le> 2 * (h * 2 ^ j) + 2 ^ j"
      using printf_power_close [OF assms j(4)] unfolding b by blast
    show ?thesis by (rule exI [of _ h], rule exI [of _ "2 ^ j"], rule exI [of _ name], intro conjI) (fact j h)+
  qed
qed

text \<open>A millisecond short of a second reads as 1000 milliseconds.\<close>

lemma human_units_nearest_witness:
  "human_ns 999999999 = ''1000.00 ms''"
proof -
  obtain h where h: "human_ns 999999999 = decimals 2 h @ '' ms''" "10000 * h \<le> 1000004999" "999994999 \<le> 10000 * h"
    using human_units_nearest [of 999999999] by auto
  then have "h = 100000" by linarith
  with h(1) show ?thesis by (simp add: decimals_def padded_def to_string.simps char_of_def bit_Suc_0_iff)
qed

end
