(* ===== verification/Compliance_Runner.thy ===== *)
theory Compliance_Runner
  imports "HOL-Library.Sublist" Nfs3_Client Nfs4_Types
begin

text \<open>
  \<open>tools/compliance/runner.hpp\<close>, \<open>runner.cpp\<close>, \<open>test_helpers.hpp\<close>, and the parts of \<open>tools/compliance4\<close> and
  \<open>tools/compliance41\<close> that are the same: a test is an operation on a client that returns or throws, the runner
  executes those whose name has the filter in it and counts what became of them. What the runner writes to
  \<open>std::cout\<close> is the list of its lines.
\<close>

subsection \<open>Statements\<close>

abbreviation io_then :: "('s, 'a) io \<Rightarrow> ('s, 'b) io \<Rightarrow> ('s, 'b) io" where
  "io_then m k \<equiv> io_bind m (\<lambda>_. k)"

text \<open>\<open>for (auto& x : xs)\<close> with the variables it changes.\<close>

fun for_each :: "('t \<Rightarrow> 'a \<Rightarrow> ('s, 'a) io) \<Rightarrow> 't list \<Rightarrow> 'a \<Rightarrow> ('s, 'a) io" where
  "for_each body [] a = io_return a"
| "for_each body (x # xs) a = io_bind (body x a) (for_each body xs)"

subsection \<open>Checks\<close>

text \<open>
  The macros \<open>CHECK\<close> and \<open>EXPECT_NFS_ERR\<close>; \<open>expr\<close> and \<open>cname\<close> are their arguments as text, \<open>loc\<close> is
  \<open>__FILE__ ":" __LINE__\<close> (in which the compiler may put a directory before the file). The \<open>throw\<close> of the second
  is in its \<open>try\<close> block, but \<open>ComplianceFailure\<close> is no \<open>NfsError\<close> and is not caught there.
\<close>

definition CHECK :: "string \<Rightarrow> string \<Rightarrow> bool \<Rightarrow> ('s, unit) io" where
  "CHECK expr loc c = io_throw_if (\<not> c) (ComplianceFailure (''CHECK failed: '' @ expr @ '' at '' @ loc))"

definition EXPECT_NFS_ERR :: "('s, 'a) io \<Rightarrow> Nfsstat3 \<Rightarrow> string \<Rightarrow> ('s, unit) io" where
  "EXPECT_NFS_ERR m code cname =
     io_bind (io_try m) (\<lambda>r.
     case r of
       Inr _ \<Rightarrow> io_throw (ComplianceFailure (''EXPECT_NFS_ERR('' @ cname @ ''): no exception thrown''))
     | Inl (NfsError status proc) \<Rightarrow>
         io_throw_if (\<not> NfsError_is (NfsError status proc) code)
           (ComplianceFailure (''EXPECT_NFS_ERR('' @ cname @ ''): got nfsstat3='' @ to_string (unat status)))
     | Inl e \<Rightarrow> io_throw e)"

text \<open>\<open>std::exception::what()\<close>\<close>

fun what :: "error \<Rightarrow> string" where
  "what (RuntimeError s) = s"
| "what (NfsError status proc) = NfsError_what status proc"
| "what (Nfs4Error status op) = Nfs4Error_what status op"
| "what (ComplianceFailure s) = s"

subsection \<open>Tests\<close>

datatype TestStatus = PASS | FAIL | SKIP

text \<open>The client of a \<open>TestCtx\<close> is the state the test runs on.\<close>

record TestCtx =
  cx_root_fh :: Fh3
  cx_workdir_fh :: Fh3
  cx_server :: string
  cx_export_path :: string

record ('c, 's) ComplianceTest =
  ct_name :: string
  ct_rfc_ref :: string
  ct_fn :: "'c \<Rightarrow> ('s, unit) io"

type_synonym ('c, 's) TestRunner = "('c, 's) ComplianceTest list"

definition TestRunner_add :: "('c, 's) ComplianceTest \<Rightarrow> ('c, 's) TestRunner \<Rightarrow> ('c, 's) TestRunner" where
  "TestRunner_add t tests = tests @ [t]"

text \<open>\<open>!filter.empty() && name.find(filter) == npos\<close>\<close>

definition left_out :: "string \<Rightarrow> ('c, 's) ComplianceTest \<Rightarrow> bool" where
  "left_out flt t \<longleftrightarrow> flt \<noteq> [] \<and> \<not> sublist flt (ct_name t)"

subsection \<open>The runner\<close>

definition escape :: "string \<Rightarrow> string" where
  "escape code = CHR 0x1B # ''['' @ code @ ''m''"

definition GREEN :: string where "GREEN = escape ''32''"
definition RED :: string where "RED = escape ''31''"
definition YELLOW :: string where "YELLOW = escape ''33''"
definition RESET :: string where "RESET = escape ''0''"

fun status_tag :: "TestStatus \<Rightarrow> string" where
  "status_tag PASS = GREEN @ ''[PASS]'' @ RESET"
| "status_tag FAIL = RED @ ''[FAIL]'' @ RESET"
| "status_tag SKIP = YELLOW @ ''[SKIP]'' @ RESET"

text \<open>The handlers of \<open>run_all\<close>, in their order.\<close>

definition catch_status :: "error \<Rightarrow> TestStatus" where
  "catch_status e = (case e of ComplianceFailure _ \<Rightarrow> FAIL | NfsError _ _ \<Rightarrow> FAIL | _ \<Rightarrow> SKIP)"

definition try_test :: "('s, unit) io \<Rightarrow> ('s, TestStatus \<times> string) io" where
  "try_test m =
     io_bind (io_try m) (\<lambda>r.
     io_return (case r of Inr _ \<Rightarrow> (PASS, []) | Inl e \<Rightarrow> (catch_status e, what e)))"

record Tally =
  ta_pass :: nat
  ta_fail :: nat
  ta_skip :: nat
  ta_out :: "string list"

definition Tally_zero :: Tally where
  "Tally_zero = \<lparr>ta_pass = 0, ta_fail = 0, ta_skip = 0, ta_out = []\<rparr>"

fun count_status :: "TestStatus \<Rightarrow> Tally \<Rightarrow> Tally" where
  "count_status PASS a = a\<lparr>ta_pass := ta_pass a + 1\<rparr>"
| "count_status FAIL a = a\<lparr>ta_fail := ta_fail a + 1\<rparr>"
| "count_status SKIP a = a\<lparr>ta_skip := ta_skip a + 1\<rparr>"

definition test_line :: "('c, 's) ComplianceTest \<Rightarrow> TestStatus \<Rightarrow> string \<Rightarrow> string" where
  "test_line t status detail =
     status_tag status @ '' '' @ ct_name t @
     (if ct_rfc_ref t \<noteq> [] then '' ('' @ ct_rfc_ref t @ '')'' else []) @
     (if detail \<noteq> [] then '': '' @ detail else [])"

definition run_one :: "'c \<Rightarrow> string \<Rightarrow> ('c, 's) ComplianceTest \<Rightarrow> Tally \<Rightarrow> ('s, Tally) io" where
  "run_one ctx flt t a =
     (if left_out flt t then io_return a
      else io_bind (try_test (ct_fn t ctx)) (\<lambda>(status, detail).
        io_return (count_status status (a\<lparr>ta_out := ta_out a @ [test_line t status detail]\<rparr>))))"

definition summary_line :: "Tally \<Rightarrow> string" where
  "summary_line a =
     ''Results: '' @ GREEN @ to_string (ta_pass a) @ '' passed'' @ RESET @ '', '' @
     RED @ to_string (ta_fail a) @ '' failed'' @ RESET @ '', '' @
     YELLOW @ to_string (ta_skip a) @ '' skipped'' @ RESET @
     '' out of '' @ to_string (ta_pass a + ta_fail a + ta_skip a) @ '' tests.''"

definition run_all :: "'c \<Rightarrow> string \<Rightarrow> ('c, 's) TestRunner \<Rightarrow> ('s, nat \<times> string list) io" where
  "run_all ctx flt tests =
     io_bind (for_each (run_one ctx flt) tests Tally_zero) (\<lambda>a.
     io_return (ta_fail a, ta_out a @ [[], summary_line a]))"

subsection \<open>Removing the scratch directory\<close>

text \<open>
  \<open>clear_dir\<close>; the loop has the call of itself written out. Whatever is thrown is swallowed, for each entry and
  for the directory as a whole.
\<close>

definition swallow :: "('s, 'a) io \<Rightarrow> ('s, unit) io" where
  "swallow m = io_then (io_try m) (io_return ())"

definition dot_name :: "cstring \<Rightarrow> bool" where
  "dot_name name \<longleftrightarrow> name = bytes_of ''.'' \<or> name = bytes_of ''..''"

partial_function (option) compliance_clear_entries ::
  "'w os \<Rightarrow> Fh3 \<Rightarrow> DirEntryPlus3 list \<Rightarrow> 'w nfs3_state \<Rightarrow> ((error + unit) \<times> 'w nfs3_state) option" where
  "compliance_clear_entries os dir_fh entries s =
     (case entries of
        [] \<Rightarrow> io_return () s
      | e # rest \<Rightarrow>
          if dot_name (dp_name e) then compliance_clear_entries os dir_fh rest s
          else
            io_then (io_try (\<lambda>s.
              if dp_has_attrs e \<and> fa_type (dp_attrs e) = NF3DIR then
                io_bind (if dp_has_fh e then io_return (dp_fh e) else NFSClient_lookup os dir_fh (dp_name e)) (\<lambda>child.
                io_then (io_try (io_bind (NFSClient_readdirplus os child 4096 32768)
                  (\<lambda>entries'. compliance_clear_entries os child entries')))
                (NFSClient_rmdir os dir_fh (dp_name e))) s
              else NFSClient_remove os dir_fh (dp_name e) s))
            (compliance_clear_entries os dir_fh rest) s)"

definition compliance_clear_dir :: "'w os \<Rightarrow> Fh3 \<Rightarrow> ('w nfs3_state, unit) io" where
  "compliance_clear_dir os dir_fh =
     swallow (io_bind (NFSClient_readdirplus os dir_fh 4096 32768)
       (\<lambda>entries. compliance_clear_entries os dir_fh entries))"

definition compliance_rmdir_recursive :: "'w os \<Rightarrow> Fh3 \<Rightarrow> cstring \<Rightarrow> ('w nfs3_state, unit) io" where
  "compliance_rmdir_recursive os parent name =
     swallow (
       io_bind (NFSClient_lookup os parent name) (\<lambda>dir_fh.
       io_then (compliance_clear_dir os dir_fh)
       (NFSClient_rmdir os parent name)))"

end
