(* ===== verification/Compliance_Tests.thy ===== *)
theory Compliance_Tests
  imports Compliance_Runner
begin

unbundle bit_operations_syntax

text \<open>
  \<open>tools/compliance/test_*.cpp\<close>: the NFSv3 tests, each an operation of the root client of the context, and their
  registration. String literals are byte lists on the wire. \<open>te_time\<close> is \<open>static_cast<uint32_t>(time(nullptr))\<close>.
\<close>

record 'w test_env =
  te_time :: "'w \<Rightarrow> u32 \<times> 'w"

type_synonym 'w test3 = "TestCtx \<Rightarrow> ('w nfs3_state, unit) io"

subsection \<open>Default arguments\<close>

abbreviation create3 :: "'w os \<Rightarrow> Fh3 \<Rightarrow> cstring \<Rightarrow> ('w nfs3_state, Fh3) io" where
  "create3 os dir name \<equiv> NFSClient_create os dir name UNCHECKED Sattr3_default"

abbreviation mkdir3 :: "'w os \<Rightarrow> Fh3 \<Rightarrow> cstring \<Rightarrow> ('w nfs3_state, Fh3) io" where
  "mkdir3 os dir name \<equiv> NFSClient_mkdir os dir name Sattr3_default"

definition no_guard :: SattrGuard3 where
  "no_guard = \<lparr>sg_check = False, sg_ctime_sec = 0, sg_ctime_nsec = 0\<rparr>"

abbreviation setattr3 :: "'w os \<Rightarrow> Fh3 \<Rightarrow> Sattr3 \<Rightarrow> ('w nfs3_state, unit) io" where
  "setattr3 os fh s \<equiv> NFSClient_setattr os fh s no_guard"

abbreviation size_u64 :: "byte list \<Rightarrow> u64" where
  "size_u64 d \<equiv> word_of_nat (length d)"

abbreviation size_u32 :: "byte list \<Rightarrow> u32" where
  "size_u32 d \<equiv> word_of_nat (length d)"

subsection \<open>Basic operations\<close>

definition test_lookup_existing :: "'w os \<Rightarrow> 'w test3" where
  "test_lookup_existing os ctx =
     io_then (create3 os (cx_workdir_fh ctx) (bytes_of ''b_lookup_exist.txt''))
     (io_bind (NFSClient_lookup os (cx_workdir_fh ctx) (bytes_of ''b_lookup_exist.txt'')) (\<lambda>fh.
     io_bind (NFSClient_getattr os fh) (\<lambda>attrs.
     io_then (CHECK ''attrs.type == Ftype3::NF3REG'' ''test_basic.cpp:18'' (fa_type attrs = NF3REG))
     (NFSClient_remove os (cx_workdir_fh ctx) (bytes_of ''b_lookup_exist.txt'')))))"

definition test_lookup_noent :: "'w os \<Rightarrow> 'w test3" where
  "test_lookup_noent os ctx =
     EXPECT_NFS_ERR
       (NFSClient_lookup os (cx_workdir_fh ctx) (bytes_of ''b_no_such_file_xyz''))
       NFS3ERR_NOENT ''Nfsstat3::NFS3ERR_NOENT''"

definition test_lookup_notdir :: "'w os \<Rightarrow> 'w test3" where
  "test_lookup_notdir os ctx =
     io_then (create3 os (cx_workdir_fh ctx) (bytes_of ''b_notdir.txt''))
     (io_bind (NFSClient_lookup os (cx_workdir_fh ctx) (bytes_of ''b_notdir.txt'')) (\<lambda>file_fh.
     io_then (EXPECT_NFS_ERR
       (NFSClient_lookup os file_fh (bytes_of ''child''))
       NFS3ERR_NOTDIR ''Nfsstat3::NFS3ERR_NOTDIR'')
     (NFSClient_remove os (cx_workdir_fh ctx) (bytes_of ''b_notdir.txt''))))"

definition test_read_exact_size :: "'w os \<Rightarrow> 'w test3" where
  "test_read_exact_size os ctx =
     io_bind (create3 os (cx_workdir_fh ctx) (bytes_of ''b_read_exact.txt'')) (\<lambda>fh.
     let payload = bytes_of ''Hello, NFS compliance!'' in
     io_then (NFSClient_write os fh 0 FILE_SYNC payload)
     (io_bind (NFSClient_read os fh 0 (size_u32 payload)) (\<lambda>data.
     io_then (CHECK ''data.size() == payload.size()'' ''test_basic.cpp:43'' (length data = length payload))
     (io_then (CHECK ''std::string(data.begin(), data.end()) == payload'' ''test_basic.cpp:44'' (data = payload))
     (NFSClient_remove os (cx_workdir_fh ctx) (bytes_of ''b_read_exact.txt''))))))"

definition test_read_past_eof :: "'w os \<Rightarrow> 'w test3" where
  "test_read_past_eof os ctx =
     io_bind (create3 os (cx_workdir_fh ctx) (bytes_of ''b_read_eof.txt'')) (\<lambda>fh.
     let payload = bytes_of ''short'' in
     io_then (NFSClient_write os fh 0 FILE_SYNC payload)
     (io_bind (NFSClient_read os fh 1000 512) (\<lambda>data.
     io_then (CHECK ''data.empty()'' ''test_basic.cpp:55'' (data = []))
     (NFSClient_remove os (cx_workdir_fh ctx) (bytes_of ''b_read_eof.txt'')))))"

definition test_write_filesync_count :: "'w os \<Rightarrow> 'w test3" where
  "test_write_filesync_count os ctx =
     io_bind (create3 os (cx_workdir_fh ctx) (bytes_of ''b_write_sync.txt'')) (\<lambda>fh.
     let payload = bytes_of ''write filesync test'' in
     io_bind (NFSClient_write os fh 0 FILE_SYNC payload) (\<lambda>r.
     io_then (CHECK ''r.count == static_cast<uint32_t>(payload.size())'' ''test_basic.cpp:65''
       (wr_count r = size_u32 payload))
     (NFSClient_remove os (cx_workdir_fh ctx) (bytes_of ''b_write_sync.txt''))))"

definition test_write_then_getattr :: "'w os \<Rightarrow> 'w test3" where
  "test_write_then_getattr os ctx =
     io_bind (create3 os (cx_workdir_fh ctx) (bytes_of ''b_write_getattr.txt'')) (\<lambda>fh.
     let payload = bytes_of ''size check'' in
     io_then (NFSClient_write os fh 0 FILE_SYNC payload)
     (io_bind (NFSClient_getattr os fh) (\<lambda>attrs.
     io_then (CHECK ''attrs.size == payload.size()'' ''test_basic.cpp:75'' (fa_size attrs = size_u64 payload))
     (NFSClient_remove os (cx_workdir_fh ctx) (bytes_of ''b_write_getattr.txt'')))))"

definition test_create_guarded_duplicate :: "'w os \<Rightarrow> 'w test3" where
  "test_create_guarded_duplicate os ctx =
     io_then (NFSClient_create os (cx_workdir_fh ctx) (bytes_of ''b_guarded.txt'') GUARDED Sattr3_default)
     (io_then (EXPECT_NFS_ERR
       (NFSClient_create os (cx_workdir_fh ctx) (bytes_of ''b_guarded.txt'') GUARDED Sattr3_default)
       NFS3ERR_EXIST ''Nfsstat3::NFS3ERR_EXIST'')
     (NFSClient_remove os (cx_workdir_fh ctx) (bytes_of ''b_guarded.txt'')))"

definition test_create_exclusive_idempotent :: "'w os \<Rightarrow> 'w test3" where
  "test_create_exclusive_idempotent os ctx =
     (let verf = [0xDE, 0xAD, 0xBE, 0xEF, 0x01, 0x02, 0x03, 0x04] in
     io_bind (NFSClient_create_exclusive os (cx_workdir_fh ctx) (bytes_of ''b_exclusive.txt'') verf) (\<lambda>fh1.
     io_bind (NFSClient_create_exclusive os (cx_workdir_fh ctx) (bytes_of ''b_exclusive.txt'') verf) (\<lambda>fh2.
     io_bind (NFSClient_getattr os fh1) (\<lambda>a1.
     io_bind (NFSClient_getattr os fh2) (\<lambda>a2.
     io_then (CHECK ''a1.fileid == a2.fileid'' ''test_basic.cpp:97'' (fa_fileid a1 = fa_fileid a2))
     (NFSClient_remove os (cx_workdir_fh ctx) (bytes_of ''b_exclusive.txt'')))))))"

definition test_remove_noent :: "'w os \<Rightarrow> 'w test3" where
  "test_remove_noent os ctx =
     EXPECT_NFS_ERR
       (NFSClient_remove os (cx_workdir_fh ctx) (bytes_of ''b_no_such_file_to_remove''))
       NFS3ERR_NOENT ''Nfsstat3::NFS3ERR_NOENT''"

definition test_rename_across_dirs :: "'w os \<Rightarrow> 'w test3" where
  "test_rename_across_dirs os ctx =
     io_bind (mkdir3 os (cx_workdir_fh ctx) (bytes_of ''b_rename_src'')) (\<lambda>src_dir.
     io_bind (mkdir3 os (cx_workdir_fh ctx) (bytes_of ''b_rename_dst'')) (\<lambda>dst_dir.
     io_then (create3 os src_dir (bytes_of ''file.txt''))
     (io_then (NFSClient_rename os src_dir (bytes_of ''file.txt'') dst_dir (bytes_of ''file_moved.txt''))
     (io_then (EXPECT_NFS_ERR
       (NFSClient_lookup os src_dir (bytes_of ''file.txt''))
       NFS3ERR_NOENT ''Nfsstat3::NFS3ERR_NOENT'')
     (io_bind (NFSClient_lookup os dst_dir (bytes_of ''file_moved.txt'')) (\<lambda>moved.
     io_bind (NFSClient_getattr os moved) (\<lambda>attrs.
     io_then (CHECK ''attrs.type == Ftype3::NF3REG'' ''test_basic.cpp:126'' (fa_type attrs = NF3REG))
     (io_then (NFSClient_remove os dst_dir (bytes_of ''file_moved.txt''))
     (io_then (NFSClient_rmdir os (cx_workdir_fh ctx) (bytes_of ''b_rename_src''))
     (NFSClient_rmdir os (cx_workdir_fh ctx) (bytes_of ''b_rename_dst'')))))))))))"

text \<open>The section sign is two characters of the source's encoding.\<close>

definition section_sign :: string where
  "section_sign = [CHR 0xC2, CHR 0xA7]"

definition add_test :: "string \<Rightarrow> string \<Rightarrow> ('c \<Rightarrow> ('s, unit) io) \<Rightarrow> ('c, 's) TestRunner \<Rightarrow> ('c, 's) TestRunner" where
  "add_test name rfc_ref fn r = TestRunner_add \<lparr>ct_name = name, ct_rfc_ref = rfc_ref, ct_fn = fn\<rparr> r"

type_synonym 'w runner3 = "(TestCtx, 'w nfs3_state) TestRunner"

definition register_basic_tests :: "'w os \<Rightarrow> 'w runner3 \<Rightarrow> 'w runner3" where
  "register_basic_tests os =
     (let sec = ''RFC 1813 '' @ section_sign in steps [
     add_test ''Basic.LookupExistingFile'' (sec @ ''3.3.14'') (test_lookup_existing os),
     add_test ''Basic.LookupNonExistent'' (sec @ ''3.3.14'') (test_lookup_noent os),
     add_test ''Basic.LookupOnNonDirectory'' (sec @ ''3.3.14'') (test_lookup_notdir os),
     add_test ''Basic.ReadExactSize'' (sec @ ''3.3.6'') (test_read_exact_size os),
     add_test ''Basic.ReadPastEof'' (sec @ ''3.3.6'') (test_read_past_eof os),
     add_test ''Basic.WriteFileSyncCount'' (sec @ ''3.3.7'') (test_write_filesync_count os),
     add_test ''Basic.WriteThenGetattr'' (sec @ ''3.3.7'') (test_write_then_getattr os),
     add_test ''Basic.CreateGuardedDuplicate'' (sec @ ''3.3.8'') (test_create_guarded_duplicate os),
     add_test ''Basic.CreateExclusiveIdempotent'' (sec @ ''3.3.8'') (test_create_exclusive_idempotent os),
     add_test ''Basic.RemoveNonExistent'' (sec @ ''3.3.12'') (test_remove_noent os),
     add_test ''Basic.RenameAcrossDirectories'' (sec @ ''3.3.14'') (test_rename_across_dirs os)])"

subsection \<open>Write consistency\<close>

definition test_write_pre_op_size :: "'w os \<Rightarrow> 'w test3" where
  "test_write_pre_op_size os ctx =
     io_bind (create3 os (cx_workdir_fh ctx) (bytes_of ''w_pre_size.txt'')) (\<lambda>fh.
     let first = bytes_of ''initial'' in
     io_then (NFSClient_write os fh 0 FILE_SYNC first)
     (io_bind (NFSClient_getattr os fh) (\<lambda>before.
     let extra = bytes_of ''extra data appended'' in
     io_then (NFSClient_write os fh (fa_size before) FILE_SYNC extra)
     (io_bind (NFSClient_getattr os fh) (\<lambda>after.
     io_then (CHECK ''after.size > before.size'' ''test_wcc.cpp:32'' (fa_size after > fa_size before))
     (io_then (CHECK ''after.size == before.size + extra.size()'' ''test_wcc.cpp:33''
       (fa_size after = fa_size before + size_u64 extra))
     (NFSClient_remove os (cx_workdir_fh ctx) (bytes_of ''w_pre_size.txt''))))))))"

definition test_write_post_op_size :: "'w os \<Rightarrow> 'w test3" where
  "test_write_post_op_size os ctx =
     io_bind (create3 os (cx_workdir_fh ctx) (bytes_of ''w_post_size.txt'')) (\<lambda>fh.
     let payload = bytes_of ''hello world'' in
     io_then (NFSClient_write os fh 0 FILE_SYNC payload)
     (io_bind (NFSClient_getattr os fh) (\<lambda>attrs.
     io_then (CHECK ''attrs.size == payload.size()'' ''test_wcc.cpp:46'' (fa_size attrs = size_u64 payload))
     (NFSClient_remove os (cx_workdir_fh ctx) (bytes_of ''w_post_size.txt'')))))"

text \<open>\<open>nfstime_ns\<close>, and the same expression written out in \<open>test_create_post_op_dir_mtime\<close>\<close>

definition nfstime_ns :: "Nfstime3 \<Rightarrow> u64" where
  "nfstime_ns t = ucast (nt_seconds t) * 1000000000 + ucast (nt_nseconds t)"

definition test_create_post_op_dir_mtime :: "'w os \<Rightarrow> 'w test3" where
  "test_create_post_op_dir_mtime os ctx =
     io_bind (NFSClient_getattr os (cx_workdir_fh ctx)) (\<lambda>before.
     io_then (create3 os (cx_workdir_fh ctx) (bytes_of ''w_dir_mtime.txt''))
     (io_bind (NFSClient_getattr os (cx_workdir_fh ctx)) (\<lambda>after.
     let mt_before = nfstime_ns (fa_mtime before);
         mt_after = nfstime_ns (fa_mtime after) in
     io_then (CHECK ''mt_after >= mt_before'' ''test_wcc.cpp:65'' (mt_after \<ge> mt_before))
     (NFSClient_remove os (cx_workdir_fh ctx) (bytes_of ''w_dir_mtime.txt'')))))"

definition test_remove_post_op_dir_nlink :: "'w os \<Rightarrow> 'w test3" where
  "test_remove_post_op_dir_nlink os ctx =
     io_bind (NFSClient_getattr os (cx_workdir_fh ctx)) (\<lambda>before.
     io_then (mkdir3 os (cx_workdir_fh ctx) (bytes_of ''w_rmdir_nlink''))
     (io_bind (NFSClient_getattr os (cx_workdir_fh ctx)) (\<lambda>mid.
     io_then (CHECK ''mid.nlink > before.nlink'' ''test_wcc.cpp:75'' (fa_nlink mid > fa_nlink before))
     (io_then (NFSClient_rmdir os (cx_workdir_fh ctx) (bytes_of ''w_rmdir_nlink''))
     (io_bind (NFSClient_getattr os (cx_workdir_fh ctx)) (\<lambda>after.
     CHECK ''after.nlink == before.nlink'' ''test_wcc.cpp:79'' (fa_nlink after = fa_nlink before)))))))"

definition register_wcc_tests :: "'w os \<Rightarrow> 'w runner3 \<Rightarrow> 'w runner3" where
  "register_wcc_tests os =
     (let sec = ''RFC 1813 '' @ section_sign @ ''2.6'' in steps [
     add_test ''WCC.WritePreOpSize'' sec (test_write_pre_op_size os),
     add_test ''WCC.WritePostOpSize'' sec (test_write_post_op_size os),
     add_test ''WCC.CreatePostOpDirMtime'' sec (test_create_post_op_dir_mtime os),
     add_test ''WCC.RemovePostOpDirNlink'' sec (test_remove_post_op_dir_nlink os)])"

subsection \<open>Commit and the write verifier\<close>

definition test_unstable_write_commit :: "'w os \<Rightarrow> 'w test3" where
  "test_unstable_write_commit os ctx =
     io_bind (create3 os (cx_workdir_fh ctx) (bytes_of ''c_unstable.txt'')) (\<lambda>fh.
     let payload = bytes_of ''unstable data'' in
     io_then (NFSClient_write os fh 0 UNSTABLE payload)
     (io_bind (NFSClient_commit os fh 0 0) (\<lambda>verf.
     NFSClient_remove os (cx_workdir_fh ctx) (bytes_of ''c_unstable.txt''))))"

definition test_commit_verifier_consistency :: "'w os \<Rightarrow> 'w test3" where
  "test_commit_verifier_consistency os ctx =
     io_bind (create3 os (cx_workdir_fh ctx) (bytes_of ''c_verf_consistency.txt'')) (\<lambda>fh.
     let payload = bytes_of ''verifier test'' in
     io_then (NFSClient_write os fh 0 UNSTABLE payload)
     (io_bind (NFSClient_commit os fh 0 0) (\<lambda>v1.
     io_bind (NFSClient_commit os fh 0 0) (\<lambda>v2.
     io_then (CHECK ''v1 == v2'' ''test_commit.cpp:40'' (v1 = v2))
     (NFSClient_remove os (cx_workdir_fh ctx) (bytes_of ''c_verf_consistency.txt''))))))"

definition test_filesync_committed :: "'w os \<Rightarrow> 'w test3" where
  "test_filesync_committed os ctx =
     io_bind (create3 os (cx_workdir_fh ctx) (bytes_of ''c_filesync.txt'')) (\<lambda>fh.
     let payload = bytes_of ''filesync committed'' in
     io_bind (NFSClient_write os fh 0 FILE_SYNC payload) (\<lambda>r.
     io_then (CHECK ''static_cast<uint32_t>(r.committed) >= static_cast<uint32_t>(Stable3::FILE_SYNC)''
       ''test_commit.cpp:53'' (wr_committed r \<ge> FILE_SYNC))
     (NFSClient_remove os (cx_workdir_fh ctx) (bytes_of ''c_filesync.txt''))))"

definition test_exclusive_create_same_verifier :: "'w os \<Rightarrow> 'w test3" where
  "test_exclusive_create_same_verifier os ctx =
     (let verf = [0xAB, 0xCD, 0xEF, 0x01, 0x23, 0x45, 0x67, 0x89] in
     io_bind (NFSClient_create_exclusive os (cx_workdir_fh ctx) (bytes_of ''c_excl_same.txt'') verf) (\<lambda>fh1.
     io_bind (NFSClient_create_exclusive os (cx_workdir_fh ctx) (bytes_of ''c_excl_same.txt'') verf) (\<lambda>fh2.
     io_bind (NFSClient_getattr os fh1) (\<lambda>a1.
     io_bind (NFSClient_getattr os fh2) (\<lambda>a2.
     io_then (CHECK ''a1.fileid == a2.fileid'' ''test_commit.cpp:69'' (fa_fileid a1 = fa_fileid a2))
     (NFSClient_remove os (cx_workdir_fh ctx) (bytes_of ''c_excl_same.txt'')))))))"

definition test_exclusive_create_diff_verifier :: "'w os \<Rightarrow> 'w test3" where
  "test_exclusive_create_diff_verifier os ctx =
     (let verf1 = [0x11, 0x22, 0x33, 0x44, 0x55, 0x66, 0x77, 0x88];
          verf2 = [0x99, 0xAA, 0xBB, 0xCC, 0xDD, 0xEE, 0xFF, 0x00] in
     io_then (NFSClient_create_exclusive os (cx_workdir_fh ctx) (bytes_of ''c_excl_diff.txt'') verf1)
     (io_then (EXPECT_NFS_ERR
       (NFSClient_create_exclusive os (cx_workdir_fh ctx) (bytes_of ''c_excl_diff.txt'') verf2)
       NFS3ERR_EXIST ''Nfsstat3::NFS3ERR_EXIST'')
     (NFSClient_remove os (cx_workdir_fh ctx) (bytes_of ''c_excl_diff.txt''))))"

definition register_commit_tests :: "'w os \<Rightarrow> 'w runner3 \<Rightarrow> 'w runner3" where
  "register_commit_tests os = steps [
     add_test ''Commit.UnstableWriteThenCommit'' (''RFC 1813 '' @ section_sign @ ''3.3.21'') (test_unstable_write_commit os),
     add_test ''Commit.VerifierConsistency'' (''RFC 1813 '' @ section_sign @ ''3.3.21'') (test_commit_verifier_consistency os),
     add_test ''Commit.FileSyncCommitted'' (''RFC 1813 '' @ section_sign @ ''3.3.7'') (test_filesync_committed os),
     add_test ''ExclCreate.SameVerifierIdempotent'' (''RFC 1813 '' @ section_sign @ ''3.3.8'')
       (test_exclusive_create_same_verifier os),
     add_test ''ExclCreate.DiffVerifierExist'' (''RFC 1813 '' @ section_sign @ ''3.3.8'')
       (test_exclusive_create_diff_verifier os)]"

subsection \<open>Attributes\<close>

definition test_mtime_after_write :: "'w os \<Rightarrow> 'w test3" where
  "test_mtime_after_write os ctx =
     io_bind (create3 os (cx_workdir_fh ctx) (bytes_of ''a_mtime.txt'')) (\<lambda>fh.
     io_bind (NFSClient_getattr os fh) (\<lambda>before.
     let payload = bytes_of ''mtime test data'' in
     io_then (NFSClient_write os fh 0 FILE_SYNC payload)
     (io_bind (NFSClient_getattr os fh) (\<lambda>after.
     io_then (CHECK ''nfstime_ns(after.mtime) >= nfstime_ns(before.mtime)'' ''test_attributes.cpp:27''
       (nfstime_ns (fa_mtime after) \<ge> nfstime_ns (fa_mtime before)))
     (NFSClient_remove os (cx_workdir_fh ctx) (bytes_of ''a_mtime.txt''))))))"

definition test_ctime_after_setattr :: "'w os \<Rightarrow> 'w test3" where
  "test_ctime_after_setattr os ctx =
     io_bind (create3 os (cx_workdir_fh ctx) (bytes_of ''a_ctime.txt'')) (\<lambda>fh.
     io_bind (NFSClient_getattr os fh) (\<lambda>before.
     let s = Sattr3_default\<lparr>sa_set_mode := True, sa_mode := 0x180\<rparr> in
     io_then (setattr3 os fh s)
     (io_bind (NFSClient_getattr os fh) (\<lambda>after.
     io_then (CHECK ''nfstime_ns(after.ctime) >= nfstime_ns(before.ctime)'' ''test_attributes.cpp:43''
       (nfstime_ns (fa_ctime after) \<ge> nfstime_ns (fa_ctime before)))
     (NFSClient_remove os (cx_workdir_fh ctx) (bytes_of ''a_ctime.txt''))))))"

definition test_nlink_after_link :: "'w os \<Rightarrow> 'w test3" where
  "test_nlink_after_link os ctx =
     io_bind (create3 os (cx_workdir_fh ctx) (bytes_of ''a_nlink_src.txt'')) (\<lambda>fh.
     io_bind (NFSClient_getattr os fh) (\<lambda>before.
     io_then (NFSClient_link os fh (cx_workdir_fh ctx) (bytes_of ''a_nlink_hardlink.txt''))
     (io_bind (NFSClient_getattr os fh) (\<lambda>after.
     io_then (CHECK ''after.nlink == before.nlink + 1'' ''test_attributes.cpp:55''
       (fa_nlink after = fa_nlink before + 1))
     (io_then (NFSClient_remove os (cx_workdir_fh ctx) (bytes_of ''a_nlink_hardlink.txt''))
     (NFSClient_remove os (cx_workdir_fh ctx) (bytes_of ''a_nlink_src.txt'')))))))"

definition test_nlink_after_remove :: "'w os \<Rightarrow> 'w test3" where
  "test_nlink_after_remove os ctx =
     io_bind (create3 os (cx_workdir_fh ctx) (bytes_of ''a_nlink_rem.txt'')) (\<lambda>fh.
     io_then (NFSClient_link os fh (cx_workdir_fh ctx) (bytes_of ''a_nlink_rem2.txt''))
     (io_bind (NFSClient_getattr os fh) (\<lambda>before.
     io_then (CHECK ''before.nlink >= 2u'' ''test_attributes.cpp:66'' (fa_nlink before \<ge> 2))
     (io_then (NFSClient_remove os (cx_workdir_fh ctx) (bytes_of ''a_nlink_rem2.txt''))
     (io_bind (NFSClient_getattr os fh) (\<lambda>after.
     io_then (CHECK ''after.nlink == before.nlink - 1'' ''test_attributes.cpp:70''
       (fa_nlink after = fa_nlink before - 1))
     (NFSClient_remove os (cx_workdir_fh ctx) (bytes_of ''a_nlink_rem.txt''))))))))"

definition test_size_after_truncate :: "'w os \<Rightarrow> 'w test3" where
  "test_size_after_truncate os ctx =
     io_bind (create3 os (cx_workdir_fh ctx) (bytes_of ''a_truncate.txt'')) (\<lambda>fh.
     let payload = bytes_of ''data to be truncated'' in
     io_then (NFSClient_write os fh 0 FILE_SYNC payload)
     (let s = Sattr3_default\<lparr>sa_set_size := True, sa_size := 0\<rparr> in
     io_then (setattr3 os fh s)
     (io_bind (NFSClient_getattr os fh) (\<lambda>attrs.
     io_then (CHECK ''attrs.size == 0u'' ''test_attributes.cpp:87'' (fa_size attrs = 0))
     (NFSClient_remove os (cx_workdir_fh ctx) (bytes_of ''a_truncate.txt''))))))"

definition register_attribute_tests :: "'w os \<Rightarrow> 'w runner3 \<Rightarrow> 'w runner3" where
  "register_attribute_tests os =
     (let sec = ''RFC 1813 '' @ section_sign @ ''2.5'' in steps [
     add_test ''Attributes.MtimeAfterWrite'' sec (test_mtime_after_write os),
     add_test ''Attributes.CtimeAfterSetattr'' sec (test_ctime_after_setattr os),
     add_test ''Attributes.NlinkAfterLink'' sec (test_nlink_after_link os),
     add_test ''Attributes.NlinkAfterRemove'' sec (test_nlink_after_remove os),
     add_test ''Attributes.SizeAfterTruncate'' sec (test_size_after_truncate os)])"

subsection \<open>Permissions\<close>

text \<open>
  A second client with the identity of an ordinary user, connected while the test runs and closed when the test's
  scope ends, by a return or by an exception.
\<close>

definition make_unprivileged_client :: "'w os \<Rightarrow> 'w test_env \<Rightarrow> string \<Rightarrow> ('w, NFSClient) io" where
  "make_unprivileged_client os env server =
     io_bind (NFSClient_ctor os server) (\<lambda>c.
     io_bind (io_call (te_time env)) (\<lambda>stamp.
     io_return (NFSClient_set_auth_sys (AuthSys_default\<lparr>au_stamp := stamp,
       au_machinename := bytes_of ''nfsclient-compliance'', au_uid := 1001, au_gid := 1001\<rparr>) c)))"

type_synonym 'w two_clients = "NFSClient \<times> 'w nfs3_state"

definition on_root :: "('w nfs3_state, 'a) io \<Rightarrow> ('w two_clients, 'a) io" where
  "on_root = io_zoom snd (\<lambda>s (u, _). (u, s))"

definition on_unpriv :: "('w nfs3_state, 'a) io \<Rightarrow> ('w two_clients, 'a) io" where
  "on_unpriv = io_zoom (\<lambda>(u, (c, w)). (u, w)) (\<lambda>(u, w) (_, (c, _)). (u, (c, w)))"

definition with_unprivileged ::
  "'w os \<Rightarrow> 'w test_env \<Rightarrow> string \<Rightarrow> ('w two_clients, 'a) io \<Rightarrow> ('w nfs3_state, 'a) io" where
  "with_unprivileged os env server body =
     (\<lambda>(c, w). case make_unprivileged_client os env server w of
        None \<Rightarrow> None
      | Some (Inl e, w1) \<Rightarrow> Some (Inl e, (c, w1))
      | Some (Inr unpriv, w1) \<Rightarrow>
          map_option (\<lambda>(r, (u, (c', w2))). (r, (c', rpc_destroy os (c3_conn u) w2))) (body (unpriv, (c, w1))))"

definition test_setattr_mode0000_read :: "'w os \<Rightarrow> 'w test_env \<Rightarrow> 'w test3" where
  "test_setattr_mode0000_read os env ctx =
     io_bind (create3 os (cx_workdir_fh ctx) (bytes_of ''p_mode0000.txt'')) (\<lambda>fh.
     let payload = bytes_of ''secret content'' in
     io_then (NFSClient_write os fh 0 FILE_SYNC payload)
     (let s = Sattr3_default\<lparr>sa_set_mode := True, sa_mode := 0\<rparr> in
     io_then (setattr3 os fh s)
     (with_unprivileged os env (cx_server ctx) (
     io_then (EXPECT_NFS_ERR
       (on_unpriv (NFSClient_read os fh 0 512))
       NFS3ERR_ACCES ''Nfsstat3::NFS3ERR_ACCES'')
     (let s = s\<lparr>sa_mode := 0x1A4\<rparr> in
     io_then (on_root (setattr3 os fh s))
     (on_root (NFSClient_remove os (cx_workdir_fh ctx) (bytes_of ''p_mode0000.txt''))))))))"

definition test_access_on_unreadable_file :: "'w os \<Rightarrow> 'w test_env \<Rightarrow> 'w test3" where
  "test_access_on_unreadable_file os env ctx =
     io_bind (create3 os (cx_workdir_fh ctx) (bytes_of ''p_access_unread.txt'')) (\<lambda>fh.
     let s = Sattr3_default\<lparr>sa_set_mode := True, sa_mode := 0\<rparr> in
     io_then (setattr3 os fh s)
     (with_unprivileged os env (cx_server ctx) (
     io_bind (on_unpriv (NFSClient_access os fh ACCESS3_READ)) (\<lambda>granted.
     io_then (CHECK ''(granted & nfs3::ACCESS3_READ) == 0u'' ''test_permissions.cpp:68''
       (granted AND ACCESS3_READ = 0))
     (let s = s\<lparr>sa_mode := 0x1A4\<rparr> in
     io_then (on_root (setattr3 os fh s))
     (on_root (NFSClient_remove os (cx_workdir_fh ctx) (bytes_of ''p_access_unread.txt''))))))))"

definition test_root_bypass_readonly :: "'w os \<Rightarrow> 'w test3" where
  "test_root_bypass_readonly os ctx =
     io_bind (create3 os (cx_workdir_fh ctx) (bytes_of ''p_root_bypass.txt'')) (\<lambda>fh.
     let payload = bytes_of ''root bypass test'' in
     io_then (NFSClient_write os fh 0 FILE_SYNC payload)
     (let s = Sattr3_default\<lparr>sa_set_mode := True, sa_mode := 0\<rparr> in
     io_then (setattr3 os fh s)
     (io_bind (NFSClient_read os fh 0 (size_u32 payload)) (\<lambda>data.
     io_then (CHECK ''data.size() == payload.size()'' ''test_permissions.cpp:90'' (length data = length payload))
     (let s = s\<lparr>sa_mode := 0x1A4\<rparr> in
     io_then (setattr3 os fh s)
     (NFSClient_remove os (cx_workdir_fh ctx) (bytes_of ''p_root_bypass.txt'')))))))"

definition register_permission_tests :: "'w os \<Rightarrow> 'w test_env \<Rightarrow> 'w runner3 \<Rightarrow> 'w runner3" where
  "register_permission_tests os env =
     (let sec = ''RFC 1813 '' @ section_sign @ ''3.3.4'' in steps [
     add_test ''Permission.SetattrMode0000Read'' sec (test_setattr_mode0000_read os env),
     add_test ''Permission.AccessOnUnreadableFile'' sec (test_access_on_unreadable_file os env),
     add_test ''Permission.RootBypassReadOnly'' sec (test_root_bypass_readonly os)])"

subsection \<open>Stale file handles\<close>

definition test_read_on_deleted_file :: "'w os \<Rightarrow> 'w test3" where
  "test_read_on_deleted_file os ctx =
     io_bind (create3 os (cx_workdir_fh ctx) (bytes_of ''s_stale_file.txt'')) (\<lambda>fh.
     let payload = bytes_of ''will be deleted'' in
     io_then (NFSClient_write os fh 0 FILE_SYNC payload)
     (io_then (NFSClient_remove os (cx_workdir_fh ctx) (bytes_of ''s_stale_file.txt''))
     (EXPECT_NFS_ERR
       (NFSClient_read os fh 0 512)
       NFS3ERR_STALE ''Nfsstat3::NFS3ERR_STALE'')))"

definition test_lookup_in_deleted_dir :: "'w os \<Rightarrow> 'w test3" where
  "test_lookup_in_deleted_dir os ctx =
     io_bind (mkdir3 os (cx_workdir_fh ctx) (bytes_of ''s_stale_dir'')) (\<lambda>dir_fh.
     io_then (create3 os dir_fh (bytes_of ''inside.txt''))
     (io_then (NFSClient_remove os dir_fh (bytes_of ''inside.txt''))
     (io_then (NFSClient_rmdir os (cx_workdir_fh ctx) (bytes_of ''s_stale_dir''))
     (EXPECT_NFS_ERR
       (NFSClient_lookup os dir_fh (bytes_of ''anything''))
       NFS3ERR_STALE ''Nfsstat3::NFS3ERR_STALE''))))"

definition register_stale_tests :: "'w os \<Rightarrow> 'w runner3 \<Rightarrow> 'w runner3" where
  "register_stale_tests os =
     (let sec = ''RFC 1813 '' @ section_sign @ ''2.5'' in steps [
     add_test ''Stale.ReadOnDeletedFile'' sec (test_read_on_deleted_file os),
     add_test ''Stale.LookupInDeletedDir'' sec (test_lookup_in_deleted_dir os)])"

subsection \<open>Edge cases\<close>

definition test_zero_byte_read :: "'w os \<Rightarrow> 'w test3" where
  "test_zero_byte_read os ctx =
     io_bind (create3 os (cx_workdir_fh ctx) (bytes_of ''e_zero_read.txt'')) (\<lambda>fh.
     let payload = bytes_of ''some data'' in
     io_then (NFSClient_write os fh 0 FILE_SYNC payload)
     (io_bind (NFSClient_read os fh 0 0) (\<lambda>data.
     io_then (CHECK ''data.empty()'' ''test_edge_cases.cpp:22'' (data = []))
     (NFSClient_remove os (cx_workdir_fh ctx) (bytes_of ''e_zero_read.txt'')))))"

definition test_zero_byte_write :: "'w os \<Rightarrow> 'w test3" where
  "test_zero_byte_write os ctx =
     io_bind (create3 os (cx_workdir_fh ctx) (bytes_of ''e_zero_write.txt'')) (\<lambda>fh.
     io_bind (NFSClient_write os fh 0 FILE_SYNC []) (\<lambda>r.
     io_then (CHECK ''r.count == 0u'' ''test_edge_cases.cpp:31'' (wr_count r = 0))
     (NFSClient_remove os (cx_workdir_fh ctx) (bytes_of ''e_zero_write.txt''))))"

definition test_max_filename_255 :: "'w os \<Rightarrow> 'w test3" where
  "test_max_filename_255 os ctx =
     (let name = bytes_of (replicate 255 (CHR ''x'')) in
     io_bind (create3 os (cx_workdir_fh ctx) name) (\<lambda>fh.
     io_bind (NFSClient_getattr os fh) (\<lambda>attrs.
     io_then (CHECK ''attrs.type == Ftype3::NF3REG'' ''test_edge_cases.cpp:42'' (fa_type attrs = NF3REG))
     (NFSClient_remove os (cx_workdir_fh ctx) name))))"

definition test_filename_256_nametoolong :: "'w os \<Rightarrow> 'w test3" where
  "test_filename_256_nametoolong os ctx =
     (let name = bytes_of (replicate 256 (CHR ''y'')) in
     EXPECT_NFS_ERR
       (create3 os (cx_workdir_fh ctx) name)
       NFS3ERR_NAMETOOLONG ''Nfsstat3::NFS3ERR_NAMETOOLONG'')"

text \<open>The loop that fills the file; \<open>buf\<close> has \<open>chunk\<close> bytes.\<close>

partial_function (option) rtmax_fill ::
  "'w os \<Rightarrow> Fh3 \<Rightarrow> u32 \<Rightarrow> byte list \<Rightarrow> u32 \<Rightarrow> u64 \<Rightarrow> 'w nfs3_state \<Rightarrow> ((error + unit) \<times> 'w nfs3_state) option" where
  "rtmax_fill os fh chunk buf file_size written s =
     (if written < ucast file_size then
        (let n = (ucast (min (ucast chunk) (ucast file_size - written :: u64)) :: u32) in
         io_then (NFSClient_write os fh written FILE_SYNC (take (unat n) buf))
         (rtmax_fill os fh chunk buf file_size (written + ucast n)) s)
      else io_return () s)"

definition test_read_count_gt_rtmax :: "'w os \<Rightarrow> 'w test3" where
  "test_read_count_gt_rtmax os ctx =
     io_bind (NFSClient_fsinfo os (cx_root_fh ctx)) (\<lambda>info.
     let rtmax = fsi_rtmax info;
         chunk = min (fsi_wtmax info) 65536 in
     io_bind (create3 os (cx_workdir_fh ctx) (bytes_of ''e_rtmax.txt'')) (\<lambda>fh.
     let file_size = rtmax + 4096;
         buf = replicate (unat chunk) 0xAB in
     io_then (rtmax_fill os fh chunk buf file_size 0)
     (io_bind (NFSClient_read os fh 0 file_size) (\<lambda>data.
     io_then (CHECK ''!data.empty()'' ''test_edge_cases.cpp:76'' (data \<noteq> []))
     (io_then (CHECK ''data.size() <= file_size'' ''test_edge_cases.cpp:77'' (length data \<le> unat file_size))
     (NFSClient_remove os (cx_workdir_fh ctx) (bytes_of ''e_rtmax.txt'')))))))"

definition test_readdir_bad_cookieverf :: "'w os \<Rightarrow> 'w test3" where
  "test_readdir_bad_cookieverf os ctx =
     io_then (create3 os (cx_workdir_fh ctx) (bytes_of ''e_rc_file1.txt''))
     (io_then (create3 os (cx_workdir_fh ctx) (bytes_of ''e_rc_file2.txt''))
     (let zero_cv = replicate 8 0 in
     io_bind (NFSClient_readdir_page os (cx_workdir_fh ctx) 0 zero_cv 512) (\<lambda>page1.
     let bad_cv = replicate 8 0xFF in
     io_then (EXPECT_NFS_ERR
       (NFSClient_readdir_page os (cx_workdir_fh ctx) 1 bad_cv 512)
       NFS3ERR_BAD_COOKIE ''Nfsstat3::NFS3ERR_BAD_COOKIE'')
     (io_then (NFSClient_remove os (cx_workdir_fh ctx) (bytes_of ''e_rc_file1.txt''))
     (NFSClient_remove os (cx_workdir_fh ctx) (bytes_of ''e_rc_file2.txt''))))))"

definition register_edge_case_tests :: "'w os \<Rightarrow> 'w runner3 \<Rightarrow> 'w runner3" where
  "register_edge_case_tests os = steps [
     add_test ''EdgeCase.ZeroByteRead'' (''RFC 1813 '' @ section_sign @ ''3.3.6'') (test_zero_byte_read os),
     add_test ''EdgeCase.ZeroByteWrite'' (''RFC 1813 '' @ section_sign @ ''3.3.7'') (test_zero_byte_write os),
     add_test ''EdgeCase.MaxFilename255'' (''RFC 1813 '' @ section_sign @ ''2.5'') (test_max_filename_255 os),
     add_test ''EdgeCase.Filename256NameTooLong'' (''RFC 1813 '' @ section_sign @ ''2.5'')
       (test_filename_256_nametoolong os),
     add_test ''EdgeCase.ReadCountGtRtmax'' (''RFC 1813 '' @ section_sign @ ''3.3.19'') (test_read_count_gt_rtmax os),
     add_test ''EdgeCase.ReaddirBadCookieverf'' (''RFC 1813 '' @ section_sign @ ''3.3.16'')
       (test_readdir_bad_cookieverf os)]"

end
