(* ===== verification/Compliance_Fs.thy ===== *)
theory Compliance_Fs
  imports Nfs3_Server Compliance_Tests
begin

text \<open>
  What the compliance tests want the procedures to do: RFC 1813, and besides full-length reads and writes, names of up to
  255 bytes and none longer, links for subdirectories, and the attributes that are optional. A file system is a map from
  handles to objects, and a procedure is a function on it that gives a result or a status. What a server is free
  to choose (the handle and the identity of a new object, the time, a page of a listing) is in a \<open>choice\<close>.
\<close>

subsection \<open>Objects\<close>

record node =
  nd_attr :: Fattr3
  nd_data :: "byte list"
  nd_names :: "cstring \<Rightarrow> Fh3 option"
  nd_verf :: "byte list option"

type_synonym fs = "Fh3 \<Rightarrow> node option"

record choice =
  ch_fh :: Fh3
  ch_attr :: Fattr3
  ch_time :: Nfstime3
  ch_level :: u32
  ch_page :: ReaddirPage

text \<open>What a server does not change while it is up.\<close>

record service =
  sv_info :: FsinfoResult
  sv_verf :: "byte list"
  sv_cookieverf :: "byte list"

definition is_dir :: "node \<Rightarrow> bool" where
  "is_dir n \<longleftrightarrow> fa_type (nd_attr n) = NF3DIR"

definition new_node :: "choice \<Rightarrow> Ftype3 \<Rightarrow> byte list option \<Rightarrow> node" where
  "new_node ch ty verf =
     \<lparr>nd_attr = (ch_attr ch)\<lparr>fa_type := ty, fa_nlink := (if ty = NF3DIR then 2 else 1), fa_size := 0,
        fa_mtime := ch_time ch, fa_ctime := ch_time ch\<rparr>,
      nd_data = [], nd_names = (\<lambda>_. None), nd_verf = verf\<rparr>"

definition add_links :: "u32 \<Rightarrow> node \<Rightarrow> node" where
  "add_links k n = n\<lparr>nd_attr := (nd_attr n)\<lparr>fa_nlink := fa_nlink (nd_attr n) + k\<rparr>\<rparr>"

text \<open>An entry of a directory is set or removed.\<close>

definition set_name :: "choice \<Rightarrow> cstring \<Rightarrow> Fh3 option \<Rightarrow> node \<Rightarrow> node" where
  "set_name ch name fh n =
     n\<lparr>nd_names := (nd_names n)(name := fh), nd_attr := (nd_attr n)\<lparr>fa_mtime := ch_time ch, fa_ctime := ch_time ch\<rparr>\<rparr>"

definition set_data :: "choice \<Rightarrow> byte list \<Rightarrow> node \<Rightarrow> node" where
  "set_data ch d n =
     n\<lparr>nd_data := d, nd_attr := (nd_attr n)\<lparr>fa_size := word_of_nat (length d),
       fa_mtime := ch_time ch, fa_ctime := ch_time ch\<rparr>\<rparr>"

definition put_at :: "nat \<Rightarrow> byte list \<Rightarrow> byte list \<Rightarrow> byte list" where
  "put_at off d data = take off data @ replicate (off - length data) 0 @ d @ drop (off + length d) data"

subsection \<open>Procedures\<close>

abbreviation status :: "Nfsstat3 \<Rightarrow> u32 + 'a" where
  "status st \<equiv> Inl (Nfsstat3_value st)"

definition fs_getattr :: "Fh3 \<Rightarrow> fs \<Rightarrow> u32 + Fattr3" where
  "fs_getattr fh fs = (case fs fh of None \<Rightarrow> status NFS3ERR_STALE | Some n \<Rightarrow> Inr (nd_attr n))"

definition fs_dir :: "Fh3 \<Rightarrow> fs \<Rightarrow> u32 + node" where
  "fs_dir dir fs =
     (case fs dir of None \<Rightarrow> status NFS3ERR_STALE
      | Some n \<Rightarrow> if is_dir n then Inr n else status NFS3ERR_NOTDIR)"

definition fs_lookup :: "Fh3 \<Rightarrow> cstring \<Rightarrow> fs \<Rightarrow> u32 + Fh3" where
  "fs_lookup dir name fs =
     (case fs_dir dir fs of Inl st \<Rightarrow> Inl st
      | Inr n \<Rightarrow> (case nd_names n name of None \<Rightarrow> status NFS3ERR_NOENT | Some fh \<Rightarrow> Inr fh))"

definition fs_read :: "service \<Rightarrow> Fh3 \<Rightarrow> u64 \<Rightarrow> u32 \<Rightarrow> fs \<Rightarrow> u32 + byte list" where
  "fs_read sv fh off count fs =
     (case fs fh of None \<Rightarrow> status NFS3ERR_STALE
      | Some n \<Rightarrow> if is_dir n then status NFS3ERR_ISDIR else Inr (take (min (unat count) (unat (fsi_rtmax (sv_info sv)))) (drop (unat off) (nd_data n))))"

definition fs_write :: "service \<Rightarrow> choice \<Rightarrow> Fh3 \<Rightarrow> u64 \<Rightarrow> byte list \<Rightarrow> fs \<Rightarrow> (u32 + WriteResult) \<times> fs" where
  "fs_write sv ch fh off d fs =
     (case fs fh of None \<Rightarrow> (status NFS3ERR_STALE, fs)
      | Some n \<Rightarrow>
         if is_dir n then (status NFS3ERR_ISDIR, fs)
         else (Inr \<lparr>wr_count = word_of_nat (length d), wr_committed = ch_level ch, wr_verf = sv_verf sv\<rparr>,
           fs(fh \<mapsto> set_data ch (put_at (unat off) d (nd_data n)) n)))"

definition fs_setattr :: "choice \<Rightarrow> Fh3 \<Rightarrow> sattr3 \<Rightarrow> fs \<Rightarrow> (u32 + unit) \<times> fs" where
  "fs_setattr ch fh s fs =
     (case fs fh of None \<Rightarrow> (status NFS3ERR_STALE, fs)
      | Some n \<Rightarrow>
         let n1 = (case st3_size s of None \<Rightarrow> n
                   | Some z \<Rightarrow> set_data ch (take (unat z) (nd_data n) @ replicate (unat z - length (nd_data n)) 0) n);
             a = nd_attr n1 in
         (Inr (), fs(fh \<mapsto> n1\<lparr>nd_attr := a\<lparr>fa_mode := (case st3_mode s of None \<Rightarrow> fa_mode a | Some m \<Rightarrow> m),
            fa_ctime := ch_time ch\<rparr>\<rparr>)))"

text \<open>A name in a directory that is there, not too long, and not taken.\<close>

definition fs_new_name :: "Fh3 \<Rightarrow> cstring \<Rightarrow> fs \<Rightarrow> u32 + node" where
  "fs_new_name dir name fs =
     (case fs_dir dir fs of Inl st \<Rightarrow> Inl st
      | Inr n \<Rightarrow> if length name > 255 then status NFS3ERR_NAMETOOLONG
                 else if nd_names n name = None then Inr n else status NFS3ERR_EXIST)"

definition fs_make :: "choice \<Rightarrow> Fh3 \<Rightarrow> cstring \<Rightarrow> node \<Rightarrow> fs \<Rightarrow> (u32 + Fh3) \<times> fs" where
  "fs_make ch dir name obj fs =
     (case fs_new_name dir name fs of Inl st \<Rightarrow> (Inl st, fs)
      | Inr n \<Rightarrow> (Inr (ch_fh ch), fs(dir \<mapsto> set_name ch name (Some (ch_fh ch)) n, ch_fh ch \<mapsto> obj)))"

definition fs_mkdir :: "choice \<Rightarrow> Fh3 \<Rightarrow> cstring \<Rightarrow> fs \<Rightarrow> (u32 + Fh3) \<times> fs" where
  "fs_mkdir ch dir name fs =
     (case fs_new_name dir name fs of Inl st \<Rightarrow> (Inl st, fs)
      | Inr n \<Rightarrow> (Inr (ch_fh ch),
          fs(dir \<mapsto> add_links 1 (set_name ch name (Some (ch_fh ch)) n), ch_fh ch \<mapsto> new_node ch NF3DIR None)))"

text \<open>An exclusive create that finds the file it made earlier succeeds again.\<close>

definition fs_create_exclusive :: "choice \<Rightarrow> Fh3 \<Rightarrow> cstring \<Rightarrow> byte list \<Rightarrow> fs \<Rightarrow> (u32 + Fh3) \<times> fs" where
  "fs_create_exclusive ch dir name verf fs =
     (case fs_dir dir fs of
        Inr n \<Rightarrow>
          (case nd_names n name of
             Some fh \<Rightarrow> (if \<exists>f. fs fh = Some f \<and> nd_verf f = Some verf then Inr fh else status NFS3ERR_EXIST, fs)
           | None \<Rightarrow> fs_make ch dir name (new_node ch NF3REG (Some verf)) fs)
      | Inl st \<Rightarrow> (Inl st, fs))"

definition fs_entry :: "Fh3 \<Rightarrow> cstring \<Rightarrow> fs \<Rightarrow> u32 + node \<times> Fh3 \<times> node" where
  "fs_entry dir name fs =
     (case fs_dir dir fs of Inl st \<Rightarrow> Inl st
      | Inr n \<Rightarrow>
         (case nd_names n name of None \<Rightarrow> status NFS3ERR_NOENT
          | Some fh \<Rightarrow> (case fs fh of None \<Rightarrow> status NFS3ERR_STALE | Some x \<Rightarrow> Inr (n, fh, x))))"

definition fs_remove :: "choice \<Rightarrow> Fh3 \<Rightarrow> cstring \<Rightarrow> fs \<Rightarrow> (u32 + unit) \<times> fs" where
  "fs_remove ch dir name fs =
     (case fs_entry dir name fs of Inl st \<Rightarrow> (Inl st, fs)
      | Inr (n, fh, x) \<Rightarrow>
          (Inr (), fs(dir \<mapsto> set_name ch name None n,
                      fh := (if fa_nlink (nd_attr x) \<le> 1 then None else Some (add_links (- 1) x)))))"

definition names_dir :: "Fh3 \<Rightarrow> cstring \<Rightarrow> fs \<Rightarrow> bool" where
  "names_dir dir name fs = (case fs_entry dir name fs of Inl _ \<Rightarrow> False | Inr (n, fh, x) \<Rightarrow> is_dir x)"

definition fs_rmdir :: "choice \<Rightarrow> Fh3 \<Rightarrow> cstring \<Rightarrow> fs \<Rightarrow> (u32 + unit) \<times> fs" where
  "fs_rmdir ch dir name fs =
     (case fs_entry dir name fs of Inl st \<Rightarrow> (Inl st, fs)
      | Inr (n, fh, x) \<Rightarrow>
          if \<not> is_dir x then (status NFS3ERR_NOTDIR, fs)
          else if nd_names x \<noteq> (\<lambda>_. None) then (status NFS3ERR_NOTEMPTY, fs)
          else (Inr (), fs(dir \<mapsto> add_links (- 1) (set_name ch name None n), fh := None)))"

definition fs_link :: "choice \<Rightarrow> Fh3 \<Rightarrow> Fh3 \<Rightarrow> cstring \<Rightarrow> fs \<Rightarrow> (u32 + unit) \<times> fs" where
  "fs_link ch fh dir name fs =
     (case fs fh of None \<Rightarrow> (status NFS3ERR_STALE, fs)
      | Some x \<Rightarrow>
         (case fs_new_name dir name fs of Inl st \<Rightarrow> (Inl st, fs)
          | Inr n \<Rightarrow> (Inr (), fs(dir \<mapsto> set_name ch name (Some fh) n, fh \<mapsto> add_links 1 x))))"

text \<open>Renaming to a name that is not taken, between two directories.\<close>

definition fs_rename :: "choice \<Rightarrow> Fh3 \<Rightarrow> cstring \<Rightarrow> Fh3 \<Rightarrow> cstring \<Rightarrow> fs \<Rightarrow> (u32 + unit) \<times> fs" where
  "fs_rename ch dir name dir2 name2 fs =
     (case fs_entry dir name fs of Inl st \<Rightarrow> (Inl st, fs)
      | Inr (n, fh, x) \<Rightarrow>
         (case fs_new_name dir2 name2 fs of Inl st \<Rightarrow> (Inl st, fs)
          | Inr n2 \<Rightarrow> (Inr (), fs(dir \<mapsto> set_name ch name None n, dir2 \<mapsto> set_name ch name2 (Some fh) n2))))"

definition fs_commit :: "service \<Rightarrow> Fh3 \<Rightarrow> fs \<Rightarrow> u32 + byte list" where
  "fs_commit sv fh fs = (case fs fh of None \<Rightarrow> status NFS3ERR_STALE | Some n \<Rightarrow> Inr (sv_verf sv))"

definition fs_readdir :: "service \<Rightarrow> choice \<Rightarrow> Fh3 \<Rightarrow> u64 \<Rightarrow> byte list \<Rightarrow> fs \<Rightarrow> u32 + ReaddirPage" where
  "fs_readdir sv ch dir cookie cv fs =
     (case fs_dir dir fs of Inl st \<Rightarrow> Inl st
      | Inr n \<Rightarrow> if cookie \<noteq> 0 \<and> cv \<noteq> sv_cookieverf sv then status NFS3ERR_BAD_COOKIE else Inr (ch_page ch))"

text \<open>The procedures together. \<open>None\<close> leaves the server free: a request outside the ones above, a rename within one
  directory or of a directory, the removal of a directory as a file, a link to one, a write of more than the server's
  limit, a file made over an existing one.\<close>

fun fs_step :: "service \<Rightarrow> choice \<Rightarrow> request3 \<Rightarrow> fs \<Rightarrow> ((u32 + val3) \<times> fs) option" where
  "fs_step sv ch (Getattr3 fh) fs = Some (map_sum id Attr_v (fs_getattr fh fs), fs)"
| "fs_step sv ch (Lookup3 dir name) fs = Some (map_sum id Fh_v (fs_lookup dir name fs), fs)"
| "fs_step sv ch (Read3 fh off count) fs = Some (map_sum id Data_v (fs_read sv fh off count fs), fs)"
| "fs_step sv ch (Write3 fh off how d) fs =
     (if length d \<le> unat (fsi_wtmax (sv_info sv)) then Some (map_prod (map_sum id Written_v) id (fs_write sv ch fh off d fs))
      else None)"
| "fs_step sv ch (Setattr3 fh s g) fs =
     (if g = None then Some (map_prod (map_sum id (\<lambda>_. Unit_v)) id (fs_setattr ch fh s fs)) else None)"
| "fs_step sv ch (Create3 dir name guarded s) fs =
     (if guarded \<or> (case fs_lookup dir name fs of Inr _ \<Rightarrow> False | _ \<Rightarrow> True)
      then Some (map_prod (map_sum id Fh_v) id (fs_make ch dir name (new_node ch NF3REG None) fs)) else None)"
| "fs_step sv ch (Create_exclusive3 dir name verf) fs =
     Some (map_prod (map_sum id Fh_v) id (fs_create_exclusive ch dir name verf fs))"
| "fs_step sv ch (Mkdir3 dir name s) fs = Some (map_prod (map_sum id Fh_v) id (fs_mkdir ch dir name fs))"
| "fs_step sv ch (Remove3 dir name) fs =
     (if names_dir dir name fs then None else Some (map_prod (map_sum id (\<lambda>_. Unit_v)) id (fs_remove ch dir name fs)))"
| "fs_step sv ch (Rmdir3 dir name) fs = Some (map_prod (map_sum id (\<lambda>_. Unit_v)) id (fs_rmdir ch dir name fs))"
| "fs_step sv ch (Link3 fh dir name) fs =
     (if \<exists>n. fs fh = Some n \<and> is_dir n then None
      else Some (map_prod (map_sum id (\<lambda>_. Unit_v)) id (fs_link ch fh dir name fs)))"
| "fs_step sv ch (Rename3 dir name dir2 name2) fs =
     (if dir = dir2 \<or> names_dir dir name fs then None
      else Some (map_prod (map_sum id (\<lambda>_. Unit_v)) id (fs_rename ch dir name dir2 name2 fs)))"
| "fs_step sv ch (Commit3 fh off count) fs = Some (map_sum id Verf_v (fs_commit sv fh fs), fs)"
| "fs_step sv ch (Readdir3 dir cookie cv count) fs = Some (map_sum id Page_v (fs_readdir sv ch dir cookie cv fs), fs)"
| "fs_step sv ch (Fsinfo3 fh) fs = Some (Inr (Info_v (sv_info sv)), fs)"
| "fs_step sv ch req fs = None"

fun makes_object :: "request3 \<Rightarrow> bool" where
  "makes_object (Create3 dir name guarded s) = True"
| "makes_object (Create_exclusive3 dir name verf) = True"
| "makes_object (Mkdir3 dir name s) = True"
| "makes_object req = False"

end
