(* ===== verification/Compliance_Rules.thy ===== *)
theory Compliance_Rules
  imports Compliance_Fs
begin

text \<open>
  Running a test against a server that keeps to \<open>fs_step\<close>: a rule per operation that says what it returns and what
  it makes of the file system, and one per construct of the tests.
\<close>

subsection \<open>Preconditions\<close>

definition runs :: "('s, 'a) io \<Rightarrow> 's \<Rightarrow> (error + 'a \<Rightarrow> 's \<Rightarrow> bool) \<Rightarrow> bool" where
  "runs m s Q \<longleftrightarrow> (\<exists>r s'. m s = Some (r, s') \<and> Q r s')"

lemma runs_bind:
  "runs (io_bind m f) s Q \<longleftrightarrow> runs m s (\<lambda>r s'. case r of Inl e \<Rightarrow> Q (Inl e) s' | Inr x \<Rightarrow> runs (f x) s' Q)"
  by (auto simp: runs_def io_bind_Some_iff split: sum.split) (metis sum.exhaust)+

lemma runs_return: "runs (io_return x) s Q \<longleftrightarrow> Q (Inr x) s"
  by (simp add: runs_def io_return_def)

lemma runs_try: "runs (io_try m) s Q \<longleftrightarrow> runs m s (\<lambda>r s'. Q (Inr r) s')"
  by (auto simp: runs_def io_try_def)

lemma runs_throw_if: "runs (io_throw_if c e) s Q \<longleftrightarrow> (if c then Q (Inl e) s else Q (Inr ()) s)"
  by (simp add: runs_def io_throw_if_def)

lemma runs_CHECK: "c \<Longrightarrow> Q (Inr ()) s \<Longrightarrow> runs (CHECK expr loc c) s Q"
  by (simp add: CHECK_def runs_throw_if)

lemma runs_EXPECT:
  assumes "runs m s (\<lambda>r s'. (\<exists>proc. r = Inl (NfsError (Nfsstat3_value code) proc)) \<and> Q (Inr ()) s')"
  shows "runs (EXPECT_NFS_ERR m code cname) s Q"
  using assms by (auto simp: EXPECT_NFS_ERR_def runs_def io_bind_def io_try_def io_throw_if_def)

lemma runs_mono: "runs m s Q \<Longrightarrow> (\<And>r s'. Q r s' \<Longrightarrow> Q' r s') \<Longrightarrow> runs m s Q'"
  by (auto simp: runs_def)

subsection \<open>The server\<close>

text \<open>The requests of the tests, with handles, names and data of a size that every server takes.\<close>

fun small3 :: "call3 \<Rightarrow> bool" where
  "small3 (Getattr3 fh) = dir_ok fh"
| "small3 (Setattr3 fh s g) = dir_ok fh"
| "small3 (Lookup3 dir n) = (dir_ok dir \<and> length n \<le> 300)"
| "small3 (Read3 fh off count) = dir_ok fh"
| "small3 (Write3 fh off how d) = (dir_ok fh \<and> length d \<le> 65536)"
| "small3 (Create3 dir n g s) = (dir_ok dir \<and> length n \<le> 300)"
| "small3 (Create_exclusive3 dir n verf) = (dir_ok dir \<and> length n \<le> 300 \<and> length verf = 8)"
| "small3 (Mkdir3 dir n s) = (dir_ok dir \<and> length n \<le> 300)"
| "small3 (Remove3 dir n) = (dir_ok dir \<and> length n \<le> 300)"
| "small3 (Rmdir3 dir n) = (dir_ok dir \<and> length n \<le> 300)"
| "small3 (Rename3 dir n dir2 n2) = (dir_ok dir \<and> length n \<le> 300 \<and> dir_ok dir2 \<and> length n2 \<le> 300)"
| "small3 (Link3 fh dir n) = (dir_ok fh \<and> dir_ok dir \<and> length n \<le> 300)"
| "small3 (Readdir3 dir cookie cv count) = (dir_ok dir \<and> length cv = 8)"
| "small3 (Fsinfo3 fh) = dir_ok fh"
| "small3 (Commit3 fh off count) = dir_ok fh"
| "small3 req = False"

lemma length_small:
  "dir_ok fh \<Longrightarrow> length (wire_fh3 fh) \<le> 71"
  "length d \<le> k \<Longrightarrow> length (wire_opaque d) \<le> k + 7"
  "length (wire_sattr3 a) \<le> 60"
proof -
  show "length (wire_sattr3 a) \<le> 60"
    by (cases "st3_atime a"; cases "st3_mtime a"; cases "st3_mode a"; cases "st3_uid a"; cases "st3_gid a"; cases "st3_size a")
       (simp_all add: wire_sattr3_def wire_optional_def wire_set_time_def wire_time3_def)
qed (simp_all add: dir_ok_def wire_fh3_def length_wire_opaque xdr_pad_def)

lemmas args3_wire =
  encode_getattr_args_def encode_setattr_args_def encode_lookup_args_def encode_read_args_def encode_write_args_def
  encode_create_args_def encode_create_args_exclusive_def encode_mkdir_args_def encode_remove_args_def
  encode_rmdir_args_def encode_rename_args_def encode_link_args_def encode_readdir_args_def encode_fsinfo_args_def
  encode_commit_args_def

lemma small3_ok:
  assumes "small3 req"
  shows "call3_ok req" and "length (args3 req) < 2 ^ 30"
proof -
  show "call3_ok req" using assms by (cases req) (auto simp: dir_ok_wf name_ok_def)
  have nm: "length n \<le> 300 \<Longrightarrow> length (wire_opaque n) \<le> 307" for n using length_small(2) [of n 300] by simp
  have dt: "length n \<le> 65536 \<Longrightarrow> length (wire_opaque n) \<le> 65543" for n using length_small(2) [of n 65536] by simp
  note lens = length_small(1) nm dt
  show "length (args3 req) < 2 ^ 30"
  proof (cases req)
    case (Setattr3 fh s g)
    then show ?thesis using assms length_small(3) [of "sattr3_meaning s"]
      by (auto simp: args3_wire put_simps dest!: lens)
  next
    case (Create3 dir n g s)
    then show ?thesis using assms length_small(3) [of "sattr3_meaning s"]
      by (auto simp: args3_wire put_simps dest!: lens)
  next
    case (Mkdir3 dir n s)
    then show ?thesis using assms length_small(3) [of "sattr3_meaning s"]
      by (auto simp: args3_wire put_simps dest!: lens)
  qed (use assms in \<open>auto simp: args3_wire put_simps wire_fixed_def xdr_pad_def dest!: lens\<close>)
qed

text \<open>A part of the server's state.\<close>

definition at_server :: "('w, 'f) view \<Rightarrow> ('f \<Rightarrow> 'x) \<Rightarrow> 'w nfs3_state \<Rightarrow> 'x" where
  "at_server v g s = g (vw_state v (snd s))"

definition live3 :: "'w os \<Rightarrow> ('w, 'f) view \<Rightarrow> 'f server3 \<Rightarrow> ('f \<Rightarrow> bool) \<Rightarrow> 'w nfs3_state \<Rightarrow> bool" where
  "live3 os v srv ok s \<longleftrightarrow> conn3 os v srv s \<and> at_server v ok s"

definition answer3 :: "u32 \<Rightarrow> u32 + 'a \<Rightarrow> error + 'a" where
  "answer3 p r = map_sum (\<lambda>st. NfsError st (proc_name p)) id r"

lemma answer3_simps [simp]:
  "answer3 p (Inl st) = Inl (NfsError st (proc_name p))"
  "answer3 p (Inr x) = Inr x"
  by (simp_all add: answer3_def)

text \<open>
  The contract, which asks for more than RFC 1813 where the tests do: a server that, in the states \<open>ok\<close>, answers as \<open>fs_step\<close> says for a choice of its own. A new handle is
  a fresh one as long as there is \<open>room\<close> for another object, the clock does not go back, a write is made at
  least as stable as it was asked to be, and the listing of an empty directory has no entries but the two for itself and
  its parent.
\<close>

locale nfs3_service =
  fixes srv :: "'f server3" and fs_of :: "'f \<Rightarrow> fs" and sv :: service and pick :: "request3 \<Rightarrow> 'f \<Rightarrow> choice"
    and ok :: "'f \<Rightarrow> bool" and room :: "'f \<Rightarrow> nat" and clock :: "'f \<Rightarrow> u64"
  assumes fits: "server3_ok srv"
    and stays_ok: "ok f \<Longrightarrow> ok (snd (srv req f))"
    and step: "ok f \<Longrightarrow> (makes_object req \<Longrightarrow> 0 < room f) \<Longrightarrow>
      fs_step sv (pick req f) req (fs_of f) = Some (r, fs') \<Longrightarrow>
      outcome3 (proc3 req) (fst (srv req f)) = answer3 (proc3 req) r \<and> fs_of (snd (srv req f)) = fs'"
    and fresh: "ok f \<Longrightarrow> makes_object req \<Longrightarrow> 0 < room f \<Longrightarrow>
      fs_of f (ch_fh (pick req f)) = None \<and> dir_ok (ch_fh (pick req f))"
    and room: "ok f \<Longrightarrow> room f \<le> room (snd (srv req f)) + (if makes_object req then 1 else 0)"
    and level: "ok f \<Longrightarrow> how \<le> ch_level (pick (Write3 fh off how d) f)"
    and clock: "ok f \<Longrightarrow> clock f \<le> nfstime_ns (ch_time (pick req f)) \<and>
      nfstime_ns (ch_time (pick req f)) \<le> clock (snd (srv req f))"
    and times: "ok f \<Longrightarrow> fs_of f fh = Some n \<Longrightarrow>
      nfstime_ns (fa_mtime (nd_attr n)) \<le> clock f \<and> nfstime_ns (fa_ctime (nd_attr n)) \<le> clock f"
    and listing: "ok f \<Longrightarrow> fs_of f dir = Some n \<Longrightarrow> is_dir n \<Longrightarrow> nd_names n = (\<lambda>_. None) \<Longrightarrow>
      \<exists>L J. listsplus3 srv dir 4096 32768 J \<and> J 0 cookieverf0 L f \<and> list_all (\<lambda>e. self_or_parent (dp_name e)) L"
    and listing_reads: "snd (srv (Readdirplus3 dir cookie cv 4096 32768) f) = f"
    and limits: "512 \<le> fsi_rtmax (sv_info sv)" "fsi_rtmax (sv_info sv) < 0xFFFFF000" "512 \<le> fsi_wtmax (sv_info sv)"
      "sv_cookieverf sv \<noteq> replicate 8 0xFF"
begin

lemma run3_step:
  fixes s :: "'w nfs3_state"
  assumes s: "live3 os v srv ok s" and req: "small3 req" and rm: "makes_object (meaning3 req) \<Longrightarrow> 0 < at_server v room s"
  obtains ch s' where "live3 os v srv ok s'" and "at_server v clock s \<le> nfstime_ns (ch_time ch)"
    and "nfstime_ns (ch_time ch) \<le> at_server v clock s'"
    and "at_server v room s \<le> at_server v room s' + (if makes_object (meaning3 req) then 1 else 0)"
    and "makes_object (meaning3 req) \<Longrightarrow> at_server v fs_of s (ch_fh ch) = None \<and> dir_ok (ch_fh ch)"
    and "\<And>fh off how d. meaning3 req = Write3 fh off how d \<Longrightarrow> how \<le> ch_level ch"
    and "\<And>r fs'. fs_step sv ch (meaning3 req) (at_server v fs_of s) = Some (r, fs') \<Longrightarrow>
      run3 os req s = Some (answer3 (proc3 req) r, s') \<and> at_server v fs_of s' = fs'"
proof -
  obtain c w where sw: "s = (c, w)" by (cases s)
  let ?f = "vw_state v w" and ?req = "meaning3 req"
  have conn: "conn3 os v srv (c, w)" and ok: "ok ?f" using s by (simp_all add: sw live3_def at_server_def)
  have fit: "fits3 (proc3 req) (fst (srv ?req ?f))" using fits by (metis server3_ok_def proc3_meaning)
  obtain w' where run: "run3 os req (c, w) = Some (outcome3 (proc3 req) (fst (srv ?req ?f)), (next_call3 c, w'))"
    and conn': "conn3 os v srv (next_call3 c, w')" and st: "vw_state v w' = snd (srv ?req ?f)"
    using run3_served [OF conn small3_ok [OF req] prod.collapse [symmetric] fit] by blast
  show thesis
  proof (rule that [of "(next_call3 c, w')" "pick ?req ?f"])
    show "live3 os v srv ok (next_call3 c, w')" using conn' stays_ok [OF ok] st by (simp add: live3_def at_server_def)
    show "at_server v clock s \<le> nfstime_ns (ch_time (pick ?req ?f))"
      "nfstime_ns (ch_time (pick ?req ?f)) \<le> at_server v clock (next_call3 c, w')"
      using clock [OF ok, of ?req] st by (simp_all add: sw at_server_def)
    show "at_server v room s \<le> at_server v room (next_call3 c, w') + (if makes_object ?req then 1 else 0)"
      using room [OF ok, of ?req] st by (simp add: sw at_server_def)
    show "at_server v fs_of s (ch_fh (pick ?req ?f)) = None \<and> dir_ok (ch_fh (pick ?req ?f))" if "makes_object ?req"
      using fresh [OF ok that] rm [OF that] by (simp add: sw at_server_def)
    show "how \<le> ch_level (pick ?req ?f)" if "?req = Write3 fh off how d" for fh off how d
      using level [OF ok] that by simp
    show "run3 os req s = Some (answer3 (proc3 req) r, (next_call3 c, w')) \<and> at_server v fs_of (next_call3 c, w') = fs'"
      if "fs_step sv (pick ?req ?f) ?req (at_server v fs_of s) = Some (r, fs')" for r fs'
      using step [OF ok _ that [unfolded sw at_server_def snd_conv]] rm run st by (simp add: sw at_server_def)
  qed
qed

end

lemma run_op_answer:
  assumes "io_map V m s = Some (answer3 p (map_sum id V r), s')" and "inj V"
  shows "m s = Some (answer3 p r, s')"
proof -
  obtain q where "m s = Some (q, s')" and "answer3 p (map_sum id V r) = map_sum id V q"
    using assms(1) by (auto simp: io_map_Some)
  with assms(2) show ?thesis by (cases q; cases r) (auto simp: inj_eq)
qed

lemma inj_val3: "inj Attr_v" "inj Fh_v" "inj Data_v" "inj Written_v" "inj Verf_v" "inj Page_v" "inj Info_v" "inj (\<lambda>_ :: unit. Unit_v)"
  by (auto intro: injI)

subsection \<open>What each operation does\<close>

text \<open>A handle that no object has, in the form in which the simplifier uses it.\<close>

definition new_handle :: "Fh3 \<Rightarrow> fs \<Rightarrow> bool" where
  "new_handle fh fs \<longleftrightarrow> (\<forall>k. fs k \<noteq> None \<longrightarrow> fh \<noteq> k \<and> k \<noteq> fh) \<and> fs fh = None"

lemma new_handle_eq: "new_handle fh fs \<longleftrightarrow> fs fh = None"
  by (auto simp: new_handle_def)


text \<open>A network and the view of it under which the client's connection leads to the server.\<close>

locale service_link = nfs3_service srv fs_of sv pick ok room clock
  for srv :: "'f server3" and fs_of sv pick ok room clock +
  fixes os :: "'w os" and v :: "('w, 'f) view"
begin

lemma op_runs:
  assumes s: "live3 os v srv ok s" and req: "small3 req" "makes_object (meaning3 req) \<Longrightarrow> 0 < at_server v room s"
    and V: "run3 os req = io_map V m" "inj V"
    and G: "\<And>ch. fs_step sv ch (meaning3 req) (at_server v fs_of s) = Some (map_prod (map_sum id V) id (G ch))"
    and Q: "\<And>ch s'. live3 os v srv ok s' \<Longrightarrow> at_server v fs_of s' = snd (G ch) \<Longrightarrow>
      at_server v room s \<le> at_server v room s' + (if makes_object (meaning3 req) then 1 else 0) \<Longrightarrow>
      at_server v clock s \<le> nfstime_ns (ch_time ch) \<Longrightarrow> nfstime_ns (ch_time ch) \<le> at_server v clock s' \<Longrightarrow>
      (makes_object (meaning3 req) \<Longrightarrow> at_server v fs_of s (ch_fh ch) = None \<and> dir_ok (ch_fh ch)) \<Longrightarrow>
      (\<And>fh off how d. meaning3 req = Write3 fh off how d \<Longrightarrow> how \<le> ch_level ch) \<Longrightarrow>
      Q (answer3 (proc3 req) (fst (G ch))) s'"
  shows "runs m s Q"
proof (rule run3_step [OF s req])
  fix ch s'
  assume run: "\<And>r fs'. fs_step sv ch (meaning3 req) (at_server v fs_of s) = Some (r, fs') \<Longrightarrow>
      run3 os req s = Some (answer3 (proc3 req) r, s') \<and> at_server v fs_of s' = fs'"
    and rest: "live3 os v srv ok s'" "at_server v clock s \<le> nfstime_ns (ch_time ch)"
      "nfstime_ns (ch_time ch) \<le> at_server v clock s'"
      "at_server v room s \<le> at_server v room s' + (if makes_object (meaning3 req) then 1 else 0)"
      "makes_object (meaning3 req) \<Longrightarrow> at_server v fs_of s (ch_fh ch) = None \<and> dir_ok (ch_fh ch)"
      "\<And>fh off how d. meaning3 req = Write3 fh off how d \<Longrightarrow> how \<le> ch_level ch"
  have "fs_step sv ch (meaning3 req) (at_server v fs_of s) = Some (map_sum id V (fst (G ch)), snd (G ch))"
    by (simp add: G map_prod_def split_beta)
  from run [OF this] have "m s = Some (answer3 (proc3 req) (fst (G ch)), s')" and "at_server v fs_of s' = snd (G ch)"
    using V by (auto intro: run_op_answer)
  with Q rest show "runs m s Q" by (auto simp: runs_def)
qed

lemma getattr_runs:
  assumes "live3 os v srv ok s" and "dir_ok fh"
    and "\<And>s'. live3 os v srv ok s' \<Longrightarrow> at_server v fs_of s' = at_server v fs_of s \<Longrightarrow>
      at_server v room s \<le> at_server v room s' \<Longrightarrow> at_server v clock s \<le> at_server v clock s' \<Longrightarrow>
      Q (answer3 1 (fs_getattr fh (at_server v fs_of s))) s'"
  shows "runs (NFSClient_getattr os fh) s Q"
  by (rule op_runs [where req = "Getattr3 fh" and V = Attr_v and G = "\<lambda>ch. (fs_getattr fh (at_server v fs_of s), at_server v fs_of s)"])
     (use assms in \<open>auto simp: meaning3_def proc3_values inj_val3 intro: order.trans\<close>)

lemma lookup_runs:
  assumes "live3 os v srv ok s" and "dir_ok dir" and "length name \<le> 300"
    and "\<And>s'. live3 os v srv ok s' \<Longrightarrow> at_server v fs_of s' = at_server v fs_of s \<Longrightarrow>
      at_server v room s \<le> at_server v room s' \<Longrightarrow> at_server v clock s \<le> at_server v clock s' \<Longrightarrow>
      Q (answer3 3 (fs_lookup dir name (at_server v fs_of s))) s'"
  shows "runs (NFSClient_lookup os dir name) s Q"
  by (rule op_runs [where req = "Lookup3 dir name" and V = Fh_v and G = "\<lambda>ch. (fs_lookup dir name (at_server v fs_of s), at_server v fs_of s)"])
     (use assms in \<open>auto simp: meaning3_def proc3_values inj_val3 intro: order.trans\<close>)

lemma read_runs:
  assumes "live3 os v srv ok s" and "dir_ok fh"
    and "\<And>s'. live3 os v srv ok s' \<Longrightarrow> at_server v fs_of s' = at_server v fs_of s \<Longrightarrow>
      at_server v room s \<le> at_server v room s' \<Longrightarrow> at_server v clock s \<le> at_server v clock s' \<Longrightarrow>
      Q (answer3 6 (fs_read sv fh off count (at_server v fs_of s))) s'"
  shows "runs (NFSClient_read os fh off count) s Q"
  by (rule op_runs [where req = "Read3 fh off count" and V = Data_v and G = "\<lambda>ch. (fs_read sv fh off count (at_server v fs_of s), at_server v fs_of s)"])
     (use assms in \<open>auto simp: meaning3_def proc3_values inj_val3 intro: order.trans\<close>)

lemma commit_runs:
  assumes "live3 os v srv ok s" and "dir_ok fh"
    and "\<And>s'. live3 os v srv ok s' \<Longrightarrow> at_server v fs_of s' = at_server v fs_of s \<Longrightarrow>
      at_server v room s \<le> at_server v room s' \<Longrightarrow> at_server v clock s \<le> at_server v clock s' \<Longrightarrow>
      Q (answer3 21 (fs_commit sv fh (at_server v fs_of s))) s'"
  shows "runs (NFSClient_commit os fh off count) s Q"
  by (rule op_runs [where req = "Commit3 fh off count" and V = Verf_v and G = "\<lambda>ch. (fs_commit sv fh (at_server v fs_of s), at_server v fs_of s)"])
     (use assms in \<open>auto simp: meaning3_def proc3_values inj_val3 intro: order.trans\<close>)

lemma write_runs:
  assumes "live3 os v srv ok s" and "dir_ok fh" and "length d \<le> 65536" and "length d \<le> unat (fsi_wtmax (sv_info sv))"
    and "\<And>ch s'. live3 os v srv ok s' \<Longrightarrow> at_server v fs_of s' = snd (fs_write sv ch fh off d (at_server v fs_of s)) \<Longrightarrow>
      at_server v room s \<le> at_server v room s' \<Longrightarrow>
      how \<le> ch_level ch \<Longrightarrow>
      at_server v clock s \<le> nfstime_ns (ch_time ch) \<Longrightarrow> nfstime_ns (ch_time ch) \<le> at_server v clock s' \<Longrightarrow>
      Q (answer3 7 (fst (fs_write sv ch fh off d (at_server v fs_of s)))) s'"
  shows "runs (NFSClient_write os fh off how d) s Q"
  by (rule op_runs [where req = "Write3 fh off how d" and V = "Written_v" and G = "\<lambda>ch. fs_write sv ch fh off d (at_server v fs_of s)"])
     (use assms in \<open>auto simp: meaning3_def proc3_values inj_val3 new_handle_eq\<close>)

lemma setattr_runs:
  assumes "live3 os v srv ok s" and "dir_ok fh"
    and "\<And>ch s'. live3 os v srv ok s' \<Longrightarrow> at_server v fs_of s' = snd (fs_setattr ch fh (sattr3_meaning a) (at_server v fs_of s)) \<Longrightarrow>
      at_server v room s \<le> at_server v room s' \<Longrightarrow>
      at_server v clock s \<le> nfstime_ns (ch_time ch) \<Longrightarrow> nfstime_ns (ch_time ch) \<le> at_server v clock s' \<Longrightarrow>
      Q (answer3 2 (fst (fs_setattr ch fh (sattr3_meaning a) (at_server v fs_of s)))) s'"
  shows "runs (NFSClient_setattr os fh a no_guard) s Q"
  by (rule op_runs [where req = "Setattr3 fh a no_guard" and V = "\<lambda>_. Unit_v" and G = "\<lambda>ch. fs_setattr ch fh (sattr3_meaning a) (at_server v fs_of s)"])
     (use assms in \<open>auto simp: meaning3_def proc3_values inj_val3 guard3_meaning_def no_guard_def when_set_def\<close>)

lemma create_runs:
  assumes "live3 os v srv ok s" and "dir_ok dir" and "length name \<le> 300" and "\<forall>fh. fs_lookup dir name (at_server v fs_of s) \<noteq> Inr fh" and "0 < at_server v room s"
    and "\<And>ch s'. live3 os v srv ok s' \<Longrightarrow> at_server v fs_of s' = snd (fs_make ch dir name (new_node ch NF3REG None) (at_server v fs_of s)) \<Longrightarrow>
      at_server v room s \<le> at_server v room s' + 1 \<Longrightarrow>
      new_handle (ch_fh ch) (at_server v fs_of s) \<Longrightarrow> dir_ok (ch_fh ch) \<Longrightarrow>
      at_server v clock s \<le> nfstime_ns (ch_time ch) \<Longrightarrow> nfstime_ns (ch_time ch) \<le> at_server v clock s' \<Longrightarrow>
      Q (answer3 8 (fst (fs_make ch dir name (new_node ch NF3REG None) (at_server v fs_of s)))) s'"
  shows "runs (NFSClient_create os dir name UNCHECKED Sattr3_default) s Q"
  by (rule op_runs [where req = "Create3 dir name False Sattr3_default" and V = "Fh_v" and G = "\<lambda>ch. fs_make ch dir name (new_node ch NF3REG None) (at_server v fs_of s)"])
     (use assms in \<open>auto simp: meaning3_def proc3_values inj_val3 new_handle_eq create_mode_def split: sum.splits\<close>)

lemma create_guarded_runs:
  assumes "live3 os v srv ok s" and "dir_ok dir" and "length name \<le> 300" and "0 < at_server v room s"
    and "\<And>ch s'. live3 os v srv ok s' \<Longrightarrow> at_server v fs_of s' = snd (fs_make ch dir name (new_node ch NF3REG None) (at_server v fs_of s)) \<Longrightarrow>
      at_server v room s \<le> at_server v room s' + 1 \<Longrightarrow>
      new_handle (ch_fh ch) (at_server v fs_of s) \<Longrightarrow> dir_ok (ch_fh ch) \<Longrightarrow>
      at_server v clock s \<le> nfstime_ns (ch_time ch) \<Longrightarrow> nfstime_ns (ch_time ch) \<le> at_server v clock s' \<Longrightarrow>
      Q (answer3 8 (fst (fs_make ch dir name (new_node ch NF3REG None) (at_server v fs_of s)))) s'"
  shows "runs (NFSClient_create os dir name GUARDED Sattr3_default) s Q"
  by (rule op_runs [where req = "Create3 dir name True Sattr3_default" and V = "Fh_v" and G = "\<lambda>ch. fs_make ch dir name (new_node ch NF3REG None) (at_server v fs_of s)"])
     (use assms in \<open>auto simp: meaning3_def proc3_values inj_val3 new_handle_eq create_mode_def\<close>)

lemma create_exclusive_runs:
  assumes "live3 os v srv ok s" and "dir_ok dir" and "length name \<le> 300" and "length verf = 8" and "0 < at_server v room s"
    and "\<And>ch s'. live3 os v srv ok s' \<Longrightarrow> at_server v fs_of s' = snd (fs_create_exclusive ch dir name verf (at_server v fs_of s)) \<Longrightarrow>
      at_server v room s \<le> at_server v room s' + 1 \<Longrightarrow>
      new_handle (ch_fh ch) (at_server v fs_of s) \<Longrightarrow> dir_ok (ch_fh ch) \<Longrightarrow>
      at_server v clock s \<le> nfstime_ns (ch_time ch) \<Longrightarrow> nfstime_ns (ch_time ch) \<le> at_server v clock s' \<Longrightarrow>
      Q (answer3 8 (fst (fs_create_exclusive ch dir name verf (at_server v fs_of s)))) s'"
  shows "runs (NFSClient_create_exclusive os dir name verf) s Q"
  by (rule op_runs [where req = "Create_exclusive3 dir name verf" and V = "Fh_v" and G = "\<lambda>ch. fs_create_exclusive ch dir name verf (at_server v fs_of s)"])
     (use assms in \<open>auto simp: meaning3_def proc3_values inj_val3 new_handle_eq\<close>)

lemma mkdir_runs:
  assumes "live3 os v srv ok s" and "dir_ok dir" and "length name \<le> 300" and "0 < at_server v room s"
    and "\<And>ch s'. live3 os v srv ok s' \<Longrightarrow> at_server v fs_of s' = snd (fs_mkdir ch dir name (at_server v fs_of s)) \<Longrightarrow>
      at_server v room s \<le> at_server v room s' + 1 \<Longrightarrow>
      new_handle (ch_fh ch) (at_server v fs_of s) \<Longrightarrow> dir_ok (ch_fh ch) \<Longrightarrow>
      at_server v clock s \<le> nfstime_ns (ch_time ch) \<Longrightarrow> nfstime_ns (ch_time ch) \<le> at_server v clock s' \<Longrightarrow>
      Q (answer3 9 (fst (fs_mkdir ch dir name (at_server v fs_of s)))) s'"
  shows "runs (NFSClient_mkdir os dir name Sattr3_default) s Q"
  by (rule op_runs [where req = "Mkdir3 dir name Sattr3_default" and V = "Fh_v" and G = "\<lambda>ch. fs_mkdir ch dir name (at_server v fs_of s)"])
     (use assms in \<open>auto simp: meaning3_def proc3_values inj_val3 new_handle_eq\<close>)

lemma remove_runs:
  assumes "live3 os v srv ok s" and "dir_ok dir" and "length name \<le> 300" and "\<not> names_dir dir name (at_server v fs_of s)"
    and "\<And>ch s'. live3 os v srv ok s' \<Longrightarrow> at_server v fs_of s' = snd (fs_remove ch dir name (at_server v fs_of s)) \<Longrightarrow>
      at_server v room s \<le> at_server v room s' \<Longrightarrow>
      at_server v clock s \<le> nfstime_ns (ch_time ch) \<Longrightarrow> nfstime_ns (ch_time ch) \<le> at_server v clock s' \<Longrightarrow>
      Q (answer3 12 (fst (fs_remove ch dir name (at_server v fs_of s)))) s'"
  shows "runs (NFSClient_remove os dir name) s Q"
  by (rule op_runs [where req = "Remove3 dir name" and V = "\<lambda>_. Unit_v" and G = "\<lambda>ch. fs_remove ch dir name (at_server v fs_of s)"])
     (use assms in \<open>auto simp: meaning3_def proc3_values inj_val3 new_handle_eq\<close>)

lemma rmdir_runs:
  assumes "live3 os v srv ok s" and "dir_ok dir" and "length name \<le> 300"
    and "\<And>ch s'. live3 os v srv ok s' \<Longrightarrow> at_server v fs_of s' = snd (fs_rmdir ch dir name (at_server v fs_of s)) \<Longrightarrow>
      at_server v room s \<le> at_server v room s' \<Longrightarrow>
      at_server v clock s \<le> nfstime_ns (ch_time ch) \<Longrightarrow> nfstime_ns (ch_time ch) \<le> at_server v clock s' \<Longrightarrow>
      Q (answer3 13 (fst (fs_rmdir ch dir name (at_server v fs_of s)))) s'"
  shows "runs (NFSClient_rmdir os dir name) s Q"
  by (rule op_runs [where req = "Rmdir3 dir name" and V = "\<lambda>_. Unit_v" and G = "\<lambda>ch. fs_rmdir ch dir name (at_server v fs_of s)"])
     (use assms in \<open>auto simp: meaning3_def proc3_values inj_val3 new_handle_eq\<close>)

lemma rename_runs:
  assumes "live3 os v srv ok s" and "dir_ok dir" and "length name \<le> 300" and "dir_ok dir2" and "length name2 \<le> 300" and "dir \<noteq> dir2" and "\<not> names_dir dir name (at_server v fs_of s)"
    and "\<And>ch s'. live3 os v srv ok s' \<Longrightarrow> at_server v fs_of s' = snd (fs_rename ch dir name dir2 name2 (at_server v fs_of s)) \<Longrightarrow>
      at_server v room s \<le> at_server v room s' \<Longrightarrow>
      at_server v clock s \<le> nfstime_ns (ch_time ch) \<Longrightarrow> nfstime_ns (ch_time ch) \<le> at_server v clock s' \<Longrightarrow>
      Q (answer3 14 (fst (fs_rename ch dir name dir2 name2 (at_server v fs_of s)))) s'"
  shows "runs (NFSClient_rename os dir name dir2 name2) s Q"
  by (rule op_runs [where req = "Rename3 dir name dir2 name2" and V = "\<lambda>_. Unit_v" and G = "\<lambda>ch. fs_rename ch dir name dir2 name2 (at_server v fs_of s)"])
     (use assms in \<open>auto simp: meaning3_def proc3_values inj_val3 new_handle_eq\<close>)

lemma link_runs:
  assumes "live3 os v srv ok s" and "dir_ok fh" and "dir_ok dir" and "length name \<le> 300" and "\<forall>n. at_server v fs_of s fh = Some n \<longrightarrow> \<not> is_dir n"
    and "\<And>ch s'. live3 os v srv ok s' \<Longrightarrow> at_server v fs_of s' = snd (fs_link ch fh dir name (at_server v fs_of s)) \<Longrightarrow>
      at_server v room s \<le> at_server v room s' \<Longrightarrow>
      at_server v clock s \<le> nfstime_ns (ch_time ch) \<Longrightarrow> nfstime_ns (ch_time ch) \<le> at_server v clock s' \<Longrightarrow>
      Q (answer3 15 (fst (fs_link ch fh dir name (at_server v fs_of s)))) s'"
  shows "runs (NFSClient_link os fh dir name) s Q"
  by (rule op_runs [where req = "Link3 fh dir name" and V = "\<lambda>_. Unit_v" and G = "\<lambda>ch. fs_link ch fh dir name (at_server v fs_of s)"])
     (use assms in \<open>auto simp: meaning3_def proc3_values inj_val3 new_handle_eq\<close>)

lemma readdir_page_runs:
  assumes "live3 os v srv ok s" and "dir_ok dir" and "length cv = 8"
    and "\<And>ch s'. live3 os v srv ok s' \<Longrightarrow> at_server v fs_of s' = at_server v fs_of s \<Longrightarrow>
      at_server v room s \<le> at_server v room s' \<Longrightarrow> at_server v clock s \<le> at_server v clock s' \<Longrightarrow>
      Q (answer3 16 (fs_readdir sv ch dir cookie cv (at_server v fs_of s))) s'"
  shows "runs (NFSClient_readdir_page os dir cookie cv count) s Q"
  by (rule op_runs [where req = "Readdir3 dir cookie cv count" and V = Page_v
        and G = "\<lambda>ch. (fs_readdir sv ch dir cookie cv (at_server v fs_of s), at_server v fs_of s)"])
     (use assms in \<open>auto simp: meaning3_def proc3_values inj_val3 intro: order.trans\<close>)

lemma list_empty_runs:
  assumes s: "live3 os v srv ok s" and dir: "dir_ok dir" "at_server v fs_of s dir = Some n" "is_dir n"
    "nd_names n = (\<lambda>_. None)"
    and Q: "\<And>L s'. live3 os v srv ok s' \<Longrightarrow> vw_state v (snd s') = vw_state v (snd s) \<Longrightarrow>
      list_all (\<lambda>e. self_or_parent (dp_name e)) L \<Longrightarrow> Q (Inr L) s'"
  shows "runs (NFSClient_readdirplus os dir 4096 32768) s Q"
proof -
  obtain c w where sw: "s = (c, w)" by (cases s)
  have conn: "conn3 os v srv (c, w)" and ok: "ok (vw_state v w)" using s by (simp_all add: sw live3_def at_server_def)
  obtain L J where J: "listsplus3 srv dir 4096 32768 J" "J 0 cookieverf0 L (vw_state v w)"
    and L: "list_all (\<lambda>e. self_or_parent (dp_name e)) L"
    using listing [OF ok dir(2) [unfolded sw at_server_def snd_conv] dir(3,4)] by blast
  obtain c' w' where "NFSClient_readdirplus os dir 4096 32768 (c, w) = Some (Inr L, (c', w'))"
    and "conn3 os v srv (c', w')" "vw_state v w' = vw_state v w"
    using readdirplus_served_in [OF conn J(1) dir(1) J(2) listing_reads] by blast
  with Q [of "(c', w')" L] L ok show ?thesis by (simp add: runs_def sw live3_def at_server_def)
qed

lemma fsinfo_runs:
  assumes "live3 os v srv ok s" and "dir_ok fh"
    and "\<And>s'. live3 os v srv ok s' \<Longrightarrow> at_server v fs_of s' = at_server v fs_of s \<Longrightarrow>
      at_server v room s \<le> at_server v room s' \<Longrightarrow> at_server v clock s \<le> at_server v clock s' \<Longrightarrow>
      Q (Inr (sv_info sv)) s'"
  shows "runs (NFSClient_fsinfo os fh) s Q"
  by (rule op_runs [where req = "Fsinfo3 fh" and V = Info_v and G = "\<lambda>_. (Inr (sv_info sv), at_server v fs_of s)"])
     (use assms in \<open>auto simp: meaning3_def proc3_values inj_val3 intro: order.trans\<close>)

end

end
