(* ===== verification/Compliance_Conform.thy ===== *)
theory Compliance_Conform
  imports Compliance_Rules
begin

text \<open>
  Every NFSv3 compliance test but those on permissions passes on a server that meets the contract \<open>nfs3_service\<close>, and
  leaves the server's file system as it found it, but for the attributes of the scratch directory.
\<close>

subsection \<open>The scratch directory\<close>

definition scratch_dir :: "Fh3 \<Rightarrow> fs \<Rightarrow> bool" where
  "scratch_dir wd fs \<longleftrightarrow>
     (\<exists>n. fs wd = Some n \<and> is_dir n \<and> nd_names n = (\<lambda>_. None) \<and> fa_nlink (nd_attr n) < 0xFFFFFFFF)"

definition restored :: "Fh3 \<Rightarrow> fs \<Rightarrow> fs \<Rightarrow> bool" where
  "restored wd fs fs' \<longleftrightarrow> scratch_dir wd fs' \<and> (\<forall>fh. fh \<noteq> wd \<longrightarrow> fs' fh = fs fh)"

lemma restored_trans: "restored wd fs fs' \<Longrightarrow> restored wd fs' fs'' \<Longrightarrow> restored wd fs fs''"
  by (simp add: restored_def)

lemmas fs_defs =
  fs_getattr_def fs_dir_def fs_lookup_def fs_read_def fs_write_def fs_setattr_def fs_new_name_def fs_make_def fs_mkdir_def
  fs_create_exclusive_def fs_entry_def fs_remove_def names_dir_def fs_rmdir_def fs_link_def fs_rename_def fs_commit_def
  fs_readdir_def is_dir_def new_node_def add_links_def set_name_def set_data_def

lemmas type_values = NF3REG_def NF3DIR_def

lemma meaning_sattr3:
  "st3_mode (sattr3_meaning a) = when_set (sa_set_mode a) (sa_mode a)"
  "st3_size (sattr3_meaning a) = when_set (sa_set_size a) (sa_size a)"
  "\<not> sa_set_mode Sattr3_default" "\<not> sa_set_size Sattr3_default"
  by (simp_all add: sattr3_meaning_def Sattr3_default_def)

lemma less_succ_u32: "(k :: u32) < 0xFFFFFFFF \<Longrightarrow> k < k + 1"
  by (simp add: word_less_nat_alt unat_word_ariths)

definition held :: "Fh3 \<Rightarrow> fs \<Rightarrow> bool" where
  "held fh fs \<longleftrightarrow> fs fh \<noteq> None"

lemma new_handle_held: "held k fs \<Longrightarrow> new_handle fh fs \<longleftrightarrow> fh \<noteq> k \<and> k \<noteq> fh \<and> fs fh = None"
  by (auto simp: held_def new_handle_eq)

lemma new_handle_upd: "new_handle fh (fs(k \<mapsto> x)) \<longleftrightarrow> fh \<noteq> k \<and> k \<noteq> fh \<and> new_handle fh fs"
  by (auto simp: new_handle_eq)

lemma two_links: "\<not> (2 :: u32) \<le> 1" "\<not> (1 :: u32) + 1 \<le> 1"
  by (simp_all add: word_le_nat_alt)

lemmas test_simps =
  runs_bind new_handle_upd new_handle_held fs_defs type_values length_bytes_of bytes_of_eq restored_def scratch_dir_def Let_def put_at_def
  meaning_sattr3 when_set_def FILE_SYNC_def UNSTABLE_def two_links

lemma length_put_at: "off = length data \<Longrightarrow> length (put_at off d data) = off + length d"
  by (simp add: put_at_def)

subsection \<open>The tests\<close>

context service_link
begin

lemmas op_rules =
  getattr_runs lookup_runs read_runs commit_runs write_runs setattr_runs create_runs create_guarded_runs
  create_exclusive_runs mkdir_runs remove_runs rmdir_runs rename_runs link_runs readdir_page_runs fsinfo_runs

definition passes :: "TestCtx \<Rightarrow> (TestCtx \<Rightarrow> ('w nfs3_state, unit) io) \<Rightarrow> bool" where
  "passes ctx t \<longleftrightarrow>
     (\<forall>s. live3 os v srv ok s \<longrightarrow> scratch_dir (cx_workdir_fh ctx) (at_server v fs_of s) \<longrightarrow> 4 \<le> at_server v room s \<longrightarrow>
       runs (t ctx) s (\<lambda>r s'. r = Inr () \<and> live3 os v srv ok s' \<and>
         restored (cx_workdir_fh ctx) (at_server v fs_of s) (at_server v fs_of s') \<and>
         at_server v room s \<le> at_server v room s' + 4))"

lemma passesI:
  assumes "\<And>s n. live3 os v srv ok s \<Longrightarrow> at_server v fs_of s (cx_workdir_fh ctx) = Some n \<Longrightarrow> fa_type (nd_attr n) = 2 \<Longrightarrow>
      nd_names n = (\<lambda>_. None) \<Longrightarrow> fa_nlink (nd_attr n) < 0xFFFFFFFF \<Longrightarrow> 4 \<le> at_server v room s \<Longrightarrow>
      held (cx_workdir_fh ctx) (at_server v fs_of s) \<Longrightarrow>
      nfstime_ns (fa_mtime (nd_attr n)) \<le> at_server v clock s \<Longrightarrow> replicate 8 0xFF \<noteq> sv_cookieverf sv \<Longrightarrow>
      512 \<le> unat (fsi_rtmax (sv_info sv)) \<Longrightarrow> 512 \<le> unat (fsi_wtmax (sv_info sv)) \<Longrightarrow>
      runs (t ctx) s (\<lambda>r s'. r = Inr () \<and> live3 os v srv ok s' \<and>
         restored (cx_workdir_fh ctx) (at_server v fs_of s) (at_server v fs_of s') \<and>
         at_server v room s \<le> at_server v room s' + 4)"
  shows "passes ctx t"
  unfolding passes_def scratch_dir_def
proof (intro allI impI, elim exE conjE)
  fix s n
  assume *: "live3 os v srv ok s" "4 \<le> at_server v room s" "at_server v fs_of s (cx_workdir_fh ctx) = Some n" "is_dir n"
    "nd_names n = (\<lambda>_. None)" "fa_nlink (nd_attr n) < 0xFFFFFFFF"
  show "runs (t ctx) s (\<lambda>r s'. r = Inr () \<and> live3 os v srv ok s' \<and>
         restored (cx_workdir_fh ctx) (at_server v fs_of s) (at_server v fs_of s') \<and>
         at_server v room s \<le> at_server v room s' + 4)"
    by (rule assms [OF *(1,3)])
       (use * limits times in \<open>auto simp: is_dir_def NF3DIR_def word_le_nat_alt live3_def at_server_def held_def\<close>)
qed

lemma test_lookup_existing_passes: "dir_ok (cx_workdir_fh ctx) \<Longrightarrow> passes ctx (test_lookup_existing os)"
  by (rule passesI, unfold test_lookup_existing_def)
     (auto intro!: op_rules runs_CHECK runs_EXPECT simp: test_simps)

lemma test_lookup_noent_passes: "dir_ok (cx_workdir_fh ctx) \<Longrightarrow> passes ctx (test_lookup_noent os)"
  by (rule passesI, unfold test_lookup_noent_def)
     (auto intro!: op_rules runs_CHECK runs_EXPECT simp: test_simps)

lemma test_lookup_notdir_passes: "dir_ok (cx_workdir_fh ctx) \<Longrightarrow> passes ctx (test_lookup_notdir os)"
  by (rule passesI, unfold test_lookup_notdir_def)
     (auto intro!: op_rules runs_CHECK runs_EXPECT simp: test_simps)

lemma test_read_exact_size_passes: "dir_ok (cx_workdir_fh ctx) \<Longrightarrow> passes ctx (test_read_exact_size os)"
  by (rule passesI, unfold test_read_exact_size_def)
     (auto intro!: op_rules runs_CHECK runs_EXPECT simp: test_simps)

lemma test_read_past_eof_passes: "dir_ok (cx_workdir_fh ctx) \<Longrightarrow> passes ctx (test_read_past_eof os)"
  by (rule passesI, unfold test_read_past_eof_def)
     (auto intro!: op_rules runs_CHECK runs_EXPECT simp: test_simps)

lemma test_write_filesync_count_passes: "dir_ok (cx_workdir_fh ctx) \<Longrightarrow> passes ctx (test_write_filesync_count os)"
  by (rule passesI, unfold test_write_filesync_count_def)
     (auto intro!: op_rules runs_CHECK runs_EXPECT simp: test_simps)

lemma test_write_then_getattr_passes: "dir_ok (cx_workdir_fh ctx) \<Longrightarrow> passes ctx (test_write_then_getattr os)"
  by (rule passesI, unfold test_write_then_getattr_def)
     (auto intro!: op_rules runs_CHECK runs_EXPECT simp: test_simps)

lemma test_create_guarded_duplicate_passes: "dir_ok (cx_workdir_fh ctx) \<Longrightarrow> passes ctx (test_create_guarded_duplicate os)"
  by (rule passesI, unfold test_create_guarded_duplicate_def)
     (auto intro!: op_rules runs_CHECK runs_EXPECT simp: test_simps)

lemma test_create_exclusive_idempotent_passes: "dir_ok (cx_workdir_fh ctx) \<Longrightarrow> passes ctx (test_create_exclusive_idempotent os)"
  by (rule passesI, unfold test_create_exclusive_idempotent_def)
     (auto intro!: op_rules runs_CHECK runs_EXPECT simp: test_simps)

lemma test_remove_noent_passes: "dir_ok (cx_workdir_fh ctx) \<Longrightarrow> passes ctx (test_remove_noent os)"
  by (rule passesI, unfold test_remove_noent_def)
     (auto intro!: op_rules runs_CHECK runs_EXPECT simp: test_simps)

lemma test_rename_across_dirs_passes: "dir_ok (cx_workdir_fh ctx) \<Longrightarrow> passes ctx (test_rename_across_dirs os)"
  by (rule passesI, unfold test_rename_across_dirs_def)
     (auto intro!: op_rules runs_CHECK runs_EXPECT simp: test_simps)

lemma test_write_pre_op_size_passes: "dir_ok (cx_workdir_fh ctx) \<Longrightarrow> passes ctx (test_write_pre_op_size os)"
  by (rule passesI, unfold test_write_pre_op_size_def)
     (auto intro!: op_rules runs_CHECK runs_EXPECT simp: test_simps)

lemma test_write_post_op_size_passes: "dir_ok (cx_workdir_fh ctx) \<Longrightarrow> passes ctx (test_write_post_op_size os)"
  by (rule passesI, unfold test_write_post_op_size_def)
     (auto intro!: op_rules runs_CHECK runs_EXPECT simp: test_simps)

lemma test_create_post_op_dir_mtime_passes: "dir_ok (cx_workdir_fh ctx) \<Longrightarrow> passes ctx (test_create_post_op_dir_mtime os)"
  by (rule passesI, unfold test_create_post_op_dir_mtime_def)
     ((auto intro!: op_rules runs_CHECK runs_EXPECT simp: test_simps), order)

lemma test_remove_post_op_dir_nlink_passes: "dir_ok (cx_workdir_fh ctx) \<Longrightarrow> passes ctx (test_remove_post_op_dir_nlink os)"
  by (rule passesI, unfold test_remove_post_op_dir_nlink_def)
     (auto intro!: op_rules runs_CHECK runs_EXPECT simp: test_simps less_succ_u32)

lemma test_unstable_write_commit_passes: "dir_ok (cx_workdir_fh ctx) \<Longrightarrow> passes ctx (test_unstable_write_commit os)"
  by (rule passesI, unfold test_unstable_write_commit_def)
     (auto intro!: op_rules runs_CHECK runs_EXPECT simp: test_simps)

lemma test_commit_verifier_consistency_passes: "dir_ok (cx_workdir_fh ctx) \<Longrightarrow> passes ctx (test_commit_verifier_consistency os)"
  by (rule passesI, unfold test_commit_verifier_consistency_def)
     (auto intro!: op_rules runs_CHECK runs_EXPECT simp: test_simps)

lemma test_filesync_committed_passes: "dir_ok (cx_workdir_fh ctx) \<Longrightarrow> passes ctx (test_filesync_committed os)"
  by (rule passesI, unfold test_filesync_committed_def)
     (auto intro!: op_rules runs_CHECK runs_EXPECT simp: test_simps)

lemma test_exclusive_create_same_verifier_passes: "dir_ok (cx_workdir_fh ctx) \<Longrightarrow> passes ctx (test_exclusive_create_same_verifier os)"
  by (rule passesI, unfold test_exclusive_create_same_verifier_def)
     (auto intro!: op_rules runs_CHECK runs_EXPECT simp: test_simps)

lemma test_exclusive_create_diff_verifier_passes: "dir_ok (cx_workdir_fh ctx) \<Longrightarrow> passes ctx (test_exclusive_create_diff_verifier os)"
  by (rule passesI, unfold test_exclusive_create_diff_verifier_def)
     (auto intro!: op_rules runs_CHECK runs_EXPECT simp: test_simps)

lemma test_mtime_after_write_passes: "dir_ok (cx_workdir_fh ctx) \<Longrightarrow> passes ctx (test_mtime_after_write os)"
  by (rule passesI, unfold test_mtime_after_write_def)
     ((auto intro!: op_rules runs_CHECK runs_EXPECT simp: test_simps), order)

lemma test_ctime_after_setattr_passes: "dir_ok (cx_workdir_fh ctx) \<Longrightarrow> passes ctx (test_ctime_after_setattr os)"
  by (rule passesI, unfold test_ctime_after_setattr_def)
     ((auto intro!: op_rules runs_CHECK runs_EXPECT simp: test_simps), order)

lemma test_nlink_after_link_passes: "dir_ok (cx_workdir_fh ctx) \<Longrightarrow> passes ctx (test_nlink_after_link os)"
  by (rule passesI, unfold test_nlink_after_link_def)
     (auto intro!: op_rules runs_CHECK runs_EXPECT simp: test_simps)

lemma test_nlink_after_remove_passes: "dir_ok (cx_workdir_fh ctx) \<Longrightarrow> passes ctx (test_nlink_after_remove os)"
  by (rule passesI, unfold test_nlink_after_remove_def)
     (auto intro!: op_rules runs_CHECK runs_EXPECT simp: test_simps)

lemma test_size_after_truncate_passes: "dir_ok (cx_workdir_fh ctx) \<Longrightarrow> passes ctx (test_size_after_truncate os)"
  by (rule passesI, unfold test_size_after_truncate_def)
     (auto intro!: op_rules runs_CHECK runs_EXPECT simp: test_simps)

lemma test_read_on_deleted_file_passes: "dir_ok (cx_workdir_fh ctx) \<Longrightarrow> passes ctx (test_read_on_deleted_file os)"
  by (rule passesI, unfold test_read_on_deleted_file_def)
     (auto intro!: op_rules runs_CHECK runs_EXPECT simp: test_simps)

lemma test_lookup_in_deleted_dir_passes: "dir_ok (cx_workdir_fh ctx) \<Longrightarrow> passes ctx (test_lookup_in_deleted_dir os)"
  by (rule passesI, unfold test_lookup_in_deleted_dir_def)
     (auto intro!: op_rules runs_CHECK runs_EXPECT simp: test_simps)

lemma test_zero_byte_read_passes: "dir_ok (cx_workdir_fh ctx) \<Longrightarrow> passes ctx (test_zero_byte_read os)"
  by (rule passesI, unfold test_zero_byte_read_def)
     (auto intro!: op_rules runs_CHECK runs_EXPECT simp: test_simps)

lemma test_zero_byte_write_passes: "dir_ok (cx_workdir_fh ctx) \<Longrightarrow> passes ctx (test_zero_byte_write os)"
  by (rule passesI, unfold test_zero_byte_write_def)
     (auto intro!: op_rules runs_CHECK runs_EXPECT simp: test_simps)

lemma test_max_filename_255_passes: "dir_ok (cx_workdir_fh ctx) \<Longrightarrow> passes ctx (test_max_filename_255 os)"
  by (rule passesI, unfold test_max_filename_255_def)
     (auto intro!: op_rules runs_CHECK runs_EXPECT simp: test_simps)

lemma test_filename_256_nametoolong_passes: "dir_ok (cx_workdir_fh ctx) \<Longrightarrow> passes ctx (test_filename_256_nametoolong os)"
  by (rule passesI, unfold test_filename_256_nametoolong_def)
     (auto intro!: op_rules runs_CHECK runs_EXPECT simp: test_simps)

lemma test_readdir_bad_cookieverf_passes: "dir_ok (cx_workdir_fh ctx) \<Longrightarrow> passes ctx (test_readdir_bad_cookieverf os)"
  by (rule passesI, unfold test_readdir_bad_cookieverf_def)
     (auto intro!: op_rules runs_CHECK runs_EXPECT simp: test_simps)

lemmas test_passes =
  test_lookup_existing_passes
  test_lookup_noent_passes
  test_lookup_notdir_passes
  test_read_exact_size_passes
  test_read_past_eof_passes
  test_write_filesync_count_passes
  test_write_then_getattr_passes
  test_create_guarded_duplicate_passes
  test_create_exclusive_idempotent_passes
  test_remove_noent_passes
  test_rename_across_dirs_passes
  test_write_pre_op_size_passes
  test_write_post_op_size_passes
  test_create_post_op_dir_mtime_passes
  test_remove_post_op_dir_nlink_passes
  test_unstable_write_commit_passes
  test_commit_verifier_consistency_passes
  test_filesync_committed_passes
  test_exclusive_create_same_verifier_passes
  test_exclusive_create_diff_verifier_passes
  test_mtime_after_write_passes
  test_ctime_after_setattr_passes
  test_nlink_after_link_passes
  test_nlink_after_remove_passes
  test_size_after_truncate_passes
  test_read_on_deleted_file_passes
  test_lookup_in_deleted_dir_passes
  test_zero_byte_read_passes
  test_zero_byte_write_passes
  test_max_filename_255_passes
  test_filename_256_nametoolong_passes
  test_readdir_bad_cookieverf_passes

text \<open>The loop that fills the file, when the server writes what it is given.\<close>

lemma rtmax_fill_runs:
  assumes "live3 os v srv ok s" and fh: "dir_ok fh" "at_server v fs_of s fh = Some n" "fa_type (nd_attr n) = NF3REG"
    and len: "length (nd_data n) = unat written" "written \<le> ucast file_size"
    and chunk: "0 < chunk" "chunk \<le> 65536" "chunk \<le> fsi_wtmax (sv_info sv)" "length buf = unat chunk"
    and Q: "\<And>n' s'. live3 os v srv ok s' \<Longrightarrow> at_server v fs_of s' = (at_server v fs_of s)(fh \<mapsto> n') \<Longrightarrow>
      fa_type (nd_attr n') = NF3REG \<Longrightarrow> fa_nlink (nd_attr n') = fa_nlink (nd_attr n) \<Longrightarrow>
      length (nd_data n') = unat file_size \<Longrightarrow> at_server v room s \<le> at_server v room s' \<Longrightarrow> Q (Inr ()) s'"
  shows "runs (rtmax_fill os fh chunk buf file_size written) s Q"
  using assms
proof (induction "unat file_size - unat written" arbitrary: s n written rule: less_induct)
  case less
  have size: "unat (ucast file_size :: u64) = unat file_size" by (simp add: unat_u32_u64)
  have wr: "unat written \<le> unat file_size" using less.prems(6) by (simp add: word_le_nat_alt size)
  show ?case
  proof (cases "written < ucast file_size")
    case False
    with less.prems(6) have eq: "written = ucast file_size" by simp
    have "runs (io_return ()) s Q"
      using less.prems(11) [OF less.prems(1) _ less.prems(4)] less.prems(3,5) eq size
      by (simp add: runs_return fun_upd_idem)
    then show ?thesis using False by (simp add: runs_def rtmax_fill.simps [of os fh chunk buf file_size written])
  next
    case True
    let ?n = "ucast (min (ucast chunk) (ucast file_size - written :: u64)) :: u32"
    have diff: "unat (ucast file_size - written :: u64) = unat file_size - unat written"
      using less.prems(6) by (simp add: unat_sub size)
    have n: "unat ?n = min (unat chunk) (unat file_size - unat written)"
    proof -
      have "unat (min (ucast chunk) (ucast file_size - written :: u64)) = min (unat chunk) (unat file_size - unat written)"
        by (simp add: min_def word_le_nat_alt diff unat_u32_u64)
      moreover have "min (unat chunk) (unat file_size - unat written) < 2 ^ 32"
        using unsigned_less [of chunk, where 'a = nat] by simp
      ultimately show ?thesis by (simp add: unat_u64_u32)
    qed
    have pos: "0 < unat ?n" using True less.prems(7) n by (simp add: word_less_nat_alt size)
    let ?d = "take (unat ?n) buf" and ?w = "written + ucast ?n"
    have d: "length ?d = unat ?n" using n less.prems(10) by simp
    have w: "unat ?w = unat written + unat ?n"
    proof -
      have "unat written + unat ?n < 2 ^ 64"
        using n wr unsigned_less [of file_size, where 'a = nat] by simp
      then show ?thesis by (simp add: unat_word_ariths unat_u32_u64)
    qed
    have "runs (io_then (NFSClient_write os fh written FILE_SYNC ?d)
        (rtmax_fill os fh chunk buf file_size ?w)) s Q"
      unfolding runs_bind
    proof (rule write_runs [OF less.prems(1,2)])
      show "length ?d \<le> 65536" "length ?d \<le> unat (fsi_wtmax (sv_info sv))"
        using d n less.prems(8,9) by (simp_all add: word_le_nat_alt min.coboundedI1)
      fix ch s'
      assume s': "live3 os v srv ok s'"
        "at_server v fs_of s' = snd (fs_write sv ch fh written ?d (at_server v fs_of s))"
        "at_server v room s \<le> at_server v room s'"
      let ?m = "set_data ch (put_at (unat written) ?d (nd_data n)) n"
      have f: "at_server v fs_of s' = (at_server v fs_of s)(fh \<mapsto> ?m)"
        and ans: "fst (fs_write sv ch fh written ?d (at_server v fs_of s)) = Inr \<lparr>wr_count = word_of_nat (length ?d), wr_committed = ch_level ch, wr_verf = sv_verf sv\<rparr>"
        using s'(2) less.prems(3,4) by (simp_all add: fs_write_def is_dir_def NF3REG_def NF3DIR_def)
      have "runs (rtmax_fill os fh chunk buf file_size ?w) s' Q"
      proof (rule less.hyps [OF _ s'(1) less.prems(2) _ _ _ _ less.prems(7-10)])
        show "unat file_size - unat ?w < unat file_size - unat written" using pos w n by linarith
        show "at_server v fs_of s' fh = Some ?m" by (simp add: f)
        show "fa_type (nd_attr ?m) = NF3REG" using less.prems(4) by (simp add: set_data_def)
        show "length (nd_data ?m) = unat ?w" using less.prems(5) d w by (simp add: set_data_def length_put_at)
        show "?w \<le> ucast file_size" using n w wr by (simp add: word_le_nat_alt size)
        fix n' s''
        assume "live3 os v srv ok s''" "at_server v fs_of s'' = (at_server v fs_of s')(fh \<mapsto> n')"
          "fa_type (nd_attr n') = NF3REG" "fa_nlink (nd_attr n') = fa_nlink (nd_attr ?m)"
          "length (nd_data n') = unat file_size" "at_server v room s' \<le> at_server v room s''"
        then show "Q (Inr ()) s''"
          using less.prems(11) [of s'' n'] f s'(3) by (simp add: set_data_def)
      qed
      then show "case answer3 7 (fst (fs_write sv ch fh written ?d (at_server v fs_of s))) of
          Inl e \<Rightarrow> Q (Inl e) s' | Inr x \<Rightarrow> runs (rtmax_fill os fh chunk buf file_size ?w) s' Q"
        by (simp add: ans)
    qed
    then show ?thesis using True by (simp add: runs_def Let_def rtmax_fill.simps [of os fh chunk buf file_size written])
  qed
qed

lemma rtmax_fill_file_runs:
  assumes "live3 os v srv ok s" and "dir_ok fh" and "at_server v fs_of s fh \<noteq> None"
    and "fa_type (nd_attr (the (at_server v fs_of s fh))) = NF3REG" and "nd_data (the (at_server v fs_of s fh)) = []"
    and "0 < chunk" "chunk \<le> 65536" "chunk \<le> fsi_wtmax (sv_info sv)" "length buf = unat chunk"
    and "\<And>n' s'. live3 os v srv ok s' \<Longrightarrow> at_server v fs_of s' = (at_server v fs_of s)(fh \<mapsto> n') \<Longrightarrow>
      fa_type (nd_attr n') = NF3REG \<Longrightarrow> fa_nlink (nd_attr n') = fa_nlink (nd_attr (the (at_server v fs_of s fh))) \<Longrightarrow>
      length (nd_data n') = unat file_size \<Longrightarrow> at_server v room s \<le> at_server v room s' \<Longrightarrow> Q (Inr ()) s'"
  shows "runs (rtmax_fill os fh chunk buf file_size 0) s Q"
  using assms by (auto intro!: rtmax_fill_runs)

lemma test_read_count_gt_rtmax_passes:
  assumes wd: "dir_ok (cx_workdir_fh ctx)" and root: "dir_ok (cx_root_fh ctx)"
  shows "passes ctx (test_read_count_gt_rtmax os)"
proof (rule passesI, goal_cases)
  case (1 s n)
  let ?chunk = "min (fsi_wtmax (sv_info sv)) 65536" and ?rt = "fsi_rtmax (sv_info sv)"
  have chunk: "0 < ?chunk" using limits(3) by (auto simp: min_def word_less_nat_alt word_le_nat_alt)
  have rt: "unat (?rt + 4096) = unat ?rt + 4096" using limits(2) by (simp add: unat_word_ariths word_less_nat_alt)
  show ?case
    unfolding test_read_count_gt_rtmax_def
    using 1 wd root limits(1) chunk
    by (auto intro!: op_rules rtmax_fill_file_runs runs_CHECK simp: test_simps rt)
qed

end

end
