(* ===== verification/Compliance_Main.thy ===== *)
theory Compliance_Main
  imports Compliance_Tests
begin

text \<open>
  \<open>tools/compliance/main.cpp\<close>: the command line, and the run from the mount to the removal of the scratch
  directory. The exit code comes with the lines of the runner; the other messages of \<open>main\<close> are left out.
\<close>

subsection \<open>Command line\<close>

record options =
  opt_server :: string
  opt_export :: string
  opt_filter :: string

definition options_empty :: options where
  "options_empty = \<lparr>opt_server = [], opt_export = [], opt_filter = []\<rparr>"

text \<open>The loop over \<open>argv[1]\<close> and following; \<open>None\<close> prints the usage and exits with 2.\<close>

fun parse_options :: "string list \<Rightarrow> options \<Rightarrow> options option" where
  "parse_options [] o1 = Some o1"
| "parse_options [arg] o1 = None"
| "parse_options (arg # val # rest) o1 =
     (if arg = ''--server'' \<or> arg = ''-s'' then parse_options rest (o1\<lparr>opt_server := val\<rparr>)
      else if arg = ''--export'' \<or> arg = ''-e'' then parse_options rest (o1\<lparr>opt_export := val\<rparr>)
      else if arg = ''--filter'' \<or> arg = ''-f'' then parse_options rest (o1\<lparr>opt_filter := val\<rparr>)
      else None)"

definition read_options :: "string list \<Rightarrow> options option" where
  "read_options args =
     (case parse_options args options_empty of
        None \<Rightarrow> None
      | Some o1 \<Rightarrow> if opt_server o1 = [] \<or> opt_export o1 = [] then None else Some o1)"

subsection \<open>The run\<close>

definition compliance_tests :: "'w os \<Rightarrow> 'w test_env \<Rightarrow> 'w runner3" where
  "compliance_tests os env = steps [
     register_basic_tests os,
     register_wcc_tests os,
     register_commit_tests os,
     register_attribute_tests os,
     register_permission_tests os env,
     register_stale_tests os,
     register_edge_case_tests os] []"

definition compliance_auth :: "u32 \<Rightarrow> AuthSys" where
  "compliance_auth stamp = AuthSys_default\<lparr>au_stamp := stamp,
     au_machinename := bytes_of ''nfsclient-compliance'', au_uid := 0, au_gid := 0\<rparr>"

definition compliance_workdir :: "nat \<Rightarrow> cstring" where
  "compliance_workdir pid = bytes_of (''compliance_'' @ to_string pid)"

definition exit_code :: "nat \<Rightarrow> nat" where
  "exit_code fails = (if fails > 0 then 1 else 0)"

definition compliance_run :: "'w os \<Rightarrow> 'w test_env \<Rightarrow> nat \<Rightarrow> options \<Rightarrow> ('w nfs3_state, nat \<times> string list) io" where
  "compliance_run os env pid o1 =
     io_bind (io_try (NFSClient_mount os (bytes_of (opt_export o1)))) (\<lambda>m.
     case m of Inl _ \<Rightarrow> io_return (1, []) | Inr root_fh \<Rightarrow>
     io_bind (io_try (mkdir3 os root_fh (compliance_workdir pid))) (\<lambda>d.
     case d of Inl _ \<Rightarrow> io_return (1, []) | Inr workdir_fh \<Rightarrow>
     let ctx = \<lparr>cx_root_fh = root_fh, cx_workdir_fh = workdir_fh, cx_server = opt_server o1,
                cx_export_path = opt_export o1\<rparr> in
     io_bind (run_all ctx (opt_filter o1) (compliance_tests os env)) (\<lambda>(fails, out).
     io_then (compliance_rmdir_recursive os root_fh (compliance_workdir pid))
     (io_return (exit_code fails, out)))))"

text \<open>An exception of the constructor ends the program; after it none is left uncaught.\<close>

definition compliance_main :: "'w os \<Rightarrow> 'w test_env \<Rightarrow> nat \<Rightarrow> string list \<Rightarrow> ('w, nat \<times> string list) io" where
  "compliance_main os env pid args =
     (case read_options args of
        None \<Rightarrow> io_return (2, [])
      | Some o1 \<Rightarrow>
          io_bind (NFSClient_ctor os (opt_server o1)) (\<lambda>client.
          io_bind (io_call (te_time env)) (\<lambda>stamp w.
          map_option (\<lambda>(r, (c, w')). (r, rpc_destroy os (c3_conn c) w'))
            (compliance_run os env pid o1 (NFSClient_set_auth_sys (compliance_auth stamp) client, w)))))"

end
