(* ===== verification/Compliance4.thy ===== *)
theory Compliance4
  imports Compliance_Main Nfs4_Client
begin

text \<open>
  \<open>tools/compliance4\<close>: the NFSv4.0 tests, their runner and \<open>main\<close>. Lines are as in theory \<open>Compliance_Runner\<close>.
\<close>

unbundle bit_operations_syntax

subsection \<open>Checks\<close>

record TestCtx4 =
  cx4_root_fh :: Nfs4Fh
  cx4_workdir_fh :: Nfs4Fh
  cx4_server :: string
  cx4_export_path :: string

type_synonym 'w test4 = "TestCtx4 \<Rightarrow> ('w nfs4_state, unit) io"
type_synonym 'w runner4 = "(TestCtx4, 'w nfs4_state) TestRunner"

definition CHECK4 :: "string \<Rightarrow> string \<Rightarrow> bool \<Rightarrow> ('s, unit) io" where
  "CHECK4 expr loc c = io_throw_if (\<not> c) (ComplianceFailure (''CHECK4 failed: '' @ expr @ '' at '' @ loc))"

definition EXPECT_NFS4_ERR :: "('s, 'a) io \<Rightarrow> Nfsstat4 \<Rightarrow> string \<Rightarrow> ('s, unit) io" where
  "EXPECT_NFS4_ERR m code cname =
     io_bind (io_try m) (\<lambda>r.
     case r of
       Inr _ \<Rightarrow> io_throw (ComplianceFailure (''EXPECT_NFS4_ERR('' @ cname @ ''): no exception thrown''))
     | Inl (Nfs4Error status op) \<Rightarrow>
         io_throw_if (\<not> Nfs4Error_is (Nfs4Error status op) code)
           (ComplianceFailure (''EXPECT_NFS4_ERR('' @ cname @ ''): got nfsstat4='' @ to_string (unat status)))
     | Inl e \<Rightarrow> io_throw e)"

text \<open>The dash of some messages, three characters of the source's encoding.\<close>

definition em_dash :: string where
  "em_dash = [CHR 0xE2, CHR 0x80, CHR 0x94]"

subsection \<open>The runner\<close>

text \<open>What the handlers of \<open>run_all\<close> count and print; a \<open>ComplianceFailure\<close> and an \<open>Nfs4Error\<close> fail the test, any other
  \<open>std::runtime_error\<close> skips it.\<close>

fun report4 :: "string \<Rightarrow> error + unit \<Rightarrow> TestStatus \<times> string list" where
  "report4 title (Inr _) = (PASS, [''  [PASS] '' @ title])"
| "report4 title (Inl (ComplianceFailure s)) = (FAIL, [''  [FAIL] '' @ title, ''         '' @ s])"
| "report4 title (Inl (Nfs4Error status op)) =
     (FAIL, [''  [FAIL] '' @ title, ''         NFS4 error: '' @ what (Nfs4Error status op)])"
| "report4 title (Inl e) = (SKIP, [''  [SKIP] '' @ title, ''         '' @ what e])"

definition run_one4 :: "'c \<Rightarrow> string \<Rightarrow> ('c, 's) ComplianceTest \<Rightarrow> Tally \<Rightarrow> ('s, Tally) io" where
  "run_one4 ctx flt t a =
     (if left_out flt t then io_return a
      else io_bind (io_try (ct_fn t ctx)) (\<lambda>r.
        case report4 (ct_name t @ ''  ('' @ ct_rfc_ref t @ '')'') r of
          (status, out) \<Rightarrow> io_return (count_status status (a\<lparr>ta_out := ta_out a @ out\<rparr>))))"

definition run_all4 :: "'c \<Rightarrow> string \<Rightarrow> ('c, 's) TestRunner \<Rightarrow> ('s, nat \<times> string list) io" where
  "run_all4 ctx flt tests =
     io_bind (for_each (run_one4 ctx flt) tests Tally_zero) (\<lambda>a.
     io_return (ta_fail a, ta_out a @ [[], ''Results: '' @ to_string (ta_pass a) @ '' passed, '' @
       to_string (ta_fail a) @ '' failed, '' @ to_string (ta_skip a) @ '' skipped'']))"

subsection \<open>Removing the scratch directory\<close>

text \<open>The loop of \<open>rmdir4_recursive\<close> with the call of the function itself written out.\<close>

partial_function (option) rmdir4_entries ::
  "'w os \<Rightarrow> Nfs4Fh \<Rightarrow> Nfs4DirEntry list \<Rightarrow> 'w nfs4_state \<Rightarrow> ((error + unit) \<times> 'w nfs4_state) option" where
  "rmdir4_entries os dir entries s =
     (case entries of
        [] \<Rightarrow> io_return () s
      | e # rest \<Rightarrow>
          if dot_name (d4_name e) then rmdir4_entries os dir rest s
          else if f4_type (d4_attrs e) = Some NF4DIR then
            io_bind (Nfs4Client_lookup os dir (d4_name e)) (\<lambda>dir'.
            io_bind (Nfs4Client_readdir os dir') (\<lambda>entries'.
            io_bind (rmdir4_entries os dir' entries') (\<lambda>_.
            io_bind (Nfs4Client_remove os dir (d4_name e)) (\<lambda>_.
            rmdir4_entries os dir rest)))) s
          else
            io_bind (Nfs4Client_remove os dir (d4_name e)) (\<lambda>_. rmdir4_entries os dir rest) s)"

definition rmdir4_recursive :: "'w os \<Rightarrow> Nfs4Fh \<Rightarrow> cstring \<Rightarrow> ('w nfs4_state, unit) io" where
  "rmdir4_recursive os parent name =
     io_bind (Nfs4Client_lookup os parent name) (\<lambda>dir.
     io_bind (Nfs4Client_readdir os dir) (\<lambda>entries.
     io_bind (rmdir4_entries os dir entries) (\<lambda>_.
     Nfs4Client_remove os parent name)))"

subsection \<open>Basic operations\<close>

definition test4_lookup_existing :: "'w os \<Rightarrow> 'w test4" where
  "test4_lookup_existing os ctx =
     io_bind (Nfs4Client_open_write os (cx4_workdir_fh ctx) (bytes_of ''b4_lookup.txt'') True) (\<lambda>f.
     io_bind (Nfs4Client_close os f) (\<lambda>_.
     io_bind (Nfs4Client_lookup os (cx4_workdir_fh ctx) (bytes_of ''b4_lookup.txt'')) (\<lambda>fh.
     io_bind (Nfs4Client_getattr os fh) (\<lambda>attrs.
     io_bind (CHECK4 ''attrs.type.has_value() && *attrs.type == Ftype4::NF4REG'' ''test_basic4.cpp:19''
       (f4_type attrs = Some NF4REG)) (\<lambda>_.
     Nfs4Client_remove os (cx4_workdir_fh ctx) (bytes_of ''b4_lookup.txt''))))))"

definition test4_lookup_noent :: "'w os \<Rightarrow> 'w test4" where
  "test4_lookup_noent os ctx =
     EXPECT_NFS4_ERR
       (Nfs4Client_lookup os (cx4_workdir_fh ctx) (bytes_of ''b4_no_such_file_xyz''))
       NFS4ERR_NOENT ''Nfsstat4::NFS4ERR_NOENT''"

definition test4_read_write_roundtrip :: "'w os \<Rightarrow> 'w test4" where
  "test4_read_write_roundtrip os ctx =
     (let payload = bytes_of ''Hello, NFSv4 compliance!'' in
     io_bind (Nfs4Client_open_write os (cx4_workdir_fh ctx) (bytes_of ''b4_rw.txt'') True) (\<lambda>wf.
     io_bind (Nfs4Client_write os wf 0 FILE_SYNC4 payload) (\<lambda>_.
     io_bind (Nfs4Client_close os wf) (\<lambda>_.
     io_bind (Nfs4Client_open_read os (cx4_workdir_fh ctx) (bytes_of ''b4_rw.txt'')) (\<lambda>rf.
     io_bind (Nfs4Client_read os rf 0 (word_of_nat (length payload))) (\<lambda>data.
     io_bind (Nfs4Client_close os rf) (\<lambda>_.
     io_bind (CHECK4 ''std::string(data.begin(), data.end()) == payload'' ''test_basic4.cpp:43''
       (data = payload)) (\<lambda>_.
     Nfs4Client_remove os (cx4_workdir_fh ctx) (bytes_of ''b4_rw.txt'')))))))))"

definition test4_read_past_eof :: "'w os \<Rightarrow> 'w test4" where
  "test4_read_past_eof os ctx =
     (let payload = bytes_of ''short'' in
     io_bind (Nfs4Client_open_write os (cx4_workdir_fh ctx) (bytes_of ''b4_eof.txt'') True) (\<lambda>wf.
     io_bind (Nfs4Client_write os wf 0 FILE_SYNC4 payload) (\<lambda>_.
     io_bind (Nfs4Client_close os wf) (\<lambda>_.
     io_bind (Nfs4Client_open_read os (cx4_workdir_fh ctx) (bytes_of ''b4_eof.txt'')) (\<lambda>rf.
     io_bind (Nfs4Client_read os rf 1000 512) (\<lambda>data.
     io_bind (Nfs4Client_close os rf) (\<lambda>_.
     io_bind (CHECK4 ''data.empty()'' ''test_basic4.cpp:60''
       (data = [])) (\<lambda>_.
     Nfs4Client_remove os (cx4_workdir_fh ctx) (bytes_of ''b4_eof.txt'')))))))))"

definition test4_mkdir_and_remove :: "'w os \<Rightarrow> 'w test4" where
  "test4_mkdir_and_remove os ctx =
     io_bind (Nfs4Client_mkdir os (cx4_workdir_fh ctx) (bytes_of ''b4_dir'') Sattr4_default) (\<lambda>dir.
     io_bind (Nfs4Client_getattr os dir) (\<lambda>attrs.
     io_bind (CHECK4 ''attrs.type.has_value() && *attrs.type == Ftype4::NF4DIR'' ''test_basic4.cpp:67''
       (f4_type attrs = Some NF4DIR)) (\<lambda>_.
     Nfs4Client_remove os (cx4_workdir_fh ctx) (bytes_of ''b4_dir''))))"

definition test4_readdir :: "'w os \<Rightarrow> 'w test4" where
  "test4_readdir os ctx =
     io_bind (Nfs4Client_mkdir os (cx4_workdir_fh ctx) (bytes_of ''b4_readdir_dir'') Sattr4_default) (\<lambda>dir.
     io_bind (Nfs4Client_open_write os dir (bytes_of ''file1.txt'') True) (\<lambda>f1.
     io_bind (Nfs4Client_close os f1) (\<lambda>_.
     io_bind (Nfs4Client_open_write os dir (bytes_of ''file2.txt'') True) (\<lambda>f2.
     io_bind (Nfs4Client_close os f2) (\<lambda>_.
     io_bind (Nfs4Client_readdir os dir) (\<lambda>entries.
     let found1 = list_ex (\<lambda>e. d4_name e = bytes_of ''file1.txt'') entries;
         found2 = list_ex (\<lambda>e. d4_name e = bytes_of ''file2.txt'') entries in
     io_bind (CHECK4 ''found1'' ''test_basic4.cpp:86''
       (found1)) (\<lambda>_.
     io_bind (CHECK4 ''found2'' ''test_basic4.cpp:87''
       (found2)) (\<lambda>_.
     io_bind (Nfs4Client_remove os dir (bytes_of ''file1.txt'')) (\<lambda>_.
     io_bind (Nfs4Client_remove os dir (bytes_of ''file2.txt'')) (\<lambda>_.
     Nfs4Client_remove os (cx4_workdir_fh ctx) (bytes_of ''b4_readdir_dir'')))))))))))"

definition register_basic4_tests :: "'w os \<Rightarrow> 'w runner4 \<Rightarrow> 'w runner4" where
  "register_basic4_tests os =
     (let sec = ''RFC 7530'' in steps [
     add_test ''Basic4.LookupExistingFile'' (sec @ '' '' @ section_sign @ ''16.15'') (test4_lookup_existing os),
     add_test ''Basic4.LookupNonExistent'' (sec @ '' '' @ section_sign @ ''16.15'') (test4_lookup_noent os),
     add_test ''Basic4.ReadWriteRoundtrip'' (sec @ '' '' @ section_sign @ ''18.22'') (test4_read_write_roundtrip os),
     add_test ''Basic4.ReadPastEof'' (sec @ '' '' @ section_sign @ ''18.22'') (test4_read_past_eof os),
     add_test ''Basic4.MkdirAndRemove'' (sec @ '' '' @ section_sign @ ''18.6'') (test4_mkdir_and_remove os),
     add_test ''Basic4.Readdir'' (sec @ '' '' @ section_sign @ ''18.23'') (test4_readdir os)])"

subsection \<open>Attributes\<close>

definition test4_type_regular_file :: "'w os \<Rightarrow> 'w test4" where
  "test4_type_regular_file os ctx =
     io_bind (Nfs4Client_open_write os (cx4_workdir_fh ctx) (bytes_of ''a4_type_reg.txt'') True) (\<lambda>f.
     io_bind (Nfs4Client_close os f) (\<lambda>_.
     io_bind (Nfs4Client_lookup os (cx4_workdir_fh ctx) (bytes_of ''a4_type_reg.txt'')) (\<lambda>fh.
     io_bind (Nfs4Client_getattr os fh) (\<lambda>attrs.
     io_bind (CHECK4 ''attrs.type.has_value() && *attrs.type == Ftype4::NF4REG'' ''test_attrs4.cpp:16''
       (f4_type attrs = Some NF4REG)) (\<lambda>_.
     Nfs4Client_remove os (cx4_workdir_fh ctx) (bytes_of ''a4_type_reg.txt''))))))"

definition test4_type_directory :: "'w os \<Rightarrow> 'w test4" where
  "test4_type_directory os ctx =
     io_bind (Nfs4Client_mkdir os (cx4_workdir_fh ctx) (bytes_of ''a4_type_dir'') Sattr4_default) (\<lambda>dir.
     io_bind (Nfs4Client_getattr os dir) (\<lambda>attrs.
     io_bind (CHECK4 ''attrs.type.has_value() && *attrs.type == Ftype4::NF4DIR'' ''test_attrs4.cpp:24''
       (f4_type attrs = Some NF4DIR)) (\<lambda>_.
     Nfs4Client_remove os (cx4_workdir_fh ctx) (bytes_of ''a4_type_dir''))))"

definition test4_size_after_write :: "'w os \<Rightarrow> 'w test4" where
  "test4_size_after_write os ctx =
     (let payload = bytes_of ''size test payload string'' in
     io_bind (Nfs4Client_open_write os (cx4_workdir_fh ctx) (bytes_of ''a4_size.txt'') True) (\<lambda>f.
     io_bind (Nfs4Client_write os f 0 FILE_SYNC4 payload) (\<lambda>_.
     io_bind (Nfs4Client_close os f) (\<lambda>_.
     io_bind (Nfs4Client_lookup os (cx4_workdir_fh ctx) (bytes_of ''a4_size.txt'')) (\<lambda>fh.
     io_bind (Nfs4Client_getattr os fh) (\<lambda>attrs.
     io_bind (CHECK4 ''attrs.size.has_value() && *attrs.size == payload.size()'' ''test_attrs4.cpp:39''
       (f4_size attrs = Some (word_of_nat (length payload)))) (\<lambda>_.
     Nfs4Client_remove os (cx4_workdir_fh ctx) (bytes_of ''a4_size.txt''))))))))"

definition test4_change_advances_after_write :: "'w os \<Rightarrow> 'w test4" where
  "test4_change_advances_after_write os ctx =
     io_bind (Nfs4Client_open_write os (cx4_workdir_fh ctx) (bytes_of ''a4_change.txt'') True) (\<lambda>f1.
     let payload1 = bytes_of ''initial content'' in
     io_bind (Nfs4Client_write os f1 0 FILE_SYNC4 payload1) (\<lambda>_.
     io_bind (Nfs4Client_close os f1) (\<lambda>_.
     io_bind (Nfs4Client_lookup os (cx4_workdir_fh ctx) (bytes_of ''a4_change.txt'')) (\<lambda>fh.
     io_bind (Nfs4Client_getattr os fh) (\<lambda>before.
     io_bind (CHECK4 ''before.change.has_value()'' ''test_attrs4.cpp:55''
       (f4_change before \<noteq> None)) (\<lambda>_.
     io_bind (Nfs4Client_open_write os (cx4_workdir_fh ctx) (bytes_of ''a4_change.txt'') True) (\<lambda>f2.
     let payload2 = bytes_of ''updated content that is longer than before'' in
     io_bind (Nfs4Client_write os f2 0 FILE_SYNC4 payload2) (\<lambda>_.
     io_bind (Nfs4Client_close os f2) (\<lambda>_.
     io_bind (Nfs4Client_getattr os fh) (\<lambda>after.
     io_bind (CHECK4 ''after.change.has_value() && *after.change > *before.change'' ''test_attrs4.cpp:66''
       (f4_change after \<noteq> None \<and> the (f4_change after) > the (f4_change before))) (\<lambda>_.
     Nfs4Client_remove os (cx4_workdir_fh ctx) (bytes_of ''a4_change.txt''))))))))))))"

definition test4_time_modify_advances_after_write :: "'w os \<Rightarrow> 'w test4" where
  "test4_time_modify_advances_after_write os ctx =
     (let payload1 = bytes_of ''first write'' in
     io_bind (Nfs4Client_open_write os (cx4_workdir_fh ctx) (bytes_of ''a4_mtime.txt'') True) (\<lambda>f1.
     io_bind (Nfs4Client_write os f1 0 FILE_SYNC4 payload1) (\<lambda>_.
     io_bind (Nfs4Client_close os f1) (\<lambda>_.
     io_bind (Nfs4Client_lookup os (cx4_workdir_fh ctx) (bytes_of ''a4_mtime.txt'')) (\<lambda>fh.
     io_bind (Nfs4Client_getattr os fh) (\<lambda>before.
     io_bind (CHECK4 ''before.time_modify.has_value()'' ''test_attrs4.cpp:82''
       (f4_time_modify before \<noteq> None)) (\<lambda>_.
     io_bind (Nfs4Client_open_write os (cx4_workdir_fh ctx) (bytes_of ''a4_mtime.txt'') True) (\<lambda>f2.
     let payload2 = bytes_of ''second write with more data here'' in
     io_bind (Nfs4Client_write os f2 0 FILE_SYNC4 payload2) (\<lambda>_.
     io_bind (Nfs4Client_close os f2) (\<lambda>_.
     io_bind (Nfs4Client_getattr os fh) (\<lambda>after.
     io_bind (CHECK4 ''after.time_modify.has_value()'' ''test_attrs4.cpp:92''
       (f4_time_modify after \<noteq> None)) (\<lambda>_.
     io_bind (CHECK4 ''after.time_modify->seconds >= before.time_modify->seconds'' ''test_attrs4.cpp:94''
       (sint (t4_seconds (the (f4_time_modify after))) \<ge> sint (t4_seconds (the (f4_time_modify before))))) (\<lambda>_.
     Nfs4Client_remove os (cx4_workdir_fh ctx) (bytes_of ''a4_mtime.txt''))))))))))))))"

definition test4_owner_non_empty :: "'w os \<Rightarrow> 'w test4" where
  "test4_owner_non_empty os ctx =
     io_bind (Nfs4Client_open_write os (cx4_workdir_fh ctx) (bytes_of ''a4_owner.txt'') True) (\<lambda>f.
     io_bind (Nfs4Client_close os f) (\<lambda>_.
     io_bind (Nfs4Client_lookup os (cx4_workdir_fh ctx) (bytes_of ''a4_owner.txt'')) (\<lambda>fh.
     io_bind (Nfs4Client_getattr os fh) (\<lambda>attrs.
     io_bind (CHECK4 ''attrs.owner.has_value() && !attrs.owner->empty()'' ''test_attrs4.cpp:105''
       (f4_owner attrs \<noteq> None \<and> the (f4_owner attrs) \<noteq> [])) (\<lambda>_.
     Nfs4Client_remove os (cx4_workdir_fh ctx) (bytes_of ''a4_owner.txt''))))))"

definition test4_owner_group_non_empty :: "'w os \<Rightarrow> 'w test4" where
  "test4_owner_group_non_empty os ctx =
     io_bind (Nfs4Client_open_write os (cx4_workdir_fh ctx) (bytes_of ''a4_group.txt'') True) (\<lambda>f.
     io_bind (Nfs4Client_close os f) (\<lambda>_.
     io_bind (Nfs4Client_lookup os (cx4_workdir_fh ctx) (bytes_of ''a4_group.txt'')) (\<lambda>fh.
     io_bind (Nfs4Client_getattr os fh) (\<lambda>attrs.
     io_bind (CHECK4 ''attrs.owner_group.has_value() && !attrs.owner_group->empty()'' ''test_attrs4.cpp:116''
       (f4_owner_group attrs \<noteq> None \<and> the (f4_owner_group attrs) \<noteq> [])) (\<lambda>_.
     Nfs4Client_remove os (cx4_workdir_fh ctx) (bytes_of ''a4_group.txt''))))))"

definition register_attr4_tests :: "'w os \<Rightarrow> 'w runner4 \<Rightarrow> 'w runner4" where
  "register_attr4_tests os =
     (let sec = ''RFC 7530'' @ '' '' @ section_sign @ ''5.8'' in steps [
     add_test ''Attr4.TypeRegularFile'' sec (test4_type_regular_file os),
     add_test ''Attr4.TypeDirectory'' sec (test4_type_directory os),
     add_test ''Attr4.SizeAfterWrite'' sec (test4_size_after_write os),
     add_test ''Attr4.ChangeAdvancesAfterWrite'' sec (test4_change_advances_after_write os),
     add_test ''Attr4.TimeModifyAfterWrite'' sec (test4_time_modify_advances_after_write os),
     add_test ''Attr4.OwnerNonEmpty'' sec (test4_owner_non_empty os),
     add_test ''Attr4.OwnerGroupNonEmpty'' sec (test4_owner_group_non_empty os)])"

subsection \<open>Open and close\<close>

definition test4_open_read_close_persists :: "'w os \<Rightarrow> 'w test4" where
  "test4_open_read_close_persists os ctx =
     (let payload = bytes_of ''persistence check payload'' in
     io_bind (Nfs4Client_open_write os (cx4_workdir_fh ctx) (bytes_of ''s4_persist.txt'') True) (\<lambda>wf.
     io_bind (Nfs4Client_write os wf 0 FILE_SYNC4 payload) (\<lambda>_.
     io_bind (Nfs4Client_close os wf) (\<lambda>_.
     io_bind (Nfs4Client_open_read os (cx4_workdir_fh ctx) (bytes_of ''s4_persist.txt'')) (\<lambda>rf.
     io_bind (Nfs4Client_read os rf 0 (word_of_nat (length payload))) (\<lambda>data.
     io_bind (Nfs4Client_close os rf) (\<lambda>_.
     io_bind (CHECK4 ''std::string(data.begin(), data.end()) == payload'' ''test_stateid4.cpp:24''
       (data = payload)) (\<lambda>_.
     Nfs4Client_remove os (cx4_workdir_fh ctx) (bytes_of ''s4_persist.txt'')))))))))"

definition test4_write_multiple_chunks :: "'w os \<Rightarrow> 'w test4" where
  "test4_write_multiple_chunks os ctx =
     (let part1 = bytes_of ''AAAA'';
         part2 = bytes_of ''BBBB'' in
     io_bind (Nfs4Client_open_write os (cx4_workdir_fh ctx) (bytes_of ''s4_chunks.txt'') True) (\<lambda>wf.
     io_bind (Nfs4Client_write os wf 0 FILE_SYNC4 part1) (\<lambda>_.
     io_bind (Nfs4Client_write os wf (word_of_nat (length part1)) FILE_SYNC4 part2) (\<lambda>_.
     io_bind (Nfs4Client_close os wf) (\<lambda>_.
     io_bind (Nfs4Client_open_read os (cx4_workdir_fh ctx) (bytes_of ''s4_chunks.txt'')) (\<lambda>rf.
     io_bind (Nfs4Client_read os rf 0 8) (\<lambda>data.
     io_bind (Nfs4Client_close os rf) (\<lambda>_.
     io_bind (CHECK4 ''data.size() == 8'' ''test_stateid4.cpp:45''
       (length data = 8)) (\<lambda>_.
     io_bind (CHECK4 ''std::string(data.begin(), data.begin() + 4) == part1'' ''test_stateid4.cpp:46''
       (take 4 data = part1)) (\<lambda>_.
     io_bind (CHECK4 ''std::string(data.begin() + 4, data.end()) == part2'' ''test_stateid4.cpp:47''
       (drop 4 data = part2)) (\<lambda>_.
     Nfs4Client_remove os (cx4_workdir_fh ctx) (bytes_of ''s4_chunks.txt''))))))))))))"

definition test4_commit :: "'w os \<Rightarrow> 'w test4" where
  "test4_commit os ctx =
     (let payload = bytes_of ''commit test data'' in
     io_bind (Nfs4Client_open_write os (cx4_workdir_fh ctx) (bytes_of ''s4_commit.txt'') True) (\<lambda>f.
     io_bind (Nfs4Client_write os f 0 UNSTABLE4 payload) (\<lambda>_.
     io_bind (Nfs4Client_commit os f 0 0) (\<lambda>_.
     io_bind (Nfs4Client_close os f) (\<lambda>_.
     Nfs4Client_remove os (cx4_workdir_fh ctx) (bytes_of ''s4_commit.txt''))))))"

definition test4_setattr_mode :: "'w os \<Rightarrow> 'w test4" where
  "test4_setattr_mode os ctx =
     io_bind (Nfs4Client_open_write os (cx4_workdir_fh ctx) (bytes_of ''s4_mode.txt'') True) (\<lambda>f.
     io_bind (Nfs4Client_close os f) (\<lambda>_.
     io_bind (Nfs4Client_lookup os (cx4_workdir_fh ctx) (bytes_of ''s4_mode.txt'')) (\<lambda>fh.
     let attrs = Sattr4_default\<lparr>s4_mode := Some 0x1A4\<rparr> in
     io_bind (Nfs4Client_setattr os fh attrs) (\<lambda>_.
     io_bind (Nfs4Client_getattr os fh) (\<lambda>got.
     io_bind (CHECK4 ''got.mode.has_value() && *got.mode == 0644u'' ''test_stateid4.cpp:75''
       (f4_mode got = Some 0x1A4)) (\<lambda>_.
     Nfs4Client_remove os (cx4_workdir_fh ctx) (bytes_of ''s4_mode.txt'')))))))"

definition test4_access_check :: "'w os \<Rightarrow> 'w test4" where
  "test4_access_check os ctx =
     io_bind (Nfs4Client_open_write os (cx4_workdir_fh ctx) (bytes_of ''s4_access.txt'') True) (\<lambda>f.
     io_bind (Nfs4Client_close os f) (\<lambda>_.
     io_bind (Nfs4Client_lookup os (cx4_workdir_fh ctx) (bytes_of ''s4_access.txt'')) (\<lambda>fh.
     io_bind (Nfs4Client_access os fh 7) (\<lambda>granted.
     io_bind (CHECK4 ''granted & 0x1u'' ''test_stateid4.cpp:89''
       (granted AND 1 \<noteq> 0)) (\<lambda>_.
     Nfs4Client_remove os (cx4_workdir_fh ctx) (bytes_of ''s4_access.txt''))))))"

definition register_stateid4_tests :: "'w os \<Rightarrow> 'w runner4 \<Rightarrow> 'w runner4" where
  "register_stateid4_tests os =
     (let sec = ''RFC 7530'' @ '' '' @ section_sign @ ''16.16'' in steps [
     add_test ''Stateid4.OpenReadClosePersists'' sec (test4_open_read_close_persists os),
     add_test ''Stateid4.WriteMultipleChunks'' sec (test4_write_multiple_chunks os),
     add_test ''Stateid4.Commit'' sec (test4_commit os),
     add_test ''Stateid4.SetattrMode'' sec (test4_setattr_mode os),
     add_test ''Stateid4.AccessCheck'' sec (test4_access_check os)])"

subsection \<open>Renaming\<close>

definition test4_source_gone_after_rename :: "'w os \<Rightarrow> 'w test4" where
  "test4_source_gone_after_rename os ctx =
     io_bind (Nfs4Client_mkdir os (cx4_workdir_fh ctx) (bytes_of ''r4_src'') Sattr4_default) (\<lambda>src_dir.
     io_bind (Nfs4Client_mkdir os (cx4_workdir_fh ctx) (bytes_of ''r4_dst'') Sattr4_default) (\<lambda>dst_dir.
     io_bind (Nfs4Client_open_write os src_dir (bytes_of ''r4_file.txt'') True) (\<lambda>f.
     io_bind (Nfs4Client_close os f) (\<lambda>_.
     io_bind (Nfs4Client_rename os src_dir (bytes_of ''r4_file.txt'') dst_dir (bytes_of ''r4_moved.txt'')) (\<lambda>_.
     io_bind (EXPECT_NFS4_ERR
       (Nfs4Client_lookup os src_dir (bytes_of ''r4_file.txt''))
       NFS4ERR_NOENT ''Nfsstat4::NFS4ERR_NOENT'') (\<lambda>_.
     io_bind (Nfs4Client_remove os dst_dir (bytes_of ''r4_moved.txt'')) (\<lambda>_.
     io_bind (Nfs4Client_remove os (cx4_workdir_fh ctx) (bytes_of ''r4_src'')) (\<lambda>_.
     Nfs4Client_remove os (cx4_workdir_fh ctx) (bytes_of ''r4_dst'')))))))))"

definition test4_destination_present_after_rename :: "'w os \<Rightarrow> 'w test4" where
  "test4_destination_present_after_rename os ctx =
     io_bind (Nfs4Client_mkdir os (cx4_workdir_fh ctx) (bytes_of ''r4p_src'') Sattr4_default) (\<lambda>src_dir.
     io_bind (Nfs4Client_mkdir os (cx4_workdir_fh ctx) (bytes_of ''r4p_dst'') Sattr4_default) (\<lambda>dst_dir.
     io_bind (Nfs4Client_open_write os src_dir (bytes_of ''r4p_file.txt'') True) (\<lambda>f.
     io_bind (Nfs4Client_close os f) (\<lambda>_.
     io_bind (Nfs4Client_rename os src_dir (bytes_of ''r4p_file.txt'') dst_dir (bytes_of ''r4p_moved.txt'')) (\<lambda>_.
     io_bind (Nfs4Client_lookup os dst_dir (bytes_of ''r4p_moved.txt'')) (\<lambda>moved.
     io_bind (Nfs4Client_getattr os moved) (\<lambda>attrs.
     io_bind (CHECK4 ''attrs.type.has_value() && *attrs.type == Ftype4::NF4REG'' ''test_rename4.cpp:40''
       (f4_type attrs = Some NF4REG)) (\<lambda>_.
     io_bind (Nfs4Client_remove os dst_dir (bytes_of ''r4p_moved.txt'')) (\<lambda>_.
     io_bind (Nfs4Client_remove os (cx4_workdir_fh ctx) (bytes_of ''r4p_src'')) (\<lambda>_.
     Nfs4Client_remove os (cx4_workdir_fh ctx) (bytes_of ''r4p_dst'')))))))))))"

definition test4_change_advances_on_both_dirs :: "'w os \<Rightarrow> 'w test4" where
  "test4_change_advances_on_both_dirs os ctx =
     io_bind (Nfs4Client_mkdir os (cx4_workdir_fh ctx) (bytes_of ''rc4_src'') Sattr4_default) (\<lambda>src_dir.
     io_bind (Nfs4Client_mkdir os (cx4_workdir_fh ctx) (bytes_of ''rc4_dst'') Sattr4_default) (\<lambda>dst_dir.
     io_bind (Nfs4Client_open_write os src_dir (bytes_of ''rc4_file.txt'') True) (\<lambda>f.
     io_bind (Nfs4Client_close os f) (\<lambda>_.
     io_bind (Nfs4Client_getattr os src_dir) (\<lambda>src_before.
     io_bind (Nfs4Client_getattr os dst_dir) (\<lambda>dst_before.
     io_bind (CHECK4 ''src_before.change.has_value() && dst_before.change.has_value()'' ''test_rename4.cpp:56''
       (f4_change src_before \<noteq> None \<and> f4_change dst_before \<noteq> None)) (\<lambda>_.
     io_bind (Nfs4Client_rename os src_dir (bytes_of ''rc4_file.txt'') dst_dir (bytes_of ''rc4_moved.txt'')) (\<lambda>_.
     io_bind (Nfs4Client_getattr os src_dir) (\<lambda>src_after.
     io_bind (Nfs4Client_getattr os dst_dir) (\<lambda>dst_after.
     io_bind (CHECK4 ''src_after.change.has_value() && *src_after.change > *src_before.change'' ''test_rename4.cpp:62''
       (f4_change src_after \<noteq> None \<and> the (f4_change src_after) > the (f4_change src_before))) (\<lambda>_.
     io_bind (CHECK4 ''dst_after.change.has_value() && *dst_after.change > *dst_before.change'' ''test_rename4.cpp:63''
       (f4_change dst_after \<noteq> None \<and> the (f4_change dst_after) > the (f4_change dst_before))) (\<lambda>_.
     io_bind (Nfs4Client_remove os dst_dir (bytes_of ''rc4_moved.txt'')) (\<lambda>_.
     io_bind (Nfs4Client_remove os (cx4_workdir_fh ctx) (bytes_of ''rc4_src'')) (\<lambda>_.
     Nfs4Client_remove os (cx4_workdir_fh ctx) (bytes_of ''rc4_dst'')))))))))))))))"

definition register_rename4_tests :: "'w os \<Rightarrow> 'w runner4 \<Rightarrow> 'w runner4" where
  "register_rename4_tests os =
     (let sec = ''RFC 7530'' @ '' '' @ section_sign @ ''16.24'' in steps [
     add_test ''Rename4.SourceGoneAfterRename'' sec (test4_source_gone_after_rename os),
     add_test ''Rename4.DestinationPresentAfterRename'' sec (test4_destination_present_after_rename os),
     add_test ''Rename4.ChangeAdvancesOnBothDirs'' sec (test4_change_advances_on_both_dirs os)])"

subsection \<open>Stale file handles\<close>

definition expect_stale_or_noent :: "('s, 'a) io \<Rightarrow> string \<Rightarrow> ('s, unit) io" where
  "expect_stale_or_noent expr what_msg =
     io_bind (io_try expr) (\<lambda>r.
     case r of
       Inr _ \<Rightarrow> io_throw (RuntimeError (what_msg @ '': server returned success (FH still valid '' @ em_dash @
         '' inode cached, SKIP)''))
     | Inl (Nfs4Error status op) \<Rightarrow>
         io_throw_if (\<not> Nfs4Error_is (Nfs4Error status op) NFS4ERR_STALE \<and>
             \<not> Nfs4Error_is (Nfs4Error status op) NFS4ERR_NOENT)
           (ComplianceFailure (what_msg @ '': expected NFS4ERR_STALE or NFS4ERR_NOENT, got nfsstat4='' @
             to_string (unat status)))
     | Inl e \<Rightarrow> io_throw e)"

definition test4_getattr_stale_fh :: "'w os \<Rightarrow> 'w test4" where
  "test4_getattr_stale_fh os ctx =
     io_bind (Nfs4Client_open_write os (cx4_workdir_fh ctx) (bytes_of ''stale4_file.txt'') True) (\<lambda>f.
     io_bind (Nfs4Client_close os f) (\<lambda>_.
     io_bind (Nfs4Client_lookup os (cx4_workdir_fh ctx) (bytes_of ''stale4_file.txt'')) (\<lambda>fh.
     io_bind (Nfs4Client_remove os (cx4_workdir_fh ctx) (bytes_of ''stale4_file.txt'')) (\<lambda>_.
     expect_stale_or_noent (Nfs4Client_getattr os fh) ''getattr on deleted file FH''))))"

definition test4_lookup_in_stale_dir :: "'w os \<Rightarrow> 'w test4" where
  "test4_lookup_in_stale_dir os ctx =
     io_bind (Nfs4Client_mkdir os (cx4_workdir_fh ctx) (bytes_of ''stale4_dir'') Sattr4_default) (\<lambda>dir.
     io_bind (Nfs4Client_remove os (cx4_workdir_fh ctx) (bytes_of ''stale4_dir'')) (\<lambda>_.
     expect_stale_or_noent (Nfs4Client_lookup os dir (bytes_of ''nonexistent_child'')) ''lookup in deleted directory FH''))"

definition register_stale4_tests :: "'w os \<Rightarrow> 'w runner4 \<Rightarrow> 'w runner4" where
  "register_stale4_tests os =
     (let sec = ''RFC 7530 '' @ section_sign @ ''4.2.4'' in steps [
     add_test ''Stale4.GetattrOnDeletedFile'' sec (test4_getattr_stale_fh os),
     add_test ''Stale4.LookupInDeletedDir'' sec (test4_lookup_in_stale_dir os)])"

subsection \<open>main\<close>

definition compliance4_tests :: "'w os \<Rightarrow> 'w runner4" where
  "compliance4_tests os = steps [
     register_basic4_tests os,
     register_attr4_tests os,
     register_stateid4_tests os,
     register_stale4_tests os,
     register_rename4_tests os] []"

definition compliance4_auth :: "u32 \<Rightarrow> AuthSys" where
  "compliance4_auth stamp = AuthSys_default\<lparr>au_stamp := stamp,
     au_machinename := bytes_of ''nfsclient-compliance4'', au_uid := 0, au_gid := 0\<rparr>"

definition compliance4_workdir :: "nat \<Rightarrow> cstring" where
  "compliance4_workdir pid = bytes_of (''compliance4_'' @ to_string pid)"

text \<open>The requests that only print what became of them.\<close>

definition diagnostics4 :: "'w os \<Rightarrow> Nfs4Fh \<Rightarrow> ('w nfs4_state, unit) io" where
  "diagnostics4 os root_fh =
     io_bind (swallow (Nfs4Client_getattr os root_fh)) (\<lambda>_.
     io_bind (swallow (Nfs4Client_access os root_fh 0x1F)) (\<lambda>_.
     io_bind (swallow (Nfs4Client_readdir os root_fh)) (\<lambda>_.
     swallow (Nfs4Client_lookup os root_fh (bytes_of ''zzznonexistent_diag'')))))"

definition compliance4_run :: "'w os \<Rightarrow> nat \<Rightarrow> options \<Rightarrow> ('w nfs4_state, nat \<times> string list) io" where
  "compliance4_run os pid o1 =
     io_bind (io_get (\<lambda>(c, w). n40_root_fh c)) (\<lambda>root_fh.
     io_bind (diagnostics4 os root_fh) (\<lambda>_.
     io_bind (swallow (rmdir4_recursive os root_fh (compliance4_workdir pid))) (\<lambda>_.
     io_bind (io_try (Nfs4Client_mkdir os root_fh (compliance4_workdir pid) Sattr4_default)) (\<lambda>d.
     case d of Inl _ \<Rightarrow> io_return (1, []) | Inr workdir_fh \<Rightarrow>
     let ctx = \<lparr>cx4_root_fh = root_fh, cx4_workdir_fh = workdir_fh, cx4_server = opt_server o1,
                cx4_export_path = opt_export o1\<rparr> in
     io_bind (run_all4 ctx (opt_filter o1) (compliance4_tests os)) (\<lambda>(fails, out).
     io_bind (swallow (rmdir4_recursive os root_fh (compliance4_workdir pid))) (\<lambda>_.
     io_return (exit_code fails, out)))))))"

definition compliance4_main :: "'w os \<Rightarrow> 'w test_env \<Rightarrow> nat \<Rightarrow> string list \<Rightarrow> ('w, nat \<times> string list) io" where
  "compliance4_main os env pid args =
     (case read_options args of
        None \<Rightarrow> io_return (2, [])
      | Some o1 \<Rightarrow>
          io_bind (io_call (te_time env)) (\<lambda>stamp.
          io_bind (Nfs4Client_auth os (opt_server o1) (compliance4_auth stamp)) (\<lambda>client w.
          map_option (\<lambda>(r, (c, w')). (r, rpc_destroy os (n40_rpc c) w'))
            (compliance4_run os pid o1 (client, w)))))"

end
