(* ===== verification/Compliance41.thy ===== *)
theory Compliance41
  imports Compliance4 Nfs41_Client
begin

text \<open>
  \<open>tools/compliance41\<close>: the NFSv4.1 tests, their runner and \<open>main\<close>. Lines are as in theory \<open>Compliance_Runner\<close>.
\<close>

unbundle bit_operations_syntax

subsection \<open>Checks\<close>

record TestCtx41 =
  cx41_root_fh :: Nfs4Fh
  cx41_workdir_fh :: Nfs4Fh
  cx41_server :: string
  cx41_export_path :: string

type_synonym 'w test41 = "TestCtx41 \<Rightarrow> ('w nfs41_state, unit) io"
type_synonym 'w runner41 = "(TestCtx41, 'w nfs41_state) TestRunner"

definition CHECK41 :: "string \<Rightarrow> string \<Rightarrow> bool \<Rightarrow> ('s, unit) io" where
  "CHECK41 expr loc c = io_throw_if (\<not> c) (ComplianceFailure (''CHECK41 failed: '' @ expr @ '' at '' @ loc))"

definition EXPECT_NFS41_ERR :: "('s, 'a) io \<Rightarrow> Nfsstat4 \<Rightarrow> string \<Rightarrow> ('s, unit) io" where
  "EXPECT_NFS41_ERR m code cname =
     io_bind (io_try m) (\<lambda>r.
     case r of
       Inr _ \<Rightarrow> io_throw (ComplianceFailure (''EXPECT_NFS41_ERR('' @ cname @ ''): no exception thrown''))
     | Inl (Nfs4Error status op) \<Rightarrow>
         io_throw_if (\<not> Nfs4Error_is (Nfs4Error status op) code)
           (ComplianceFailure (''EXPECT_NFS41_ERR('' @ cname @ ''): got nfsstat4='' @ to_string (unat status)))
     | Inl e \<Rightarrow> io_throw e)"

subsection \<open>The runner\<close>

text \<open>\<open>TestRunner41::run_all\<close> is the code of \<open>TestRunner4::run_all\<close>.\<close>

definition run_all41 :: "'c \<Rightarrow> string \<Rightarrow> ('c, 's) TestRunner \<Rightarrow> ('s, nat \<times> string list) io" where
  "run_all41 ctx flt tests = run_all4 ctx flt tests"

subsection \<open>Removing the scratch directory\<close>

text \<open>The loop of \<open>rmdir41_recursive\<close> with the call of the function itself written out.\<close>

partial_function (option) rmdir41_entries ::
  "'w os \<Rightarrow> Nfs4Fh \<Rightarrow> Nfs4DirEntry list \<Rightarrow> 'w nfs41_state \<Rightarrow> ((error + unit) \<times> 'w nfs41_state) option" where
  "rmdir41_entries os dir entries s =
     (case entries of
        [] \<Rightarrow> io_return () s
      | e # rest \<Rightarrow>
          if dot_name (d4_name e) then rmdir41_entries os dir rest s
          else if f4_type (d4_attrs e) = Some NF4DIR then
            io_bind (Nfs41Client_lookup os dir (d4_name e)) (\<lambda>dir'.
            io_bind (Nfs41Client_readdir os dir') (\<lambda>entries'.
            io_bind (rmdir41_entries os dir' entries') (\<lambda>_.
            io_bind (Nfs41Client_remove os dir (d4_name e)) (\<lambda>_.
            rmdir41_entries os dir rest)))) s
          else
            io_bind (Nfs41Client_remove os dir (d4_name e)) (\<lambda>_. rmdir41_entries os dir rest) s)"

definition rmdir41_recursive :: "'w os \<Rightarrow> Nfs4Fh \<Rightarrow> cstring \<Rightarrow> ('w nfs41_state, unit) io" where
  "rmdir41_recursive os parent name =
     io_bind (Nfs41Client_lookup os parent name) (\<lambda>dir.
     io_bind (Nfs41Client_readdir os dir) (\<lambda>entries.
     io_bind (rmdir41_entries os dir entries) (\<lambda>_.
     Nfs41Client_remove os parent name)))"

subsection \<open>Basic operations\<close>

definition test41_lookup_existing :: "'w os \<Rightarrow> 'w test41" where
  "test41_lookup_existing os ctx =
     io_bind (Nfs41Client_open_write os (cx41_workdir_fh ctx) (bytes_of ''b41_lookup.txt'') True) (\<lambda>f.
     io_bind (Nfs41Client_close os f) (\<lambda>_.
     io_bind (Nfs41Client_lookup os (cx41_workdir_fh ctx) (bytes_of ''b41_lookup.txt'')) (\<lambda>fh.
     io_bind (Nfs41Client_getattr os fh) (\<lambda>attrs.
     io_bind (CHECK41 ''attrs.type.has_value() && *attrs.type == Ftype4::NF4REG'' ''test_basic41.cpp:19''
       (f4_type attrs = Some NF4REG)) (\<lambda>_.
     Nfs41Client_remove os (cx41_workdir_fh ctx) (bytes_of ''b41_lookup.txt''))))))"

definition test41_lookup_noent :: "'w os \<Rightarrow> 'w test41" where
  "test41_lookup_noent os ctx =
     EXPECT_NFS41_ERR
       (Nfs41Client_lookup os (cx41_workdir_fh ctx) (bytes_of ''b41_no_such_file_xyz''))
       NFS4ERR_NOENT ''Nfsstat4::NFS4ERR_NOENT''"

definition test41_read_write_roundtrip :: "'w os \<Rightarrow> 'w test41" where
  "test41_read_write_roundtrip os ctx =
     (let payload = bytes_of ''Hello, NFSv4.1 compliance!'' in
     io_bind (Nfs41Client_open_write os (cx41_workdir_fh ctx) (bytes_of ''b41_rw.txt'') True) (\<lambda>wf.
     io_bind (Nfs41Client_write os wf 0 FILE_SYNC4 payload) (\<lambda>_.
     io_bind (Nfs41Client_close os wf) (\<lambda>_.
     io_bind (Nfs41Client_open_read os (cx41_workdir_fh ctx) (bytes_of ''b41_rw.txt'')) (\<lambda>rf.
     io_bind (Nfs41Client_read os rf 0 (word_of_nat (length payload))) (\<lambda>data.
     io_bind (Nfs41Client_close os rf) (\<lambda>_.
     io_bind (CHECK41 ''std::string(data.begin(), data.end()) == payload'' ''test_basic41.cpp:43''
       (data = payload)) (\<lambda>_.
     Nfs41Client_remove os (cx41_workdir_fh ctx) (bytes_of ''b41_rw.txt'')))))))))"

definition test41_read_past_eof :: "'w os \<Rightarrow> 'w test41" where
  "test41_read_past_eof os ctx =
     (let payload = bytes_of ''short'' in
     io_bind (Nfs41Client_open_write os (cx41_workdir_fh ctx) (bytes_of ''b41_eof.txt'') True) (\<lambda>wf.
     io_bind (Nfs41Client_write os wf 0 FILE_SYNC4 payload) (\<lambda>_.
     io_bind (Nfs41Client_close os wf) (\<lambda>_.
     io_bind (Nfs41Client_open_read os (cx41_workdir_fh ctx) (bytes_of ''b41_eof.txt'')) (\<lambda>rf.
     io_bind (Nfs41Client_read os rf 1000 512) (\<lambda>data.
     io_bind (Nfs41Client_close os rf) (\<lambda>_.
     io_bind (CHECK41 ''data.empty()'' ''test_basic41.cpp:60''
       (data = [])) (\<lambda>_.
     Nfs41Client_remove os (cx41_workdir_fh ctx) (bytes_of ''b41_eof.txt'')))))))))"

definition test41_mkdir_and_remove :: "'w os \<Rightarrow> 'w test41" where
  "test41_mkdir_and_remove os ctx =
     io_bind (Nfs41Client_mkdir os (cx41_workdir_fh ctx) (bytes_of ''b41_dir'') Sattr4_default) (\<lambda>dir.
     io_bind (Nfs41Client_getattr os dir) (\<lambda>attrs.
     io_bind (CHECK41 ''attrs.type.has_value() && *attrs.type == Ftype4::NF4DIR'' ''test_basic41.cpp:67''
       (f4_type attrs = Some NF4DIR)) (\<lambda>_.
     Nfs41Client_remove os (cx41_workdir_fh ctx) (bytes_of ''b41_dir''))))"

definition test41_readdir :: "'w os \<Rightarrow> 'w test41" where
  "test41_readdir os ctx =
     io_bind (Nfs41Client_mkdir os (cx41_workdir_fh ctx) (bytes_of ''b41_readdir_dir'') Sattr4_default) (\<lambda>dir.
     io_bind (Nfs41Client_open_write os dir (bytes_of ''file1.txt'') True) (\<lambda>f1.
     io_bind (Nfs41Client_close os f1) (\<lambda>_.
     io_bind (Nfs41Client_open_write os dir (bytes_of ''file2.txt'') True) (\<lambda>f2.
     io_bind (Nfs41Client_close os f2) (\<lambda>_.
     io_bind (Nfs41Client_readdir os dir) (\<lambda>entries.
     let found1 = list_ex (\<lambda>e. d4_name e = bytes_of ''file1.txt'') entries;
         found2 = list_ex (\<lambda>e. d4_name e = bytes_of ''file2.txt'') entries in
     io_bind (CHECK41 ''found1'' ''test_basic41.cpp:86''
       (found1)) (\<lambda>_.
     io_bind (CHECK41 ''found2'' ''test_basic41.cpp:87''
       (found2)) (\<lambda>_.
     io_bind (Nfs41Client_remove os dir (bytes_of ''file1.txt'')) (\<lambda>_.
     io_bind (Nfs41Client_remove os dir (bytes_of ''file2.txt'')) (\<lambda>_.
     Nfs41Client_remove os (cx41_workdir_fh ctx) (bytes_of ''b41_readdir_dir'')))))))))))"

definition register_basic41_tests :: "'w os \<Rightarrow> 'w runner41 \<Rightarrow> 'w runner41" where
  "register_basic41_tests os =
     (let sec = ''RFC 8881'' in steps [
     add_test ''Basic41.LookupExistingFile'' (sec @ '' '' @ section_sign @ ''18.15'') (test41_lookup_existing os),
     add_test ''Basic41.LookupNonExistent'' (sec @ '' '' @ section_sign @ ''18.15'') (test41_lookup_noent os),
     add_test ''Basic41.ReadWriteRoundtrip'' (sec @ '' '' @ section_sign @ ''18.22'') (test41_read_write_roundtrip os),
     add_test ''Basic41.ReadPastEof'' (sec @ '' '' @ section_sign @ ''18.22'') (test41_read_past_eof os),
     add_test ''Basic41.MkdirAndRemove'' (sec @ '' '' @ section_sign @ ''18.6'') (test41_mkdir_and_remove os),
     add_test ''Basic41.Readdir'' (sec @ '' '' @ section_sign @ ''18.23'') (test41_readdir os)])"

subsection \<open>Attributes\<close>

definition test41_type_regular_file :: "'w os \<Rightarrow> 'w test41" where
  "test41_type_regular_file os ctx =
     io_bind (Nfs41Client_open_write os (cx41_workdir_fh ctx) (bytes_of ''a41_type_reg.txt'') True) (\<lambda>f.
     io_bind (Nfs41Client_close os f) (\<lambda>_.
     io_bind (Nfs41Client_lookup os (cx41_workdir_fh ctx) (bytes_of ''a41_type_reg.txt'')) (\<lambda>fh.
     io_bind (Nfs41Client_getattr os fh) (\<lambda>attrs.
     io_bind (CHECK41 ''attrs.type.has_value() && *attrs.type == Ftype4::NF4REG'' ''test_attrs41.cpp:16''
       (f4_type attrs = Some NF4REG)) (\<lambda>_.
     Nfs41Client_remove os (cx41_workdir_fh ctx) (bytes_of ''a41_type_reg.txt''))))))"

definition test41_type_directory :: "'w os \<Rightarrow> 'w test41" where
  "test41_type_directory os ctx =
     io_bind (Nfs41Client_mkdir os (cx41_workdir_fh ctx) (bytes_of ''a41_type_dir'') Sattr4_default) (\<lambda>dir.
     io_bind (Nfs41Client_getattr os dir) (\<lambda>attrs.
     io_bind (CHECK41 ''attrs.type.has_value() && *attrs.type == Ftype4::NF4DIR'' ''test_attrs41.cpp:24''
       (f4_type attrs = Some NF4DIR)) (\<lambda>_.
     Nfs41Client_remove os (cx41_workdir_fh ctx) (bytes_of ''a41_type_dir''))))"

definition test41_size_after_write :: "'w os \<Rightarrow> 'w test41" where
  "test41_size_after_write os ctx =
     (let payload = bytes_of ''size test payload string'' in
     io_bind (Nfs41Client_open_write os (cx41_workdir_fh ctx) (bytes_of ''a41_size.txt'') True) (\<lambda>f.
     io_bind (Nfs41Client_write os f 0 FILE_SYNC4 payload) (\<lambda>_.
     io_bind (Nfs41Client_close os f) (\<lambda>_.
     io_bind (Nfs41Client_lookup os (cx41_workdir_fh ctx) (bytes_of ''a41_size.txt'')) (\<lambda>fh.
     io_bind (Nfs41Client_getattr os fh) (\<lambda>attrs.
     io_bind (CHECK41 ''attrs.size.has_value() && *attrs.size == payload.size()'' ''test_attrs41.cpp:39''
       (f4_size attrs = Some (word_of_nat (length payload)))) (\<lambda>_.
     Nfs41Client_remove os (cx41_workdir_fh ctx) (bytes_of ''a41_size.txt''))))))))"

definition test41_change_advances_after_write :: "'w os \<Rightarrow> 'w test41" where
  "test41_change_advances_after_write os ctx =
     io_bind (Nfs41Client_open_write os (cx41_workdir_fh ctx) (bytes_of ''a41_change.txt'') True) (\<lambda>f1.
     let payload1 = bytes_of ''initial content'' in
     io_bind (Nfs41Client_write os f1 0 FILE_SYNC4 payload1) (\<lambda>_.
     io_bind (Nfs41Client_close os f1) (\<lambda>_.
     io_bind (Nfs41Client_lookup os (cx41_workdir_fh ctx) (bytes_of ''a41_change.txt'')) (\<lambda>fh.
     io_bind (Nfs41Client_getattr os fh) (\<lambda>before.
     io_bind (CHECK41 ''before.change.has_value()'' ''test_attrs41.cpp:54''
       (f4_change before \<noteq> None)) (\<lambda>_.
     io_bind (Nfs41Client_open_write os (cx41_workdir_fh ctx) (bytes_of ''a41_change.txt'') True) (\<lambda>f2.
     let payload2 = bytes_of ''updated content that is longer than before'' in
     io_bind (Nfs41Client_write os f2 0 FILE_SYNC4 payload2) (\<lambda>_.
     io_bind (Nfs41Client_close os f2) (\<lambda>_.
     io_bind (Nfs41Client_getattr os fh) (\<lambda>after.
     io_bind (CHECK41 ''after.change.has_value() && *after.change > *before.change'' ''test_attrs41.cpp:64''
       (f4_change after \<noteq> None \<and> the (f4_change after) > the (f4_change before))) (\<lambda>_.
     Nfs41Client_remove os (cx41_workdir_fh ctx) (bytes_of ''a41_change.txt''))))))))))))"

definition test41_time_modify_advances_after_write :: "'w os \<Rightarrow> 'w test41" where
  "test41_time_modify_advances_after_write os ctx =
     (let payload1 = bytes_of ''first write'' in
     io_bind (Nfs41Client_open_write os (cx41_workdir_fh ctx) (bytes_of ''a41_mtime.txt'') True) (\<lambda>f1.
     io_bind (Nfs41Client_write os f1 0 FILE_SYNC4 payload1) (\<lambda>_.
     io_bind (Nfs41Client_close os f1) (\<lambda>_.
     io_bind (Nfs41Client_lookup os (cx41_workdir_fh ctx) (bytes_of ''a41_mtime.txt'')) (\<lambda>fh.
     io_bind (Nfs41Client_getattr os fh) (\<lambda>before.
     io_bind (CHECK41 ''before.time_modify.has_value()'' ''test_attrs41.cpp:80''
       (f4_time_modify before \<noteq> None)) (\<lambda>_.
     io_bind (Nfs41Client_open_write os (cx41_workdir_fh ctx) (bytes_of ''a41_mtime.txt'') True) (\<lambda>f2.
     let payload2 = bytes_of ''second write with more data here'' in
     io_bind (Nfs41Client_write os f2 0 FILE_SYNC4 payload2) (\<lambda>_.
     io_bind (Nfs41Client_close os f2) (\<lambda>_.
     io_bind (Nfs41Client_getattr os fh) (\<lambda>after.
     io_bind (CHECK41 ''after.time_modify.has_value()'' ''test_attrs41.cpp:90''
       (f4_time_modify after \<noteq> None)) (\<lambda>_.
     io_bind (CHECK41 ''after.time_modify->seconds >= before.time_modify->seconds'' ''test_attrs41.cpp:91''
       (sint (t4_seconds (the (f4_time_modify after))) \<ge> sint (t4_seconds (the (f4_time_modify before))))) (\<lambda>_.
     Nfs41Client_remove os (cx41_workdir_fh ctx) (bytes_of ''a41_mtime.txt''))))))))))))))"

definition test41_owner_non_empty :: "'w os \<Rightarrow> 'w test41" where
  "test41_owner_non_empty os ctx =
     io_bind (Nfs41Client_open_write os (cx41_workdir_fh ctx) (bytes_of ''a41_owner.txt'') True) (\<lambda>f.
     io_bind (Nfs41Client_close os f) (\<lambda>_.
     io_bind (Nfs41Client_lookup os (cx41_workdir_fh ctx) (bytes_of ''a41_owner.txt'')) (\<lambda>fh.
     io_bind (Nfs41Client_getattr os fh) (\<lambda>attrs.
     io_bind (CHECK41 ''attrs.owner.has_value() && !attrs.owner->empty()'' ''test_attrs41.cpp:102''
       (f4_owner attrs \<noteq> None \<and> the (f4_owner attrs) \<noteq> [])) (\<lambda>_.
     Nfs41Client_remove os (cx41_workdir_fh ctx) (bytes_of ''a41_owner.txt''))))))"

definition test41_owner_group_non_empty :: "'w os \<Rightarrow> 'w test41" where
  "test41_owner_group_non_empty os ctx =
     io_bind (Nfs41Client_open_write os (cx41_workdir_fh ctx) (bytes_of ''a41_group.txt'') True) (\<lambda>f.
     io_bind (Nfs41Client_close os f) (\<lambda>_.
     io_bind (Nfs41Client_lookup os (cx41_workdir_fh ctx) (bytes_of ''a41_group.txt'')) (\<lambda>fh.
     io_bind (Nfs41Client_getattr os fh) (\<lambda>attrs.
     io_bind (CHECK41 ''attrs.owner_group.has_value() && !attrs.owner_group->empty()'' ''test_attrs41.cpp:113''
       (f4_owner_group attrs \<noteq> None \<and> the (f4_owner_group attrs) \<noteq> [])) (\<lambda>_.
     Nfs41Client_remove os (cx41_workdir_fh ctx) (bytes_of ''a41_group.txt''))))))"

definition register_attrs41_tests :: "'w os \<Rightarrow> 'w runner41 \<Rightarrow> 'w runner41" where
  "register_attrs41_tests os =
     (let sec = ''RFC 8881'' @ '' '' @ section_sign @ ''5.8'' in steps [
     add_test ''Attrs41.TypeRegularFile'' sec (test41_type_regular_file os),
     add_test ''Attrs41.TypeDirectory'' sec (test41_type_directory os),
     add_test ''Attrs41.SizeAfterWrite'' sec (test41_size_after_write os),
     add_test ''Attrs41.ChangeAdvancesAfterWrite'' sec (test41_change_advances_after_write os),
     add_test ''Attrs41.TimeModifyAfterWrite'' sec (test41_time_modify_advances_after_write os),
     add_test ''Attrs41.OwnerNonEmpty'' sec (test41_owner_non_empty os),
     add_test ''Attrs41.OwnerGroupNonEmpty'' sec (test41_owner_group_non_empty os)])"

subsection \<open>Open and close\<close>

definition test41_open_read_close_persists :: "'w os \<Rightarrow> 'w test41" where
  "test41_open_read_close_persists os ctx =
     (let payload = bytes_of ''persistence check payload'' in
     io_bind (Nfs41Client_open_write os (cx41_workdir_fh ctx) (bytes_of ''s41_persist.txt'') True) (\<lambda>wf.
     io_bind (Nfs41Client_write os wf 0 FILE_SYNC4 payload) (\<lambda>_.
     io_bind (Nfs41Client_close os wf) (\<lambda>_.
     io_bind (Nfs41Client_open_read os (cx41_workdir_fh ctx) (bytes_of ''s41_persist.txt'')) (\<lambda>rf.
     io_bind (Nfs41Client_read os rf 0 (word_of_nat (length payload))) (\<lambda>data.
     io_bind (Nfs41Client_close os rf) (\<lambda>_.
     io_bind (CHECK41 ''std::string(data.begin(), data.end()) == payload'' ''test_stateid41.cpp:29''
       (data = payload)) (\<lambda>_.
     Nfs41Client_remove os (cx41_workdir_fh ctx) (bytes_of ''s41_persist.txt'')))))))))"

definition test41_write_multiple_chunks :: "'w os \<Rightarrow> 'w test41" where
  "test41_write_multiple_chunks os ctx =
     (let part1 = bytes_of ''AAAA'';
         part2 = bytes_of ''BBBB'' in
     io_bind (Nfs41Client_open_write os (cx41_workdir_fh ctx) (bytes_of ''s41_chunks.txt'') True) (\<lambda>wf.
     io_bind (Nfs41Client_write os wf 0 FILE_SYNC4 part1) (\<lambda>_.
     io_bind (Nfs41Client_write os wf (word_of_nat (length part1)) FILE_SYNC4 part2) (\<lambda>_.
     io_bind (Nfs41Client_close os wf) (\<lambda>_.
     io_bind (Nfs41Client_open_read os (cx41_workdir_fh ctx) (bytes_of ''s41_chunks.txt'')) (\<lambda>rf.
     io_bind (Nfs41Client_read os rf 0 8) (\<lambda>data.
     io_bind (Nfs41Client_close os rf) (\<lambda>_.
     io_bind (CHECK41 ''data.size() == 8'' ''test_stateid41.cpp:50''
       (length data = 8)) (\<lambda>_.
     io_bind (CHECK41 ''std::string(data.begin(), data.begin() + 4) == part1'' ''test_stateid41.cpp:51''
       (take 4 data = part1)) (\<lambda>_.
     io_bind (CHECK41 ''std::string(data.begin() + 4, data.end()) == part2'' ''test_stateid41.cpp:52''
       (drop 4 data = part2)) (\<lambda>_.
     Nfs41Client_remove os (cx41_workdir_fh ctx) (bytes_of ''s41_chunks.txt''))))))))))))"

definition test41_commit :: "'w os \<Rightarrow> 'w test41" where
  "test41_commit os ctx =
     (let payload = bytes_of ''commit test data'' in
     io_bind (Nfs41Client_open_write os (cx41_workdir_fh ctx) (bytes_of ''s41_commit.txt'') True) (\<lambda>f.
     io_bind (Nfs41Client_write os f 0 UNSTABLE4 payload) (\<lambda>_.
     io_bind (Nfs41Client_commit os f 0 0) (\<lambda>_.
     io_bind (Nfs41Client_close os f) (\<lambda>_.
     Nfs41Client_remove os (cx41_workdir_fh ctx) (bytes_of ''s41_commit.txt''))))))"

definition test41_setattr_mode :: "'w os \<Rightarrow> 'w test41" where
  "test41_setattr_mode os ctx =
     io_bind (Nfs41Client_open_write os (cx41_workdir_fh ctx) (bytes_of ''s41_mode.txt'') True) (\<lambda>f.
     io_bind (Nfs41Client_close os f) (\<lambda>_.
     io_bind (Nfs41Client_lookup os (cx41_workdir_fh ctx) (bytes_of ''s41_mode.txt'')) (\<lambda>fh.
     let attrs = Sattr4_default\<lparr>s4_mode := Some 0x1A4\<rparr> in
     io_bind (Nfs41Client_setattr os fh attrs) (\<lambda>_.
     io_bind (Nfs41Client_getattr os fh) (\<lambda>got.
     io_bind (CHECK41 ''got.mode.has_value() && *got.mode == 0644u'' ''test_stateid41.cpp:79''
       (f4_mode got = Some 0x1A4)) (\<lambda>_.
     Nfs41Client_remove os (cx41_workdir_fh ctx) (bytes_of ''s41_mode.txt'')))))))"

definition test41_access_check :: "'w os \<Rightarrow> 'w test41" where
  "test41_access_check os ctx =
     io_bind (Nfs41Client_open_write os (cx41_workdir_fh ctx) (bytes_of ''s41_access.txt'') True) (\<lambda>f.
     io_bind (Nfs41Client_close os f) (\<lambda>_.
     io_bind (Nfs41Client_lookup os (cx41_workdir_fh ctx) (bytes_of ''s41_access.txt'')) (\<lambda>fh.
     io_bind (Nfs41Client_access os fh 7) (\<lambda>granted.
     io_bind (CHECK41 ''granted & 0x1u'' ''test_stateid41.cpp:93''
       (granted AND 1 \<noteq> 0)) (\<lambda>_.
     Nfs41Client_remove os (cx41_workdir_fh ctx) (bytes_of ''s41_access.txt''))))))"

definition test41_no_open_confirm :: "'w os \<Rightarrow> 'w test41" where
  "test41_no_open_confirm os ctx =
     io_bind (Nfs41Client_open_write os (cx41_workdir_fh ctx) (bytes_of ''s41_noconfirm.txt'') True) (\<lambda>f.
     io_bind (Nfs41Client_close os f) (\<lambda>_.
     Nfs41Client_remove os (cx41_workdir_fh ctx) (bytes_of ''s41_noconfirm.txt'')))"

definition register_stateid41_tests :: "'w os \<Rightarrow> 'w runner41 \<Rightarrow> 'w runner41" where
  "register_stateid41_tests os =
     (let sec = ''RFC 8881'' @ '' '' @ section_sign @ ''18.16'' in steps [
     add_test ''Stateid41.OpenReadClosePersists'' sec (test41_open_read_close_persists os),
     add_test ''Stateid41.WriteMultipleChunks'' sec (test41_write_multiple_chunks os),
     add_test ''Stateid41.Commit'' sec (test41_commit os),
     add_test ''Stateid41.SetattrMode'' sec (test41_setattr_mode os),
     add_test ''Stateid41.AccessCheck'' sec (test41_access_check os),
     add_test ''Stateid41.NoOpenConfirm'' sec (test41_no_open_confirm os)])"

subsection \<open>Renaming\<close>

definition test41_source_gone_after_rename :: "'w os \<Rightarrow> 'w test41" where
  "test41_source_gone_after_rename os ctx =
     io_bind (Nfs41Client_mkdir os (cx41_workdir_fh ctx) (bytes_of ''r41_src'') Sattr4_default) (\<lambda>src_dir.
     io_bind (Nfs41Client_mkdir os (cx41_workdir_fh ctx) (bytes_of ''r41_dst'') Sattr4_default) (\<lambda>dst_dir.
     io_bind (Nfs41Client_open_write os src_dir (bytes_of ''r41_file.txt'') True) (\<lambda>f.
     io_bind (Nfs41Client_close os f) (\<lambda>_.
     io_bind (Nfs41Client_rename os src_dir (bytes_of ''r41_file.txt'') dst_dir (bytes_of ''r41_moved.txt'')) (\<lambda>_.
     io_bind (EXPECT_NFS41_ERR
       (Nfs41Client_lookup os src_dir (bytes_of ''r41_file.txt''))
       NFS4ERR_NOENT ''Nfsstat4::NFS4ERR_NOENT'') (\<lambda>_.
     io_bind (Nfs41Client_remove os dst_dir (bytes_of ''r41_moved.txt'')) (\<lambda>_.
     io_bind (Nfs41Client_remove os (cx41_workdir_fh ctx) (bytes_of ''r41_src'')) (\<lambda>_.
     Nfs41Client_remove os (cx41_workdir_fh ctx) (bytes_of ''r41_dst'')))))))))"

definition test41_destination_present_after_rename :: "'w os \<Rightarrow> 'w test41" where
  "test41_destination_present_after_rename os ctx =
     io_bind (Nfs41Client_mkdir os (cx41_workdir_fh ctx) (bytes_of ''r41p_src'') Sattr4_default) (\<lambda>src_dir.
     io_bind (Nfs41Client_mkdir os (cx41_workdir_fh ctx) (bytes_of ''r41p_dst'') Sattr4_default) (\<lambda>dst_dir.
     io_bind (Nfs41Client_open_write os src_dir (bytes_of ''r41p_file.txt'') True) (\<lambda>f.
     io_bind (Nfs41Client_close os f) (\<lambda>_.
     io_bind (Nfs41Client_rename os src_dir (bytes_of ''r41p_file.txt'') dst_dir (bytes_of ''r41p_moved.txt'')) (\<lambda>_.
     io_bind (Nfs41Client_lookup os dst_dir (bytes_of ''r41p_moved.txt'')) (\<lambda>moved.
     io_bind (Nfs41Client_getattr os moved) (\<lambda>attrs.
     io_bind (CHECK41 ''attrs.type.has_value() && *attrs.type == Ftype4::NF4REG'' ''test_rename41.cpp:40''
       (f4_type attrs = Some NF4REG)) (\<lambda>_.
     io_bind (Nfs41Client_remove os dst_dir (bytes_of ''r41p_moved.txt'')) (\<lambda>_.
     io_bind (Nfs41Client_remove os (cx41_workdir_fh ctx) (bytes_of ''r41p_src'')) (\<lambda>_.
     Nfs41Client_remove os (cx41_workdir_fh ctx) (bytes_of ''r41p_dst'')))))))))))"

definition test41_change_advances_on_both_dirs :: "'w os \<Rightarrow> 'w test41" where
  "test41_change_advances_on_both_dirs os ctx =
     io_bind (Nfs41Client_mkdir os (cx41_workdir_fh ctx) (bytes_of ''rc41_src'') Sattr4_default) (\<lambda>src_dir.
     io_bind (Nfs41Client_mkdir os (cx41_workdir_fh ctx) (bytes_of ''rc41_dst'') Sattr4_default) (\<lambda>dst_dir.
     io_bind (Nfs41Client_open_write os src_dir (bytes_of ''rc41_file.txt'') True) (\<lambda>f.
     io_bind (Nfs41Client_close os f) (\<lambda>_.
     io_bind (Nfs41Client_getattr os src_dir) (\<lambda>src_before.
     io_bind (Nfs41Client_getattr os dst_dir) (\<lambda>dst_before.
     io_bind (CHECK41 ''src_before.change.has_value() && dst_before.change.has_value()'' ''test_rename41.cpp:56''
       (f4_change src_before \<noteq> None \<and> f4_change dst_before \<noteq> None)) (\<lambda>_.
     io_bind (Nfs41Client_rename os src_dir (bytes_of ''rc41_file.txt'') dst_dir (bytes_of ''rc41_moved.txt'')) (\<lambda>_.
     io_bind (Nfs41Client_getattr os src_dir) (\<lambda>src_after.
     io_bind (Nfs41Client_getattr os dst_dir) (\<lambda>dst_after.
     io_bind (CHECK41 ''src_after.change.has_value() && *src_after.change > *src_before.change'' ''test_rename41.cpp:62''
       (f4_change src_after \<noteq> None \<and> the (f4_change src_after) > the (f4_change src_before))) (\<lambda>_.
     io_bind (CHECK41 ''dst_after.change.has_value() && *dst_after.change > *dst_before.change'' ''test_rename41.cpp:63''
       (f4_change dst_after \<noteq> None \<and> the (f4_change dst_after) > the (f4_change dst_before))) (\<lambda>_.
     io_bind (Nfs41Client_remove os dst_dir (bytes_of ''rc41_moved.txt'')) (\<lambda>_.
     io_bind (Nfs41Client_remove os (cx41_workdir_fh ctx) (bytes_of ''rc41_src'')) (\<lambda>_.
     Nfs41Client_remove os (cx41_workdir_fh ctx) (bytes_of ''rc41_dst'')))))))))))))))"

definition register_rename41_tests :: "'w os \<Rightarrow> 'w runner41 \<Rightarrow> 'w runner41" where
  "register_rename41_tests os =
     (let sec = ''RFC 8881'' @ '' '' @ section_sign @ ''18.26'' in steps [
     add_test ''Rename41.SourceGoneAfterRename'' sec (test41_source_gone_after_rename os),
     add_test ''Rename41.DestinationPresentAfterRename'' sec (test41_destination_present_after_rename os),
     add_test ''Rename41.ChangeAdvancesOnBothDirs'' sec (test41_change_advances_on_both_dirs os)])"

subsection \<open>The session\<close>

definition test41_exchange_id :: "'w os \<Rightarrow> 'w test41" where
  "test41_exchange_id os ctx =
     io_bind (io_get (\<lambda>(c, w). n41_clientid c)) (\<lambda>client_id.
     CHECK41 ''ctx.client.client_id() != 0'' ''test_session41.cpp:14''
       (client_id \<noteq> 0))"

definition test41_create_session :: "'w os \<Rightarrow> 'w test41" where
  "test41_create_session os ctx =
     io_bind (io_get (\<lambda>(c, w). n41_sessionid c)) (\<lambda>sid.
     let has_nonzero = list_ex (\<lambda>b. b \<noteq> 0) sid in
     CHECK41 ''has_nonzero'' ''test_session41.cpp:22''
       (has_nonzero))"

definition test41_sequence_works :: "'w os \<Rightarrow> 'w test41" where
  "test41_sequence_works os ctx =
     io_bind (Nfs41Client_getattr os (cx41_root_fh ctx)) (\<lambda>attrs.
     CHECK41 ''attrs.type.has_value()'' ''test_session41.cpp:28''
       (f4_type attrs \<noteq> None))"

definition test41_reclaim_complete :: "'w os \<Rightarrow> 'w test41" where
  "test41_reclaim_complete os ctx =
     io_bind (Nfs41Client_open_write os (cx41_workdir_fh ctx) (bytes_of ''sess41_rc.txt'') True) (\<lambda>f.
     io_bind (Nfs41Client_close os f) (\<lambda>_.
     Nfs41Client_remove os (cx41_workdir_fh ctx) (bytes_of ''sess41_rc.txt'')))"

definition register_session41_tests :: "'w os \<Rightarrow> 'w runner41 \<Rightarrow> 'w runner41" where
  "register_session41_tests os =
     (let sec = ''RFC 8881'' in steps [
     add_test ''Session41.ExchangeId'' (sec @ '' '' @ section_sign @ ''18.35'') (test41_exchange_id os),
     add_test ''Session41.CreateSession'' (sec @ '' '' @ section_sign @ ''18.36'') (test41_create_session os),
     add_test ''Session41.SequenceWorks'' (sec @ '' '' @ section_sign @ ''18.46'') (test41_sequence_works os),
     add_test ''Session41.ReclaimComplete'' (sec @ '' '' @ section_sign @ ''18.51'') (test41_reclaim_complete os)])"

subsection \<open>main\<close>

definition compliance41_tests :: "'w os \<Rightarrow> 'w runner41" where
  "compliance41_tests os = steps [
     register_session41_tests os,
     register_basic41_tests os,
     register_attrs41_tests os,
     register_stateid41_tests os,
     register_rename41_tests os] []"

definition compliance41_auth :: "u32 \<Rightarrow> AuthSys" where
  "compliance41_auth stamp = AuthSys_default\<lparr>au_stamp := stamp,
     au_machinename := bytes_of ''nfsclient-compliance41'', au_uid := 0, au_gid := 0\<rparr>"

definition compliance41_workdir :: "nat \<Rightarrow> cstring" where
  "compliance41_workdir pid = bytes_of (''compliance41_'' @ to_string pid)"

text \<open>The requests that only print what became of them.\<close>

definition diagnostics41 :: "'w os \<Rightarrow> Nfs4Fh \<Rightarrow> ('w nfs41_state, unit) io" where
  "diagnostics41 os root_fh =
     io_bind (swallow (Nfs41Client_getattr os root_fh)) (\<lambda>_.
     io_bind (swallow (Nfs41Client_access os root_fh 0x1F)) (\<lambda>_.
     io_bind (swallow (Nfs41Client_readdir os root_fh)) (\<lambda>_.
     swallow (Nfs41Client_lookup os root_fh (bytes_of ''zzznonexistent_diag'')))))"

definition compliance41_run :: "'w os \<Rightarrow> nat \<Rightarrow> options \<Rightarrow> ('w nfs41_state, nat \<times> string list) io" where
  "compliance41_run os pid o1 =
     io_bind (io_get (\<lambda>(c, w). n41_root_fh c)) (\<lambda>root_fh.
     io_bind (diagnostics41 os root_fh) (\<lambda>_.
     io_bind (swallow (rmdir41_recursive os root_fh (compliance41_workdir pid))) (\<lambda>_.
     io_bind (io_try (Nfs41Client_mkdir os root_fh (compliance41_workdir pid) Sattr4_default)) (\<lambda>d.
     case d of Inl _ \<Rightarrow> io_return (1, []) | Inr workdir_fh \<Rightarrow>
     let ctx = \<lparr>cx41_root_fh = root_fh, cx41_workdir_fh = workdir_fh, cx41_server = opt_server o1,
                cx41_export_path = opt_export o1\<rparr> in
     io_bind (run_all41 ctx (opt_filter o1) (compliance41_tests os)) (\<lambda>(fails, out).
     io_bind (swallow (rmdir41_recursive os root_fh (compliance41_workdir pid))) (\<lambda>_.
     io_return (exit_code fails, out)))))))"

definition compliance41_main :: "'w os \<Rightarrow> 'w test_env \<Rightarrow> nat \<Rightarrow> string list \<Rightarrow> ('w, nat \<times> string list) io" where
  "compliance41_main os env pid args =
     (case read_options args of
        None \<Rightarrow> io_return (2, [])
      | Some o1 \<Rightarrow>
          io_bind (io_call (te_time env)) (\<lambda>stamp.
          io_bind (Nfs41Client_auth os (opt_server o1) (compliance41_auth stamp)) (\<lambda>client w.
          Option.bind (compliance41_run os pid o1 (client, w)) (\<lambda>(r, (c, w')).
            map_option (\<lambda>w''. (r, w'')) (Nfs41Client_destroy os c w')))))"

end
