(* ===== verification/Compliance_Props.thy ===== *)
theory Compliance_Props
  imports Compliance_Rules Compliance41 Nfs41_Server Bench_Props
begin

text \<open>
  What the runners report: the verdicts of the selected tests, each run from the state its predecessor left. The two
  loops (\<open>run_all\<close> of \<open>tools/compliance\<close>, that of \<open>tools/compliance4\<close> and \<open>compliance41\<close>) share the interface
  \<open>test_loop\<close>.
\<close>

subsection \<open>Tests one after the other\<close>

fun test_results :: "'c \<Rightarrow> ('c, 's) ComplianceTest list \<Rightarrow> 's \<Rightarrow> ((error + unit) list \<times> 's) option" where
  "test_results ctx [] s = Some ([], s)"
| "test_results ctx (t # ts) s =
     (case ct_fn t ctx s of None \<Rightarrow> None
      | Some (r, s1) \<Rightarrow> map_option (\<lambda>(rs, s2). (r # rs, s2)) (test_results ctx ts s1))"

text \<open>The tests with the filter somewhere in their name; all of them for the empty filter.\<close>

abbreviation selected :: "string \<Rightarrow> ('c, 's) ComplianceTest list \<Rightarrow> ('c, 's) ComplianceTest list" where
  "selected flt tests \<equiv> filter (\<lambda>t. flt = [] \<or> sublist flt (ct_name t)) tests"

lemma selected_iff: "left_out flt t \<longleftrightarrow> \<not> (flt = [] \<or> sublist flt (ct_name t))"
  by (simp add: left_out_def)

lemma length_test_results: "test_results ctx ts s = Some (rs, s') \<Longrightarrow> length rs = length ts"
  by (induction ts arbitrary: s rs s') (auto split: option.splits prod.splits)

text \<open>The counters and the lines that a list of reports adds to.\<close>

definition tally :: "(TestStatus \<times> string list) list \<Rightarrow> Tally \<Rightarrow> Tally" where
  "tally reps a =
     \<lparr>ta_pass = ta_pass a + count_list (map fst reps) PASS, ta_fail = ta_fail a + count_list (map fst reps) FAIL,
      ta_skip = ta_skip a + count_list (map fst reps) SKIP, ta_out = ta_out a @ concat (map snd reps)\<rparr>"

lemma tally_simps [simp]:
  "tally [] a = a"
  "tally ((st, out) # reps) a = tally reps (count_status st (a\<lparr>ta_out := ta_out a @ out\<rparr>))"
  by (cases st; simp add: tally_def)+

lemma tally_Cons: "tally (rep # reps) a = tally reps (tally [rep] a)"
  by (cases rep) simp

lemma count_statuses: "count_list sts PASS + count_list sts FAIL + count_list sts SKIP = length sts"
  by (induction sts) (auto, metis TestStatus.exhaust)

lemma tally_zip:
  "length sts = length outs \<Longrightarrow> tally (zip sts outs) a =
     \<lparr>ta_pass = ta_pass a + count_list sts PASS, ta_fail = ta_fail a + count_list sts FAIL,
      ta_skip = ta_skip a + count_list sts SKIP, ta_out = ta_out a @ concat outs\<rparr>"
  by (simp add: tally_def)

locale test_loop =
  fixes one :: "'c \<Rightarrow> string \<Rightarrow> ('c, 's) ComplianceTest \<Rightarrow> Tally \<Rightarrow> ('s, Tally) io"
    and report :: "('c, 's) ComplianceTest \<Rightarrow> error + unit \<Rightarrow> TestStatus \<times> string list"
  assumes left: "left_out flt t \<Longrightarrow> one ctx flt t a s = Some (Inr a, s)"
    and runs_it: "\<not> left_out flt t \<Longrightarrow>
      one ctx flt t a s = map_option (\<lambda>(r, s'). (Inr (tally [report t r] a), s')) (ct_fn t ctx s)"
begin

lemma loop_results:
  "for_each (one ctx flt) tests a s =
   map_option (\<lambda>(rs, s'). (Inr (tally (map2 report (selected flt tests) rs) a), s'))
     (test_results ctx (selected flt tests) s)"
proof (induction tests arbitrary: a s)
  case Nil
  then show ?case by (simp add: io_return_def)
next
  case (Cons t tests)
  show ?case
  proof (cases "left_out flt t")
    case True
    then show ?thesis using selected_iff [of flt t] by (auto simp: io_bind_def left Cons.IH)
  next
    case False
    then have "flt = [] \<or> sublist flt (ct_name t)" using selected_iff by blast
    then have sel: "selected flt (t # tests) = t # selected flt tests" by simp
    show ?thesis
      unfolding sel
      by (cases "ct_fn t ctx s")
         (auto simp: io_bind_def runs_it [OF False] Cons.IH option.map_comp comp_def tally_Cons [of _ "map2 _ _ _"]
           split: prod.splits intro!: map_option_cong)
  qed
qed

end

subsection \<open>What is printed\<close>

text \<open>
  The verdict on what became of a test, and the lines for it: in the first suite one, with the verdict in green, red
  or yellow (the escape sequences of a terminal) and the message behind it, in the others the message on a line of
  its own.
\<close>

fun verdict3 :: "error + unit \<Rightarrow> TestStatus" where
  "verdict3 (Inr _) = PASS"
| "verdict3 (Inl (ComplianceFailure _)) = FAIL"
| "verdict3 (Inl (NfsError _ _)) = FAIL"
| "verdict3 (Inl (Nfs4Error _ _)) = SKIP"
| "verdict3 (Inl (RuntimeError _)) = SKIP"

fun verdict4 :: "error + unit \<Rightarrow> TestStatus" where
  "verdict4 (Inr _) = PASS"
| "verdict4 (Inl (ComplianceFailure _)) = FAIL"
| "verdict4 (Inl (Nfs4Error _ _)) = FAIL"
| "verdict4 (Inl (NfsError _ _)) = SKIP"
| "verdict4 (Inl (RuntimeError _)) = SKIP"

definition coloured :: "string \<Rightarrow> string \<Rightarrow> string" where
  "coloured code s = [CHR 0x1B] @ ''['' @ code @ ''m'' @ s @ [CHR 0x1B] @ ''[0m''"

definition line3 :: "('c, 's) ComplianceTest \<Rightarrow> error + unit \<Rightarrow> string" where
  "line3 t r =
     (case verdict3 r of PASS \<Rightarrow> coloured ''32'' ''[PASS]'' | FAIL \<Rightarrow> coloured ''31'' ''[FAIL]''
      | SKIP \<Rightarrow> coloured ''33'' ''[SKIP]'') @ '' '' @ ct_name t @
     (if ct_rfc_ref t = [] then [] else '' ('' @ ct_rfc_ref t @ '')'') @
     (case r of Inr _ \<Rightarrow> [] | Inl e \<Rightarrow> if what e = [] then [] else '': '' @ what e)"

definition summary3 :: "nat \<Rightarrow> nat \<Rightarrow> nat \<Rightarrow> string" where
  "summary3 passed failed skipped =
     ''Results: '' @ coloured ''32'' (to_string passed @ '' passed'') @ '', '' @
     coloured ''31'' (to_string failed @ '' failed'') @ '', '' @
     coloured ''33'' (to_string skipped @ '' skipped'') @
     '' out of '' @ to_string (passed + failed + skipped) @ '' tests.''"

definition lines4 :: "('c, 's) ComplianceTest \<Rightarrow> error + unit \<Rightarrow> string list" where
  "lines4 t r =
     (let title = ct_name t @ ''  ('' @ ct_rfc_ref t @ '')'' in
      case r of
        Inr _ \<Rightarrow> [''  [PASS] '' @ title]
      | Inl (ComplianceFailure s) \<Rightarrow> [''  [FAIL] '' @ title, ''         '' @ s]
      | Inl (Nfs4Error st f) \<Rightarrow> [''  [FAIL] '' @ title, ''         NFS4 error: '' @ what (Nfs4Error st f)]
      | Inl e \<Rightarrow> [''  [SKIP] '' @ title, ''         '' @ what e])"

definition summary4 :: "nat \<Rightarrow> nat \<Rightarrow> nat \<Rightarrow> string" where
  "summary4 passed failed skipped =
     ''Results: '' @ to_string passed @ '' passed, '' @ to_string failed @ '' failed, '' @ to_string skipped @ '' skipped''"

subsection \<open>The two loops\<close>

definition report3 :: "('c, 's) ComplianceTest \<Rightarrow> error + unit \<Rightarrow> TestStatus \<times> string list" where
  "report3 t r =
     (case r of Inr _ \<Rightarrow> (PASS, [test_line t PASS []]) | Inl e \<Rightarrow> (catch_status e, [test_line t (catch_status e) (what e)]))"

lemma report3_eq: "report3 t r = (verdict3 r, [line3 t r])"
proof (cases r)
  case (Inl e)
  then show ?thesis
    by (cases e)
       (auto simp: report3_def line3_def test_line_def catch_status_def coloured_def GREEN_def RED_def YELLOW_def RESET_def
         escape_def)
qed (simp add: report3_def line3_def test_line_def coloured_def GREEN_def RESET_def escape_def)

lemma run_one_runs:
  "\<not> left_out flt t \<Longrightarrow>
   run_one ctx flt t a s = map_option (\<lambda>(r, s'). (Inr (tally [report3 t r] a), s')) (ct_fn t ctx s)"
  by (cases "ct_fn t ctx s")
     (auto simp: run_one_def try_test_def report3_def io_bind_def io_try_def io_return_def split: sum.splits)

interpretation loop3: test_loop run_one report3
  by unfold_locales (simp add: run_one_def io_return_def, rule run_one_runs)

definition report4_of :: "('c, 's) ComplianceTest \<Rightarrow> error + unit \<Rightarrow> TestStatus \<times> string list" where
  "report4_of t = report4 (ct_name t @ ''  ('' @ ct_rfc_ref t @ '')'')"

lemma report4_of_eq: "report4_of t r = (verdict4 r, lines4 t r)"
proof (cases r)
  case (Inl e)
  then show ?thesis by (cases e) (simp_all add: report4_of_def lines4_def)
qed (simp add: report4_of_def lines4_def)

lemma run_one4_runs:
  "\<not> left_out flt t \<Longrightarrow>
   run_one4 ctx flt t a s = map_option (\<lambda>(r, s'). (Inr (tally [report4_of t r] a), s')) (ct_fn t ctx s)"
  by (cases "ct_fn t ctx s")
     (auto simp: run_one4_def report4_of_def io_bind_def io_try_def io_return_def split: prod.splits)

interpretation loop4: test_loop run_one4 report4_of
  by unfold_locales (simp add: run_one4_def io_return_def, rule run_one4_runs)

subsection \<open>A write limit of zero\<close>

text \<open>The loop of the read limit test does not advance when it has nothing to write.\<close>

lemma rtmax_fill_diverges:
  assumes turn: "\<And>s. E s \<Longrightarrow> \<exists>res s'. NFSClient_write os fh 0 FILE_SYNC [] s = Some (Inr res, s') \<and> E s'"
    and size: "0 < file_size" and E: "E s"
  shows "rtmax_fill os fh 0 [] file_size 0 s = None"
proof (rule ccontr)
  assume "rtmax_fill os fh 0 [] file_size 0 s \<noteq> None"
  then obtain y where "rtmax_fill os fh 0 [] file_size 0 s = Some y" by blast
  then have "(os, fh, 0 :: u32, [] :: byte list, file_size, 0 :: u64) = (os, fh, 0, [], file_size, 0) \<longrightarrow> E s \<longrightarrow> False"
  proof (rule rtmax_fill.raw_induct [rotated, where P = "\<lambda>os' fh' chunk buf size written s y.
      (os', fh', chunk, buf, size, written) = (os, fh, 0, [], file_size, 0) \<longrightarrow> E s \<longrightarrow> False"], intro impI)
    fix f os' fh' chunk buf size written s y
    assume IH: "\<And>fh' chunk buf size written s b y. f fh' chunk buf size written s b = Some y \<Longrightarrow>
        (fh', chunk, buf, size, written, s) = (os, fh, 0, [], file_size, 0) \<longrightarrow> E b \<longrightarrow> False"
      and run: "(if written < ucast size then
          let n = ucast (min (ucast chunk) (ucast size - written)) in
          io_then (NFSClient_write os' fh' written FILE_SYNC (take (unat n) buf)) (f os' fh' chunk buf size (written + ucast n)) s
        else io_return () s) = Some y"
      and e: "(os', fh', chunk, buf, size, written) = (os, fh, 0, [], file_size, 0)" and Es: "E s"
    obtain res s' where w: "NFSClient_write os fh 0 FILE_SYNC [] s = Some (Inr res, s')" and E': "E s'"
      using turn [OF Es] by blast
    have "(0 :: u64) < ucast file_size" using size unat_u32_u64 [of file_size] by (simp add: word_less_nat_alt)
    then have "f os fh 0 [] file_size 0 s' = Some y"
      using run e w by (auto simp: Let_def io_bind_def min_def)
    with IH E' show False by blast
  qed
  with E show False by simp
qed

lemma map2_pair: "length ts = length rs \<Longrightarrow> map2 (\<lambda>t r. (f r, g t r)) ts rs = zip (map f rs) (map2 g ts rs)"
  by (induction ts rs rule: list_induct2) simp_all

lemma concat_map2_single: "concat (map2 (\<lambda>t r. [f t r]) ts rs) = map2 f ts rs"
  by (induction ts rs rule: list_induct2') simp_all

lemma run_all_reports:
  "run_all ctx flt tests s =
     map_option (\<lambda>(rs, s'). let vs = map verdict3 rs in
       (Inr (count_list vs FAIL, map2 line3 (selected flt tests) rs @
          [[], summary3 (count_list vs PASS) (count_list vs FAIL) (count_list vs SKIP)]), s'))
     (test_results ctx (selected flt tests) s)"
proof (cases "test_results ctx (selected flt tests) s")
  case None
  then show ?thesis by (simp add: run_all_def io_bind_def loop3.loop_results)
next
  case (Some y)
  obtain rs s' where y: "y = (rs, s')" by fastforce
  have len: "length (selected flt tests) = length rs" using length_test_results [OF Some [unfolded y]] by simp
  have reps: "map2 report3 (selected flt tests) rs = zip (map verdict3 rs) (map2 (\<lambda>t r. [line3 t r]) (selected flt tests) rs)"
    unfolding report3_eq [abs_def] by (rule map2_pair [OF len])
  show ?thesis
    unfolding run_all_def io_bind_def loop3.loop_results Some y
    using len by (simp add: reps tally_zip concat_map2_single io_return_def Tally_zero_def
        Let_def summary_line_def summary3_def coloured_def GREEN_def RED_def YELLOW_def RESET_def escape_def)
qed

lemma run_all4_reports:
  "run_all4 ctx flt tests s =
     map_option (\<lambda>(rs, s'). let vs = map verdict4 rs in
       (Inr (count_list vs FAIL, concat (map2 lines4 (selected flt tests) rs) @
          [[], summary4 (count_list vs PASS) (count_list vs FAIL) (count_list vs SKIP)]), s'))
     (test_results ctx (selected flt tests) s)"
proof (cases "test_results ctx (selected flt tests) s")
  case None
  then show ?thesis by (simp add: run_all4_def io_bind_def loop4.loop_results)
next
  case (Some y)
  obtain rs s' where y: "y = (rs, s')" by fastforce
  have len: "length (selected flt tests) = length rs" using length_test_results [OF Some [unfolded y]] by simp
  have reps: "map2 report4_of (selected flt tests) rs = zip (map verdict4 rs) (map2 lines4 (selected flt tests) rs)"
    unfolding report4_of_eq [abs_def] by (rule map2_pair [OF len])
  show ?thesis
    unfolding run_all4_def io_bind_def loop4.loop_results Some y
    using len by (simp add: reps tally_zip io_return_def Tally_zero_def
        Let_def summary4_def)
qed

subsection \<open>Properties\<close>

text \<open>C36: The runners run, in their order, the tests that have the filter somewhere in their name (all for the empty filter),
  each from the state its predecessor left, whatever became of that one, and return exactly when every one of these
  does. A test that returns is a PASS, one that throws a failed check or an error of its protocol (\<open>NfsError\<close> in the
  first suite, \<open>Nfs4Error\<close> in the others) a FAIL, any other exception a SKIP; the lines for each test say so with its
  name, section and message, the last line has the three counts, and the number of FAILs is returned.\<close>

theorem runners_report:
  "run_all ctx flt tests s =
     map_option (\<lambda>(rs, s'). let vs = map verdict3 rs in
       (Inr (count_list vs FAIL, map2 line3 (selected flt tests) rs @
          [[], summary3 (count_list vs PASS) (count_list vs FAIL) (count_list vs SKIP)]), s'))
     (test_results ctx (selected flt tests) s) \<and>
   run_all4 ctx flt tests s =
     map_option (\<lambda>(rs, s'). let vs = map verdict4 rs in
       (Inr (count_list vs FAIL, concat (map2 lines4 (selected flt tests) rs) @
          [[], summary4 (count_list vs PASS) (count_list vs FAIL) (count_list vs SKIP)]), s'))
     (test_results ctx (selected flt tests) s)"
  by (rule conjI [OF run_all_reports run_all4_reports])

text \<open>C38: The NFSv4.1 suite does not fail a server that breaks the rule its test \<open>NoOpenConfirm\<close> is about: when the OPEN
  asks for confirmation, the client throws a \<open>std::runtime_error\<close>, which the runner reports as SKIP, so that the number of
  failures is 0.\<close>

theorem open_confirm_is_skipped:
  assumes "conn41 os v srv (c, w)" and "sleeps os v (session_tick tick)" and "server4_ok srv"
    and "request_ok (ops4 (open_request41 (cx41_workdir_fh ctx) (bytes_of ''s41_noconfirm.txt'') 2 True (n41_open_seqid c + 1) c))"
    and "open41 tick (srv 1) (open_request41 (cx41_workdir_fh ctx) (bytes_of ''s41_noconfirm.txt'') 2 True (n41_open_seqid c + 1) c)
      (n41_open_seqid c + 1) n (snd (vw_state v w)) = Some (Inl confirm_error, f')"
  shows "\<exists>out s'. run_all41 ctx ''NoOpenConfirm'' (compliance41_tests os) (c, w) = Some (Inr (0, out), s') \<and>
    hd out = ''  [SKIP] Stateid41.NoOpenConfirm  (RFC 8881 '' @ section_sign @ ''18.16)''"
proof -
  obtain s' where fails: "Nfs41Client_do_open os (cx41_workdir_fh ctx) (bytes_of ''s41_noconfirm.txt'') 2 True (c, w) =
      Some (Inl confirm_error, s')"
    using do_open41_served [OF assms] by blast
  have "test41_no_open_confirm os ctx (c, w) = Some (Inl confirm_error, s')"
    by (simp add: test41_no_open_confirm_def Nfs41Client_open_write_def OPEN4_SHARE_ACCESS_WRITE_def io_bind_def fails)
  moreover have "selected ''NoOpenConfirm'' (compliance41_tests os) =
      [\<lparr>ct_name = ''Stateid41.NoOpenConfirm'', ct_rfc_ref = ''RFC 8881 '' @ section_sign @ ''18.16'',
        ct_fn = test41_no_open_confirm os\<rparr>]"
    by (simp add: compliance41_tests_def register_session41_tests_def register_basic41_tests_def register_attrs41_tests_def
        register_stateid41_tests_def register_rename41_tests_def add_test_def TestRunner_add_def
        sublist_code Let_def)
  ultimately show ?thesis
    unfolding run_all41_def run_all4_reports
    by (simp add: lines4_def confirm_error_def section_sign_def Let_def)
qed

definition ctx41 :: TestCtx41 where
  "ctx41 = \<lparr>cx41_root_fh = fh4_of 1, cx41_workdir_fh = fh4_of 7, cx41_server = [], cx41_export_path = []\<rparr>"

lemma raw_default: "raw_ok (raw_sattr4 Sattr4_default) \<and> length (wire_raw (raw_sattr4 Sattr4_default)) < 536870816"
  by (simp add: raw_sattr4_def raw_ok_def wire_raw_def Sattr4_default_def sattr4_ids_def id_if_def small_def make_bitmap4_def
      wire_sattrlist_def wire_bitmap4_def wire_opaque_def xdr_pad_def attr_bytes_def)

lemma open_confirm_is_skipped_witness:
  "\<exists>out s'. run_all41 ctx41 ''NoOpenConfirm''
      (compliance41_tests (sim_os 2 (rpc_server (nfs4_handler (sequenced sid0 (op_server (file4 True)))))))
      (client41, sim_start (1, (0, []))) = Some (Inr (0, out), s') \<and>
    hd out = ''  [SKIP] Stateid41.NoOpenConfirm  (RFC 8881 '' @ section_sign @ ''18.16)''"
proof -
  let ?q = "open_request41 (fh4_of 7) (bytes_of ''s41_noconfirm.txt'') 2 True 1 client41"
  have s: "n41_open_seqid client41 + 1 = 1" and wd: "cx41_workdir_fh ctx41 = fh4_of 7"
    by (simp_all add: client41_def ctx41_def)
  have o: "open41 (\<lambda>f. f) (op_server (file4 True) 1) ?q 1 0 (0, []) = Some (Inl confirm_error, (0, []))"
    by (simp add: open41_def open_request41_def after_grace.simps op_server_def at_fh_def fh4_of_def NFS4ERR_GRACE_def
        outcome4_def answer4_def)
  have r: "request_ok (ops4 ?q)"
    by (simp add: open_request41_def request_ok_def at_fh_def fh4_of_def fh4_ok_def wire_ops_def wire_op4_def
        wire_fh4_def length_wire_opaque small_def bytes_of_def xdr_pad_def raw_default)
  show ?thesis
    using open_confirm_is_skipped [where n = 0 and ctx = ctx41, OF client41_conn sim_session_sleeps op_server_ok [OF file4_ok],
        unfolded s wd sim_start_state snd_conv, OF r o] .
qed

text \<open>C37: Against a server that advertises a write limit of 0 the read limit test does not end: the chunk is empty, and the
  loop that fills the file writes nothing over and over.\<close>

theorem rtmax_test_hangs:
  assumes "NFSClient_fsinfo os (cx_root_fh ctx) s = Some (Inr info, s1)" and "fsi_wtmax info = 0"
    and "0 < fsi_rtmax info + 4096"
    and "NFSClient_create os (cx_workdir_fh ctx) (bytes_of ''e_rtmax.txt'') UNCHECKED Sattr3_default s1 = Some (Inr fh, s2)"
    and "conn3 os v srv s2" and "stores_writes srv fh content" and "dir_ok fh"
  shows "test_read_count_gt_rtmax os ctx s = None"
proof -
  have "rtmax_fill os fh 0 [] (fsi_rtmax info + 4096) 0 s2 = None"
  proof (rule rtmax_fill_diverges [where E = "conn3 os v srv"])
    fix s assume "conn3 os v srv s"
    then show "\<exists>res s'. NFSClient_write os fh 0 FILE_SYNC [] s = Some (Inr res, s') \<and> conn3 os v srv s'"
      using write_stored [OF _ assms(6,7), of os v "fst s" "snd s" "[]" 0] by auto
  qed (use assms in auto)
  with assms(1,2,4) show ?thesis
    by (simp add: test_read_count_gt_rtmax_def io_bind_def Let_def min_def)
qed

fun zero_limit_server :: "byte list server3" where
  "zero_limit_server (Fsinfo3 fh) f =
     (Info3 None \<lparr>fsi_rtmax = 4096, fsi_rtpref = 4096, fsi_rtmult = 1, fsi_wtmax = 0, fsi_wtpref = 0, fsi_wtmult = 1,
        fsi_dtpref = 4096, fsi_maxfilesize = 0, fsi_time_delta = \<lparr>nt_seconds = 0, nt_nseconds = 1\<rparr>, fsi_properties = 0\<rparr>, f)"
| "zero_limit_server (Create3 dir n g s) f = (Made3 (Some fh0) None (None, None), f)"
| "zero_limit_server req f = file_server req f"

definition ctx0 :: TestCtx where
  "ctx0 = \<lparr>cx_root_fh = fh0, cx_workdir_fh = fh0, cx_server = [], cx_export_path = []\<rparr>"

lemma rtmax_test_hangs_witness:
  "test_read_count_gt_rtmax (sim_os 2 (rpc_server (nfs3_handler zero_limit_server))) ctx0 (client0, sim_start []) = None"
proof -
  let ?os = "sim_os 2 (rpc_server (nfs3_handler zero_limit_server))"
  let ?info = "\<lparr>fsi_rtmax = 4096, fsi_rtpref = 4096, fsi_rtmult = 1, fsi_wtmax = 0, fsi_wtpref = 0, fsi_wtmult = 1,
        fsi_dtpref = 4096, fsi_maxfilesize = 0, fsi_time_delta = \<lparr>nt_seconds = 0, nt_nseconds = 1\<rparr>, fsi_properties = 0\<rparr>"
  let ?create = "Create3 fh0 (bytes_of ''e_rtmax.txt'') False Sattr3_default"
  have fh: "dir_ok fh0" "cx_root_fh ctx0 = fh0" "cx_workdir_fh ctx0 = fh0" by (simp_all add: dir_ok_def fh0_def ctx0_def)
  have req: "small3 (Fsinfo3 fh0)" "small3 ?create" using fh by (simp_all add: bytes_of_def)
  obtain w1 where r1: "run3 ?os (Fsinfo3 fh0) (client0, sim_start []) = Some (Inr (Info_v ?info), (next_call3 client0, w1))"
    and c1: "conn3 ?os sim_view zero_limit_server (next_call3 client0, w1)"
    using run3_served [OF client0_conn small3_ok [OF req(1)], of zero_limit_server "[]" "Info3 None ?info" "[]"]
    by (auto simp: meaning3_def fits3_def proc3_values outcome3_def sim_view_start)
  obtain w2 where r2: "run3 ?os ?create (next_call3 client0, w1) = Some (Inr (Fh_v fh0), (next_call3 (next_call3 client0), w2))"
    and c2: "conn3 ?os sim_view zero_limit_server (next_call3 (next_call3 client0), w2)"
    using run3_served [OF c1 small3_ok [OF req(2)], of "Made3 (Some fh0) None (None, None)"]
    by (auto simp: meaning3_def fits3_def proc3_values outcome3_def fh0_def fh3_wf_def)
  show ?thesis
  proof (rule rtmax_test_hangs [OF _ _ _ _ c2])
    show "NFSClient_fsinfo ?os (cx_root_fh ctx0) (client0, sim_start []) = Some (Inr ?info, (next_call3 client0, w1))"
      unfolding fh(2) by (rule run3_value [OF r1, where V = Info_v]) (simp_all add: fun_eq_iff)
    show "NFSClient_create ?os (cx_workdir_fh ctx0) (bytes_of ''e_rtmax.txt'') UNCHECKED Sattr3_default (next_call3 client0, w1) =
        Some (Inr fh0, (next_call3 (next_call3 client0), w2))"
      unfolding fh(3) by (rule run3_value [OF r2, where V = Fh_v]) (simp_all add: fun_eq_iff create_mode_def)
    show "stores_writes zero_limit_server fh0 (\<lambda>f. f)" by (simp add: stores_writes_def)
  qed (simp_all add: fh)
qed

end
