(* ===== verification/Compliance_Service.thy ===== *)
theory Compliance_Service
  imports Compliance_Conform Compliance_Props
begin

text \<open>
  The run of the NFSv3 compliance tool against a server that meets \<open>nfs3_service\<close>, and a server in memory that does.
\<close>

subsection \<open>The suite\<close>

lemma dot_name_iff: "dot_name n \<longleftrightarrow> self_or_parent n"
  by (simp add: dot_name_def self_or_parent_def bytes_of_def)

lemma compliance_clear_dots:
  "list_all (\<lambda>e. self_or_parent (dp_name e)) L \<Longrightarrow> compliance_clear_entries os dir L s = Some (Inr (), s)"
proof (induction L)
  case Nil
  then show ?case by (subst compliance_clear_entries.simps) (simp add: io_return_def)
next
  case (Cons e L)
  then show ?case by (subst compliance_clear_entries.simps) (simp add: dot_name_iff)
qed

lemma length_to_string: "n < 10 ^ Suc k \<Longrightarrow> length (to_string n) \<le> Suc k"
proof (induction k arbitrary: n)
  case 0
  then show ?case by (simp add: to_string.simps)
next
  case (Suc k)
  show ?case
  proof (cases "n < 10")
    case True
    then show ?thesis by (simp add: to_string.simps)
  next
    case False
    have "n div 10 < 10 ^ Suc k" using Suc.prems by (simp add: less_mult_imp_div_less)
    from Suc.IH [OF this] False show ?thesis by (simp add: to_string.simps [of n])
  qed
qed

lemma length_compliance_workdir: "pid < 2 ^ 31 \<Longrightarrow> length (compliance_workdir pid) \<le> 255"
  using length_to_string [of pid 9] by (simp add: compliance_workdir_def length_bytes_of)

lemmas suite_defs =
  compliance_tests_def register_basic_tests_def register_wcc_tests_def register_commit_tests_def
  register_attribute_tests_def register_permission_tests_def register_stale_tests_def register_edge_case_tests_def
  add_test_def TestRunner_add_def Let_def

context service_link
begin

lemma tests_pass:
  assumes "\<forall>t \<in> set ts. passes ctx (ct_fn t)" and "live3 os v srv ok s"
    and "scratch_dir (cx_workdir_fh ctx) (at_server v fs_of s)" and "4 * length ts \<le> at_server v room s"
  shows "\<exists>s'. test_results ctx ts s = Some (replicate (length ts) (Inr ()), s') \<and> live3 os v srv ok s' \<and>
    restored (cx_workdir_fh ctx) (at_server v fs_of s) (at_server v fs_of s')"
  using assms
proof (induction ts arbitrary: s)
  case Nil
  then show ?case by (simp add: restored_def)
next
  case (Cons t ts)
  have "passes ctx (ct_fn t)" and "4 \<le> at_server v room s" using Cons.prems(1,4) by simp_all
  with Cons.prems(2,3) obtain s1 where t: "ct_fn t ctx s = Some (Inr (), s1)" and s1: "live3 os v srv ok s1"
    "restored (cx_workdir_fh ctx) (at_server v fs_of s) (at_server v fs_of s1)" "at_server v room s \<le> at_server v room s1 + 4"
    unfolding passes_def runs_def by blast
  from Cons.IH [of s1] Cons.prems s1 obtain s2 where "test_results ctx ts s1 = Some (replicate (length ts) (Inr ()), s2)"
    "live3 os v srv ok s2" "restored (cx_workdir_fh ctx) (at_server v fs_of s1) (at_server v fs_of s2)"
    by (auto simp: restored_def [of _ "at_server v fs_of s"])
  with t s1(2) show ?case by (auto intro: restored_trans)
qed

lemma suite_passes:
  assumes "dir_ok (cx_workdir_fh ctx)" and "dir_ok (cx_root_fh ctx)"
  shows "\<forall>t \<in> set (compliance_tests os env). prefix ''Permission.'' (ct_name t) \<or> passes ctx (ct_fn t)"
  by (simp add: suite_defs test_passes [OF assms(1)] test_read_count_gt_rtmax_passes [OF assms])

lemma length_suite: "length (selected flt (compliance_tests os env)) \<le> 36"
  by (rule order.trans [OF length_filter_le]) (simp add: suite_defs)

lemma run_all_passes:
  assumes "live3 os v srv ok s" and "dir_ok (cx_workdir_fh ctx)" "dir_ok (cx_root_fh ctx)"
    and "scratch_dir (cx_workdir_fh ctx) (at_server v fs_of s)" and "144 \<le> at_server v room s"
    and perm: "\<forall>t \<in> set (selected flt (compliance_tests os env)). \<not> prefix ''Permission.'' (ct_name t)"
  shows "runs (run_all ctx flt (compliance_tests os env)) s (\<lambda>r s'. live3 os v srv ok s' \<and>
    restored (cx_workdir_fh ctx) (at_server v fs_of s) (at_server v fs_of s') \<and>
    (\<exists>sum. r = Inr (0, map (\<lambda>t. line3 t (Inr ())) (selected flt (compliance_tests os env)) @ [[], sum])))"
proof -
  let ?ts = "selected flt (compliance_tests os env)"
  have "\<forall>t \<in> set ?ts. passes ctx (ct_fn t)" using perm suite_passes [OF assms(2,3)] by auto
  with tests_pass [of ?ts ctx s] assms length_suite [of flt env] obtain s' where
    res: "test_results ctx ?ts s = Some (replicate (length ?ts) (Inr ()), s')" and s': "live3 os v srv ok s'"
      "restored (cx_workdir_fh ctx) (at_server v fs_of s) (at_server v fs_of s')" by fastforce
  have lines: "map2 line3 ts (replicate (length ts) (Inr ())) = map (\<lambda>t. line3 t (Inr ())) ts" for ts
    by (induction ts) simp_all
  have "count_list (map verdict3 (replicate n (Inr ()))) FAIL = 0" for n by (induction n) simp_all
  with s' show ?thesis
    by (simp add: runs_def run_all_reports res lines Let_def)
qed

subsection \<open>The run\<close>

lemma cleanup_runs:
  assumes s: "live3 os v srv ok s" and p: "dir_ok parent" "at_server v fs_of s parent = Some p" "is_dir p"
    and name: "nd_names p name = Some wd" "length name \<le> 300" and wd: "parent \<noteq> wd" "dir_ok wd" "scratch_dir wd (at_server v fs_of s)"
    and Q: "\<And>s'. live3 os v srv ok s' \<Longrightarrow>
      \<exists>ch. at_server v fs_of s' = (at_server v fs_of s)(parent \<mapsto> add_links (- 1) (set_name ch name None p), wd := None) \<Longrightarrow>
      Q (Inr ()) s'"
  shows "runs (compliance_rmdir_recursive os parent name) s Q"
proof -
  obtain n where n: "at_server v fs_of s wd = Some n" "is_dir n" "nd_names n = (\<lambda>_. None)"
    using wd(3) by (auto simp: scratch_dir_def)
  have clear: "runs (compliance_clear_dir os wd) s1 R"
    if s1: "live3 os v srv ok s1" "at_server v fs_of s1 = at_server v fs_of s"
      and R: "\<And>s2. live3 os v srv ok s2 \<Longrightarrow> at_server v fs_of s2 = at_server v fs_of s \<Longrightarrow> R (Inr ()) s2" for s1 R
    unfolding compliance_clear_dir_def swallow_def runs_bind runs_try
  proof (rule list_empty_runs [OF s1(1) wd(2) _ n(2,3)])
    show "at_server v fs_of s1 wd = Some n" using s1(2) n(1) by simp
    fix L :: "DirEntryPlus3 list" and s2 assume L: "list_all (\<lambda>e. self_or_parent (dp_name e)) L" and s2: "live3 os v srv ok s2" "vw_state v (snd s2) = vw_state v (snd s1)"
    then have "at_server v fs_of s2 = at_server v fs_of s" using s1(2) by (simp add: at_server_def)
    then show "case Inr L of Inl e \<Rightarrow> (case Inr (Inl e) of Inl e \<Rightarrow> R (Inl e) s2 | Inr x \<Rightarrow> runs (io_return ()) s2 R)
      | Inr x \<Rightarrow> runs (compliance_clear_entries os wd x) s2
          (\<lambda>r s'. case Inr r of Inl e \<Rightarrow> R (Inl e) s' | Inr x \<Rightarrow> runs (io_return ()) s' R)"
      using R s2(1) compliance_clear_dots [OF L, of os wd s2] by (simp add: runs_def io_return_def)
  qed
  have "fs_lookup parent name (at_server v fs_of s) = Inr wd"
    using p name by (simp add: fs_lookup_def fs_dir_def)
  moreover have "fs_rmdir ch parent name (at_server v fs_of s) = (Inr (),
      (at_server v fs_of s)(parent \<mapsto> add_links (- 1) (set_name ch name None p), wd := None))" for ch
    using p name n by (simp add: fs_rmdir_def fs_entry_def fs_dir_def)
  ultimately show ?thesis
    unfolding compliance_rmdir_recursive_def swallow_def
    by (auto intro!: lookup_runs rmdir_runs clear Q simp: runs_bind runs_try runs_return s p(1) name(2), blast)
qed

lemma compliance_run_passes:
  assumes mount: "NFSClient_mount os (bytes_of (opt_export o1)) s = Some (Inr root, s1)"
    and s1: "live3 os v srv ok s1" and room: "145 \<le> at_server v room s1"
    and root: "dir_ok root" "at_server v fs_of s1 root = Some n" "is_dir n"
    and name: "nd_names n (compliance_workdir pid) = None" "pid < 2 ^ 31"
    and perm: "\<forall>t \<in> set (selected (opt_filter o1) (compliance_tests os env)). \<not> prefix ''Permission.'' (ct_name t)"
  shows "runs (compliance_run os env pid o1) s (\<lambda>r s'. live3 os v srv ok s' \<and>
    (\<exists>time. at_server v fs_of s' =
      (at_server v fs_of s1)(root \<mapsto> n\<lparr>nd_attr := (nd_attr n)\<lparr>fa_mtime := time, fa_ctime := time\<rparr>\<rparr>)) \<and>
    (\<exists>sum. r = Inr (0, map (\<lambda>t. line3 t (Inr ())) (selected (opt_filter o1) (compliance_tests os env)) @ [[], sum])))"
proof -
  let ?name = "compliance_workdir pid" and ?fs = "at_server v fs_of s1"
  note len = length_compliance_workdir [OF name(2)]
  have mk: "fs_mkdir ch root ?name ?fs = (Inr (ch_fh ch),
      ?fs(root \<mapsto> add_links 1 (set_name ch ?name (Some (ch_fh ch)) n), ch_fh ch \<mapsto> new_node ch NF3DIR None))" for ch
    using root name(1) len by (simp add: fs_mkdir_def fs_new_name_def fs_dir_def)
  have "runs (io_bind (io_try (mkdir3 os root ?name)) K) s1 Q"
    if K: "\<And>ch s2. live3 os v srv ok s2 \<Longrightarrow> at_server v fs_of s2 =
        ?fs(root \<mapsto> add_links 1 (set_name ch ?name (Some (ch_fh ch)) n), ch_fh ch \<mapsto> new_node ch NF3DIR None) \<Longrightarrow>
      144 \<le> at_server v room s2 \<Longrightarrow> ?fs (ch_fh ch) = None \<Longrightarrow> dir_ok (ch_fh ch) \<Longrightarrow> runs (K (Inr (ch_fh ch))) s2 Q" for K Q
    using s1 root name(1) len room K by (auto simp: runs_bind runs_try mk new_handle_eq intro!: mkdir_runs)
  note mkdir = this
  have mounted: "runs (NFSClient_mount os (bytes_of (opt_export o1))) s Q \<longleftrightarrow> Q (Inr root) s1" for Q
    by (simp add: runs_def mount)
  show ?thesis
    unfolding compliance_run_def runs_bind [of "io_try (NFSClient_mount _ _)"] runs_try mounted sum.case
  proof (rule mkdir)
    fix ch s2
    let ?wd = "ch_fh ch" and ?n1 = "add_links 1 (set_name ch ?name (Some (ch_fh ch)) n)"
    assume s2: "live3 os v srv ok s2" and f2: "at_server v fs_of s2 = ?fs(root \<mapsto> ?n1, ?wd \<mapsto> new_node ch NF3DIR None)"
      and room2: "144 \<le> at_server v room s2" and new: "?fs ?wd = None" "dir_ok ?wd"
    let ?ctx = "\<lparr>cx_root_fh = root, cx_workdir_fh = ?wd, cx_server = opt_server o1, cx_export_path = opt_export o1\<rparr>"
    have ne: "root \<noteq> ?wd" using root new by auto
    have wd: "scratch_dir ?wd (at_server v fs_of s2)"
      by (simp add: scratch_dir_def f2 new_node_def is_dir_def)
    have run: "runs (run_all ?ctx (opt_filter o1) (compliance_tests os env)) s2 (\<lambda>r s'. live3 os v srv ok s' \<and>
      restored ?wd (at_server v fs_of s2) (at_server v fs_of s') \<and>
      (\<exists>sum. r = Inr (0, map (\<lambda>t. line3 t (Inr ())) (selected (opt_filter o1) (compliance_tests os env)) @ [[], sum])))"
      using run_all_passes [OF s2, of ?ctx] new(2) root(1) wd room2 perm by simp
    have clean: "runs (compliance_rmdir_recursive os root ?name) s3 (\<lambda>r s'. r = Inr () \<and> live3 os v srv ok s' \<and>
      (\<exists>time. at_server v fs_of s' = ?fs(root \<mapsto> n\<lparr>nd_attr := (nd_attr n)\<lparr>fa_mtime := time, fa_ctime := time\<rparr>\<rparr>)))"
      if s3: "live3 os v srv ok s3" and r3: "restored ?wd (at_server v fs_of s2) (at_server v fs_of s3)" for s3
    proof (rule cleanup_runs [OF s3 root(1)])
      have r: "at_server v fs_of s3 root = Some ?n1" "at_server v fs_of s3 k = ?fs k" if "k \<noteq> root" "k \<noteq> ?wd" for k
        using r3 ne that by (simp_all add: restored_def f2)
      show "at_server v fs_of s3 root = Some ?n1" using r3 ne by (simp add: restored_def f2)
      show "is_dir ?n1" using root by (simp add: is_dir_def add_links_def set_name_def)
      show "nd_names ?n1 ?name = Some ?wd" by (simp add: add_links_def set_name_def)
      show "length ?name \<le> 300" using len by simp
      show "scratch_dir ?wd (at_server v fs_of s3)" using r3 by (simp add: restored_def)
      fix s' assume "live3 os v srv ok s'"
        and "\<exists>cha. at_server v fs_of s' = (at_server v fs_of s3)(root \<mapsto> add_links (- 1) (set_name cha ?name None ?n1), ?wd := None)"
      then obtain cha where s': "live3 os v srv ok s'"
        "at_server v fs_of s' = (at_server v fs_of s3)(root \<mapsto> add_links (- 1) (set_name cha ?name None ?n1), ?wd := None)" by blast
      have "add_links (- 1) (set_name cha ?name None ?n1) =
          n\<lparr>nd_attr := (nd_attr n)\<lparr>fa_mtime := ch_time cha, fa_ctime := ch_time cha\<rparr>\<rparr>"
        using name(1) by (simp add: add_links_def set_name_def fun_upd_idem)
      moreover have "(at_server v fs_of s3)(root \<mapsto> m, ?wd := None) = ?fs(root \<mapsto> m)" for m
        using r3 ne new(1) by (auto simp: restored_def f2)
      ultimately show "Inr () = Inr () \<and> live3 os v srv ok s' \<and>
          (\<exists>time. at_server v fs_of s' = ?fs(root \<mapsto> n\<lparr>nd_attr := (nd_attr n)\<lparr>fa_mtime := time, fa_ctime := time\<rparr>\<rparr>))"
        using s' by auto
    qed (use ne new in auto)
    show "runs (case Inr ?wd of Inl _ \<Rightarrow> io_return (1, [])
        | Inr workdir_fh \<Rightarrow>
           let ctx = \<lparr>cx_root_fh = root, cx_workdir_fh = workdir_fh, cx_server = opt_server o1, cx_export_path = opt_export o1\<rparr> in
           io_bind (run_all ctx (opt_filter o1) (compliance_tests os env)) (\<lambda>(fails, out).
           io_then (compliance_rmdir_recursive os root ?name) (io_return (exit_code fails, out)))) s2
        (\<lambda>r s'. live3 os v srv ok s' \<and>
          (\<exists>time. at_server v fs_of s' = ?fs(root \<mapsto> n\<lparr>nd_attr := (nd_attr n)\<lparr>fa_mtime := time, fa_ctime := time\<rparr>\<rparr>)) \<and>
          (\<exists>sum. r = Inr (0, map (\<lambda>t. line3 t (Inr ())) (selected (opt_filter o1) (compliance_tests os env)) @ [[], sum])))"
      unfolding Let_def sum.case runs_bind
      by (rule runs_mono [OF run]) (auto simp: runs_bind runs_return exit_code_def intro!: runs_mono [OF clean], blast)
  qed
qed

end

end
