(* ===== verification/Compliance_Memory.thy ===== *)
theory Compliance_Memory
  imports Compliance_Conform
begin

text \<open>A server in memory that meets \<open>nfs3_service\<close>: it answers as \<open>fs_step\<close> says, with handles from a counter.\<close>

type_synonym memory = "fs \<times> nat"

definition mem_handle :: "nat \<Rightarrow> Fh3" where
  "mem_handle k = \<lparr>fh3_data = be64 (word_of_nat k)\<rparr>"

definition mem_service :: service where
  "mem_service =
     \<lparr>sv_info = \<lparr>fsi_rtmax = 65536, fsi_rtpref = 65536, fsi_rtmult = 1, fsi_wtmax = 65536, fsi_wtpref = 65536, fsi_wtmult = 1,
        fsi_dtpref = 65536, fsi_maxfilesize = 0xFFFFFFFF, fsi_time_delta = \<lparr>nt_seconds = 0, nt_nseconds = 1\<rparr>, fsi_properties = 0\<rparr>,
      sv_verf = replicate 8 1, sv_cookieverf = replicate 8 0\<rparr>"

definition mem_time :: Nfstime3 where
  "mem_time = \<lparr>nt_seconds = 0, nt_nseconds = 0\<rparr>"

definition mem_choice :: "request3 \<Rightarrow> memory \<Rightarrow> choice" where
  "mem_choice req f =
     \<lparr>ch_fh = mem_handle (snd f), ch_attr = Fattr3_zero, ch_time = mem_time,
      ch_level = (case req of Write3 fh off how d \<Rightarrow> how | _ \<Rightarrow> 2),
      ch_page = \<lparr>rp_entries = [], rp_eof = True, rp_cookieverf = replicate 8 0\<rparr>\<rparr>"

definition mem_fail :: "u32 \<Rightarrow> resp3" where
  "mem_fail st = Fail3 st None (None, None) (None, None)"

fun mem_reply :: "u32 \<Rightarrow> u32 + val3 \<Rightarrow> resp3" where
  "mem_reply p (Inl st) = mem_fail st"
| "mem_reply p (Inr (Attr_v a)) = Attr3 a"
| "mem_reply p (Inr (Fh_v fh)) = (if p = 3 then Found3 fh None None else Made3 (Some fh) None (None, None))"
| "mem_reply p (Inr (Data_v d)) = Data3 None False d"
| "mem_reply p (Inr (Written_v r)) = Written3 (None, None) r"
| "mem_reply p (Inr (Verf_v verf)) = Committed3 (None, None) verf"
| "mem_reply p (Inr (Page_v page)) = Page3 None page"
| "mem_reply p (Inr (Info_v info)) = Info3 None info"
| "mem_reply p (Inr Unit_v) = Done3 None (None, None) (None, None)"
| "mem_reply p (Inr _) = mem_fail 10004"

definition mem_full :: nat where
  "mem_full = 2 ^ 32"

definition mem_step :: "memory server3" where
  "mem_step req f =
     (case fs_step mem_service (mem_choice req f) req (fst f) of
        None \<Rightarrow> (mem_fail 10004, f)
      | Some (r, fs') \<Rightarrow>
          if fits3 (proc3 req) (mem_reply (proc3 req) r) \<and> (makes_object req \<longrightarrow> snd f < mem_full)
          then (mem_reply (proc3 req) r, (fs', if makes_object req then snd f + 1 else snd f)) else (mem_fail 10004, f))"

fun mem_server :: "memory server3" where
  "mem_server (Readdirplus3 dir cookie cv dc mc) f =
     (Pageplus3 None \<lparr>rpp_entries = dot_entries, rpp_eof = True, rpp_cookieverf = replicate 8 0\<rparr>, f)"
| "mem_server req f = mem_step req f"

definition mem_obj :: "nat \<Rightarrow> node \<Rightarrow> bool" where
  "mem_obj k n \<longleftrightarrow> fa_mtime (nd_attr n) = mem_time \<and> fa_ctime (nd_attr n) = mem_time \<and>
     (\<forall>name h. nd_names n name = Some h \<longrightarrow> (\<exists>i < k. h = mem_handle i))"

definition mem_ok :: "memory \<Rightarrow> bool" where
  "mem_ok f \<longleftrightarrow> snd f \<le> mem_full \<and>
     (\<forall>fh n. fst f fh = Some n \<longrightarrow> (\<exists>i < snd f. fh = mem_handle i) \<and> mem_obj (snd f) n)"

lemma mem_handle_ok: "dir_ok (mem_handle k)" "fh3_wf (mem_handle k)"
  by (simp_all add: mem_handle_def dir_ok_def fh3_wf_def)

lemma mem_handle_inj: "i < mem_full \<Longrightarrow> k \<le> mem_full \<Longrightarrow> mem_handle i = mem_handle k \<Longrightarrow> i = k"
proof -
  assume lt: "i < mem_full" "k \<le> mem_full" and eq: "mem_handle i = mem_handle k"
  have "be64 (word_of_nat i) = be64 (word_of_nat k :: u64)" using eq by (simp add: mem_handle_def)
  then have "(word_of_nat i :: u64) = word_of_nat k"
    using get_uint64_at [of "[]" "word_of_nat i" "[]"] get_uint64_at [of "[]" "word_of_nat k" "[]"] by simp
  then have "unat (word_of_nat i :: u64) = unat (word_of_nat k :: u64)" by simp
  then show "i = k" using lt by (simp add: unat_of_nat mem_full_def)
qed

lemma mem_fits:
  assumes "fs_step mem_service (mem_choice req f) req (fst f) = Some (r, fs')" and "mem_ok f"
  shows "fits3 (proc3 req) (mem_reply (proc3 req) r)" and "outcome3 (proc3 req) (mem_reply (proc3 req) r) = answer3 (proc3 req) r"
proof -
  have wf: "fh3_wf h" if "fst f fh = Some n" "nd_names n name = Some h" for fh n name h
    using assms(2) that mem_handle_ok by (fastforce simp: mem_ok_def mem_obj_def)
  have "min (unat (c :: u32)) m < 2 ^ 32" for c m
    using unsigned_less [of c, where 'a = nat] by (simp add: min.strict_coboundedI1)
  note facts = this [simplified] mem_handle_ok wf
  show "fits3 (proc3 req) (mem_reply (proc3 req) r)"
    using assms(1)
    by (cases req)
       (auto simp: fits3_def mem_fail_def fs_defs Let_def proc3_values mem_service_def mem_choice_def facts min.strict_coboundedI2
         split: option.splits sum.splits if_splits)
  show "outcome3 (proc3 req) (mem_reply (proc3 req) r) = answer3 (proc3 req) r"
    using assms(1)
    by (cases req)
       (auto simp: outcome3_def mem_fail_def fs_defs Let_def split: option.splits sum.splits if_splits)
qed

lemma mem_obj_ops:
  assumes "ch_time ch = mem_time"
  shows "mem_obj k n \<Longrightarrow> mem_obj k (set_name ch name None n)"
    "mem_obj k n \<Longrightarrow> \<exists>i < k. h = mem_handle i \<Longrightarrow> mem_obj k (set_name ch name (Some h) n)"
    "mem_obj k n \<Longrightarrow> mem_obj k (add_links j n)"
    "mem_obj k n \<Longrightarrow> mem_obj k (set_data ch d n)"
    "mem_obj k (new_node ch ty verf)"
  using assms by (auto simp: mem_obj_def set_name_def add_links_def set_data_def new_node_def)

lemma mem_ok_remove: "mem_ok (fs, k) \<Longrightarrow> mem_ok (fs(fh := None), k)"
  by (simp add: mem_ok_def)

lemma mem_ok_put: "mem_ok (fs, k) \<Longrightarrow> \<exists>i < k. fh = mem_handle i \<Longrightarrow> mem_obj k n \<Longrightarrow> mem_ok (fs(fh \<mapsto> n), k)"
  by (auto simp: mem_ok_def)

lemma mem_ok_count:
  assumes "mem_ok (fs, k)" and "k < mem_full"
  shows "mem_ok (fs, Suc k)"
proof -
  have "mem_obj k n \<Longrightarrow> mem_obj (Suc k) n" for n unfolding mem_obj_def by (meson less_SucI)
  moreover have "\<exists>i < k. fh = mem_handle i \<Longrightarrow> \<exists>i < Suc k. fh = mem_handle i" for fh
    using less_SucI by blast
  ultimately show ?thesis using assms unfolding mem_ok_def by simp
qed

lemma mem_okD:
  assumes "mem_ok (fs, k)" and "fs fh = Some n"
  shows "\<exists>i < k. fh = mem_handle i" "mem_obj k n" "nd_names n name = Some h \<Longrightarrow> \<exists>i < k. h = mem_handle i"
  using assms by (auto simp: mem_ok_def mem_obj_def)

lemma fs_step_keeps:
  assumes "fs_step sv ch req fs = Some (r, fs')" and "mem_ok (fs, k)" and time: "ch_time ch = mem_time"
    and "makes_object req \<Longrightarrow> \<exists>i < k. ch_fh ch = mem_handle i"
  shows "mem_ok (fs', k)"
proof -
  have mode: "mem_obj k n \<Longrightarrow> mem_obj k (n\<lparr>nd_attr := (nd_attr n)\<lparr>fa_mode := m, fa_ctime := mem_time\<rparr>\<rparr>)"
    "mem_obj k n \<Longrightarrow> mem_obj k (n\<lparr>nd_attr := (nd_attr n)\<lparr>fa_ctime := mem_time\<rparr>\<rparr>)" for n m
    by (simp_all add: mem_obj_def)
  note put = mem_ok_remove mem_ok_put mem_obj_ops [OF time] mode
  show ?thesis
    using assms
    by (cases req)
       (auto simp: Let_def fs_getattr_def fs_lookup_def fs_read_def fs_write_def fs_setattr_def fs_make_def fs_mkdir_def
          fs_create_exclusive_def fs_remove_def fs_rmdir_def fs_link_def fs_rename_def fs_commit_def fs_readdir_def
          fs_new_name_def fs_dir_def fs_entry_def
         split: option.splits sum.splits if_splits intro!: put dest: mem_okD)
qed

lemma mem_keeps:
  assumes "fs_step mem_service (mem_choice req f) req (fst f) = Some (r, fs')" and "mem_ok f"
    and "makes_object req \<Longrightarrow> snd f < mem_full"
  shows "mem_ok (fs', if makes_object req then snd f + 1 else snd f)"
proof (rule fs_step_keeps [OF assms(1)])
  show "mem_ok (fst f, if makes_object req then snd f + 1 else snd f)"
    using assms(2,3) mem_ok_count [of "fst f" "snd f"] by simp
qed (auto simp: mem_choice_def)

lemma mem_server_step: "(\<forall>dir cookie cv dc mc. req \<noteq> Readdirplus3 dir cookie cv dc mc) \<Longrightarrow> mem_server req f = mem_step req f"
  by (cases req) auto

lemma mem_step_some:
  assumes "fs_step mem_service (mem_choice req f) req (fst f) = Some (r, fs')" and "mem_ok f"
    and "makes_object req \<Longrightarrow> snd f < mem_full"
  shows "mem_step req f = (mem_reply (proc3 req) r, (fs', if makes_object req then snd f + 1 else snd f))"
  using assms mem_fits(1) [OF assms(1,2)] by (simp add: mem_step_def)

lemma mem_step_cases:
  obtains "mem_step req f = (mem_fail 10004, f)"
  | r fs' where "fs_step mem_service (mem_choice req f) req (fst f) = Some (r, fs')"
      "fits3 (proc3 req) (mem_reply (proc3 req) r)" "makes_object req \<Longrightarrow> snd f < mem_full"
      "mem_step req f = (mem_reply (proc3 req) r, (fs', if makes_object req then snd f + 1 else snd f))"
proof (cases "\<exists>r fs'. fs_step mem_service (mem_choice req f) req (fst f) = Some (r, fs') \<and>
    fits3 (proc3 req) (mem_reply (proc3 req) r) \<and> (makes_object req \<longrightarrow> snd f < mem_full)")
  case True
  with that(2) show ?thesis by (auto simp: mem_step_def)
next
  case False
  then have "mem_step req f = (mem_fail 10004, f)" by (auto simp: mem_step_def split: option.splits)
  with that(1) show ?thesis .
qed

lemma mem_server_cases:
  obtains dir cookie cv dc mc where "req = Readdirplus3 dir cookie cv dc mc" | "mem_server req f = mem_step req f"
  by (cases req) auto

interpretation memory: nfs3_service mem_server fst mem_service mem_choice mem_ok "\<lambda>f. mem_full - snd f" "\<lambda>f. 0"
proof
  show "server3_ok mem_server"
    unfolding server3_ok_def
  proof (intro allI)
    fix req f
    show "fits3 (proc3 req) (fst (mem_server req f))"
    proof (cases rule: mem_server_cases [where req = req and f = f])
      case 2
      then show ?thesis by (cases rule: mem_step_cases [where req = req and f = f]) (simp_all add: fits3_def mem_fail_def)
    qed (simp add: fits3_def proc3_values dot_entries_ok)
  qed
next
  fix f :: memory and req assume ok: "mem_ok f"
  show "mem_ok (snd (mem_server req f))"
  proof (cases rule: mem_server_cases [where req = req and f = f])
    case 2
    then show ?thesis using ok mem_keeps [OF _ ok] by (cases rule: mem_step_cases [where req = req and f = f]) auto
  qed (simp add: ok)
  show "mem_full - snd f \<le> mem_full - snd (snd (mem_server req f)) + (if makes_object req then 1 else 0)"
  proof (cases rule: mem_server_cases [where req = req and f = f])
    case 2
    then show ?thesis by (cases rule: mem_step_cases [where req = req and f = f]) auto
  qed simp
next
  fix f :: memory and req r fs'
  assume ok: "mem_ok f" and "makes_object req \<Longrightarrow> 0 < mem_full - snd f"
    and st: "fs_step mem_service (mem_choice req f) req (fst f) = Some (r, fs')"
  then have "mem_server req f = (mem_reply (proc3 req) r, (fs', if makes_object req then snd f + 1 else snd f))"
    using mem_step_some [OF st ok] by (cases rule: mem_server_cases [where req = req and f = f]) auto
  then show "outcome3 (proc3 req) (fst (mem_server req f)) = answer3 (proc3 req) r \<and> fst (snd (mem_server req f)) = fs'"
    using mem_fits(2) [OF st ok] by simp
next
  fix f :: memory and req assume ok: "mem_ok f" and "makes_object req" "0 < mem_full - snd f"
  have "fst f (mem_handle (snd f)) = None"
  proof (rule ccontr)
    assume "fst f (mem_handle (snd f)) \<noteq> None"
    then obtain i where "i < snd f" "mem_handle (snd f) = mem_handle i" using ok unfolding mem_ok_def by blast
    with mem_handle_inj [of i "snd f"] ok show False by (auto simp: mem_ok_def)
  qed
  then show "fst f (ch_fh (mem_choice req f)) = None \<and> dir_ok (ch_fh (mem_choice req f))"
    by (simp add: mem_choice_def mem_handle_ok)
next
  fix f :: memory and dir n assume "fst f dir = Some n" "is_dir n" "nd_names n = (\<lambda>_. None)"
  show "\<exists>L J. listsplus3 mem_server dir 4096 32768 J \<and> J 0 cookieverf0 L f \<and> list_all (\<lambda>e. self_or_parent (dp_name e)) L"
    by (intro exI [of _ dot_entries] exI [of _ "\<lambda>cookie cv todo f. length cv = 8 \<and> todo = dot_entries"])
       (auto simp: listsplus3_def fits3_def proc3_values cookieverf0_def COOKIEVERF_SIZE_def dot_entries_ok)
qed (auto simp: mem_choice_def mem_ok_def mem_obj_def mem_time_def nfstime_ns_def mem_service_def word_le_nat_alt)

interpretation memory_link: service_link mem_server fst mem_service mem_choice mem_ok "\<lambda>f. mem_full - snd f" "\<lambda>f. 0"
  "sim_os 2 (rpc_server (nfs3_handler mem_server))" sim_view
  by unfold_locales

end
