(* ===== verification/Compliance41_Fs.thy ===== *)
theory Compliance41_Fs
  imports Nfs41_Server Compliance41 Compliance_Rules
begin

text \<open>
  What the NFSv4.1 tests want the operations to do: RFC 8881, and besides full-length reads and writes, the recommended
  attributes, and change numbers that grow. A file system with the opens that are in force, and each
  COMPOUND of the client as a function on it. What a server is free to choose (handles, stateids, change numbers, times,
  owners) is in a \<open>choice4\<close>. The empty handle is the root, which \<open>PUTROOTFH\<close> selects.
\<close>

unbundle bit_operations_syntax

subsection \<open>Objects\<close>

record node4 =
  n4_type :: Ftype4
  n4_change :: u64
  n4_mode :: u32
  n4_links :: nat
  n4_owner :: cstring
  n4_group :: cstring
  n4_mtime :: Nfstime4
  n4_data :: "byte list"
  n4_names :: "cstring \<Rightarrow> Nfs4Fh option"

type_synonym fs4 = "Nfs4Fh \<Rightarrow> node4 option"
type_synonym opens4 = "Stateid4 \<Rightarrow> (Nfs4Fh \<times> u32) option"
type_synonym store4 = "fs4 \<times> opens4"

record choice4 =
  ch4_fh :: Nfs4Fh
  ch4_sid :: Stateid4
  ch4_flags :: u32
  ch4_change :: u64
  ch4_time :: Nfstime4
  ch4_mode :: u32
  ch4_owner :: cstring
  ch4_group :: cstring
  ch4_access :: u32
  ch4_verf :: "byte list"
  ch4_attr :: Fattr4

definition is_dir4 :: "node4 \<Rightarrow> bool" where
  "is_dir4 n \<longleftrightarrow> n4_type n = NF4DIR"

definition new_node4 :: "choice4 \<Rightarrow> Ftype4 \<Rightarrow> node4" where
  "new_node4 ch ty =
     \<lparr>n4_type = ty, n4_change = ch4_change ch, n4_mode = ch4_mode ch, n4_links = 1, n4_owner = ch4_owner ch,
      n4_group = ch4_group ch, n4_mtime = ch4_time ch, n4_data = [], n4_names = (\<lambda>_. None)\<rparr>"

definition touched :: "choice4 \<Rightarrow> node4 \<Rightarrow> node4" where
  "touched ch n = n\<lparr>n4_change := ch4_change ch, n4_mtime := ch4_time ch\<rparr>"

definition set_name4 :: "choice4 \<Rightarrow> cstring \<Rightarrow> Nfs4Fh option \<Rightarrow> node4 \<Rightarrow> node4" where
  "set_name4 ch name fh n = touched ch (n\<lparr>n4_names := (n4_names n)(name := fh)\<rparr>)"

definition attrs_of :: "choice4 \<Rightarrow> node4 \<Rightarrow> Fattr4" where
  "attrs_of ch n =
     (ch4_attr ch)\<lparr>f4_type := Some (n4_type n), f4_change := Some (n4_change n), f4_size := Some (word_of_nat (length (n4_data n))),
        f4_mode := Some (n4_mode n), f4_owner := Some (n4_owner n), f4_owner_group := Some (n4_group n),
        f4_time_modify := Some (n4_mtime n)\<rparr>"

subsection \<open>Operations\<close>

definition fs4_node :: "Nfs4Fh \<Rightarrow> fs4 \<Rightarrow> Nfsstat4 + node4" where
  "fs4_node fh fs = (case fs fh of None \<Rightarrow> Inl NFS4ERR_STALE | Some n \<Rightarrow> Inr n)"

definition fs4_dir :: "Nfs4Fh \<Rightarrow> fs4 \<Rightarrow> Nfsstat4 + node4" where
  "fs4_dir dir fs =
     (case fs4_node dir fs of Inl st \<Rightarrow> Inl st | Inr n \<Rightarrow> if is_dir4 n then Inr n else Inl NFS4ERR_NOTDIR)"

definition fs4_lookup :: "Nfs4Fh \<Rightarrow> cstring \<Rightarrow> fs4 \<Rightarrow> Nfsstat4 + Nfs4Fh" where
  "fs4_lookup dir name fs =
     (case fs4_dir dir fs of Inl st \<Rightarrow> Inl st
      | Inr n \<Rightarrow> (case n4_names n name of None \<Rightarrow> Inl NFS4ERR_NOENT | Some fh \<Rightarrow> Inr fh))"

definition fs4_entry :: "Nfs4Fh \<Rightarrow> cstring \<Rightarrow> fs4 \<Rightarrow> Nfsstat4 + node4 \<times> Nfs4Fh \<times> node4" where
  "fs4_entry dir name fs =
     (case fs4_dir dir fs of Inl st \<Rightarrow> Inl st
      | Inr n \<Rightarrow>
         (case n4_names n name of None \<Rightarrow> Inl NFS4ERR_NOENT
          | Some fh \<Rightarrow> (case fs fh of None \<Rightarrow> Inl NFS4ERR_STALE | Some x \<Rightarrow> Inr (n, fh, x))))"

text \<open>A new object under a name that is not taken.\<close>

definition fs4_make :: "choice4 \<Rightarrow> Ftype4 \<Rightarrow> Nfs4Fh \<Rightarrow> cstring \<Rightarrow> fs4 \<Rightarrow> (Nfsstat4 + Nfs4Fh) \<times> fs4" where
  "fs4_make ch ty dir name fs =
     (case fs4_dir dir fs of Inl st \<Rightarrow> (Inl st, fs)
      | Inr n \<Rightarrow>
          if n4_names n name \<noteq> None then (Inl NFS4ERR_EXIST, fs)
          else (Inr (ch4_fh ch), fs(dir \<mapsto> set_name4 ch name (Some (ch4_fh ch)) n, ch4_fh ch \<mapsto> new_node4 ch ty)))"

definition fs4_open :: "choice4 \<Rightarrow> Nfs4Fh \<Rightarrow> cstring \<Rightarrow> bool \<Rightarrow> fs4 \<Rightarrow> (Nfsstat4 + Nfs4Fh) \<times> fs4" where
  "fs4_open ch dir name create fs =
     (case fs4_entry dir name fs of
        Inr (n, fh, x) \<Rightarrow> (if is_dir4 x then Inl NFS4ERR_ISDIR else Inr fh, fs)
      | Inl st \<Rightarrow> if st = NFS4ERR_NOENT \<and> create then fs4_make ch NF4REG dir name fs else (Inl st, fs))"

definition fs4_remove :: "choice4 \<Rightarrow> Nfs4Fh \<Rightarrow> cstring \<Rightarrow> fs4 \<Rightarrow> (Nfsstat4 + unit) \<times> fs4" where
  "fs4_remove ch dir name fs =
     (case fs4_entry dir name fs of Inl st \<Rightarrow> (Inl st, fs)
      | Inr (n, fh, x) \<Rightarrow>
          if is_dir4 x \<and> n4_names x \<noteq> (\<lambda>_. None) then (Inl NFS4ERR_NOTEMPTY, fs)
          else (Inr (), fs(dir \<mapsto> set_name4 ch name None n,
                           fh := (if n4_links x \<le> 1 then None else Some (touched ch (x\<lparr>n4_links := n4_links x - 1\<rparr>))))))"

text \<open>A file gets a free name in another directory.\<close>

definition fs4_rename :: "choice4 \<Rightarrow> Nfs4Fh \<Rightarrow> cstring \<Rightarrow> Nfs4Fh \<Rightarrow> cstring \<Rightarrow> fs4 \<Rightarrow> ((Nfsstat4 + unit) \<times> fs4) option" where
  "fs4_rename ch dir name dir2 name2 fs =
     (case fs4_entry dir name fs of Inl st \<Rightarrow> None
      | Inr (n, fh, x) \<Rightarrow>
         (case fs4_dir dir2 fs of Inl st \<Rightarrow> None
          | Inr n2 \<Rightarrow>
             if dir = dir2 \<or> is_dir4 x \<or> n4_names n2 name2 \<noteq> None then None
             else Some (Inr (), fs(dir \<mapsto> set_name4 ch name None n, dir2 \<mapsto> set_name4 ch name2 (Some fh) n2))))"

definition opened_as :: "Nfs4File \<Rightarrow> u32 \<Rightarrow> store4 \<Rightarrow> node4 option" where
  "opened_as f access st =
     (case snd st (nf_stateid f) of None \<Rightarrow> None
      | Some (fh, acc) \<Rightarrow> if fh = nf_fh f \<and> acc AND access \<noteq> 0 then fst st fh else None)"

text \<open>
  The COMPOUNDs. \<open>None\<close> leaves the server free: other requests than these, a stateid that does not open the file for it, a
  transfer of more than 512 bytes, attributes other than the mode.
\<close>

fun fs4_step :: "choice4 \<Rightarrow> call4 \<Rightarrow> store4 \<Rightarrow> ((Nfsstat4 + val4) \<times> store4) option" where
  "fs4_step ch (Lookup_c dir n) st = Some (map_sum id Fh_a (fs4_lookup dir n (fst st)), st)"
| "fs4_step ch (Getattr_c fh) st = Some (map_sum id (\<lambda>n. Attr_a (attrs_of ch n)) (fs4_node fh (fst st)), st)"
| "fs4_step ch (Access_c fh m) st = Some (map_sum id (\<lambda>_. Mask_a (m AND ch4_access ch)) (fs4_node fh (fst st)), st)"
| "fs4_step ch (Open_c dir n acc cr s cid own) st =
     (if length n \<le> 255 then
        Some (case fs4_open ch dir n cr (fst st) of
          (Inl e, fs) \<Rightarrow> (Inl e, (fs, snd st))
        | (Inr fh, fs) \<Rightarrow> (Inr (Opened_a \<lparr>or_stateid = ch4_sid ch, or_rflags = ch4_flags ch\<rparr> fh), (fs, (snd st)(ch4_sid ch \<mapsto> (fh, acc)))))
      else None)"
| "fs4_step ch (Close_c f) st =
     (if \<exists>acc. snd st (nf_stateid f) = Some (nf_fh f, acc) \<and> fst st (nf_fh f) \<noteq> None
      then Some (Inr Unit_a, (fst st, (snd st)(nf_stateid f := None))) else None)"
| "fs4_step ch (Read_c f off n) st =
     (case opened_as f 1 st of None \<Rightarrow> None
      | Some x \<Rightarrow> if n \<le> 512 then Some (Inr (Data_a (take (unat n) (drop (unat off) (n4_data x)))), st) else None)"
| "fs4_step ch (Write_c f off how d) st =
     (case opened_as f 2 st of None \<Rightarrow> None
      | Some x \<Rightarrow>
         if length d \<le> 512
         then Some (Inr (Count_a (word_of_nat (length d))),
                ((fst st)(nf_fh f \<mapsto> touched ch (x\<lparr>n4_data := put_at (unat off) d (n4_data x)\<rparr>)), snd st)) else None)"
| "fs4_step ch (Commit_c f off n) st = Some (map_sum id (\<lambda>_. Verf_a (ch4_verf ch)) (fs4_node (nf_fh f) (fst st)), st)"
| "fs4_step ch (Mkdir_c dir n a) st =
     (if a = Sattr4_default \<and> length n \<le> 255
      then Some (map_prod (map_sum id Fh_a) (\<lambda>fs. (fs, snd st)) (fs4_make ch NF4DIR dir n (fst st))) else None)"
| "fs4_step ch (Remove_c dir n) st =
     Some (map_prod (map_sum id (\<lambda>_. Unit_a)) (\<lambda>fs. (fs, snd st)) (fs4_remove ch dir n (fst st)))"
| "fs4_step ch (Rename_c dir n dir2 n2) st =
     (if length n2 \<le> 255
      then map_option (map_prod (map_sum id (\<lambda>_. Unit_a)) (\<lambda>fs. (fs, snd st))) (fs4_rename ch dir n dir2 n2 (fst st)) else None)"
| "fs4_step ch (Setattr_c fh a) st =
     (case s4_mode a of None \<Rightarrow> None
      | Some m \<Rightarrow>
         if a = Sattr4_default\<lparr>s4_mode := Some m\<rparr>
         then Some (case fs4_node fh (fst st) of
                Inl e \<Rightarrow> (Inl e, st)
              | Inr n \<Rightarrow> (Inr Unit_a, ((fst st)(fh \<mapsto> n\<lparr>n4_mode := m, n4_change := ch4_change ch\<rparr>), snd st))) else None)"
| "fs4_step ch c st = None"

text \<open>The requests that change something, and so use up a number or a handle.\<close>

fun alters :: "call4 \<Rightarrow> bool" where
  "alters (Open_c dir n acc cr s cid own) = True"
| "alters (Write_c f off how d) = True"
| "alters (Mkdir_c dir n a) = True"
| "alters (Remove_c dir n) = True"
| "alters (Rename_c dir n dir2 n2) = True"
| "alters (Setattr_c fh a) = True"
| "alters c = False"

subsection \<open>The contract\<close>

definition handle4_ok :: "Nfs4Fh \<Rightarrow> bool" where
  "handle4_ok fh \<longleftrightarrow> fh4_data fh \<noteq> [] \<and> fh4_ok fh"

definition answer41 :: "Nfsstat4 + 'a \<Rightarrow> error + 'a" where
  "answer41 r = map_sum (\<lambda>st. Nfs4Error st ''COMPOUND'') id r"

text \<open>
  A server that, in the states \<open>ok\<close>, answers as \<open>fs4_step\<close> says for a choice of its own: new handles and stateids are
  fresh, the change number of an object grows with every change as long as there is \<open>room\<close> for another, the clock does not go
  back, an owner has a name, the client may read, an OPEN needs no confirmation, and a directory is listed completely.
\<close>

locale nfs41_service =
  fixes srv :: "'f server4" and st_of :: "'f \<Rightarrow> store4" and pick :: "call4 \<Rightarrow> 'f \<Rightarrow> choice4"
    and ok :: "'f \<Rightarrow> bool" and room :: "'f \<Rightarrow> nat" and latest :: "'f \<Rightarrow> nat" and clock :: "'f \<Rightarrow> int"
  assumes fits: "server4_ok srv"
    and stays_ok: "ok f \<Longrightarrow> ok (snd (srv 1 (ops4 c) f))"
    and step: "ok f \<Longrightarrow> (alters c \<Longrightarrow> 0 < room f) \<Longrightarrow> fs4_step (pick c f) c (st_of f) = Some (r, st) \<Longrightarrow>
      outcome4 c (fst (srv 1 (ops4 c) f)) = answer41 r \<and> st_of (snd (srv 1 (ops4 c) f)) = st"
    and room: "ok f \<Longrightarrow> room f \<le> room (snd (srv 1 (ops4 c) f)) + (if alters c then 1 else 0)"
    and fresh: "ok f \<Longrightarrow> alters c \<Longrightarrow> 0 < room f \<Longrightarrow>
      fst (st_of f) (ch4_fh (pick c f)) = None \<and> handle4_ok (ch4_fh (pick c f)) \<and>
      snd (st_of f) (ch4_sid (pick c f)) = None \<and> stateid_ok (ch4_sid (pick c f))"
    and grows: "ok f \<Longrightarrow> alters c \<Longrightarrow> 0 < room f \<Longrightarrow>
      latest f < unat (ch4_change (pick c f)) \<and> unat (ch4_change (pick c f)) \<le> latest (snd (srv 1 (ops4 c) f))"
    and latest: "ok f \<Longrightarrow> latest f \<le> latest (snd (srv 1 (ops4 c) f))"
    and clock: "ok f \<Longrightarrow> clock f \<le> sint (t4_seconds (ch4_time (pick c f))) \<and>
      sint (t4_seconds (ch4_time (pick c f))) \<le> clock (snd (srv 1 (ops4 c) f))"
    and bounds: "ok f \<Longrightarrow> fst (st_of f) fh = Some n \<Longrightarrow>
      unat (n4_change n) \<le> latest f \<and> sint (t4_seconds (n4_mtime n)) \<le> clock f"
    and unconfirmed: "ok f \<Longrightarrow> ch4_flags (pick c f) AND 2 = 0"
    and owners: "ok f \<Longrightarrow> ch4_owner (pick c f) \<noteq> [] \<and> ch4_group (pick c f) \<noteq> []"
    and readable: "ok f \<Longrightarrow> ch4_access (pick c f) AND 1 = 1"
    and listing: "ok f \<Longrightarrow> fst (st_of f) dir = Some n \<Longrightarrow> is_dir4 n \<Longrightarrow>
      \<exists>L J. lists4 (srv 1) dir J \<and> J 0 (replicate 8 0) L f \<and> dom (n4_names n) = d4_name ` set L"
    and listing_reads: "snd (srv 1 (ops4 (Page_c dir cookie cv)) f) = f"

end
