(* ===== verification/Compliance41_Rules.thy ===== *)
theory Compliance41_Rules
  imports Compliance41_Fs Compliance_Props
begin

text \<open>
  What an operation of an NFSv4.1 client does on a server that meets \<open>nfs41_service\<close>, as a rule for each: \<open>moves\<close> is what
  is known after any of them, \<open>stage41\<close> the state of a test.
\<close>

unbundle bit_operations_syntax

subsection \<open>Requests of the tests\<close>

text \<open>They fit a message.\<close>

fun small4 :: "call4 \<Rightarrow> bool" where
  "small4 (Lookup_c dir n) = (fh4_ok dir \<and> length n \<le> 300)"
| "small4 (Getattr_c fh) = fh4_ok fh"
| "small4 (Access_c fh m) = fh4_ok fh"
| "small4 (Open_c dir n acc cr s cid own) = (fh4_ok dir \<and> length n \<le> 300 \<and> length own \<le> 300)"
| "small4 (Close_c f) = (fh4_ok (nf_fh f) \<and> stateid_ok (nf_stateid f))"
| "small4 (Read_c f off n) = (fh4_ok (nf_fh f) \<and> stateid_ok (nf_stateid f))"
| "small4 (Write_c f off how d) = (fh4_ok (nf_fh f) \<and> stateid_ok (nf_stateid f) \<and> length d \<le> 65536)"
| "small4 (Commit_c f off n) = fh4_ok (nf_fh f)"
| "small4 (Mkdir_c dir n a) = (fh4_ok dir \<and> length n \<le> 300 \<and> a = Sattr4_default)"
| "small4 (Remove_c dir n) = (fh4_ok dir \<and> length n \<le> 300)"
| "small4 (Rename_c dir n dir2 n2) = (fh4_ok dir \<and> length n \<le> 300 \<and> fh4_ok dir2 \<and> length n2 \<le> 300)"
| "small4 (Setattr_c fh a) = (fh4_ok fh \<and> (\<exists>m. a = Sattr4_default\<lparr>s4_mode := Some m\<rparr>))"
| "small4 c = False"

lemma length_at_fh: "fh4_ok fh \<Longrightarrow> op4_ok (at_fh fh) \<and> length (op_body (at_fh fh)) \<le> 140"
  using xdr_pad_lt [of "length (fh4_data fh)"]
  by (simp_all add: at_fh_def wire_fh4_def fh4_ok_def length_wire_opaque)

lemma raw_lengths:
  "raw_ok (raw_sattr4 (Sattr4_default\<lparr>s4_mode := Some m\<rparr>))" "length (wire_raw (raw_sattr4 (Sattr4_default\<lparr>s4_mode := Some m\<rparr>))) = 20"
  "raw_ok (raw_sattr4 Sattr4_default)" "length (wire_raw (raw_sattr4 Sattr4_default)) = 8"
  by (simp_all add: raw_sattr4_def raw_ok_def wire_raw_def Sattr4_default_def sattr4_ids_def id_if_def small_def make_bitmap4_def
      wire_sattrlist_def wire_bitmap4_def wire_opaque_def xdr_pad_def attr_bytes_def ATTR_MODE_def bitmap4_set_def)

lemma bitmap_all_attrs: "make_bitmap4 all_attrs = [1048602, 3178554]"
  by (simp add: make_bitmap4_def bitmap4_set_def all_attrs_def attr_ids)

lemma length_wire_name: "length n \<le> 300 \<Longrightarrow> length (wire_opaque n) \<le> 307"
  "length n \<le> 65536 \<Longrightarrow> length (wire_opaque n) \<le> 65543"
  using xdr_pad_lt [of "length n"] by (simp_all add: length_wire_opaque)

lemma small4_ok: "small4 c \<Longrightarrow> request_ok (ops4 c)"
  by (cases c)
     (auto simp: request_ok_def wire_ops_def wire_op4_def small_def raw_lengths wire_stateid4_def length_wire_fixed
       stateid_ok_def bitmap_all_attrs wire_bitmap4_def Stateid4_zero_def xdr_pad_def dest!: length_at_fh length_wire_name)

subsection \<open>A client in a session with the server\<close>

definition at41 :: "('w, u32 \<times> 'f) view \<Rightarrow> ('f \<Rightarrow> 'x) \<Rightarrow> 'w nfs41_state \<Rightarrow> 'x" where
  "at41 v g s = g (snd (vw_state v (snd s)))"

definition live41 :: "'w os \<Rightarrow> ('w, u32 \<times> 'f) view \<Rightarrow> 'f server4 \<Rightarrow> ('f \<Rightarrow> bool) \<Rightarrow> 'w nfs41_state \<Rightarrow> bool" where
  "live41 os v srv ok s \<longleftrightarrow> conn41 os v srv s \<and> at41 v ok s \<and> (\<exists>tick. sleeps os v (session_tick tick))"

lemma answer41_simps [simp]:
  "answer41 (Inl st) = Inl (Nfs4Error st ''COMPOUND'')"
  "answer41 (Inr x) = Inr x"
  by (simp_all add: answer41_def)

lemma run_op_answer41:
  assumes "io_map V m s = Some (answer41 (map_sum id V r), s')" and "inj V"
  shows "m s = Some (answer41 r, s')"
proof -
  obtain q where "m s = Some (q, s')" and "answer41 (map_sum id V r) = map_sum id V q"
    using assms(1) by (auto simp: io_map_Some)
  with assms(2) show ?thesis by (cases q; cases r) (auto simp: inj_eq)
qed

text \<open>What does not change in a client: who it is, and its session.\<close>

definition same_client :: "'w nfs41_state \<Rightarrow> 'w nfs41_state \<Rightarrow> bool" where
  "same_client s s' \<longleftrightarrow> n41_clientid (fst s') = n41_clientid (fst s) \<and> n41_sessionid (fst s') = n41_sessionid (fst s) \<and>
     n41_root_fh (fst s') = n41_root_fh (fst s)"

text \<open>A key that a map does not have.\<close>

definition fresh_in :: "'k \<Rightarrow> ('k \<Rightarrow> 'v option) \<Rightarrow> bool" where
  "fresh_in k m \<longleftrightarrow> m k = None"

locale service41_link = nfs41_service srv st_of pick ok room latest clock
  for srv :: "'f server4" and st_of pick ok room latest clock +
  fixes os :: "'w os" and v :: "('w, u32 \<times> 'f) view"
begin

text \<open>What every request leaves behind, for the choice \<open>ch\<close> that the server made.\<close>

definition moves :: "call4 \<Rightarrow> choice4 \<Rightarrow> 'w nfs41_state \<Rightarrow> 'w nfs41_state \<Rightarrow> bool" where
  "moves c ch s s' \<longleftrightarrow> live41 os v srv ok s' \<and> same_client s s' \<and>
     at41 v room s \<le> at41 v room s' + (if alters c then 1 else 0) \<and>
     at41 v latest s \<le> at41 v latest s' \<and>
     at41 v clock s \<le> sint (t4_seconds (ch4_time ch)) \<and> sint (t4_seconds (ch4_time ch)) \<le> at41 v clock s' \<and>
     ch4_flags ch AND 2 = 0 \<and> ch4_owner ch \<noteq> [] \<and> ch4_group ch \<noteq> [] \<and> ch4_access ch AND 1 = 1 \<and>
     (alters c \<longrightarrow> at41 v latest s < unat (ch4_change ch) \<and> unat (ch4_change ch) \<le> at41 v latest s' \<and>
        fresh_in (ch4_fh ch) (fst (at41 v st_of s)) \<and> handle4_ok (ch4_fh ch) \<and>
        fresh_in (ch4_sid ch) (snd (at41 v st_of s)) \<and> stateid_ok (ch4_sid ch))"

lemma served:
  assumes s: "live41 os v srv ok s" and c: "alters c \<Longrightarrow> 0 < at41 v room s"
    and f: "f = snd (vw_state v (snd s))" and s': "conn41 os v srv s'" "same_client s s'" "snd (vw_state v (snd s')) = snd (srv 1 (ops4 c) f)"
  shows "moves c (pick c f) s s'"
proof -
  have ok: "ok f" using s by (simp add: live41_def at41_def f)
  have al: "alters c \<Longrightarrow> 0 < room f" using c by (simp add: at41_def f)
  have "live41 os v srv ok s'" using s s' stays_ok [OF ok] by (auto simp: live41_def at41_def)
  with s' room [OF ok] latest [OF ok] clock [OF ok] unconfirmed [OF ok] owners [OF ok] readable [OF ok]
    grows [OF ok] fresh [OF ok] al
  show ?thesis unfolding moves_def by (auto simp: at41_def fresh_in_def f [symmetric])
qed

text \<open>A state that a test which began in \<open>s0\<close> is in after \<open>k\<close> changes, with \<open>st\<close> on the server. A test makes at most sixteen.\<close>

definition stage41 :: "'w nfs41_state \<Rightarrow> nat \<Rightarrow> store4 \<Rightarrow> 'w nfs41_state \<Rightarrow> bool" where
  "stage41 s0 k st s \<longleftrightarrow> live41 os v srv ok s \<and> same_client s0 s \<and> 16 \<le> at41 v room s0 \<and> at41 v room s0 \<le> at41 v room s + k \<and>
     at41 v st_of s = st"

lemma stage41_moves:
  assumes "stage41 s0 k st s" and "moves c ch s s'"
  shows "stage41 s0 (if alters c then k + 1 else k) (at41 v st_of s') s'"
  using assms by (auto simp: stage41_def moves_def same_client_def)

lemma stage41_live: "stage41 s0 k st s \<Longrightarrow> live41 os v srv ok s"
  by (simp add: stage41_def)

lemma stage41_at: "stage41 s0 k st s \<Longrightarrow> at41 v st_of s = st"
  by (simp add: stage41_def)

lemma stage41_room: "stage41 s0 k st s \<Longrightarrow> k < 16 \<Longrightarrow> 0 < at41 v room s"
  by (simp add: stage41_def)

lemma op_runs41:
  assumes stg: "stage41 s0 k st s" and c: "small4 c" "alters c \<Longrightarrow> k < 16"
    and V: "run41 os c = io_map V m" "inj V"
    and G: "\<And>ch. fs4_step ch c st = Some (map_prod (map_sum id V) id (G ch))"
    and Q: "\<And>ch s'. stage41 s0 (if alters c then k + 1 else k) (snd (G ch)) s' \<Longrightarrow> moves c ch s s' \<Longrightarrow> Q (answer41 (fst (G ch))) s'"
  shows "runs m s Q"
proof -
  note s = stage41_live [OF stg]
  have room: "alters c \<Longrightarrow> 0 < at41 v room s" using stage41_room [OF stg] c(2) by simp
  obtain c0 w where sw: "s = (c0, w)" by (cases s)
  let ?f = "snd (vw_state v w)"
  let ?ch = "pick c ?f"
  have conn: "conn41 os v srv (c0, w)" and ok: "ok ?f" using s by (simp_all add: sw live41_def at41_def)
  have aok: "answer_ok (ops4 c) (fst (srv 1 (ops4 c) ?f))" using fits by (simp add: server4_ok_def)
  obtain w' where run: "run41 os c (c0, w) = Some (outcome4 c (fst (srv 1 (ops4 c) ?f)), (next_call41 c0, w'))"
    and s': "conn41 os v srv (next_call41 c0, w')" "snd (vw_state v w') = snd (srv 1 (ops4 c) ?f)"
    using c41.op_served [where srv = srv, OF conn small4_ok [OF c(1)] prod.collapse [symmetric] aok] unfolding run41_eq by blast
  have m: "moves c ?ch s (next_call41 c0, w')"
    using served [where c = c and f = ?f and s' = "(next_call41 c0, w')", OF s room] s' by (simp add: sw same_client_def next_call41_def)
  have "fs4_step ?ch c (st_of ?f) = Some (map_sum id V (fst (G ?ch)), snd (G ?ch))"
    using G [of ?ch] stage41_at [OF stg] by (simp add: sw at41_def map_prod_def split_beta)
  from step [OF ok _ this] room have "outcome4 c (fst (srv 1 (ops4 c) ?f)) = answer41 (map_sum id V (fst (G ?ch)))"
    and st: "st_of (snd (srv 1 (ops4 c) ?f)) = snd (G ?ch)" by (simp_all add: sw at41_def)
  with run V have "m s = Some (answer41 (fst (G ?ch)), (next_call41 c0, w'))" by (auto simp: sw intro: run_op_answer41)
  moreover have "Q (answer41 (fst (G ?ch))) (next_call41 c0, w')"
    by (rule Q [OF _ m]) (use stage41_moves [OF stg m] s' st in \<open>simp add: at41_def\<close>)
  ultimately show ?thesis by (auto simp: runs_def)
qed

lemma inj_val4: "inj Attr_a" "inj Fh_a" "inj Data_a" "inj Count_a" "inj Verf_a" "inj Mask_a" "inj (\<lambda>_ :: unit. Unit_a)"
  by (auto intro: injI)

lemmas run41_simps =
  inj_val4 sum.map_comp comp_def id_def map_prod_def split_beta fs4_node_def Sattr4_default_def

text \<open>A rule for each operation of the client: what it returns, and the state that the server is then in.\<close>

lemma getattr_runs41:
  assumes "stage41 s0 k st s" and "fh4_ok fh"
    and "\<And>ch s'. stage41 s0 k st s' \<Longrightarrow>
      moves (Getattr_c fh) ch s s' \<Longrightarrow>
      Q (answer41 (map_sum id (attrs_of ch) (fs4_node fh (fst st)))) s'"
  shows "runs (Nfs41Client_getattr os fh) s Q"
  by (rule op_runs41 [where c = "Getattr_c fh"
        and V = "Attr_a"
        and G = "\<lambda>ch. (map_sum id (attrs_of ch) (fs4_node fh (fst st)), st)"])
     (use assms in \<open>auto simp: run41_simps\<close>)

lemma lookup_runs41:
  assumes "stage41 s0 k st s" and "fh4_ok dir" and "length name \<le> 300"
    and "\<And>ch s'. stage41 s0 k st s' \<Longrightarrow>
      moves (Lookup_c dir name) ch s s' \<Longrightarrow>
      Q (answer41 (fs4_lookup dir name (fst st))) s'"
  shows "runs (Nfs41Client_lookup os dir name) s Q"
  by (rule op_runs41 [where c = "Lookup_c dir name" and V = "Fh_a" and G = "\<lambda>ch. (fs4_lookup dir name (fst st), st)"])
     (use assms in \<open>auto simp: run41_simps\<close>)

lemma access_runs41:
  assumes "stage41 s0 k st s" and "fh4_ok fh"
    and "\<And>ch s'. stage41 s0 k st s' \<Longrightarrow>
      moves (Access_c fh m) ch s s' \<Longrightarrow>
      Q (answer41 (map_sum id (\<lambda>_. m AND ch4_access ch) (fs4_node fh (fst st)))) s'"
  shows "runs (Nfs41Client_access os fh m) s Q"
  by (rule op_runs41 [where c = "Access_c fh m"
        and V = "Mask_a"
        and G = "\<lambda>ch. (map_sum id (\<lambda>_. m AND ch4_access ch) (fs4_node fh (fst st)), st)"])
     (use assms in \<open>auto simp: run41_simps\<close>)

lemma commit_runs41:
  assumes "stage41 s0 k st s" and "fh4_ok (nf_fh f)"
    and "\<And>ch s'. stage41 s0 k st s' \<Longrightarrow>
      moves (Commit_c f off n) ch s s' \<Longrightarrow>
      Q (answer41 (map_sum id (\<lambda>_. ch4_verf ch) (fs4_node (nf_fh f) (fst st)))) s'"
  shows "runs (Nfs41Client_commit os f off n) s Q"
  by (rule op_runs41 [where c = "Commit_c f off n"
        and V = "Verf_a"
        and G = "\<lambda>ch. (map_sum id (\<lambda>_. ch4_verf ch) (fs4_node (nf_fh f) (fst st)), st)"])
     (use assms in \<open>auto simp: run41_simps\<close>)

lemma close_runs41:
  assumes "stage41 s0 k st s" and "fh4_ok (nf_fh f)" and "stateid_ok (nf_stateid f)"
    and "\<exists>acc. snd st (nf_stateid f) = Some (nf_fh f, acc) \<and> fst st (nf_fh f) \<noteq> None"
    and "\<And>ch s'. stage41 s0 k (fst st, (snd st)(nf_stateid f := None)) s' \<Longrightarrow>
      moves (Close_c f) ch s s' \<Longrightarrow>
      Q (Inr ()) s'"
  shows "runs (Nfs41Client_close os f) s Q"
  by (rule op_runs41 [where c = "Close_c f"
        and V = "\<lambda>_. Unit_a"
        and G = "\<lambda>ch. (Inr (), (fst st, (snd st)(nf_stateid f := None)))"])
     (use assms in \<open>auto simp: run41_simps\<close>)

lemma read_runs41:
  assumes "stage41 s0 k st s" and "fh4_ok (nf_fh f)" and "stateid_ok (nf_stateid f)" and "opened_as f 1 st \<noteq> None" and "n \<le> 512"
    and "\<And>ch s'. stage41 s0 k st s' \<Longrightarrow>
      moves (Read_c f off n) ch s s' \<Longrightarrow>
      Q (Inr (take (unat n) (drop (unat off) (n4_data (the (opened_as f 1 st)))))) s'"
  shows "runs (Nfs41Client_read os f off n) s Q"
  by (rule op_runs41 [where c = "Read_c f off n"
        and V = "Data_a"
        and G = "\<lambda>ch. (Inr (take (unat n) (drop (unat off) (n4_data (the (opened_as f 1 st))))), st)"])
     (use assms in \<open>auto simp: run41_simps\<close>)

lemma write_runs41:
  assumes "stage41 s0 k st s" and "k < 16" and "fh4_ok (nf_fh f)" and "stateid_ok (nf_stateid f)" and "opened_as f 2 st \<noteq> None" and "length d \<le> 512"
    and "\<And>ch s'. stage41 s0 (k + 1) ((fst st)(nf_fh f \<mapsto> touched ch ((the (opened_as f 2 st))\<lparr>n4_data := put_at (unat off) d (n4_data (the (opened_as f 2 st)))\<rparr>)), snd st) s' \<Longrightarrow>
      moves (Write_c f off how d) ch s s' \<Longrightarrow>
      Q (Inr (word_of_nat (length d))) s'"
  shows "runs (Nfs41Client_write os f off how d) s Q"
  by (rule op_runs41 [where c = "Write_c f off how d"
        and V = "Count_a"
        and G = "\<lambda>ch. (Inr (word_of_nat (length d)), ((fst st)(nf_fh f \<mapsto> touched ch ((the (opened_as f 2 st))\<lparr>n4_data := put_at (unat off) d (n4_data (the (opened_as f 2 st)))\<rparr>)), snd st))"])
     (use assms in \<open>auto simp: run41_simps\<close>)

lemma mkdir_runs41:
  assumes "stage41 s0 k st s" and "k < 16" and "fh4_ok dir" and "length name \<le> 255"
    and "\<And>ch s'. stage41 s0 (k + 1) (snd (fs4_make ch NF4DIR dir name (fst st)), snd st) s' \<Longrightarrow>
      moves (Mkdir_c dir name Sattr4_default) ch s s' \<Longrightarrow> fresh_in (ch4_fh ch) (fst st) \<Longrightarrow> handle4_ok (ch4_fh ch) \<Longrightarrow>
      Q (answer41 (fst (fs4_make ch NF4DIR dir name (fst st)))) s'"
  shows "runs (Nfs41Client_mkdir os dir name Sattr4_default) s Q"
  by (rule op_runs41 [where c = "Mkdir_c dir name Sattr4_default"
        and V = "Fh_a"
        and G = "\<lambda>ch. map_prod id (\<lambda>fs. (fs, snd st)) (fs4_make ch NF4DIR dir name (fst st))"])
     (use assms stage41_at [OF assms(1)] in \<open>auto simp: moves_def run41_simps\<close>)

lemma remove_runs41:
  assumes "stage41 s0 k st s" and "k < 16" and "fh4_ok dir" and "length name \<le> 300"
    and "\<And>ch s'. stage41 s0 (k + 1) (snd (fs4_remove ch dir name (fst st)), snd st) s' \<Longrightarrow>
      moves (Remove_c dir name) ch s s' \<Longrightarrow>
      Q (answer41 (fst (fs4_remove ch dir name (fst st)))) s'"
  shows "runs (Nfs41Client_remove os dir name) s Q"
  by (rule op_runs41 [where c = "Remove_c dir name"
        and V = "\<lambda>_. Unit_a"
        and G = "\<lambda>ch. map_prod id (\<lambda>fs. (fs, snd st)) (fs4_remove ch dir name (fst st))"])
     (use assms in \<open>auto simp: run41_simps\<close>)

lemma setattr_runs41:
  assumes "stage41 s0 k st s" and "k < 16" and "fh4_ok fh" and "fst st fh \<noteq> None"
    and "\<And>ch s'. stage41 s0 (k + 1) ((fst st)(fh \<mapsto> (the (fst st fh))\<lparr>n4_mode := m, n4_change := ch4_change ch\<rparr>), snd st) s' \<Longrightarrow>
      moves (Setattr_c fh (Sattr4_default\<lparr>s4_mode := Some m\<rparr>)) ch s s' \<Longrightarrow>
      Q (Inr ()) s'"
  shows "runs (Nfs41Client_setattr os fh (Sattr4_default\<lparr>s4_mode := Some m\<rparr>)) s Q"
  by (rule op_runs41 [where c = "Setattr_c fh (Sattr4_default\<lparr>s4_mode := Some m\<rparr>)"
        and V = "\<lambda>_. Unit_a"
        and G = "\<lambda>ch. (Inr (), ((fst st)(fh \<mapsto> (the (fst st fh))\<lparr>n4_mode := m, n4_change := ch4_change ch\<rparr>), snd st))"])
     (use assms in \<open>auto simp: run41_simps\<close>)

lemma rename_runs41:
  assumes "stage41 s0 k st s" and "fh4_ok dir" and "length name \<le> 300" and "fh4_ok dir2" and "length name2 \<le> 255"
    and "k < 16" and "\<And>ch. fs4_rename ch dir name dir2 name2 (fst st) \<noteq> None"
    and "\<And>ch s'. stage41 s0 (k + 1) (snd (the (fs4_rename ch dir name dir2 name2 (fst st))), snd st) s' \<Longrightarrow>
      moves (Rename_c dir name dir2 name2) ch s s' \<Longrightarrow>
      Q (answer41 (fst (the (fs4_rename ch dir name dir2 name2 (fst st))))) s'"
  shows "runs (Nfs41Client_rename os dir name dir2 name2) s Q"
proof -
  obtain G where G: "\<And>ch. fs4_rename ch dir name dir2 name2 (fst st) = Some (G ch)"
    by (rule that [of "\<lambda>ch. the (fs4_rename ch dir name dir2 name2 (fst st))"]) (use assms(7) in simp)
  have Q: "stage41 s0 (k + 1) (snd (G ch), snd st) s' \<Longrightarrow> moves (Rename_c dir name dir2 name2) ch s s' \<Longrightarrow>
      Q (answer41 (fst (G ch))) s'" for ch s'
    using assms(8) [of ch s'] by (simp add: G)
  show ?thesis
  proof (rule op_runs41 [where c = "Rename_c dir name dir2 name2" and V = "\<lambda>_. Unit_a"
          and G = "\<lambda>ch. map_prod id (\<lambda>fs. (fs, snd st)) (G ch)", OF assms(1)])
    show "fs4_step ch (Rename_c dir name dir2 name2) st = Some (map_prod (map_sum id (\<lambda>_. Unit_a)) id
        (map_prod id (\<lambda>fs. (fs, snd st)) (G ch)))" for ch
      using assms(5) G [of ch] by (cases "G ch") simp
    show "Q (answer41 (fst (map_prod id (\<lambda>fs. (fs, snd st)) (G ch)))) s'"
      if "stage41 s0 (if alters (Rename_c dir name dir2 name2) then k + 1 else k) (snd (map_prod id (\<lambda>fs. (fs, snd st)) (G ch))) s'"
        "moves (Rename_c dir name dir2 name2) ch s s'" for ch s'
      using Q [of ch s'] that by simp
  qed (use assms(2-6) in \<open>simp_all add: inj_val4\<close>)
qed

lemma readdir_runs41:
  assumes stg: "stage41 s0 k st s" and dir: "fh4_ok dir" "fst st dir \<noteq> None" "is_dir4 (the (fst st dir))"
    and Q: "\<And>L s'. stage41 s0 k st s' \<Longrightarrow>
      d4_name ` set L = dom (n4_names (the (fst st dir))) \<Longrightarrow> Q (Inr L) s'"
  shows "runs (Nfs41Client_readdir os dir) s Q"
proof -
  note s = stage41_live [OF stg]
  have conn: "conn41 os v srv s" and ok: "ok (snd (vw_state v (snd s)))" using s by (simp_all add: live41_def at41_def)
  obtain L J where J: "lists4 (srv 1) dir J" "J 0 (replicate 8 0) L (snd (vw_state v (snd s)))"
    and L: "d4_name ` set L = dom (n4_names (the (fst st dir)))"
    using listing [OF ok, of dir "the (fst st dir)"] dir(2,3) stage41_at [OF stg] by (auto simp: at41_def)
  let ?E = "\<lambda>s'. conn41 os v srv s' \<and> same_client s s' \<and> snd (vw_state v (snd s')) = snd (vw_state v (snd s))"
  let ?J = "\<lambda>cookie cv todo s'. ?E s' \<and> J cookie cv todo (snd (vw_state v (snd s')))"
  have "\<exists>s'. Nfs41Client_readdir_loop os dir [] 0 (replicate 8 0) s = Some (Inr ([] @ L), s') \<and> ?E s'"
  proof (rule readdir41.loop_lists_all_in [where J = ?J])
    fix cookie cv todo s1 assume s1: "?J cookie cv todo s1"
    obtain c w where sw: "s1 = (c, w)" by (cases s1)
    from s1 J(1) obtain p f' rest where cv: "length cv = 8"
      and a: "srv 1 (ops4 (Page_c dir cookie cv)) (snd (vw_state v w)) = ((0, [Done_r, Page_r p]), f')"
      and aok: "answer_ok (ops4 (Page_c dir cookie cv)) (0, [Done_r, Page_r p])"
      and rest: "todo = rp4_entries p @ rest" "if rp4_eof p then rest = [] else rp4_entries p \<noteq> [] \<and>
        J (last_cookie d4_cookie cookie (rp4_entries p)) (rp4_cookieverf p) rest f'"
      unfolding lists4_def sw snd_conv by blast
    have f': "f' = snd (vw_state v w)" using listing_reads [of dir cookie cv "snd (vw_state v w)"] a by simp
    have "conn41 os v srv (c, w)" using s1 by (simp add: sw)
    from c41.op_served [where srv = srv, OF this request_ok_page [OF dir(1) cv] a aok]
    obtain w' where r: "compound_op (compound41 os []) decode_sequence41_result (Page_c dir cookie cv) (c, w) =
        Some (outcome4 (Page_c dir cookie cv) (0, [Done_r, Page_r p]), (next_call41 c, w'))"
      and c': "conn41 os v srv (next_call41 c, w')" "snd (vw_state v w') = f'" by blast
    have "io_map Page_a (Nfs41Client_readdir_page os dir cookie cv) s1 = Some (Inr (Page_a p), (next_call41 c, w'))"
      unfolding page41 sw r by (simp add: outcome4_def answer4_def)
    then obtain q where "Nfs41Client_readdir_page os dir cookie cv s1 = Some (q, (next_call41 c, w'))"
      "Inr (Page_a p) = map_sum id Page_a q" unfolding io_map_Some by blast
    then have "Nfs41Client_readdir_page os dir cookie cv s1 = Some (Inr p, (next_call41 c, w'))" by (cases q) auto
    moreover have "same_client s (next_call41 c, w')" using s1 by (simp add: sw same_client_def next_call41_def)
    ultimately show "\<exists>page s' rest. Nfs41Client_readdir_page os dir cookie cv s1 = Some (Inr page, s') \<and> ?E s' \<and>
        todo = rp4_entries page @ rest \<and>
        (if rp4_eof page then rest = [] else rp4_entries page \<noteq> [] \<and>
           ?J (last_cookie d4_cookie cookie (rp4_entries page)) (rp4_cookieverf page) rest s')"
      using c' rest f' s1
      by (intro exI [of _ p] exI [of _ "(next_call41 c, w')"] exI [of _ rest], cases "rp4_eof p") (simp_all add: sw)
  qed (use conn J(2) in \<open>simp add: same_client_def\<close>)
  then obtain s' where r: "Nfs41Client_readdir_loop os dir [] 0 (replicate 8 0) s = Some (Inr L, s')" and E: "?E s'" by auto
  have "stage41 s0 k st s'" using E stg by (auto simp: stage41_def live41_def at41_def same_client_def)
  with Q [of s' L] L r show ?thesis by (auto simp: runs_def Nfs41Client_readdir_def)
qed

lemma open_runs41:
  assumes stg: "stage41 s0 k st s" and dir: "k < 16" "fh4_ok dir" "length name \<le> 255"
    and G: "\<And>ch. \<exists>fh. fst (fs4_open ch dir name create (fst st)) = Inr fh"
    and Q: "\<And>ch s' fh. stage41 s0 (k + 1) (snd (fs4_open ch dir name create (fst st)), (snd st)(ch4_sid ch \<mapsto> (fh, acc))) s' \<Longrightarrow> moves (Open_c dir name acc create 0 0 []) ch s s' \<Longrightarrow>
      fresh_in (ch4_fh ch) (fst st) \<Longrightarrow> fresh_in (ch4_sid ch) (snd st) \<Longrightarrow> handle4_ok (ch4_fh ch) \<Longrightarrow> stateid_ok (ch4_sid ch) \<Longrightarrow>
      fst (fs4_open ch dir name create (fst st)) = Inr fh \<Longrightarrow>
      Q (Inr \<lparr>nf_fh = fh, nf_stateid = ch4_sid ch, nf_seqid = n41_open_seqid (fst s) + 1\<rparr>) s'"
  shows "runs (Nfs41Client_do_open os dir name acc create) s Q"
proof -
  note s = stage41_live [OF stg]
  obtain c w where sw: "s = (c, w)" by (cases s)
  obtain tick where conn: "conn41 os v srv (c, w)" and sl: "sleeps os v (session_tick tick)" and ok: "ok (snd (vw_state v w))"
    using s by (auto simp: sw live41_def at41_def)
  let ?f = "snd (vw_state v w)" and ?q = "open_request41 dir name acc create (n41_open_seqid c + 1) c"
  let ?ch = "pick ?q ?f"
  have at: "st_of ?f = st" using stage41_at [OF stg] by (simp add: sw at41_def)
  obtain fh where fh: "fst (fs4_open ?ch dir name create (fst st)) = Inr fh" using G by blast
  let ?r = "Opened_a \<lparr>or_stateid = ch4_sid ?ch, or_rflags = ch4_flags ?ch\<rparr> fh"
  let ?st = "(snd (fs4_open ?ch dir name create (fst st)), (snd st)(ch4_sid ?ch \<mapsto> (fh, acc)))"
  have al: "alters ?q" by (simp add: open_request41_def)
  have room: "0 < room ?f" using stage41_room [OF stg dir(1)] by (simp add: sw at41_def)
  have "fs4_step ?ch ?q (st_of ?f) = Some (Inr ?r, ?st)"
    using fh dir(3) by (simp add: at open_request41_def split_beta split: prod.split)
  from step [OF ok _ this] room have o: "outcome4 ?q (fst (srv 1 (ops4 ?q) ?f)) = Inr ?r"
    and st: "st_of (snd (srv 1 (ops4 ?q) ?f)) = ?st" by simp_all
  obtain a f1 where a: "srv 1 (ops4 ?q) ?f = (a, f1)" by fastforce
  have "fst a = 0" using o a by (auto simp: outcome4_def split: prod.splits if_splits)
  then have spec: "open41 tick (srv 1) ?q (n41_open_seqid c + 1) 0 ?f =
      Some (Inr \<lparr>nf_fh = fh, nf_stateid = ch4_sid ?ch, nf_seqid = n41_open_seqid c + 1\<rparr>, f1)"
    using o a unconfirmed [OF ok] by (simp add: open41_def after_grace_step [of "srv 1", OF a] NFS4ERR_GRACE_def)
  have req: "request_ok (ops4 ?q)"
    by (rule small4_ok) (use dir in \<open>simp add: open_request41_def bytes_of_def\<close>)
  obtain n w' where r: "Nfs41Client_do_open os dir name acc create (c, w) =
      Some (Inr \<lparr>nf_fh = fh, nf_stateid = ch4_sid ?ch, nf_seqid = n41_open_seqid c + 1\<rparr>,
        ((next_call41 ^^ Suc n) (c\<lparr>n41_open_seqid := n41_open_seqid c + 1\<rparr>), w'))"
    and c': "conn41 os v srv ((next_call41 ^^ Suc n) (c\<lparr>n41_open_seqid := n41_open_seqid c + 1\<rparr>), w')"
    and f1: "snd (vw_state v w') = f1"
    using do_open41_served [OF conn sl fits req spec] by blast
  let ?s' = "((next_call41 ^^ Suc n) (c\<lparr>n41_open_seqid := n41_open_seqid c + 1\<rparr>), w')"
  have root: "n41_root_fh ((next_call41 ^^ j) c1) = n41_root_fh c1" for j c1 by (induction j) (simp_all add: next_call41_def)
  have m: "moves ?q ?ch s ?s'"
    by (rule served [OF s]) (use c' f1 a room in \<open>simp_all add: sw same_client_def root at41_def del: funpow.simps\<close>)
  have "Q (Inr \<lparr>nf_fh = fh, nf_stateid = ch4_sid ?ch, nf_seqid = n41_open_seqid (fst s) + 1\<rparr>) ?s'"
  proof (rule Q)
    show "stage41 s0 (k + 1) ?st ?s'" using stage41_moves [OF stg m] al st a f1 by (simp add: at41_def del: funpow.simps)
    show "fresh_in (ch4_fh ?ch) (fst st)" "fresh_in (ch4_sid ?ch) (snd st)" "handle4_ok (ch4_fh ?ch)" "stateid_ok (ch4_sid ?ch)"
      using m al stage41_at [OF stg] by (simp_all add: moves_def)
    show "moves (Open_c dir name acc create 0 0 []) ?ch s ?s'" using m al by (simp add: moves_def del: funpow.simps)
    show "fst (fs4_open ?ch dir name create (fst st)) = Inr fh" by (rule fh)
  qed
  with r show ?thesis by (auto simp: runs_def sw)
qed

end

end
