(* ===== verification/Compliance41_Conform.thy ===== *)
theory Compliance41_Conform
  imports Compliance41_Rules
begin

text \<open>
  Every NFSv4.1 compliance test passes on a server that meets the contract \<open>nfs41_service\<close>, and leaves its file system and
  its opens as they were, but for the attributes of the scratch directory.
\<close>

unbundle bit_operations_syntax

subsection \<open>The scratch directory\<close>

definition scratch41 :: "Nfs4Fh \<Rightarrow> fs4 \<Rightarrow> bool" where
  "scratch41 wd fs \<longleftrightarrow> (\<exists>n. fs wd = Some n \<and> is_dir4 n \<and> n4_names n = (\<lambda>_. None) \<and> n4_links n = 1)"

definition restored41 :: "Nfs4Fh \<Rightarrow> store4 \<Rightarrow> store4 \<Rightarrow> bool" where
  "restored41 wd st st' \<longleftrightarrow> scratch41 wd (fst st') \<and> (\<forall>fh. fh \<noteq> wd \<longrightarrow> fst st' fh = fst st fh) \<and> snd st' = snd st"

lemma restored41_trans: "restored41 wd st st' \<Longrightarrow> restored41 wd st' st'' \<Longrightarrow> restored41 wd st st''"
  by (simp add: restored41_def)

lemmas fs4_defs =
  fs4_node_def fs4_dir_def fs4_lookup_def fs4_entry_def fs4_make_def fs4_open_def fs4_remove_def fs4_rename_def
  opened_as_def is_dir4_def new_node4_def set_name4_def touched_def attrs_of_def

definition present :: "'k \<Rightarrow> ('k \<Rightarrow> 'v option) \<Rightarrow> bool" where
  "present k m \<longleftrightarrow> m k \<noteq> None"

lemma fresh_in_present: "present k m \<Longrightarrow> fresh_in x m \<longleftrightarrow> x \<noteq> k \<and> k \<noteq> x \<and> m x = None"
  by (auto simp: fresh_in_def present_def)

lemma fresh_in_upd: "fresh_in x (m(k \<mapsto> y)) \<longleftrightarrow> x \<noteq> k \<and> k \<noteq> x \<and> fresh_in x m"
  by (auto simp: fresh_in_def)

lemma fresh_in_none: "fresh_in x m \<Longrightarrow> m x = None"
  by (simp add: fresh_in_def)

lemma fresh_in_idem: "fresh_in x m \<Longrightarrow> m(x := None) = m"
  by (auto simp: fresh_in_def)

lemma listed: "list_ex (\<lambda>e. d4_name e = x) L \<longleftrightarrow> x \<in> d4_name ` set L"
  by (auto simp: list_ex_iff)

lemma runs_get: "runs (io_get g) s Q \<longleftrightarrow> Q (Inr (g s)) s"
  by (simp add: runs_def io_get_def)

lemma runs_CHECK41: "c \<Longrightarrow> Q (Inr ()) s \<Longrightarrow> runs (CHECK41 expr loc c) s Q"
  by (simp add: CHECK41_def runs_throw_if)

lemma runs_EXPECT41:
  assumes "runs m s (\<lambda>r s'. r = Inl (Nfs4Error code ''COMPOUND'') \<and> Q (Inr ()) s')"
  shows "runs (EXPECT_NFS41_ERR m code cname) s Q"
  using assms by (auto simp: EXPECT_NFS41_ERR_def runs_def io_bind_def io_try_def io_throw_if_def)

lemmas test41_simps =
  runs_bind fresh_in_upd fresh_in_present fs4_defs length_bytes_of bytes_of_eq Let_def put_at_def handle4_ok_def restored41_def scratch41_def
  Nfs41Client_open_read_def Nfs41Client_open_write_def fresh_in_idem NF4REG_def NF4DIR_def OPEN4_SHARE_ACCESS_READ_def OPEN4_SHARE_ACCESS_WRITE_def

subsection \<open>The tests\<close>

context service41_link
begin

lemmas op41_rules =
  getattr_runs41 lookup_runs41 access_runs41 commit_runs41 close_runs41 read_runs41 write_runs41 mkdir_runs41 remove_runs41
  setattr_runs41 rename_runs41 readdir_runs41 open_runs41

lemma moves_named: "moves c ch s s' \<Longrightarrow> ch4_owner ch \<noteq> [] \<and> ch4_group ch \<noteq> []"
  by (simp add: moves_def)

lemma moves_readable: "moves c ch s s' \<Longrightarrow> ch4_access ch AND 1 = 1"
  by (simp add: moves_def)

lemma read_of_seven: "x AND 1 = 1 \<Longrightarrow> (7 AND x) AND 1 \<noteq> (0 :: u32)"
  by (simp add: and.assoc)

lemma moves_latest:
  "moves c ch s s' \<Longrightarrow> at41 v latest s \<le> at41 v latest s' \<and>
     (alters c \<longrightarrow> at41 v latest s < unat (ch4_change ch) \<and> unat (ch4_change ch) \<le> at41 v latest s')"
  by (simp add: moves_def)

lemma moves_clock:
  "moves c ch s s' \<Longrightarrow> at41 v clock s \<le> sint (t4_seconds (ch4_time ch)) \<and> sint (t4_seconds (ch4_time ch)) \<le> at41 v clock s'"
  by (simp add: moves_def)

definition ends41 :: "Nfs4Fh \<Rightarrow> 'w nfs41_state \<Rightarrow> store4 \<Rightarrow> 'w nfs41_state \<Rightarrow> bool" where
  "ends41 wd s st s' \<longleftrightarrow> (\<exists>k \<le> 16. \<exists>st'. stage41 s k st' s' \<and> restored41 wd st st')"

lemma ends41I: "stage41 s k st' s' \<Longrightarrow> k < 17 \<Longrightarrow> restored41 wd st st' \<Longrightarrow> ends41 wd s st s'"
  unfolding ends41_def by (intro exI [of _ k] conjI exI [of _ st']) simp_all

definition passes41 :: "TestCtx41 \<Rightarrow> (TestCtx41 \<Rightarrow> ('w nfs41_state, unit) io) \<Rightarrow> bool" where
  "passes41 ctx t \<longleftrightarrow>
     (\<forall>s st. stage41 s 0 st s \<longrightarrow> scratch41 (cx41_workdir_fh ctx) (fst st) \<longrightarrow> fst st (cx41_root_fh ctx) \<noteq> None \<longrightarrow>
       n41_clientid (fst s) \<noteq> 0 \<longrightarrow> (\<exists>b \<in> set (n41_sessionid (fst s)). b \<noteq> 0) \<longrightarrow>
       runs (t ctx) s (\<lambda>r s'. r = Inr () \<and> ends41 (cx41_workdir_fh ctx) s st s'))"

lemma passes41I:
  assumes "\<And>s n fs ops. stage41 s 0 (fs, ops) s \<Longrightarrow> fs (cx41_workdir_fh ctx) = Some n \<Longrightarrow> n4_type n = NF4DIR \<Longrightarrow>
      n4_names n = (\<lambda>_. None) \<Longrightarrow> n4_links n = 1 \<Longrightarrow> present (cx41_workdir_fh ctx) fs \<Longrightarrow> fs (cx41_root_fh ctx) \<noteq> None \<Longrightarrow>
      n41_clientid (fst s) \<noteq> 0 \<Longrightarrow> \<exists>b \<in> set (n41_sessionid (fst s)). b \<noteq> 0 \<Longrightarrow>
      runs (t ctx) s (\<lambda>r s'. r = Inr () \<and> ends41 (cx41_workdir_fh ctx) s (fs, ops) s')"
  shows "passes41 ctx t"
  unfolding passes41_def scratch41_def
proof (intro allI impI, elim exE conjE)
  fix s st n
  assume *: "stage41 s 0 st s" "fst st (cx41_workdir_fh ctx) = Some n" "is_dir4 n" "n4_names n = (\<lambda>_. None)" "n4_links n = 1"
    "fst st (cx41_root_fh ctx) \<noteq> None" "n41_clientid (fst s) \<noteq> 0" "\<exists>b \<in> set (n41_sessionid (fst s)). b \<noteq> 0"
  show "runs (t ctx) s (\<lambda>r s'. r = Inr () \<and> ends41 (cx41_workdir_fh ctx) s st s')"
    using assms [of s "fst st" "snd st" n] * by (simp add: is_dir4_def present_def)
qed

lemma test41_lookup_existing_passes:
  "handle4_ok (cx41_workdir_fh ctx) \<Longrightarrow> fh4_ok (cx41_root_fh ctx) \<Longrightarrow> passes41 ctx (test41_lookup_existing os)"
  by (rule passes41I, unfold test41_lookup_existing_def)
     (auto elim!: op41_rules ends41I intro!: runs_CHECK41 runs_EXPECT41 simp: test41_simps)

lemma test41_lookup_noent_passes:
  "handle4_ok (cx41_workdir_fh ctx) \<Longrightarrow> fh4_ok (cx41_root_fh ctx) \<Longrightarrow> passes41 ctx (test41_lookup_noent os)"
  by (rule passes41I, unfold test41_lookup_noent_def)
     (auto elim!: op41_rules ends41I intro!: runs_CHECK41 runs_EXPECT41 simp: test41_simps)

lemma test41_read_write_roundtrip_passes:
  "handle4_ok (cx41_workdir_fh ctx) \<Longrightarrow> fh4_ok (cx41_root_fh ctx) \<Longrightarrow> passes41 ctx (test41_read_write_roundtrip os)"
  by (rule passes41I, unfold test41_read_write_roundtrip_def)
     (auto elim!: op41_rules ends41I intro!: runs_CHECK41 runs_EXPECT41 simp: test41_simps)

lemma test41_read_past_eof_passes:
  "handle4_ok (cx41_workdir_fh ctx) \<Longrightarrow> fh4_ok (cx41_root_fh ctx) \<Longrightarrow> passes41 ctx (test41_read_past_eof os)"
  by (rule passes41I, unfold test41_read_past_eof_def)
     (auto elim!: op41_rules ends41I intro!: runs_CHECK41 runs_EXPECT41 simp: test41_simps)

lemma test41_mkdir_and_remove_passes:
  "handle4_ok (cx41_workdir_fh ctx) \<Longrightarrow> fh4_ok (cx41_root_fh ctx) \<Longrightarrow> passes41 ctx (test41_mkdir_and_remove os)"
  by (rule passes41I, unfold test41_mkdir_and_remove_def)
     (auto elim!: op41_rules ends41I intro!: runs_CHECK41 runs_EXPECT41 simp: test41_simps)

lemma test41_readdir_passes:
  "handle4_ok (cx41_workdir_fh ctx) \<Longrightarrow> fh4_ok (cx41_root_fh ctx) \<Longrightarrow> passes41 ctx (test41_readdir os)"
  by (rule passes41I, unfold test41_readdir_def)
     (auto elim!: op41_rules ends41I intro!: runs_CHECK41 runs_EXPECT41 simp: test41_simps listed)

lemma test41_type_regular_file_passes:
  "handle4_ok (cx41_workdir_fh ctx) \<Longrightarrow> fh4_ok (cx41_root_fh ctx) \<Longrightarrow> passes41 ctx (test41_type_regular_file os)"
  by (rule passes41I, unfold test41_type_regular_file_def)
     (auto elim!: op41_rules ends41I intro!: runs_CHECK41 runs_EXPECT41 simp: test41_simps)

lemma test41_type_directory_passes:
  "handle4_ok (cx41_workdir_fh ctx) \<Longrightarrow> fh4_ok (cx41_root_fh ctx) \<Longrightarrow> passes41 ctx (test41_type_directory os)"
  by (rule passes41I, unfold test41_type_directory_def)
     (auto elim!: op41_rules ends41I intro!: runs_CHECK41 runs_EXPECT41 simp: test41_simps)

lemma test41_size_after_write_passes:
  "handle4_ok (cx41_workdir_fh ctx) \<Longrightarrow> fh4_ok (cx41_root_fh ctx) \<Longrightarrow> passes41 ctx (test41_size_after_write os)"
  by (rule passes41I, unfold test41_size_after_write_def)
     (auto elim!: op41_rules ends41I intro!: runs_CHECK41 runs_EXPECT41 simp: test41_simps)

lemma test41_change_advances_after_write_passes:
  "handle4_ok (cx41_workdir_fh ctx) \<Longrightarrow> fh4_ok (cx41_root_fh ctx) \<Longrightarrow> passes41 ctx (test41_change_advances_after_write os)"
  by (rule passes41I, unfold test41_change_advances_after_write_def)
     (auto elim!: op41_rules ends41I intro!: runs_CHECK41 runs_EXPECT41 simp: test41_simps word_less_nat_alt; clarsimp dest!: moves_latest)

lemma test41_time_modify_advances_after_write_passes:
  "handle4_ok (cx41_workdir_fh ctx) \<Longrightarrow> fh4_ok (cx41_root_fh ctx) \<Longrightarrow> passes41 ctx (test41_time_modify_advances_after_write os)"
  by (rule passes41I, unfold test41_time_modify_advances_after_write_def)
     (auto elim!: op41_rules ends41I intro!: runs_CHECK41 runs_EXPECT41 dest!: moves_clock simp: test41_simps)

lemma test41_owner_non_empty_passes:
  "handle4_ok (cx41_workdir_fh ctx) \<Longrightarrow> fh4_ok (cx41_root_fh ctx) \<Longrightarrow> passes41 ctx (test41_owner_non_empty os)"
  by (rule passes41I, unfold test41_owner_non_empty_def)
     (auto elim!: op41_rules ends41I intro!: runs_CHECK41 runs_EXPECT41 dest!: moves_named simp: test41_simps)

lemma test41_owner_group_non_empty_passes:
  "handle4_ok (cx41_workdir_fh ctx) \<Longrightarrow> fh4_ok (cx41_root_fh ctx) \<Longrightarrow> passes41 ctx (test41_owner_group_non_empty os)"
  by (rule passes41I, unfold test41_owner_group_non_empty_def)
     (auto elim!: op41_rules ends41I intro!: runs_CHECK41 runs_EXPECT41 dest!: moves_named simp: test41_simps)

lemma test41_open_read_close_persists_passes:
  "handle4_ok (cx41_workdir_fh ctx) \<Longrightarrow> fh4_ok (cx41_root_fh ctx) \<Longrightarrow> passes41 ctx (test41_open_read_close_persists os)"
  by (rule passes41I, unfold test41_open_read_close_persists_def)
     (auto elim!: op41_rules ends41I intro!: runs_CHECK41 runs_EXPECT41 simp: test41_simps)

lemma test41_write_multiple_chunks_passes:
  "handle4_ok (cx41_workdir_fh ctx) \<Longrightarrow> fh4_ok (cx41_root_fh ctx) \<Longrightarrow> passes41 ctx (test41_write_multiple_chunks os)"
  by (rule passes41I, unfold test41_write_multiple_chunks_def)
     (auto elim!: op41_rules ends41I intro!: runs_CHECK41 runs_EXPECT41 simp: test41_simps)

lemma test41_commit_passes:
  "handle4_ok (cx41_workdir_fh ctx) \<Longrightarrow> fh4_ok (cx41_root_fh ctx) \<Longrightarrow> passes41 ctx (test41_commit os)"
  by (rule passes41I, unfold test41_commit_def)
     (auto elim!: op41_rules ends41I intro!: runs_CHECK41 runs_EXPECT41 simp: test41_simps)

lemma test41_setattr_mode_passes:
  "handle4_ok (cx41_workdir_fh ctx) \<Longrightarrow> fh4_ok (cx41_root_fh ctx) \<Longrightarrow> passes41 ctx (test41_setattr_mode os)"
  by (rule passes41I, unfold test41_setattr_mode_def)
     (auto elim!: op41_rules ends41I intro!: runs_CHECK41 runs_EXPECT41 simp: test41_simps)

lemma test41_access_check_passes:
  "handle4_ok (cx41_workdir_fh ctx) \<Longrightarrow> fh4_ok (cx41_root_fh ctx) \<Longrightarrow> passes41 ctx (test41_access_check os)"
  by (rule passes41I, unfold test41_access_check_def)
     (auto elim!: op41_rules ends41I intro!: runs_CHECK41 runs_EXPECT41 dest!: moves_readable simp: test41_simps read_of_seven)

lemma test41_no_open_confirm_passes:
  "handle4_ok (cx41_workdir_fh ctx) \<Longrightarrow> fh4_ok (cx41_root_fh ctx) \<Longrightarrow> passes41 ctx (test41_no_open_confirm os)"
  by (rule passes41I, unfold test41_no_open_confirm_def)
     (auto elim!: op41_rules ends41I intro!: runs_CHECK41 runs_EXPECT41 simp: test41_simps)

lemma test41_source_gone_after_rename_passes:
  "handle4_ok (cx41_workdir_fh ctx) \<Longrightarrow> fh4_ok (cx41_root_fh ctx) \<Longrightarrow> passes41 ctx (test41_source_gone_after_rename os)"
  by (rule passes41I, unfold test41_source_gone_after_rename_def)
     (auto elim!: op41_rules ends41I intro!: runs_CHECK41 runs_EXPECT41 simp: test41_simps)

lemma test41_destination_present_after_rename_passes:
  "handle4_ok (cx41_workdir_fh ctx) \<Longrightarrow> fh4_ok (cx41_root_fh ctx) \<Longrightarrow> passes41 ctx (test41_destination_present_after_rename os)"
  by (rule passes41I, unfold test41_destination_present_after_rename_def)
     (auto elim!: op41_rules ends41I intro!: runs_CHECK41 runs_EXPECT41 simp: test41_simps)

lemma test41_change_advances_on_both_dirs_passes:
  "handle4_ok (cx41_workdir_fh ctx) \<Longrightarrow> fh4_ok (cx41_root_fh ctx) \<Longrightarrow> passes41 ctx (test41_change_advances_on_both_dirs os)"
  by (rule passes41I, unfold test41_change_advances_on_both_dirs_def)
     (auto elim!: op41_rules ends41I intro!: runs_CHECK41 runs_EXPECT41 simp: test41_simps word_less_nat_alt; clarsimp dest!: moves_latest)

lemma test41_exchange_id_passes:
  "handle4_ok (cx41_workdir_fh ctx) \<Longrightarrow> fh4_ok (cx41_root_fh ctx) \<Longrightarrow> passes41 ctx (test41_exchange_id os)"
  by (rule passes41I, unfold test41_exchange_id_def)
     (auto elim!: op41_rules ends41I intro!: runs_CHECK41 runs_EXPECT41 simp: test41_simps runs_get list_ex_iff)

lemma test41_create_session_passes:
  "handle4_ok (cx41_workdir_fh ctx) \<Longrightarrow> fh4_ok (cx41_root_fh ctx) \<Longrightarrow> passes41 ctx (test41_create_session os)"
  by (rule passes41I, unfold test41_create_session_def)
     (auto elim!: op41_rules ends41I intro!: runs_CHECK41 runs_EXPECT41 simp: test41_simps runs_get list_ex_iff)

lemma test41_sequence_works_passes:
  "handle4_ok (cx41_workdir_fh ctx) \<Longrightarrow> fh4_ok (cx41_root_fh ctx) \<Longrightarrow> passes41 ctx (test41_sequence_works os)"
  by (rule passes41I, unfold test41_sequence_works_def)
     (auto elim!: op41_rules ends41I intro!: runs_CHECK41 runs_EXPECT41 simp: test41_simps)

lemma test41_reclaim_complete_passes:
  "handle4_ok (cx41_workdir_fh ctx) \<Longrightarrow> fh4_ok (cx41_root_fh ctx) \<Longrightarrow> passes41 ctx (test41_reclaim_complete os)"
  by (rule passes41I, unfold test41_reclaim_complete_def)
     (auto elim!: op41_rules ends41I intro!: runs_CHECK41 runs_EXPECT41 simp: test41_simps)

lemmas test41_passes =
  test41_lookup_existing_passes test41_lookup_noent_passes test41_read_write_roundtrip_passes
  test41_read_past_eof_passes test41_mkdir_and_remove_passes test41_readdir_passes test41_type_regular_file_passes
  test41_type_directory_passes test41_size_after_write_passes test41_change_advances_after_write_passes
  test41_time_modify_advances_after_write_passes test41_owner_non_empty_passes test41_owner_group_non_empty_passes
  test41_open_read_close_persists_passes test41_write_multiple_chunks_passes test41_commit_passes
  test41_setattr_mode_passes test41_access_check_passes test41_no_open_confirm_passes
  test41_source_gone_after_rename_passes test41_destination_present_after_rename_passes
  test41_change_advances_on_both_dirs_passes test41_exchange_id_passes test41_create_session_passes
  test41_sequence_works_passes test41_reclaim_complete_passes

end

end
