(* ===== verification/Compliance41_Service.thy ===== *)
theory Compliance41_Service
  imports Compliance41_Conform Compliance_Service
begin

text \<open>
  The NFSv4.1 compliance program on a server that meets the contract \<open>nfs41_service\<close>: it reports every selected test as
  passed, returns 0 and leaves the server as it found it, but for the root's change number and time.
\<close>

subsection \<open>The suite\<close>

lemma length_compliance41_workdir: "pid < 2 ^ 31 \<Longrightarrow> length (compliance41_workdir pid) \<le> 255"
  using length_to_string [of pid 9] by (simp add: compliance41_workdir_def length_bytes_of)

lemmas suite41_defs =
  compliance41_tests_def register_session41_tests_def register_basic41_tests_def register_attrs41_tests_def
  register_stateid41_tests_def register_rename41_tests_def add_test_def TestRunner_add_def Let_def

lemma count_list_replicate: "count_list (replicate n x) y = (if x = y then n else 0)"
  by (induction n) auto

definition passed_report :: "('c, 's) TestRunner \<Rightarrow> string list" where
  "passed_report ts =
     map (\<lambda>t. ''  [PASS] '' @ ct_name t @ ''  ('' @ ct_rfc_ref t @ '')'') ts @
     [[], ''Results: '' @ to_string (length ts) @ '' passed, '' @ to_string 0 @ '' failed, '' @ to_string 0 @ '' skipped'']"

context service41_link
begin

lemma stage41_start: "live41 os v srv ok s \<Longrightarrow> 16 \<le> at41 v room s \<Longrightarrow> at41 v st_of s = st \<Longrightarrow> stage41 s 0 st s"
  by (simp add: stage41_def same_client_def)

lemma tests41_pass:
  assumes "\<forall>t \<in> set ts. passes41 ctx (ct_fn t)" and "live41 os v srv ok s" and "at41 v st_of s = st"
    and "scratch41 (cx41_workdir_fh ctx) (fst st)" and "fst st (cx41_root_fh ctx) \<noteq> None"
    and "n41_clientid (fst s) \<noteq> 0" and "\<exists>b \<in> set (n41_sessionid (fst s)). b \<noteq> 0" and "16 * length ts \<le> at41 v room s"
  shows "\<exists>s'. test_results ctx ts s = Some (replicate (length ts) (Inr ()), s') \<and> live41 os v srv ok s' \<and> same_client s s' \<and>
    at41 v room s \<le> at41 v room s' + 16 * length ts \<and> restored41 (cx41_workdir_fh ctx) st (at41 v st_of s')"
  using assms
proof (induction ts arbitrary: s st)
  case Nil
  then show ?case by (simp add: restored41_def same_client_def)
next
  case (Cons t ts)
  have "passes41 ctx (ct_fn t)" "stage41 s 0 st s" using Cons.prems by (simp_all add: stage41_start)
  with Cons.prems(4-7) obtain s1 where t: "ct_fn t ctx s = Some (Inr (), s1)" and "ends41 (cx41_workdir_fh ctx) s st s1"
    unfolding passes41_def runs_def by blast
  then obtain k st1 where k: "k \<le> 16" and s1: "stage41 s k st1 s1" and r1: "restored41 (cx41_workdir_fh ctx) st st1"
    unfolding ends41_def by blast
  have root: "fst st1 (cx41_root_fh ctx) \<noteq> None"
    using r1 Cons.prems(5) by (cases "cx41_root_fh ctx = cx41_workdir_fh ctx") (auto simp: restored41_def scratch41_def)
  have "\<exists>s'. test_results ctx ts s1 = Some (replicate (length ts) (Inr ()), s') \<and> live41 os v srv ok s' \<and> same_client s1 s' \<and>
      at41 v room s1 \<le> at41 v room s' + 16 * length ts \<and> restored41 (cx41_workdir_fh ctx) st1 (at41 v st_of s')"
    by (rule Cons.IH) (use Cons.prems k s1 r1 root in \<open>auto simp: stage41_def same_client_def restored41_def\<close>)
  then obtain s' where "test_results ctx ts s1 = Some (replicate (length ts) (Inr ()), s')" "live41 os v srv ok s'" "same_client s1 s'"
      "at41 v room s1 \<le> at41 v room s' + 16 * length ts" "restored41 (cx41_workdir_fh ctx) st1 (at41 v st_of s')" by blast
  with t k s1 r1 show ?case by (auto simp: stage41_def same_client_def intro: restored41_trans)
qed

lemma suite41_passes:
  assumes "handle4_ok (cx41_workdir_fh ctx)" and "fh4_ok (cx41_root_fh ctx)"
  shows "\<forall>t \<in> set (selected flt (compliance41_tests os)). passes41 ctx (ct_fn t)"
proof -
  have "\<forall>t \<in> set (compliance41_tests os). passes41 ctx (ct_fn t)" by (simp add: suite41_defs test41_passes [OF assms])
  then show ?thesis by (auto)
qed

lemma length_suite41: "length (selected flt (compliance41_tests os)) \<le> 26"
  by (rule order.trans [OF length_filter_le]) (simp add: suite41_defs)

lemma run_all41_passes:
  assumes "live41 os v srv ok s" and "at41 v st_of s = st" and "handle4_ok (cx41_workdir_fh ctx)" "fh4_ok (cx41_root_fh ctx)"
    and "scratch41 (cx41_workdir_fh ctx) (fst st)" and "fst st (cx41_root_fh ctx) \<noteq> None"
    and "n41_clientid (fst s) \<noteq> 0" and "\<exists>b \<in> set (n41_sessionid (fst s)). b \<noteq> 0" and "416 \<le> at41 v room s"
  shows "runs (run_all41 ctx flt (compliance41_tests os)) s (\<lambda>r s'. r = Inr (0, passed_report (selected flt (compliance41_tests os))) \<and>
    live41 os v srv ok s' \<and> at41 v room s \<le> at41 v room s' + 416 \<and> restored41 (cx41_workdir_fh ctx) st (at41 v st_of s'))"
proof -
  let ?ts = "selected flt (compliance41_tests os)"
  have len: "16 * length ?ts \<le> 416" using length_suite41 [of flt] by simp
  obtain s' where res: "test_results ctx ?ts s = Some (replicate (length ?ts) (Inr ()), s')" and s': "live41 os v srv ok s'"
      "at41 v room s \<le> at41 v room s' + 16 * length ?ts" "restored41 (cx41_workdir_fh ctx) st (at41 v st_of s')"
    using tests41_pass [OF suite41_passes [OF assms(3,4)] assms(1,2,5-8) order.trans [OF len assms(9)]] by blast
  have lines: "concat (map2 lines4 ts (replicate (length ts) (Inr ()))) = map (\<lambda>t. ''  [PASS] '' @ ct_name t @ ''  ('' @ ct_rfc_ref t @ '')'') ts"
    for ts by (induction ts) (simp_all add: lines4_def)
  have "map verdict4 (replicate n (Inr ())) = replicate n PASS" for n by (induction n) simp_all
  then have "run_all4 ctx flt (compliance41_tests os) s = Some (Inr (0, passed_report ?ts), s')"
    unfolding run_all4_reports res passed_report_def option.map prod.case Let_def lines
    by (simp add: count_list_replicate summary4_def)
  with s' len show ?thesis by (simp add: runs_def run_all41_def)
qed

subsection \<open>The run\<close>

lemma cleanup41_runs:
  assumes s: "stage41 s0 k (fs, ops) s" "k < 16"
    and p: "fh4_ok parent" "fs parent = Some p" "is_dir4 p" "n4_names p name = Some wd" "length name \<le> 300"
    and wd: "parent \<noteq> wd" "fh4_ok wd" "scratch41 wd fs"
    and Q: "\<And>ch s'. live41 os v srv ok s' \<Longrightarrow> at41 v st_of s' = (fs(parent \<mapsto> set_name4 ch name None p, wd := None), ops) \<Longrightarrow>
      Q (Inr ()) s'"
  shows "runs (rmdir41_recursive os parent name) s Q"
proof -
  obtain n where n: "fs wd = Some n" "is_dir4 n" "n4_names n = (\<lambda>_. None)" "n4_links n = 1"
    using wd(3) by (auto simp: scratch41_def)
  have look: "fs4_lookup parent name fs = Inr wd"
    using p by (simp add: fs4_lookup_def fs4_dir_def fs4_node_def)
  have rem: "fs4_remove ch parent name fs = (Inr (), fs(parent \<mapsto> set_name4 ch name None p, wd := None))" for ch
    using p n by (simp add: fs4_remove_def fs4_entry_def fs4_dir_def fs4_node_def)
  have clear: "runs (io_bind (rmdir41_entries os wd L) (\<lambda>_. Nfs41Client_remove os parent name)) s1 Q"
    if "stage41 s0 k (fs, ops) s1" "L = []" for L s1
    unfolding that(2) runs_bind rmdir41_entries.simps [of os wd "[]"] list.case runs_return sum.case
    by (rule remove_runs41 [OF that(1) s(2) p(1,5)]) (simp add: rem Q stage41_def)
  show ?thesis
    unfolding rmdir41_recursive_def
    by (subst runs_bind, rule lookup_runs41 [OF s(1) p(1,5)], subst runs_bind)
       (auto simp: look n intro!: readdir_runs41 [where dir = wd, OF _ wd(2)] clear)
qed

lemma diagnostics41_runs:
  assumes "stage41 s0 k st s" and "fh4_ok root" "fst st root = Some n" "is_dir4 n"
    and Q: "\<And>s'. stage41 s0 k st s' \<Longrightarrow> Q (Inr ()) s'"
  shows "runs (diagnostics41 os root) s Q"
  unfolding diagnostics41_def swallow_def
  using assms by (auto elim!: getattr_runs41 access_runs41 readdir_runs41 lookup_runs41 simp: runs_bind runs_try runs_return
      fs4_node_def length_bytes_of)

lemma compliance41_run_passes:
  assumes s: "live41 os v srv ok s" "at41 v st_of s = (fs, ops)" and room: "448 \<le> at41 v room s"
    and root: "fh4_ok (n41_root_fh (fst s))" "fs (n41_root_fh (fst s)) = Some n" "is_dir4 n"
    and name: "n4_names n (compliance41_workdir pid) = None" "pid < 2 ^ 31"
    and session: "n41_clientid (fst s) \<noteq> 0" "\<exists>b \<in> set (n41_sessionid (fst s)). b \<noteq> 0"
  shows "runs (compliance41_run os pid o1) s (\<lambda>r s'.
    r = Inr (0, passed_report (selected (opt_filter o1) (compliance41_tests os))) \<and> live41 os v srv ok s' \<and>
    (\<exists>c t. at41 v st_of s' = (fs(n41_root_fh (fst s) \<mapsto> n\<lparr>n4_change := c, n4_mtime := t\<rparr>), ops)))"
proof -
  let ?root = "n41_root_fh (fst s)" and ?name = "compliance41_workdir pid" and ?ts = "selected (opt_filter o1) (compliance41_tests os)"
  let ?Q = "\<lambda>r s'. r = Inr (0, passed_report ?ts) \<and> live41 os v srv ok s' \<and>
    (\<exists>c t. at41 v st_of s' = (fs(?root \<mapsto> n\<lparr>n4_change := c, n4_mtime := t\<rparr>), ops))"
  note len = length_compliance41_workdir [OF name(2)]
  note ok = root(1)
  have s0: "stage41 s 0 (fs, ops) s" using s room by (simp add: stage41_start)
  have absent: "fs4_lookup ?root ?name fs = Inl NFS4ERR_NOENT"
    using root name(1) by (simp add: fs4_lookup_def fs4_dir_def fs4_node_def)
  have mk: "fs4_make ch NF4DIR ?root ?name fs = (Inr (ch4_fh ch),
      fs(?root \<mapsto> set_name4 ch ?name (Some (ch4_fh ch)) n, ch4_fh ch \<mapsto> new_node4 ch NF4DIR))" for ch
    using root name(1) by (simp add: fs4_make_def fs4_dir_def fs4_node_def)
  let ?ctx = "\<lambda>wd. \<lparr>cx41_root_fh = ?root, cx41_workdir_fh = wd, cx41_server = opt_server o1, cx41_export_path = opt_export o1\<rparr>"
  let ?rest = "\<lambda>wd. io_bind (run_all41 (?ctx wd) (opt_filter o1) (compliance41_tests os)) (\<lambda>(fails, out).
     io_then (swallow (rmdir41_recursive os ?root ?name)) (io_return (exit_code fails, out)))"
  have body: "runs (?rest (ch4_fh ch)) s1 ?Q"
    if s1: "stage41 s 1 (fs(?root \<mapsto> set_name4 ch ?name (Some (ch4_fh ch)) n, ch4_fh ch \<mapsto> new_node4 ch NF4DIR), ops) s1"
      and new: "fs (ch4_fh ch) = None" "handle4_ok (ch4_fh ch)" for ch s1
  proof -
    let ?wd = "ch4_fh ch" and ?n1 = "set_name4 ch ?name (Some (ch4_fh ch)) n"
    let ?fs1 = "fs(?root \<mapsto> ?n1, ?wd \<mapsto> new_node4 ch NF4DIR)"
    have ne: "?root \<noteq> ?wd" "?wd \<noteq> ?root" using root(2) new(1) by auto
    have l1: "live41 os v srv ok s1" "at41 v st_of s1 = (?fs1, ops)" "447 \<le> at41 v room s1" "same_client s s1"
      using s1 room by (simp_all add: stage41_def)
    have n1: "is_dir4 ?n1" "n4_names ?n1 ?name = Some ?wd"
      using root(3) by (simp_all add: set_name4_def touched_def is_dir4_def)
    have wd: "scratch41 ?wd ?fs1" by (simp add: scratch41_def new_node4_def is_dir4_def)
    have run: "runs (run_all41 (?ctx ?wd) (opt_filter o1) (compliance41_tests os)) s1 (\<lambda>r s'. r = Inr (0, passed_report ?ts) \<and>
        live41 os v srv ok s' \<and> at41 v room s1 \<le> at41 v room s' + 416 \<and> restored41 ?wd (?fs1, ops) (at41 v st_of s'))"
      using run_all41_passes [OF l1(1,2), of "?ctx ?wd" "opt_filter o1"] new(2) ok wd ne session l1(3,4) by (simp add: same_client_def)
    have clean: "runs (rmdir41_recursive os ?root ?name) s2 (\<lambda>r s'. r = Inr () \<and> live41 os v srv ok s' \<and>
        (\<exists>c t. at41 v st_of s' = (fs(?root \<mapsto> n\<lparr>n4_change := c, n4_mtime := t\<rparr>), ops)))"
      if s2: "live41 os v srv ok s2" "at41 v room s1 \<le> at41 v room s2 + 416" "restored41 ?wd (?fs1, ops) (at41 v st_of s2)" for s2
    proof -
      obtain fs2 where f2: "at41 v st_of s2 = (fs2, ops)" "scratch41 ?wd fs2" "\<And>fh. fh \<noteq> ?wd \<Longrightarrow> fs2 fh = ?fs1 fh"
        using s2(3) by (cases "at41 v st_of s2") (auto simp: restored41_def)
      have s2': "stage41 s2 0 (fs2, ops) s2" using s2(1,2) l1(3) f2(1) by (simp add: stage41_start)
      have gone: "fs2(?root \<mapsto> m, ?wd := None) = fs(?root \<mapsto> m)" for m
        using f2(3) ne new(1) by (auto simp: fun_eq_iff)
      have same: "set_name4 cha ?name None ?n1 = n\<lparr>n4_change := ch4_change cha, n4_mtime := ch4_time cha\<rparr>" for cha
        using name(1) by (simp add: set_name4_def touched_def fun_upd_idem)
      show ?thesis
        by (rule cleanup41_runs [OF s2', where p = "?n1" and wd = "?wd"])
           (use ok f2 ne new(2) len n1 in \<open>auto simp: gone same handle4_ok_def\<close>)
    qed
    have tail: "runs (io_then (swallow (rmdir41_recursive os ?root ?name)) (io_return (exit_code 0, out))) s2
        (\<lambda>r s'. r = Inr (0, out) \<and> live41 os v srv ok s' \<and> (\<exists>c t. at41 v st_of s' = (fs(?root \<mapsto> n\<lparr>n4_change := c, n4_mtime := t\<rparr>), ops)))"
      if s2: "live41 os v srv ok s2" "at41 v room s1 \<le> at41 v room s2 + 416" "restored41 ?wd (?fs1, ops) (at41 v st_of s2)" for s2 out
      unfolding runs_bind swallow_def runs_try by (rule runs_mono [OF clean [OF s2]]) (simp add: runs_return exit_code_def)
    show ?thesis
      by (subst runs_bind, rule runs_mono [OF run], (erule conjE)+, simp only: sum.case prod.case, rule tail)
  qed
  have mkdir: "runs (io_bind (io_try (Nfs41Client_mkdir os ?root ?name Sattr4_default)) (\<lambda>d.
      case d of Inl _ \<Rightarrow> io_return (1, []) | Inr workdir_fh \<Rightarrow> ?rest workdir_fh)) s1 ?Q" if "stage41 s 0 (fs, ops) s1" for s1
    unfolding runs_bind runs_try
    by (rule mkdir_runs41 [OF that]) (use ok len in \<open>auto simp: mk fresh_in_def intro!: body\<close>)
  have first: "runs (swallow (rmdir41_recursive os ?root ?name)) s1 Q"
    if "stage41 s 0 (fs, ops) s1" and "\<And>s2. stage41 s 0 (fs, ops) s2 \<Longrightarrow> Q (Inr ()) s2" for s1 Q
    unfolding swallow_def rmdir41_recursive_def runs_bind runs_try
    by (rule lookup_runs41 [OF that(1) ok]) (use len in \<open>auto simp: absent runs_return that(2)\<close>)
  have root_fh: "(case s of (c, w) \<Rightarrow> n41_root_fh c) = ?root" by (cases s) simp
  show ?thesis
    unfolding compliance41_run_def Let_def
    by (subst runs_bind, subst runs_get, unfold sum.case root_fh, subst runs_bind, rule diagnostics41_runs [OF s0 ok _ root(3)])
       (simp add: root, unfold sum.case, subst runs_bind, rule first, assumption, unfold sum.case, rule mkdir)
qed

end

end
