(* ===== verification/Compliance41_Memory.thy ===== *)
theory Compliance41_Memory
  imports Compliance41_Rules
begin

text \<open>
  A server in memory that meets \<open>nfs41_service\<close>: it reads the operations of a COMPOUND back as the request they are for and
  answers as \<open>fs4_step\<close> says. A counter gives it handles, stateids and change numbers.
\<close>

unbundle bit_operations_syntax

subsection \<open>The request behind the operations\<close>

fun fh_at :: "op4 \<Rightarrow> Nfs4Fh" where
  "fh_at (Putfh4 fh) = fh"
| "fh_at op = root_sentinel"

definition mode_request :: "u32 \<Rightarrow> Sattr4" where
  "mode_request m = Sattr4_default\<lparr>s4_mode := Some m\<rparr>"

definition sattr_of :: "raw_attrs \<Rightarrow> Sattr4" where
  "sattr_of a =
     (let m = (case decode get_uint32 (snd a) of Inl _ \<Rightarrow> 0 | Inr m \<Rightarrow> m) in
      if a = raw_sattr4 Sattr4_default then Sattr4_default
      else if a = raw_sattr4 (mode_request m) then mode_request m
      else Sattr4_default\<lparr>s4_size := Some 0\<rparr>)"

definition file_at :: "Nfs4Fh \<Rightarrow> Stateid4 \<Rightarrow> Nfs4File" where
  "file_at fh sid = \<lparr>nf_fh = fh, nf_stateid = sid, nf_seqid = 0\<rparr>"

fun call_at :: "Nfs4Fh \<Rightarrow> op4 \<Rightarrow> call4 option" where
  "call_at fh (Lookup4 n) = Some (Lookup_c fh n)"
| "call_at fh (Getattr4 bm) = Some (Getattr_c fh)"
| "call_at fh (Access4 m) = Some (Access_c fh m)"
| "call_at fh (Open4 s acc deny cid own cr n) = Some (Open_c fh n acc (cr \<noteq> None) s cid own)"
| "call_at fh (Close4 s sid) = Some (Close_c (file_at fh sid))"
| "call_at fh (Read4 sid off n) = Some (Read_c (file_at fh sid) off n)"
| "call_at fh (Write4 sid off how d) = Some (Write_c (file_at fh sid) off how d)"
| "call_at fh (Commit4 off n) = Some (Commit_c (file_at fh Stateid4_zero) off n)"
| "call_at fh (Mkdir4 n a) = Some (Mkdir_c fh n (sattr_of a))"
| "call_at fh (Remove4 n) = Some (Remove_c fh n)"
| "call_at fh (Setattr4 sid a) = Some (Setattr_c fh (sattr_of a))"
| "call_at fh (Readdir4 c cv dc mc bm) = Some (Page_c fh c cv)"
| "call_at fh op = None"

fun rename_at :: "Nfs4Fh \<Rightarrow> Nfs4Fh \<Rightarrow> op4 \<Rightarrow> call4 option" where
  "rename_at fh fh2 (Rename4 n n2) = Some (Rename_c fh n fh2 n2)"
| "rename_at fh fh2 op = None"

fun call_of :: "op4 list \<Rightarrow> call4 option" where
  "call_of [d, op] = call_at (fh_at d) op"
| "call_of [d, op, g] = call_at (fh_at d) op"
| "call_of [d, s, d2, op] = rename_at (fh_at d) (fh_at d2) op"
| "call_of ops = None"

text \<open>What of a request its operations show.\<close>

fun shown :: "call4 \<Rightarrow> call4 option" where
  "shown (Close_c f) = Some (Close_c (file_at (nf_fh f) (nf_stateid f)))"
| "shown (Read_c f off n) = Some (Read_c (file_at (nf_fh f) (nf_stateid f)) off n)"
| "shown (Write_c f off how d) = Some (Write_c (file_at (nf_fh f) (nf_stateid f)) off how d)"
| "shown (Commit_c f off n) = Some (Commit_c (file_at (nf_fh f) Stateid4_zero) off n)"
| "shown (Mkdir_c dir n a) = Some (Mkdir_c dir n (sattr_of (raw_sattr4 a)))"
| "shown (Setattr_c fh a) = Some (Setattr_c fh (sattr_of (raw_sattr4 a)))"
| "shown (Confirm_c f s) = None"
| "shown (Symlink_c dir n t a) = None"
| "shown (Readlink_c fh) = None"
| "shown (Renew_c cid) = None"
| "shown c = Some c"

lemma fh_at_at_fh [simp]: "fh_at (at_fh fh) = fh"
  by (simp add: at_fh_def root_sentinel_def)

lemma call_of_ops4: "call_of (ops4 c) = shown c"
  by (cases c) simp_all

lemma sattr_of_raw [simp]:
  "sattr_of (raw_sattr4 Sattr4_default) = Sattr4_default"
  "sattr_of (raw_sattr4 (Sattr4_default\<lparr>s4_mode := Some m\<rparr>)) = Sattr4_default\<lparr>s4_mode := Some m\<rparr>"
proof -
  show "sattr_of (raw_sattr4 Sattr4_default) = Sattr4_default" by (simp add: sattr_of_def)
  have b: "snd (raw_sattr4 (Sattr4_default\<lparr>s4_mode := Some m\<rparr>)) = be32 m"
    by (simp add: raw_sattr4_def wire_sattrlist_def Sattr4_default_def attr_bytes_def)
  have "decode get_uint32 (be32 m) = Inr m"
    using u32c.dec_enc [where pre = "[]" and rest = "[]"] by (simp add: decode_at)
  moreover have "raw_sattr4 (Sattr4_default\<lparr>s4_mode := Some m\<rparr>) \<noteq> raw_sattr4 Sattr4_default"
    using raw_lengths(2) [of m] raw_lengths(4) by force
  ultimately show "sattr_of (raw_sattr4 (Sattr4_default\<lparr>s4_mode := Some m\<rparr>)) = Sattr4_default\<lparr>s4_mode := Some m\<rparr>"
    using b by (simp add: sattr_of_def mode_request_def)
qed

lemma mode_eq: "Sattr4_default\<lparr>s4_mode := x\<rparr> = Sattr4_default\<lparr>s4_mode := y\<rparr> \<longleftrightarrow> x = y"
  by (simp add: Sattr4_default_def)

lemma shown_step:
  assumes "fs4_step ch c st = Some x"
  shows "\<exists>c'. shown c = Some c' \<and> fs4_step ch c' st = Some x \<and> alters c' = alters c"
  using assms
  by (cases c) (auto simp: opened_as_def file_at_def mode_eq split: option.splits if_splits)

lemma shown_alters: "shown c = Some c' \<Longrightarrow> alters c' = alters c"
  by (cases c) auto

lemma alters_shown: "alters c \<Longrightarrow> shown c \<noteq> None"
  by (cases c) auto

subsection \<open>The server\<close>

type_synonym memory4 = "store4 \<times> nat \<times> cstring list"

definition mem4_fh :: "nat \<Rightarrow> Nfs4Fh" where
  "mem4_fh k = \<lparr>fh4_data = be64 (word_of_nat k)\<rparr>"

definition mem4_sid :: "nat \<Rightarrow> Stateid4" where
  "mem4_sid k = \<lparr>sid_seqid = 1, sid_other = replicate 4 0 @ be64 (word_of_nat k)\<rparr>"

definition mem4_time :: Nfstime4 where
  "mem4_time = \<lparr>t4_seconds = 0, t4_nseconds = 0\<rparr>"

definition mem4_owner :: cstring where
  "mem4_owner = bytes_of ''root''"

definition mem4_choice :: "nat \<Rightarrow> choice4" where
  "mem4_choice k =
     \<lparr>ch4_fh = mem4_fh k, ch4_sid = mem4_sid k, ch4_flags = 0, ch4_change = word_of_nat (k + 1), ch4_time = mem4_time,
      ch4_mode = 0x1FF, ch4_owner = mem4_owner, ch4_group = mem4_owner, ch4_access = 0x3F, ch4_verf = replicate 8 1,
      ch4_attr = Fattr4_none\<rparr>"

definition mem4_full :: nat where
  "mem4_full = 2 ^ 32"

definition mem4_cinfo :: cinfo4 where
  "mem4_cinfo = \<lparr>ci_atomic = False, ci_before = 0, ci_after = 0\<rparr>"

fun mem4_results :: "call4 \<Rightarrow> val4 \<Rightarrow> res4 list" where
  "mem4_results (Lookup_c dir n) (Fh_a fh) = [Done_r, Done_r, Fh_r fh]"
| "mem4_results c (Fh_a fh) = [Done_r, Created_r mem4_cinfo [], Fh_r fh]"
| "mem4_results c (Attr_a a) = [Done_r, Attrs_r (own_attrs a)]"
| "mem4_results c (Mask_a m) = [Done_r, Allowed_r m m]"
| "mem4_results c (Opened_a r fh) = [Done_r, Opened_r (or_stateid r) mem4_cinfo (or_rflags r) [] No_delegation, Fh_r fh]"
| "mem4_results c (Data_a d) = [Done_r, Data_r False d]"
| "mem4_results c (Count_a n) = [Done_r, Written_r \<lparr>w4_count = n, w4_committed = FILE_SYNC4, w4_verf = replicate 8 1\<rparr>]"
| "mem4_results c (Verf_a v) = [Done_r, Verf_r v]"
| "mem4_results (Close_c f) Unit_a = [Done_r, State_r Stateid4_zero]"
| "mem4_results (Rename_c dir n dir2 n2) Unit_a = [Done_r, Done_r, Done_r, Renamed_r mem4_cinfo mem4_cinfo]"
| "mem4_results (Setattr_c fh a) Unit_a = [Done_r, Set_r []]"
| "mem4_results c v = [Done_r, Changed_r mem4_cinfo]"

text \<open>The names that a request may add to a directory; a listing looks for them.\<close>

fun names_of :: "call4 \<Rightarrow> cstring list" where
  "names_of (Open_c dir n acc cr s cid own) = [n]"
| "names_of (Mkdir_c dir n a) = [n]"
| "names_of (Rename_c dir n dir2 n2) = [n2]"
| "names_of c = []"

definition mem4_run :: "op4 list \<Rightarrow> call4 \<Rightarrow> memory4 \<Rightarrow> (Nfsstat4 \<times> res4 list) \<times> memory4" where
  "mem4_run ops c = (\<lambda>(st, k, used).
     if alters c \<and> mem4_full \<le> k then ((NFS4ERR_NOTSUPP, []), (st, k, used))
     else
       let k' = (if alters c then k + 1 else k) in
       case fs4_step (mem4_choice k) c st of
         None \<Rightarrow> ((NFS4ERR_NOTSUPP, []), (st, k', used))
       | Some (r, st') \<Rightarrow>
           let a = (case r of Inl e \<Rightarrow> (e, []) | Inr v \<Rightarrow> (0, mem4_results c v)) in
           if answer_ok ops a then (a, (st', k', names_of c @ used)) else ((NFS4ERR_NOTSUPP, []), (st, k', used)))"

definition mem4_entries :: "cstring list \<Rightarrow> node4 \<Rightarrow> Nfs4DirEntry list" where
  "mem4_entries used n =
     map (\<lambda>(i, name). \<lparr>d4_cookie = word_of_nat i, d4_name = name, d4_attrs = small_attrs4\<rparr>)
       (enumerate 3 (filter (\<lambda>name. n4_names n name \<noteq> None) (remdups used)))"

definition mem4_page :: "op4 list \<Rightarrow> Nfs4Fh \<Rightarrow> memory4 \<Rightarrow> Nfsstat4 \<times> res4 list" where
  "mem4_page ops dir = (\<lambda>((fs, opens), k, used).
     case fs4_dir dir fs of
       Inl e \<Rightarrow> (e, [])
     | Inr n \<Rightarrow>
         let a = (0, [Done_r, Page_r \<lparr>rp4_cookieverf = replicate 8 0, rp4_entries = mem4_entries used n, rp4_eof = True\<rparr>]) in
         if answer_ok ops a then a else (NFS4ERR_NOTSUPP, []))"

text \<open>The first two COMPOUNDs of a session.\<close>

definition mem4_start :: "op4 list \<Rightarrow> Nfsstat4 \<times> res4 list" where
  "mem4_start ops =
     (if ops = [Reclaim_complete4 0] then (0, [Done_r])
      else if ops = [Putrootfh4, Getfh4] then (0, [Done_r, Fh_r (mem4_fh 0)]) else (NFS4ERR_NOTSUPP, []))"

definition mem4_server :: "memory4 server4" where
  "mem4_server minor ops f =
     (case call_of ops of
        None \<Rightarrow> (mem4_start ops, f)
      | Some (Page_c dir cookie cv) \<Rightarrow> (mem4_page ops dir f, f)
      | Some c \<Rightarrow> mem4_run ops c f)"

subsection \<open>The states it gets into\<close>

definition mem4_node :: "nat \<Rightarrow> cstring list \<Rightarrow> node4 \<Rightarrow> bool" where
  "mem4_node k used n \<longleftrightarrow> unat (n4_change n) \<le> k \<and> n4_mtime n = mem4_time \<and> n4_owner n = mem4_owner \<and> n4_group n = mem4_owner \<and>
     (\<forall>name fh. n4_names n name = Some fh \<longrightarrow> name \<in> set used \<and> (\<exists>i < k. fh = mem4_fh i))"

definition mem4_ok :: "memory4 \<Rightarrow> bool" where
  "mem4_ok = (\<lambda>((fs, opens), k, used). k \<le> mem4_full \<and> (\<forall>name \<in> set used. length name \<le> 255) \<and>
     (\<forall>fh n. fs fh = Some n \<longrightarrow> (fh = root_sentinel \<or> (\<exists>i < k. fh = mem4_fh i)) \<and> mem4_node k used n) \<and>
     (\<forall>sid. opens sid \<noteq> None \<longrightarrow> (\<exists>i < k. sid = mem4_sid i)))"

lemma be64_eq: "be64 (word_of_nat i) = be64 (word_of_nat k :: u64) \<Longrightarrow> i < mem4_full \<Longrightarrow> k \<le> mem4_full \<Longrightarrow> i = k"
proof -
  assume eq: "be64 (word_of_nat i) = be64 (word_of_nat k :: u64)" and lt: "i < mem4_full" "k \<le> mem4_full"
  have "(word_of_nat i :: u64) = word_of_nat k"
    using eq get_uint64_at [of "[]" "word_of_nat i" "[]"] get_uint64_at [of "[]" "word_of_nat k" "[]"] by simp
  then have "unat (word_of_nat i :: u64) = unat (word_of_nat k :: u64)" by simp
  then show "i = k" using lt by (simp add: unat_of_nat mem4_full_def)
qed

lemma mem4_handles:
  "handle4_ok (mem4_fh k)" "fh4_ok (mem4_fh k)" "mem4_fh k \<noteq> root_sentinel" "stateid_ok (mem4_sid k)"
proof -
  have "be64 x \<noteq> []" for x by (metis length_be64 list.size(3) zero_neq_numeral)
  then show "handle4_ok (mem4_fh k)" "fh4_ok (mem4_fh k)" "mem4_fh k \<noteq> root_sentinel" "stateid_ok (mem4_sid k)"
    by (simp_all add: mem4_fh_def mem4_sid_def handle4_ok_def fh4_ok_def root_sentinel_def stateid_ok_def)
qed

lemma mem4_fresh:
  assumes "i < k" and "k \<le> mem4_full"
  shows "mem4_fh k \<noteq> mem4_fh i" "mem4_sid k \<noteq> mem4_sid i"
  using assms be64_eq [of i k] by (auto simp: mem4_fh_def mem4_sid_def)

lemma mem4_node_mono: "mem4_node k used n \<Longrightarrow> k \<le> k' \<Longrightarrow> set used \<subseteq> set used' \<Longrightarrow> mem4_node k' used' n"
  unfolding mem4_node_def by (meson order.trans order.strict_trans2 subsetD)

lemma mem4_ok_mono:
  assumes "mem4_ok (st, k, used)" and "k \<le> k'" "k' \<le> mem4_full" and "\<forall>name \<in> set new. length name \<le> 255"
  shows "mem4_ok (st, k', new @ used)"
proof -
  have "mem4_node k used n \<Longrightarrow> mem4_node k' (new @ used) n" for n
    by (erule mem4_node_mono [OF _ assms(2)]) simp
  moreover obtain fs opens where st: "st = (fs, opens)" by fastforce
  moreover have lt: "i < k \<Longrightarrow> i < k'" for i using assms(2) by simp
  ultimately show ?thesis
    using assms by (auto simp: mem4_ok_def split: prod.splits) (use lt in blast)+
qed

lemma mem4_ok_put:
  "mem4_ok ((fs, opens), k, used) \<Longrightarrow> fs fh \<noteq> None \<or> (\<exists>i < k. fh = mem4_fh i) \<Longrightarrow> mem4_node k used n \<Longrightarrow>
   mem4_ok ((fs(fh \<mapsto> n), opens), k, used)"
  by (auto simp: mem4_ok_def)

lemma mem4_ok_remove: "mem4_ok ((fs, opens), k, used) \<Longrightarrow> mem4_ok ((fs(fh := None), opens), k, used)"
  by (simp add: mem4_ok_def)

lemma mem4_ok_opens:
  "mem4_ok ((fs, opens), k, used) \<Longrightarrow> mem4_ok ((fs, opens(sid := None)), k, used)"
  "mem4_ok ((fs, opens), k, used) \<Longrightarrow> \<exists>i < k. sid = mem4_sid i \<Longrightarrow> mem4_ok ((fs, opens(sid \<mapsto> x)), k, used)"
  by (simp_all add: mem4_ok_def)

lemma mem4_okD:
  assumes "mem4_ok ((fs, opens), k, used)" and "fs fh = Some n"
  shows "mem4_node k used n" "n4_names n name = Some h \<Longrightarrow> \<exists>i < k. h = mem4_fh i" "n4_names n name = Some h \<Longrightarrow> h \<noteq> root_sentinel"
proof -
  show n: "mem4_node k used n" using assms by (auto simp: mem4_ok_def)
  then show "n4_names n name = Some h \<Longrightarrow> \<exists>i < k. h = mem4_fh i" by (simp add: mem4_node_def)
  then show "n4_names n name = Some h \<Longrightarrow> h \<noteq> root_sentinel" using mem4_handles(3) by metis
qed

lemma mem4_node_ops:
  assumes "unat (ch4_change ch) \<le> k" and "ch4_time ch = mem4_time" and "ch4_owner ch = mem4_owner" "ch4_group ch = mem4_owner"
  shows "mem4_node k used n \<Longrightarrow> mem4_node k used (touched ch n)"
    "mem4_node k used n \<Longrightarrow> mem4_node k used (set_name4 ch name None n)"
    "mem4_node k used n \<Longrightarrow> name \<in> set used \<Longrightarrow> \<exists>i < k. h = mem4_fh i \<Longrightarrow> mem4_node k used (set_name4 ch name (Some h) n)"
    "mem4_node k used n \<Longrightarrow> mem4_node k used (n\<lparr>n4_data := d\<rparr>)"
    "mem4_node k used n \<Longrightarrow> mem4_node k used (n\<lparr>n4_links := j\<rparr>)"
    "mem4_node k used n \<Longrightarrow> mem4_node k used (n\<lparr>n4_mode := m, n4_change := ch4_change ch\<rparr>)"
    "mem4_node k used (new_node4 ch ty)"
  using assms by (auto simp: mem4_node_def touched_def set_name4_def new_node4_def)

lemma fs4_step_keeps:
  assumes "fs4_step ch c (fs, opens) = Some (r, st')" and "mem4_ok ((fs, opens), k, used)"
    and ch: "unat (ch4_change ch) \<le> k" "ch4_time ch = mem4_time" "ch4_owner ch = mem4_owner" "ch4_group ch = mem4_owner"
    and new: "alters c \<Longrightarrow> (\<exists>i < k. ch4_fh ch = mem4_fh i) \<and> (\<exists>i < k. ch4_sid ch = mem4_sid i)"
    and names: "\<forall>name \<in> set (names_of c). name \<in> set used"
  shows "mem4_ok (st', k, used)"
  using assms
  by (cases c)
     (auto simp: fs4_node_def fs4_dir_def fs4_entry_def fs4_make_def fs4_open_def fs4_remove_def fs4_rename_def opened_as_def
       split: option.splits sum.splits if_splits prod.splits
       intro!: mem4_ok_put mem4_ok_remove mem4_ok_opens mem4_node_ops [OF ch] dest: mem4_okD)

lemma fs4_step_quiet:
  assumes "fs4_step ch c (fs, opens) = Some (r, st')" and "mem4_ok ((fs, opens), k, used)" and "\<not> alters c"
  shows "mem4_ok (st', k, used)"
  using assms by (cases c) (auto simp: opened_as_def split: option.splits if_splits intro!: mem4_ok_opens)

text \<open>What it answers fits the operations, and is what \<open>fs4_step\<close> says.\<close>

lemma small_strings: "fattr4_ok (attrs_of (mem4_choice k) n)"
  if "n4_owner n = mem4_owner" "n4_group n = mem4_owner"
  using that
  by (simp add: fattr4_ok_def wire_attrlist_def attr_bytes_def attrs_of_def mem4_choice_def Fattr4_none_def mem4_owner_def
      bytes_of_def length_wire_opaque xdr_pad_def wire_time4_def)

lemma own_value: "fst (snd (own_attrs a)) = a"
  by (simp add: own_attrs_def)

lemma mem4_choice_simps:
  "ch4_fh (mem4_choice k) = mem4_fh k" "ch4_sid (mem4_choice k) = mem4_sid k" "ch4_flags (mem4_choice k) = 0"
  "ch4_access (mem4_choice k) = 0x3F" "ch4_verf (mem4_choice k) = replicate 8 1" "ch4_time (mem4_choice k) = mem4_time"
  "ch4_owner (mem4_choice k) = mem4_owner" "ch4_group (mem4_choice k) = mem4_owner"
  "ch4_change (mem4_choice k) = word_of_nat (k + 1)"
  by (simp_all add: mem4_choice_def)

lemma mem4_change: "k < mem4_full \<Longrightarrow> unat (ch4_change (mem4_choice k)) = k + 1"
  unfolding mem4_choice_simps by (simp add: mem4_full_def unat_of_nat del: of_nat_Suc of_nat_add)

lemma mem4_fits:
  assumes "fs4_step (mem4_choice k') c (fs, opens) = Some (r, st')" and ok: "mem4_ok ((fs, opens), k, used)"
    and "shown c0 = Some c"
  defines "a \<equiv> (case r of Inl e \<Rightarrow> (e, []) | Inr v \<Rightarrow> (0, mem4_results c v))"
  shows "answer_ok (ops4 c0) a \<and> outcome4 c0 a = answer41 r"
proof -
  have ids: "fh4_ok h" if "fs fh = Some n" "n4_names n name = Some h" for fh n name h
    using mem4_okD(2) [OF ok that] mem4_handles(2) by blast
  have owners: "n4_owner n = mem4_owner" "n4_group n = mem4_owner" if "fs fh = Some n" for fh n
    using mem4_okD(1) [OF ok that] by (simp_all add: mem4_node_def)
  have read: "min m (unat (n :: u32)) < 4294967296" for m n
    using unsigned_less [of n, where 'a = nat] by (simp add: min.strict_coboundedI2)
  have zero: "stateid_ok Stateid4_zero" by (simp add: stateid_ok_def Stateid4_zero_def)
  have some: "Ex Not" by blast
  note codes = NFS4ERR_STALE_def NFS4ERR_NOTDIR_def NFS4ERR_NOENT_def NFS4ERR_EXIST_def NFS4ERR_ISDIR_def NFS4ERR_NOTEMPTY_def
  show ?thesis
    using assms(1,3) unfolding a_def
    by (cases c0)
       (auto simp: answer_ok_def outcome4_def answer4_def fs4_node_def fs4_dir_def fs4_lookup_def fs4_entry_def fs4_make_def fs4_open_def
          fs4_remove_def fs4_rename_def opened_as_def file_at_def codes ids own_attrs_ok small_strings owners own_value small_def read
          mem4_handles zero some mem4_choice_simps
        split: option.splits sum.splits if_splits prod.splits)
qed

text \<open>The answer to a request that is not a listing, and the state after it.\<close>

lemma mem4_run_step:
  assumes st: "fs4_step (mem4_choice k) c st = Some (r, st')" and ok: "mem4_ok (st, k, used)" and c: "shown c0 = Some c"
    and room: "alters c \<Longrightarrow> k < mem4_full"
  defines "a \<equiv> (case r of Inl e \<Rightarrow> (e, []) | Inr v \<Rightarrow> (0, mem4_results c v))"
  shows "mem4_run (ops4 c0) c (st, k, used) = (a, (st', if alters c then k + 1 else k, names_of c @ used))"
    and "outcome4 c0 a = answer41 r"
proof -
  obtain fs opens where "st = (fs, opens)" by fastforce
  with mem4_fits [OF _ _ c] st ok have "answer_ok (ops4 c0) a" "outcome4 c0 a = answer41 r" unfolding a_def by blast+
  with st room show "mem4_run (ops4 c0) c (st, k, used) = (a, (st', if alters c then k + 1 else k, names_of c @ used))"
    and "outcome4 c0 a = answer41 r"
    unfolding a_def by (auto simp: mem4_run_def Let_def)
qed

lemma mem4_run_ok:
  assumes ok: "mem4_ok (st, k, used)"
  shows "mem4_ok (snd (mem4_run ops c (st, k, used)))"
    and "fst (snd (snd (mem4_run ops c (st, k, used)))) = (if alters c \<and> k < mem4_full then k + 1 else k)"
proof -
  obtain fs opens where sf: "st = (fs, opens)" by fastforce
  have le: "k \<le> mem4_full" using ok by (auto simp: mem4_ok_def)
  let ?k = "if alters c then k + 1 else k"
  have keep: "mem4_ok (st, ?k, used)" if "alters c \<Longrightarrow> k < mem4_full"
    using mem4_ok_mono [OF ok, of ?k "[]"] le that by (cases "alters c") simp_all
  have step: "mem4_ok (st', ?k, names_of c @ used)"
    if "alters c \<Longrightarrow> k < mem4_full" and "fs4_step (mem4_choice k) c st = Some (r, st')" for r st'
  proof -
    have len: "\<forall>name \<in> set (names_of c). length name \<le> 255" using that(2) by (cases c) (auto split: if_splits)
    have ok': "mem4_ok ((fs, opens), ?k, names_of c @ used)"
      using mem4_ok_mono [OF ok, of ?k "names_of c"] le len that(1) unfolding sf by (cases "alters c") simp_all
    show ?thesis
    proof (cases "alters c")
      case True
      show ?thesis
        by (rule fs4_step_keeps [OF that(2) [unfolded sf] ok'])
           (use True that(1) in \<open>auto simp: mem4_choice_simps(1-8) mem4_change\<close>)
    next
      case False
      then have "names_of c = []" by (cases c) simp_all
      with False fs4_step_quiet [OF that(2) [unfolded sf]] ok sf show ?thesis by simp
    qed
  qed
  show "mem4_ok (snd (mem4_run ops c (st, k, used)))"
    and "fst (snd (snd (mem4_run ops c (st, k, used)))) = (if alters c \<and> k < mem4_full then k + 1 else k)"
    using ok keep step
    by (auto simp: mem4_run_def Let_def not_le split: option.split sum.split)
qed

subsection \<open>It meets the contract\<close>

lemma mem4_server_eq: "shown c = Some c' \<Longrightarrow> (\<forall>dir cookie cv. c \<noteq> Page_c dir cookie cv) \<Longrightarrow>
   mem4_server minor (ops4 c) f = mem4_run (ops4 c) c' f"
  by (cases c) (auto simp: mem4_server_def call_of_ops4)

lemma mem4_server_cases:
  obtains (quiet) a where "mem4_server minor (ops4 c) f = (a, f)" "\<not> alters c"
  | (run) c' where "shown c = Some c'" "mem4_server minor (ops4 c) f = mem4_run (ops4 c) c' f"
proof (cases "\<exists>dir cookie cv. c = Page_c dir cookie cv")
  case True
  then obtain dir cookie cv where "c = Page_c dir cookie cv" by blast
  then show thesis using quiet [of "mem4_page (ops4 c) dir f"] by (simp add: mem4_server_def)
next
  case False
  show thesis
  proof (cases "shown c")
    case None
    then show thesis using quiet [of "mem4_start (ops4 c)"] alters_shown [of c] by (auto simp: mem4_server_def call_of_ops4)
  next
    case (Some c')
    then show thesis using run mem4_server_eq False by blast
  qed
qed

lemma mem4_server_fits: "server4_ok mem4_server"
proof -
  have codes: "answer_ok ops (NFS4ERR_NOTSUPP, [])" "answer_ok ops (NFS4ERR_STALE, [])" "answer_ok ops (NFS4ERR_NOTDIR, [])" for ops
    by (simp_all add: answer_ok_def NFS4ERR_NOTSUPP_def NFS4ERR_STALE_def NFS4ERR_NOTDIR_def)
  have start: "answer_ok ops (mem4_start ops)" for ops
    using codes(1) [of ops] by (auto simp: mem4_start_def answer_ok_def mem4_handles)
  have run: "answer_ok ops (fst (mem4_run ops c f))" for ops c f
    by (auto simp: mem4_run_def Let_def codes split: prod.split option.split)
  have page: "answer_ok ops (mem4_page ops dir f)" for ops dir f
    by (auto simp: mem4_page_def Let_def codes fs4_dir_def fs4_node_def split: prod.split option.split)
  show ?thesis
    unfolding server4_ok_def mem4_server_def by (auto simp: start run page split: option.split call4.split)
qed

lemma mem4_lists:
  assumes "mem4_ok ((fs, opens), k, used)" and "fs dir = Some n" "is_dir4 n"
  shows "lists4 (mem4_server 1) dir (\<lambda>cookie cv todo f. length cv = 8 \<and> todo = mem4_entries used n \<and> f = ((fs, opens), k, used))"
    and "d4_name ` set (mem4_entries used n) = dom (n4_names n)"
proof -
  have "mem4_node k used n" and short: "\<forall>name \<in> set used. length name \<le> 255"
    using assms(1,2) by (auto simp: mem4_ok_def)
  then have names: "n4_names n name \<noteq> None \<Longrightarrow> name \<in> set used" for name by (auto simp: mem4_node_def)
  let ?ns = "filter (\<lambda>name. n4_names n name \<noteq> None) (remdups used)"
  have "map d4_name (mem4_entries used n) = map snd (enumerate 3 ?ns)"
    unfolding mem4_entries_def map_map by (rule map_cong) auto
  then have "d4_name ` set (mem4_entries used n) = set ?ns" by (metis map_snd_enumerate set_map)
  then show "d4_name ` set (mem4_entries used n) = dom (n4_names n)" using names by (auto simp: dom_def)
  have "small name" if "name \<in> set used" for name using short that by (force simp: small_def)
  then have "list_all entry4_ok (mem4_entries used n)"
    by (auto simp: mem4_entries_def list_all_iff entry4_ok_def small_fattr4_ok
        dest!: set_zip_rightD simp: enumerate_eq_zip)
  then show "lists4 (mem4_server 1) dir (\<lambda>cookie cv todo f. length cv = 8 \<and> todo = mem4_entries used n \<and> f = ((fs, opens), k, used))"
    using assms(2,3)
    by (auto simp: lists4_def mem4_server_def mem4_page_def Let_def fs4_dir_def fs4_node_def answer_ok_def)
qed

interpretation memory41: nfs41_service mem4_server fst "\<lambda>c f. mem4_choice (fst (snd f))" mem4_ok
  "\<lambda>f. mem4_full - fst (snd f)" "\<lambda>f. fst (snd f)" "\<lambda>f. 0"
proof
  show "server4_ok mem4_server" by (rule mem4_server_fits)
next
  fix f :: memory4 and c assume ok: "mem4_ok f"
  obtain st k used where f: "f = (st, k, used)" by (metis prod.exhaust)
  note ok' = ok [unfolded f] and run = mem4_run_ok [OF ok [unfolded f]]
  show "mem4_ok (snd (mem4_server 1 (ops4 c) f))"
    by (cases rule: mem4_server_cases [where c = c and f = f and minor = 1]) (simp_all add: ok' f run)
  have count: "fst (snd (snd (mem4_server 1 (ops4 c) f))) = (if alters c \<and> k < mem4_full then k + 1 else k)"
    by (cases rule: mem4_server_cases [where c = c and f = f and minor = 1]) (simp_all add: f run shown_alters)
  then show "mem4_full - fst (snd f) \<le> mem4_full - fst (snd (snd (mem4_server 1 (ops4 c) f))) + (if alters c then 1 else 0)"
    "fst (snd f) \<le> fst (snd (snd (mem4_server 1 (ops4 c) f)))"
    by (auto simp: f)
  assume "alters c" and "0 < mem4_full - fst (snd f)"
  with count show "fst (snd f) < unat (ch4_change (mem4_choice (fst (snd f)))) \<and>
      unat (ch4_change (mem4_choice (fst (snd f)))) \<le> fst (snd (snd (mem4_server 1 (ops4 c) f)))"
    by (simp add: f mem4_change)
next
  fix f :: memory4 and c assume ok: "mem4_ok f" and "alters c" "0 < mem4_full - fst (snd f)"
  obtain fs opens k used where f: "f = ((fs, opens), k, used)" by (metis prod.exhaust)
  have k: "k \<le> mem4_full" using ok by (simp add: f mem4_ok_def)
  have "fs (mem4_fh k) = None"
  proof (rule ccontr)
    assume "fs (mem4_fh k) \<noteq> None"
    then obtain i where "i < k" "mem4_fh k = mem4_fh i" using ok mem4_handles(3) [of k] unfolding f mem4_ok_def by blast
    with mem4_fresh k show False by blast
  qed
  moreover have "opens (mem4_sid k) = None"
  proof (rule ccontr)
    assume "opens (mem4_sid k) \<noteq> None"
    then obtain i where "i < k" "mem4_sid k = mem4_sid i" using ok unfolding f mem4_ok_def by blast
    with mem4_fresh k show False by blast
  qed
  ultimately show "fst (fst f) (ch4_fh (mem4_choice (fst (snd f)))) = None \<and> handle4_ok (ch4_fh (mem4_choice (fst (snd f)))) \<and>
      snd (fst f) (ch4_sid (mem4_choice (fst (snd f)))) = None \<and> stateid_ok (ch4_sid (mem4_choice (fst (snd f))))"
    by (simp add: f mem4_choice_simps mem4_handles)
next
  fix f :: memory4 and c r st'
  assume ok: "mem4_ok f" and room: "alters c \<Longrightarrow> 0 < mem4_full - fst (snd f)"
    and st: "fs4_step (mem4_choice (fst (snd f))) c (fst f) = Some (r, st')"
  obtain s k used where f: "f = (s, k, used)" by (metis prod.exhaust)
  obtain c' where c': "shown c = Some c'" "fs4_step (mem4_choice k) c' s = Some (r, st')" "alters c' = alters c"
    using shown_step [OF st] by (auto simp: f)
  have "\<forall>dir cookie cv. c \<noteq> Page_c dir cookie cv" using st by auto
  note eq = mem4_server_eq [OF c'(1) this]
  show "outcome4 c (fst (mem4_server 1 (ops4 c) f)) = answer41 r \<and> fst (snd (mem4_server 1 (ops4 c) f)) = st'"
    using mem4_run_step [OF c'(2) ok [unfolded f] c'(1)] room c'(3) by (simp add: eq f)
next
  fix f :: memory4 and dir n assume ok: "mem4_ok f" and n: "fst (fst f) dir = Some n" "is_dir4 n"
  obtain fs opens k used where f: "f = ((fs, opens), k, used)" by (metis prod.exhaust)
  show "\<exists>L J. lists4 (mem4_server 1) dir J \<and> J 0 (replicate 8 0) L f \<and> dom (n4_names n) = d4_name ` set L"
    using mem4_lists [OF ok [unfolded f]] n by (fastforce simp: f)
next
  fix f :: memory4 and fh n assume ok: "mem4_ok f" and n: "fst (fst f) fh = Some n"
  obtain fs opens k used where f: "f = ((fs, opens), k, used)" by (metis prod.exhaust)
  show "unat (n4_change n) \<le> fst (snd f) \<and> sint (t4_seconds (n4_mtime n)) \<le> 0"
    using mem4_okD(1) [OF ok [unfolded f]] n by (auto simp: f mem4_node_def mem4_time_def)
qed (auto simp: mem4_choice_simps mem4_time_def mem4_owner_def bytes_of_def mem4_server_def)

interpretation memory41_link: service41_link mem4_server fst "\<lambda>c f. mem4_choice (fst (snd f))" mem4_ok
  "\<lambda>f. mem4_full - fst (snd f)" "\<lambda>f. fst (snd f)" "\<lambda>f. 0"
  "sim_os 2 (rpc_server (nfs4_handler (sequenced sid0 mem4_server)))" sim_view
  by unfold_locales

end
