(* ===== verification/Compliance41_Props.thy ===== *)
theory Compliance41_Props
  imports Compliance41_Service Compliance41_Memory Nfs4_Connect
begin

text \<open>
  The NFSv4.1 compliance program from the connection to the end of its session, against a host whose server meets
  \<open>nfs41_service\<close>.
\<close>

subsection \<open>The session of the tool\<close>




subsection \<open>Properties\<close>






end
