(* ===== verification/Spec2Isabelle.thy ===== *)
theory Spec2Isabelle
  imports Nfs3_Connect Nfs4_Connect Bench_Cleanup Bench_Report Compliance_Service Compliance_Memory Compliance41_Props
begin

text \<open>
  Verification of nfsclient: a C++ client library for NFSv3, NFSv4.0 and NFSv4.1 over ONC RPC and TCP
  (\<open>src/src\<close>), its benchmark (\<open>src/tools/bench\<close>) and its three compliance suites
  (\<open>src/tools/compliance\<close>, \<open>compliance4\<close>, \<open>compliance41\<close>).

  \<^bold>\<open>The program.\<close> Everything a client sends is bytes of XDR (\<open>xdr.cpp\<close>) in the arguments of an RPC call
  (\<open>rpc_client.cpp\<close>): a call message is built, cut into a record, written to a socket in a loop; then a
  record is read in a loop and its reply header is checked. The NFSv3 procedures (\<open>nfs/*.cpp\<close>) are one
  such call each; the facade \<open>NFSClient\<close> (\<open>nfs_client.cpp\<close>) finds the port with the portmapper, connects, and
  asks the mount daemon for the handle of an export (\<open>portmap.cpp\<close>, \<open>mount.cpp\<close>). The NFSv4 clients
  (\<open>nfs4_client.cpp\<close>, \<open>nfs41_client.cpp\<close>) put several operations (\<open>nfs4/*.cpp\<close>) into one COMPOUND call; 4.0
  has a client id and an open owner whose requests are numbered, 4.1 a session with one slot. The tools
  use the facades: the benchmark runs a workload on every thread and counts, the suites run tests and
  report.

  \<^bold>\<open>How the code is modelled.\<close> A decoder is a function from the cursor to \<open>error + ('a \<times> cursor)\<close>; an operation on
  a connection is a function from the client's state and the state \<open>w\<close> of the operating system to
  \<open>((error + 'a) \<times> state) option\<close>, where \<open>None\<close> is an operation that never returns and \<open>Inl\<close> an exception
  (\<open>error\<close> has a constructor for each exception type of the library). Integers have their C++ width as
  words, strings and \<open>std::vector<uint8_t>\<close> are lists of bytes, structs are records with a prefix on their
  fields, loops that a peer can keep going are \<open>partial_function (option)\<close>. Names are the source's; a
  member of a class carries the class's name (\<open>NFSClient_read\<close>), and a suffix where C++ overloads by
  namespace. Parameters stand for what is not in the repository: \<open>os\<close> (record \<open>os\<close> of theory \<open>Rpc\<close>) for name
  resolution, the socket calls, the clock and \<open>sleep\<close>; the process id; in the benchmark the clock, the
  stop flag, the random engine and the arithmetic of doubles (\<open>bench_env\<close>); in the suites \<open>time\<close>. There is
  no bound on sizes and no fuel in any definition of the code.

  \<^bold>\<open>The theories of the code.\<close>
  \<^item> \<open>Prelude\<close>: the effects, exceptions and generic rules; \<open>Xdr\<close>: \<open>xdr.cpp\<close>; \<open>Rpc\<close>: \<open>rpc_client.cpp\<close>.
  \<^item> \<open>Nfs3_Types\<close>, \<open>Nfs3_File\<close>, \<open>Nfs3_Name\<close>, \<open>Nfs3_Readdir\<close>: \<open>src/nfs\<close>, an argument encoder, a reply
    decoder and a procedure for each of the NFSv3 procedures; \<open>Mount\<close>: \<open>portmap.cpp\<close> and \<open>mount.cpp\<close>;
    \<open>Nfs3_Client\<close>: \<open>nfs_client.cpp\<close>.
  \<^item> \<open>Nfs4_Types\<close>, \<open>Nfs4_Ops\<close>, \<open>Nfs4_Session\<close>: \<open>src/nfs4\<close>; \<open>Nfs4_Client\<close>: \<open>nfs4_client.cpp\<close>; \<open>Nfs41_Client\<close>:
    \<open>nfs41_client.cpp\<close>.
  \<^item> \<open>Bench_Args\<close>, \<open>Bench_Stats\<close>, \<open>Bench_Workloads\<close>, \<open>Bench_Main\<close>, \<open>Bench_Report\<close>: \<open>tools/bench\<close>.
  \<^item> \<open>Compliance_Runner\<close>, \<open>Compliance_Tests\<close>, \<open>Compliance_Main\<close>: \<open>tools/compliance\<close>; \<open>Compliance4\<close>, \<open>Compliance41\<close>:
    the suites for NFSv4, each with its runner, tests and \<open>main\<close>.

  \<^bold>\<open>The theories of the other end and of the properties.\<close>
  \<^item> \<open>Peer\<close>, \<open>Transport\<close>: the connections of the process by descriptor, each to the program that listens on a port; such a
    connection as the code may rely on it (\<open>tcp_peer\<close>: a stream that is cut anywhere but loses nothing, and that leaves the
    other connections alone) to an RPC server, and the client's calls over it. \<open>sim_net\<close> is a network that meets it
    and that delivers a few bytes at a time; the examples run on it.
  \<^item> \<open>Nfs3_Requests\<close>, \<open>Nfs3_Replies\<close>, \<open>Nfs3_Server\<close>: RFC 1813 from the server's side, as a parser of requests
    and a printer of results that know nothing of the client's encoders; a server is a function on requests and
    its own state, and any session of calls returns what that function answers.
  \<^item> \<open>Mount_Server\<close>: a host with a program on some of its ports (\<open>host_up\<close>: a connection to such a port leads to that
    program), the portmapper at port 111 and the mount daemon at the port it is registered at. A client that connects
    to any other port than the one the portmapper returned gets no answer that these theorems would speak of.
    \<open>Nfs3_Connect\<close>: making an NFSv3 client on such a host.
  \<^item> \<open>Nfs4_Attrs\<close>, \<open>Nfs4_Compound\<close>, \<open>Nfs4_Requests\<close>, \<open>Nfs4_Open\<close>, \<open>Nfs4_Listing\<close>, \<open>Nfs4_Server\<close>,
    \<open>Nfs41_Server\<close>, \<open>Nfs4_Connect\<close>: the same for RFC 7530 and RFC 5661: attribute lists, COMPOUND, the open
    owner's sequence and its replay cache, the session's slot, the handshakes.
  \<^item> \<open>Paging\<close>: the protocol of a directory listing by pages.
  \<^item> \<open>Bench_Props\<close>, \<open>Bench_Cleanup\<close>: the counters, the offsets, the file of the setup; the recursive removal on a
    server with a tree of files, and \<open>main\<close> around it.
  \<^item> \<open>Compliance_Fs\<close>, \<open>Compliance_Rules\<close>, \<open>Compliance_Conform\<close>, \<open>Compliance_Service\<close>, \<open>Compliance_Memory\<close>: what
    RFC 1813 says the procedures do to a file system (\<open>fs_step\<close>), a rule for each operation of the facade on a
    server that does so, each test on such a server, the whole tool, and such a server in memory.
    \<open>Compliance41_Fs\<close>, \<open>Compliance41_Rules\<close>, \<open>Compliance41_Conform\<close>, \<open>Compliance41_Service\<close>, \<open>Compliance41_Memory\<close>,
    \<open>Compliance41_Props\<close>: the same for NFSv4.1, with RFC 8881 as \<open>fs4_step\<close>, whose states have the opens too.
    \<open>Compliance_Props\<close>: the runners.

  \<^bold>\<open>The interfaces.\<close> Each is a locale that the client's lemmas are proved in, with an interpretation on the
  code's definitions: \<open>wire_codec\<close> and \<open>follows_loop\<close> (\<open>Xdr\<close>; a decoder reads back what is on the wire, and so
  does the loop over "another one follows") for every type on the wire; \<open>pager\<close> (\<open>Paging\<close>) for the four
  listing loops; \<open>compound_channel\<close> and \<open>retry_channel\<close> (\<open>Nfs4_Requests\<close>, \<open>Nfs4_Open\<close>) for the COMPOUNDs of the two
  NFSv4 clients and their \<open>do_open\<close>; \<open>tree_export\<close> (\<open>Bench_Cleanup\<close>), \<open>nfs3_service\<close> and \<open>service_link\<close>
  (\<open>Compliance_Rules\<close>), \<open>nfs41_service\<close> (\<open>Compliance41_Fs\<close>) and \<open>service41_link\<close> (\<open>Compliance41_Rules\<close>) for what the tools
  rely on from a server, interpreted on servers of the development;
  \<open>test_loop\<close> (\<open>Compliance_Props\<close>) for the two runners.

  \<^bold>\<open>What is shown.\<close>
  \<^item> Transport: any sequence of calls returns the replies of the server, for every way in which the network cuts
    the streams; a read of the decoder takes exactly the bytes of its item, in their order, and fails exactly when they are
    not all there; what is encoded is decoded.
  \<^item> Sessions: connecting and mounting, and any session of NFSv3, 4.0 or 4.1 operations after it, yield what
    a server that follows the RFC answers, every status as the exception with that status; listings are complete
    and end; OPEN is repeated in the grace period, with the sequence number unchanged, and confirmed when the
    server asks for it, and when it does not end is characterised; the session of 4.1 keeps to its slot and is destroyed at the end.
  \<^item> Benchmark: the options are read back, percentiles are those of the sorted samples, the numbers reported are those of all
    the threads' samples, the numbers of the table are the nearest ones, the directory is removed and nothing else.
  \<^item> Suites: the runners select, count and print what the tests return; every test of the NFSv3 and of the NFSv4.1
    tool passes on a server that meets \<open>nfs3_service\<close>, \<open>nfs41_service\<close>. These contracts ask for more than RFC 1813 and
    RFC 8881 do, because the tests do; the text at each theorem says what.
  \<^item> Where the code is wrong: the attribute numbers of the times in a SETATTR, the sequence number of a CLOSE,
    the retry in the grace period, the flag of EXCHANGE_ID (\<open>USE_PNFS_MDS\<close> where the comment says \<open>USE_NON_PNFS\<close>), the rule of NFSv4.1 that its suite cannot fail, the test that a write limit of
    0 makes run for ever.

  \<^bold>\<open>Bounds.\<close> The hypotheses on sizes (\<open>request_ok\<close>, \<open>call3_ok\<close>, \<open>small3\<close>, a request below 2^30 bytes) keep
  the lengths on the wire within 32 bits and a record in one fragment; real requests are far smaller. \<open>after_grace\<close> and
  \<open>open40\<close> take the number of refusals that a server makes before its grace period ends; a theorem says that the client
  returns exactly if there is such a number. \<open>compliance_main_passes\<close> asks for room for 145 objects: the
  scratch directory and 36 tests of at most 4 objects; and for read and write limits of at least 512 bytes, more than
  any test but the one on the limits moves at a time. \<open>compliance41_main_passes\<close> asks for room for 448 changes: 26 tests of
  at most 16, and two more rounds for the scratch directory.

  \<^bold>\<open>Not modelled.\<close> The two lines that the example program prints, and the messages of progress and failure that the \<open>main\<close>
  functions of the tools print (their reports are modelled); the unit tests; the threads of the benchmark as
  such (each thread has its own connection, and the order in which they run is a parameter); allocation failure;
  the local time-out of sockets, which the code does not set. The permission tests of the NFSv3 suite are
  modelled, but \<open>compliance_main_passes\<close> leaves them out: they depend on the credential of a call, which
  the function that stands for a server does not see.
\<close>

subsection \<open>From connecting to using an export\<close>

text \<open>C1: Against a host whose portmapper listens on port 111 and whose mount daemon and NFSv3 server listen on the ports
  the portmapper has for them (nothing is assumed of the other ports), connecting a client, mounting an export and
  running any session on the handle that was returned, over the connection made first, yields exactly what the
  daemons' functions answer: the export's root handle, and the results of the session's requests on the state the
  mount left.\<close>

theorem nfs3_connect_mount_use:
  assumes "host_up os v net host" and "portmapper_at_111 net ms" and "path_ok path"
    and "listens_registered net ms 100003 3 (\<lambda>h. serves3 h srv)"
    and "listens_registered net ms 100005 3 (\<lambda>h. serves_mountd h ms)"
    and "ms_mnt ms path (vw_state v w) = (Inr (fh, flavors), f1)" and "fh3_wf fh"
    and "server3_ok srv" and "calls3_ok (session fh)"
  shows "\<exists>c w1 w2 s3. NFSClient_ctor os host w = Some (Inr c, w1) \<and>
    NFSClient_mount os path (c, w1) = Some (Inr fh, (c, w2)) \<and>
    run3_all os (session fh) (c, w2) = Some (fst (serve3_all srv (map meaning3 (session fh)) f1), s3)"
proof -
  obtain c w1 where con: "NFSClient_ctor os host w = Some (Inr c, w1)" and host: "c3_host c = host"
    and conn: "conn3 os v srv (c, w1)" and st1: "vw_state v w1 = vw_state v w"
    using connect_served [OF assms(1,2,4)] by blast
  have "mount_result_ok (Inr (fh, flavors))" using assms(7) by (simp add: mount_result_ok_def)
  then obtain w2 where m: "mnt os host path w1 = Some (Inr fh, w2)" and kept: "vw_conn v w2 = vw_conn v w1"
    and st2: "vw_state v w2 = f1"
    using mnt_served [OF assms(1,2,3,5), of w1 "Inr (fh, flavors)" f1] assms(6) st1 by auto
  obtain s3 where "run3_all os (session fh) (c, w2) =
      Some (fst (serve3_all srv (map meaning3 (session fh)) (vw_state v w2)), s3)"
    using run3_all_served [OF conn3_kept [OF conn kept] assms(8,9)] by blast
  with con m host st2 show ?thesis
    by (auto simp: NFSClient_mount_def on_host_def)
qed

text \<open>An export of one file, mounted and then written and read.\<close>

definition mount1 :: "byte list mount_server" where
  "mount1 =
     \<lparr>ms_port = host_ports, ms_mnt = (\<lambda>path f. (Inr (fh0, [1]), f)), ms_umnt = (\<lambda>path f. f), ms_exports = (\<lambda>f. [])\<rparr>"

lemma nfs3_connect_mount_use_witness:
  "\<exists>c w1 w2 s3.
    NFSClient_ctor (sim_host 2 (listeners3 mount1 file_server)) ''host'' (sim_start []) = Some (Inr c, w1) \<and>
    NFSClient_mount (sim_host 2 (listeners3 mount1 file_server)) [47] (c, w1) = Some (Inr fh0, (c, w2)) \<and>
    run3_all (sim_host 2 (listeners3 mount1 file_server))
      [Write3 fh0 0 FILE_SYNC [7, 8], Read3 fh0 1 9] (c, w2) =
      Some ([Inr (Written_v \<lparr>wr_count = 2, wr_committed = FILE_SYNC, wr_verf = replicate 8 0\<rparr>),
             Inr (Data_v [8])], s3)"
proof -
  let ?net = "listeners3 mount1 file_server"
  let ?session = "\<lambda>fh. [Write3 fh 0 FILE_SYNC [7, 8], Read3 fh 1 9] :: call3 list"
  have up: "host_up (sim_host 2 ?net) sim_view ?net ''host''" by (rule sim_host_up) simp_all
  have ports: "ms_port mount1 = host_ports" by (simp add: mount1_def)
  have m: "ms_mnt mount1 [47] (vw_state sim_view (sim_start [])) = (Inr (fh0, [1]), [])"
    by (simp add: mount1_def sim_view_start)
  have fh: "fh3_wf fh0" by (simp add: fh0_def fh3_wf_def)
  have ok: "calls3_ok (?session fh0)"
    by (simp add: calls3_ok_def fh0_def fh3_wf_def encode_write_args_def encode_read_args_def
        put_simps wire_fh3_def length_wire_opaque xdr_pad_def)
  have path: "path_ok [47]" by (simp add: path_ok_def)
  have "serve3_all file_server (map meaning3 (?session fh0)) [] =
    ([Inr (Written_v \<lparr>wr_count = 2, wr_committed = FILE_SYNC, wr_verf = replicate 8 0\<rparr>), Inr (Data_v [8])], [7, 8])"
    by (simp add: meaning3_def outcome3_def)
  then show ?thesis
    using nfs3_connect_mount_use [where session = ?session, OF up listeners3_serve(1) [OF ports] path
        listeners3_serve(3,2) [OF ports] m fh file_server_ok ok] by simp
qed

subsection \<open>The compliance tool\<close>






end
